(* ===== verification/Go_Base.thy ===== *)
theory Go_Base imports Main "HOL-Library.Multiset" begin

text \<open>
  The prelude: what the source uses of Go's core language and of the packages strings, strconv,
  unicode and sort, as HOL functions, with the lemmas the components share.

  A Go string is a \<^typ>\<open>string\<close> whose characters are read as the Unicode code points 0 to 255
  (Latin-1), one character per rune, so the models agree with the code on every input in that
  range: rune predicates and case mapping are given exactly for it, and comparing code points is
  comparing the UTF-8 bytes. Text with larger code points is outside the models.
  An operation that returns (value, error) in Go is a value of the sum type \<open>'e + 'a\<close>, with
  \<open>Inl\<close> for the error.
\<close>

section \<open>Fallible computations\<close>

named_theorems res_simps "equations of the fallible-computation combinators"

fun res_bind :: "'e + 'a \<Rightarrow> ('a \<Rightarrow> 'e + 'b) \<Rightarrow> 'e + 'b" where
  "res_bind (Inl e) f = Inl e"
| "res_bind (Inr x) f = f x"

fun res_map :: "('a \<Rightarrow> 'b) \<Rightarrow> 'e + 'a \<Rightarrow> 'e + 'b" where
  "res_map f (Inl e) = Inl e"
| "res_map f (Inr x) = Inr (f x)"

fun res_list :: "('a \<Rightarrow> 'e + 'b) \<Rightarrow> 'a list \<Rightarrow> 'e + 'b list" where
  "res_list f [] = Inr []"
| "res_list f (x # xs) =
     res_bind (f x) (\<lambda>y. res_bind (res_list f xs) (\<lambda>ys. Inr (y # ys)))"

lemma res_bind_cong [fundef_cong]:
  "m = m' \<Longrightarrow> (\<And>x. m' = Inr x \<Longrightarrow> f x = f' x) \<Longrightarrow> res_bind m f = res_bind m' f'"
  by (cases m') auto

lemma res_bind_Inr [res_simps]: "res_bind m f = Inr y \<longleftrightarrow> (\<exists>x. m = Inr x \<and> f x = Inr y)"
  by (cases m) auto

lemma res_bind_Inl [res_simps]:
  "res_bind m f = Inl e \<longleftrightarrow> m = Inl e \<or> (\<exists>x. m = Inr x \<and> f x = Inl e)"
  by (cases m) auto

lemma res_map_Inr [res_simps]: "res_map f m = Inr y \<longleftrightarrow> (\<exists>x. m = Inr x \<and> y = f x)"
  by (cases m) auto

lemma res_bindE [elim!]:
  assumes "res_bind m f = Inr y"
  obtains x where "m = Inr x" and "f x = Inr y"
  using assms by (cases m) auto

lemma res_list_Inr_length: "res_list f xs = Inr ys \<Longrightarrow> length ys = length xs"
  by (induction xs arbitrary: ys) auto

lemma res_list_Inr_set: "res_list f xs = Inr ys \<Longrightarrow> y \<in> set ys \<Longrightarrow> \<exists>x\<in>set xs. f x = Inr y"
  by (induction xs arbitrary: ys) auto

section \<open>Runes\<close>

text \<open>\<open>unicode.IsSpace\<close>, \<open>IsDigit\<close> and \<open>IsLetter\<close> on the code points up to 255.\<close>

definition rune :: "char \<Rightarrow> nat" where
  "rune c = of_char c"

definition is_space :: "char \<Rightarrow> bool" where
  "is_space c \<longleftrightarrow> rune c \<in> {9, 10, 11, 12, 13, 32, 133, 160}"

definition is_digit :: "char \<Rightarrow> bool" where
  "is_digit c \<longleftrightarrow> 48 \<le> rune c \<and> rune c \<le> 57"

definition is_letter :: "char \<Rightarrow> bool" where
  "is_letter c \<longleftrightarrow>
     (65 \<le> rune c \<and> rune c \<le> 90) \<or> (97 \<le> rune c \<and> rune c \<le> 122) \<or>
     rune c \<in> {170, 181, 186} \<or> (192 \<le> rune c \<and> rune c \<noteq> 215 \<and> rune c \<noteq> 247)"

text \<open>Case mapping. The two runes whose upper case lies beyond 255 are left as they are.\<close>

definition lower_rune :: "char \<Rightarrow> char" where
  "lower_rune c =
     (if (65 \<le> rune c \<and> rune c \<le> 90) \<or> (192 \<le> rune c \<and> rune c \<le> 222 \<and> rune c \<noteq> 215)
      then char_of (rune c + 32) else c)"

definition upper_rune :: "char \<Rightarrow> char" where
  "upper_rune c =
     (if (97 \<le> rune c \<and> rune c \<le> 122) \<or> (224 \<le> rune c \<and> rune c \<le> 254 \<and> rune c \<noteq> 247)
      then char_of (rune c - 32) else c)"

lemma rune_less [simp]: "rune c < 256"
  by (simp add: rune_def)

lemma rune_char_of [simp]: "n < 256 \<Longrightarrow> rune (char_of n) = n"
  by (simp add: rune_def)

lemma rune_inj: "rune c = rune d \<Longrightarrow> c = d"
  by (simp add: rune_def)

lemma rune_lower:
  "rune (lower_rune c) =
     (if (65 \<le> rune c \<and> rune c \<le> 90) \<or> (192 \<le> rune c \<and> rune c \<le> 222 \<and> rune c \<noteq> 215)
      then rune c + 32 else rune c)"
  by (auto simp: lower_rune_def)

lemma lower_rune_idem [simp]: "lower_rune (lower_rune c) = lower_rune c"
proof (rule rune_inj)
  show "rune (lower_rune (lower_rune c)) = rune (lower_rune c)"
    unfolding rune_lower [of "lower_rune c"] by (auto simp: rune_lower)
qed

lemma is_digit_lower [simp]: "is_digit (lower_rune c) = is_digit c"
  by (auto simp: is_digit_def rune_lower)

lemma is_letter_lower [simp]: "is_letter (lower_rune c) = is_letter c"
  using rune_less [of c] by (auto simp: is_letter_def rune_lower)

lemma is_space_lower [simp]: "is_space (lower_rune c) = is_space c"
  using rune_less [of c] by (auto simp: is_space_def rune_lower)

lemma lower_rune_changes: "lower_rune c \<noteq> c \<Longrightarrow> is_letter c"
  by (auto simp: lower_rune_def is_letter_def split: if_splits)

lemma lower_rune_eq: "lower_rune c = d \<Longrightarrow> \<not> is_letter d \<Longrightarrow> c = d"
  using lower_rune_changes [of c] is_letter_lower [of c] by metis

section \<open>Strings\<close>

text \<open>The functions of the package strings that the models call.\<close>

definition trim_left :: "string \<Rightarrow> string" where
  "trim_left s = dropWhile is_space s"

definition trim_space :: "string \<Rightarrow> string" where
  "trim_space s = rev (dropWhile is_space (rev (trim_left s)))"

definition to_lower :: "string \<Rightarrow> string" where
  "to_lower s = map lower_rune s"

definition to_upper :: "string \<Rightarrow> string" where
  "to_upper s = map upper_rune s"

definition equal_fold :: "string \<Rightarrow> string \<Rightarrow> bool" where
  "equal_fold s t \<longleftrightarrow> to_lower s = to_lower t"

fun has_prefix :: "string \<Rightarrow> string \<Rightarrow> bool" where
  "has_prefix s [] = True"
| "has_prefix [] (p # ps) = False"
| "has_prefix (c # s) (p # ps) = (c = p \<and> has_prefix s ps)"

definition has_suffix :: "string \<Rightarrow> string \<Rightarrow> bool" where
  "has_suffix s t = has_prefix (rev s) (rev t)"

definition trim_prefix :: "string \<Rightarrow> string \<Rightarrow> string" where
  "trim_prefix s p = (if has_prefix s p then drop (length p) s else s)"

fun contains_str :: "string \<Rightarrow> string \<Rightarrow> bool" where
  "contains_str [] p = (p = [])"
| "contains_str (c # s) p = (has_prefix (c # s) p \<or> contains_str s p)"

text \<open>\<open>strings.Split\<close> on a one-rune separator and \<open>strings.Fields\<close>.\<close>

fun split_on :: "char \<Rightarrow> string \<Rightarrow> string list" where
  "split_on d [] = [[]]"
| "split_on d (c # s) =
     (if c = d then [] # split_on d s
      else (case split_on d s of [] \<Rightarrow> [[c]] | w # ws \<Rightarrow> (c # w) # ws))"

definition fields :: "string \<Rightarrow> string list" where
  "fields s = filter (\<lambda>w. w \<noteq> []) (split_on CHR '' '' (map (\<lambda>c. if is_space c then CHR '' '' else c) s))"

fun join_str :: "string list \<Rightarrow> string \<Rightarrow> string" where
  "join_str [] sep = []"
| "join_str [w] sep = w"
| "join_str (w # ws) sep = w @ sep @ join_str ws sep"

text \<open>\<open>strings.Compare\<close>: -1, 0 or 1 for the lexicographic order of the runes.\<close>

fun str_compare :: "string \<Rightarrow> string \<Rightarrow> int" where
  "str_compare [] [] = 0"
| "str_compare [] (d # t) = -1"
| "str_compare (c # s) [] = 1"
| "str_compare (c # s) (d # t) =
     (if rune c < rune d then -1 else if rune d < rune c then 1 else str_compare s t)"

definition str_less :: "string \<Rightarrow> string \<Rightarrow> bool" where
  "str_less s t \<longleftrightarrow> str_compare s t < 0"

lemma to_lower_Nil [simp]: "to_lower s = [] \<longleftrightarrow> s = []"
  by (simp add: to_lower_def)

lemma to_lower_idem [simp]: "to_lower (to_lower s) = to_lower s"
  by (simp add: to_lower_def)

lemma trim_space_id: "(\<forall>c\<in>set s. \<not> is_space c) \<Longrightarrow> trim_space s = s"
proof -
  assume *: "\<forall>c\<in>set s. \<not> is_space c"
  have "dropWhile is_space t = t" if "set t \<subseteq> set s" for t
    using that * by (cases t) auto
  then show ?thesis by (simp add: trim_space_def trim_left_def)
qed

lemma trim_left_idem [simp]: "trim_left (trim_left s) = trim_left s"
  by (simp add: trim_left_def)

lemma dropWhile_rev_dropWhile:
  assumes "t = [] \<or> \<not> P (hd t)"
  shows "rev (dropWhile P (rev t)) = [] \<or> \<not> P (hd (rev (dropWhile P (rev t))))"
proof -
  obtain us where "t = rev (dropWhile P (rev t)) @ us"
    by (metis rev_append rev_rev_ident takeWhile_dropWhile_id)
  then show ?thesis using assms
    by (metis append_is_Nil_conv hd_append2)
qed

lemma trim_space_idem [simp]: "trim_space (trim_space s) = trim_space s"
proof -
  let ?t = "trim_left s" and ?u = "trim_space s"
  have "?t = [] \<or> \<not> is_space (hd ?t)"
    unfolding trim_left_def by (metis hd_dropWhile)
  from dropWhile_rev_dropWhile [of ?t is_space, OF this] have "?u = [] \<or> \<not> is_space (hd ?u)"
    by (simp add: trim_space_def)
  then have "trim_left ?u = ?u"
    unfolding trim_left_def by (cases ?u) auto
  then have "trim_space ?u = rev (dropWhile is_space (rev ?u))"
    by (simp add: trim_space_def)
  also have "\<dots> = ?u"
    by (simp add: trim_space_def)
  finally show ?thesis .
qed

lemma has_prefix_append [simp]: "has_prefix (p @ s) p"
  by (induction p) auto

lemma has_prefix_iff: "has_prefix s p \<longleftrightarrow> (\<exists>t. s = p @ t)"
  by (induction s p rule: has_prefix.induct) auto

lemma trim_prefix_append [simp]: "trim_prefix (p @ s) p = s"
  by (simp add: trim_prefix_def)

lemma str_compare_refl [simp]: "str_compare s s = 0"
  by (induction s) auto

lemma str_compare_eq_0 [simp]: "str_compare s t = 0 \<longleftrightarrow> s = t"
  by (induction s t rule: str_compare.induct) (auto intro: rune_inj)

lemma str_compare_antisym: "str_compare t s = - str_compare s t"
  by (induction s t rule: str_compare.induct) auto

lemma str_compare_range: "str_compare s t \<in> {-1, 0, 1}"
  by (induction s t rule: str_compare.induct) auto

lemma str_less_Cons: "str_less (c # s) (d # t) \<longleftrightarrow> rune c < rune d \<or> (c = d \<and> str_less s t)"
  by (auto simp: str_less_def dest: rune_inj)

lemma str_less_trans: "str_less s t \<Longrightarrow> str_less t u \<Longrightarrow> str_less s u"
proof (induction s arbitrary: t u)
  case Nil
  then show ?case by (cases t; cases u) (simp_all add: str_less_def)
next
  case (Cons c s)
  from Cons.prems obtain d t' e u' where t: "t = d # t'" and u: "u = e # u'"
    by (cases t; cases u) (auto simp: str_less_def)
  from Cons.prems show ?case
    unfolding t u str_less_Cons using Cons.IH [of t' u'] by (elim disjE) auto
qed

lemma str_less_irrefl [simp]: "\<not> str_less s s"
  by (simp add: str_less_def)

lemma str_less_total: "str_less s t \<or> s = t \<or> str_less t s"
  using str_compare_range [of s t] str_compare_antisym [of t s] by (auto simp: str_less_def)

section \<open>Integers as text\<close>

text \<open>\<open>strconv.Atoi\<close> and \<open>strconv.Itoa\<close> for a 64-bit \<open>int\<close>.\<close>

definition max_int :: int where
  "max_int = 9223372036854775807"

definition digit_value :: "char \<Rightarrow> nat" where
  "digit_value c = rune c - 48"

definition digit_char :: "nat \<Rightarrow> char" where
  "digit_char n = char_of (48 + n)"

fun digits_value :: "nat \<Rightarrow> string \<Rightarrow> nat option" where
  "digits_value acc [] = Some acc"
| "digits_value acc (c # s) =
     (if is_digit c then digits_value (10 * acc + digit_value c) s else None)"

definition parse_digits :: "string \<Rightarrow> nat option" where
  "parse_digits s = (if s = [] then None else digits_value 0 s)"

definition atoi :: "string \<Rightarrow> int option" where
  "atoi s =
     (case s of
        [] \<Rightarrow> None
      | c # t \<Rightarrow>
          (let neg = (c = CHR ''-''); body = (if neg \<or> c = CHR ''+'' then t else s)
           in case parse_digits body of
                None \<Rightarrow> None
              | Some n \<Rightarrow>
                  (if neg then (if int n \<le> max_int + 1 then Some (- int n) else None)
                   else (if int n \<le> max_int then Some (int n) else None))))"

fun nat_str :: "nat \<Rightarrow> string" where
  "nat_str n = (if n < 10 then [digit_char n] else nat_str (n div 10) @ [digit_char (n mod 10)])"

declare nat_str.simps [simp del]

definition itoa :: "int \<Rightarrow> string" where
  "itoa i = (if i < 0 then CHR ''-'' # nat_str (nat (- i)) else nat_str (nat i))"

lemma rune_digit_char [simp]: "n < 10 \<Longrightarrow> rune (digit_char n) = 48 + n"
  by (simp add: digit_char_def)

lemma is_digit_digit_char [simp]: "n < 10 \<Longrightarrow> is_digit (digit_char n)"
  by (simp add: is_digit_def)

lemma digits_value_append:
  "digits_value acc (s @ t) =
     (case digits_value acc s of None \<Rightarrow> None | Some n \<Rightarrow> digits_value n t)"
  by (induction acc s rule: digits_value.induct) auto

lemma nat_str_nonempty [simp]: "nat_str n \<noteq> []"
  by (subst nat_str.simps) simp

lemma nat_str_digits: "c \<in> set (nat_str n) \<Longrightarrow> is_digit c"
proof (induction n rule: nat_str.induct)
  case (1 n)
  then show ?case
    using nat_str.simps [of n] by (cases "n < 10") auto
qed

lemma digits_value_nat_str: "digits_value 0 (nat_str n) = Some n"
proof (induction n rule: nat_str.induct)
  case (1 n)
  show ?case
  proof (cases "n < 10")
    case True
    then show ?thesis by (subst nat_str.simps) (simp add: digit_value_def)
  next
    case False
    then have "digits_value 0 (nat_str n) =
        (case digits_value 0 (nat_str (n div 10)) of
           None \<Rightarrow> None | Some m \<Rightarrow> digits_value m [digit_char (n mod 10)])"
      by (subst nat_str.simps) (simp add: digits_value_append)
    also have "\<dots> = Some n"
      using 1 False by (simp add: digit_value_def)
    finally show ?thesis .
  qed
qed

lemma parse_digits_nat_str [simp]: "parse_digits (nat_str n) = Some n"
  by (simp add: parse_digits_def digits_value_nat_str)

lemma atoi_nat_str: "int n \<le> max_int \<Longrightarrow> atoi (nat_str n) = Some (int n)"
proof -
  assume n: "int n \<le> max_int"
  obtain c t where s: "nat_str n = c # t"
    by (meson nat_str_nonempty neq_Nil_conv)
  then have "is_digit c" using nat_str_digits [of c n] by simp
  then have "c \<noteq> CHR ''-''" "c \<noteq> CHR ''+''" by (auto simp: is_digit_def rune_def)
  with n s show ?thesis
    using parse_digits_nat_str [of n] by (simp add: atoi_def)
qed

lemma atoi_itoa: "\<bar>i\<bar> \<le> max_int \<Longrightarrow> atoi (itoa i) = Some i"
  using atoi_nat_str [of "nat i"] by (auto simp: itoa_def atoi_def)

lemma atoi_range: "atoi s = Some i \<Longrightarrow> - max_int - 1 \<le> i \<and> i \<le> max_int"
  by (auto simp: atoi_def Let_def max_int_def split: list.splits option.splits if_splits)

section \<open>Sorting\<close>

text \<open>
  \<open>sort.Slice\<close>, \<open>sort.SliceStable\<close> and \<open>sort.Strings\<close>. The library sorts slices of up to twelve
  elements by the insertion sort below, which moves each element left past every element it is
  less than; longer slices it sorts by other methods, which agree with it up to the order of
  equivalent elements when the comparison is a strict weak order.
\<close>

fun insert_back :: "('a \<Rightarrow> 'a \<Rightarrow> bool) \<Rightarrow> 'a \<Rightarrow> 'a list \<Rightarrow> 'a list" where
  "insert_back lt x [] = [x]"
| "insert_back lt x (y # ys) = (if lt x y then y # insert_back lt x ys else x # y # ys)"

definition sort_slice :: "('a \<Rightarrow> 'a \<Rightarrow> bool) \<Rightarrow> 'a list \<Rightarrow> 'a list" where
  "sort_slice lt xs = rev (foldl (\<lambda>acc x. insert_back lt x acc) [] xs)"

definition sort_strings :: "string list \<Rightarrow> string list" where
  "sort_strings = sort_slice str_less"

lemma mset_insert_back [simp]: "mset (insert_back lt x ys) = add_mset x (mset ys)"
  by (induction lt x ys rule: insert_back.induct) auto

lemma mset_sort_slice [simp]: "mset (sort_slice lt xs) = mset xs"
proof -
  have "mset (foldl (\<lambda>acc x. insert_back lt x acc) acc xs) = mset acc + mset xs" for acc
    by (induction xs arbitrary: acc) auto
  from this [of "[]"] show ?thesis by (simp add: sort_slice_def)
qed

lemma set_sort_slice [simp]: "set (sort_slice lt xs) = set xs"
  by (metis mset_sort_slice set_mset_mset)

lemma length_sort_slice [simp]: "length (sort_slice lt xs) = length xs"
  by (metis mset_sort_slice size_mset)

lemma distinct_sort_slice [simp]: "distinct (sort_slice lt xs) = distinct xs"
  by (metis mset_sort_slice mset_eq_imp_distinct_iff)

lemma insert_back_sorted:
  assumes trans: "\<And>a b c. \<not> lt a b \<Longrightarrow> \<not> lt b c \<Longrightarrow> \<not> lt a c"
    and asym: "\<And>a b. lt a b \<Longrightarrow> \<not> lt b a"
    and s: "sorted_wrt (\<lambda>a b. \<not> lt a b) ys"
  shows "sorted_wrt (\<lambda>a b. \<not> lt a b) (insert_back lt x ys)"
  using s
proof (induction ys)
  case (Cons y ys)
  show ?case
  proof (cases "lt x y")
    case True
    have "\<not> lt y z" if "z \<in> set (insert_back lt x ys)" for z
    proof -
      have "z \<in> insert x (set ys)"
        using that by (metis mset_insert_back set_mset_add_mset_insert set_mset_mset)
      then show ?thesis using Cons.prems asym [OF True] by auto
    qed
    with Cons True show ?thesis by simp
  next
    case False
    then show ?thesis using Cons.prems trans by auto
  qed
qed simp

text \<open>For a strict weak order the result has no adjacent pair out of order.\<close>

lemma sorted_sort_slice:
  assumes trans: "\<And>a b c. \<not> lt a b \<Longrightarrow> \<not> lt b c \<Longrightarrow> \<not> lt a c"
    and asym: "\<And>a b. lt a b \<Longrightarrow> \<not> lt b a"
  shows "sorted_wrt (\<lambda>a b. \<not> lt b a) (sort_slice lt xs)"
proof -
  have "sorted_wrt (\<lambda>a b. \<not> lt a b) (foldl (\<lambda>acc x. insert_back lt x acc) acc xs)"
    if "sorted_wrt (\<lambda>a b. \<not> lt a b) acc" for acc
    using that
  proof (induction xs arbitrary: acc)
    case (Cons x xs)
    have "sorted_wrt (\<lambda>a b. \<not> lt a b) (insert_back lt x acc)"
      by (rule insert_back_sorted [OF _ _ Cons.prems]) (use assms in blast)+
    then show ?case using Cons.IH by simp
  qed simp
  from this [of "[]"] show ?thesis by (simp add: sort_slice_def sorted_wrt_rev)
qed

lemma sort_strings_set [simp]: "set (sort_strings xs) = set xs"
  by (simp add: sort_strings_def)

end
