(* ===== verification/Go_Float.thy ===== *)
theory Go_Float imports Complex_Main Go_Base begin

text \<open>
  Go's \<open>float64\<close>: a finite value is the rational number it stands for (the two zeros are one),
  beside the two infinities and the not-a-number. \<open>parse_float\<close> is \<open>strconv.ParseFloat(s, 64)\<close>
  on the decimal syntax, with rounding to the nearest double, ties to even; a range error is
  None, as is the hexadecimal syntax, which the model leaves out. \<open>format_float\<close> is
  \<open>strconv.FormatFloat(f, 'f', -1, 64)\<close>: the fewest significant digits that read back as f.
\<close>

datatype f64 = Fin rat | PInf | NInf | NaN

fun f64_less :: "f64 \<Rightarrow> f64 \<Rightarrow> bool" where
  "f64_less (Fin x) (Fin y) = (x < y)"
| "f64_less NInf (Fin y) = True"
| "f64_less NInf PInf = True"
| "f64_less (Fin x) PInf = True"
| "f64_less a b = False"

section \<open>Rounding to a double\<close>

definition round_even :: "rat \<Rightarrow> int" where
  "round_even x =
     (let n = \<lfloor>x\<rfloor>; r = x - of_int n
      in if r < 1 / 2 then n else if r > 1 / 2 then n + 1 else if even n then n else n + 1)"

fun log_floor :: "nat \<Rightarrow> nat \<Rightarrow> nat" where
  "log_floor b n = (if n < b \<or> b < 2 then 0 else Suc (log_floor b (n div b)))"

declare log_floor.simps [simp del]

text \<open>The exponent e with b powi e at most q and q below b powi (e + 1), for positive q.\<close>

definition exponent_of :: "nat \<Rightarrow> rat \<Rightarrow> int" where
  "exponent_of b q =
     (let (n, d) = quotient_of q;
          e = int (log_floor b (nat n)) - int (log_floor b (nat d))
      in if q < of_nat b powi e then e - 1 else e)"

definition round_f64 :: "rat \<Rightarrow> rat option" where
  "round_f64 q =
     (if q = 0 then Some 0
      else let a = \<bar>q\<bar>;
               s = max (exponent_of 2 a - 52) (- 1074);
               v = of_int (round_even (a / 2 powi s)) * 2 powi s
           in if v \<ge> 2 ^ 1024 then None else Some (if q < 0 then - v else v))"

section \<open>Parsing\<close>

definition split_sign :: "string \<Rightarrow> bool \<times> string" where
  "split_sign s =
     (case s of
        c # t \<Rightarrow> if c = CHR ''-'' then (True, t) else if c = CHR ''+'' then (False, t) else (False, s)
      | [] \<Rightarrow> (False, s))"

definition parse_exponent :: "string \<Rightarrow> int option" where
  "parse_exponent s =
     (case s of
        [] \<Rightarrow> Some 0
      | c # t \<Rightarrow>
          if lower_rune c = CHR ''e''
          then (let (neg, ds) = split_sign t
                in map_option (\<lambda>n. if neg then - int n else int n) (parse_digits ds))
          else None)"

definition parse_decimal :: "string \<Rightarrow> rat option" where
  "parse_decimal s =
     (let ip = takeWhile is_digit s;
          r1 = dropWhile is_digit s;
          fp = (case r1 of c # t \<Rightarrow> if c = CHR ''.'' then takeWhile is_digit t else [] | [] \<Rightarrow> []);
          r2 = (case r1 of c # t \<Rightarrow> if c = CHR ''.'' then dropWhile is_digit t else r1 | [] \<Rightarrow> [])
      in case parse_digits (ip @ fp) of
           None \<Rightarrow> None
         | Some n \<Rightarrow>
             map_option (\<lambda>e. of_nat n * 10 powi (e - int (length fp))) (parse_exponent r2))"

definition parse_float :: "string \<Rightarrow> f64 option" where
  "parse_float s =
     (let (neg, body) = split_sign s
      in if to_lower body = ''inf'' \<or> to_lower body = ''infinity''
         then Some (if neg then NInf else PInf)
         else if to_lower s = ''nan'' then Some NaN
         else case parse_decimal body of
                None \<Rightarrow> None
              | Some q \<Rightarrow> map_option (\<lambda>v. Fin (if neg then - v else v)) (round_f64 q))"

section \<open>Formatting\<close>

definition round_digits :: "rat \<Rightarrow> int \<Rightarrow> nat \<Rightarrow> rat" where
  "round_digits q k p = of_int (round_even (q / 10 powi (k + 1 - int p))) * 10 powi (k + 1 - int p)"

fun shortest :: "nat \<Rightarrow> rat \<Rightarrow> int \<Rightarrow> nat \<Rightarrow> nat" where
  "shortest 0 q k p = p"
| "shortest (Suc n) q k p =
     (if round_f64 (round_digits q k p) = Some q then p else shortest n q k (Suc p))"

definition fixed_notation :: "nat \<Rightarrow> int \<Rightarrow> string" where
  "fixed_notation m x =
     (if 0 \<le> x then nat_str (m * 10 ^ nat x)
      else let n = nat (- x); s = nat_str m;
               t = replicate (Suc n - length s) CHR ''0'' @ s
           in take (length t - n) t @ ''.'' @ drop (length t - n) t)"

definition format_float :: "f64 \<Rightarrow> string" where
  "format_float f =
     (case f of
        NaN \<Rightarrow> ''NaN''
      | PInf \<Rightarrow> ''+Inf''
      | NInf \<Rightarrow> ''-Inf''
      | Fin q \<Rightarrow>
          if q = 0 then ''0''
          else let a = \<bar>q\<bar>; k = exponent_of 10 a; p = shortest 16 a k 1;
                   m = nat (round_even (a / 10 powi (k + 1 - int p)));
                   s = fixed_notation m (k + 1 - int p)
               in if q < 0 then CHR ''-'' # s else s)"

lemma f64_less_irrefl [simp]: "\<not> f64_less a a"
  by (cases a) auto

lemma f64_less_asym: "f64_less a b \<Longrightarrow> \<not> f64_less b a"
  by (cases a; cases b) auto

lemma f64_less_trans: "f64_less a b \<Longrightarrow> f64_less b c \<Longrightarrow> f64_less a c"
  by (cases a; cases b; cases c) auto

lemma round_f64_0 [simp]: "round_f64 0 = Some 0"
  by (simp add: round_f64_def)

end
