(* ===== verification/Go_Time.thy ===== *)
theory Go_Time imports Go_Base begin

text \<open>
  Go's \<open>time.Time\<close> as the code uses it: an instant, in nanoseconds since 1970-01-01T00:00:00Z.
  \<open>parse_rfc3339\<close> is \<open>time.Parse\<close> with the layouts RFC3339 and RFC3339Nano, which accept the
  same text (an hour of one digit and a fraction after a comma included), \<open>parse_date_only\<close>
  is the layout 2006-01-02, and \<open>format_rfc3339_nano\<close> is \<open>t.UTC().Format(time.RFC3339Nano)\<close>,
  which drops trailing zeros of the fraction.
\<close>

type_synonym gotime = int

definition ns_per_s :: int where "ns_per_s = 1000000000"

section \<open>The calendar\<close>

definition is_leap :: "int \<Rightarrow> bool" where
  "is_leap y \<longleftrightarrow> y mod 4 = 0 \<and> (y mod 100 \<noteq> 0 \<or> y mod 400 = 0)"

definition days_in :: "int \<Rightarrow> int \<Rightarrow> int" where
  "days_in m y =
     (if m = 2 then (if is_leap y then 29 else 28)
      else if m \<in> {4, 6, 9, 11} then 30 else 31)"

text \<open>Days since 1970-01-01 of a date, and back; years start in March inside.\<close>

definition days_of_date :: "int \<Rightarrow> int \<Rightarrow> int \<Rightarrow> int" where
  "days_of_date y m d =
     (let y' = (if m \<le> 2 then y - 1 else y);
          mp = (m + 9) mod 12
      in 365 * y' + y' div 4 - y' div 100 + y' div 400 + (153 * mp + 2) div 5 + d - 1 - 719468)"

definition date_of_month :: "int \<Rightarrow> int \<Rightarrow> int \<Rightarrow> int \<times> int \<times> int" where
  "date_of_month y doy mp =
     (y + (if (if mp < 10 then mp + 3 else mp - 9) \<le> 2 then 1 else 0),
      if mp < 10 then mp + 3 else mp - 9,
      doy - (153 * mp + 2) div 5 + 1)"

definition date_of_doy :: "int \<Rightarrow> int \<Rightarrow> int \<times> int \<times> int" where
  "date_of_doy y doy = date_of_month y doy ((5 * doy + 2) div 153)"

definition date_of_year :: "int \<Rightarrow> int \<Rightarrow> int \<Rightarrow> int \<times> int \<times> int" where
  "date_of_year era doe yoe =
     date_of_doy (yoe + era * 400) (doe - (365 * yoe + yoe div 4 - yoe div 100))"

definition date_of_era :: "int \<Rightarrow> int \<Rightarrow> int \<times> int \<times> int" where
  "date_of_era era doe =
     date_of_year era doe ((doe - doe div 1460 + doe div 36524 - doe div 146096) div 365)"

definition date_of_days :: "int \<Rightarrow> int \<times> int \<times> int" where
  "date_of_days n = date_of_era ((n + 719468) div 146097) ((n + 719468) mod 146097)"

section \<open>Parsing\<close>

text \<open>\<open>getnum\<close>: two digits, or one when the field is not fixed.\<close>

fun get_num :: "bool \<Rightarrow> string \<Rightarrow> (int \<times> string) option" where
  "get_num fixed [] = None"
| "get_num fixed [c] =
     (if is_digit c \<and> \<not> fixed then Some (int (digit_value c), []) else None)"
| "get_num fixed (c # d # s) =
     (if \<not> is_digit c then None
      else if is_digit d then Some (int (10 * digit_value c + digit_value d), s)
      else if fixed then None
      else Some (int (digit_value c), d # s))"

definition get_year :: "string \<Rightarrow> (int \<times> string) option" where
  "get_year s =
     (if length s < 4 then None
      else map_option (\<lambda>n. (int n, drop 4 s)) (parse_digits (take 4 s)))"

definition expect_char :: "char \<Rightarrow> string \<Rightarrow> string option" where
  "expect_char c s = (case s of d # t \<Rightarrow> if d = c then Some t else None | [] \<Rightarrow> None)"

definition num_range :: "int \<Rightarrow> int \<Rightarrow> bool \<Rightarrow> string \<Rightarrow> (int \<times> string) option" where
  "num_range lo hi fixed s =
     (case get_num fixed s of
        Some (n, t) \<Rightarrow> if lo \<le> n \<and> n \<le> hi then Some (n, t) else None
      | None \<Rightarrow> None)"

definition parse_ymd :: "string \<Rightarrow> ((int \<times> int \<times> int) \<times> string) option" where
  "parse_ymd s =
     Option.bind (get_year s) (\<lambda>(y, s).
     Option.bind (expect_char CHR ''-'' s) (\<lambda>s.
     Option.bind (num_range 1 12 True s) (\<lambda>(m, s).
     Option.bind (expect_char CHR ''-'' s) (\<lambda>s.
     Option.bind (get_num True s) (\<lambda>(d, s).
     if 1 \<le> d \<and> d \<le> days_in m y then Some ((y, m, d), s) else None)))))"

text \<open>\<open>parseNanoseconds\<close>: at most nine digits of a fraction count.\<close>

definition parse_fraction :: "string \<Rightarrow> int \<times> string" where
  "parse_fraction s =
     (case s of
        c # d # t \<Rightarrow>
          if (c = CHR ''.'' \<or> c = CHR '','') \<and> is_digit d
          then (let ds = takeWhile is_digit (d # t); used = take 9 ds
                in (case parse_digits used of
                      Some n \<Rightarrow> int n * 10 ^ (9 - length used) | None \<Rightarrow> 0,
                    dropWhile is_digit (d # t)))
          else (0, s)
      | _ \<Rightarrow> (0, s))"

definition parse_zone :: "string \<Rightarrow> (int \<times> string) option" where
  "parse_zone s =
     (case s of
        [] \<Rightarrow> None
      | c # t \<Rightarrow>
          if c = CHR ''Z'' then Some (0, t)
          else Option.bind (num_range 0 24 True t) (\<lambda>(h, s).
               Option.bind (expect_char CHR '':'' s) (\<lambda>s.
               Option.bind (num_range 0 60 True s) (\<lambda>(mi, s).
               if c = CHR ''+'' then Some ((h * 60 + mi) * 60, s)
               else if c = CHR ''-'' then Some (- ((h * 60 + mi) * 60), s)
               else None))))"

definition parse_rfc3339 :: "string \<Rightarrow> gotime option" where
  "parse_rfc3339 s =
     Option.bind (parse_ymd s) (\<lambda>((y, m, d), s).
     Option.bind (expect_char CHR ''T'' s) (\<lambda>s.
     Option.bind (num_range 0 23 False s) (\<lambda>(h, s).
     Option.bind (expect_char CHR '':'' s) (\<lambda>s.
     Option.bind (num_range 0 59 True s) (\<lambda>(mi, s).
     Option.bind (expect_char CHR '':'' s) (\<lambda>s.
     Option.bind (num_range 0 59 True s) (\<lambda>(sec, s).
     case parse_fraction s of (ns, s) \<Rightarrow>
     Option.bind (parse_zone s) (\<lambda>(off, s).
     if s = []
     then Some ((days_of_date y m d * 86400 + h * 3600 + mi * 60 + sec - off) * ns_per_s + ns)
     else None))))))))"

definition parse_date_only :: "string \<Rightarrow> gotime option" where
  "parse_date_only s =
     (case parse_ymd s of
        Some ((y, m, d), s) \<Rightarrow>
          if s = [] then Some (days_of_date y m d * 86400 * ns_per_s) else None
      | None \<Rightarrow> None)"

section \<open>Formatting\<close>

definition pad_int :: "nat \<Rightarrow> int \<Rightarrow> string" where
  "pad_int w i =
     (let s = nat_str (nat \<bar>i\<bar>); p = replicate (w - length s) CHR ''0'' @ s
      in if i < 0 then CHR ''-'' # p else p)"

definition fraction_str :: "int \<Rightarrow> string" where
  "fraction_str ns =
     (let ds = rev (dropWhile (\<lambda>c. c = CHR ''0'') (rev (pad_int 9 ns)))
      in if ds = [] then [] else CHR ''.'' # ds)"

definition format_rfc3339_nano :: "gotime \<Rightarrow> string" where
  "format_rfc3339_nano t =
     (let sec = t div ns_per_s; day = sec div 86400; s = sec mod 86400
      in case date_of_days day of (y, m, d) \<Rightarrow>
           pad_int 4 y @ ''-'' @ pad_int 2 m @ ''-'' @ pad_int 2 d @ ''T'' @
           pad_int 2 (s div 3600) @ '':'' @ pad_int 2 (s div 60 mod 60) @ '':'' @
           pad_int 2 (s mod 60) @ fraction_str (t mod ns_per_s) @ ''Z'')"

text \<open>The zero \<open>time.Time\<close>, 0001-01-01T00:00:00Z.\<close>

definition zero_time :: gotime where
  "zero_time = - 62135596800000000000"

lemma get_num_range: "get_num fixed s = Some (n, t) \<Longrightarrow> 0 \<le> n \<and> n \<le> 99"
  by (induction fixed s rule: get_num.induct)
     (auto simp: is_digit_def digit_value_def split: if_splits)

lemma days_in_range: "28 \<le> days_in m y \<and> days_in m y \<le> 31"
  by (simp add: days_in_def)

lemma parse_ymd_date:
  "parse_ymd s = Some ((y, m, d), t) \<Longrightarrow> 1 \<le> m \<and> m \<le> 12 \<and> 1 \<le> d \<and> d \<le> days_in m y"
  by (auto simp: parse_ymd_def num_range_def Option.bind_eq_Some_conv split: if_splits option.splits)

end
