(* ===== verification/Graph_Vocabulary.thy ===== *)
theory Graph_Vocabulary imports Go_Base begin

text \<open>
  The controlled vocabularies of the memory service and its string normalisation:
  memory/internal/memory/vocabulary/types.go and memory/internal/memory/normalize/*.go. The Go
  types are named string types, so a value outside the vocabulary can be represented and is
  what the validity functions reject; the model keeps them strings for that reason.
\<close>

type_synonym firewall = string
type_synonym sensitivity = string
type_synonym trust_level = string
type_synonym lifecycle_status = string

section \<open>Vocabulary values\<close>

definition sensitivity_values :: "sensitivity list" where
  "sensitivity_values = [''public'', ''internal'', ''private'', ''restricted'']"

definition trust_level_values :: "trust_level list" where
  "trust_level_values =
     [''source_original'', ''user_asserted'', ''model_extracted'', ''model_synthesized'',
      ''externally_verified'']"

definition lifecycle_values :: "lifecycle_status list" where
  "lifecycle_values = [''active'', ''superseded'', ''deprecated'', ''archived'', ''deleted'']"

definition memory_status_values :: "lifecycle_status list" where
  "memory_status_values = [''active'', ''superseded'', ''deprecated'', ''archived'']"

definition firewall_values :: "firewall list" where
  "firewall_values = [''session'', ''user'', ''household'', ''tenant'', ''project'', ''global'']"

definition status_active :: lifecycle_status where "status_active = ''active''"
definition status_deleted :: lifecycle_status where "status_deleted = ''deleted''"

definition default_agent_actor :: string where "default_agent_actor = ''agent''"

definition default_readable_sensitivities :: "sensitivity list" where
  "default_readable_sensitivities = [''public'', ''internal'', ''private'']"

section \<open>Validity\<close>

definition valid_sensitivity :: "sensitivity \<Rightarrow> bool" where
  "valid_sensitivity s \<longleftrightarrow> s \<in> {''public'', ''internal'', ''private'', ''restricted''}"

definition valid_trust_level :: "trust_level \<Rightarrow> bool" where
  "valid_trust_level t \<longleftrightarrow>
     t \<in> {''source_original'', ''user_asserted'', ''model_extracted'', ''model_synthesized'',
          ''externally_verified''}"

definition valid_lifecycle_status :: "lifecycle_status \<Rightarrow> bool" where
  "valid_lifecycle_status s \<longleftrightarrow>
     s \<in> {''active'', ''superseded'', ''deprecated'', ''archived'', ''deleted''}"

definition valid_memory_status :: "lifecycle_status \<Rightarrow> bool" where
  "valid_memory_status s \<longleftrightarrow> s \<in> {''active'', ''superseded'', ''deprecated'', ''archived''}"

text \<open>The loop of \<open>ValidFirewall\<close>, with the index of the rune it looks at.\<close>

fun firewall_runes_ok :: "nat \<Rightarrow> string \<Rightarrow> bool" where
  "firewall_runes_ok i [] = True"
| "firewall_runes_ok i (c # s) =
     (let valid_lower = 97 \<le> rune c \<and> rune c \<le> 122;
          valid_digit = 48 \<le> rune c \<and> rune c \<le> 57;
          valid_separator = c = CHR ''-'' \<or> c = CHR ''_''
      in if i = 0 \<and> \<not> valid_lower \<and> \<not> valid_digit then False
         else if \<not> valid_lower \<and> \<not> valid_digit \<and> \<not> valid_separator then False
         else firewall_runes_ok (Suc i) s)"

definition valid_firewall :: "firewall \<Rightarrow> bool" where
  "valid_firewall f = (if f = [] \<or> length f > 64 then False else firewall_runes_ok 0 f)"

section \<open>Defaults\<close>

definition default_firewall :: "firewall \<Rightarrow> firewall" where
  "default_firewall f = (if f = [] then ''user'' else f)"

definition default_sensitivity :: "sensitivity \<Rightarrow> sensitivity" where
  "default_sensitivity s = (if s = [] then ''private'' else s)"

definition default_trust_level :: "trust_level \<Rightarrow> trust_level \<Rightarrow> trust_level" where
  "default_trust_level t fallback = (if t = [] then fallback else t)"

definition default_lifecycle_status :: "lifecycle_status \<Rightarrow> lifecycle_status" where
  "default_lifecycle_status s = (if s = [] then ''active'' else s)"

section \<open>String normalisation\<close>

definition norm_default :: "string \<Rightarrow> string \<Rightarrow> string" where
  "norm_default v fallback = (let v' = trim_space v in if v' = [] then fallback else v')"

definition norm_key :: "string \<Rightarrow> string" where
  "norm_key v = to_lower (trim_space v)"

fun lower_unique_loop :: "string set \<Rightarrow> string list \<Rightarrow> string list" where
  "lower_unique_loop seen [] = []"
| "lower_unique_loop seen (v # vs) =
     (let v' = norm_key v
      in if v' = [] \<or> v' \<in> seen then lower_unique_loop seen vs
         else v' # lower_unique_loop (insert v' seen) vs)"

definition lower_unique :: "string list \<Rightarrow> string list" where
  "lower_unique vs = lower_unique_loop {} vs"

section \<open>Lemmas\<close>

named_theorems vocab_simps "defaults and validity of vocabulary values"

lemma default_sensitivity_idem [vocab_simps]:
  "default_sensitivity (default_sensitivity s) = default_sensitivity s"
  by (simp add: default_sensitivity_def)

lemma default_trust_idem [vocab_simps]:
  "f \<noteq> [] \<Longrightarrow> default_trust_level (default_trust_level t f) f = default_trust_level t f"
  by (simp add: default_trust_level_def)

lemma default_lifecycle_idem [vocab_simps]:
  "default_lifecycle_status (default_lifecycle_status s) = default_lifecycle_status s"
  by (simp add: default_lifecycle_status_def)

lemma norm_default_idem: "trim_space f = f \<Longrightarrow> norm_default (norm_default v f) f = norm_default v f"
  by (simp add: norm_default_def Let_def)

lemma norm_default_agent_idem [vocab_simps]:
  "norm_default (norm_default v default_agent_actor) default_agent_actor =
   norm_default v default_agent_actor"
  by (rule norm_default_idem, rule trim_space_id)
     (simp add: default_agent_actor_def is_space_def rune_def)

lemma norm_default_nonempty: "f \<noteq> [] \<Longrightarrow> norm_default v f \<noteq> []"
  by (simp add: norm_default_def Let_def)

lemma dropWhile_map_lower: "dropWhile is_space (map lower_rune s) = map lower_rune (dropWhile is_space s)"
  by (simp add: dropWhile_map comp_def)

lemma trim_space_to_lower: "trim_space (to_lower s) = to_lower (trim_space s)"
  by (simp add: trim_space_def trim_left_def to_lower_def dropWhile_map_lower rev_map)

lemma norm_key_idem [vocab_simps]: "norm_key (norm_key v) = norm_key v"
  by (simp add: norm_key_def trim_space_to_lower)

lemma lower_unique_loop_set:
  "set (lower_unique_loop seen vs) = {w. w \<in> norm_key ` set vs \<and> w \<noteq> [] \<and> w \<notin> seen}"
  by (induction seen vs rule: lower_unique_loop.induct) (auto simp: Let_def)

lemma lower_unique_loop_distinct: "distinct (lower_unique_loop seen vs)"
  by (induction seen vs rule: lower_unique_loop.induct)
     (auto simp: Let_def lower_unique_loop_set)

lemma lower_unique_set: "set (lower_unique vs) = norm_key ` set vs - {[]}"
  by (auto simp: lower_unique_def lower_unique_loop_set)

lemma lower_unique_loop_fixed:
  assumes "distinct vs" and "\<forall>v\<in>set vs. norm_key v = v \<and> v \<noteq> [] \<and> v \<notin> seen"
  shows "lower_unique_loop seen vs = vs"
  using assms
proof (induction vs arbitrary: seen)
  case (Cons v vs)
  then have "lower_unique_loop (insert v seen) vs = vs"
    by (intro Cons.IH) auto
  with Cons.prems show ?case by simp
qed simp

lemma lower_unique_idem: "lower_unique (lower_unique vs) = lower_unique vs"
proof -
  have "\<forall>v\<in>set (lower_unique vs). norm_key v = v \<and> v \<noteq> [] \<and> v \<notin> {}"
    by (auto simp: lower_unique_set norm_key_idem)
  then show ?thesis
    unfolding lower_unique_def [of "lower_unique vs"]
    by (intro lower_unique_loop_fixed) (simp add: lower_unique_def lower_unique_loop_distinct)
qed

text \<open>A rune a firewall name may hold.\<close>

definition firewall_rune :: "char \<Rightarrow> bool" where
  "firewall_rune c \<longleftrightarrow>
     (97 \<le> rune c \<and> rune c \<le> 122) \<or> (48 \<le> rune c \<and> rune c \<le> 57) \<or> c = CHR ''-'' \<or> c = CHR ''_''"

lemma firewall_runes_tail: "i > 0 \<Longrightarrow> firewall_runes_ok i s \<longleftrightarrow> (\<forall>c\<in>set s. firewall_rune c)"
  by (induction i s rule: firewall_runes_ok.induct) (auto simp: Let_def firewall_rune_def)

end
