(* ===== verification/Graph_Domain.thy ===== *)
theory Graph_Domain imports Go_Float Go_Time Graph_Vocabulary begin

text \<open>
  The records of the context graph and the validation of its write requests:
  memory/internal/memory/graph/domain/types.go and validation.go. A Go pointer to a time is an
  option; a normaliser that returns (request, error) returns the error or the request.
\<close>

type_synonym node_id = string
type_synonym edge_id = string
type_synonym property_id = string
type_synonym audit_id = string
type_synonym node_kind = string
type_synonym relation_type = string
type_synonym value_type = string

section \<open>Records\<close>

record node =
  nd_id :: node_id
  nd_kind :: node_kind
  nd_stable_key :: string
  nd_title :: string
  nd_summary :: string
  nd_status :: lifecycle_status
  nd_sensitivity :: sensitivity
  nd_trust :: trust_level
  nd_confidence :: f64
  nd_source :: node_id
  nd_actor :: string
  nd_created :: gotime
  nd_updated :: gotime

record edge =
  ed_id :: edge_id
  ed_from :: node_id
  ed_type :: relation_type
  ed_to :: node_id
  ed_status :: lifecycle_status
  ed_confidence :: f64
  ed_trust :: trust_level
  ed_source :: node_id
  ed_actor :: string
  ed_valid_from :: "gotime option"
  ed_valid_to :: "gotime option"
  ed_created :: gotime
  ed_updated :: gotime

record gvalue =
  gv_type :: value_type
  gv_text :: string
  gv_number :: f64
  gv_time :: "gotime option"
  gv_json :: string

text \<open>Node and edge properties differ in the type of their owner only: both are strings.\<close>

record property =
  pr_id :: property_id
  pr_owner :: string
  pr_key :: string
  pr_value :: gvalue
  pr_position :: int
  pr_status :: lifecycle_status
  pr_confidence :: f64
  pr_trust :: trust_level
  pr_source :: node_id
  pr_actor :: string
  pr_created :: gotime
  pr_updated :: gotime

record audit_event =
  au_id :: audit_id
  au_kind :: string
  au_actor :: string
  au_node :: node_id
  au_edge :: edge_id
  au_source :: node_id
  au_message :: string
  au_details :: string
  au_created :: gotime

record upsert_node_request =
  un_id :: node_id
  un_kind :: node_kind
  un_stable_key :: string
  un_title :: string
  un_summary :: string
  un_status :: lifecycle_status
  un_sensitivity :: sensitivity
  un_trust :: trust_level
  un_confidence :: f64
  un_source :: node_id
  un_actor :: string

record upsert_edge_request =
  ue_id :: edge_id
  ue_from :: node_id
  ue_type :: relation_type
  ue_to :: node_id
  ue_status :: lifecycle_status
  ue_confidence :: f64
  ue_trust :: trust_level
  ue_source :: node_id
  ue_actor :: string
  ue_valid_from :: "gotime option"
  ue_valid_to :: "gotime option"

record upsert_property_request =
  up_id :: property_id
  up_owner :: string
  up_key :: string
  up_value :: gvalue
  up_position :: int
  up_status :: lifecycle_status
  up_confidence :: f64
  up_trust :: trust_level
  up_source :: node_id
  up_actor :: string

record append_audit_request =
  aa_id :: audit_id
  aa_kind :: string
  aa_actor :: string
  aa_node :: node_id
  aa_edge :: edge_id
  aa_source :: node_id
  aa_message :: string
  aa_details :: string

record search_nodes_query =
  sq_text :: string
  sq_kinds :: "node_kind list"
  sq_allowed :: "sensitivity list"
  sq_limit :: int

record access_policy =
  ap_actor :: string
  ap_allowed :: "sensitivity list"

text \<open>The errors of the graph domain and of the graph store.\<close>

datatype gerr =
    InvalidNodeKind string
  | InvalidNodeStatus string
  | InvalidSensitivity string
  | InvalidTrustLevel string
  | InvalidRelation string
  | InvalidEdgeStatus string
  | InvalidPropertyStatus string
  | InvalidValueType string
  | FromNodeRequired
  | ToNodeRequired
  | NodeIdRequired
  | EdgeIdRequired
  | PropertyKeyRequired
  | AuditKindRequired
  | NoRows
  | RandomFailed
  | NestedUnitOfWork
  | Constraint string
  | BadTime string

section \<open>Vocabulary of the graph\<close>

definition node_kinds :: "node_kind list" where
  "node_kinds =
     [''artifact'', ''codebase'', ''evidence'', ''entity'', ''event'', ''list'', ''location'', ''memory'',
      ''person'', ''project'', ''requirement'', ''risk'', ''source'', ''task'', ''topic'']"

definition relation_types :: "relation_type list" where
  "relation_types =
     [''about'', ''assigned_to'', ''blocks'', ''captured_from'', ''contradicts'', ''depends_on'',
      ''derived_from'', ''enables'', ''has_context'', ''has_risk'', ''located_at'', ''materialized_as'',
      ''mentions'', ''part_of'', ''related_to'', ''refers_to'', ''sourced_from'', ''supersedes'',
      ''supported_by'', ''tagged_with'']"

definition value_types :: "value_type list" where
  "value_types = [''bool'', ''json'', ''number'', ''text'', ''time'']"

definition valid_node_kind :: "node_kind \<Rightarrow> bool" where
  "valid_node_kind k \<longleftrightarrow> k \<in> set node_kinds"

definition valid_relation_type :: "relation_type \<Rightarrow> bool" where
  "valid_relation_type r \<longleftrightarrow> r \<in> set relation_types"

definition valid_value :: "gvalue \<Rightarrow> bool" where
  "valid_value v \<longleftrightarrow> gv_type v \<in> set value_types"

definition default_confidence :: "f64 \<Rightarrow> f64" where
  "default_confidence c =
     (if \<not> f64_less (Fin 0) c \<and> c \<noteq> NaN then Fin 1 else if f64_less (Fin 1) c then Fin 1 else c)"

section \<open>Normalisers\<close>

definition normalize_upsert_node :: "upsert_node_request \<Rightarrow> gerr + upsert_node_request" where
  "normalize_upsert_node req =
     (let req = req\<lparr>un_stable_key := trim_space (un_stable_key req),
                    un_title := trim_space (un_title req),
                    un_summary := trim_space (un_summary req),
                    un_actor := norm_default (un_actor req) default_agent_actor\<rparr>
      in if \<not> valid_node_kind (un_kind req) then Inl (InvalidNodeKind (un_kind req))
         else let req = req\<lparr>un_status := default_lifecycle_status (un_status req)\<rparr>
         in if \<not> valid_lifecycle_status (un_status req) then Inl (InvalidNodeStatus (un_status req))
         else let req = req\<lparr>un_sensitivity := default_sensitivity (un_sensitivity req)\<rparr>
         in if \<not> valid_sensitivity (un_sensitivity req)
            then Inl (InvalidSensitivity (un_sensitivity req))
         else let req = req\<lparr>un_trust := default_trust_level (un_trust req) ''user_asserted''\<rparr>
         in if \<not> valid_trust_level (un_trust req) then Inl (InvalidTrustLevel (un_trust req))
         else Inr (req\<lparr>un_confidence := default_confidence (un_confidence req)\<rparr>))"

definition normalize_upsert_edge :: "upsert_edge_request \<Rightarrow> gerr + upsert_edge_request" where
  "normalize_upsert_edge req =
     (let req = req\<lparr>ue_actor := norm_default (ue_actor req) default_agent_actor\<rparr>
      in if ue_from req = [] then Inl FromNodeRequired
         else if ue_to req = [] then Inl ToNodeRequired
         else if \<not> valid_relation_type (ue_type req) then Inl (InvalidRelation (ue_type req))
         else let req = req\<lparr>ue_status := default_lifecycle_status (ue_status req)\<rparr>
         in if \<not> valid_lifecycle_status (ue_status req) then Inl (InvalidEdgeStatus (ue_status req))
         else let req = req\<lparr>ue_trust := default_trust_level (ue_trust req) ''user_asserted''\<rparr>
         in if \<not> valid_trust_level (ue_trust req) then Inl (InvalidTrustLevel (ue_trust req))
         else Inr (req\<lparr>ue_confidence := default_confidence (ue_confidence req)\<rparr>))"

definition normalize_property_fields ::
    "upsert_property_request \<Rightarrow> gerr + upsert_property_request" where
  "normalize_property_fields req =
     (let req = req\<lparr>up_actor := norm_default (up_actor req) default_agent_actor,
                    up_status := default_lifecycle_status (up_status req)\<rparr>
      in if \<not> valid_lifecycle_status (up_status req)
         then Inl (InvalidPropertyStatus (up_status req))
         else let req = req\<lparr>up_trust := default_trust_level (up_trust req) ''user_asserted''\<rparr>
         in if \<not> valid_trust_level (up_trust req) then Inl (InvalidTrustLevel (up_trust req))
         else if \<not> valid_value (up_value req) then Inl (InvalidValueType (gv_type (up_value req)))
         else Inr (req\<lparr>up_confidence := default_confidence (up_confidence req)\<rparr>))"

definition normalize_upsert_node_property ::
    "upsert_property_request \<Rightarrow> gerr + upsert_property_request" where
  "normalize_upsert_node_property req =
     (if up_owner req = [] then Inl NodeIdRequired
      else let req = req\<lparr>up_key := norm_key (up_key req)\<rparr>
      in if up_key req = [] then Inl PropertyKeyRequired else normalize_property_fields req)"

text \<open>The edge normaliser repeats the field checks of the node one in place.\<close>

definition normalize_upsert_edge_property ::
    "upsert_property_request \<Rightarrow> gerr + upsert_property_request" where
  "normalize_upsert_edge_property req =
     (if up_owner req = [] then Inl EdgeIdRequired
      else let req = req\<lparr>up_key := norm_key (up_key req)\<rparr>
      in if up_key req = [] then Inl PropertyKeyRequired else normalize_property_fields req)"

definition normalize_append_audit :: "append_audit_request \<Rightarrow> gerr + append_audit_request" where
  "normalize_append_audit req =
     (let req = req\<lparr>aa_kind := norm_key (aa_kind req)\<rparr>
      in if aa_kind req = [] then Inl AuditKindRequired
         else Inr (req\<lparr>aa_actor := norm_default (aa_actor req) default_agent_actor,
                       aa_message := trim_space (aa_message req),
                       aa_details := trim_space (aa_details req)\<rparr>))"

definition normalize_access_policy :: "access_policy \<Rightarrow> gerr + access_policy" where
  "normalize_access_policy p =
     (let p = p\<lparr>ap_actor := norm_default (ap_actor p) default_agent_actor,
                ap_allowed := (if ap_allowed p = [] then default_readable_sensitivities
                               else ap_allowed p)\<rparr>
      in case List.find (\<lambda>s. \<not> valid_sensitivity s) (ap_allowed p) of
           Some s \<Rightarrow> Inl (InvalidSensitivity s)
         | None \<Rightarrow> Inr p)"

definition normalize_search_nodes :: "search_nodes_query \<Rightarrow> gerr + search_nodes_query" where
  "normalize_search_nodes q =
     (let q = q\<lparr>sq_text := trim_space (sq_text q)\<rparr>
      in res_bind (normalize_access_policy \<lparr>ap_actor = [], ap_allowed = sq_allowed q\<rparr>) (\<lambda>p.
         let q = q\<lparr>sq_allowed := ap_allowed p\<rparr>
         in case List.find (\<lambda>k. \<not> valid_node_kind k) (sq_kinds q) of
              Some k \<Rightarrow> Inl (InvalidNodeKind k)
            | None \<Rightarrow>
                Inr (if sq_limit q \<le> 0 \<or> sq_limit q > 100 then q\<lparr>sq_limit := 20\<rparr> else q)))"

section \<open>Lemmas\<close>

named_theorems domain_defs "definitions of the graph normalisers"
declare normalize_upsert_node_def [domain_defs]
  normalize_upsert_edge_def [domain_defs]
  normalize_property_fields_def [domain_defs]
  normalize_append_audit_def [domain_defs]

lemma default_confidence_range:
  "default_confidence c = NaN \<or> (\<exists>q. default_confidence c = Fin q \<and> 0 < q \<and> q \<le> 1)"
  by (cases c) (auto simp: default_confidence_def)

lemma default_confidence_idem [vocab_simps]:
  "default_confidence (default_confidence c) = default_confidence c"
  by (cases c) (auto simp: default_confidence_def)

lemma find_None: "List.find P xs = None \<longleftrightarrow> (\<forall>x\<in>set xs. \<not> P x)"
  by (auto simp: find_None_iff)

lemma normalize_upsert_node_valid:
  assumes "normalize_upsert_node r = Inr r'"
  shows "valid_node_kind (un_kind r') \<and> valid_lifecycle_status (un_status r') \<and>
         valid_sensitivity (un_sensitivity r') \<and> valid_trust_level (un_trust r') \<and>
         un_actor r' \<noteq> [] \<and> un_id r' = un_id r \<and> un_kind r' = un_kind r \<and>
         un_source r' = un_source r"
  using assms
  by (auto simp: normalize_upsert_node_def Let_def norm_default_nonempty default_agent_actor_def
      split: if_splits)

lemma normalize_upsert_edge_valid:
  assumes "normalize_upsert_edge r = Inr r'"
  shows "valid_relation_type (ue_type r') \<and> valid_lifecycle_status (ue_status r') \<and>
         valid_trust_level (ue_trust r') \<and> ue_from r' \<noteq> [] \<and> ue_to r' \<noteq> [] \<and>
         ue_actor r' \<noteq> [] \<and> ue_id r' = ue_id r \<and> ue_source r' = ue_source r"
  using assms
  by (auto simp: normalize_upsert_edge_def Let_def norm_default_nonempty default_agent_actor_def
      split: if_splits)

lemma normalize_access_policy_Inr:
  assumes "normalize_access_policy p = Inr p'"
  shows "ap_actor p' = norm_default (ap_actor p) default_agent_actor \<and>
         ap_allowed p' = (if ap_allowed p = [] then default_readable_sensitivities else ap_allowed p) \<and>
         (\<forall>s\<in>set (ap_allowed p'). valid_sensitivity s)"
  using assms
  by (auto simp: normalize_access_policy_def Let_def find_None split: option.splits)

lemma normalize_search_nodes_Inr:
  assumes "normalize_search_nodes q = Inr q'"
  shows "sq_kinds q' = sq_kinds q \<and> 1 \<le> sq_limit q' \<and> sq_limit q' \<le> 100 \<and>
         sq_allowed q' =
           (if sq_allowed q = [] then default_readable_sensitivities else sq_allowed q)"
  using assms
  by (auto simp: normalize_search_nodes_def Let_def res_simps split: option.splits if_splits
      dest!: normalize_access_policy_Inr)

lemma normalize_upsert_node_idem:
  "normalize_upsert_node r = Inr r' \<Longrightarrow> normalize_upsert_node r' = Inr r'"
  by (auto simp: normalize_upsert_node_def Let_def vocab_simps split: if_splits)

end
