(* ===== verification/Go_State.thy ===== *)
theory Go_State imports Go_Base begin

text \<open>
  Stateful, fallible operations: a Go method that works on a store and returns (value, error) is
  a function from the state to the error or the value, with the state it leaves. An error keeps
  the state as the method left it: nothing is rolled back. Also the part of \<open>encoding/json\<close> that
  prints a map of strings.
\<close>

type_synonym ('s, 'e, 'a) run = "'s \<Rightarrow> ('e + 'a) \<times> 's"

definition run_ret :: "'a \<Rightarrow> ('s, 'e, 'a) run" where
  "run_ret x s = (Inr x, s)"

definition run_err :: "'e \<Rightarrow> ('s, 'e, 'a) run" where
  "run_err e s = (Inl e, s)"

definition run_bind :: "('s, 'e, 'a) run \<Rightarrow> ('a \<Rightarrow> ('s, 'e, 'b) run) \<Rightarrow> ('s, 'e, 'b) run" where
  "run_bind m f s = (case m s of (Inl e, t) \<Rightarrow> (Inl e, t) | (Inr x, t) \<Rightarrow> f x t)"

text \<open>A computation on the state that only reads it, and one that does not use it.\<close>

definition run_read :: "('s \<Rightarrow> 'e + 'a) \<Rightarrow> ('s, 'e, 'a) run" where
  "run_read f s = (f s, s)"

definition run_lift :: "'e + 'a \<Rightarrow> ('s, 'e, 'a) run" where
  "run_lift r s = (r, s)"

definition res_err :: "('e \<Rightarrow> 'f) \<Rightarrow> 'e + 'a \<Rightarrow> 'f + 'a" where
  "res_err g r = (case r of Inl e \<Rightarrow> Inl (g e) | Inr x \<Rightarrow> Inr x)"

definition run_map_err :: "('e \<Rightarrow> 'f) \<Rightarrow> ('s, 'e, 'a) run \<Rightarrow> ('s, 'f, 'a) run" where
  "run_map_err g m s = (case m s of (r, t) \<Rightarrow> (res_err g r, t))"

named_theorems run_defs "the combinators of stateful operations"
declare run_ret_def [run_defs] run_err_def [run_defs] run_read_def [run_defs] run_lift_def [run_defs]

lemma run_bind_Inr:
  assumes "run_bind m f s = (Inr y, u)"
  obtains x t where "m s = (Inr x, t)" and "f x t = (Inr y, u)"
  using assms by (auto simp: run_bind_def split: prod.splits sum.splits)

lemma run_bind_ok [run_defs]: "m s = (Inr x, t) \<Longrightarrow> run_bind m f s = f x t"
  by (simp add: run_bind_def)

lemma run_bind_fails [run_defs]: "m s = (Inl e, t) \<Longrightarrow> run_bind m f s = (Inl e, t)"
  by (simp add: run_bind_def)

lemma res_err_Inr [simp]: "res_err g r = Inr x \<longleftrightarrow> r = Inr x"
  by (auto simp: res_err_def split: sum.splits)

lemma run_map_err_Inr [simp]: "run_map_err g m s = (Inr x, t) \<longleftrightarrow> m s = (Inr x, t)"
  by (auto simp: run_map_err_def split: prod.splits)

text \<open>
  A relation between the states before and after that composes, and that every step satisfies,
  holds for the whole.
\<close>

definition run_within :: "('s \<Rightarrow> 's \<Rightarrow> bool) \<Rightarrow> ('s, 'e, 'a) run \<Rightarrow> bool" where
  "run_within R m \<longleftrightarrow> (\<forall>s. R s (snd (m s)))"

named_theorems within "operations stay within a relation of states"

lemma within_ret [within]: "reflp R \<Longrightarrow> run_within R (run_ret x)"
  by (simp add: run_within_def run_ret_def reflpD)

lemma within_err [within]: "reflp R \<Longrightarrow> run_within R (run_err e)"
  by (simp add: run_within_def run_err_def reflpD)

lemma within_read [within]: "reflp R \<Longrightarrow> run_within R (run_read f)"
  by (simp add: run_within_def run_read_def reflpD)

lemma within_lift [within]: "reflp R \<Longrightarrow> run_within R (run_lift r)"
  by (simp add: run_within_def run_lift_def reflpD)

lemma within_map_err [within]: "run_within R m \<Longrightarrow> run_within R (run_map_err g m)"
  by (simp add: run_within_def run_map_err_def split: prod.split) (metis snd_conv)

lemma within_bind [within]:
  assumes "transp R" "run_within R m" "\<And>x. run_within R (f x)"
  shows "run_within R (run_bind m f)"
  unfolding run_within_def
proof
  fix s
  show "R s (snd (run_bind m f s))"
  proof (cases "m s")
    case (Pair r t)
    then have "R s t" using assms(2) by (metis run_within_def snd_conv)
    then show ?thesis
      using Pair assms(1,3)
      by (cases r) (auto simp: run_bind_def run_within_def intro: transpD)
  qed
qed

text \<open>An operation that looks at the result of another, and case distinctions in front of an operation.\<close>

lemma within_catch:
  assumes "transp R" "run_within R m" "\<And>r. run_within R (h r)"
  shows "run_within R (\<lambda>s. case m s of (r, t) \<Rightarrow> h r t)"
  unfolding run_within_def
proof
  fix s
  obtain r t where m: "m s = (r, t)" by force
  have "R s t" using assms(2) m unfolding run_within_def by (metis snd_conv)
  moreover have "R t (snd (h r t))" using assms(3) unfolding run_within_def by blast
  ultimately show "R s (snd (case m s of (r, t) \<Rightarrow> h r t))"
    using m transpD [OF assms(1)] by simp
qed

lemma within_pair: "reflp R \<Longrightarrow> run_within R (\<lambda>s. (x, s))"
  by (simp add: run_within_def reflpD)

lemma within_sum:
  "\<lbrakk>\<And>x. r = Inl x \<Longrightarrow> run_within R (\<lambda>t. f x t); \<And>y. r = Inr y \<Longrightarrow> run_within R (\<lambda>t. g y t)\<rbrakk> \<Longrightarrow>
   run_within R (\<lambda>t. case r of Inl x \<Rightarrow> f x t | Inr y \<Rightarrow> g y t)"
  by (cases r) simp_all

lemma within_if:
  "\<lbrakk>b \<Longrightarrow> run_within R (\<lambda>t. f t); \<not> b \<Longrightarrow> run_within R (\<lambda>t. g t)\<rbrakk> \<Longrightarrow>
   run_within R (\<lambda>t. if b then f t else g t)"
  by (cases b) simp_all

lemma within_case:
  "\<lbrakk>q = None \<Longrightarrow> run_within R f; \<And>x. q = Some x \<Longrightarrow> run_within R (g x)\<rbrakk> \<Longrightarrow>
   run_within R (case q of None \<Rightarrow> f | Some x \<Rightarrow> g x)"
  "\<lbrakk>\<And>x. r = Inl x \<Longrightarrow> run_within R (f1 x); \<And>y. r = Inr y \<Longrightarrow> run_within R (g1 y)\<rbrakk> \<Longrightarrow>
   run_within R (case r of Inl x \<Rightarrow> f1 x | Inr y \<Rightarrow> g1 y)"
  "\<lbrakk>\<And>x y. p = (x, y) \<Longrightarrow> run_within R (h x y)\<rbrakk> \<Longrightarrow> run_within R (case p of (x, y) \<Rightarrow> h x y)"
  "\<lbrakk>b \<Longrightarrow> run_within R f2; \<not> b \<Longrightarrow> run_within R g2\<rbrakk> \<Longrightarrow> run_within R (if b then f2 else g2)"
  by (simp_all split: option.split sum.split prod.split)

section \<open>JSON text of a map of strings\<close>

definition hex_digit :: "nat \<Rightarrow> char" where
  "hex_digit n = char_of (if n < 10 then 48 + n else 87 + n)"

text \<open>The escapes of \<open>json.Marshal\<close>: quotes, control characters and the HTML characters.\<close>

definition json_rune :: "char \<Rightarrow> string" where
  "json_rune c =
     (if c = CHR 0x22 \<or> c = CHR 0x5C then [CHR 0x5C, c]
      else if rune c = 8 then [CHR 0x5C, CHR ''b'']
      else if rune c = 12 then [CHR 0x5C, CHR ''f'']
      else if rune c = 10 then [CHR 0x5C, CHR ''n'']
      else if rune c = 13 then [CHR 0x5C, CHR ''r'']
      else if rune c = 9 then [CHR 0x5C, CHR ''t'']
      else if rune c < 32 \<or> c = CHR ''<'' \<or> c = CHR ''>'' \<or> c = CHR ''&''
      then CHR 0x5C # ''u00'' @ [hex_digit (rune c div 16), hex_digit (rune c mod 16)]
      else [c])"

definition json_string :: "string \<Rightarrow> string" where
  "json_string s = CHR 0x22 # concat (map json_rune s) @ [CHR 0x22]"

definition json_string_map :: "(string \<times> string) list \<Rightarrow> string" where
  "json_string_map kvs =
     CHR ''{'' # join_str (map (\<lambda>(k, v). json_string k @ '':'' @ json_string v) kvs) '','' @ ''}''"

end
