(* ===== verification/Graph_Store.thy ===== *)
theory Graph_Store imports Graph_Domain Go_State begin

text \<open>
  The SQLite graph store, memory/internal/memory/graph/store: schema.go, nodes.go, edges.go,
  properties.go, audit.go, the search without text of search.go, the conversions of
  sql_values.go and scan.go, and \<open>WithUnitOfWork\<close> of store.go, with id/id.go. A table is the list of its
  rows with the column types of the schema: times are text, nullable columns are options. A
  statement that violates a primary key, a unique index, a foreign key or a NOT NULL column
  (SQLite stores a not-a-number as NULL) fails and changes nothing. The clock, the random source
  and the ranking of the full-text index are parameters, the fields of \<open>env\<close>; each use of the
  clock or the random source advances \<open>db_tick\<close>. Disk and driver errors are not modelled.
\<close>

section \<open>Tables\<close>

record node_row =
  nr_id :: string
  nr_kind :: string
  nr_stable_key :: "string option"
  nr_title :: string
  nr_summary :: string
  nr_status :: string
  nr_sensitivity :: string
  nr_trust :: string
  nr_confidence :: f64
  nr_source :: "string option"
  nr_actor :: string
  nr_created :: string
  nr_updated :: string

record edge_row =
  er_id :: string
  er_from :: string
  er_type :: string
  er_to :: string
  er_status :: string
  er_confidence :: f64
  er_trust :: string
  er_source :: "string option"
  er_actor :: string
  er_valid_from :: "string option"
  er_valid_to :: "string option"
  er_created :: string
  er_updated :: string

text \<open>The rows of graph_properties and graph_edge_properties, with node_id or edge_id as owner.\<close>

record property_row =
  qr_id :: string
  qr_owner :: string
  qr_key :: string
  qr_type :: string
  qr_text :: string
  qr_number :: "f64 option"
  qr_time :: "string option"
  qr_json :: string
  qr_position :: int
  qr_status :: string
  qr_confidence :: f64
  qr_trust :: string
  qr_source :: "string option"
  qr_actor :: string
  qr_created :: string
  qr_updated :: string

record audit_row =
  ar_id :: string
  ar_kind :: string
  ar_actor :: string
  ar_node :: "string option"
  ar_edge :: "string option"
  ar_source :: "string option"
  ar_message :: string
  ar_details :: string
  ar_created :: string

record graph_db =
  db_nodes :: "node_row list"
  db_edges :: "edge_row list"
  db_node_props :: "property_row list"
  db_edge_props :: "property_row list"
  db_audit :: "audit_row list"
  db_tick :: nat

record env =
  en_now :: "nat \<Rightarrow> gotime"
  en_rand :: "nat \<Rightarrow> string option"
  en_fts :: "string \<Rightarrow> node_id list"

type_synonym 'a db_run = "(graph_db, gerr, 'a) run"

section \<open>Constraints of the schema\<close>

definition coalesce :: "string option \<Rightarrow> string" where
  "coalesce v = (case v of Some s \<Rightarrow> s | None \<Rightarrow> [])"

definition refers :: "string set \<Rightarrow> string option \<Rightarrow> bool" where
  "refers ids v \<longleftrightarrow> (case v of Some s \<Rightarrow> s \<in> ids | None \<Rightarrow> True)"

definition node_ids :: "node_row list \<Rightarrow> string set" where
  "node_ids rows = nr_id ` set rows"

definition edge_ids :: "edge_row list \<Rightarrow> string set" where
  "edge_ids rows = er_id ` set rows"

definition nodes_ok :: "node_row list \<Rightarrow> bool" where
  "nodes_ok rows \<longleftrightarrow>
     distinct (map nr_id rows) \<and>
     distinct (map (\<lambda>r. (nr_kind r, nr_stable_key r)) (filter (\<lambda>r. coalesce (nr_stable_key r) \<noteq> []) rows)) \<and>
     (\<forall>r\<in>set rows. nr_confidence r \<noteq> NaN \<and> refers (node_ids rows) (nr_source r))"

definition edges_ok :: "node_row list \<Rightarrow> edge_row list \<Rightarrow> bool" where
  "edges_ok nodes rows \<longleftrightarrow>
     distinct (map er_id rows) \<and>
     distinct (map (\<lambda>r. (er_from r, er_type r, er_to r, coalesce (er_source r))) rows) \<and>
     (\<forall>r\<in>set rows. er_confidence r \<noteq> NaN \<and> er_from r \<in> node_ids nodes \<and> er_to r \<in> node_ids nodes \<and>
        refers (node_ids nodes) (er_source r))"

definition properties_ok :: "node_row list \<Rightarrow> string set \<Rightarrow> property_row list \<Rightarrow> bool" where
  "properties_ok nodes owners rows \<longleftrightarrow>
     distinct (map qr_id rows) \<and>
     distinct (map (\<lambda>r. (qr_owner r, qr_key r, qr_position r, coalesce (qr_source r))) rows) \<and>
     (\<forall>r\<in>set rows. qr_confidence r \<noteq> NaN \<and> qr_owner r \<in> owners \<and> refers (node_ids nodes) (qr_source r))"

definition audits_ok :: "node_row list \<Rightarrow> edge_row list \<Rightarrow> audit_row list \<Rightarrow> bool" where
  "audits_ok nodes edges rows \<longleftrightarrow>
     distinct (map ar_id rows) \<and>
     (\<forall>r\<in>set rows. refers (node_ids nodes) (ar_node r) \<and> refers (edge_ids edges) (ar_edge r) \<and>
        refers (node_ids nodes) (ar_source r))"

text \<open>Writing a table: the statement's new rows, if the constraints allow them.\<close>

definition put_nodes :: "node_row list \<Rightarrow> unit db_run" where
  "put_nodes rows s =
     (if nodes_ok rows then (Inr (), s\<lparr>db_nodes := rows\<rparr>) else (Inl (Constraint ''graph_nodes''), s))"

definition put_edges :: "edge_row list \<Rightarrow> unit db_run" where
  "put_edges rows s =
     (if edges_ok (db_nodes s) rows then (Inr (), s\<lparr>db_edges := rows\<rparr>)
      else (Inl (Constraint ''graph_edges''), s))"

definition put_node_props :: "property_row list \<Rightarrow> unit db_run" where
  "put_node_props rows s =
     (if properties_ok (db_nodes s) (node_ids (db_nodes s)) rows then (Inr (), s\<lparr>db_node_props := rows\<rparr>)
      else (Inl (Constraint ''graph_properties''), s))"

definition put_edge_props :: "property_row list \<Rightarrow> unit db_run" where
  "put_edge_props rows s =
     (if properties_ok (db_nodes s) (edge_ids (db_edges s)) rows then (Inr (), s\<lparr>db_edge_props := rows\<rparr>)
      else (Inl (Constraint ''graph_edge_properties''), s))"

definition put_audits :: "audit_row list \<Rightarrow> unit db_run" where
  "put_audits rows s =
     (if audits_ok (db_nodes s) (db_edges s) rows then (Inr (), s\<lparr>db_audit := rows\<rparr>)
      else (Inl (Constraint ''graph_audit_events''), s))"

section \<open>Conversions\<close>

definition nullable_id :: "string \<Rightarrow> string option" where
  "nullable_id v = (if v = [] then None else Some v)"

definition nullable_string :: "string \<Rightarrow> string option" where
  "nullable_string v = (if trim_space v = [] then None else Some v)"

definition time_string :: "gotime \<Rightarrow> string" where
  "time_string t = format_rfc3339_nano t"

definition nullable_time :: "gotime option \<Rightarrow> string option" where
  "nullable_time v =
     (case v of None \<Rightarrow> None | Some t \<Rightarrow> if t = zero_time then None else Some (time_string t))"

definition nullable_number :: "gvalue \<Rightarrow> f64 option" where
  "nullable_number v =
     (if gv_type v \<noteq> ''number'' then None else if gv_number v = NaN then None else Some (gv_number v))"

definition nullable_value_time :: "gvalue \<Rightarrow> string option" where
  "nullable_value_time v =
     (if gv_type v \<noteq> ''time'' then None else map_option time_string (gv_time v))"

definition parse_time :: "string \<Rightarrow> gerr + gotime" where
  "parse_time v = (case parse_rfc3339 v of Some t \<Rightarrow> Inr t | None \<Rightarrow> Inl (BadTime v))"

text \<open>A text column that is empty for NULL.\<close>

definition parse_nullable_time :: "string \<Rightarrow> gerr + gotime option" where
  "parse_nullable_time v = (if v = [] then Inr None else res_map Some (parse_time v))"

definition scan_node :: "node_row \<Rightarrow> gerr + node" where
  "scan_node r =
     res_bind (parse_time (nr_created r)) (\<lambda>created.
     res_bind (parse_time (nr_updated r)) (\<lambda>updated.
     Inr \<lparr>nd_id = nr_id r, nd_kind = nr_kind r, nd_stable_key = coalesce (nr_stable_key r),
          nd_title = nr_title r, nd_summary = nr_summary r, nd_status = nr_status r,
          nd_sensitivity = nr_sensitivity r, nd_trust = nr_trust r,
          nd_confidence = nr_confidence r, nd_source = coalesce (nr_source r),
          nd_actor = nr_actor r, nd_created = created, nd_updated = updated\<rparr>))"

definition scan_edge :: "edge_row \<Rightarrow> gerr + edge" where
  "scan_edge r =
     res_bind (parse_nullable_time (coalesce (er_valid_from r))) (\<lambda>valid_from.
     res_bind (parse_nullable_time (coalesce (er_valid_to r))) (\<lambda>valid_to.
     res_bind (parse_time (er_created r)) (\<lambda>created.
     res_bind (parse_time (er_updated r)) (\<lambda>updated.
     Inr \<lparr>ed_id = er_id r, ed_from = er_from r, ed_type = er_type r, ed_to = er_to r,
          ed_status = er_status r, ed_confidence = er_confidence r, ed_trust = er_trust r,
          ed_source = coalesce (er_source r), ed_actor = er_actor r, ed_valid_from = valid_from,
          ed_valid_to = valid_to, ed_created = created, ed_updated = updated\<rparr>))))"

definition scan_property :: "property_row \<Rightarrow> gerr + property" where
  "scan_property r =
     res_bind (parse_nullable_time (coalesce (qr_time r))) (\<lambda>vt.
     res_bind (parse_time (qr_created r)) (\<lambda>created.
     res_bind (parse_time (qr_updated r)) (\<lambda>updated.
     Inr \<lparr>pr_id = qr_id r, pr_owner = qr_owner r, pr_key = qr_key r,
          pr_value = \<lparr>gv_type = qr_type r, gv_text = qr_text r,
                      gv_number = (case qr_number r of Some x \<Rightarrow> x | None \<Rightarrow> Fin 0),
                      gv_time = vt, gv_json = qr_json r\<rparr>,
          pr_position = qr_position r, pr_status = qr_status r, pr_confidence = qr_confidence r,
          pr_trust = qr_trust r, pr_source = coalesce (qr_source r), pr_actor = qr_actor r,
          pr_created = created, pr_updated = updated\<rparr>)))"

definition scan_audit_event :: "audit_row \<Rightarrow> gerr + audit_event" where
  "scan_audit_event r =
     res_bind (parse_time (ar_created r)) (\<lambda>created.
     Inr \<lparr>au_id = ar_id r, au_kind = ar_kind r, au_actor = ar_actor r, au_node = coalesce (ar_node r),
          au_edge = coalesce (ar_edge r), au_source = coalesce (ar_source r),
          au_message = ar_message r, au_details = ar_details r, au_created = created\<rparr>)"

section \<open>Clock and identifiers\<close>

definition tick :: "graph_db \<Rightarrow> graph_db" where
  "tick s = s\<lparr>db_tick := Suc (db_tick s)\<rparr>"

definition clock_now :: "env \<Rightarrow> gotime db_run" where
  "clock_now en s = (Inr (en_now en (db_tick s)), tick s)"

fun hex_nat :: "nat \<Rightarrow> string" where
  "hex_nat n = (if n < 16 then [hex_digit n] else hex_nat (n div 16) @ [hex_digit (n mod 16)])"

declare hex_nat.simps [simp del]

definition hex_int :: "int \<Rightarrow> string" where
  "hex_int i = (if i < 0 then CHR ''-'' # hex_nat (nat (- i)) else hex_nat (nat i))"

definition new_id :: "env \<Rightarrow> string \<Rightarrow> string db_run" where
  "new_id en prefix s =
     (case en_rand en (db_tick s) of
        None \<Rightarrow> (Inl RandomFailed, tick s)
      | Some r \<Rightarrow>
          (Inr (prefix @ ''_'' @ hex_int (en_now en (db_tick s) div 1000000) @ ''_'' @ r), tick s))"

end
