(* ===== verification/Query_Lexer.thy ===== *)
theory Query_Lexer imports Go_Base begin

text \<open>
  The tokenizer of the graph query language, memory/internal/memory/graph/query/lexer.go. The
  scanner state (the runes and a position) is the list of the runes not yet read; every scanning
  method returns what is left of it.
\<close>

datatype token_type =
    TokenEOF | TokenIdentifier | TokenString | TokenNumber | TokenComma | TokenEqual
  | TokenNotEqual | TokenLess | TokenLessEqual | TokenGreater | TokenGreaterEqual
  | TokenLeftBracket | TokenRightBracket | TokenDash | TokenArrow | TokenStar | TokenRange

datatype token = Token (tok_type: token_type) (tok_value: string)

datatype lex_error =
    UnexpectedCharacter char
  | UnterminatedEscape
  | UnsupportedEscape char
  | UnterminatedString

abbreviation eof_token :: token where
  "eof_token \<equiv> Token TokenEOF []"

section \<open>Scanning\<close>

definition identifier_rune :: "char \<Rightarrow> bool" where
  "identifier_rune c \<longleftrightarrow>
     is_letter c \<or> is_digit c \<or> c = CHR ''_'' \<or> c = CHR ''-'' \<or> c = CHR ''.''"

definition skip_space :: "string \<Rightarrow> string" where
  "skip_space s = dropWhile is_space s"

text \<open>\<open>nextIs\<close>, for the runes after the current one.\<close>

definition next_is :: "char \<Rightarrow> string \<Rightarrow> bool" where
  "next_is c s = (case s of [] \<Rightarrow> False | d # t \<Rightarrow> d = c)"

text \<open>\<open>string\<close>, from the rune after the opening quote, with the runes built so far.\<close>

fun lex_string :: "string \<Rightarrow> string \<Rightarrow> lex_error + string \<times> string" where
  "lex_string built [] = Inl UnterminatedString"
| "lex_string built (ch # s) =
     (if ch = CHR 0x22 then Inr (built, s)
      else if ch = CHR 0x5C then
        (case s of
           [] \<Rightarrow> Inl UnterminatedEscape
         | escaped # s' \<Rightarrow>
             if escaped = CHR 0x22 \<or> escaped = CHR 0x5C then lex_string (built @ [escaped]) s'
             else if escaped = CHR ''n'' then lex_string (built @ [CHR 0x0A]) s'
             else if escaped = CHR ''t'' then lex_string (built @ [CHR 0x09]) s'
             else Inl (UnsupportedEscape escaped))
      else lex_string (built @ [ch]) s)"

definition lex_number :: "string \<Rightarrow> string \<times> string" where
  "lex_number s =
     (let ip = takeWhile is_digit s; r = dropWhile is_digit s
      in case r of
           [] \<Rightarrow> (ip, [])
         | c # t \<Rightarrow>
             if c = CHR ''.'' \<and> \<not> next_is CHR ''.'' t
             then (ip @ CHR ''.'' # takeWhile is_digit t, dropWhile is_digit t)
             else (ip, r))"

definition lex_identifier :: "string \<Rightarrow> string \<times> string" where
  "lex_identifier s = (takeWhile identifier_rune s, dropWhile identifier_rune s)"

text \<open>One round of the loop of \<open>tokens\<close>, at a rune that is not a space.\<close>

definition lex_token :: "char \<Rightarrow> string \<Rightarrow> lex_error + token \<times> string" where
  "lex_token ch s =
     (if ch = CHR '','' then Inr (Token TokenComma '','', s)
      else if ch = CHR ''='' then Inr (Token TokenEqual ''='', s)
      else if ch = CHR ''!'' \<and> next_is CHR ''='' s then Inr (Token TokenNotEqual ''!='', tl s)
      else if ch = CHR ''<'' \<and> next_is CHR ''='' s then Inr (Token TokenLessEqual ''<='', tl s)
      else if ch = CHR ''<'' \<and> next_is CHR ''>'' s then Inr (Token TokenNotEqual ''<>'', tl s)
      else if ch = CHR ''<'' then Inr (Token TokenLess ''<'', s)
      else if ch = CHR ''>'' \<and> next_is CHR ''='' s then Inr (Token TokenGreaterEqual ''>='', tl s)
      else if ch = CHR ''>'' then Inr (Token TokenGreater ''>'', s)
      else if ch = CHR ''.'' \<and> next_is CHR ''.'' s then Inr (Token TokenRange ''..'', tl s)
      else if ch = CHR ''['' then Inr (Token TokenLeftBracket ''['', s)
      else if ch = CHR '']'' then Inr (Token TokenRightBracket '']'', s)
      else if ch = CHR ''-'' \<and> next_is CHR ''>'' s then Inr (Token TokenArrow ''->'', tl s)
      else if ch = CHR ''-'' then Inr (Token TokenDash ''-'', s)
      else if ch = CHR ''*'' then Inr (Token TokenStar ''*'', s)
      else if ch = CHR 0x22 then
        res_map (\<lambda>(v, r). (Token TokenString v, r)) (lex_string [] s)
      else if is_digit ch then
        (case lex_number (ch # s) of (v, r) \<Rightarrow> Inr (Token TokenNumber v, r))
      else if identifier_rune ch then
        (case lex_identifier (ch # s) of (v, r) \<Rightarrow> Inr (Token TokenIdentifier v, r))
      else Inl (UnexpectedCharacter ch))"

section \<open>Every round reads at least one rune\<close>

lemma lex_string_length: "lex_string b s = Inr (v, r) \<Longrightarrow> length r < length s"
  by (induction b s rule: lex_string.induct) (auto split: if_splits list.splits)

lemma length_dropWhile_less: "P c \<Longrightarrow> length (dropWhile P (c # s)) \<le> length s"
  by (simp add: length_dropWhile_le)

lemma lex_number_length: "is_digit c \<Longrightarrow> lex_number (c # s) = (v, r) \<Longrightarrow> length r \<le> length s"
  using length_dropWhile_le [of is_digit s]
  by (auto simp: lex_number_def Let_def split: list.splits if_splits
      intro: le_trans [OF length_dropWhile_le])

lemma lex_token_length: "lex_token ch s = Inr (t, r) \<Longrightarrow> length r \<le> length s"
  using lex_number_length [of ch s] lex_string_length [of "[]" s]
  by (auto simp: lex_token_def lex_identifier_def res_simps length_dropWhile_le
      split: if_splits prod.splits dest: less_imp_le)

text \<open>\<open>Lex\<close>: the tokens of an input, the end marker included.\<close>

function lex :: "string \<Rightarrow> lex_error + token list" where
  "lex s =
     (case skip_space s of
        [] \<Rightarrow> Inr [eof_token]
      | ch # r \<Rightarrow>
          (case lex_token ch r of
             Inl e \<Rightarrow> Inl e
           | Inr (t, r') \<Rightarrow> res_map (\<lambda>ts. t # ts) (lex r')))"
  by pat_completeness auto
termination
proof (relation "measure length")
  fix s ch r t r' p
  assume s: "skip_space s = ch # r" and t: "lex_token ch r = Inr p" "(t, r') = p"
  have "length (ch # r) \<le> length s"
    unfolding s [symmetric] skip_space_def by (rule length_dropWhile_le)
  moreover have "length r' \<le> length r"
    using t lex_token_length [of ch r t r'] by simp
  ultimately show "(r', s) \<in> measure length" by simp
qed simp

declare lex.simps [simp del]

section \<open>Tokens a scan can produce\<close>

text \<open>
  The shape of a token's value: what an identifier, a number and each symbol look like. The
  first rune of an identifier is not a digit, nor a dash, nor the first of two dots.
\<close>

definition identifier_ok :: "string \<Rightarrow> bool" where
  "identifier_ok v \<longleftrightarrow>
     v \<noteq> [] \<and> (\<forall>c\<in>set v. identifier_rune c) \<and> \<not> is_digit (hd v) \<and> hd v \<noteq> CHR ''-'' \<and>
     \<not> (hd v = CHR ''.'' \<and> next_is CHR ''.'' (tl v))"

definition number_ok :: "string \<Rightarrow> bool" where
  "number_ok v \<longleftrightarrow>
     (\<exists>ip fp. ip \<noteq> [] \<and> (\<forall>c\<in>set ip. is_digit c) \<and> (\<forall>c\<in>set fp. is_digit c) \<and>
        (v = ip \<or> v = ip @ CHR ''.'' # fp))"

definition symbol_values :: "token_type \<Rightarrow> string list" where
  "symbol_values t =
     (case t of
        TokenComma \<Rightarrow> ['','']
      | TokenEqual \<Rightarrow> [''='']
      | TokenNotEqual \<Rightarrow> [''!='', ''<>'']
      | TokenLess \<Rightarrow> [''<'']
      | TokenLessEqual \<Rightarrow> [''<='']
      | TokenGreater \<Rightarrow> [''>'']
      | TokenGreaterEqual \<Rightarrow> [''>='']
      | TokenLeftBracket \<Rightarrow> [''['']
      | TokenRightBracket \<Rightarrow> ['']'']
      | TokenDash \<Rightarrow> [''-'']
      | TokenArrow \<Rightarrow> [''->'']
      | TokenStar \<Rightarrow> [''*'']
      | TokenRange \<Rightarrow> [''..'']
      | _ \<Rightarrow> [])"

definition token_ok :: "token \<Rightarrow> bool" where
  "token_ok t \<longleftrightarrow>
     (case tok_type t of
        TokenEOF \<Rightarrow> False
      | TokenIdentifier \<Rightarrow> identifier_ok (tok_value t)
      | TokenNumber \<Rightarrow> number_ok (tok_value t)
      | TokenString \<Rightarrow> True
      | ty \<Rightarrow> tok_value t \<in> set (symbol_values ty))"

lemma identifier_not_symbol:
  "identifier_rune c \<Longrightarrow>
   c \<notin> set '',=!<>[]*'' \<and> c \<noteq> CHR 0x22 \<and> \<not> is_space c"
  by (auto simp: identifier_rune_def is_letter_def is_digit_def is_space_def rune_def)

lemma digit_identifier: "is_digit c \<Longrightarrow> identifier_rune c"
  by (simp add: identifier_rune_def)

lemma lex_number_ok: "is_digit c \<Longrightarrow> lex_number (c # s) = (v, r) \<Longrightarrow> number_ok v"
proof -
  assume c: "is_digit c" and v: "lex_number (c # s) = (v, r)"
  let ?ip = "takeWhile is_digit (c # s)"
  have *: "\<forall>d\<in>set (takeWhile is_digit t). is_digit d" for t
    by (auto dest: set_takeWhileD)
  from v have "\<exists>fp. (\<forall>d\<in>set fp. is_digit d) \<and> (v = ?ip \<or> v = ?ip @ CHR ''.'' # fp)"
    using * unfolding lex_number_def Let_def
    by (cases "dropWhile is_digit (c # s)") (auto split: if_splits intro: exI [of _ "[]"])
  moreover have "?ip \<noteq> []" using c by simp
  ultimately show ?thesis unfolding number_ok_def using * [of "c # s"] by metis
qed

lemma lex_identifier_ok:
  assumes "identifier_rune c" "\<not> is_digit c" "c \<noteq> CHR ''-''"
    and "\<not> (c = CHR ''.'' \<and> next_is CHR ''.'' s)"
  shows "identifier_ok (takeWhile identifier_rune (c # s))"
proof -
  have "\<forall>d\<in>set (takeWhile identifier_rune s). identifier_rune d"
    by (auto dest: set_takeWhileD)
  then show ?thesis
    using assms by (cases s) (auto simp: identifier_ok_def next_is_def)
qed

lemma lex_token_ok: "lex_token ch s = Inr (t, r) \<Longrightarrow> token_ok t"
  using lex_number_ok [of ch s] lex_identifier_ok [of ch s]
  by (auto simp: lex_token_def token_ok_def symbol_values_def lex_identifier_def res_simps
      split: if_splits prod.splits)

text \<open>A successful scan is a list of well-formed tokens and the end marker, which occurs once.\<close>

lemma lex_shape: "lex s = Inr ts \<Longrightarrow> \<exists>us. ts = us @ [eof_token] \<and> (\<forall>t\<in>set us. token_ok t)"
proof (induction s arbitrary: ts rule: lex.induct)
  case (1 s)
  show ?case
  proof (cases "skip_space s")
    case Nil
    with "1.prems" show ?thesis by (subst (asm) lex.simps) auto
  next
    case (Cons ch r)
    with "1.prems" obtain t r' us where t: "lex_token ch r = Inr (t, r')"
      and us: "lex r' = Inr us" "ts = t # us"
      by (subst (asm) lex.simps) (auto simp: res_simps split: sum.splits)
    from "1.IH" [OF Cons t _ us(1)] obtain vs
      where "us = vs @ [eof_token]" "\<forall>t\<in>set vs. token_ok t" by auto
    with us lex_token_ok [OF t] have "ts = (t # vs) @ [eof_token] \<and> (\<forall>u\<in>set (t # vs). token_ok u)"
      by simp
    then show ?thesis by blast
  qed
qed

section \<open>Printing tokens\<close>

text \<open>Text that scans to a given token: strings are quoted, with quotes and backslashes escaped.\<close>

fun escape_string :: "string \<Rightarrow> string" where
  "escape_string [] = []"
| "escape_string (c # s) =
     (if c = CHR 0x22 \<or> c = CHR 0x5C then CHR 0x5C # c # escape_string s else c # escape_string s)"

definition token_text :: "token \<Rightarrow> string" where
  "token_text t =
     (if tok_type t = TokenString then CHR 0x22 # escape_string (tok_value t) @ [CHR 0x22]
      else tok_value t)"

definition unlex :: "token list \<Rightarrow> string" where
  "unlex ts = concat (map (\<lambda>t. token_text t @ '' '') ts)"

lemma lex_string_escape: "lex_string b (escape_string v @ CHR 0x22 # s) = Inr (b @ v, s)"
  by (induction v arbitrary: b) auto

lemma takeWhile_space:
  "\<forall>c\<in>set v. P c \<Longrightarrow> \<not> P CHR '' '' \<Longrightarrow>
   takeWhile P (v @ CHR '' '' # s) = v \<and> dropWhile P (v @ CHR '' '' # s) = CHR '' '' # s"
  by (induction v) auto

lemma space_not_identifier [simp]: "\<not> identifier_rune CHR '' ''" "\<not> is_digit CHR '' ''"
  by (simp_all add: identifier_rune_def is_letter_def is_digit_def rune_def)

lemma dot_not_digit [simp]: "\<not> is_digit CHR ''.''"
  by (simp add: is_digit_def rune_def)

lemma lex_number_text:
  assumes "number_ok v"
  shows "lex_number (v @ CHR '' '' # s) = (v, CHR '' '' # s)"
proof -
  from assms obtain ip fp where ip: "ip \<noteq> []" "\<forall>c\<in>set ip. is_digit c"
    and fp: "\<forall>c\<in>set fp. is_digit c" and v: "v = ip \<or> v = ip @ CHR ''.'' # fp"
    by (auto simp: number_ok_def)
  have split: "takeWhile is_digit (ip @ c # t) = ip" "dropWhile is_digit (ip @ c # t) = c # t"
    if "\<not> is_digit c" for c t
    using ip(2) that by (induction ip) auto
  have dot: "\<not> next_is CHR ''.'' (fp @ CHR '' '' # s)"
    using fp by (cases fp) (auto simp: next_is_def)
  show ?thesis
    using v
  proof
    assume "v = ip"
    then show ?thesis
      using takeWhile_space [OF ip(2), of s] by (simp add: lex_number_def)
  next
    assume "v = ip @ CHR ''.'' # fp"
    then show ?thesis
      using split [of "CHR ''.''" "fp @ CHR '' '' # s"] takeWhile_space [OF fp, of s] dot
      by (simp add: lex_number_def)
  qed
qed

lemma number_ok_hd: "number_ok v \<Longrightarrow> \<exists>c w. v = c # w \<and> is_digit c"
  by (auto simp: number_ok_def neq_Nil_conv)

text \<open>The first rune of a token's text is not a space, and scanning from it gives the token.\<close>

lemma digit_not_symbol:
  "is_digit c \<Longrightarrow> c \<notin> set '',=!<>[]*.-'' \<and> c \<noteq> CHR 0x22"
  by (auto simp: is_digit_def rune_def)

lemma lex_token_identifier:
  assumes "identifier_ok v"
  shows "\<exists>c w. v = c # w \<and> lex_token c (w @ CHR '' '' # s) = Inr (Token TokenIdentifier v, CHR '' '' # s)"
proof -
  from assms obtain c w where v: "v = c # w" by (cases v) (auto simp: identifier_ok_def)
  then have c: "identifier_rune c" "\<not> is_digit c" "c \<noteq> CHR ''-''"
      "\<not> (c = CHR ''.'' \<and> next_is CHR ''.'' w)"
    using assms by (auto simp: identifier_ok_def)
  then have dots: "\<not> (c = CHR ''.'' \<and> next_is CHR ''.'' (w @ CHR '' '' # s))"
    by (cases w) (auto simp: next_is_def)
  have "lex_identifier (c # w @ CHR '' '' # s) = (v, CHR '' '' # s)"
    using takeWhile_space [of v identifier_rune s] assms v
    by (simp add: lex_identifier_def identifier_ok_def)
  with v c dots identifier_not_symbol [OF c(1)] show ?thesis
    by (simp add: lex_token_def)
qed

lemma lex_token_number:
  assumes "number_ok v"
  shows "\<exists>c w. v = c # w \<and> lex_token c (w @ CHR '' '' # s) = Inr (Token TokenNumber v, CHR '' '' # s)"
proof -
  from number_ok_hd [OF assms] obtain c w where v: "v = c # w" and c: "is_digit c" by blast
  with lex_number_text [OF assms, of s] digit_not_symbol [OF c] show ?thesis
    by (simp add: lex_token_def)
qed

lemma lex_token_symbol:
  "v \<in> set (symbol_values ty) \<Longrightarrow> v \<noteq> [] \<and> \<not> is_space (hd v) \<and>
   lex_token (hd v) (tl v @ CHR '' '' # s) = Inr (Token ty v, CHR '' '' # s)"
  apply (cases ty; simp add: symbol_values_def)
  apply (simp_all add: is_space_def rune_def)
  apply (simp_all add: lex_token_def next_is_def)
  by (elim disjE; simp)

lemma lex_token_text:
  assumes "token_ok t"
  shows "\<exists>c w. token_text t = c # w \<and> \<not> is_space c \<and>
           lex_token c (w @ CHR '' '' # s) = Inr (t, CHR '' '' # s)"
proof (cases t)
  case (Token ty v)
  show ?thesis
  proof (cases "ty \<in> {TokenIdentifier, TokenNumber, TokenString}")
    case False
    with assms Token have "v \<in> set (symbol_values ty)"
      by (auto simp: token_ok_def split: token_type.splits)
    from lex_token_symbol [OF this, of s] False Token show ?thesis
      by (intro exI [of _ "hd v"] exI [of _ "tl v"]) (auto simp: token_text_def)
  next
    case True
    then consider "ty = TokenIdentifier" | "ty = TokenNumber" | "ty = TokenString" by auto
    then show ?thesis
    proof cases
      case 1
      with assms Token have v: "identifier_ok v" by (simp add: token_ok_def)
      from lex_token_identifier [OF v, of s] v 1 Token show ?thesis
        by (auto simp: token_text_def identifier_ok_def identifier_not_symbol)
    next
      case 2
      with assms Token have v: "number_ok v" by (simp add: token_ok_def)
      with number_ok_hd [OF v] lex_token_number [OF v, of s] Token 2 show ?thesis
        by (auto simp: token_text_def identifier_not_symbol digit_identifier)
    next
      case 3
      have "\<not> is_space CHR 0x22 \<and> lex_token CHR 0x22 (escape_string v @ CHR 0x22 # CHR '' '' # s) =
          Inr (Token TokenString v, CHR '' '' # s)"
        by (simp add: lex_token_def lex_string_escape is_space_def rune_def)
      with 3 Token show ?thesis by (simp add: token_text_def)
    qed
  qed
qed

lemma lex_unlex: "\<forall>t\<in>set ts. token_ok t \<Longrightarrow> lex (unlex ts) = Inr (ts @ [eof_token])"
proof -
  have space: "lex (CHR '' '' # s) = lex s" for s
    by (subst (1 2) lex.simps) (simp add: skip_space_def is_space_def rune_def)
  have "\<forall>t\<in>set ts. token_ok t \<Longrightarrow> lex (unlex ts) = Inr (ts @ [eof_token])"
  proof (induction ts)
    case Nil
    show ?case by (subst lex.simps) (simp add: unlex_def skip_space_def)
  next
    case (Cons t ts)
    from Cons.prems lex_token_text [of t "unlex ts"] obtain c w
      where t: "token_text t = c # w" "\<not> is_space c"
        "lex_token c (w @ CHR '' '' # unlex ts) = Inr (t, CHR '' '' # unlex ts)" by auto
    then have "lex (unlex (t # ts)) = res_map (\<lambda>us. t # us) (lex (CHR '' '' # unlex ts))"
      by (subst lex.simps) (simp add: unlex_def skip_space_def)
    with Cons show ?case by (simp add: space)
  qed
  then show "\<forall>t\<in>set ts. token_ok t \<Longrightarrow> lex (unlex ts) = Inr (ts @ [eof_token])" .
qed

end
