(* ===== verification/Query_Parser.thy ===== *)
theory Query_Parser imports Query_Lexer Graph_Domain begin

text \<open>
  The recursive-descent parser of the graph query language,
  memory/internal/memory/graph/query/parser.go and the statement types of types.go. The parser
  (a token slice and a position) is the list of the tokens not yet read; past its end the
  current token is the end marker, as in \<open>current\<close>. A parsing method returns its error, or its
  result and the tokens left.
\<close>

section \<open>Statements\<close>

datatype statement_mode =
    StatementFind | StatementMatch | StatementInsertNode | StatementInsertEdge
  | StatementSetNode | StatementSetEdge | StatementDeleteNode | StatementDeleteEdge

datatype condition_operator =
    OperatorEqual | OperatorNotEqual | OperatorLessThan | OperatorLessOrEqual
  | OperatorGreaterThan | OperatorGreaterOrEqual

text \<open>The third order is the empty \<open>SortOrder\<close> that a mutation statement keeps.\<close>

datatype sort_order = SortAscending | SortDescending | SortUnset

record condition =
  co_field :: string
  co_operator :: condition_operator
  co_value :: string

record literal =
  li_value :: string
  li_token :: token_type

record assignment =
  as_field :: string
  as_value :: literal

record statement =
  st_mode :: statement_mode
  st_kind :: node_kind
  st_from_kind :: node_kind
  st_relation :: relation_type
  st_to_kind :: node_kind
  st_min_depth :: int
  st_max_depth :: int
  st_node_id :: node_id
  st_edge_id :: edge_id
  st_from_id :: node_id
  st_to_id :: node_id
  st_where :: "condition list"
  st_set :: "assignment list"
  st_group_by :: string
  st_return :: "string list"
  st_order_by :: string
  st_order :: sort_order
  st_limit :: int

text \<open>The statement literal with the given mode and every other field at its zero value.\<close>

definition zero_statement :: "statement_mode \<Rightarrow> statement" where
  "zero_statement m =
     \<lparr>st_mode = m, st_kind = [], st_from_kind = [], st_relation = [], st_to_kind = [],
      st_min_depth = 0, st_max_depth = 0, st_node_id = [], st_edge_id = [], st_from_id = [],
      st_to_id = [], st_where = [], st_set = [], st_group_by = [], st_return = [],
      st_order_by = [], st_order = SortUnset, st_limit = 0\<rparr>"

definition mutating :: "statement \<Rightarrow> bool" where
  "mutating st \<longleftrightarrow>
     st_mode st \<in> {StatementInsertNode, StatementInsertEdge, StatementSetNode, StatementSetEdge,
                   StatementDeleteNode, StatementDeleteEdge}"

datatype parse_error =
    LexFailed lex_error
  | ExpectedLabel string
  | ExpectedKeyword string
  | ExpectedStatement
  | ExpectedNodeOrEdge string
  | ExpectedAssignmentValue string
  | ExpectedOperator string
  | ExpectedValue string
  | BadNodeKind string
  | BadRelation string
  | BadDepth string
  | DepthOutOfRange
  | BadLimit string
  | LimitOutOfRange
  | AmbiguousCount
  | GroupReturn string
  | GroupOrder string
  | UnsupportedMutation string
  | UnexpectedToken string

type_synonym 'a parser = "token list \<Rightarrow> parse_error + 'a \<times> token list"

section \<open>Token cursor\<close>

definition current :: "token list \<Rightarrow> token" where
  "current ts = (case ts of [] \<Rightarrow> eof_token | t # _ \<Rightarrow> t)"

definition cur_type :: "token list \<Rightarrow> token_type" where
  "cur_type ts = tok_type (current ts)"

definition expect :: "token_type \<Rightarrow> string \<Rightarrow> token parser" where
  "expect ty label ts =
     (if tok_type (current ts) \<noteq> ty then Inl (ExpectedLabel label) else Inr (current ts, tl ts))"

definition expect_type :: "token_type \<Rightarrow> string \<Rightarrow> token list \<Rightarrow> parse_error + token list" where
  "expect_type ty label ts = res_map snd (expect ty label ts)"

definition match_type :: "token_type \<Rightarrow> token list \<Rightarrow> bool \<times> token list" where
  "match_type ty ts = (if tok_type (current ts) \<noteq> ty then (False, ts) else (True, tl ts))"

definition match_keyword :: "string \<Rightarrow> token list \<Rightarrow> bool \<times> token list" where
  "match_keyword kw ts =
     (if tok_type (current ts) \<noteq> TokenIdentifier then (False, ts)
      else if equal_fold (tok_value (current ts)) kw then (True, tl ts)
      else (False, ts))"

definition expect_keyword :: "string \<Rightarrow> token list \<Rightarrow> parse_error + token list" where
  "expect_keyword kw ts =
     (case match_keyword kw ts of (ok, r) \<Rightarrow> if ok then Inr r else Inl (ExpectedKeyword kw))"

definition normalize_field :: "string \<Rightarrow> string" where
  "normalize_field f = to_lower (trim_space f)"

definition reject_unsupported :: "token list \<Rightarrow> parse_error + unit" where
  "reject_unsupported ts =
     (let t = current ts
      in if tok_type t \<noteq> TokenIdentifier then Inr ()
         else if to_upper (tok_value t) \<in> {''UPDATE'', ''UPSERT''}
         then Inl (UnsupportedMutation (to_upper (tok_value t)))
         else Inr ())"

section \<open>Terminals of the grammar\<close>

definition parse_node_kind :: "string \<Rightarrow> node_kind parser" where
  "parse_node_kind label ts =
     res_bind (expect TokenIdentifier label ts) (\<lambda>(t, r).
       let kind = to_lower (tok_value t)
       in if \<not> valid_node_kind kind then Inl (BadNodeKind (tok_value t)) else Inr (kind, r))"

definition parse_relation :: "relation_type parser" where
  "parse_relation ts =
     res_bind (expect TokenIdentifier ''relation type'' ts) (\<lambda>(t, r).
       let relation = to_lower (tok_value t)
       in if \<not> valid_relation_type relation then Inl (BadRelation (tok_value t))
          else Inr (relation, r))"

definition parse_id :: "string \<Rightarrow> string parser" where
  "parse_id label ts = res_map (\<lambda>(t, r). (tok_value t, r)) (expect TokenIdentifier label ts)"

definition parse_literal :: "literal parser" where
  "parse_literal ts =
     (let t = current ts
      in if tok_type t \<in> {TokenString, TokenNumber, TokenIdentifier}
         then Inr (\<lparr>li_value = tok_value t, li_token = tok_type t\<rparr>, tl ts)
         else Inl (ExpectedAssignmentValue (tok_value t)))"

definition parse_value :: "string parser" where
  "parse_value ts =
     (let t = current ts
      in if tok_type t \<in> {TokenString, TokenNumber, TokenIdentifier}
         then Inr (tok_value t, tl ts)
         else Inl (ExpectedValue (tok_value t)))"

definition parse_operator :: "condition_operator parser" where
  "parse_operator ts =
     (let t = current ts
      in case tok_type t of
           TokenEqual \<Rightarrow> Inr (OperatorEqual, tl ts)
         | TokenNotEqual \<Rightarrow> Inr (OperatorNotEqual, tl ts)
         | TokenLess \<Rightarrow> Inr (OperatorLessThan, tl ts)
         | TokenLessEqual \<Rightarrow> Inr (OperatorLessOrEqual, tl ts)
         | TokenGreater \<Rightarrow> Inr (OperatorGreaterThan, tl ts)
         | TokenGreaterEqual \<Rightarrow> Inr (OperatorGreaterOrEqual, tl ts)
         | _ \<Rightarrow> Inl (ExpectedOperator (tok_value t)))"

text \<open>One round of each of the three list loops.\<close>

definition parse_assignment :: "assignment parser" where
  "parse_assignment ts =
     res_bind (expect TokenIdentifier ''assignment field'' ts) (\<lambda>(t, r).
     res_bind (expect_type TokenEqual ''='' r) (\<lambda>r.
     res_bind (parse_literal r) (\<lambda>(v, r).
     Inr (\<lparr>as_field = normalize_field (tok_value t), as_value = v\<rparr>, r))))"

definition parse_condition :: "condition parser" where
  "parse_condition ts =
     res_bind (expect TokenIdentifier ''where field'' ts) (\<lambda>(t, r).
     res_bind (parse_operator r) (\<lambda>(oper, r).
     res_bind (parse_value r) (\<lambda>(v, r).
     Inr (\<lparr>co_field = normalize_field (tok_value t), co_operator = oper, co_value = v\<rparr>, r))))"

definition parse_field :: "string parser" where
  "parse_field ts =
     res_map (\<lambda>(t, r). (normalize_field (tok_value t), r)) (expect TokenIdentifier ''return field'' ts)"

named_theorems parser_defs "the definitions of the parsing methods"
declare expect_def [parser_defs] expect_type_def [parser_defs] match_type_def [parser_defs]
  match_keyword_def [parser_defs] expect_keyword_def [parser_defs] parse_node_kind_def [parser_defs]
  parse_relation_def [parser_defs] parse_id_def [parser_defs] parse_literal_def [parser_defs]
  parse_value_def [parser_defs] parse_assignment_def [parser_defs]
  parse_condition_def [parser_defs] parse_field_def [parser_defs]

text \<open>What a method leaves is a part of what it was given; a round of a loop reads something.\<close>

lemma expect_Inr:
  "expect ty label ts = Inr (t, r) \<Longrightarrow> ty \<noteq> TokenEOF \<Longrightarrow> ts = t # r \<and> tok_type t = ty"
  by (cases ts) (auto simp: expect_def current_def split: if_splits)

lemma expect_type_Inr:
  "expect_type ty label ts = Inr r \<Longrightarrow> ty \<noteq> TokenEOF \<Longrightarrow> \<exists>t. ts = t # r \<and> tok_type t = ty"
  by (auto simp: expect_type_def res_simps dest: expect_Inr)

lemma parse_literal_Inr:
  "parse_literal ts = Inr (v, r) \<Longrightarrow>
   \<exists>t. ts = t # r \<and> v = \<lparr>li_value = tok_value t, li_token = tok_type t\<rparr> \<and>
       tok_type t \<in> {TokenString, TokenNumber, TokenIdentifier}"
  by (cases ts) (auto simp: parse_literal_def current_def Let_def split: if_splits)

lemma parse_value_Inr: "parse_value ts = Inr (v, r) \<Longrightarrow> \<exists>t. ts = t # r"
  by (cases ts) (auto simp: parse_value_def current_def Let_def split: if_splits)

lemma parse_operator_Inr: "parse_operator ts = Inr (v, r) \<Longrightarrow> \<exists>t. ts = t # r"
  by (cases ts) (auto simp: parse_operator_def current_def Let_def split: token_type.splits)

lemma parse_assignment_Inr:
  "parse_assignment ts = Inr (a, r) \<Longrightarrow>
   \<exists>t e l. ts = t # e # l # r \<and> tok_type t = TokenIdentifier \<and>
     a = \<lparr>as_field = normalize_field (tok_value t),
          as_value = \<lparr>li_value = tok_value l, li_token = tok_type l\<rparr>\<rparr> \<and>
     tok_type l \<in> {TokenString, TokenNumber, TokenIdentifier}"
  by (auto simp: parse_assignment_def split: prod.splits dest!: expect_Inr expect_type_Inr parse_literal_Inr)

lemma parse_condition_Inr:
  "parse_condition ts = Inr (c, r) \<Longrightarrow>
   \<exists>t p l. ts = t # p # l # r \<and> tok_type t = TokenIdentifier \<and>
     co_field c = normalize_field (tok_value t)"
  by (auto simp: parse_condition_def split: prod.splits
      dest!: expect_Inr parse_operator_Inr parse_value_Inr)

lemma parse_field_Inr:
  "parse_field ts = Inr (f, r) \<Longrightarrow>
   \<exists>t. ts = t # r \<and> tok_type t = TokenIdentifier \<and> f = normalize_field (tok_value t)"
  by (auto simp: parse_field_def res_simps dest!: expect_Inr)

section \<open>List loops\<close>

text \<open>\<open>assignments\<close>, \<open>conditions\<close> and \<open>fieldList\<close>.\<close>

function parse_assignments :: "assignment list parser" where
  "parse_assignments ts =
     (case parse_assignment ts of
        Inl e \<Rightarrow> Inl e
      | Inr (a, r) \<Rightarrow>
          if tok_type (current r) \<noteq> TokenComma then Inr ([a], r)
          else res_map (\<lambda>(as, r). (a # as, r)) (parse_assignments (tl r)))"
  by pat_completeness auto
termination
  by (relation "measure length") (auto dest!: parse_assignment_Inr)

function parse_conditions :: "condition list parser" where
  "parse_conditions ts =
     (case parse_condition ts of
        Inl e \<Rightarrow> Inl e
      | Inr (c, r) \<Rightarrow>
          (case match_keyword ''AND'' r of
             (ok, r') \<Rightarrow>
               if \<not> ok then Inr ([c], r')
               else res_map (\<lambda>(cs, r). (c # cs, r)) (parse_conditions r')))"
  by pat_completeness auto
termination
  by (relation "measure length")
     (auto dest!: parse_condition_Inr simp: match_keyword_def split: if_splits)

function parse_fields :: "string list parser" where
  "parse_fields ts =
     (case parse_field ts of
        Inl e \<Rightarrow> Inl e
      | Inr (f, r) \<Rightarrow>
          if tok_type (current r) \<noteq> TokenComma then Inr ([f], r)
          else res_map (\<lambda>(fs, r). (f # fs, r)) (parse_fields (tl r)))"
  by pat_completeness auto
termination
  by (relation "measure length") (auto dest!: parse_field_Inr)

declare parse_assignments.simps [simp del] parse_conditions.simps [simp del]
  parse_fields.simps [simp del]

section \<open>Clauses\<close>

definition required_set :: "assignment list parser" where
  "required_set ts = res_bind (expect_keyword ''SET'' ts) parse_assignments"

definition optional_set :: "assignment list parser" where
  "optional_set ts =
     (case match_keyword ''SET'' ts of
        (ok, r) \<Rightarrow> if \<not> ok then Inr ([], r) else parse_assignments r)"

definition optional_return :: "statement \<Rightarrow> statement parser" where
  "optional_return st ts =
     (case match_keyword ''RETURN'' ts of
        (ok, r) \<Rightarrow>
          if \<not> ok then Inr (st, r)
          else res_map (\<lambda>(fs, r). (st\<lparr>st_return := fs\<rparr>, r)) (parse_fields r))"

definition parse_depth_number :: "string \<Rightarrow> int parser" where
  "parse_depth_number label ts =
     res_bind (expect TokenNumber label ts) (\<lambda>(t, r).
       case atoi (tok_value t) of None \<Rightarrow> Inl (BadDepth (tok_value t)) | Some n \<Rightarrow> Inr (n, r))"

definition traversal_depth :: "(int \<times> int) parser" where
  "traversal_depth ts =
     (case match_type TokenStar ts of
        (star, r) \<Rightarrow>
          if \<not> star then Inr ((1, 1), r)
          else
            res_bind
              (if tok_type (current r) = TokenNumber
               then res_map (\<lambda>(n, r). ((n, n), r)) (parse_depth_number ''minimum traversal depth'' r)
               else Inr ((1, 6), r)) (\<lambda>((lo, hi), r).
            res_bind
              (case match_type TokenRange r of
                 (ranged, r') \<Rightarrow>
                   if \<not> ranged then Inr (hi, r')
                   else parse_depth_number ''maximum traversal depth'' r') (\<lambda>(hi, r).
            if lo \<le> 0 \<or> hi < lo \<or> hi > 12 then Inl DepthOutOfRange else Inr ((lo, hi), r))))"

definition where_clause :: "statement \<Rightarrow> statement parser" where
  "where_clause st ts =
     (case match_keyword ''WHERE'' ts of
        (ok, r) \<Rightarrow>
          if \<not> ok then Inr (st, r)
          else res_map (\<lambda>(cs, r). (st\<lparr>st_where := cs\<rparr>, r)) (parse_conditions r))"

definition group_clause :: "statement \<Rightarrow> statement parser" where
  "group_clause st ts =
     (case match_keyword ''GROUP'' ts of
        (ok, r) \<Rightarrow>
          if \<not> ok then Inr (st, r)
          else res_bind (expect_keyword ''BY'' r) (\<lambda>r.
               res_bind (expect TokenIdentifier ''group field'' r) (\<lambda>(t, r).
               let g = normalize_field (tok_value t)
               in Inr (st\<lparr>st_group_by := g, st_return := [g, ''count'']\<rparr>, r))))"

definition order_clause :: "statement \<Rightarrow> statement parser" where
  "order_clause st ts =
     (case match_keyword ''ORDER'' ts of
        (ok, r) \<Rightarrow>
          if \<not> ok then Inr (st, r)
          else res_bind (expect_keyword ''BY'' r) (\<lambda>r.
               res_bind (expect TokenIdentifier ''order field'' r) (\<lambda>(t, r).
               let st = st\<lparr>st_order_by := normalize_field (tok_value t)\<rparr>
               in case match_keyword ''DESC'' r of
                    (desc, r') \<Rightarrow>
                      if desc then Inr (st\<lparr>st_order := SortDescending\<rparr>, r')
                      else Inr (st\<lparr>st_order := SortAscending\<rparr>, snd (match_keyword ''ASC'' r')))))"

definition limit_clause :: "statement \<Rightarrow> statement parser" where
  "limit_clause st ts =
     (case match_keyword ''LIMIT'' ts of
        (ok, r) \<Rightarrow>
          if \<not> ok then Inr (st, r)
          else res_bind (expect TokenNumber ''limit'' r) (\<lambda>(t, r).
               case atoi (tok_value t) of
                 None \<Rightarrow> Inl (BadLimit (tok_value t))
               | Some v \<Rightarrow>
                   if v \<le> 0 \<or> v > 100 then Inl LimitOutOfRange
                   else Inr (st\<lparr>st_limit := v\<rparr>, r)))"

definition trailing_clauses :: "statement \<Rightarrow> statement parser" where
  "trailing_clauses st ts =
     res_bind (where_clause st ts) (\<lambda>(st, r).
     res_bind (group_clause st r) (\<lambda>(st, r).
     res_bind (optional_return st r) (\<lambda>(st, r).
     res_bind (order_clause st r) (\<lambda>(st, r).
     limit_clause st r))))"

definition validate_grouped :: "statement \<Rightarrow> parse_error + unit" where
  "validate_grouped st =
     (if st_group_by st = [] then Inr ()
      else if st_group_by st = ''count'' then Inl AmbiguousCount
      else if \<exists>f\<in>set (st_return st). f \<noteq> st_group_by st \<and> f \<noteq> ''count''
      then Inl (GroupReturn (st_group_by st))
      else if st_order_by st \<noteq> [] \<and> st_order_by st \<noteq> st_group_by st \<and> st_order_by st \<noteq> ''count''
      then Inl (GroupOrder (st_group_by st))
      else Inr ())"

section \<open>Statements of the grammar\<close>

definition find_statement :: "statement parser" where
  "find_statement ts =
     res_bind (parse_node_kind ''node kind'' ts) (\<lambda>(kind, r).
     Inr ((zero_statement StatementFind)
            \<lparr>st_kind := kind, st_return := [''id'', ''title''], st_order := SortAscending,
             st_limit := 20\<rparr>, r))"

definition match_statement :: "statement parser" where
  "match_statement ts =
     res_bind (parse_node_kind ''from node kind'' ts) (\<lambda>(from_kind, r).
     res_bind (expect_type TokenDash ''-'' r) (\<lambda>r.
     res_bind (expect_type TokenLeftBracket ''['' r) (\<lambda>r.
     res_bind (parse_relation r) (\<lambda>(relation, r).
     res_bind (traversal_depth r) (\<lambda>((lo, hi), r).
     res_bind (expect_type TokenRightBracket '']'' r) (\<lambda>r.
     res_bind (expect_type TokenArrow ''->'' r) (\<lambda>r.
     res_bind (parse_node_kind ''to node kind'' r) (\<lambda>(to_kind, r).
     Inr ((zero_statement StatementMatch)
            \<lparr>st_from_kind := from_kind, st_relation := relation, st_to_kind := to_kind,
             st_min_depth := lo, st_max_depth := hi,
             st_return :=
               (if hi > 1
                then [''from.id'', ''from.title'', ''path.depth'', ''to.id'', ''to.title'']
                else [''from.id'', ''from.title'', ''edge.type'', ''to.id'', ''to.title'']),
             st_order := SortAscending, st_limit := 20\<rparr>, r)))))))))"

definition insert_statement :: "statement parser" where
  "insert_statement ts =
     (case match_keyword ''NODE'' ts of
        (is_node, r) \<Rightarrow>
          if is_node then
            res_bind (parse_node_kind ''node kind'' r) (\<lambda>(kind, r).
            res_bind (required_set r) (\<lambda>(as, r).
            optional_return
              ((zero_statement StatementInsertNode)
                 \<lparr>st_kind := kind, st_set := as, st_return := [''id'', ''kind'', ''title'']\<rparr>) r))
          else
            (case match_keyword ''EDGE'' r of
               (is_edge, r) \<Rightarrow>
                 if is_edge then
                   res_bind (parse_id ''from node id'' r) (\<lambda>(from_id, r).
                   res_bind (expect_type TokenDash ''-'' r) (\<lambda>r.
                   res_bind (expect_type TokenLeftBracket ''['' r) (\<lambda>r.
                   res_bind (parse_relation r) (\<lambda>(relation, r).
                   res_bind (expect_type TokenRightBracket '']'' r) (\<lambda>r.
                   res_bind (expect_type TokenArrow ''->'' r) (\<lambda>r.
                   res_bind (parse_id ''to node id'' r) (\<lambda>(to_id, r).
                   res_bind (optional_set r) (\<lambda>(as, r).
                   optional_return
                     ((zero_statement StatementInsertEdge)
                        \<lparr>st_from_id := from_id, st_relation := relation, st_to_id := to_id,
                         st_set := as,
                         st_return := [''edge.id'', ''edge.type'', ''edge.from_id'', ''edge.to_id'']\<rparr>)
                     r))))))))
                 else Inl (ExpectedNodeOrEdge ''INSERT'')))"

definition set_statement :: "statement parser" where
  "set_statement ts =
     (case match_keyword ''NODE'' ts of
        (is_node, r) \<Rightarrow>
          if is_node then
            res_bind (parse_id ''node id'' r) (\<lambda>(nid, r).
            res_bind (required_set r) (\<lambda>(as, r).
            optional_return
              ((zero_statement StatementSetNode)
                 \<lparr>st_node_id := nid, st_set := as, st_return := [''id'', ''kind'', ''title'']\<rparr>) r))
          else
            (case match_keyword ''EDGE'' r of
               (is_edge, r) \<Rightarrow>
                 if is_edge then
                   res_bind (parse_id ''edge id'' r) (\<lambda>(eid, r).
                   res_bind (required_set r) (\<lambda>(as, r).
                   optional_return
                     ((zero_statement StatementSetEdge)
                        \<lparr>st_edge_id := eid, st_set := as,
                         st_return := [''edge.id'', ''edge.type'', ''edge.status'']\<rparr>) r))
                 else Inl (ExpectedNodeOrEdge ''SET'')))"

definition delete_statement :: "statement parser" where
  "delete_statement ts =
     (case match_keyword ''NODE'' ts of
        (is_node, r) \<Rightarrow>
          if is_node then
            res_bind (parse_id ''node id'' r) (\<lambda>(nid, r).
            optional_return
              ((zero_statement StatementDeleteNode)
                 \<lparr>st_node_id := nid, st_return := [''id'', ''lifecycle_status'']\<rparr>) r)
          else
            (case match_keyword ''EDGE'' r of
               (is_edge, r) \<Rightarrow>
                 if is_edge then
                   res_bind (parse_id ''edge id'' r) (\<lambda>(eid, r).
                   optional_return
                     ((zero_statement StatementDeleteEdge)
                        \<lparr>st_edge_id := eid,
                         st_return := [''edge.id'', ''edge.lifecycle_status'']\<rparr>) r)
                 else Inl (ExpectedNodeOrEdge ''DELETE'')))"

text \<open>The keyword switch at the head of \<open>statement\<close>: the first keyword that matches.\<close>

definition statement_head :: "statement parser" where
  "statement_head ts =
     (if fst (match_keyword ''FIND'' ts) then find_statement (tl ts)
      else if fst (match_keyword ''MATCH'' ts) then match_statement (tl ts)
      else if fst (match_keyword ''INSERT'' ts) then insert_statement (tl ts)
      else if fst (match_keyword ''SET'' ts) then set_statement (tl ts)
      else if fst (match_keyword ''DELETE'' ts) then delete_statement (tl ts)
      else Inl ExpectedStatement)"

definition parse_statement :: "token list \<Rightarrow> parse_error + statement" where
  "parse_statement ts =
     res_bind (reject_unsupported ts) (\<lambda>_.
     res_bind (statement_head ts) (\<lambda>(st, r).
     res_bind
       (if mutating st then Inr (st, r)
        else res_bind (trailing_clauses st r) (\<lambda>(st, r).
             res_bind (validate_grouped st) (\<lambda>_. Inr (st, r)))) (\<lambda>(st, r).
     if tok_type (current r) \<noteq> TokenEOF then Inl (UnexpectedToken (tok_value (current r)))
     else Inr st)))"

definition parse :: "string \<Rightarrow> parse_error + statement" where
  "parse input =
     (case lex input of Inl e \<Rightarrow> Inl (LexFailed e) | Inr ts \<Rightarrow> parse_statement ts)"

end
