(* ===== verification/Query_Values.thy ===== *)
theory Query_Values imports Query_Parser Go_Float Go_Time begin

text \<open>
  Typed query values and the comparison of a field with a literal:
  memory/internal/memory/graph/query/conditions.go, \<open>comparableString\<close> and \<open>compareRowValues\<close>
  of candidates.go, and normalize/time.go. A value of Go's type \<open>any\<close> is a \<open>qval\<close>, with one
  constructor for each dynamic type the executor stores in a row; \<open>VNil\<close> is the missing entry
  of a row.
\<close>

datatype qval =
    VStr string
  | VBool bool
  | VFloat f64
  | VInt int
  | VTime gotime
  | VStrs "string list"
  | VNil

section \<open>Time and number literals\<close>

text \<open>\<open>ParseFlexibleTime\<close>. The layouts RFC3339Nano and RFC3339 accept the same text.\<close>

definition parse_flexible_time :: "string \<Rightarrow> gotime option" where
  "parse_flexible_time v =
     (let s = trim_space v
      in case parse_rfc3339 s of
           Some t \<Rightarrow> Some t
         | None \<Rightarrow> parse_date_only s)"

definition parse_condition_time :: "string \<Rightarrow> gotime option" where
  "parse_condition_time v = parse_flexible_time v"

definition time_condition_value :: "qval \<Rightarrow> gotime option" where
  "time_condition_value v =
     (case v of
        VTime t \<Rightarrow> Some t
      | VStr s \<Rightarrow> parse_condition_time s
      | _ \<Rightarrow> None)"

text \<open>\<open>float64(i)\<close>.\<close>

definition f64_of_int :: "int \<Rightarrow> f64" where
  "f64_of_int i = (case round_f64 (of_int i) of Some q \<Rightarrow> Fin q | None \<Rightarrow> if i < 0 then NInf else PInf)"

definition numeric_value :: "qval \<Rightarrow> bool \<Rightarrow> f64 option" where
  "numeric_value v parse_strings =
     (case v of
        VInt i \<Rightarrow> Some (f64_of_int i)
      | VFloat f \<Rightarrow> Some f
      | VStr s \<Rightarrow> if \<not> parse_strings then None else parse_float (trim_space s)
      | _ \<Rightarrow> None)"

definition compare_times :: "gotime \<Rightarrow> gotime \<Rightarrow> int" where
  "compare_times l r = (if l < r then -1 else if l > r then 1 else 0)"

definition compare_numbers :: "f64 \<Rightarrow> f64 \<Rightarrow> int" where
  "compare_numbers l r = (if f64_less l r then -1 else if f64_less r l then 1 else 0)"

section \<open>Values as text\<close>

definition format_bool :: "bool \<Rightarrow> string" where
  "format_bool b = (if b then ''true'' else ''false'')"

definition parse_bool :: "string \<Rightarrow> bool option" where
  "parse_bool s =
     (if s \<in> {''1'', ''t'', ''T'', ''true'', ''TRUE'', ''True''} then Some True
      else if s \<in> {''0'', ''f'', ''F'', ''false'', ''FALSE'', ''False''} then Some False
      else None)"

definition comparable_string :: "qval \<Rightarrow> string" where
  "comparable_string v =
     (case v of
        VStr s \<Rightarrow> s
      | VBool b \<Rightarrow> format_bool b
      | VFloat f \<Rightarrow> format_float f
      | VInt i \<Rightarrow> itoa i
      | VTime t \<Rightarrow> format_rfc3339_nano t
      | VStrs ss \<Rightarrow> join_str ss '',''
      | VNil \<Rightarrow> ''<nil>'')"

section \<open>Conditions\<close>

definition compare_condition_values :: "qval \<Rightarrow> string \<Rightarrow> int" where
  "compare_condition_values actual expected =
     (let text = str_compare (to_lower (comparable_string actual)) (to_lower expected);
          number = (case (numeric_value actual True, numeric_value (VStr expected) True) of
                      (Some l, Some r) \<Rightarrow> compare_numbers l r
                    | _ \<Rightarrow> text)
      in case (time_condition_value actual, parse_condition_time expected) of
           (Some l, Some r) \<Rightarrow> compare_times l r
         | _ \<Rightarrow> number)"

definition ordered_operator :: "condition_operator \<Rightarrow> bool" where
  "ordered_operator p \<longleftrightarrow>
     (case p of
        OperatorLessThan \<Rightarrow> True
      | OperatorLessOrEqual \<Rightarrow> True
      | OperatorGreaterThan \<Rightarrow> True
      | OperatorGreaterOrEqual \<Rightarrow> True
      | _ \<Rightarrow> False)"

definition condition_matches :: "condition \<Rightarrow> qval \<Rightarrow> bool" where
  "condition_matches c actual =
     (if ordered_operator (co_operator c) \<and> trim_space (comparable_string actual) = [] then False
      else
        let comparison = compare_condition_values actual (co_value c)
        in case co_operator c of
             OperatorEqual \<Rightarrow> comparison = 0
           | OperatorNotEqual \<Rightarrow> comparison \<noteq> 0
           | OperatorLessThan \<Rightarrow> comparison < 0
           | OperatorLessOrEqual \<Rightarrow> comparison \<le> 0
           | OperatorGreaterThan \<Rightarrow> comparison > 0
           | OperatorGreaterOrEqual \<Rightarrow> comparison \<ge> 0)"

text \<open>\<open>compareRowValues\<close>: numbers count as numbers only when both values are numeric already.\<close>

definition compare_row_values :: "qval \<Rightarrow> qval \<Rightarrow> int" where
  "compare_row_values l r =
     (case (time_condition_value l, time_condition_value r) of
        (Some a, Some b) \<Rightarrow> compare_times a b
      | _ \<Rightarrow>
          (case (numeric_value l False, numeric_value r False) of
             (Some a, Some b) \<Rightarrow> compare_numbers a b
           | _ \<Rightarrow> str_compare (to_lower (comparable_string l)) (to_lower (comparable_string r))))"

section \<open>Lemmas\<close>

lemma compare_times_0 [simp]: "compare_times a b = 0 \<longleftrightarrow> a = b"
  by (auto simp: compare_times_def)

lemma compare_times_antisym: "compare_times b a = - compare_times a b"
  by (auto simp: compare_times_def)

lemma compare_numbers_antisym: "compare_numbers b a = - compare_numbers a b"
  by (auto simp: compare_numbers_def dest: f64_less_asym)

lemma compare_numbers_NaN [simp]: "compare_numbers NaN x = 0" "compare_numbers x NaN = 0"
  by (cases x; simp add: compare_numbers_def)+

lemma compare_numbers_0: "compare_numbers a b = 0 \<longleftrightarrow> a = b \<or> a = NaN \<or> b = NaN"
  by (cases a; cases b) (auto simp: compare_numbers_def)

lemma compare_row_antisym: "compare_row_values r l = - compare_row_values l r"
proof -
  have "compare_times b a + compare_times a b = 0" "compare_numbers x y + compare_numbers y x = 0"
    "str_compare s t + str_compare t s = 0" for a b x y s t
    using compare_times_antisym [of a b] compare_numbers_antisym [of x y] str_compare_antisym [of s t]
    by simp_all
  then show ?thesis
    by (simp add: compare_row_values_def eq_neg_iff_add_eq_0 split: option.split)
qed

lemma compare_row_refl [simp]: "compare_row_values v v = 0"
  using compare_row_antisym [of v v] by simp

text \<open>The six operators are the six relations of one comparison, on a value that is not blank.\<close>

lemma condition_matches_text:
  "trim_space (comparable_string v) \<noteq> [] \<Longrightarrow>
   condition_matches c v =
     (let k = compare_condition_values v (co_value c)
      in case co_operator c of
           OperatorEqual \<Rightarrow> k = 0 | OperatorNotEqual \<Rightarrow> k \<noteq> 0
         | OperatorLessThan \<Rightarrow> k < 0 | OperatorLessOrEqual \<Rightarrow> k \<le> 0
         | OperatorGreaterThan \<Rightarrow> k > 0 | OperatorGreaterOrEqual \<Rightarrow> k \<ge> 0)"
  by (simp add: condition_matches_def Let_def)

end
