(* ===== verification/Query_Rows.thy ===== *)
theory Query_Rows imports Query_Values Graph_Domain "HOL-Library.AList" begin

text \<open>
  Candidates, their fields, and the projection, grouping and ordering of rows:
  memory/internal/memory/graph/query/candidates.go and the sorting and \<open>queryValue\<close> of
  conditions.go. The interface \<open>graphQueryProjector\<close> is its one method \<open>typedField\<close>, a
  function argument \<open>tf\<close> of the generic routines. \<open>sort.Slice\<close> is not stable for more than
  twelve elements in Go; the model orders equal elements as the insertion sort does, and the
  lemmas state only that the result is ordered and has the same elements.
\<close>

type_synonym row = "string \<Rightarrow> qval option"

text \<open>\<open>row[field]\<close> as a Go expression: the nil value for a missing entry.\<close>

definition row_get :: "row \<Rightarrow> string \<Rightarrow> qval" where
  "row_get r f = (case r f of Some v \<Rightarrow> v | None \<Rightarrow> VNil)"

record query_candidate =
  qc_node :: node
  qc_props :: row

record edge_candidate =
  ec_edge :: edge
  ec_props :: row

record match_candidate =
  mc_from :: query_candidate
  mc_edge :: edge
  mc_to :: query_candidate
  mc_node_ids :: "node_id list"
  mc_edge_ids :: "edge_id list"

record path =
  pa_row_index :: int
  pa_depth :: int
  pa_node_ids :: "string list"
  pa_edge_ids :: "string list"

section \<open>Fields\<close>

definition query_value :: "gvalue \<Rightarrow> qval" where
  "query_value v =
     (if gv_type v = ''text'' then VStr (gv_text v)
      else if gv_type v = ''bool'' then
        (case parse_bool (gv_text v) of None \<Rightarrow> VStr (gv_text v) | Some b \<Rightarrow> VBool b)
      else if gv_type v = ''number'' then VFloat (gv_number v)
      else if gv_type v = ''time'' then
        (case gv_time v of None \<Rightarrow> VStr [] | Some t \<Rightarrow> VTime t)
      else if gv_type v = ''json'' then VStr (gv_json v)
      else VStr [])"

definition node_typed_field :: "query_candidate \<Rightarrow> string \<Rightarrow> qval" where
  "node_typed_field c f =
     (let n = qc_node c
      in if f = ''id'' then VStr (nd_id n)
         else if f = ''kind'' then VStr (nd_kind n)
         else if f = ''title'' then VStr (nd_title n)
         else if f = ''summary'' then VStr (nd_summary n)
         else if f = ''lifecycle_status'' \<or> f = ''node_status'' then VStr (nd_status n)
         else if f = ''sensitivity'' then VStr (nd_sensitivity n)
         else if f = ''trust_level'' then VStr (nd_trust n)
         else if f = ''node_confidence'' then VFloat (nd_confidence n)
         else if f = ''node_actor'' then VStr (nd_actor n)
         else if f = ''created_at'' then VTime (nd_created n)
         else if f = ''updated_at'' then VTime (nd_updated n)
         else (case qc_props c f of
                 Some v \<Rightarrow> v
               | None \<Rightarrow>
                   if f = ''status'' then VStr (nd_status n)
                   else if f = ''confidence'' then VFloat (nd_confidence n)
                   else if f = ''actor'' then VStr (nd_actor n)
                   else VStr []))"

definition edge_typed_field :: "edge \<Rightarrow> string \<Rightarrow> qval" where
  "edge_typed_field e f =
     (if f = ''id'' then VStr (ed_id e)
      else if f = ''type'' \<or> f = ''relation_type'' then VStr (ed_type e)
      else if f = ''status'' \<or> f = ''lifecycle_status'' then VStr (ed_status e)
      else if f = ''confidence'' then VFloat (ed_confidence e)
      else if f = ''actor'' then VStr (ed_actor e)
      else if f = ''from_id'' \<or> f = ''from_node_id'' then VStr (ed_from e)
      else if f = ''to_id'' \<or> f = ''to_node_id'' then VStr (ed_to e)
      else if f = ''created_at'' then VTime (ed_created e)
      else if f = ''updated_at'' then VTime (ed_updated e)
      else VStr [])"

definition path_typed_field :: "node_id list \<Rightarrow> edge_id list \<Rightarrow> string \<Rightarrow> qval" where
  "path_typed_field node_ids edge_ids f =
     (if f = ''depth'' then VInt (int (length edge_ids))
      else if f = ''node_ids'' then VStrs node_ids
      else if f = ''edge_ids'' then VStrs edge_ids
      else VStr [])"

definition edge_candidate_field :: "edge_candidate \<Rightarrow> string \<Rightarrow> qval" where
  "edge_candidate_field c f =
     (if has_prefix f ''edge.'' then edge_typed_field (ec_edge c) (trim_prefix f ''edge.'')
      else (case ec_props c f of Some v \<Rightarrow> v | None \<Rightarrow> edge_typed_field (ec_edge c) f))"

definition match_typed_field :: "match_candidate \<Rightarrow> string \<Rightarrow> qval" where
  "match_typed_field c f =
     (if has_prefix f ''from.'' then node_typed_field (mc_from c) (trim_prefix f ''from.'')
      else if has_prefix f ''to.'' then node_typed_field (mc_to c) (trim_prefix f ''to.'')
      else if has_prefix f ''edge.'' then edge_typed_field (mc_edge c) (trim_prefix f ''edge.'')
      else if has_prefix f ''path.''
      then path_typed_field (mc_node_ids c) (mc_edge_ids c) (trim_prefix f ''path.'')
      else VStr [])"

section \<open>Conditions and projection\<close>

definition projector_matches :: "('c \<Rightarrow> string \<Rightarrow> qval) \<Rightarrow> 'c \<Rightarrow> condition list \<Rightarrow> bool" where
  "projector_matches tf c cs \<longleftrightarrow> (\<forall>k\<in>set cs. condition_matches k (tf c (co_field k)))"

definition projector_row :: "('c \<Rightarrow> string \<Rightarrow> qval) \<Rightarrow> 'c \<Rightarrow> string list \<Rightarrow> row" where
  "projector_row tf c fs = foldl (\<lambda>r f. r(f \<mapsto> tf c f)) Map.empty fs"

definition candidate_path :: "match_candidate \<Rightarrow> int \<Rightarrow> path" where
  "candidate_path c i =
     \<lparr>pa_row_index = i, pa_depth = int (length (mc_edge_ids c)), pa_node_ids = mc_node_ids c,
      pa_edge_ids = mc_edge_ids c\<rparr>"

definition query_rows :: "query_candidate list \<Rightarrow> string list \<Rightarrow> row list" where
  "query_rows cs fs = map (\<lambda>c. projector_row node_typed_field c fs) cs"

definition match_rows_and_paths :: "match_candidate list \<Rightarrow> string list \<Rightarrow> row list \<times> path list" where
  "match_rows_and_paths cs fs =
     (map (\<lambda>c. projector_row match_typed_field c fs) cs,
      map (\<lambda>(i, c). candidate_path c (int i)) (enumerate 0 cs))"

section \<open>Grouping\<close>

type_synonym groups = "(string \<times> qval \<times> int) list"

definition group_add :: "qval \<Rightarrow> groups \<Rightarrow> groups" where
  "group_add v gs =
     (let key = comparable_string v;
          (first, n) = (case map_of gs key of Some g \<Rightarrow> g | None \<Rightarrow> (VNil, 0))
      in AList.update key (if n = 0 then v else first, n + 1) gs)"

definition group_candidates :: "('c \<Rightarrow> string \<Rightarrow> qval) \<Rightarrow> string \<Rightarrow> 'c list \<Rightarrow> groups" where
  "group_candidates tf g cs = foldl (\<lambda>gs c. group_add (tf c g) gs) [] cs"

definition group_rows :: "string \<Rightarrow> groups \<Rightarrow> row list" where
  "group_rows g gs =
     map (\<lambda>key. case map_of gs key of
                  Some (v, n) \<Rightarrow> [g \<mapsto> v, ''count'' \<mapsto> VInt n]
                | None \<Rightarrow> Map.empty)
         (sort_strings (map fst gs))"

definition group_order_field :: "statement \<Rightarrow> string" where
  "group_order_field st = (if st_order_by st \<noteq> [] then st_order_by st else st_group_by st)"

text \<open>The order that the three sorting routines share.\<close>

definition value_less :: "sort_order \<Rightarrow> qval \<Rightarrow> qval \<Rightarrow> bool" where
  "value_less ord a b \<longleftrightarrow>
     (if ord = SortDescending then compare_row_values a b > 0 else compare_row_values a b < 0)"

definition sort_rows :: "row list \<Rightarrow> string \<Rightarrow> sort_order \<Rightarrow> row list" where
  "sort_rows rows f ord =
     (if f = [] then rows else sort_slice (\<lambda>a b. value_less ord (row_get a f) (row_get b f)) rows)"

definition limit_rows :: "'a list \<Rightarrow> int \<Rightarrow> 'a list" where
  "limit_rows rows limit = (if int (length rows) > limit then take (nat limit) rows else rows)"

definition project_rows :: "row list \<Rightarrow> string list \<Rightarrow> row list" where
  "project_rows rows fs = map (\<lambda>r. projector_row row_get r fs) rows"

definition group_candidate_rows :: "('c \<Rightarrow> string \<Rightarrow> qval) \<Rightarrow> 'c list \<Rightarrow> statement \<Rightarrow> row list" where
  "group_candidate_rows tf cs st =
     (let rows = group_rows (st_group_by st) (group_candidates tf (st_group_by st) cs)
      in project_rows (limit_rows (sort_rows rows (group_order_field st) (st_order st)) (st_limit st))
           (st_return st))"

section \<open>Ordering candidates\<close>

definition sort_candidates :: "query_candidate list \<Rightarrow> string \<Rightarrow> sort_order \<Rightarrow> query_candidate list" where
  "sort_candidates cs f ord =
     (if f = [] then sort_slice (\<lambda>a b. nd_updated (qc_node a) > nd_updated (qc_node b)) cs
      else sort_slice (\<lambda>a b. value_less ord (node_typed_field a f) (node_typed_field b f)) cs)"

definition sort_match_candidates ::
    "match_candidate list \<Rightarrow> string \<Rightarrow> sort_order \<Rightarrow> match_candidate list" where
  "sort_match_candidates cs f ord =
     (if f = [] then
        sort_slice
          (\<lambda>a b. let fa = nd_title (qc_node (mc_from a)); fb = nd_title (qc_node (mc_from b))
                 in if fa \<noteq> fb then str_less fa fb
                    else str_less (nd_title (qc_node (mc_to a))) (nd_title (qc_node (mc_to b)))) cs
      else sort_slice (\<lambda>a b. value_less ord (match_typed_field a f) (match_typed_field b f)) cs)"

section \<open>Lemmas\<close>

lemma projector_row_apply: "projector_row tf c fs f = (if f \<in> set fs then Some (tf c f) else None)"
proof -
  have "foldl (\<lambda>r f. r(f \<mapsto> tf c f)) m fs f = (if f \<in> set fs then Some (tf c f) else m f)" for m
    by (induction fs arbitrary: m) auto
  then show ?thesis by (simp add: projector_row_def)
qed

lemma dom_projector_row: "dom (projector_row tf c fs) = set fs"
  by (auto simp: projector_row_apply dom_def)

lemma limit_rows_length: "0 \<le> limit \<Longrightarrow> int (length (limit_rows rows limit)) \<le> limit"
  by (auto simp: limit_rows_def)

lemma limit_rows_set: "set (limit_rows rows limit) \<subseteq> set rows"
  by (auto simp: limit_rows_def dest: in_set_takeD)

lemma sort_rows_mset [simp]: "mset (sort_rows rows f ord) = mset rows"
  by (simp add: sort_rows_def)

lemma sort_rows_set [simp]: "set (sort_rows rows f ord) = set rows"
  by (simp add: sort_rows_def)

lemma sort_candidates_set [simp]: "set (sort_candidates cs f ord) = set cs"
  by (simp add: sort_candidates_def)

lemma sort_match_candidates_set [simp]: "set (sort_match_candidates cs f ord) = set cs"
  by (simp add: sort_match_candidates_def)

lemma sort_candidates_mset [simp]: "mset (sort_candidates cs f ord) = mset cs"
  by (simp add: sort_candidates_def)

lemma sort_match_candidates_mset [simp]: "mset (sort_match_candidates cs f ord) = mset cs"
  by (simp add: sort_match_candidates_def)

text \<open>A group holds the first value with its key and the number of candidates with it.\<close>

definition members :: "('c \<Rightarrow> string \<Rightarrow> qval) \<Rightarrow> string \<Rightarrow> string \<Rightarrow> 'c list \<Rightarrow> 'c list" where
  "members tf g key cs = filter (\<lambda>c. comparable_string (tf c g) = key) cs"

lemma group_lookup:
  "map_of (group_candidates tf g cs) key =
     (if members tf g key cs = [] then None
      else Some (tf (hd (members tf g key cs)) g, int (length (members tf g key cs))))"
proof (induction cs arbitrary: key rule: rev_induct)
  case Nil
  then show ?case by (simp add: group_candidates_def members_def)
next
  case (snoc c cs)
  have step: "group_candidates tf g (cs @ [c]) = group_add (tf c g) (group_candidates tf g cs)"
    by (simp add: group_candidates_def)
  show ?case
    unfolding step group_add_def Let_def
    by (auto simp: snoc.IH update_conv' members_def hd_append)
qed

lemma group_keys:
  "distinct (map fst (group_candidates tf g cs))"
  "set (map fst (group_candidates tf g cs)) = (\<lambda>c. comparable_string (tf c g)) ` set cs"
proof -
  show d: "distinct (map fst (group_candidates tf g cs))"
    by (induction cs rule: rev_induct)
       (simp_all add: group_candidates_def group_add_def Let_def distinct_update split: prod.splits)
  have "k \<in> set (map fst (group_candidates tf g cs)) \<longleftrightarrow> members tf g k cs \<noteq> []" for k
    using group_lookup [of tf g cs k] by (metis map_of_eq_None_iff list.set_map option.distinct(1))
  then show "set (map fst (group_candidates tf g cs)) = (\<lambda>c. comparable_string (tf c g)) ` set cs"
    unfolding members_def filter_empty_conv set_eq_iff image_iff by metis
qed

end
