(* ===== verification/Query_Executor.thy ===== *)
theory Query_Executor imports Query_Rows Go_State begin

text \<open>
  The executor of graph statements: memory/internal/memory/graph/query/executor.go, the
  traversal of candidates.go and mutations.go. The Go interface \<open>Store\<close> is the record
  \<open>store_ops\<close>, an argument of every method: its reading methods are functions of the store's
  state, its writing methods state-passing operations. The access policy of a query is its list
  of allowed sensitivities.
\<close>

record 's store_ops =
  so_search_nodes :: "'s \<Rightarrow> search_nodes_query \<Rightarrow> gerr + node list"
  so_list_edges :: "'s \<Rightarrow> relation_type list \<Rightarrow> int \<Rightarrow> gerr + edge list"
  so_list_outgoing :: "'s \<Rightarrow> node_id \<Rightarrow> relation_type list \<Rightarrow> gerr + edge list"
  so_get_node :: "'s \<Rightarrow> node_id \<Rightarrow> gerr + node"
  so_get_edge :: "'s \<Rightarrow> edge_id \<Rightarrow> gerr + edge"
  so_upsert_node :: "upsert_node_request \<Rightarrow> ('s, gerr, node) run"
  so_upsert_edge :: "upsert_edge_request \<Rightarrow> ('s, gerr, edge) run"
  so_set_node_status :: "node_id \<Rightarrow> lifecycle_status \<Rightarrow> string \<Rightarrow> ('s, gerr, node) run"
  so_set_edge_status :: "edge_id \<Rightarrow> lifecycle_status \<Rightarrow> string \<Rightarrow> ('s, gerr, edge) run"
  so_upsert_node_property :: "upsert_property_request \<Rightarrow> ('s, gerr, property) run"
  so_upsert_edge_property :: "upsert_property_request \<Rightarrow> ('s, gerr, property) run"
  so_append_audit :: "append_audit_request \<Rightarrow> ('s, gerr, audit_event) run"
  so_node_properties :: "'s \<Rightarrow> node_id \<Rightarrow> gerr + property list"
  so_edge_properties :: "'s \<Rightarrow> edge_id \<Rightarrow> gerr + property list"

record request =
  rq_actor :: string
  rq_query :: string
  rq_source :: string
  rq_allowed :: "sensitivity list"

record query_result =
  rs_columns :: "string list"
  rs_rows :: "row list"
  rs_paths :: "path list"
  rs_limit :: int
  rs_query :: string

type_synonym exec_output = "row list \<times> path list"

record mutation_context =
  mx_actor :: string
  mx_source :: node_id

datatype query_error =
    QueryRequired
  | PolicyRejected gerr
  | ParseRejected parse_error
  | ActorRequired
  | SourceRequired
  | InvalidLiteral string string
  | RoutingField string
  | ControlledField string
  | PropertyFieldRequired
  | StoreFailed gerr

section \<open>Requests\<close>

definition normalize_request :: "request \<Rightarrow> query_error + request" where
  "normalize_request req =
     (let req = req\<lparr>rq_query := trim_space (rq_query req), rq_source := trim_space (rq_source req)\<rparr>
      in if rq_query req = [] then Inl QueryRequired
         else case normalize_access_policy \<lparr>ap_actor = rq_actor req, ap_allowed = rq_allowed req\<rparr> of
                Inl e \<Rightarrow> Inl (PolicyRejected e)
              | Inr p \<Rightarrow> Inr (req\<lparr>rq_actor := ap_actor p, rq_allowed := ap_allowed p\<rparr>))"

definition mutation_context_from_request ::
    "statement \<Rightarrow> request \<Rightarrow> string \<Rightarrow> query_error + mutation_context" where
  "mutation_context_from_request st req raw_actor =
     (if \<not> mutating st then Inr \<lparr>mx_actor = [], mx_source = []\<rparr>
      else if raw_actor = [] then Inl ActorRequired
      else if rq_source req = [] then Inl SourceRequired
      else Inr \<lparr>mx_actor = rq_actor req, mx_source = rq_source req\<rparr>)"

definition can_read_node :: "sensitivity list \<Rightarrow> node \<Rightarrow> bool" where
  "can_read_node allowed n \<longleftrightarrow> nd_status n = ''active'' \<and> nd_sensitivity n \<in> set allowed"

section \<open>Properties of nodes and edges\<close>

definition values_of :: "property list \<Rightarrow> row" where
  "values_of ps = foldl (\<lambda>m p. m(pr_key p \<mapsto> query_value (pr_value p))) Map.empty ps"

definition property_values :: "'s store_ops \<Rightarrow> 's \<Rightarrow> node_id \<Rightarrow> gerr + row" where
  "property_values ops s nid = res_map values_of (so_node_properties ops s nid)"

definition edge_property_values :: "'s store_ops \<Rightarrow> 's \<Rightarrow> edge_id \<Rightarrow> gerr + row" where
  "edge_property_values ops s eid = res_map values_of (so_edge_properties ops s eid)"

section \<open>FIND\<close>

definition search_kind :: "node_kind \<Rightarrow> sensitivity list \<Rightarrow> search_nodes_query" where
  "search_kind kind allowed = \<lparr>sq_text = [], sq_kinds = [kind], sq_allowed = allowed, sq_limit = 100\<rparr>"

fun find_candidates ::
    "'s store_ops \<Rightarrow> 's \<Rightarrow> condition list \<Rightarrow> node list \<Rightarrow> gerr + query_candidate list" where
  "find_candidates ops s cs [] = Inr []"
| "find_candidates ops s cs (n # ns) =
     res_bind (property_values ops s (nd_id n)) (\<lambda>props.
     let c = \<lparr>qc_node = n, qc_props = props\<rparr>
     in if \<not> projector_matches node_typed_field c cs then find_candidates ops s cs ns
        else res_map (\<lambda>rest. c # rest) (find_candidates ops s cs ns))"

definition execute_find :: "'s store_ops \<Rightarrow> 's \<Rightarrow> statement \<Rightarrow> sensitivity list \<Rightarrow> gerr + exec_output" where
  "execute_find ops s st allowed =
     res_bind (so_search_nodes ops s (search_kind (st_kind st) allowed)) (\<lambda>nodes.
     res_bind (find_candidates ops s (st_where st) nodes) (\<lambda>cs.
     if st_group_by st \<noteq> [] then Inr (group_candidate_rows node_typed_field cs st, [])
     else Inr (query_rows (limit_rows (sort_candidates cs (st_order_by st) (st_order st)) (st_limit st))
                 (st_return st), [])))"

section \<open>MATCH on one edge\<close>

text \<open>One round of the loop over the edges: no candidate when the edge is skipped.\<close>

definition match_edge ::
    "'s store_ops \<Rightarrow> 's \<Rightarrow> statement \<Rightarrow> sensitivity list \<Rightarrow> edge \<Rightarrow> gerr + match_candidate list" where
  "match_edge ops s st allowed e =
     res_bind (so_get_node ops s (ed_from e)) (\<lambda>from.
     res_bind (so_get_node ops s (ed_to e)) (\<lambda>to.
     if nd_kind from \<noteq> st_from_kind st \<or> nd_kind to \<noteq> st_to_kind st \<or>
        \<not> can_read_node allowed from \<or> \<not> can_read_node allowed to
     then Inr []
     else
       res_bind (property_values ops s (nd_id from)) (\<lambda>from_props.
       res_bind (property_values ops s (nd_id to)) (\<lambda>to_props.
       let c = \<lparr>mc_from = \<lparr>qc_node = from, qc_props = from_props\<rparr>, mc_edge = e,
                mc_to = \<lparr>qc_node = to, qc_props = to_props\<rparr>,
                mc_node_ids = [nd_id from, nd_id to], mc_edge_ids = [ed_id e]\<rparr>
       in if \<not> projector_matches match_typed_field c (st_where st) then Inr [] else Inr [c]))))"

definition match_output :: "match_candidate list \<Rightarrow> statement \<Rightarrow> exec_output" where
  "match_output cs st =
     (if st_group_by st \<noteq> [] then (group_candidate_rows match_typed_field cs st, [])
      else match_rows_and_paths
             (limit_rows (sort_match_candidates cs (st_order_by st) (st_order st)) (st_limit st))
             (st_return st))"

section \<open>MATCH on paths\<close>

definition max_traversal_candidates :: nat where
  "max_traversal_candidates = 1000"

record variable_match_state =
  vs_current :: node
  vs_node_ids :: "node_id list"
  vs_edge_ids :: "edge_id list"
  vs_seen :: "node_id list"

definition extend :: "variable_match_state \<Rightarrow> edge \<Rightarrow> node \<Rightarrow> variable_match_state" where
  "extend vs e target =
     \<lparr>vs_current = target, vs_node_ids = vs_node_ids vs @ [nd_id target],
      vs_edge_ids = vs_edge_ids vs @ [ed_id e], vs_seen = vs_seen vs\<rparr>"

text \<open>The candidate of an extended branch, when its depth, kind and fields qualify.\<close>

definition path_candidate ::
    "'s store_ops \<Rightarrow> 's \<Rightarrow> statement \<Rightarrow> query_candidate \<Rightarrow> edge \<Rightarrow> variable_match_state \<Rightarrow>
     gerr + match_candidate list" where
  "path_candidate ops s st start e vs =
     (if int (length (vs_edge_ids vs)) \<ge> st_min_depth st \<and> nd_kind (vs_current vs) = st_to_kind st
      then
        res_bind (property_values ops s (nd_id (vs_current vs))) (\<lambda>props.
        let c = \<lparr>mc_from = start, mc_edge = e, mc_to = \<lparr>qc_node = vs_current vs, qc_props = props\<rparr>,
                 mc_node_ids = vs_node_ids vs, mc_edge_ids = vs_edge_ids vs\<rparr>
        in Inr (if projector_matches match_typed_field c (st_where st) then [c] else []))
      else Inr [])"

text \<open>
  \<open>walk\<close> and its loop over the outgoing edges. Each recursive call lengthens the branch, and a
  branch is followed only below the maximal depth, so the recursion ends.
\<close>

function walk ::
      "'s store_ops \<Rightarrow> 's \<Rightarrow> statement \<Rightarrow> query_candidate \<Rightarrow> sensitivity list \<Rightarrow> variable_match_state \<Rightarrow>
       match_candidate list \<Rightarrow> gerr + match_candidate list"
  and walk_edges ::
      "'s store_ops \<Rightarrow> 's \<Rightarrow> statement \<Rightarrow> query_candidate \<Rightarrow> sensitivity list \<Rightarrow> variable_match_state \<Rightarrow>
       edge list \<Rightarrow> match_candidate list \<Rightarrow> gerr + match_candidate list" where
  "walk ops s st start allowed vs cands =
     (if length cands \<ge> max_traversal_candidates \<or> int (length (vs_edge_ids vs)) \<ge> st_max_depth st
      then Inr cands
      else
        case so_list_outgoing ops s (nd_id (vs_current vs)) [st_relation st] of
          Inl e \<Rightarrow> Inl e
        | Inr es \<Rightarrow> walk_edges ops s st start allowed vs es cands)"
| "walk_edges ops s st start allowed vs [] cands = Inr cands"
| "walk_edges ops s st start allowed vs (e # es) cands =
     (if length cands \<ge> max_traversal_candidates then Inr cands
      else
        case so_get_node ops s (ed_to e) of
          Inl err \<Rightarrow> Inl err
        | Inr target \<Rightarrow>
            if \<not> can_read_node allowed target \<or> nd_id target \<in> set (vs_seen vs)
            then walk_edges ops s st start allowed vs es cands
            else
              (case path_candidate ops s st start e (extend vs e target) of
                 Inl err \<Rightarrow> Inl err
               | Inr new \<Rightarrow>
                   if int (length (vs_edge_ids (extend vs e target))) < st_max_depth st
                   then
                     (case walk ops s st start allowed
                             ((extend vs e target)\<lparr>vs_seen := nd_id target # vs_seen vs\<rparr>)
                             (cands @ new) of
                        Inl err \<Rightarrow> Inl err
                      | Inr cands' \<Rightarrow> walk_edges ops s st start allowed vs es cands')
                   else walk_edges ops s st start allowed vs es (cands @ new)))"
  by pat_completeness auto
termination
  by (relation
        "measures
           [\<lambda>a. case a of
                  Inl (ops, s, st, start, allowed, vs, cands) \<Rightarrow> nat (st_max_depth st) - length (vs_edge_ids vs)
                | Inr (ops, s, st, start, allowed, vs, es, cands) \<Rightarrow>
                    nat (st_max_depth st) - length (vs_edge_ids vs),
            \<lambda>a. case a of Inl _ \<Rightarrow> 1 | Inr _ \<Rightarrow> 0,
            \<lambda>a. case a of Inl _ \<Rightarrow> 0 | Inr (ops, s, st, start, allowed, vs, es, cands) \<Rightarrow> length es]")
     (auto simp: extend_def)

declare walk.simps [simp del] walk_edges.simps [simp del]

definition root_state :: "node \<Rightarrow> variable_match_state" where
  "root_state n = \<lparr>vs_current = n, vs_node_ids = [nd_id n], vs_edge_ids = [], vs_seen = [nd_id n]\<rparr>"

fun walk_roots ::
    "'s store_ops \<Rightarrow> 's \<Rightarrow> statement \<Rightarrow> sensitivity list \<Rightarrow> node list \<Rightarrow> match_candidate list \<Rightarrow>
     gerr + match_candidate list" where
  "walk_roots ops s st allowed [] cands = Inr cands"
| "walk_roots ops s st allowed (start # roots) cands =
     (if \<not> can_read_node allowed start then walk_roots ops s st allowed roots cands
      else
        res_bind (property_values ops s (nd_id start)) (\<lambda>props.
        res_bind (walk ops s st \<lparr>qc_node = start, qc_props = props\<rparr> allowed (root_state start) cands)
          (\<lambda>cands.
        if length cands \<ge> max_traversal_candidates then Inr cands
        else walk_roots ops s st allowed roots cands)))"

definition execute_variable_match ::
    "'s store_ops \<Rightarrow> 's \<Rightarrow> statement \<Rightarrow> sensitivity list \<Rightarrow> gerr + exec_output" where
  "execute_variable_match ops s st allowed =
     res_bind (so_search_nodes ops s (search_kind (st_from_kind st) allowed)) (\<lambda>roots.
     res_map (\<lambda>cs. match_output cs st) (walk_roots ops s st allowed roots []))"

definition execute_match :: "'s store_ops \<Rightarrow> 's \<Rightarrow> statement \<Rightarrow> sensitivity list \<Rightarrow> gerr + exec_output" where
  "execute_match ops s st allowed =
     (if st_max_depth st > 1 then execute_variable_match ops s st allowed
      else
        res_bind (so_list_edges ops s [st_relation st] 1000) (\<lambda>edges.
        res_map (\<lambda>css. match_output (concat css) st) (res_list (match_edge ops s st allowed) edges)))"

end
