(* ===== verification/Query_Mutations.thy ===== *)
theory Query_Mutations imports Query_Executor begin

text \<open>
  The mutating statements: memory/internal/memory/graph/query/mutations.go, and \<open>Execute\<close> of
  executor.go, which dispatches a parsed statement. The writes of one statement are separate
  operations of the store, in the order of the code and without a transaction around them: an
  error in a later one leaves the earlier ones done.
\<close>

section \<open>Assignments\<close>

definition property_field :: "string \<Rightarrow> string" where
  "property_field f = trim_prefix (trim_prefix f ''property.'') ''prop.''"

definition literal_time :: "literal \<Rightarrow> query_error + gotime" where
  "literal_time l =
     (case parse_condition_time (li_value l) of
        Some t \<Rightarrow> Inr t
      | None \<Rightarrow> Inl (InvalidLiteral ''time literal'' (li_value l)))"

definition parse_confidence :: "string \<Rightarrow> literal \<Rightarrow> query_error + f64" where
  "parse_confidence what l =
     (case parse_float (li_value l) of
        Some c \<Rightarrow> Inr c
      | None \<Rightarrow> Inl (InvalidLiteral what (li_value l)))"

text \<open>
  One round of \<open>applyNodeAssignments\<close>: the request and the property assignments so far, updated.
\<close>

definition apply_node_assignment ::
    "assignment \<Rightarrow> upsert_node_request \<times> assignment list \<Rightarrow>
     query_error + upsert_node_request \<times> assignment list" where
  "apply_node_assignment a acc =
     (case acc of (req, props) \<Rightarrow>
      let f = as_field a; v = li_value (as_value a)
      in if f = ''stable_key'' then Inr (req\<lparr>un_stable_key := v\<rparr>, props)
         else if f = ''title'' then Inr (req\<lparr>un_title := v\<rparr>, props)
         else if f = ''summary'' then Inr (req\<lparr>un_summary := v\<rparr>, props)
         else if f = ''lifecycle_status'' \<or> f = ''node_status'' then
           (if \<not> valid_lifecycle_status (to_lower v)
            then Inl (InvalidLiteral ''node lifecycle status'' v)
            else Inr (req\<lparr>un_status := to_lower v\<rparr>, props))
         else if f = ''domain_id'' \<or> f = ''firewall'' then Inl (RoutingField f)
         else if f = ''sensitivity'' then
           (if \<not> valid_sensitivity (to_lower v) then Inl (InvalidLiteral ''node sensitivity'' v)
            else Inr (req\<lparr>un_sensitivity := to_lower v\<rparr>, props))
         else if f = ''trust_level'' then
           (if \<not> valid_trust_level (to_lower v) then Inl (InvalidLiteral ''node trust level'' v)
            else Inr (req\<lparr>un_trust := to_lower v\<rparr>, props))
         else if f = ''confidence'' \<or> f = ''node_confidence'' then
           res_map (\<lambda>c. (req\<lparr>un_confidence := c\<rparr>, props))
             (parse_confidence ''node confidence'' (as_value a))
         else if f \<in> {''id'', ''node_id'', ''kind'', ''source_node_id'', ''actor''}
         then Inl (ControlledField f)
         else Inr (req, props @ [\<lparr>as_field = property_field f, as_value = as_value a\<rparr>]))"

fun apply_node_assignments ::
    "assignment list \<Rightarrow> upsert_node_request \<times> assignment list \<Rightarrow>
     query_error + upsert_node_request \<times> assignment list" where
  "apply_node_assignments [] acc = Inr acc"
| "apply_node_assignments (a # as) acc =
     res_bind (apply_node_assignment a acc) (apply_node_assignments as)"

definition apply_edge_assignment ::
    "assignment \<Rightarrow> upsert_edge_request \<times> assignment list \<Rightarrow>
     query_error + upsert_edge_request \<times> assignment list" where
  "apply_edge_assignment a acc =
     (case acc of (req, props) \<Rightarrow>
      let f = as_field a; v = li_value (as_value a)
      in if f = ''lifecycle_status'' \<or> f = ''edge_status'' then
           (if \<not> valid_lifecycle_status (to_lower v)
            then Inl (InvalidLiteral ''edge lifecycle status'' v)
            else Inr (req\<lparr>ue_status := to_lower v\<rparr>, props))
         else if f = ''confidence'' \<or> f = ''edge_confidence'' then
           res_map (\<lambda>c. (req\<lparr>ue_confidence := c\<rparr>, props))
             (parse_confidence ''edge confidence'' (as_value a))
         else if f = ''trust_level'' then
           (if \<not> valid_trust_level (to_lower v) then Inl (InvalidLiteral ''edge trust level'' v)
            else Inr (req\<lparr>ue_trust := to_lower v\<rparr>, props))
         else if f = ''valid_from'' then
           res_map (\<lambda>t. (req\<lparr>ue_valid_from := Some t\<rparr>, props)) (literal_time (as_value a))
         else if f = ''valid_to'' then
           res_map (\<lambda>t. (req\<lparr>ue_valid_to := Some t\<rparr>, props)) (literal_time (as_value a))
         else if f \<in> {''id'', ''edge.id'', ''edge_id'', ''type'', ''relation_type'', ''from_id'',
                      ''from_node_id'', ''to_id'', ''to_node_id'', ''source_node_id'', ''actor''}
         then Inl (ControlledField f)
         else Inr (req, props @ [\<lparr>as_field = property_field f, as_value = as_value a\<rparr>]))"

fun apply_edge_assignments ::
    "assignment list \<Rightarrow> upsert_edge_request \<times> assignment list \<Rightarrow>
     query_error + upsert_edge_request \<times> assignment list" where
  "apply_edge_assignments [] acc = Inr acc"
| "apply_edge_assignments (a # as) acc =
     res_bind (apply_edge_assignment a acc) (apply_edge_assignments as)"

definition parse_bool_literal :: "string \<Rightarrow> bool option" where
  "parse_bool_literal v =
     (let w = to_lower (trim_space v)
      in if w = ''true'' then Some True else if w = ''false'' then Some False else None)"

definition time_like_field :: "string \<Rightarrow> bool" where
  "time_like_field f \<longleftrightarrow>
     has_suffix f ''_at'' \<or> has_suffix f ''_time'' \<or> f = ''valid_from'' \<or> f = ''valid_to''"

text \<open>The \<open>graph.Value\<close> literals with the zero value in every field they do not name.\<close>

definition zero_value :: "value_type \<Rightarrow> gvalue" where
  "zero_value ty = \<lparr>gv_type = ty, gv_text = [], gv_number = Fin 0, gv_time = None, gv_json = []\<rparr>"

definition assignment_value :: "assignment \<Rightarrow> gvalue" where
  "assignment_value a =
     (let l = as_value a;
          text = (zero_value ''text'')\<lparr>gv_text := li_value l\<rparr>;
          timed = (if time_like_field (as_field a)
                   then (case literal_time l of
                           Inr t \<Rightarrow> (zero_value ''time'')\<lparr>gv_time := Some t\<rparr>
                         | Inl _ \<Rightarrow> text)
                   else text);
          flag = (if li_token l = TokenIdentifier
                  then (case parse_bool_literal (li_value l) of
                          Some b \<Rightarrow> (zero_value ''bool'')\<lparr>gv_text := format_bool b\<rparr>
                        | None \<Rightarrow> timed)
                  else timed)
      in if li_token l = TokenNumber
         then (case parse_float (li_value l) of
                 Some x \<Rightarrow> (zero_value ''number'')\<lparr>gv_number := x\<rparr>
               | None \<Rightarrow> flag)
         else flag)"

section \<open>Audit\<close>

definition assignment_details :: "assignment list \<Rightarrow> string" where
  "assignment_details as =
     (if as = [] then []
      else
        let values = map_of (rev (map (\<lambda>a. (as_field a, li_value (as_value a))) as));
            keys = sort_strings (remdups (map as_field as))
        in json_string_map (map (\<lambda>k. (k, case values k of Some v \<Rightarrow> v | None \<Rightarrow> [])) keys))"

definition audit_request ::
    "string \<Rightarrow> mutation_context \<Rightarrow> node_id \<Rightarrow> edge_id \<Rightarrow> string \<Rightarrow> assignment list \<Rightarrow> append_audit_request"
    where
  "audit_request kind mx nid eid message as =
     \<lparr>aa_id = [], aa_kind = kind, aa_actor = mx_actor mx, aa_node = nid, aa_edge = eid,
      aa_source = mx_source mx, aa_message = message, aa_details = assignment_details as\<rparr>"

type_synonym ('s, 'a) qrun = "('s, query_error, 'a) run"

definition stored :: "('s, gerr, 'a) run \<Rightarrow> ('s, 'a) qrun" where
  "stored m = run_map_err StoreFailed m"

definition audit_node_mutation ::
    "'s store_ops \<Rightarrow> string \<Rightarrow> mutation_context \<Rightarrow> node_id \<Rightarrow> string \<Rightarrow> assignment list \<Rightarrow> ('s, unit) qrun"
    where
  "audit_node_mutation ops kind mx nid message as =
     run_bind (stored (so_append_audit ops (audit_request kind mx nid [] message as)))
       (\<lambda>_. run_ret ())"

definition audit_edge_mutation ::
    "'s store_ops \<Rightarrow> string \<Rightarrow> mutation_context \<Rightarrow> edge_id \<Rightarrow> string \<Rightarrow> assignment list \<Rightarrow> ('s, unit) qrun"
    where
  "audit_edge_mutation ops kind mx eid message as =
     run_bind (stored (so_append_audit ops (audit_request kind mx [] eid message as)))
       (\<lambda>_. run_ret ())"

section \<open>Property writes\<close>

definition property_request :: "mutation_context \<Rightarrow> string \<Rightarrow> assignment \<Rightarrow> upsert_property_request" where
  "property_request mx owner a =
     \<lparr>up_id = [], up_owner = owner, up_key = as_field a, up_value = assignment_value a,
      up_position = 0, up_status = [], up_confidence = Fin 0, up_trust = [],
      up_source = mx_source mx, up_actor = mx_actor mx\<rparr>"

fun upsert_node_properties ::
    "'s store_ops \<Rightarrow> node_id \<Rightarrow> assignment list \<Rightarrow> mutation_context \<Rightarrow> ('s, unit) qrun" where
  "upsert_node_properties ops nid [] mx = run_ret ()"
| "upsert_node_properties ops nid (a # as) mx =
     (if as_field a = [] then run_err PropertyFieldRequired
      else
        run_bind (stored (so_upsert_node_property ops (property_request mx nid a))) (\<lambda>_.
        run_bind (audit_node_mutation ops ''query_set_node_property'' mx nid ''set graph node property'' [a])
          (\<lambda>_. upsert_node_properties ops nid as mx)))"

fun upsert_edge_properties ::
    "'s store_ops \<Rightarrow> edge_id \<Rightarrow> assignment list \<Rightarrow> mutation_context \<Rightarrow> ('s, unit) qrun" where
  "upsert_edge_properties ops eid [] mx = run_ret ()"
| "upsert_edge_properties ops eid (a # as) mx =
     (if as_field a = [] then run_err PropertyFieldRequired
      else
        run_bind (stored (so_upsert_edge_property ops (property_request mx eid a))) (\<lambda>_.
        run_bind (audit_edge_mutation ops ''query_set_edge_property'' mx eid ''set graph edge property'' [a])
          (\<lambda>_. upsert_edge_properties ops eid as mx)))"

section \<open>Results of mutations\<close>

definition node_mutation_result :: "'s store_ops \<Rightarrow> node_id \<Rightarrow> string list \<Rightarrow> ('s, exec_output) qrun" where
  "node_mutation_result ops nid fs =
     stored (run_read (\<lambda>s.
       res_bind (so_get_node ops s nid) (\<lambda>n.
       res_map (\<lambda>props. ([projector_row node_typed_field \<lparr>qc_node = n, qc_props = props\<rparr> fs], []))
         (property_values ops s (nd_id n)))))"

definition edge_mutation_result :: "'s store_ops \<Rightarrow> edge_id \<Rightarrow> string list \<Rightarrow> ('s, exec_output) qrun" where
  "edge_mutation_result ops eid fs =
     stored (run_read (\<lambda>s.
       res_bind (so_get_edge ops s eid) (\<lambda>e.
       res_map (\<lambda>props. ([projector_row edge_candidate_field \<lparr>ec_edge = e, ec_props = props\<rparr> fs], []))
         (edge_property_values ops s (ed_id e)))))"

section \<open>Mutating statements\<close>

definition insert_node_request :: "statement \<Rightarrow> mutation_context \<Rightarrow> upsert_node_request" where
  "insert_node_request st mx =
     \<lparr>un_id = [], un_kind = st_kind st, un_stable_key = [], un_title = [], un_summary = [],
      un_status = [], un_sensitivity = [], un_trust = [], un_confidence = Fin 0,
      un_source = mx_source mx, un_actor = mx_actor mx\<rparr>"

definition insert_edge_request :: "statement \<Rightarrow> mutation_context \<Rightarrow> upsert_edge_request" where
  "insert_edge_request st mx =
     \<lparr>ue_id = [], ue_from = st_from_id st, ue_type = st_relation st, ue_to = st_to_id st,
      ue_status = [], ue_confidence = Fin 0, ue_trust = [], ue_source = mx_source mx,
      ue_actor = mx_actor mx, ue_valid_from = None, ue_valid_to = None\<rparr>"

definition set_node_request :: "node \<Rightarrow> mutation_context \<Rightarrow> upsert_node_request" where
  "set_node_request n mx =
     \<lparr>un_id = nd_id n, un_kind = nd_kind n, un_stable_key = nd_stable_key n, un_title = nd_title n,
      un_summary = nd_summary n, un_status = nd_status n, un_sensitivity = nd_sensitivity n,
      un_trust = nd_trust n, un_confidence = nd_confidence n, un_source = mx_source mx,
      un_actor = mx_actor mx\<rparr>"

definition set_edge_request :: "edge \<Rightarrow> mutation_context \<Rightarrow> upsert_edge_request" where
  "set_edge_request e mx =
     \<lparr>ue_id = ed_id e, ue_from = ed_from e, ue_type = ed_type e, ue_to = ed_to e,
      ue_status = ed_status e, ue_confidence = ed_confidence e, ue_trust = ed_trust e,
      ue_source = mx_source mx, ue_actor = mx_actor mx, ue_valid_from = ed_valid_from e,
      ue_valid_to = ed_valid_to e\<rparr>"

text \<open>The tail the INSERT and SET statements share: write, audit, properties, result.\<close>

definition write_node ::
    "'s store_ops \<Rightarrow> statement \<Rightarrow> mutation_context \<Rightarrow> string \<Rightarrow> string \<Rightarrow> upsert_node_request \<Rightarrow>
     ('s, exec_output) qrun" where
  "write_node ops st mx kind message req0 =
     run_bind (run_lift (apply_node_assignments (st_set st) (req0, []))) (\<lambda>(req, props).
     run_bind (stored (so_upsert_node ops req)) (\<lambda>n.
     run_bind (audit_node_mutation ops kind mx (nd_id n) message (st_set st)) (\<lambda>_.
     run_bind (upsert_node_properties ops (nd_id n) props mx) (\<lambda>_.
     node_mutation_result ops (nd_id n) (st_return st)))))"

definition write_edge ::
    "'s store_ops \<Rightarrow> statement \<Rightarrow> mutation_context \<Rightarrow> string \<Rightarrow> string \<Rightarrow> upsert_edge_request \<Rightarrow>
     ('s, exec_output) qrun" where
  "write_edge ops st mx kind message req0 =
     run_bind (run_lift (apply_edge_assignments (st_set st) (req0, []))) (\<lambda>(req, props).
     run_bind (stored (so_upsert_edge ops req)) (\<lambda>e.
     run_bind (audit_edge_mutation ops kind mx (ed_id e) message (st_set st)) (\<lambda>_.
     run_bind (upsert_edge_properties ops (ed_id e) props mx) (\<lambda>_.
     edge_mutation_result ops (ed_id e) (st_return st)))))"

definition execute_insert_node :: "'s store_ops \<Rightarrow> statement \<Rightarrow> mutation_context \<Rightarrow> ('s, exec_output) qrun" where
  "execute_insert_node ops st mx =
     write_node ops st mx ''query_insert_node'' ''inserted graph node'' (insert_node_request st mx)"

definition execute_insert_edge :: "'s store_ops \<Rightarrow> statement \<Rightarrow> mutation_context \<Rightarrow> ('s, exec_output) qrun" where
  "execute_insert_edge ops st mx =
     write_edge ops st mx ''query_insert_edge'' ''inserted graph edge'' (insert_edge_request st mx)"

definition execute_set_node :: "'s store_ops \<Rightarrow> statement \<Rightarrow> mutation_context \<Rightarrow> ('s, exec_output) qrun" where
  "execute_set_node ops st mx =
     run_bind (stored (run_read (\<lambda>s. so_get_node ops s (st_node_id st)))) (\<lambda>n.
     write_node ops st mx ''query_set_node'' ''updated graph node'' (set_node_request n mx))"

definition execute_set_edge :: "'s store_ops \<Rightarrow> statement \<Rightarrow> mutation_context \<Rightarrow> ('s, exec_output) qrun" where
  "execute_set_edge ops st mx =
     run_bind (stored (run_read (\<lambda>s. so_get_edge ops s (st_edge_id st)))) (\<lambda>e.
     write_edge ops st mx ''query_set_edge'' ''updated graph edge'' (set_edge_request e mx))"

definition execute_delete_node :: "'s store_ops \<Rightarrow> statement \<Rightarrow> mutation_context \<Rightarrow> ('s, exec_output) qrun" where
  "execute_delete_node ops st mx =
     run_bind (stored (so_set_node_status ops (st_node_id st) ''deleted'' (mx_actor mx))) (\<lambda>n.
     run_bind (audit_node_mutation ops ''query_delete_node'' mx (nd_id n) ''deleted graph node'' []) (\<lambda>_.
     node_mutation_result ops (nd_id n) (st_return st)))"

definition execute_delete_edge :: "'s store_ops \<Rightarrow> statement \<Rightarrow> mutation_context \<Rightarrow> ('s, exec_output) qrun" where
  "execute_delete_edge ops st mx =
     run_bind (stored (so_set_edge_status ops (st_edge_id st) ''deleted'' (mx_actor mx))) (\<lambda>e.
     run_bind (audit_edge_mutation ops ''query_delete_edge'' mx (ed_id e) ''deleted graph edge'' []) (\<lambda>_.
     edge_mutation_result ops (ed_id e) (st_return st)))"

section \<open>Execution\<close>

definition execute_statement ::
    "'s store_ops \<Rightarrow> statement \<Rightarrow> sensitivity list \<Rightarrow> mutation_context \<Rightarrow> ('s, exec_output) qrun" where
  "execute_statement ops st allowed mx =
     (case st_mode st of
        StatementMatch \<Rightarrow> stored (run_read (\<lambda>s. execute_match ops s st allowed))
      | StatementInsertNode \<Rightarrow> execute_insert_node ops st mx
      | StatementInsertEdge \<Rightarrow> execute_insert_edge ops st mx
      | StatementSetNode \<Rightarrow> execute_set_node ops st mx
      | StatementSetEdge \<Rightarrow> execute_set_edge ops st mx
      | StatementDeleteNode \<Rightarrow> execute_delete_node ops st mx
      | StatementDeleteEdge \<Rightarrow> execute_delete_edge ops st mx
      | StatementFind \<Rightarrow> stored (run_read (\<lambda>s. execute_find ops s st allowed)))"

definition execute :: "'s store_ops \<Rightarrow> request \<Rightarrow> ('s, query_result) qrun" where
  "execute ops req0 =
     run_bind (run_lift (normalize_request req0)) (\<lambda>req.
     run_bind (run_lift (res_err ParseRejected (parse (rq_query req)))) (\<lambda>st.
     run_bind (run_lift (mutation_context_from_request st req (trim_space (rq_actor req0)))) (\<lambda>mx.
     run_bind (execute_statement ops st (rq_allowed req) mx) (\<lambda>(rows, paths).
     run_ret \<lparr>rs_columns = st_return st, rs_rows = rows, rs_paths = paths, rs_limit = st_limit st,
              rs_query = rq_query req\<rparr>))))"

end
