(* ===== verification/Graph_Ops.thy ===== *)
theory Graph_Ops imports Graph_Store Query_Mutations begin

text \<open>
  The operations of the SQLite graph store on its tables: nodes.go, edges.go, properties.go,
  audit.go, \<open>SearchNodes\<close> of search.go and \<open>WithUnitOfWork\<close> of store.go in
  memory/internal/memory/graph/store. \<open>sql_ops\<close> collects them as the executor's \<open>Store\<close>.
\<close>

section \<open>Queries\<close>

definition row_scan :: "('r \<Rightarrow> gerr + 'a) \<Rightarrow> 'r option \<Rightarrow> gerr + 'a" where
  "row_scan f r = (case r of Some x \<Rightarrow> f x | None \<Rightarrow> Inl NoRows)"

definition find_node :: "graph_db \<Rightarrow> node_id \<Rightarrow> node_row option" where
  "find_node s nid = List.find (\<lambda>r. nr_id r = nid) (db_nodes s)"

definition get_node :: "graph_db \<Rightarrow> node_id \<Rightarrow> gerr + node" where
  "get_node s nid = row_scan scan_node (find_node s nid)"

definition get_edge :: "graph_db \<Rightarrow> edge_id \<Rightarrow> gerr + edge" where
  "get_edge s eid = row_scan scan_edge (List.find (\<lambda>r. er_id r = eid) (db_edges s))"

definition node_id_by_stable_key :: "graph_db \<Rightarrow> node_kind \<Rightarrow> string \<Rightarrow> node_id option" where
  "node_id_by_stable_key s kind key =
     map_option nr_id
       (List.find (\<lambda>r. nr_kind r = kind \<and> nr_stable_key r = Some key) (db_nodes s))"

definition get_node_by_stable_key :: "graph_db \<Rightarrow> node_kind \<Rightarrow> string \<Rightarrow> gerr + node" where
  "get_node_by_stable_key s kind key =
     (case node_id_by_stable_key s kind (trim_space key) of
        None \<Rightarrow> Inl NoRows
      | Some nid \<Rightarrow> get_node s nid)"

definition count_nodes :: "graph_db \<Rightarrow> node_kind \<Rightarrow> lifecycle_status \<Rightarrow> gerr + nat" where
  "count_nodes s kind status =
     (if \<not> valid_node_kind kind then Inl (InvalidNodeKind kind)
      else if status \<noteq> [] \<and> \<not> valid_lifecycle_status status then Inl (InvalidNodeStatus status)
      else Inr (length (filter (\<lambda>r. nr_kind r = kind \<and> (status = [] \<or> nr_status r = status)) (db_nodes s))))"

definition same_source :: "string option \<Rightarrow> node_id \<Rightarrow> bool" where
  "same_source v source \<longleftrightarrow> (v = None \<and> source = []) \<or> v = Some source"

definition edge_id_by_identity ::
    "graph_db \<Rightarrow> node_id \<Rightarrow> relation_type \<Rightarrow> node_id \<Rightarrow> node_id \<Rightarrow> edge_id option" where
  "edge_id_by_identity s from relation to source =
     map_option er_id
       (List.find (\<lambda>r. er_from r = from \<and> er_type r = relation \<and> er_to r = to \<and>
                       same_source (er_source r) source) (db_edges s))"

definition property_id_by_identity ::
    "property_row list \<Rightarrow> string \<Rightarrow> string \<Rightarrow> int \<Rightarrow> node_id \<Rightarrow> property_id option" where
  "property_id_by_identity rows owner key position source =
     map_option qr_id
       (List.find (\<lambda>r. qr_owner r = owner \<and> qr_key r = key \<and> qr_position r = position \<and>
                       same_source (qr_source r) source) rows)"

text \<open>ORDER BY on text columns compares their bytes.\<close>

definition list_edges_where :: "graph_db \<Rightarrow> (edge_row \<Rightarrow> bool) \<Rightarrow> edge_row list" where
  "list_edges_where s P =
     sort_slice
       (\<lambda>a b. str_less (er_created a) (er_created b) \<or> (er_created a = er_created b \<and> str_less (er_id a) (er_id b)))
       (filter P (db_edges s))"

definition check_relations :: "relation_type list \<Rightarrow> gerr + unit" where
  "check_relations types =
     (case List.find (\<lambda>t. \<not> valid_relation_type t) types of
        Some t \<Rightarrow> Inl (InvalidRelation t)
      | None \<Rightarrow> Inr ())"

definition list_edges :: "graph_db \<Rightarrow> relation_type list \<Rightarrow> int \<Rightarrow> gerr + edge list" where
  "list_edges s types limit =
     (let limit = (if limit \<le> 0 \<or> limit > 1000 then 100 else limit)
      in res_bind (check_relations types) (\<lambda>_.
         res_list scan_edge
           (take (nat limit)
             (list_edges_where s
               (\<lambda>r. er_status r = ''active'' \<and> (types = [] \<or> er_type r \<in> set types))))))"

definition list_outgoing_edges :: "graph_db \<Rightarrow> node_id \<Rightarrow> relation_type list \<Rightarrow> gerr + edge list" where
  "list_outgoing_edges s nid types =
     res_bind (check_relations types) (\<lambda>_.
     res_list scan_edge
       (list_edges_where s
         (\<lambda>r. er_from r = nid \<and> er_status r = ''active'' \<and> (types = [] \<or> er_type r \<in> set types))))"

definition list_incoming_edges :: "graph_db \<Rightarrow> node_id \<Rightarrow> relation_type list \<Rightarrow> gerr + edge list" where
  "list_incoming_edges s nid types =
     res_bind (check_relations types) (\<lambda>_.
     res_list scan_edge
       (list_edges_where s
         (\<lambda>r. er_to r = nid \<and> er_status r = ''active'' \<and> (types = [] \<or> er_type r \<in> set types))))"

definition list_properties :: "property_row list \<Rightarrow> string \<Rightarrow> gerr + property list" where
  "list_properties rows owner =
     res_list scan_property
       (sort_slice
         (\<lambda>a b. str_less (qr_key a) (qr_key b) \<or>
                (qr_key a = qr_key b \<and>
                 (qr_position a < qr_position b \<or>
                  (qr_position a = qr_position b \<and> str_less (qr_id a) (qr_id b)))))
         (filter (\<lambda>r. qr_owner r = owner \<and> qr_status r = ''active'') rows))"

definition list_node_properties :: "graph_db \<Rightarrow> node_id \<Rightarrow> gerr + property list" where
  "list_node_properties s nid = list_properties (db_node_props s) nid"

definition list_edge_properties :: "graph_db \<Rightarrow> edge_id \<Rightarrow> gerr + property list" where
  "list_edge_properties s eid = list_properties (db_edge_props s) eid"

definition list_audit_events :: "graph_db \<Rightarrow> int \<Rightarrow> gerr + audit_event list" where
  "list_audit_events s limit =
     (let limit = (if limit \<le> 0 \<or> limit > 1000 then 100 else limit)
      in res_list scan_audit_event
           (take (nat limit)
             (sort_slice
               (\<lambda>a b. str_less (ar_created b) (ar_created a) \<or>
                      (ar_created a = ar_created b \<and> str_less (ar_id b) (ar_id a)))
               (db_audit s))))"

text \<open>
  \<open>SearchNodes\<close>. With a text, the full-text index gives the matching node ids in the order of
  its ranking, the parameter \<open>en_fts\<close>.
\<close>

definition search_row :: "search_nodes_query \<Rightarrow> node_row \<Rightarrow> bool" where
  "search_row q r \<longleftrightarrow>
     nr_status r = ''active'' \<and> nr_sensitivity r \<in> set (sq_allowed q) \<and>
     (sq_kinds q = [] \<or> nr_kind r \<in> set (sq_kinds q))"

definition search_nodes :: "env \<Rightarrow> graph_db \<Rightarrow> search_nodes_query \<Rightarrow> gerr + node list" where
  "search_nodes en s q0 =
     res_bind (normalize_search_nodes q0) (\<lambda>q.
     let rows =
           (if sq_text q = []
            then sort_slice
                   (\<lambda>a b. str_less (nr_updated b) (nr_updated a) \<or>
                          (nr_updated a = nr_updated b \<and> str_less (nr_id a) (nr_id b)))
                   (filter (search_row q) (db_nodes s))
            else filter (search_row q) (List.map_filter (find_node s) (en_fts en (sq_text q))))
     in res_list (get_node s) (map nr_id (take (nat (sq_limit q)) rows)))"

section \<open>Nodes\<close>

definition node_row_of :: "node_id \<Rightarrow> upsert_node_request \<Rightarrow> gotime \<Rightarrow> node_row" where
  "node_row_of nid req now =
     \<lparr>nr_id = nid, nr_kind = un_kind req, nr_stable_key = nullable_string (un_stable_key req),
      nr_title = un_title req, nr_summary = un_summary req, nr_status = un_status req,
      nr_sensitivity = un_sensitivity req, nr_trust = un_trust req,
      nr_confidence = un_confidence req, nr_source = nullable_id (un_source req),
      nr_actor = un_actor req, nr_created = time_string now, nr_updated = time_string now\<rparr>"

definition insert_node :: "node_id \<Rightarrow> upsert_node_request \<Rightarrow> gotime \<Rightarrow> unit db_run" where
  "insert_node nid req now s = put_nodes (db_nodes s @ [node_row_of nid req now]) s"

text \<open>UPDATE: the number of rows that had the id.\<close>

definition update_node :: "node_id \<Rightarrow> upsert_node_request \<Rightarrow> gotime \<Rightarrow> nat db_run" where
  "update_node nid req now s =
     run_bind
       (put_nodes
         (map (\<lambda>r. if nr_id r = nid then (node_row_of nid req now)\<lparr>nr_created := nr_created r\<rparr> else r)
            (db_nodes s)))
       (\<lambda>_. run_ret (length (filter (\<lambda>r. nr_id r = nid) (db_nodes s)))) s"

definition upsert_node :: "env \<Rightarrow> upsert_node_request \<Rightarrow> node db_run" where
  "upsert_node en req0 =
     run_bind (run_lift (normalize_upsert_node req0)) (\<lambda>req.
     run_bind (clock_now en) (\<lambda>now.
     run_bind
       (run_read (\<lambda>s. Inr (if un_id req = [] \<and> un_stable_key req \<noteq> []
                           then (case node_id_by_stable_key s (un_kind req) (un_stable_key req) of
                                   Some nid \<Rightarrow> nid | None \<Rightarrow> un_id req)
                           else un_id req))) (\<lambda>nid.
     if nid = [] then
       run_bind (new_id en ''node'') (\<lambda>nid.
       run_bind (insert_node nid req now) (\<lambda>_.
       run_read (\<lambda>s. get_node s nid)))
     else
       run_bind (update_node nid req now) (\<lambda>n.
       run_bind (if n = 0 then insert_node nid req now else run_ret ()) (\<lambda>_.
       run_read (\<lambda>s. get_node s nid))))))"

definition set_node_status :: "env \<Rightarrow> node_id \<Rightarrow> lifecycle_status \<Rightarrow> string \<Rightarrow> node db_run" where
  "set_node_status en nid status actor =
     (if nid = [] then run_err NodeIdRequired
      else if \<not> valid_lifecycle_status status then run_err (InvalidNodeStatus status)
      else
        run_bind (clock_now en) (\<lambda>now.
        run_bind
          (\<lambda>s. put_nodes
                 (map (\<lambda>r. if nr_id r = nid
                           then r\<lparr>nr_status := status, nr_actor := norm_default actor default_agent_actor,
                                  nr_updated := time_string now\<rparr>
                           else r) (db_nodes s)) s) (\<lambda>_.
        run_read (\<lambda>s. if find_node s nid = None then Inl NoRows else get_node s nid))))"

section \<open>Edges\<close>

definition edge_row_of :: "edge_id \<Rightarrow> upsert_edge_request \<Rightarrow> gotime \<Rightarrow> edge_row" where
  "edge_row_of eid req now =
     \<lparr>er_id = eid, er_from = ue_from req, er_type = ue_type req, er_to = ue_to req,
      er_status = ue_status req, er_confidence = ue_confidence req, er_trust = ue_trust req,
      er_source = nullable_id (ue_source req), er_actor = ue_actor req,
      er_valid_from = nullable_time (ue_valid_from req), er_valid_to = nullable_time (ue_valid_to req),
      er_created = time_string now, er_updated = time_string now\<rparr>"

definition insert_edge :: "edge_id \<Rightarrow> upsert_edge_request \<Rightarrow> gotime \<Rightarrow> unit db_run" where
  "insert_edge eid req now s = put_edges (db_edges s @ [edge_row_of eid req now]) s"

definition update_edge :: "edge_id \<Rightarrow> upsert_edge_request \<Rightarrow> gotime \<Rightarrow> nat db_run" where
  "update_edge eid req now s =
     run_bind
       (put_edges
         (map (\<lambda>r. if er_id r = eid then (edge_row_of eid req now)\<lparr>er_created := er_created r\<rparr> else r)
            (db_edges s)))
       (\<lambda>_. run_ret (length (filter (\<lambda>r. er_id r = eid) (db_edges s)))) s"

definition upsert_edge :: "env \<Rightarrow> upsert_edge_request \<Rightarrow> edge db_run" where
  "upsert_edge en req0 =
     run_bind (run_lift (normalize_upsert_edge req0)) (\<lambda>req.
     run_bind (clock_now en) (\<lambda>now.
     run_bind
       (run_read (\<lambda>s. Inr (if ue_id req = []
                           then (case edge_id_by_identity s (ue_from req) (ue_type req) (ue_to req) (ue_source req) of
                                   Some eid \<Rightarrow> eid | None \<Rightarrow> [])
                           else ue_id req))) (\<lambda>eid.
     if eid = [] then
       run_bind (new_id en ''edge'') (\<lambda>eid.
       run_bind (insert_edge eid req now) (\<lambda>_.
       run_read (\<lambda>s. get_edge s eid)))
     else
       run_bind (update_edge eid req now) (\<lambda>n.
       run_bind (if n = 0 then insert_edge eid req now else run_ret ()) (\<lambda>_.
       run_read (\<lambda>s. get_edge s eid))))))"

definition set_edge_status :: "env \<Rightarrow> edge_id \<Rightarrow> lifecycle_status \<Rightarrow> string \<Rightarrow> edge db_run" where
  "set_edge_status en eid status actor =
     (if eid = [] then run_err EdgeIdRequired
      else if \<not> valid_lifecycle_status status then run_err (InvalidEdgeStatus status)
      else
        run_bind (clock_now en) (\<lambda>now.
        run_bind
          (\<lambda>s. put_edges
                 (map (\<lambda>r. if er_id r = eid
                           then r\<lparr>er_status := status, er_actor := norm_default actor default_agent_actor,
                                  er_updated := time_string now\<rparr>
                           else r) (db_edges s)) s) (\<lambda>_.
        run_read (\<lambda>s. get_edge s eid))))"

section \<open>Properties\<close>

definition property_row_of :: "property_id \<Rightarrow> upsert_property_request \<Rightarrow> gotime \<Rightarrow> property_row" where
  "property_row_of pid req now =
     \<lparr>qr_id = pid, qr_owner = up_owner req, qr_key = up_key req, qr_type = gv_type (up_value req),
      qr_text = gv_text (up_value req), qr_number = nullable_number (up_value req),
      qr_time = nullable_value_time (up_value req), qr_json = gv_json (up_value req),
      qr_position = up_position req, qr_status = up_status req, qr_confidence = up_confidence req,
      qr_trust = up_trust req, qr_source = nullable_id (up_source req), qr_actor = up_actor req,
      qr_created = time_string now, qr_updated = time_string now\<rparr>"

definition update_property_rows ::
    "property_id \<Rightarrow> upsert_property_request \<Rightarrow> gotime \<Rightarrow> property_row list \<Rightarrow> property_row list" where
  "update_property_rows pid req now rows =
     map (\<lambda>r. if qr_id r = pid then (property_row_of pid req now)\<lparr>qr_created := qr_created r\<rparr> else r) rows"

definition get_property :: "property_row list \<Rightarrow> property_id \<Rightarrow> gerr + property" where
  "get_property rows pid = row_scan scan_property (List.find (\<lambda>r. qr_id r = pid) rows)"

text \<open>
  \<open>UpsertNodeProperty\<close> and \<open>UpsertEdgeProperty\<close> are one text on two tables: the reader and the
  writer of the table are the arguments.
\<close>

definition upsert_property_in ::
    "env \<Rightarrow> (graph_db \<Rightarrow> property_row list) \<Rightarrow> (property_row list \<Rightarrow> unit db_run) \<Rightarrow>
     upsert_property_request \<Rightarrow> property db_run" where
  "upsert_property_in en rows put req =
     run_bind
       (run_read (\<lambda>s. Inr (if up_id req = []
                           then (case property_id_by_identity (rows s) (up_owner req) (up_key req)
                                        (up_position req) (up_source req) of
                                   Some pid \<Rightarrow> pid | None \<Rightarrow> [])
                           else up_id req))) (\<lambda>pid.
     if pid = [] then
       run_bind (new_id en ''prop'') (\<lambda>pid.
       run_bind (clock_now en) (\<lambda>now.
       run_bind (\<lambda>s. put (rows s @ [property_row_of pid req now]) s) (\<lambda>_.
       run_read (\<lambda>s. get_property (rows s) pid))))
     else
       run_bind (clock_now en) (\<lambda>now.
       run_bind (run_read (\<lambda>s. Inr (\<exists>r\<in>set (rows s). qr_id r = pid))) (\<lambda>found.
       run_bind (\<lambda>s. put (update_property_rows pid req now (rows s)) s) (\<lambda>_.
       if found then run_read (\<lambda>s. get_property (rows s) pid)
       else
         run_bind (clock_now en) (\<lambda>now.
         run_bind (\<lambda>s. put (rows s @ [property_row_of pid req now]) s) (\<lambda>_.
         run_read (\<lambda>s. get_property (rows s) pid)))))))"

definition upsert_node_property :: "env \<Rightarrow> upsert_property_request \<Rightarrow> property db_run" where
  "upsert_node_property en req0 =
     run_bind (run_lift (normalize_upsert_node_property req0))
       (upsert_property_in en db_node_props put_node_props)"

definition upsert_edge_property :: "env \<Rightarrow> upsert_property_request \<Rightarrow> property db_run" where
  "upsert_edge_property en req0 =
     run_bind (run_lift (normalize_upsert_edge_property req0))
       (upsert_property_in en db_edge_props put_edge_props)"

section \<open>Audit\<close>

definition append_audit :: "env \<Rightarrow> append_audit_request \<Rightarrow> audit_event db_run" where
  "append_audit en req0 =
     run_bind (run_lift (normalize_append_audit req0)) (\<lambda>req.
     run_bind (if aa_id req = [] then new_id en ''audit'' else run_ret (aa_id req)) (\<lambda>aid.
     run_bind (clock_now en) (\<lambda>now.
     run_bind
       (\<lambda>s. put_audits
              (db_audit s @
               [\<lparr>ar_id = aid, ar_kind = aa_kind req, ar_actor = aa_actor req,
                 ar_node = nullable_id (aa_node req), ar_edge = nullable_id (aa_edge req),
                 ar_source = nullable_id (aa_source req), ar_message = aa_message req,
                 ar_details = aa_details req, ar_created = time_string now\<rparr>]) s) (\<lambda>_.
     run_ret \<lparr>au_id = aid, au_kind = aa_kind req, au_actor = aa_actor req, au_node = aa_node req,
              au_edge = aa_edge req, au_source = aa_source req, au_message = aa_message req,
              au_details = aa_details req, au_created = now\<rparr>))))"

section \<open>Unit of work\<close>

text \<open>
  The transaction of \<open>WithUnitOfWork\<close>: an error of the work restores the tables; the clock and
  the random source are not part of them. Staged evidence files are left out.
\<close>

definition with_unit_of_work :: "bool \<Rightarrow> unit db_run \<Rightarrow> unit db_run" where
  "with_unit_of_work in_unit_of_work work s =
     (if in_unit_of_work then (Inl NestedUnitOfWork, s)
      else case work s of
             (Inl e, t) \<Rightarrow> (Inl e, s\<lparr>db_tick := db_tick t\<rparr>)
           | (Inr _, t) \<Rightarrow> (Inr (), t))"

section \<open>The store as the executor's interface\<close>

definition sql_ops :: "env \<Rightarrow> graph_db store_ops" where
  "sql_ops en =
     \<lparr>so_search_nodes = search_nodes en,
      so_list_edges = list_edges,
      so_list_outgoing = list_outgoing_edges,
      so_get_node = get_node,
      so_get_edge = get_edge,
      so_upsert_node = upsert_node en,
      so_upsert_edge = upsert_edge en,
      so_set_node_status = set_node_status en,
      so_set_edge_status = set_edge_status en,
      so_upsert_node_property = upsert_node_property en,
      so_upsert_edge_property = upsert_edge_property en,
      so_append_audit = append_audit en,
      so_node_properties = list_node_properties,
      so_edge_properties = list_edge_properties\<rparr>"

end
