(* ===== verification/Query_Access.thy ===== *)
theory Query_Access imports Query_Mutations begin

text \<open>
  What the executor promises, proved against the interface of the store. The locale
  \<open>store_reader\<close> states what the executor relies on when it reads; \<open>store_writer\<close> adds that
  writes keep the store's invariant and that its audit trail only grows, by the events appended.
  The lemmas here hold for every store that keeps these laws.
\<close>

section \<open>Readable nodes, links and paths\<close>

definition visible_node :: "'s store_ops \<Rightarrow> 's \<Rightarrow> sensitivity list \<Rightarrow> node \<Rightarrow> bool" where
  "visible_node ops s allowed n \<longleftrightarrow> so_get_node ops s (nd_id n) = Inr n \<and> can_read_node allowed n"

definition candidate_of :: "'s store_ops \<Rightarrow> 's \<Rightarrow> query_candidate \<Rightarrow> bool" where
  "candidate_of ops s c \<longleftrightarrow> property_values ops s (nd_id (qc_node c)) = Inr (qc_props c)"

definition link :: "'s store_ops \<Rightarrow> 's \<Rightarrow> relation_type \<Rightarrow> node_id \<Rightarrow> edge \<Rightarrow> bool" where
  "link ops s rel nid e \<longleftrightarrow>
     ed_from e = nid \<and> ed_type e = rel \<and> ed_status e = ''active'' \<and>
     (\<exists>es. so_list_outgoing ops s nid [rel] = Inr es \<and> e \<in> set es)"

text \<open>The paths a traversal may report: readable nodes, active edges of the relation, no node twice.\<close>

inductive walk_path ::
    "'s store_ops \<Rightarrow> 's \<Rightarrow> relation_type \<Rightarrow> sensitivity list \<Rightarrow> node_id list \<Rightarrow> edge list \<Rightarrow> bool"
  for ops s rel allowed where
  start: "visible_node ops s allowed n \<Longrightarrow> walk_path ops s rel allowed [nd_id n] []"
| step: "walk_path ops s rel allowed ns es \<Longrightarrow> link ops s rel (last ns) e \<Longrightarrow>
         visible_node ops s allowed n \<Longrightarrow> nd_id n = ed_to e \<Longrightarrow> nd_id n \<notin> set ns \<Longrightarrow>
         walk_path ops s rel allowed (ns @ [nd_id n]) (es @ [e])"

inductive_cases walk_path_start: "walk_path ops s rel allowed ns []"

lemma walk_path_shape:
  "walk_path ops s rel allowed ns es \<Longrightarrow>
   distinct ns \<and> length ns = Suc (length es) \<and>
   (\<forall>nid\<in>set ns. \<exists>n. nd_id n = nid \<and> visible_node ops s allowed n)"
  by (induction rule: walk_path.induct) auto

text \<open>Along a path, each edge leads from one node to the next.\<close>

lemma walk_path_nth:
  "walk_path ops s rel allowed ns es \<Longrightarrow> i < length es \<Longrightarrow>
   link ops s rel (ns ! i) (es ! i) \<and> ns ! Suc i = ed_to (es ! i)"
proof (induction rule: walk_path.induct)
  case (step ns es e n)
  have len: "length ns = Suc (length es)"
    using walk_path_shape [OF step.hyps(1)] by simp
  then have "last ns = ns ! length es"
    by (metis diff_Suc_1 last_conv_nth length_0_conv nat.distinct(1))
  then show ?case
    using step len by (cases "i < length es") (auto simp: nth_append less_Suc_eq)
qed simp

definition path_match ::
    "'s store_ops \<Rightarrow> 's \<Rightarrow> statement \<Rightarrow> sensitivity list \<Rightarrow> match_candidate \<Rightarrow> bool" where
  "path_match ops s st allowed c \<longleftrightarrow>
     (\<exists>es. walk_path ops s (st_relation st) allowed (mc_node_ids c) es \<and> es \<noteq> [] \<and>
        mc_edge_ids c = map ed_id es \<and> mc_edge c = last es) \<and>
     hd (mc_node_ids c) = nd_id (qc_node (mc_from c)) \<and>
     last (mc_node_ids c) = nd_id (qc_node (mc_to c)) \<and>
     st_min_depth st \<le> int (length (mc_edge_ids c)) \<and>
     int (length (mc_edge_ids c)) \<le> st_max_depth st \<and>
     visible_node ops s allowed (qc_node (mc_from c)) \<and> candidate_of ops s (mc_from c) \<and>
     visible_node ops s allowed (qc_node (mc_to c)) \<and> candidate_of ops s (mc_to c) \<and>
     nd_kind (qc_node (mc_to c)) = st_to_kind st \<and>
     projector_matches match_typed_field c (st_where st)"

definition edge_match ::
    "'s store_ops \<Rightarrow> 's \<Rightarrow> statement \<Rightarrow> sensitivity list \<Rightarrow> match_candidate \<Rightarrow> bool" where
  "edge_match ops s st allowed c \<longleftrightarrow>
     ed_status (mc_edge c) = ''active'' \<and> ed_type (mc_edge c) = st_relation st \<and>
     ed_from (mc_edge c) = nd_id (qc_node (mc_from c)) \<and> ed_to (mc_edge c) = nd_id (qc_node (mc_to c)) \<and>
     mc_node_ids c = [ed_from (mc_edge c), ed_to (mc_edge c)] \<and> mc_edge_ids c = [ed_id (mc_edge c)] \<and>
     visible_node ops s allowed (qc_node (mc_from c)) \<and> candidate_of ops s (mc_from c) \<and>
     visible_node ops s allowed (qc_node (mc_to c)) \<and> candidate_of ops s (mc_to c) \<and>
     nd_kind (qc_node (mc_from c)) = st_from_kind st \<and> nd_kind (qc_node (mc_to c)) = st_to_kind st \<and>
     projector_matches match_typed_field c (st_where st)"

section \<open>Candidates of FIND\<close>

lemma find_candidates_filter:
  "find_candidates ops s ks ns = Inr cs \<Longrightarrow>
   (\<forall>c\<in>set cs. qc_node c \<in> set ns \<and> candidate_of ops s c \<and> projector_matches node_typed_field c ks) \<and>
   (\<forall>n\<in>set ns. \<exists>props. property_values ops s (nd_id n) = Inr props \<and>
      (projector_matches node_typed_field \<lparr>qc_node = n, qc_props = props\<rparr> ks \<longrightarrow>
       \<lparr>qc_node = n, qc_props = props\<rparr> \<in> set cs)) \<and>
   length cs \<le> length ns"
proof (induction ns arbitrary: cs)
  case (Cons n ns)
  from Cons.prems obtain props where p: "property_values ops s (nd_id n) = Inr props"
    by auto
  let ?c = "\<lparr>qc_node = n, qc_props = props\<rparr>"
  obtain cs' where "find_candidates ops s ks ns = Inr cs'"
    and "cs = (if projector_matches node_typed_field ?c ks then ?c # cs' else cs')"
    using Cons.prems p by (auto simp: Let_def res_simps split: if_splits)
  with Cons.IH [of cs'] p show ?case
    by (auto simp: candidate_of_def)
qed simp

section \<open>Reading\<close>

locale store_reader =
  fixes ops :: "'s store_ops" and inv :: "'s \<Rightarrow> bool"
  assumes get_node_id: "inv s \<Longrightarrow> so_get_node ops s nid = Inr n \<Longrightarrow> nd_id n = nid"
    and search_found: "inv s \<Longrightarrow> so_search_nodes ops s q = Inr ns \<Longrightarrow> n \<in> set ns \<Longrightarrow>
      so_get_node ops s (nd_id n) = Inr n \<and> nd_status n = ''active'' \<and>
      (sq_allowed q \<noteq> [] \<longrightarrow> nd_sensitivity n \<in> set (sq_allowed q)) \<and>
      (sq_kinds q \<noteq> [] \<longrightarrow> nd_kind n \<in> set (sq_kinds q))"
    and outgoing_found: "inv s \<Longrightarrow> so_list_outgoing ops s nid ts = Inr es \<Longrightarrow> e \<in> set es \<Longrightarrow>
      ed_from e = nid \<and> ed_status e = ''active'' \<and> (ts \<noteq> [] \<longrightarrow> ed_type e \<in> set ts)"
    and edges_found: "inv s \<Longrightarrow> so_list_edges ops s ts l = Inr es \<Longrightarrow> e \<in> set es \<Longrightarrow>
      ed_status e = ''active'' \<and> (ts \<noteq> [] \<longrightarrow> ed_type e \<in> set ts)"
begin

lemma search_visible:
  assumes "inv s" "allowed \<noteq> []" "so_search_nodes ops s (search_kind kind allowed) = Inr ns" "n \<in> set ns"
  shows "visible_node ops s allowed n \<and> nd_kind n = kind"
  using search_found [OF assms(1,3,4)] assms(2)
  by (simp add: search_kind_def visible_node_def can_read_node_def)

lemma find_rows:
  assumes "inv s" "allowed \<noteq> []" "st_group_by st = []" "0 \<le> st_limit st"
    and "execute_find ops s st allowed = Inr (rows, paths)"
  shows "int (length rows) \<le> st_limit st \<and> paths = [] \<and>
    (\<forall>r\<in>set rows. \<exists>c. visible_node ops s allowed (qc_node c) \<and> nd_kind (qc_node c) = st_kind st \<and>
       candidate_of ops s c \<and> projector_matches node_typed_field c (st_where st) \<and>
       r = projector_row node_typed_field c (st_return st))"
proof -
  obtain ns cs where ns: "so_search_nodes ops s (search_kind (st_kind st) allowed) = Inr ns"
    and cs: "find_candidates ops s (st_where st) ns = Inr cs"
    and rows: "rows = query_rows (limit_rows (sort_candidates cs (st_order_by st) (st_order st)) (st_limit st))
                 (st_return st)" and "paths = []"
    using assms(3,5) by (auto simp: execute_find_def)
  moreover have "\<exists>c. visible_node ops s allowed (qc_node c) \<and> nd_kind (qc_node c) = st_kind st \<and>
       candidate_of ops s c \<and> projector_matches node_typed_field c (st_where st) \<and>
       r = projector_row node_typed_field c (st_return st)" if r: "r \<in> set rows" for r
  proof -
    obtain c where "c \<in> set cs" "r = projector_row node_typed_field c (st_return st)"
      using r limit_rows_set [of "sort_candidates cs (st_order_by st) (st_order st)" "st_limit st"]
      by (auto simp: rows query_rows_def)
    then show ?thesis
      using find_candidates_filter [OF cs] search_visible [OF assms(1,2) ns] by blast
  qed
  ultimately show ?thesis
    using limit_rows_length [OF assms(4)] by (simp add: query_rows_def)
qed

lemma match_edge_ok:
  assumes "inv s" "match_edge ops s st allowed e = Inr cs" "c \<in> set cs"
    and "ed_status e = ''active''" "ed_type e = st_relation st"
  shows "edge_match ops s st allowed c"
proof -
  obtain a b fp tp where
    g: "so_get_node ops s (ed_from e) = Inr a" "so_get_node ops s (ed_to e) = Inr b" and
    k: "nd_kind a = st_from_kind st" "nd_kind b = st_to_kind st"
       "can_read_node allowed a" "can_read_node allowed b" and
    p: "property_values ops s (nd_id a) = Inr fp" "property_values ops s (nd_id b) = Inr tp" and
    c: "c = \<lparr>mc_from = \<lparr>qc_node = a, qc_props = fp\<rparr>, mc_edge = e,
             mc_to = \<lparr>qc_node = b, qc_props = tp\<rparr>,
             mc_node_ids = [nd_id a, nd_id b], mc_edge_ids = [ed_id e]\<rparr>"
       "projector_matches match_typed_field c (st_where st)"
    using assms(2,3) by (auto simp: match_edge_def Let_def split: if_splits)
  have "nd_id a = ed_from e" "nd_id b = ed_to e"
    using g get_node_id assms(1) by blast+
  then show ?thesis
    using g k p c assms(4,5) by (simp add: edge_match_def visible_node_def candidate_of_def)
qed

lemma match_candidates_ok:
  assumes "inv s" "so_list_edges ops s [st_relation st] l = Inr es"
    and "res_list (match_edge ops s st allowed) es = Inr css" "c \<in> set (concat css)"
  shows "edge_match ops s st allowed c"
proof -
  obtain cs where "cs \<in> set css" "c \<in> set cs" using assms(4) by auto
  with res_list_Inr_set [OF assms(3)] obtain e where "e \<in> set es" "match_edge ops s st allowed e = Inr cs"
    by blast
  then show ?thesis
    using match_edge_ok [OF assms(1) _ \<open>c \<in> set cs\<close>] edges_found [OF assms(1,2)] by simp
qed

text \<open>
  The traversal: every candidate it adds is a path match that starts at the given node, and the
  number of candidates never passes the cap.
\<close>

definition branch :: "'s \<Rightarrow> statement \<Rightarrow> sensitivity list \<Rightarrow> query_candidate \<Rightarrow> variable_match_state \<Rightarrow> bool"
  where
  "branch s st allowed c0 vs \<longleftrightarrow>
     (\<exists>es. walk_path ops s (st_relation st) allowed (vs_node_ids vs) es \<and> vs_edge_ids vs = map ed_id es) \<and>
     hd (vs_node_ids vs) = nd_id (qc_node c0) \<and> last (vs_node_ids vs) = nd_id (vs_current vs) \<and>
     set (vs_node_ids vs) = set (vs_seen vs)"

lemma branch_extend:
  assumes "inv s" "branch s st allowed c0 vs" "so_get_node ops s (ed_to e) = Inr t"
    and "can_read_node allowed t" "nd_id t \<notin> set (vs_seen vs)"
    and "link ops s (st_relation st) (nd_id (vs_current vs)) e"
  shows "branch s st allowed c0 ((extend vs e t)\<lparr>vs_seen := nd_id t # vs_seen vs\<rparr>)"
    and "visible_node ops s allowed t"
    and "\<exists>es. walk_path ops s (st_relation st) allowed (vs_node_ids (extend vs e t)) (es @ [e]) \<and>
           vs_edge_ids (extend vs e t) = map ed_id (es @ [e])"
proof -
  have t: "nd_id t = ed_to e"
    using get_node_id assms(1,3) by blast
  then show v: "visible_node ops s allowed t"
    using assms(3,4) by (simp add: visible_node_def)
  obtain es where es: "walk_path ops s (st_relation st) allowed (vs_node_ids vs) es" "vs_edge_ids vs = map ed_id es"
    using assms(2) by (auto simp: branch_def)
  then have ne: "vs_node_ids vs \<noteq> []"
    using walk_path_shape by fastforce
  have "walk_path ops s (st_relation st) allowed (vs_node_ids vs @ [nd_id t]) (es @ [e])"
    using assms(2,5,6) v t es by (intro walk_path.step) (auto simp: branch_def)
  then show *: "\<exists>es. walk_path ops s (st_relation st) allowed (vs_node_ids (extend vs e t)) (es @ [e]) \<and>
           vs_edge_ids (extend vs e t) = map ed_id (es @ [e])"
    using es by (auto simp: extend_def)
  show "branch s st allowed c0 ((extend vs e t)\<lparr>vs_seen := nd_id t # vs_seen vs\<rparr>)"
    using assms(2) ne * by (auto simp: branch_def extend_def)
qed

lemma path_candidate_ok:
  assumes "path_candidate ops s st c0 e vs = Inr cs" "c \<in> set cs"
    and "walk_path ops s (st_relation st) allowed (vs_node_ids vs) (es @ [e])"
    and "vs_edge_ids vs = map ed_id (es @ [e])" "hd (vs_node_ids vs) = nd_id (qc_node c0)"
    and "last (vs_node_ids vs) = nd_id (vs_current vs)"
    and "visible_node ops s allowed (vs_current vs)" "int (length (vs_edge_ids vs)) \<le> st_max_depth st"
    and "visible_node ops s allowed (qc_node c0)" "candidate_of ops s c0"
  shows "path_match ops s st allowed c \<and> mc_from c = c0"
proof -
  obtain props where "property_values ops s (nd_id (vs_current vs)) = Inr props"
    and "c = \<lparr>mc_from = c0, mc_edge = e, mc_to = \<lparr>qc_node = vs_current vs, qc_props = props\<rparr>,
              mc_node_ids = vs_node_ids vs, mc_edge_ids = vs_edge_ids vs\<rparr>"
    and "projector_matches match_typed_field c (st_where st)"
    and "st_min_depth st \<le> int (length (vs_edge_ids vs))" "nd_kind (vs_current vs) = st_to_kind st"
    using assms(1,2) by (auto simp: path_candidate_def Let_def split: if_splits)
  then show ?thesis
    using assms(3-10) unfolding path_match_def
    by (auto simp: candidate_of_def intro!: exI [of _ "es @ [e]"])
qed

lemma path_candidate_length: "path_candidate ops s st c0 e vs = Inr cs \<Longrightarrow> length cs \<le> 1"
  by (auto simp: path_candidate_def Let_def split: if_splits)

definition sound_from :: "'s \<Rightarrow> statement \<Rightarrow> sensitivity list \<Rightarrow> match_candidate list \<Rightarrow> match_candidate list \<Rightarrow> bool"
  where
  "sound_from s st allowed cands cands' \<longleftrightarrow>
     (\<forall>c\<in>set cands'. c \<in> set cands \<or> path_match ops s st allowed c) \<and>
     (length cands \<le> max_traversal_candidates \<longrightarrow> length cands' \<le> max_traversal_candidates)"

lemma sound_from_refl: "sound_from s st allowed cands cands"
  by (simp add: sound_from_def)

lemma sound_from_trans:
  "sound_from s st allowed a b \<Longrightarrow> sound_from s st allowed b c \<Longrightarrow> sound_from s st allowed a c"
  by (auto simp: sound_from_def)

lemma sound_from_append:
  "\<forall>c\<in>set new. path_match ops s st allowed c \<Longrightarrow> length new \<le> 1 \<Longrightarrow>
   length cands < max_traversal_candidates \<Longrightarrow> sound_from s st allowed cands (cands @ new)"
  by (auto simp: sound_from_def)

lemma walk_sound_gen:
  "walk ops' s st c0 allowed vs cands = Inr cands' \<Longrightarrow> ops' = ops \<Longrightarrow> inv s \<Longrightarrow>
   branch s st allowed c0 vs \<Longrightarrow> visible_node ops s allowed (qc_node c0) \<Longrightarrow> candidate_of ops s c0 \<Longrightarrow>
   sound_from s st allowed cands cands'"
  "walk_edges ops' s st c0 allowed vs es cands = Inr cands'' \<Longrightarrow> ops' = ops \<Longrightarrow> inv s \<Longrightarrow>
   branch s st allowed c0 vs \<Longrightarrow> visible_node ops s allowed (qc_node c0) \<Longrightarrow> candidate_of ops s c0 \<Longrightarrow>
   int (length (vs_edge_ids vs)) < st_max_depth st \<Longrightarrow>
   \<forall>e\<in>set es. link ops s (st_relation st) (nd_id (vs_current vs)) e \<Longrightarrow>
   sound_from s st allowed cands cands''"
proof (induction ops' s st c0 allowed vs cands and ops' s st c0 allowed vs es cands
    arbitrary: cands' and cands'' rule: walk_walk_edges.induct)
  case (1 ops' s st c0 allowed vs cands)
  show ?case
  proof (cases "length cands \<ge> max_traversal_candidates \<or> int (length (vs_edge_ids vs)) \<ge> st_max_depth st")
    case True
    with "1.prems"(1) show ?thesis by (auto simp: walk.simps sound_from_refl)
  next
    case False
    with "1.prems"(1) obtain es where es: "so_list_outgoing ops' s (nd_id (vs_current vs)) [st_relation st] = Inr es"
      and w: "walk_edges ops' s st c0 allowed vs es cands = Inr cands'"
      by (auto simp: walk.simps [of ops'] split: sum.splits)
    have "\<forall>e\<in>set es. link ops s (st_relation st) (nd_id (vs_current vs)) e"
      using outgoing_found [OF "1.prems"(3)] es "1.prems"(2) by (fastforce simp: link_def)
    then show ?thesis
      using "1.IH" [OF False es w] "1.prems" False by simp
  qed
next
  case (2 ops' s st c0 allowed vs cands)
  then show ?case by (simp add: walk_edges.simps sound_from_refl)
next
  case (3 ops' s st c0 allowed vs e es cands)
  show ?case
  proof (cases "length cands \<ge> max_traversal_candidates")
    case True
    with "3.prems"(1) show ?thesis by (simp add: walk_edges.simps sound_from_refl)
  next
    case False
    from "3.prems"(1) False obtain t where t: "so_get_node ops' s (ed_to e) = Inr t"
      by (auto simp: walk_edges.simps(2) split: sum.splits)
    show ?thesis
    proof (cases "\<not> can_read_node allowed t \<or> nd_id t \<in> set (vs_seen vs)")
      case True
      have "walk_edges ops' s st c0 allowed vs es cands = Inr cands''"
        using "3.prems"(1) False t True by (simp add: walk_edges.simps(2))
      then show ?thesis
        using "3.IH"(1) [OF False t True] "3.prems" by simp
    next
      case ok: False
      let ?x = "extend vs e t" and ?v = "(extend vs e t)\<lparr>vs_seen := nd_id t # vs_seen vs\<rparr>"
      from "3.prems"(1) False t ok obtain new where new: "path_candidate ops' s st c0 e ?x = Inr new"
        by (auto simp: walk_edges.simps(2) split: sum.splits)
      have b: "branch s st allowed c0 ?v" "visible_node ops s allowed t"
        using branch_extend [OF "3.prems"(3,4), of e t] t ok "3.prems"(2,8) by auto
      obtain xs where xs: "walk_path ops s (st_relation st) allowed (vs_node_ids ?x) (xs @ [e])"
        "vs_edge_ids ?x = map ed_id (xs @ [e])"
        using branch_extend(3) [OF "3.prems"(3,4), of e t] t ok "3.prems"(2,8) by auto
      have "path_match ops s st allowed c" if "c \<in> set new" for c
        using path_candidate_ok [OF new [unfolded "3.prems"(2)] that xs] b "3.prems"(5,6,7)
        by (simp add: extend_def branch_def)
      then have a: "sound_from s st allowed cands (cands @ new)"
        using path_candidate_length [OF new [unfolded "3.prems"(2)]] False by (intro sound_from_append) auto
      show ?thesis
      proof (cases "int (length (vs_edge_ids ?x)) < st_max_depth st")
        case True
        with "3.prems"(1) False t ok new obtain mid where
          m: "walk ops' s st c0 allowed ?v (cands @ new) = Inr mid"
          and r: "walk_edges ops' s st c0 allowed vs es mid = Inr cands''"
          by (auto simp: walk_edges.simps(2) split: sum.splits)
        have "sound_from s st allowed (cands @ new) mid"
          using "3.IH"(2) [OF False t ok new True m] b "3.prems" by simp
        moreover have "sound_from s st allowed mid cands''"
          using "3.IH"(3) [OF False t ok new True m r] "3.prems" by simp
        ultimately show ?thesis
          using a sound_from_trans by blast
      next
        case last: False
        have r: "walk_edges ops' s st c0 allowed vs es (cands @ new) = Inr cands''"
          using "3.prems"(1) False t ok new last by (simp add: walk_edges.simps(2))
        have "sound_from s st allowed (cands @ new) cands''"
          using "3.IH"(4) [OF False t ok new last r] "3.prems" by simp
        then show ?thesis
          using a sound_from_trans by blast
      qed
    qed
  qed
qed

lemmas walk_sound = walk_sound_gen(1) [OF _ refl]

lemma root_branch:
  assumes "visible_node ops s allowed n"
  shows "branch s st allowed \<lparr>qc_node = n, qc_props = props\<rparr> (root_state n)"
  using walk_path.start [OF assms] by (simp add: branch_def root_state_def)

lemma walk_roots_sound:
  assumes "inv s" "walk_roots ops s st allowed ns cands = Inr cands'"
    and "\<forall>n\<in>set ns. so_get_node ops s (nd_id n) = Inr n"
  shows "sound_from s st allowed cands cands'"
  using assms(2,3)
proof (induction ns arbitrary: cands)
  case Nil
  then show ?case by (simp add: sound_from_refl)
next
  case (Cons n ns)
  show ?case
  proof (cases "can_read_node allowed n")
    case False
    with Cons show ?thesis by simp
  next
    case True
    with Cons.prems(1) obtain props mid where p: "property_values ops s (nd_id n) = Inr props"
      and w: "walk ops s st \<lparr>qc_node = n, qc_props = props\<rparr> allowed (root_state n) cands = Inr mid"
      and r: "cands' = mid \<or> walk_roots ops s st allowed ns mid = Inr cands'"
      by (auto split: if_splits)
    have v: "visible_node ops s allowed n"
      using True Cons.prems(2) by (simp add: visible_node_def)
    have "sound_from s st allowed cands mid"
      using walk_sound [OF w assms(1) root_branch [OF v]] v p by (simp add: candidate_of_def)
    moreover have "sound_from s st allowed mid cands'"
      using r Cons.IH [of mid] Cons.prems(2) by (auto simp: sound_from_refl)
    ultimately show ?thesis
      using sound_from_trans by blast
  qed
qed

text \<open>The rows and paths of a MATCH, one for each candidate kept.\<close>

lemma match_output_rows:
  assumes "match_output cs st = (rows, paths)" "st_group_by st = []" "0 \<le> st_limit st"
  shows "int (length rows) \<le> st_limit st \<and> length paths = length rows \<and>
    (\<forall>i<length rows. \<exists>c\<in>set cs. rows ! i = projector_row match_typed_field c (st_return st) \<and>
                              paths ! i = candidate_path c (int i))"
proof -
  let ?ds = "limit_rows (sort_match_candidates cs (st_order_by st) (st_order st)) (st_limit st)"
  have "rows = map (\<lambda>c. projector_row match_typed_field c (st_return st)) ?ds"
    "paths = map (\<lambda>(i, c). candidate_path c (int i)) (enumerate 0 ?ds)"
    using assms(1,2) by (auto simp: match_output_def match_rows_and_paths_def)
  moreover have "?ds ! i \<in> set cs" if "i < length ?ds" for i
    using nth_mem [OF that] limit_rows_set [of "sort_match_candidates cs (st_order_by st) (st_order st)" "st_limit st"]
    by auto
  ultimately show ?thesis
    using limit_rows_length [OF assms(3), of "sort_match_candidates cs (st_order_by st) (st_order st)"]
    by (auto simp: nth_enumerate_eq)
qed

lemma match_rows:
  assumes "inv s" "allowed \<noteq> []" "st_group_by st = []" "0 \<le> st_limit st"
    and "execute_match ops s st allowed = Inr (rows, paths)"
  shows "int (length rows) \<le> st_limit st \<and> length paths = length rows \<and>
    (\<forall>i<length rows. \<exists>c. rows ! i = projector_row match_typed_field c (st_return st) \<and>
       paths ! i = candidate_path c (int i) \<and>
       (if st_max_depth st > 1 then path_match ops s st allowed c else edge_match ops s st allowed c))"
proof (cases "st_max_depth st > 1")
  case True
  with assms(5) obtain ns cs where ns: "so_search_nodes ops s (search_kind (st_from_kind st) allowed) = Inr ns"
    and cs: "walk_roots ops s st allowed ns [] = Inr cs" and out: "match_output cs st = (rows, paths)"
    by (auto simp: execute_match_def execute_variable_match_def res_simps)
  have "sound_from s st allowed [] cs"
    using walk_roots_sound [OF assms(1) cs] search_found [OF assms(1) ns] by blast
  then show ?thesis
    using match_output_rows [OF out assms(3,4)] True by (fastforce simp: sound_from_def)
next
  case False
  with assms(5) obtain es css where es: "so_list_edges ops s [st_relation st] 1000 = Inr es"
    and css: "res_list (match_edge ops s st allowed) es = Inr css"
    and out: "match_output (concat css) st = (rows, paths)"
    by (auto simp: execute_match_def res_simps)
  show ?thesis
    using match_output_rows [OF out assms(3,4)] match_candidates_ok [OF assms(1) es css] False
    by (metis (no_types, lifting))
qed

lemma variable_match_bounded:
  assumes "inv s" "so_search_nodes ops s q = Inr ns" "walk_roots ops s st allowed ns [] = Inr cs"
  shows "length cs \<le> max_traversal_candidates"
  using walk_roots_sound [OF assms(1,3)] search_found [OF assms(1,2)] by (fastforce simp: sound_from_def)

end

end
