(* ===== verification/Query_Audit.thy ===== *)
theory Query_Audit imports Query_Access begin

text \<open>
  What the executor promises when it writes: nothing is written without an actor and a source,
  the store's invariant is kept, the audit trail only grows, and every event carries the actor
  and the source of the request. The locale \<open>store_writer\<close> extends the reading laws of the store.
\<close>

record trail_entry =
  te_kind :: string
  te_actor :: string
  te_node :: node_id
  te_edge :: edge_id
  te_source :: node_id

definition entry_of :: "append_audit_request \<Rightarrow> trail_entry" where
  "entry_of req =
     \<lparr>te_kind = norm_key (aa_kind req), te_actor = norm_default (aa_actor req) default_agent_actor,
      te_node = aa_node req, te_edge = aa_edge req, te_source = aa_source req\<rparr>"

section \<open>No write without provenance\<close>

lemma run_lift_state [simp]: "snd (run_lift r s) = s"
  by (simp add: run_lift_def)

lemma run_bind_lift_Inr: "run_bind (run_lift r) f s = (Inr y, t) \<Longrightarrow> \<exists>x. r = Inr x \<and> f x s = (Inr y, t)"
  by (cases r) (auto simp: run_bind_def run_lift_def)

lemma run_bind_stored_read:
  "run_bind (stored (run_read g)) f s = (Inr y, t) \<Longrightarrow> \<exists>x. g s = Inr x \<and> f x s = (Inr y, t)"
  by (cases "g s") (auto simp: run_bind_def stored_def run_map_err_def run_read_def res_err_def)

lemma mutation_context_provenance:
  "mutation_context_from_request st req raw = Inr mx \<Longrightarrow> mutating st \<Longrightarrow>
   raw \<noteq> [] \<and> rq_source req \<noteq> [] \<and> mx_actor mx = rq_actor req \<and> mx_source mx = rq_source req"
  by (auto simp: mutation_context_from_request_def split: if_splits)

lemma normalize_request_Inr:
  "normalize_request req = Inr r \<Longrightarrow>
   rq_query r = trim_space (rq_query req) \<and> rq_source r = trim_space (rq_source req) \<and>
   rq_actor r = norm_default (rq_actor req) default_agent_actor \<and>
   rq_allowed r = (if rq_allowed req = [] then default_readable_sensitivities else rq_allowed req) \<and>
   rq_query r \<noteq> [] \<and> rq_allowed r \<noteq> [] \<and> (\<forall>x\<in>set (rq_allowed r). valid_sensitivity x)"
  by (auto simp: normalize_request_def Let_def default_readable_sensitivities_def
      split: if_splits sum.splits dest!: normalize_access_policy_Inr)

lemma read_statement_state: "\<not> mutating st \<Longrightarrow> snd (execute_statement ops st allowed mx s) = s"
  by (cases "st_mode st")
     (auto simp: execute_statement_def mutating_def stored_def run_map_err_def run_read_def)

text \<open>The stages of \<open>execute\<close> before the statement runs do not touch the store.\<close>

lemma execute_cases:
  assumes "execute ops req0 s = (r, t)"
  obtains (rejected) e where "r = Inl e" "t = s"
  | (ran) req st mx o' where "normalize_request req0 = Inr req" "parse (rq_query req) = Inr st"
      "mutation_context_from_request st req (trim_space (rq_actor req0)) = Inr mx"
      "execute_statement ops st (rq_allowed req) mx s = (o', t)"
      "(\<exists>e. o' = Inl e \<and> r = Inl e) \<or>
       (\<exists>rows paths. o' = Inr (rows, paths) \<and>
          r = Inr \<lparr>rs_columns = st_return st, rs_rows = rows, rs_paths = paths,
                   rs_limit = st_limit st, rs_query = rq_query req\<rparr>)"
proof (cases "normalize_request req0")
  case (Inl e)
  then have "r = Inl e" "t = s"
    using assms by (auto simp: execute_def run_bind_def run_lift_def)
  then show ?thesis by (rule rejected)
next
  case n: (Inr req)
  show ?thesis
  proof (cases "parse (rq_query req)")
    case (Inl e)
    then show ?thesis
      using assms n by (intro rejected [of "ParseRejected e"]) (auto simp: execute_def run_bind_def run_lift_def res_err_def)
  next
    case p: (Inr st)
    show ?thesis
    proof (cases "mutation_context_from_request st req (trim_space (rq_actor req0))")
      case (Inl e)
      then show ?thesis
        using assms n p by (intro rejected [of e]) (auto simp: execute_def run_bind_def run_lift_def res_err_def)
    next
      case m: (Inr mx)
      obtain o' u where x: "execute_statement ops st (rq_allowed req) mx s = (o', u)"
        by fastforce
      then have "u = t \<and> ((\<exists>e. o' = Inl e \<and> r = Inl e) \<or>
         (\<exists>rows paths. o' = Inr (rows, paths) \<and>
          r = Inr \<lparr>rs_columns = st_return st, rs_rows = rows, rs_paths = paths,
                   rs_limit = st_limit st, rs_query = rq_query req\<rparr>))"
        using assms n p m
        by (cases o') (auto simp: execute_def run_bind_def run_lift_def res_err_def run_ret_def)
      then show ?thesis using ran n p m x by blast
    qed
  qed
qed

lemma execute_needs_provenance:
  assumes "trim_space (rq_actor req) = [] \<or> trim_space (rq_source req) = []"
  shows "snd (execute ops req s) = s"
proof -
  obtain r t where x: "execute ops req s = (r, t)" by fastforce
  then show ?thesis
  proof (cases rule: execute_cases)
    case (ran req' st mx o')
    have "\<not> mutating st"
      using mutation_context_provenance [OF ran(3)] normalize_request_Inr [OF ran(1)] assms by auto
    then show ?thesis
      using read_statement_state [of st ops "rq_allowed req'" mx s] ran(4) x by simp
  qed (use x in simp)
qed

section \<open>The audit trail\<close>

text \<open>The kind of the first event of a mutating statement.\<close>

definition mutation_kind :: "statement_mode \<Rightarrow> string" where
  "mutation_kind m =
     (case m of
        StatementInsertNode \<Rightarrow> ''query_insert_node''
      | StatementInsertEdge \<Rightarrow> ''query_insert_edge''
      | StatementSetNode \<Rightarrow> ''query_set_node''
      | StatementSetEdge \<Rightarrow> ''query_set_edge''
      | StatementDeleteNode \<Rightarrow> ''query_delete_node''
      | StatementDeleteEdge \<Rightarrow> ''query_delete_edge''
      | _ \<Rightarrow> [])"

lemma norm_key_kinds:
  "norm_key ''query_insert_node'' = ''query_insert_node''" "norm_key ''query_insert_edge'' = ''query_insert_edge''"
  "norm_key ''query_set_node'' = ''query_set_node''" "norm_key ''query_set_edge'' = ''query_set_edge''"
  "norm_key ''query_delete_node'' = ''query_delete_node''" "norm_key ''query_delete_edge'' = ''query_delete_edge''"
  by code_simp+

locale store_writer = store_reader ops inv for ops :: "'s store_ops" and inv +
  fixes trail :: "'s \<Rightarrow> trail_entry list"
  assumes upsert_node_keeps: "inv s \<Longrightarrow> so_upsert_node ops nr s = (r, t) \<Longrightarrow> inv t \<and> trail t = trail s"
    and upsert_edge_keeps: "inv s \<Longrightarrow> so_upsert_edge ops er s = (r', t) \<Longrightarrow> inv t \<and> trail t = trail s"
    and node_status_keeps: "inv s \<Longrightarrow> so_set_node_status ops nid lst a s = (r, t) \<Longrightarrow> inv t \<and> trail t = trail s"
    and edge_status_keeps: "inv s \<Longrightarrow> so_set_edge_status ops eid lst a s = (r', t) \<Longrightarrow> inv t \<and> trail t = trail s"
    and node_property_keeps: "inv s \<Longrightarrow> so_upsert_node_property ops pr s = (rp, t) \<Longrightarrow> inv t \<and> trail t = trail s"
    and edge_property_keeps: "inv s \<Longrightarrow> so_upsert_edge_property ops pr s = (rp, t) \<Longrightarrow> inv t \<and> trail t = trail s"
    and audit_appends: "inv s \<Longrightarrow> so_append_audit ops ar s = (Inr ev, t) \<Longrightarrow>
          inv t \<and> trail t = trail s @ [entry_of ar]"
    and audit_fails: "inv s \<Longrightarrow> so_append_audit ops ar s = (Inl e, t) \<Longrightarrow> inv t \<and> trail t = trail s"
begin

definition audited :: "mutation_context \<Rightarrow> 's \<Rightarrow> 's \<Rightarrow> bool" where
  "audited mx s t \<longleftrightarrow>
     (inv s \<longrightarrow>
      inv t \<and>
      (\<exists>es. trail t = trail s @ es \<and>
         (\<forall>e\<in>set es. te_actor e = norm_default (mx_actor mx) default_agent_actor \<and>
                      te_source e = mx_source mx)))"

lemma audited_order [within]: "reflp (audited mx)" "transp (audited mx)"
  by (auto simp: audited_def intro!: reflpI transpI)

lemma keeps_audited:
  "(\<And>s r t. inv s \<Longrightarrow> m s = (r, t) \<Longrightarrow> inv t \<and> trail t = trail s) \<Longrightarrow> run_within (audited mx) (stored m)"
  unfolding stored_def
proof (rule within_map_err, unfold run_within_def, rule allI)
  fix s
  assume keeps: "\<And>s r t. inv s \<Longrightarrow> m s = (r, t) \<Longrightarrow> inv t \<and> trail t = trail s"
  obtain r t where "m s = (r, t)" by fastforce
  with keeps [of s r t] show "audited mx s (snd (m s))"
    by (simp add: audited_def)
qed

lemma store_within [within]:
  "run_within (audited mx) (stored (so_upsert_node ops nr))"
  "run_within (audited mx) (stored (so_upsert_edge ops er))"
  "run_within (audited mx) (stored (so_set_node_status ops nid lst a))"
  "run_within (audited mx) (stored (so_set_edge_status ops eid lst a))"
  "run_within (audited mx) (stored (so_upsert_node_property ops pr))"
  "run_within (audited mx) (stored (so_upsert_edge_property ops pr))"
  by (rule keeps_audited, erule (1) upsert_node_keeps upsert_edge_keeps node_status_keeps
      edge_status_keeps node_property_keeps edge_property_keeps)+

lemma audit_within [within]:
  "run_within (audited mx) (stored (so_append_audit ops (audit_request kind mx nid eid msg as)))"
  unfolding stored_def run_within_def
proof
  fix s
  obtain r t where x: "so_append_audit ops (audit_request kind mx nid eid msg as) s = (r, t)"
    by fastforce
  have "audited mx s t"
    using x audit_appends [of s "audit_request kind mx nid eid msg as" _ t]
      audit_fails [of s "audit_request kind mx nid eid msg as" _ t]
    by (cases r) (auto simp: audited_def entry_of_def audit_request_def)
  then show "audited mx s (snd (run_map_err StoreFailed
      (so_append_audit ops (audit_request kind mx nid eid msg as)) s))"
    by (simp add: run_map_err_def x)
qed

lemma audit_mutation_within [within]:
  "run_within (audited mx) (audit_node_mutation ops kind mx nid msg as)"
  "run_within (audited mx) (audit_edge_mutation ops kind mx nid msg as)"
  unfolding audit_node_mutation_def audit_edge_mutation_def by (intro within)+

lemma properties_within [within]:
  "run_within (audited mx) (upsert_node_properties ops nid as mx)"
  "run_within (audited mx) (upsert_edge_properties ops nid as mx)"
proof -
  show "run_within (audited mx) (upsert_node_properties ops nid as mx)"
    by (induction as) (auto intro!: within)
  show "run_within (audited mx) (upsert_edge_properties ops nid as mx)"
    by (induction as) (auto intro!: within)
qed

lemma result_within [within]:
  "run_within (audited mx) (node_mutation_result ops nid fs)"
  "run_within (audited mx) (edge_mutation_result ops nid fs)"
  unfolding node_mutation_result_def edge_mutation_result_def stored_def by (intro within)+

lemma write_within [within]:
  "run_within (audited mx) (write_node ops st mx kind msg nr)"
  "run_within (audited mx) (write_edge ops st mx kind msg er)"
  unfolding write_node_def write_edge_def by (auto intro!: within split: prod.split)

lemma statement_within: "run_within (audited mx) (execute_statement ops st allowed mx)"
  unfolding execute_statement_def execute_insert_node_def execute_insert_edge_def
    execute_set_node_def execute_set_edge_def execute_delete_node_def execute_delete_edge_def
  by (auto intro!: within simp: stored_def [of "run_read _"] split: statement_mode.split)

lemma execute_keeps:
  assumes "inv s" "execute ops req s = (r, t)"
  shows "inv t \<and> (\<exists>es. trail t = trail s @ es \<and>
    (\<forall>e\<in>set es. te_actor e = trim_space (rq_actor req) \<and> te_source e = trim_space (rq_source req)))"
  using assms(2)
proof (cases rule: execute_cases)
  case rejected
  then show ?thesis using assms(1) by simp
next
  case (ran req' st mx o')
  show ?thesis
  proof (cases "mutating st")
    case False
    then show ?thesis
      using read_statement_state [OF False, of ops "rq_allowed req'" mx s] ran(4) assms(1) by simp
  next
    case True
    have mx: "norm_default (mx_actor mx) default_agent_actor = trim_space (rq_actor req)"
      "mx_source mx = trim_space (rq_source req)"
      using mutation_context_provenance [OF ran(3) True] normalize_request_Inr [OF ran(1)]
      by (auto simp: norm_default_def Let_def)
    have "audited mx s t"
      using statement_within [of mx st "rq_allowed req'"] ran(4)
      by (auto simp: run_within_def dest!: spec [of _ s])
    then show ?thesis
      using assms(1) mx by (simp add: audited_def)
  qed
qed

definition logs :: "string \<Rightarrow> 's \<Rightarrow> 's \<Rightarrow> bool" where
  "logs kind s t \<longleftrightarrow> (\<exists>e es. trail t = trail s @ e # es \<and> te_kind e = kind)"

lemma audit_then:
  assumes "inv s" "norm_key kind = kind"
    and "run_bind (stored m) (\<lambda>x. run_bind (audit x) (\<lambda>_. rest x)) s = (Inr out, t)"
    and keeps: "\<And>r u. stored m s = (Inr r, u) \<Longrightarrow> inv u \<and> trail u = trail s"
    and audit: "\<And>x. audit x = audit_node_mutation ops kind mx (f x) msg as \<or>
                     audit x = audit_edge_mutation ops kind mx (f x) msg as"
    and rest: "\<And>x. run_within (audited mx) (rest x)"
  shows "logs kind s t"
proof -
  from assms(3) obtain x u v where x: "stored m s = (Inr x, u)" and a: "audit x u = (Inr (), v)"
    and r: "rest x v = (Inr out, t)"
    by (elim run_bind_Inr) auto
  have u: "inv u" "trail u = trail s"
    using keeps [OF x] by auto
  have "\<exists>e. trail v = trail u @ [e] \<and> te_kind e = kind \<and> inv v"
    using audit [of x] a audit_appends [OF u(1)] assms(2)
    by (auto simp: audit_node_mutation_def audit_edge_mutation_def stored_def run_ret_def
        audit_request_def entry_of_def elim!: run_bind_Inr)
  moreover have "audited mx v t"
    using rest [of x] r by (auto simp: run_within_def dest!: spec [of _ v])
  ultimately show ?thesis
    using u by (auto simp: audited_def logs_def)
qed

lemma write_node_event:
  assumes "inv s" "norm_key kind = kind" "write_node ops st mx kind msg nr s = (Inr out, t)"
  shows "logs kind s t"
proof -
  from assms(3) obtain req props where
    "run_bind (stored (so_upsert_node ops req)) (\<lambda>n.
     run_bind (audit_node_mutation ops kind mx (nd_id n) msg (st_set st)) (\<lambda>_.
     run_bind (upsert_node_properties ops (nd_id n) props mx) (\<lambda>_.
     node_mutation_result ops (nd_id n) (st_return st)))) s = (Inr out, t)"
    by (auto simp: write_node_def dest!: run_bind_lift_Inr)
  then show ?thesis
    by (rule audit_then [OF assms(1,2)])
       (use upsert_node_keeps [OF assms(1)] in \<open>auto simp: stored_def intro!: within\<close>)
qed

lemma write_edge_event:
  assumes "inv s" "norm_key kind = kind" "write_edge ops st mx kind msg er s = (Inr out, t)"
  shows "logs kind s t"
proof -
  from assms(3) obtain req props where
    "run_bind (stored (so_upsert_edge ops req)) (\<lambda>n.
     run_bind (audit_edge_mutation ops kind mx (ed_id n) msg (st_set st)) (\<lambda>_.
     run_bind (upsert_edge_properties ops (ed_id n) props mx) (\<lambda>_.
     edge_mutation_result ops (ed_id n) (st_return st)))) s = (Inr out, t)"
    by (auto simp: write_edge_def dest!: run_bind_lift_Inr)
  then show ?thesis
    by (rule audit_then [OF assms(1,2)])
       (use upsert_edge_keeps [OF assms(1)] in \<open>auto simp: stored_def intro!: within\<close>)
qed

lemma delete_node_event:
  assumes "inv s" "execute_delete_node ops st mx s = (Inr out, t)"
  shows "logs ''query_delete_node'' s t"
  using assms(2) unfolding execute_delete_node_def
  by (rule audit_then [OF assms(1) norm_key_kinds(5)])
     (use node_status_keeps [OF assms(1)] in \<open>auto simp: stored_def intro!: within\<close>)

lemma delete_edge_event:
  assumes "inv s" "execute_delete_edge ops st mx s = (Inr out, t)"
  shows "logs ''query_delete_edge'' s t"
  using assms(2) unfolding execute_delete_edge_def
  by (rule audit_then [OF assms(1) norm_key_kinds(6)])
     (use edge_status_keeps [OF assms(1)] in \<open>auto simp: stored_def intro!: within\<close>)

lemma statement_event:
  assumes "inv s" "mutating st" "execute_statement ops st allowed mx s = (Inr out, t)"
  shows "logs (mutation_kind (st_mode st)) s t"
  using assms
  by (cases "st_mode st")
     (auto simp: execute_statement_def mutating_def mutation_kind_def execute_insert_node_def
       execute_insert_edge_def execute_set_node_def execute_set_edge_def norm_key_kinds
       intro: write_node_event write_edge_event delete_node_event delete_edge_event
       dest!: run_bind_stored_read)

end

end
