(* ===== verification/Query_Complete.thy ===== *)
theory Query_Complete imports Query_Access begin

text \<open>
  What a traversal does not miss: below the cap on candidates it collects every path match that
  starts at one of its roots, so the candidates are exactly the path matches.
\<close>

lemma res_cases: obtains (Inl) e where "r = Inl e" | (Inr) x where "r = Inr x"
  by (cases r) auto

lemma walk_grows:
  "walk ops s st c0 allowed vs cands = Inr cands' \<Longrightarrow>
   \<exists>new. cands' = cands @ new \<and> (\<forall>c\<in>set new. mc_from c = c0)"
  "walk_edges ops s st c0 allowed vs es cands = Inr cands'' \<Longrightarrow>
   \<exists>new. cands'' = cands @ new \<and> (\<forall>c\<in>set new. mc_from c = c0)"
proof (induction ops s st c0 allowed vs cands and ops s st c0 allowed vs es cands
    arbitrary: cands' and cands'' rule: walk_walk_edges.induct)
  case (1 ops s st c0 allowed vs cands)
  then show ?case
    by (simp add: walk.simps [of ops] split: if_splits sum.splits)
next
  case (2 ops s st c0 allowed vs cands)
  then show ?case by (simp add: walk_edges.simps)
next
  case (3 ops s st c0 allowed vs e es cands)
  show ?case
  proof (cases "length cands \<ge> max_traversal_candidates")
    case True
    with "3.prems" show ?thesis by (simp add: walk_edges.simps)
  next
    case False
    from "3.prems" False obtain t where t: "so_get_node ops s (ed_to e) = Inr t"
      by (auto simp: walk_edges.simps(2) split: sum.splits)
    show ?thesis
    proof (cases "\<not> can_read_node allowed t \<or> nd_id t \<in> set (vs_seen vs)")
      case True
      then show ?thesis
        using "3.IH"(1) [OF False t True] "3.prems" False t by (simp add: walk_edges.simps(2))
    next
      case ok: False
      from "3.prems" False t ok obtain new where new: "path_candidate ops s st c0 e (extend vs e t) = Inr new"
        by (auto simp: walk_edges.simps(2) split: sum.splits)
      have new_from: "\<forall>c\<in>set new. mc_from c = c0"
        using new by (auto simp: path_candidate_def Let_def split: if_splits)
      show ?thesis
      proof (cases "int (length (vs_edge_ids (extend vs e t))) < st_max_depth st")
        case True
        with "3.prems" False t ok new obtain mid where
          "walk ops s st c0 allowed ((extend vs e t)\<lparr>vs_seen := nd_id t # vs_seen vs\<rparr>) (cands @ new) = Inr mid"
          "walk_edges ops s st c0 allowed vs es mid = Inr cands''"
          by (auto simp: walk_edges.simps(2) split: sum.splits)
        with "3.IH"(2,3) [OF False t ok new True] new_from show ?thesis by fastforce
      next
        case last: False
        with "3.prems" False t ok new have "walk_edges ops s st c0 allowed vs es (cands @ new) = Inr cands''"
          by (simp add: walk_edges.simps(2))
        with "3.IH"(4) [OF False t ok new last] new_from show ?thesis by fastforce
      qed
    qed
  qed
qed

text \<open>\<open>below vs c es\<close>: the candidate's path continues the branch.\<close>

definition below :: "variable_match_state \<Rightarrow> match_candidate \<Rightarrow> edge list \<Rightarrow> bool" where
  "below vs c es \<longleftrightarrow>
     length (vs_edge_ids vs) < length es \<and>
     vs_node_ids vs = take (Suc (length (vs_edge_ids vs))) (mc_node_ids c) \<and>
     vs_edge_ids vs = map ed_id (take (length (vs_edge_ids vs)) es)"

abbreviation next_edge :: "variable_match_state \<Rightarrow> edge list \<Rightarrow> edge" where
  "next_edge vs es \<equiv> es ! length (vs_edge_ids vs)"

context store_reader begin

definition path_of :: "'s \<Rightarrow> statement \<Rightarrow> sensitivity list \<Rightarrow> query_candidate \<Rightarrow> match_candidate \<Rightarrow> edge list \<Rightarrow> bool"
  where
  "path_of s st allowed c0 c es \<longleftrightarrow>
     path_match ops s st allowed c \<and> mc_from c = c0 \<and>
     walk_path ops s (st_relation st) allowed (mc_node_ids c) es \<and> es \<noteq> [] \<and>
     mc_edge_ids c = map ed_id es \<and> mc_edge c = last es"

lemma path_of_next:
  assumes "path_of s st allowed c0 c es" "branch s st allowed c0 vs" "below vs c es"
  shows "link ops s (st_relation st) (nd_id (vs_current vs)) (next_edge vs es)"
    and "\<exists>n. visible_node ops s allowed n \<and> nd_id n = ed_to (next_edge vs es) \<and>
          so_get_node ops s (ed_to (next_edge vs es)) = Inr n \<and> nd_id n \<notin> set (vs_seen vs)"
    and "mc_node_ids c ! Suc (length (vs_edge_ids vs)) = ed_to (next_edge vs es)"
proof -
  let ?k = "length (vs_edge_ids vs)" and ?ns = "mc_node_ids c"
  have w: "walk_path ops s (st_relation st) allowed ?ns es" and k: "?k < length es"
    and ids: "vs_node_ids vs = take (Suc ?k) ?ns"
    using assms by (auto simp: path_of_def below_def)
  note shape = walk_path_shape [OF w]
  have "last (take (Suc ?k) ?ns) = ?ns ! ?k"
    using shape k by (simp add: take_Suc_conv_app_nth)
  then have cur: "nd_id (vs_current vs) = ?ns ! ?k"
    using assms(2) ids by (simp add: branch_def)
  then show "link ops s (st_relation st) (nd_id (vs_current vs)) (next_edge vs es)"
    using walk_path_nth [OF w k] by simp
  show to: "?ns ! Suc ?k = ed_to (next_edge vs es)"
    using walk_path_nth [OF w k] by simp
  have "?ns ! Suc ?k \<in> set ?ns" using shape k by simp
  then obtain n where n: "nd_id n = ed_to (next_edge vs es)" "visible_node ops s allowed n"
    using shape to by metis
  have "?ns ! Suc ?k \<notin> set (take (Suc ?k) ?ns)"
    using shape k by (metis Suc_less_eq distinct_take id_take_nth_drop not_distinct_conv_prefix take_Suc_conv_app_nth)
  then show "\<exists>n. visible_node ops s allowed n \<and> nd_id n = ed_to (next_edge vs es) \<and>
          so_get_node ops s (ed_to (next_edge vs es)) = Inr n \<and> nd_id n \<notin> set (vs_seen vs)"
    using n to ids assms(2) by (auto simp: visible_node_def branch_def intro!: exI [of _ n])
qed

text \<open>A path that ends with the next edge is the candidate made there.\<close>

lemma path_of_last:
  assumes "path_of s st allowed c0 c es" "branch s st allowed c0 vs" "below vs c es"
    and "length es = Suc (length (vs_edge_ids vs))" "so_get_node ops s (ed_to (next_edge vs es)) = Inr t"
    and "path_candidate ops s st c0 (next_edge vs es) (extend vs (next_edge vs es) t) = Inr new" "inv s"
  shows "c \<in> set new"
proof -
  let ?k = "length (vs_edge_ids vs)" and ?e = "next_edge vs es"
  have m: "path_match ops s st allowed c" and from_c: "mc_from c = c0" and e: "mc_edge c = ?e"
    and w: "walk_path ops s (st_relation st) allowed (mc_node_ids c) es" and es: "mc_edge_ids c = map ed_id es"
    using assms(1,4) by (auto simp: path_of_def last_conv_nth)
  have len: "length (mc_node_ids c) = Suc (Suc ?k)"
    using walk_path_shape [OF w] assms(4) by simp
  have t: "nd_id t = ed_to ?e" using get_node_id [OF assms(7,5)] .
  have "mc_node_ids c = take (Suc ?k) (mc_node_ids c) @ [mc_node_ids c ! Suc ?k]"
    using len by (metis lessI take_Suc_conv_app_nth take_all_iff order_refl)
  then have nodes: "mc_node_ids c = vs_node_ids vs @ [nd_id t]"
    using path_of_next(3) [OF assms(1,2,3)] t assms(3) by (simp add: below_def)
  have "es = take ?k es @ [?e]"
    using assms(4) by (metis lessI take_Suc_conv_app_nth take_all_iff order_refl)
  then have edges: "mc_edge_ids c = vs_edge_ids vs @ [ed_id ?e]"
    using es assms(3) unfolding below_def by (metis list.simps(8) list.simps(9) map_append)
  have "nd_id (qc_node (mc_to c)) = nd_id t"
    using m nodes by (simp add: path_match_def)
  then have to: "qc_node (mc_to c) = t"
    using m assms(5) t by (simp add: path_match_def visible_node_def)
  then have "property_values ops s (nd_id t) = Inr (qc_props (mc_to c))"
    using m by (simp add: path_match_def candidate_of_def)
  moreover have "c = \<lparr>mc_from = c0, mc_edge = ?e, mc_to = \<lparr>qc_node = t, qc_props = qc_props (mc_to c)\<rparr>,
      mc_node_ids = vs_node_ids vs @ [nd_id t], mc_edge_ids = vs_edge_ids vs @ [ed_id ?e]\<rparr>"
    using from_c e nodes edges to by (cases c; cases "mc_to c") auto
  moreover have "st_min_depth st \<le> int (length (mc_edge_ids c))" "nd_kind t = st_to_kind st"
    "projector_matches match_typed_field c (st_where st)"
    using m to by (simp_all add: path_match_def)
  ultimately show ?thesis
    using assms(6) edges by (auto simp: path_candidate_def extend_def Let_def)
qed

text \<open>A path that goes on is below the extended branch.\<close>

lemma path_of_below:
  assumes "path_of s st allowed c0 c es" "branch s st allowed c0 vs" "below vs c es"
    and "Suc (length (vs_edge_ids vs)) < length es" "so_get_node ops s (ed_to (next_edge vs es)) = Inr t" "inv s"
  shows "below ((extend vs (next_edge vs es) t)\<lparr>vs_seen := sn\<rparr>) c es"
proof -
  let ?k = "length (vs_edge_ids vs)"
  have t: "nd_id t = mc_node_ids c ! Suc ?k"
    using get_node_id [OF assms(6,5)] path_of_next(3) [OF assms(1,2,3)] by simp
  have len: "length (mc_node_ids c) = Suc (length es)"
    using assms(1) walk_path_shape by (fastforce simp: path_of_def)
  then have "take (Suc (Suc ?k)) (mc_node_ids c) = take (Suc ?k) (mc_node_ids c) @ [nd_id t]"
    using t assms(4) by (simp add: take_Suc_conv_app_nth)
  moreover have "map ed_id (take (Suc ?k) es) = vs_edge_ids vs @ [ed_id (next_edge vs es)]"
    using assms(3) by (simp add: below_def take_Suc_conv_app_nth)
  ultimately show ?thesis
    using assms(3,4) by (simp add: below_def extend_def)
qed

lemma path_of_depth: "path_of s st allowed c0 c es \<Longrightarrow> int (length es) \<le> st_max_depth st"
  by (auto simp: path_of_def path_match_def dest!: map_eq_imp_length_eq)

lemma walk_complete_gen:
  "walk ops' s st c0 allowed vs cands = Inr cands' \<Longrightarrow> ops' = ops \<Longrightarrow> inv s \<Longrightarrow>
   branch s st allowed c0 vs \<Longrightarrow> length cands' < max_traversal_candidates \<Longrightarrow>
   path_of s st allowed c0 c xs \<Longrightarrow> below vs c xs \<Longrightarrow> c \<in> set cands'"
  "walk_edges ops' s st c0 allowed vs es cands = Inr cands'' \<Longrightarrow> ops' = ops \<Longrightarrow> inv s \<Longrightarrow>
   branch s st allowed c0 vs \<Longrightarrow> length cands'' < max_traversal_candidates \<Longrightarrow>
   \<forall>e\<in>set es. link ops s (st_relation st) (nd_id (vs_current vs)) e \<Longrightarrow>
   path_of s st allowed c0 c xs \<Longrightarrow> below vs c xs \<Longrightarrow> next_edge vs xs \<in> set es \<Longrightarrow> c \<in> set cands''"
proof (induction ops' s st c0 allowed vs cands and ops' s st c0 allowed vs es cands
    arbitrary: cands' and cands'' rule: walk_walk_edges.induct)
  case (1 ops' s st c0 allowed vs cands)
  have "length cands \<le> length cands'"
    using walk_grows(1) [OF "1.prems"(1)] by auto
  moreover have "int (length (vs_edge_ids vs)) < st_max_depth st"
    using path_of_depth [OF "1.prems"(6)] "1.prems"(7) by (simp add: below_def)
  ultimately have go: "\<not> (length cands \<ge> max_traversal_candidates \<or> int (length (vs_edge_ids vs)) \<ge> st_max_depth st)"
    using "1.prems"(5) by simp
  with "1.prems"(1) obtain es where es: "so_list_outgoing ops' s (nd_id (vs_current vs)) [st_relation st] = Inr es"
    and w: "walk_edges ops' s st c0 allowed vs es cands = Inr cands'"
    by (auto simp: walk.simps [of ops'] split: sum.splits)
  have links: "\<forall>e\<in>set es. link ops s (st_relation st) (nd_id (vs_current vs)) e"
    using outgoing_found [OF "1.prems"(3)] es "1.prems"(2) by (fastforce simp: link_def)
  have "next_edge vs xs \<in> set es"
    using path_of_next(1) [OF "1.prems"(6,4,7)] es "1.prems"(2) by (auto simp: link_def)
  then show ?case
    using "1.IH" [OF go es w] "1.prems" links by simp
next
  case (2 ops' s st c0 allowed vs cands)
  then show ?case by simp
next
  case (3 ops' s st c0 allowed vs e es cands)
  have go: "\<not> length cands \<ge> max_traversal_candidates"
    using walk_grows(2) [OF "3.prems"(1)] "3.prems"(5) by auto
  from "3.prems"(1) go obtain t where t: "so_get_node ops' s (ed_to e) = Inr t"
    by (auto simp: walk_edges.simps(2) split: sum.splits)
  show ?case
  proof (cases "\<not> can_read_node allowed t \<or> nd_id t \<in> set (vs_seen vs)")
    case True
    have "next_edge vs xs \<noteq> e"
      using path_of_next(2) [OF "3.prems"(7,4,8)] t True "3.prems"(2) by (auto simp: visible_node_def)
    moreover have "walk_edges ops' s st c0 allowed vs es cands = Inr cands''"
      using "3.prems"(1) go t True by (simp add: walk_edges.simps(2))
    ultimately show ?thesis
      using "3.IH"(1) [OF go t True] "3.prems" by simp
  next
    case ok: False
    let ?x = "extend vs e t" and ?v = "(extend vs e t)\<lparr>vs_seen := nd_id t # vs_seen vs\<rparr>"
    from "3.prems"(1) go t ok obtain new where new: "path_candidate ops' s st c0 e ?x = Inr new"
      by (auto simp: walk_edges.simps(2) split: sum.splits)
    have b: "branch s st allowed c0 ?v"
      using branch_extend(1) [OF "3.prems"(3,4), of e t] t ok "3.prems"(2,6) by auto
    have here: "c \<in> set new" if "next_edge vs xs = e" "length xs = Suc (length (vs_edge_ids vs))"
      using path_of_last [OF "3.prems"(7,4,8) that(2)] that(1) t new "3.prems"(2,3) by simp
    have deeper: "below ?v c xs" if "next_edge vs xs = e" "length xs \<noteq> Suc (length (vs_edge_ids vs))"
      using path_of_below [OF "3.prems"(7,4,8)] that t "3.prems"(2,3,8) by (simp add: below_def)
    show ?thesis
    proof (cases "int (length (vs_edge_ids ?x)) < st_max_depth st")
      case True
      with "3.prems"(1) go t ok new obtain mid where
        m: "walk ops' s st c0 allowed ?v (cands @ new) = Inr mid"
        and r: "walk_edges ops' s st c0 allowed vs es mid = Inr cands''"
        by (auto simp: walk_edges.simps(2) split: sum.splits)
      obtain more more' where grow: "mid = (cands @ new) @ more" "cands'' = mid @ more'"
        using walk_grows(1) [OF m] walk_grows(2) [OF r] by auto
      show ?thesis
      proof (cases "next_edge vs xs = e")
        case eq: True
        have "c \<in> set mid" if "below ?v c xs"
          using "3.IH"(2) [OF go t ok new True m] "3.prems"(2,3,5,7) b that grow by simp
        then show ?thesis
          using here deeper eq grow by auto
      next
        case False
        then show ?thesis
          using "3.IH"(3) [OF go t ok new True m r] "3.prems" by simp
      qed
    next
      case last: False
      have r: "walk_edges ops' s st c0 allowed vs es (cands @ new) = Inr cands''"
        using "3.prems"(1) go t ok new last by (simp add: walk_edges.simps(2))
      obtain more where grow: "cands'' = (cands @ new) @ more"
        using walk_grows(2) [OF r] by auto
      have short: "length xs \<le> Suc (length (vs_edge_ids vs))"
        using path_of_depth [OF "3.prems"(7)] last by (simp add: extend_def)
      show ?thesis
      proof (cases "next_edge vs xs = e")
        case True
        then show ?thesis
          using here short "3.prems"(8) grow by (auto simp: below_def)
      next
        case False
        then show ?thesis
          using "3.IH"(4) [OF go t ok new last r] "3.prems" by simp
      qed
    qed
  qed
qed

lemmas walk_complete = walk_complete_gen(1) [OF _ refl]

lemma walk_roots_grows:
  "walk_roots ops s st allowed ns cands = Inr cands' \<Longrightarrow>
   \<exists>new. cands' = cands @ new \<and> (\<forall>c\<in>set new. qc_node (mc_from c) \<in> set ns)"
proof (induction ns arbitrary: cands)
  case (Cons n ns)
  show ?case
  proof (cases "can_read_node allowed n")
    case False
    with Cons show ?thesis by fastforce
  next
    case True
    with Cons.prems obtain props mid where
      "walk ops s st \<lparr>qc_node = n, qc_props = props\<rparr> allowed (root_state n) cands = Inr mid"
      and r: "cands' = mid \<or> walk_roots ops s st allowed ns mid = Inr cands'"
      by (auto split: if_splits)
    then obtain new where new: "mid = cands @ new" "\<forall>c\<in>set new. qc_node (mc_from c) = n"
      using walk_grows(1) by fastforce
    from r consider "cands' = mid" | new' where "cands' = mid @ new'" "\<forall>c\<in>set new'. qc_node (mc_from c) \<in> set ns"
      using Cons.IH by blast
    then show ?thesis using new by cases auto
  qed
qed simp

lemma walk_roots_complete:
  assumes "inv s" "walk_roots ops s st allowed ns cands = Inr cands'"
    and "length cands' < max_traversal_candidates" "\<forall>n\<in>set ns. so_get_node ops s (nd_id n) = Inr n"
    and "path_match ops s st allowed c" "qc_node (mc_from c) \<in> set ns"
  shows "c \<in> set cands'"
  using assms(2,4,6)
proof (induction ns arbitrary: cands)
  case (Cons n ns)
  obtain xs where xs: "path_of s st allowed (mc_from c) c xs"
    using assms(5) by (auto simp: path_of_def path_match_def)
  show ?case
  proof (cases "can_read_node allowed n")
    case False
    then have "qc_node (mc_from c) \<noteq> n"
      using assms(5) by (auto simp: path_match_def visible_node_def)
    then show ?thesis using Cons False by simp
  next
    case True
    with Cons.prems(1) obtain props mid where p: "property_values ops s (nd_id n) = Inr props"
      and w: "walk ops s st \<lparr>qc_node = n, qc_props = props\<rparr> allowed (root_state n) cands = Inr mid"
      and r: "if length mid \<ge> max_traversal_candidates then cands' = mid
              else walk_roots ops s st allowed ns mid = Inr cands'"
      by (auto split: if_splits)
    have grow: "\<exists>new. cands' = mid @ new"
      using r walk_roots_grows by (fastforce split: if_splits)
    then have small: "length mid < max_traversal_candidates" using assms(3) by auto
    show ?thesis
    proof (cases "qc_node (mc_from c) = n")
      case eq: True
      have v: "visible_node ops s allowed n"
        using True Cons.prems(2) by (simp add: visible_node_def)
      have "candidate_of ops s (mc_from c)"
        using assms(5) by (simp add: path_match_def)
      then have c0: "mc_from c = \<lparr>qc_node = n, qc_props = props\<rparr>"
        using eq p by (cases "mc_from c") (simp add: candidate_of_def)
      have ids: "hd (mc_node_ids c) = nd_id n" "mc_node_ids c \<noteq> []"
        using xs eq walk_path_shape by (fastforce simp: path_of_def path_match_def)+
      then have "below (root_state n) c xs"
        using xs by (cases "mc_node_ids c") (auto simp: below_def root_state_def path_of_def)
      then have "c \<in> set mid"
        using walk_complete [OF w assms(1) root_branch [OF v] small] xs c0 by simp
      then show ?thesis using grow by auto
    next
      case False
      then show ?thesis using Cons r small by simp
    qed
  qed
qed simp

text \<open>The candidates of a traversal below the cap are exactly the path matches from its roots.\<close>

lemma walk_roots_exact:
  assumes "inv s" "walk_roots ops s st allowed ns [] = Inr cs" "length cs < max_traversal_candidates"
    and "\<forall>n\<in>set ns. so_get_node ops s (nd_id n) = Inr n"
  shows "set cs = {c. path_match ops s st allowed c \<and> qc_node (mc_from c) \<in> set ns}"
  using walk_roots_sound [OF assms(1,2,4)] walk_roots_complete [OF assms(1,2,3,4)]
    walk_roots_grows [OF assms(2)]
  by (auto simp: sound_from_def)

end

end
