(* ===== verification/Graph_Laws.thy ===== *)
theory Graph_Laws imports Graph_Ops Query_Audit Query_Complete begin

text \<open>
  The laws of the SQLite store: the invariant \<open>db_ok\<close> of its tables, kept by every operation,
  what its queries return, and the interpretation of the executor's locales on \<open>sql_ops\<close>.
\<close>

section \<open>The invariant\<close>

definition db_ok :: "graph_db \<Rightarrow> bool" where
  "db_ok s \<longleftrightarrow>
     nodes_ok (db_nodes s) \<and> edges_ok (db_nodes s) (db_edges s) \<and>
     properties_ok (db_nodes s) (node_ids (db_nodes s)) (db_node_props s) \<and>
     properties_ok (db_nodes s) (edge_ids (db_edges s)) (db_edge_props s) \<and>
     audits_ok (db_nodes s) (db_edges s) (db_audit s)"

lemma refers_mono: "refers A v \<Longrightarrow> A \<subseteq> B \<Longrightarrow> refers B v"
  by (auto simp: refers_def split: option.splits)

lemma edges_ok_mono: "edges_ok ns es \<Longrightarrow> node_ids ns \<subseteq> node_ids ns' \<Longrightarrow> edges_ok ns' es"
  by (auto simp: edges_ok_def intro: refers_mono)

lemma properties_ok_mono:
  "properties_ok ns A ps \<Longrightarrow> node_ids ns \<subseteq> node_ids ns' \<Longrightarrow> A \<subseteq> B \<Longrightarrow> properties_ok ns' B ps"
  by (auto simp: properties_ok_def intro: refers_mono)

lemma audits_ok_mono:
  "audits_ok ns es as \<Longrightarrow> node_ids ns \<subseteq> node_ids ns' \<Longrightarrow> edge_ids es \<subseteq> edge_ids es' \<Longrightarrow> audits_ok ns' es' as"
  by (auto simp: audits_ok_def intro: refers_mono)

text \<open>
  \<open>stays\<close>: the operation keeps the invariant, loses no node and no edge, and leaves the audit
  table alone.
\<close>

definition stays :: "graph_db \<Rightarrow> graph_db \<Rightarrow> bool" where
  "stays s t \<longleftrightarrow>
     (db_ok s \<longrightarrow>
      db_ok t \<and> node_ids (db_nodes s) \<subseteq> node_ids (db_nodes t) \<and>
      edge_ids (db_edges s) \<subseteq> edge_ids (db_edges t) \<and> db_audit t = db_audit s)"

lemma stays_order [within]: "reflp stays" "transp stays"
proof -
  show "reflp stays" by (simp add: stays_def reflpI)
  show "transp stays" unfolding stays_def by (rule transpI) (metis subset_trans)
qed

lemma snd_bind_ret: "snd (run_bind m (\<lambda>x. run_ret (f x)) s) = snd (m s)"
  by (auto simp: run_bind_def run_ret_def split: prod.split sum.split)

lemma put_nodes_stays: "node_ids (db_nodes s) \<subseteq> node_ids rows \<Longrightarrow> stays s (snd (put_nodes rows s))"
  by (auto simp: put_nodes_def stays_def db_ok_def
      intro: edges_ok_mono properties_ok_mono audits_ok_mono)

lemma put_edges_stays: "edge_ids (db_edges s) \<subseteq> edge_ids rows \<Longrightarrow> stays s (snd (put_edges rows s))"
  by (auto simp: put_edges_def stays_def db_ok_def intro: properties_ok_mono audits_ok_mono)

lemma put_props_stays [within]:
  "run_within stays (\<lambda>s. put_node_props (f s) s)" "run_within stays (\<lambda>s. put_edge_props (g s) s)"
  by (auto simp: run_within_def put_node_props_def put_edge_props_def stays_def db_ok_def)

lemma clock_stays [within]: "run_within stays (clock_now en)" "run_within stays (new_id en p)"
  by (auto simp: run_within_def clock_now_def new_id_def tick_def stays_def db_ok_def split: option.split)

lemma node_writes_stay [within]:
  "run_within stays (insert_node nid req now)" "run_within stays (update_node nid req now)"
  "run_within stays (\<lambda>s. put_nodes (map (\<lambda>r. if nr_id r = nid then r\<lparr>nr_status := a, nr_actor := b, nr_updated := c\<rparr> else r) (db_nodes s)) s)"
proof -
  show "run_within stays (insert_node nid req now)"
    by (auto simp: run_within_def insert_node_def node_ids_def intro!: put_nodes_stays)
  have "run_within stays (\<lambda>s. put_nodes (map (f s) (db_nodes s)) s)"
    if "\<And>s r. nr_id (f s r) = nr_id r" for f
    using that by (auto simp: run_within_def node_ids_def image_iff intro!: put_nodes_stays)
  note * = this
  show "run_within stays (update_node nid req now)"
    unfolding run_within_def
  proof
    fix s
    have "run_within stays (\<lambda>s. put_nodes (map (\<lambda>r. if nr_id r = nid then (node_row_of nid req now)\<lparr>nr_created := nr_created r\<rparr> else r) (db_nodes s)) s)"
      by (rule *) (simp add: node_row_of_def)
    then show "stays s (snd (update_node nid req now s))"
      unfolding update_node_def snd_bind_ret run_within_def by (rule spec)
  qed
  show "run_within stays (\<lambda>s. put_nodes (map (\<lambda>r. if nr_id r = nid then r\<lparr>nr_status := a, nr_actor := b, nr_updated := c\<rparr> else r) (db_nodes s)) s)"
    by (rule *) simp
qed

lemma edge_writes_stay [within]:
  "run_within stays (insert_edge eid ereq now)" "run_within stays (update_edge eid ereq now)"
  "run_within stays (\<lambda>s. put_edges (map (\<lambda>r. if er_id r = eid then r\<lparr>er_status := a, er_actor := b, er_updated := c\<rparr> else r) (db_edges s)) s)"
proof -
  show "run_within stays (insert_edge eid ereq now)"
    by (auto simp: run_within_def insert_edge_def edge_ids_def intro!: put_edges_stays)
  have "run_within stays (\<lambda>s. put_edges (map (f s) (db_edges s)) s)"
    if "\<And>s r. er_id (f s r) = er_id r" for f
    using that by (auto simp: run_within_def edge_ids_def image_iff intro!: put_edges_stays)
  note * = this
  show "run_within stays (update_edge eid ereq now)"
    unfolding run_within_def
  proof
    fix s
    have "run_within stays (\<lambda>s. put_edges (map (\<lambda>r. if er_id r = eid then (edge_row_of eid ereq now)\<lparr>er_created := er_created r\<rparr> else r) (db_edges s)) s)"
      by (rule *) (simp add: edge_row_of_def)
    then show "stays s (snd (update_edge eid ereq now s))"
      unfolding update_edge_def snd_bind_ret run_within_def by (rule spec)
  qed
  show "run_within stays (\<lambda>s. put_edges (map (\<lambda>r. if er_id r = eid then r\<lparr>er_status := a, er_actor := b, er_updated := c\<rparr> else r) (db_edges s)) s)"
    by (rule *) simp
qed

lemma store_writes_stay [within]:
  "run_within stays (upsert_node en nreq)" "run_within stays (upsert_edge en ereq)"
  "run_within stays (set_node_status en nid lst act)" "run_within stays (set_edge_status en eid lst act)"
  "run_within stays (upsert_node_property en preq)" "run_within stays (upsert_edge_property en preq)"
  unfolding upsert_node_def upsert_edge_def set_node_status_def set_edge_status_def
    upsert_node_property_def upsert_edge_property_def upsert_property_in_def
  by (auto intro!: within)

section \<open>The audit table\<close>

definition audit_entry :: "audit_row \<Rightarrow> trail_entry" where
  "audit_entry r =
     \<lparr>te_kind = ar_kind r, te_actor = ar_actor r, te_node = coalesce (ar_node r),
      te_edge = coalesce (ar_edge r), te_source = coalesce (ar_source r)\<rparr>"

definition audit_trail :: "graph_db \<Rightarrow> trail_entry list" where
  "audit_trail s = map audit_entry (db_audit s)"

lemma coalesce_nullable [simp]: "coalesce (nullable_id v) = v"
  by (simp add: coalesce_def nullable_id_def)

lemma put_audits_cases:
  "put_audits rows s = (r, t) \<Longrightarrow> db_ok s \<Longrightarrow>
   (r = Inr () \<and> t = s\<lparr>db_audit := rows\<rparr> \<and> db_ok t) \<or> ((\<exists>e. r = Inl e) \<and> t = s)"
  by (auto simp: put_audits_def db_ok_def split: if_splits)

lemma append_audit_table:
  assumes "db_ok s" "append_audit en req s = (r, t)"
  shows "db_ok t \<and> db_nodes t = db_nodes s \<and> db_edges t = db_edges s \<and>
    (case r of Inl e \<Rightarrow> db_audit t = db_audit s
     | Inr ev \<Rightarrow> \<exists>row. db_audit t = db_audit s @ [row] \<and> audit_entry row = entry_of req)"
proof (cases "normalize_append_audit req")
  case (Inl e)
  then show ?thesis
    using assms by (auto simp: append_audit_def run_bind_def run_lift_def)
next
  case (Inr req')
  then have n: "aa_kind req' = norm_key (aa_kind req)" "aa_actor req' = norm_default (aa_actor req) default_agent_actor"
    "aa_node req' = aa_node req" "aa_edge req' = aa_edge req" "aa_source req' = aa_source req"
    by (auto simp: normalize_append_audit_def Let_def split: if_splits)
  let ?gen = "if aa_id req' = [] then new_id en ''audit'' else run_ret (aa_id req')"
  obtain g u where g: "?gen s = (g, u)" by fastforce
  have u: "db_ok u \<and> db_nodes u = db_nodes s \<and> db_edges u = db_edges s \<and> db_audit u = db_audit s"
    using g assms(1) by (auto simp: new_id_def run_ret_def tick_def db_ok_def split: if_splits option.splits)
  show ?thesis
  proof (cases g)
    case (Inl e)
    then show ?thesis
      using assms(2) \<open>normalize_append_audit req = Inr req'\<close> g u
      by (auto simp: append_audit_def run_bind_def run_lift_def)
  next
    case i: (Inr aid)
    let ?row = "\<lparr>ar_id = aid, ar_kind = aa_kind req', ar_actor = aa_actor req',
                 ar_node = nullable_id (aa_node req'), ar_edge = nullable_id (aa_edge req'),
                 ar_source = nullable_id (aa_source req'), ar_message = aa_message req',
                 ar_details = aa_details req', ar_created = time_string (en_now en (db_tick u))\<rparr>"
    obtain p v where p: "put_audits (db_audit (tick u) @ [?row]) (tick u) = (p, v)" by fastforce
    have tk: "db_ok (tick u)" using u [THEN conjunct1] by (simp add: tick_def db_ok_def)
    from put_audits_cases [OF p tk] assms(2) Inr g i p u n tk [unfolded tick_def] show ?thesis
      by (auto simp: append_audit_def run_bind_def run_lift_def clock_now_def run_ret_def tick_def
          audit_entry_def entry_of_def)
  qed
qed

section \<open>What queries return\<close>

lemma scan_node_fields:
  "scan_node r = Inr n \<Longrightarrow>
   nd_id n = nr_id r \<and> nd_kind n = nr_kind r \<and> nd_status n = nr_status r \<and>
   nd_sensitivity n = nr_sensitivity r"
  by (auto simp: scan_node_def)

lemma scan_edge_fields:
  "scan_edge r = Inr e \<Longrightarrow>
   ed_id e = er_id r \<and> ed_from e = er_from r \<and> ed_to e = er_to r \<and> ed_type e = er_type r \<and>
   ed_status e = er_status r"
  by (auto simp: scan_edge_def)

lemma get_node_row:
  "get_node s nid = Inr n \<Longrightarrow> \<exists>r\<in>set (db_nodes s). nr_id r = nid \<and> scan_node r = Inr n"
  by (auto simp: get_node_def row_scan_def find_node_def find_Some_iff split: option.splits)

lemma find_distinct:
  "distinct (map f xs) \<Longrightarrow> x \<in> set xs \<Longrightarrow> List.find (\<lambda>y. f y = f x) xs = Some x"
  by (induction xs) auto

lemma find_node_Some: "find_node s nid = Some r \<Longrightarrow> r \<in> set (db_nodes s) \<and> nr_id r = nid"
  by (auto simp: find_node_def find_Some_iff)

lemma get_node_of_row:
  "db_ok s \<Longrightarrow> r \<in> set (db_nodes s) \<Longrightarrow> get_node s (nr_id r) = scan_node r"
  using find_distinct [of nr_id "db_nodes s" r]
  by (simp add: get_node_def row_scan_def find_node_def db_ok_def nodes_ok_def)

lemma search_nodes_found:
  assumes "db_ok s" "search_nodes en s q = Inr ns"
  shows "\<exists>q'. normalize_search_nodes q = Inr q' \<and> int (length ns) \<le> sq_limit q' \<and>
    (\<forall>n\<in>set ns. \<exists>r\<in>set (db_nodes s). search_row q' r \<and> scan_node r = Inr n \<and> get_node s (nd_id n) = Inr n)"
proof -
  from assms(2) obtain q' where q': "normalize_search_nodes q = Inr q'"
    by (auto simp: search_nodes_def)
  define rows where "rows =
      (if sq_text q' = []
       then sort_slice
              (\<lambda>a b. str_less (nr_updated b) (nr_updated a) \<or>
                     (nr_updated a = nr_updated b \<and> str_less (nr_id a) (nr_id b)))
              (filter (search_row q') (db_nodes s))
       else filter (search_row q') (List.map_filter (find_node s) (en_fts en (sq_text q'))))"
  have ns: "res_list (get_node s) (map nr_id (take (nat (sq_limit q')) rows)) = Inr ns"
    using assms(2) q' by (simp add: search_nodes_def rows_def Let_def)
  have "r \<in> set (db_nodes s)" if "r \<in> set (List.map_filter (find_node s) xs)" for r xs
    using that by (auto simp: map_filter_def dest: find_node_Some)
  then have rows: "\<forall>r\<in>set rows. r \<in> set (db_nodes s) \<and> search_row q' r"
    by (auto simp: rows_def)
  have "\<exists>r\<in>set (db_nodes s). search_row q' r \<and> scan_node r = Inr n \<and> get_node s (nd_id n) = Inr n"
    if n: "n \<in> set ns" for n
  proof -
    obtain r where "r \<in> set (take (nat (sq_limit q')) rows)" "get_node s (nr_id r) = Inr n"
      using res_list_Inr_set [OF ns n] by auto
    then show ?thesis
      using rows get_node_of_row [OF assms(1)] scan_node_fields
      by (metis in_set_takeD)
  qed
  moreover have "0 \<le> sq_limit q'"
    using normalize_search_nodes_Inr [OF q'] by simp
  ultimately show ?thesis
    using q' res_list_Inr_length [OF ns] by auto
qed

lemma list_edges_row:
  "res_list scan_edge rows = Inr es \<Longrightarrow> e \<in> set es \<Longrightarrow> \<exists>r\<in>set rows. scan_edge r = Inr e"
  by (rule res_list_Inr_set)

lemma list_edges_where_set [simp]: "set (list_edges_where s P) = {r \<in> set (db_edges s). P r}"
  by (simp add: list_edges_where_def)

lemma outgoing_row:
  "list_outgoing_edges s nid ts = Inr es \<Longrightarrow> e \<in> set es \<Longrightarrow>
   ed_from e = nid \<and> ed_status e = ''active'' \<and> (ts \<noteq> [] \<longrightarrow> ed_type e \<in> set ts)"
  by (auto simp: list_outgoing_edges_def dest!: list_edges_row dest: scan_edge_fields)

lemma edges_row:
  assumes "list_edges s ts l = Inr es" "e \<in> set es"
  shows "ed_status e = ''active'' \<and> (ts \<noteq> [] \<longrightarrow> ed_type e \<in> set ts)"
proof -
  from assms(1) obtain n where
    "res_list scan_edge (take n (list_edges_where s
       (\<lambda>r. er_status r = ''active'' \<and> (ts = [] \<or> er_type r \<in> set ts)))) = Inr es"
    by (auto simp: list_edges_def Let_def)
  from list_edges_row [OF this assms(2)] obtain r where
    "r \<in> set (list_edges_where s (\<lambda>r. er_status r = ''active'' \<and> (ts = [] \<or> er_type r \<in> set ts)))"
    "scan_edge r = Inr e"
    by (meson in_set_takeD)
  then show ?thesis
    using scan_edge_fields by auto
qed

section \<open>The interpretation\<close>

lemma stays_keeps:
  "run_within stays m \<Longrightarrow> db_ok s \<Longrightarrow> m s = (r, t) \<Longrightarrow> db_ok t \<and> audit_trail t = audit_trail s"
  by (auto simp: run_within_def stays_def audit_trail_def dest!: spec [of _ s])

lemma search_law:
  assumes "db_ok s" "search_nodes en s q = Inr ns" "n \<in> set ns"
  shows "get_node s (nd_id n) = Inr n \<and> nd_status n = ''active'' \<and>
    (sq_allowed q \<noteq> [] \<longrightarrow> nd_sensitivity n \<in> set (sq_allowed q)) \<and>
    (sq_kinds q \<noteq> [] \<longrightarrow> nd_kind n \<in> set (sq_kinds q))"
  using search_nodes_found [OF assms(1,2)] assms(3)
  by (auto simp: search_row_def dest!: bspec scan_node_fields normalize_search_nodes_Inr)

interpretation sql: store_writer "sql_ops en" db_ok audit_trail
proof (unfold_locales, unfold sql_ops_def store_ops.simps)
  fix s nid n
  show "db_ok s \<Longrightarrow> get_node s nid = Inr n \<Longrightarrow> nd_id n = nid"
    using get_node_row scan_node_fields by metis
next
  fix s ar ev t
  show "db_ok s \<Longrightarrow> append_audit en ar s = (Inr ev, t) \<Longrightarrow>
        db_ok t \<and> audit_trail t = audit_trail s @ [entry_of ar]"
    using append_audit_table [of s en ar "Inr ev" t] by (auto simp: audit_trail_def)
next
  fix s ar e t
  show "db_ok s \<Longrightarrow> append_audit en ar s = (Inl e, t) \<Longrightarrow> db_ok t \<and> audit_trail t = audit_trail s"
    using append_audit_table [of s en ar "Inl e" t] by (auto simp: audit_trail_def)
qed (auto simp: search_law outgoing_row edges_row intro: stays_keeps [THEN conjunct1] stays_keeps [THEN conjunct2] store_writes_stay)

end
