(* ===== verification/Go_Time_Facts.thy ===== *)
theory Go_Time_Facts imports Go_Time begin

text \<open>
  The text of a time reads back as the time, for the years 0 to 9999: the calendar conversion is
  inverted, and each field of the layout is parsed from its padded digits. The era arithmetic is
  checked at the first and last day of each of its 400 years and extended by monotonicity.
\<close>

section \<open>The calendar\<close>

definition era_year :: "int \<Rightarrow> int" where
  "era_year d = (d - d div 1460 + d div 36524 - d div 146096) div 365"

definition year_start :: "int \<Rightarrow> int" where
  "year_start y = 365 * y + y div 4 - y div 100"

lemma era_years:
  "\<forall>y\<in>set [0..398]. era_year (year_start y) = y \<and> era_year (year_start (y + 1) - 1) = y"
  by code_simp

lemma era_last:
  "era_year (year_start 399) = 399 \<and> era_year 145731 = 399 \<and> era_year 146096 = 399 \<and>
   era_year 146095 = 399 \<and> year_start 399 = 145731 \<and> year_start 400 = 146096"
  by code_simp

lemma div_succ: "0 \<le> y \<Longrightarrow> 0 < k \<Longrightarrow> (y + 1) div k = y div k + (if (y + 1) mod k = 0 then 1 else 0)" for y k :: int
proof -
  assume "0 \<le> y" "0 < k"
  then obtain a b where "y = int a" "k = int b" by (metis nonneg_int_cases order_less_imp_le)
  moreover have "int (Suc a div b) = int (a div b) + (if Suc a mod b = 0 then 1 else 0)"
    by (simp add: div_Suc)
  moreover have "int a + 1 = int (Suc a)" by simp
  ultimately show ?thesis
    by (simp only: zdiv_int [symmetric] zmod_int [symmetric]) (simp add: zmod_int [symmetric])
qed

lemma year_start_step:
  assumes "0 \<le> y"
  shows "year_start (y + 1) = year_start y + 365 + (if (y + 1) mod 4 = 0 then 1 else 0) -
           (if (y + 1) mod 100 = 0 then 1 else 0)"
  using div_succ [OF assms, of 4] div_succ [OF assms, of 100] by (simp add: year_start_def)

lemma year_start_mono: "y \<le> z \<Longrightarrow> 0 \<le> y \<Longrightarrow> year_start y \<le> year_start z"
proof (induction z rule: int_ge_induct)
  case (step z)
  then show ?case using year_start_step [of z] by simp
qed simp

lemma era_year_mono:
  assumes "0 \<le> a" "a \<le> b" "b < 146096"
  shows "era_year a \<le> era_year b"
proof -
  have "b div 1460 \<le> (a + (b - a) * 1460) div 1460"
    using assms by (intro zdiv_mono1) simp_all
  then have "a - a div 1460 \<le> b - b div 1460"
    by simp
  moreover have "a div 36524 \<le> b div 36524"
    using assms by (intro zdiv_mono1) simp_all
  moreover have "a div 146096 = 0" "b div 146096 = 0"
    using assms by (simp_all add: div_pos_pos_trivial)
  ultimately have "a - a div 1460 + a div 36524 - a div 146096 \<le> b - b div 1460 + b div 36524 - b div 146096"
    by linarith
  then show ?thesis
    unfolding era_year_def by (rule zdiv_mono1) simp
qed

lemma year_exists:
  assumes "0 \<le> d" "d < 146096"
  obtains y where "0 \<le> y" "y \<le> 399" "year_start y \<le> d" "d < year_start (y + 1)"
proof -
  have "\<exists>y\<ge>0. y \<le> k \<and> year_start y \<le> d \<and> d < year_start (y + 1)"
    if "0 \<le> k" "d < year_start (k + 1)" for k
    using that
  proof (induction k rule: int_ge_induct)
    case base
    then show ?case using assms(1) by (intro exI [of _ 0]) (simp add: year_start_def)
  next
    case (step k)
    then show ?case
      by (cases "d < year_start (k + 1)") (force, intro exI [of _ "k + 1"], simp)
  qed
  from this [of 399] show ?thesis
    using that assms(2) by (force simp: year_start_def)
qed

lemma era_year_bounds:
  assumes "0 \<le> d" "d < 146097"
  shows "0 \<le> era_year d \<and> era_year d \<le> 399 \<and> year_start (era_year d) \<le> d \<and>
    (d < year_start (era_year d + 1) \<or> (era_year d = 399 \<and> d = 146096))"
proof (cases "d = 146096")
  case True
  then show ?thesis using era_last by simp
next
  case False
  then obtain y where y: "0 \<le> y" "y \<le> 399" "year_start y \<le> d" "d < year_start (y + 1)"
    using year_exists [of d] assms by auto
  have "era_year d = y"
  proof (cases "y = 399")
    case True
    then show ?thesis
      using era_year_mono [of "year_start 399" d] era_year_mono [of d 146095] y assms False era_last
      by simp
  next
    case ne: False
    then have "y \<in> set [0..398]" using y by simp
    with era_years have "era_year (year_start y) = y \<and> era_year (year_start (y + 1) - 1) = y"
      by blast
    moreover have "year_start (y + 1) \<le> year_start 399" "year_start 0 \<le> year_start y"
      using year_start_mono ne y by simp_all
    moreover have "year_start 0 = 0" by (simp add: year_start_def)
    ultimately show ?thesis
      using era_year_mono [of "year_start y" d] era_year_mono [of d "year_start (y + 1) - 1"] y assms(1) era_last
      by simp
  qed
  then show ?thesis using y by simp
qed

lemma month_of_day:
  "\<forall>doy\<in>set [0..365].
     let mp = (5 * doy + 2) div 153; d = doy - (153 * mp + 2) div 5 + 1;
         m = (if mp < 10 then mp + 3 else mp - 9)
     in 1 \<le> m \<and> m \<le> 12 \<and> (m + 9) mod 12 = mp \<and> 1 \<le> d \<and>
        d \<le> (if m = 2 then 29 else if m \<in> {4, 6, 9, 11} then 30 else 31) \<and>
        (m = 2 \<and> d = 29 \<longrightarrow> doy = 365)"
  by code_simp

lemma combine_days:
  "x = 365 * (u + e * 400) + a - b + c + p + d - 1 - 719468 \<Longrightarrow> a = a' + 100 * e \<Longrightarrow>
   b = b' + 4 * e \<Longrightarrow> c = e \<Longrightarrow> d = w - p + 1 \<Longrightarrow>
   x = e * 146097 + (365 * u + a' - b') + w - 719468" for x :: int
  by simp

lemma date_of_days:
  assumes "date_of_days n = (y, m, d)"
  shows "days_of_date y m d = n \<and> 1 \<le> m \<and> m \<le> 12 \<and> 1 \<le> d \<and> d \<le> days_in m y"
proof -
  define era where "era = (n + 719468) div 146097"
  define doe where "doe = (n + 719468) mod 146097"
  define yoe where "yoe = era_year doe"
  define doy where "doy = doe - year_start yoe"
  define mp where "mp = (5 * doy + 2) div 153"
  have date: "date_of_days n =
      (yoe + era * 400 + (if (if mp < 10 then mp + 3 else mp - 9) \<le> 2 then 1 else 0),
       if mp < 10 then mp + 3 else mp - 9, doy - (153 * mp + 2) div 5 + 1)"
    unfolding date_of_days_def date_of_era_def date_of_year_def date_of_doy_def date_of_month_def
      era_def doe_def yoe_def doy_def mp_def era_year_def year_start_def
    by (rule refl)
  have ymd: "y = yoe + era * 400 + (if m \<le> 2 then 1 else 0)" "d = doy - (153 * mp + 2) div 5 + 1"
    "m = (if mp < 10 then mp + 3 else mp - 9)"
    using assms unfolding date by (auto simp del: if_split_asm)
  have doe: "0 \<le> doe" "doe < 146097" by (simp_all add: doe_def)
  have yb: "0 \<le> yoe \<and> yoe \<le> 399 \<and> year_start yoe \<le> doe \<and>
      (doe < year_start (yoe + 1) \<or> (yoe = 399 \<and> doe = 146096))"
    unfolding yoe_def by (rule era_year_bounds [OF doe])
  have span: "doy \<le> 365 \<and> (doy = 365 \<longrightarrow> (yoe + 1) mod 4 = 0 \<and> ((yoe + 1) mod 100 \<noteq> 0 \<or> yoe = 399))"
  proof (cases "yoe = 399")
    case True
    then show ?thesis using yb doe era_last by (simp add: doy_def)
  next
    case False
    with yb year_start_step [of yoe] show ?thesis by (auto simp: doy_def split: if_splits)
  qed
  then have "doy \<in> set [0..365]" using yb by (simp add: doy_def)
  from bspec [OF month_of_day this] have md: "1 \<le> m" "m \<le> 12" "(m + 9) mod 12 = mp" "1 \<le> d"
    "d \<le> (if m = 2 then 29 else if m \<in> {4, 6, 9, 11} then 30 else 31)"
    "m = 2 \<and> d = 29 \<longrightarrow> doy = 365"
    unfolding Let_def mp_def [symmetric] ymd(2) [symmetric] ymd(3) [symmetric] by blast+
  have leap: "is_leap y" if "m = 2" "d = 29"
  proof -
    have y1: "y = yoe + 1 + era * 400" using ymd(1) that by simp
    have "(yoe + 1 + era * 400) mod 4 = (yoe + 1) mod 4"
      "(yoe + 1 + era * 400) mod 100 = (yoe + 1) mod 100"
      "(yoe + 1 + era * 400) mod 400 = (yoe + 1) mod 400"
      using mod_mult_self1 [of "yoe + 1" "era * 100" 4] mod_mult_self1 [of "yoe + 1" "era * 4" 100]
        mod_mult_self1 [of "yoe + 1" "era" 400]
      by (simp_all add: algebra_simps)
    then show ?thesis
      unfolding y1 is_leap_def using span md(6) that by auto
  qed
  have "days_of_date y m d =
      365 * (yoe + era * 400) + (yoe + era * 400) div 4 - (yoe + era * 400) div 100 +
      (yoe + era * 400) div 400 + (153 * mp + 2) div 5 + d - 1 - 719468"
    using md(3) ymd(1) by (simp add: days_of_date_def Let_def)
  moreover have "(yoe + era * 400) div 4 = yoe div 4 + 100 * era"
    "(yoe + era * 400) div 100 = yoe div 100 + 4 * era" "(yoe + era * 400) div 400 = era"
    using yb by (auto simp: div_plus_div_distrib_dvd_right)
  ultimately have "days_of_date y m d = era * 146097 + year_start yoe + doy - 719468"
    unfolding year_start_def using ymd(2) by (rule combine_days)
  moreover have "era * 146097 + doe = n + 719468"
    unfolding era_def doe_def by (rule div_mult_mod_eq)
  ultimately have "days_of_date y m d = n"
    unfolding doy_def by linarith
  moreover have "m = 2 \<longrightarrow> d \<le> 28 \<or> (d = 29 \<and> is_leap y)"
  proof (cases "d = 29")
    case True
    then show ?thesis using leap by simp
  next
    case False
    then show ?thesis using md(5) by auto
  qed
  ultimately show ?thesis
    using md by (auto simp: days_in_def split: if_splits)
qed

section \<open>Padded digits\<close>

lemma digits_value_zeros: "digits_value 0 (replicate k CHR ''0'' @ s) = digits_value 0 s"
  by (induction k) (simp_all add: is_digit_def digit_value_def rune_def)

lemma nat_str_length: "n < 10 ^ w \<Longrightarrow> 0 < w \<Longrightarrow> length (nat_str n) \<le> w"
proof (induction w arbitrary: n)
  case (Suc w)
  show ?case
  proof (cases "n < 10")
    case True
    then show ?thesis by (subst nat_str.simps) simp
  next
    case False
    then have "0 < w" using Suc.prems by (cases w) simp_all
    moreover have "n div 10 < 10 ^ w"
      using Suc.prems(1) by (simp add: div_less_iff_less_mult mult.commute)
    ultimately have "length (nat_str (n div 10)) \<le> w" by (intro Suc.IH)
    with False show ?thesis by (subst nat_str.simps) simp
  qed
qed simp

lemma pad_int_digits:
  assumes "0 \<le> i" "i < 10 ^ w" "0 < w"
  shows "length (pad_int w i) = w" "\<forall>c\<in>set (pad_int w i). is_digit c"
    "digits_value 0 (pad_int w i) = Some (nat i)"
proof -
  have "nat i < 10 ^ w" using assms by (simp add: nat_less_iff)
  then have "length (nat_str (nat i)) \<le> w" using assms(3) by (rule nat_str_length)
  moreover have p: "pad_int w i = replicate (w - length (nat_str (nat i))) CHR ''0'' @ nat_str (nat i)"
    using assms(1) by (simp add: pad_int_def Let_def)
  ultimately show "length (pad_int w i) = w" by simp
  have "is_digit CHR ''0''" by (simp add: is_digit_def rune_def)
  then show "\<forall>c\<in>set (pad_int w i). is_digit c"
    unfolding p using nat_str_digits [of _ "nat i"] by auto
  show "digits_value 0 (pad_int w i) = Some (nat i)"
    unfolding p digits_value_zeros by (rule digits_value_nat_str)
qed

lemma pad_int_two:
  assumes "0 \<le> i" "i \<le> 99"
  shows "get_num f (pad_int 2 i @ s) = Some (i, s)"
proof -
  have d: "length (pad_int 2 i) = 2" "\<forall>c\<in>set (pad_int 2 i). is_digit c"
    "digits_value 0 (pad_int 2 i) = Some (nat i)"
    using pad_int_digits [of i 2] assms by auto
  then obtain a b where p: "pad_int 2 i = [a, b]"
    by (auto simp: length_Suc_conv numeral_2_eq_2)
  with d assms(1) show ?thesis by simp
qed

lemma get_year_pad:
  assumes "0 \<le> y" "y \<le> 9999"
  shows "get_year (pad_int 4 y @ s) = Some (y, s)"
proof -
  have d: "length (pad_int 4 y) = 4" "digits_value 0 (pad_int 4 y) = Some (nat y)"
    using pad_int_digits [of y 4] assms by auto
  then have "parse_digits (pad_int 4 y) = Some (nat y)" by (auto simp: parse_digits_def)
  with d assms show ?thesis by (simp add: get_year_def)
qed

text \<open>The fraction: trailing zeros are dropped when printing and made up when parsing.\<close>

lemma strip_zeros:
  obtains k where "s = rev (dropWhile (\<lambda>c. c = CHR ''0'') (rev s)) @ replicate k CHR ''0''"
proof -
  let ?z = "takeWhile (\<lambda>c. c = CHR ''0'') (rev s)"
  have "s = rev (?z @ dropWhile (\<lambda>c. c = CHR ''0'') (rev s))" by simp
  also have "\<dots> = rev (dropWhile (\<lambda>c. c = CHR ''0'') (rev s)) @ rev ?z" by (rule rev_append)
  also have "rev ?z = replicate (length ?z) CHR ''0''"
    by (rule replicate_eqI) (auto dest: set_takeWhileD)
  finally show ?thesis using that by blast
qed

lemma digits_value_trailing: "digits_value n (replicate k CHR ''0'') = Some (n * 10 ^ k)"
  by (induction k arbitrary: n) (simp_all add: is_digit_def digit_value_def rune_def)

lemma digits_value_Some: "\<forall>c\<in>set s. is_digit c \<Longrightarrow> \<exists>v. digits_value n s = Some v"
  by (induction n s rule: digits_value.induct) auto

lemma fraction_print:
  assumes "0 \<le> ns" "ns < 1000000000"
  shows "parse_fraction (fraction_str ns @ ''Z'') = (ns, ''Z'')"
proof -
  let ?p = "pad_int 9 ns"
  have p: "length ?p = 9" "\<forall>c\<in>set ?p. is_digit c" "digits_value 0 ?p = Some (nat ns)"
    using pad_int_digits [of ns 9] assms by auto
  define ds where "ds = rev (dropWhile (\<lambda>c. c = CHR ''0'') (rev ?p))"
  obtain k where k: "?p = ds @ replicate k CHR ''0''"
    using strip_zeros [of ?p] ds_def by blast
  have f: "fraction_str ns = (if ds = [] then [] else CHR ''.'' # ds)"
    by (simp add: fraction_str_def ds_def Let_def)
  have dd: "\<forall>c\<in>set ds. is_digit c" using p(2) k by auto
  then obtain v where v: "digits_value 0 ds = Some v" using digits_value_Some by blast
  have ns: "nat ns = v * 10 ^ k"
    using p(3) unfolding k digits_value_append v by (simp add: digits_value_trailing)
  have "k = 9 - length ds" using p(1) k by (metis diff_add_inverse length_append length_replicate)
  have nz: "\<not> is_digit CHR ''Z''" by (simp add: is_digit_def rune_def)
  show ?thesis
  proof (cases "ds = []")
    case True
    then have "v = 0" using v by simp
    with ns assms(1) have "ns = 0" by simp
    then show ?thesis using f True by (simp add: parse_fraction_def)
  next
    case False
    then obtain d ds' where c: "ds = d # ds'" by (cases ds) auto
    have tw: "takeWhile is_digit (ds @ ''Z'') = ds" "dropWhile is_digit (ds @ ''Z'') = ''Z''"
      using dd nz by (simp_all add: takeWhile_append dropWhile_append)
    have "length ds \<le> 9" using p(1) k by (metis le_add1 length_append)
    then have "take 9 ds = ds" by simp
    moreover have "parse_digits ds = Some v" using v False by (simp add: parse_digits_def)
    moreover have "int v * 10 ^ k = ns" using ns assms(1) by (metis int_nat_eq of_nat_mult of_nat_power of_nat_numeral)
    ultimately show ?thesis
      using f False c dd tw \<open>k = 9 - length ds\<close>
      by (simp add: parse_fraction_def Let_def)
  qed
qed

section \<open>The round trip\<close>

definition year_of :: "gotime \<Rightarrow> int" where
  "year_of t = fst (date_of_days (t div ns_per_s div 86400))"

lemma parse_printed:
  assumes "0 \<le> y" "y \<le> 9999" "1 \<le> m" "m \<le> 12" "1 \<le> d" "d \<le> days_in m y"
    and "0 \<le> h" "h \<le> 23" "0 \<le> mi" "mi \<le> 59" "0 \<le> sc" "sc \<le> 59" "0 \<le> ns" "ns < 1000000000"
  shows "parse_rfc3339
      (pad_int 4 y @ ''-'' @ pad_int 2 m @ ''-'' @ pad_int 2 d @ ''T'' @ pad_int 2 h @ '':'' @
       pad_int 2 mi @ '':'' @ pad_int 2 sc @ fraction_str ns @ ''Z'') =
    Some ((days_of_date y m d * 86400 + h * 3600 + mi * 60 + sc) * ns_per_s + ns)"
proof -
  have "d \<le> 31" using assms(6) days_in_range [of m y] by simp
  then have "parse_ymd (pad_int 4 y @ CHR ''-'' # pad_int 2 m @ CHR ''-'' # pad_int 2 d @ r) =
      Some ((y, m, d), r)" for r
    using assms(1-6) by (simp add: parse_ymd_def get_year_pad expect_char_def num_range_def pad_int_two)
  then show ?thesis
    using assms(7-)
    by (simp add: parse_rfc3339_def expect_char_def num_range_def pad_int_two fraction_print parse_zone_def)
qed

lemma time_round_trip:
  assumes "0 \<le> year_of t" "year_of t \<le> 9999"
  shows "parse_rfc3339 (format_rfc3339_nano t) = Some t"
proof -
  define sec where "sec = t div ns_per_s"
  define s where "s = sec mod 86400"
  define ns where "ns = t mod ns_per_s"
  obtain y m d where ymd: "date_of_days (sec div 86400) = (y, m, d)" by (metis prod_cases3)
  note date = date_of_days [OF ymd]
  have y: "0 \<le> y" "y \<le> 9999" using assms ymd by (simp_all add: year_of_def sec_def)
  have s: "0 \<le> s" "s < 86400" by (simp_all add: s_def)
  have h: "0 \<le> s div 3600" "s div 3600 \<le> 23" "0 \<le> s div 60 mod 60" "s div 60 mod 60 \<le> 59"
    "0 \<le> s mod 60" "s mod 60 \<le> 59"
    using s zdiv_mono1 [of s 86399 3600] pos_mod_bound [of 60 "s div 60"] pos_mod_bound [of 60 s]
    by (simp_all add: pos_imp_zdiv_nonneg_iff)
  have n: "0 \<le> ns" "ns < 1000000000" by (simp_all add: ns_def ns_per_s_def)
  have hms: "s div 3600 * 3600 + s div 60 mod 60 * 60 + s mod 60 = s"
  proof -
    have "s div 3600 = s div 60 div 60" by (simp flip: zdiv_zmult2_eq)
    then show ?thesis
      using div_mult_mod_eq [of s 60] div_mult_mod_eq [of "s div 60" 60] by linarith
  qed
  have f: "format_rfc3339_nano t =
      pad_int 4 y @ ''-'' @ pad_int 2 m @ ''-'' @ pad_int 2 d @ ''T'' @ pad_int 2 (s div 3600) @ '':'' @
      pad_int 2 (s div 60 mod 60) @ '':'' @ pad_int 2 (s mod 60) @ fraction_str ns @ ''Z''"
    using ymd by (simp add: format_rfc3339_nano_def Let_def sec_def s_def ns_def)
  have "sec div 86400 * 86400 + s = sec" by (simp add: s_def)
  moreover have "sec * ns_per_s + ns = t" by (simp add: sec_def ns_def)
  ultimately have total: "(days_of_date y m d * 86400 + s div 3600 * 3600 + s div 60 mod 60 * 60 + s mod 60) * ns_per_s + ns = t"
    using date hms by (metis (no_types, opaque_lifting) add.assoc)
  show ?thesis
    unfolding f parse_printed [OF y date [THEN conjunct2, THEN conjunct1]
        date [THEN conjunct2, THEN conjunct2, THEN conjunct1]
        date [THEN conjunct2, THEN conjunct2, THEN conjunct2, THEN conjunct1]
        date [THEN conjunct2, THEN conjunct2, THEN conjunct2, THEN conjunct2] h n] total
    by (rule refl)
qed

end
