(* ===== verification/Graph_Facts.thy ===== *)
theory Graph_Facts imports Graph_Laws Go_Time_Facts begin

text \<open>
  The functional behaviour of the store's writes: what a successful write leaves in its table,
  what reading it back gives, and which rows it does not touch.
\<close>

section \<open>Rows written\<close>

definition clock_ok :: "env \<Rightarrow> bool" where
  "clock_ok en \<longleftrightarrow> (\<forall>k. 0 \<le> year_of (en_now en k) \<and> year_of (en_now en k) \<le> 9999)"

lemma parse_time_string: "clock_ok en \<Longrightarrow> parse_time (time_string (en_now en k)) = Inr (en_now en k)"
  by (simp add: clock_ok_def parse_time_def time_string_def time_round_trip)

lemma put_nodes_Inr: "put_nodes rows s = (Inr u, t) \<longleftrightarrow> nodes_ok rows \<and> t = s\<lparr>db_nodes := rows\<rparr>"
  by (auto simp: put_nodes_def)

lemma put_edges_Inr:
  "put_edges rows s = (Inr u, t) \<longleftrightarrow> edges_ok (db_nodes s) rows \<and> t = s\<lparr>db_edges := rows\<rparr>"
  by (auto simp: put_edges_def)

text \<open>The steps of a store operation that only read.\<close>

lemma run_bind_steps:
  "run_bind (run_lift (Inr x)) f s = f x s"
  "run_bind (run_read (\<lambda>s. Inr (g s))) f s = f (g s) s"
  "run_bind (clock_now en) h s = h (en_now en (db_tick s)) (tick s)"
  by (simp_all add: run_bind_def run_lift_def run_read_def clock_now_def)

definition updated_nodes :: "node_id \<Rightarrow> upsert_node_request \<Rightarrow> gotime \<Rightarrow> node_row list \<Rightarrow> node_row list" where
  "updated_nodes nid req now rows =
     (if nid \<in> node_ids rows
      then map (\<lambda>r. if nr_id r = nid then (node_row_of nid req now)\<lparr>nr_created := nr_created r\<rparr> else r) rows
      else rows @ [node_row_of nid req now])"

lemma node_row_id [simp]: "nr_id (node_row_of nid req now) = nid"
  by (simp add: node_row_of_def)

lemma updated_nodes_fresh:
  "nid \<notin> node_ids rows \<Longrightarrow>
   map (\<lambda>r. if nr_id r = nid then (node_row_of nid req now)\<lparr>nr_created := nr_created r\<rparr> else r) rows = rows"
  by (rule map_idI) (auto simp: node_ids_def)

text \<open>The id an upsert without an id works on: the one its stable key names, or a new one.\<close>

lemma upsert_node_table:
  assumes "db_ok s" "upsert_node en req0 s = (Inr n, t)"
  obtains req nid where "normalize_upsert_node req0 = Inr req"
    and "db_nodes t = updated_nodes nid req (en_now en (db_tick s)) (db_nodes s)"
    and "nodes_ok (db_nodes t)" and "get_node t nid = Inr n"
    and "db_edges t = db_edges s" "db_node_props t = db_node_props s" "db_edge_props t = db_edge_props s"
    and "un_id req \<noteq> [] \<Longrightarrow> nid = un_id req"
    and "\<And>x. un_id req = [] \<Longrightarrow> un_stable_key req \<noteq> [] \<Longrightarrow>
          node_id_by_stable_key s (un_kind req) (un_stable_key req) = Some x \<Longrightarrow> x \<noteq> [] \<Longrightarrow> nid = x"
proof -
  obtain req where req: "normalize_upsert_node req0 = Inr req"
    using assms(2) by (auto simp: upsert_node_def dest!: run_bind_lift_Inr)
  let ?now = "en_now en (db_tick s)"
  define nid0 where "nid0 = (if un_id req = [] \<and> un_stable_key req \<noteq> []
      then (case node_id_by_stable_key (tick s) (un_kind req) (un_stable_key req) of
              Some nid \<Rightarrow> nid | None \<Rightarrow> un_id req) else un_id req)"
  have key: "node_id_by_stable_key (tick s) = node_id_by_stable_key s"
    by (simp add: node_id_by_stable_key_def tick_def fun_eq_iff)
  have body: "(if nid0 = [] then
       run_bind (new_id en ''node'') (\<lambda>nid.
       run_bind (insert_node nid req ?now) (\<lambda>_. run_read (\<lambda>s. get_node s nid)))
     else
       run_bind (update_node nid0 req ?now) (\<lambda>n.
       run_bind (if n = 0 then insert_node nid0 req ?now else run_ret ()) (\<lambda>_.
       run_read (\<lambda>s. get_node s nid0)))) (tick s) = (Inr n, t)"
    using assms(2) unfolding upsert_node_def req run_bind_steps nid0_def .
  have ok: "db_ok (tick s)" using assms(1) by (simp add: tick_def db_ok_def)
  show ?thesis
  proof (cases "nid0 = []")
    case True
    with body obtain nid u v where i: "new_id en ''node'' (tick s) = (Inr nid, u)"
      and ins: "insert_node nid req ?now u = (Inr (), v)" and g: "get_node v nid = Inr n" "t = v"
      by (auto simp: run_read_def elim!: run_bind_Inr)
    have u: "db_nodes u = db_nodes s \<and> db_edges u = db_edges s \<and> db_node_props u = db_node_props s \<and>
        db_edge_props u = db_edge_props s"
      using i by (auto simp: new_id_def tick_def split: option.splits)
    have rows: "db_nodes t = db_nodes s @ [node_row_of nid req ?now]" "nodes_ok (db_nodes t)"
      using ins g u by (auto simp: insert_node_def put_nodes_Inr)
    then have "nid \<notin> node_ids (db_nodes s)"
      by (auto simp: nodes_ok_def node_ids_def)
    with rows have *: "db_nodes t = updated_nodes nid req ?now (db_nodes s)"
      by (simp add: updated_nodes_def)
    show ?thesis
    proof (rule that [OF req * rows(2)])
      show "get_node t nid = Inr n" using g by simp
      show "db_edges t = db_edges s" "db_node_props t = db_node_props s" "db_edge_props t = db_edge_props s"
        using ins g u by (auto simp: insert_node_def put_nodes_Inr)
      show "un_id req \<noteq> [] \<Longrightarrow> nid = un_id req"
        using True by (simp add: nid0_def)
      show "nid = x" if "un_id req = []" "un_stable_key req \<noteq> []"
          "node_id_by_stable_key s (un_kind req) (un_stable_key req) = Some x" "x \<noteq> []" for x
        using True that by (simp add: nid0_def key)
    qed
  next
    case False
    with body obtain k u v where up: "update_node nid0 req ?now (tick s) = (Inr k, u)"
      and ins: "(if k = 0 then insert_node nid0 req ?now else run_ret ()) u = (Inr (), v)"
      and g: "get_node v nid0 = Inr n" "t = v"
      by (auto simp: run_read_def elim!: run_bind_Inr)
    have k: "k = length (filter (\<lambda>r. nr_id r = nid0) (db_nodes s))"
      and u: "u = (tick s)\<lparr>db_nodes := map (\<lambda>r. if nr_id r = nid0 then (node_row_of nid0 req ?now)
          \<lparr>nr_created := nr_created r\<rparr> else r) (db_nodes s)\<rparr>" "nodes_ok (db_nodes u)"
      using up by (auto simp: update_node_def run_ret_def put_nodes_Inr tick_def elim!: run_bind_Inr)
    have z: "k = 0 \<longleftrightarrow> nid0 \<notin> node_ids (db_nodes s)"
      by (auto simp: k node_ids_def filter_empty_conv)
    have *: "db_nodes t = updated_nodes nid0 req ?now (db_nodes s)" and ok': "nodes_ok (db_nodes t)"
      and e: "db_edges t = db_edges s" "db_node_props t = db_node_props s" "db_edge_props t = db_edge_props s"
      using ins g u z updated_nodes_fresh [of nid0 "db_nodes s" req ?now]
      by (auto simp: updated_nodes_def insert_node_def put_nodes_Inr run_ret_def tick_def split: if_splits)
    show ?thesis
    proof (rule that [OF req * ok' _ e])
      show "get_node t nid0 = Inr n" using g by simp
      show "un_id req \<noteq> [] \<Longrightarrow> nid0 = un_id req" by (simp add: nid0_def)
      show "nid0 = x" if "un_id req = []" "un_stable_key req \<noteq> []"
          "node_id_by_stable_key s (un_kind req) (un_stable_key req) = Some x" "x \<noteq> []" for x
        using that by (simp add: nid0_def key)
    qed
  qed
qed

text \<open>Reading the node back, and the nodes left alone.\<close>

lemma find_updated_other:
  "x \<noteq> nid \<Longrightarrow> List.find (\<lambda>r. nr_id r = x) (updated_nodes nid req now rows) = List.find (\<lambda>r. nr_id r = x) rows"
proof -
  assume x: "x \<noteq> nid"
  have "List.find (\<lambda>r. nr_id r = x) (map (\<lambda>r. if nr_id r = nid then (node_row_of nid req now)\<lparr>nr_created := nr_created r\<rparr> else r) rows) =
      List.find (\<lambda>r. nr_id r = x) rows"
    using x by (induction rows) auto
  moreover have "List.find (\<lambda>r. nr_id r = x) (rows @ [node_row_of nid req now]) = List.find (\<lambda>r. nr_id r = x) rows"
    using x by (induction rows) auto
  ultimately show ?thesis by (simp add: updated_nodes_def)
qed

lemma updated_row:
  "\<exists>c. \<lparr>nr_id = nid, nr_kind = un_kind req, nr_stable_key = nullable_string (un_stable_key req),
      nr_title = un_title req, nr_summary = un_summary req, nr_status = un_status req,
      nr_sensitivity = un_sensitivity req, nr_trust = un_trust req,
      nr_confidence = un_confidence req, nr_source = nullable_id (un_source req),
      nr_actor = un_actor req, nr_created = c, nr_updated = time_string now\<rparr>
    \<in> set (updated_nodes nid req now rows) \<and>
    (\<forall>r\<in>set rows. nr_id r = nid \<longrightarrow> distinct (map nr_id rows) \<longrightarrow> c = nr_created r)"
proof (cases "nid \<in> node_ids rows")
  case True
  then obtain r where r: "r \<in> set rows" "nr_id r = nid" by (auto simp: node_ids_def)
  then have "(node_row_of nid req now)\<lparr>nr_created := nr_created r\<rparr> \<in> set (updated_nodes nid req now rows)"
    using True by (force simp: updated_nodes_def)
  moreover have "\<forall>r'\<in>set rows. nr_id r' = nid \<longrightarrow> distinct (map nr_id rows) \<longrightarrow> nr_created r = nr_created r'"
    using r by (metis distinct_map inj_onD)
  ultimately show ?thesis by (auto simp: node_row_of_def intro!: exI [of _ "nr_created r"])
next
  case False
  then show ?thesis
    by (intro exI [of _ "time_string now"]) (auto simp: updated_nodes_def node_row_of_def node_ids_def)
qed

lemma trim_nullable: "trim_space v = v \<Longrightarrow> coalesce (nullable_string v) = v"
  by (simp add: nullable_string_def coalesce_def)

lemma upsert_node_reads_back:
  assumes "db_ok s" "clock_ok en" "upsert_node en req0 s = (Inr n, t)"
  shows "\<exists>req. normalize_upsert_node req0 = Inr req \<and> get_node t (nd_id n) = Inr n \<and>
    nd_kind n = un_kind req \<and> nd_stable_key n = un_stable_key req \<and> nd_title n = un_title req \<and>
    nd_summary n = un_summary req \<and> nd_status n = un_status req \<and>
    nd_sensitivity n = un_sensitivity req \<and> nd_trust n = un_trust req \<and>
    nd_confidence n = un_confidence req \<and> nd_source n = un_source req \<and> nd_actor n = un_actor req \<and>
    nd_updated n = en_now en (db_tick s) \<and>
    (un_id req \<noteq> [] \<longrightarrow> nd_id n = un_id req) \<and>
    (\<forall>m. get_node s (nd_id n) = Inr m \<longrightarrow> nd_created n = nd_created m) \<and>
    (\<forall>x. x \<noteq> nd_id n \<longrightarrow> get_node t x = get_node s x)"
proof -
  from assms(1,3) obtain req nid where req: "normalize_upsert_node req0 = Inr req"
    and rows: "db_nodes t = updated_nodes nid req (en_now en (db_tick s)) (db_nodes s)"
    and ok: "nodes_ok (db_nodes t)" and g: "get_node t nid = Inr n"
    and nid: "un_id req \<noteq> [] \<Longrightarrow> nid = un_id req"
    by (rule upsert_node_table) blast
  obtain c where row: "\<lparr>nr_id = nid, nr_kind = un_kind req, nr_stable_key = nullable_string (un_stable_key req),
      nr_title = un_title req, nr_summary = un_summary req, nr_status = un_status req,
      nr_sensitivity = un_sensitivity req, nr_trust = un_trust req,
      nr_confidence = un_confidence req, nr_source = nullable_id (un_source req),
      nr_actor = un_actor req, nr_created = c, nr_updated = time_string (en_now en (db_tick s))\<rparr> \<in> set (db_nodes t)"
      (is "?row \<in> _")
    and c: "\<forall>r\<in>set (db_nodes s). nr_id r = nid \<longrightarrow> c = nr_created r"
    using updated_row [of nid req "en_now en (db_tick s)" "db_nodes s"] rows assms(1)
    by (auto simp: db_ok_def nodes_ok_def)
  have "List.find (\<lambda>r. nr_id r = nid) (db_nodes t) = Some ?row"
    using find_distinct [of nr_id "db_nodes t" ?row] row ok by (simp add: nodes_ok_def)
  then have sc: "scan_node ?row = Inr n"
    using g by (simp add: get_node_def row_scan_def find_node_def)
  have trim: "trim_space (un_stable_key req) = un_stable_key req"
    using req by (auto simp: normalize_upsert_node_def Let_def split: if_splits)
  have n: "nd_id n = nid \<and> nd_kind n = un_kind req \<and> nd_stable_key n = un_stable_key req \<and>
      nd_title n = un_title req \<and> nd_summary n = un_summary req \<and> nd_status n = un_status req \<and>
      nd_sensitivity n = un_sensitivity req \<and> nd_trust n = un_trust req \<and>
      nd_confidence n = un_confidence req \<and> nd_source n = un_source req \<and> nd_actor n = un_actor req \<and>
      nd_updated n = en_now en (db_tick s) \<and> parse_time c = Inr (nd_created n)"
    using sc by (auto simp: scan_node_def parse_time_string [OF assms(2)] trim_nullable [OF trim])
  have "nd_created n = nd_created m" if "get_node s nid = Inr m" for m
    using get_node_row [OF that] c n by (auto simp: scan_node_def)
  moreover have "get_node t x = get_node s x" if "x \<noteq> nid" for x
    using find_updated_other [OF that] by (simp add: get_node_def find_node_def rows)
  ultimately show ?thesis
    using req g n nid by auto
qed

lemma stable_key_upsert:
  assumes "db_ok s" "upsert_node en req0 s = (Inr n, t)" "un_id req0 = []"
    and "trim_space (un_stable_key req0) \<noteq> []" "nid \<noteq> []"
    and "node_id_by_stable_key s (un_kind req0) (trim_space (un_stable_key req0)) = Some nid"
  shows "nd_id n = nid \<and> map nr_id (db_nodes t) = map nr_id (db_nodes s)"
proof -
  from assms(1,2) obtain req x where req: "normalize_upsert_node req0 = Inr req"
    and rows: "db_nodes t = updated_nodes x req (en_now en (db_tick s)) (db_nodes s)"
    and g: "get_node t x = Inr n"
    and key: "\<And>y. un_id req = [] \<Longrightarrow> un_stable_key req \<noteq> [] \<Longrightarrow>
          node_id_by_stable_key s (un_kind req) (un_stable_key req) = Some y \<Longrightarrow> y \<noteq> [] \<Longrightarrow> x = y"
    by (rule upsert_node_table) blast
  have "un_id req = []" "un_kind req = un_kind req0" "un_stable_key req = trim_space (un_stable_key req0)"
    using req assms(3) by (auto simp: normalize_upsert_node_def Let_def split: if_splits)
  then have x: "x = nid" using key [of nid] assms(4-6) by simp
  have "nid \<in> node_ids (db_nodes s)"
    using assms(6) by (auto simp: node_id_by_stable_key_def find_Some_iff node_ids_def)
  then have "map nr_id (db_nodes t) = map nr_id (db_nodes s)"
    using rows x by (simp add: updated_nodes_def comp_def)
  moreover have "nd_id n = nid"
    using get_node_row [OF g] scan_node_fields x by metis
  ultimately show ?thesis by simp
qed

section \<open>Lifecycle status\<close>

lemma find_map_status:
  "\<forall>r. nr_id (f r) = nr_id r \<Longrightarrow>
   List.find (\<lambda>r. nr_id r = x) (map (\<lambda>r. if nr_id r = nid then f r else r) rows) =
   map_option (\<lambda>r. if x = nid then f r else r) (List.find (\<lambda>r. nr_id r = x) rows)"
  by (induction rows) auto

lemma set_node_status_frame:
  assumes "clock_ok en" "set_node_status en nid st act s = (Inr n, t)"
  shows "nd_id n = nid \<and> nd_status n = st \<and> valid_lifecycle_status st \<and>
    (\<forall>x. x \<noteq> nid \<longrightarrow> get_node t x = get_node s x) \<and>
    (\<forall>m. get_node s nid = Inr m \<longrightarrow>
       n = m\<lparr>nd_status := st, nd_actor := norm_default act default_agent_actor,
             nd_updated := en_now en (db_tick s)\<rparr>)"
proof -
  let ?f = "\<lambda>r. r\<lparr>nr_status := st, nr_actor := norm_default act default_agent_actor,
                  nr_updated := time_string (en_now en (db_tick s))\<rparr>"
  have v: "valid_lifecycle_status st" and rows: "db_nodes t = map (\<lambda>r. if nr_id r = nid then ?f r else r) (db_nodes s)"
    and g: "get_node t nid = Inr n"
    using assms(2)
    by (auto simp: set_node_status_def run_err_def run_bind_steps run_read_def put_nodes_Inr tick_def
        elim!: run_bind_Inr split: if_splits)
  have find: "find_node t x = map_option (\<lambda>r. if x = nid then ?f r else r) (find_node s x)" for x
    unfolding find_node_def rows by (rule find_map_status) simp
  obtain r where r: "find_node s nid = Some r"
    using g find [of nid] by (cases "find_node s nid") (auto simp: get_node_def row_scan_def)
  have n: "scan_node (?f r) = Inr n"
    using g find [of nid] r by (simp add: get_node_def row_scan_def)
  have "nr_id r = nid" using find_node_Some [OF r] by simp
  then have 1: "nd_id n = nid" "nd_status n = st"
    using scan_node_fields [OF n] by simp_all
  have 2: "get_node t x = get_node s x" if "x \<noteq> nid" for x
    using find [of x] that by (cases "find_node s x") (simp_all add: get_node_def row_scan_def)
  have 3: "n = m\<lparr>nd_status := st, nd_actor := norm_default act default_agent_actor,
             nd_updated := en_now en (db_tick s)\<rparr>" if "get_node s nid = Inr m" for m
    using that n r by (auto simp: get_node_def row_scan_def scan_node_def parse_time_string [OF assms(1)])
  show ?thesis using v 1 2 3 by blast
qed

section \<open>Unit of work\<close>

lemma unit_of_work_atomic:
  "with_unit_of_work b work s = (Inl e, t) \<Longrightarrow> t = s\<lparr>db_tick := db_tick t\<rparr>"
  by (auto simp: with_unit_of_work_def split: if_splits prod.splits sum.splits)

lemma unit_of_work_commits:
  "work s = (Inr (), t) \<Longrightarrow> with_unit_of_work False work s = (Inr (), t)"
  by (simp add: with_unit_of_work_def)

end
