(* ===== verification/Graph_Exact.thy ===== *)
theory Graph_Exact imports Graph_Facts begin

text \<open>
  What the searches of the SQLite store find: with fewer than a hundred readable nodes of a kind, the
  search for the kind finds exactly these, so FIND and MATCH miss nothing.
\<close>

definition readable_nodes :: "graph_db \<Rightarrow> sensitivity list \<Rightarrow> node_kind \<Rightarrow> node set" where
  "readable_nodes s allowed kind =
     {n. get_node s (nd_id n) = Inr n \<and> nd_status n = ''active'' \<and> nd_sensitivity n \<in> set allowed \<and>
         nd_kind n = kind}"

lemma res_list_Inr_nth: "res_list f xs = Inr ys \<Longrightarrow> i < length ys \<Longrightarrow> f (xs ! i) = Inr (ys ! i)"
proof (induction xs arbitrary: ys i)
  case (Cons x xs)
  then show ?case by (cases i) auto
qed simp

lemma search_kind_normalized:
  "search_nodes en s (search_kind kind allowed) = Inr ns \<Longrightarrow> allowed \<noteq> [] \<Longrightarrow>
   normalize_search_nodes (search_kind kind allowed) = Inr (search_kind kind allowed)"
proof -
  assume "search_nodes en s (search_kind kind allowed) = Inr ns" and a: "allowed \<noteq> []"
  then obtain q where q: "normalize_search_nodes (search_kind kind allowed) = Inr q"
    by (auto simp: search_nodes_def)
  moreover have "trim_space [] = []" by code_simp
  ultimately show ?thesis
    using a by (auto simp: normalize_search_nodes_def search_kind_def normalize_access_policy_def Let_def res_simps
        split: option.splits if_splits)
qed

lemma search_nodes_exact:
  assumes "db_ok s" "search_nodes en s (search_kind kind allowed) = Inr ns" "allowed \<noteq> []"
  shows "distinct (map nd_id ns) \<and> set ns \<subseteq> readable_nodes s allowed kind \<and>
    (length ns < 100 \<longrightarrow> set ns = readable_nodes s allowed kind)"
proof -
  let ?q = "search_kind kind allowed"
  let ?less = "\<lambda>a b. str_less (nr_updated b) (nr_updated a) \<or> (nr_updated a = nr_updated b \<and> str_less (nr_id a) (nr_id b))"
  define rows where "rows = sort_slice ?less (filter (search_row ?q) (db_nodes s))"
  have found: "res_list (get_node s) (map nr_id (take 100 rows)) = Inr ns"
    using assms(2) search_kind_normalized [OF assms(2,3)]
    by (simp add: search_nodes_def rows_def) (simp add: search_kind_def)
  have set_rows: "set rows = {r \<in> set (db_nodes s). search_row ?q r}"
    by (simp add: rows_def)
  have "distinct (map nr_id (filter (search_row ?q) (db_nodes s)))"
    using assms(1) by (auto simp: db_ok_def nodes_ok_def distinct_map intro: inj_on_subset)
  moreover have "mset (map nr_id rows) = mset (map nr_id (filter (search_row ?q) (db_nodes s)))"
    by (simp add: rows_def)
  ultimately have dr: "distinct (map nr_id rows)"
    by (metis mset_eq_imp_distinct_iff)
  have ids: "map nd_id ns = map nr_id (take 100 rows)"
  proof (rule nth_equalityI)
    show "length (map nd_id ns) = length (map nr_id (take 100 rows))"
      using res_list_Inr_length [OF found] by simp
    fix i assume "i < length (map nd_id ns)"
    then have "get_node s (map nr_id (take 100 rows) ! i) = Inr (ns ! i)"
      using res_list_Inr_nth [OF found] by simp
    then show "map nd_id ns ! i = map nr_id (take 100 rows) ! i"
      using get_node_row scan_node_fields \<open>i < length (map nd_id ns)\<close> by (metis length_map nth_map)
  qed
  have sub: "set ns \<subseteq> readable_nodes s allowed kind"
    using search_law [OF assms(1,2)] assms(3) by (auto simp: readable_nodes_def search_kind_def)
  moreover have "n \<in> set ns" if n: "n \<in> readable_nodes s allowed kind" "length ns < 100" for n
  proof -
    have "length ns = min (length rows) 100"
      using arg_cong [OF ids, of length] by simp
    then have "length rows < 100"
      using n(2) by simp
    then have all: "map nd_id ns = map nr_id rows" using ids by simp
    obtain r where r: "r \<in> set (db_nodes s)" "nr_id r = nd_id n" "scan_node r = Inr n"
      using n(1) get_node_row by (fastforce simp: readable_nodes_def)
    then have "r \<in> set rows"
      using n(1) scan_node_fields [OF r(3)]
      by (auto simp: set_rows search_row_def readable_nodes_def) (simp_all add: search_kind_def)
    then have "nd_id n \<in> nd_id ` set ns"
      using arg_cong [OF all, of set] r(2) by (auto simp: image_iff) metis
    then obtain m where "m \<in> set ns" "nd_id m = nd_id n" by auto
    then show ?thesis
      using sub n(1) by (auto simp: readable_nodes_def)
  qed
  moreover have "distinct (map nd_id ns)"
    unfolding ids using dr by (metis distinct_take take_map)
  ultimately show ?thesis by blast
qed

lemma readable_nodes_rows: "readable_nodes s allowed kind \<subseteq> (\<lambda>r. projr (scan_node r)) ` set (db_nodes s)"
proof
  fix n assume "n \<in> readable_nodes s allowed kind"
  then obtain r where "r \<in> set (db_nodes s)" "scan_node r = Inr n"
    using get_node_row by (fastforce simp: readable_nodes_def)
  then show "n \<in> (\<lambda>r. projr (scan_node r)) ` set (db_nodes s)" by force
qed

lemma search_small:
  assumes "db_ok s" "search_nodes en s (search_kind kind allowed) = Inr ns" "allowed \<noteq> []"
    and "card (readable_nodes s allowed kind) < 100"
  shows "set ns = readable_nodes s allowed kind" "distinct ns"
proof -
  note x = search_nodes_exact [OF assms(1,2,3)]
  have "finite (readable_nodes s allowed kind)"
    by (rule finite_subset [OF readable_nodes_rows]) simp
  then have "length ns \<le> card (readable_nodes s allowed kind)"
    using x by (metis card_mono distinct_card distinct_map)
  then show "set ns = readable_nodes s allowed kind" "distinct ns"
    using x assms(4) by (auto simp: distinct_map)
qed

end
