(* ===== verification/Query_Grammar.thy ===== *)
theory Query_Grammar imports Query_Parser begin

text \<open>
  The contract of the parser: the statements it can return, a printer for them, and the two
  directions of the correspondence. \<open>wf_statement\<close> says what the executor may rely on;
  \<open>statement_tokens\<close> prints a statement with every clause written out.
\<close>

section \<open>Well-formed statements\<close>

definition field_ok :: "string \<Rightarrow> bool" where
  "field_ok f \<longleftrightarrow> identifier_ok f \<and> to_lower f = f"

definition assignment_ok :: "assignment \<Rightarrow> bool" where
  "assignment_ok a \<longleftrightarrow>
     field_ok (as_field a) \<and> li_token (as_value a) \<in> {TokenString, TokenNumber, TokenIdentifier} \<and>
     token_ok (Token (li_token (as_value a)) (li_value (as_value a)))"

definition clauses_ok :: "statement \<Rightarrow> bool" where
  "clauses_ok st \<longleftrightarrow>
     (\<forall>c\<in>set (st_where st). field_ok (co_field c)) \<and>
     (st_group_by st = [] \<or> field_ok (st_group_by st)) \<and>
     st_return st \<noteq> [] \<and> (\<forall>f\<in>set (st_return st). field_ok f) \<and>
     (st_order_by st = [] \<and> st_order st = SortAscending \<or>
      field_ok (st_order_by st) \<and> st_order st \<in> {SortAscending, SortDescending}) \<and>
     1 \<le> st_limit st \<and> st_limit st \<le> 100 \<and> validate_grouped st = Inr ()"

definition mutation_ok :: "statement \<Rightarrow> bool" where
  "mutation_ok st \<longleftrightarrow>
     (\<forall>a\<in>set (st_set st). assignment_ok a) \<and>
     st_return st \<noteq> [] \<and> (\<forall>f\<in>set (st_return st). field_ok f)"

definition wf_statement :: "statement \<Rightarrow> bool" where
  "wf_statement st \<longleftrightarrow>
     (case st_mode st of
        StatementFind \<Rightarrow>
          valid_node_kind (st_kind st) \<and> clauses_ok st \<and>
          st = (zero_statement StatementFind)
                 \<lparr>st_kind := st_kind st, st_where := st_where st, st_group_by := st_group_by st,
                  st_return := st_return st, st_order_by := st_order_by st,
                  st_order := st_order st, st_limit := st_limit st\<rparr>
      | StatementMatch \<Rightarrow>
          valid_node_kind (st_from_kind st) \<and> valid_relation_type (st_relation st) \<and>
          valid_node_kind (st_to_kind st) \<and> 1 \<le> st_min_depth st \<and>
          st_min_depth st \<le> st_max_depth st \<and> st_max_depth st \<le> 12 \<and> clauses_ok st \<and>
          st = (zero_statement StatementMatch)
                 \<lparr>st_from_kind := st_from_kind st, st_relation := st_relation st,
                  st_to_kind := st_to_kind st, st_min_depth := st_min_depth st,
                  st_max_depth := st_max_depth st, st_where := st_where st,
                  st_group_by := st_group_by st, st_return := st_return st,
                  st_order_by := st_order_by st, st_order := st_order st,
                  st_limit := st_limit st\<rparr>
      | StatementInsertNode \<Rightarrow>
          valid_node_kind (st_kind st) \<and> st_set st \<noteq> [] \<and> mutation_ok st \<and>
          st = (zero_statement StatementInsertNode)
                 \<lparr>st_kind := st_kind st, st_set := st_set st, st_return := st_return st\<rparr>
      | StatementInsertEdge \<Rightarrow>
          identifier_ok (st_from_id st) \<and> valid_relation_type (st_relation st) \<and>
          identifier_ok (st_to_id st) \<and> mutation_ok st \<and>
          st = (zero_statement StatementInsertEdge)
                 \<lparr>st_from_id := st_from_id st, st_relation := st_relation st,
                  st_to_id := st_to_id st, st_set := st_set st, st_return := st_return st\<rparr>
      | StatementSetNode \<Rightarrow>
          identifier_ok (st_node_id st) \<and> st_set st \<noteq> [] \<and> mutation_ok st \<and>
          st = (zero_statement StatementSetNode)
                 \<lparr>st_node_id := st_node_id st, st_set := st_set st, st_return := st_return st\<rparr>
      | StatementSetEdge \<Rightarrow>
          identifier_ok (st_edge_id st) \<and> st_set st \<noteq> [] \<and> mutation_ok st \<and>
          st = (zero_statement StatementSetEdge)
                 \<lparr>st_edge_id := st_edge_id st, st_set := st_set st, st_return := st_return st\<rparr>
      | StatementDeleteNode \<Rightarrow>
          identifier_ok (st_node_id st) \<and> mutation_ok st \<and>
          st = (zero_statement StatementDeleteNode)
                 \<lparr>st_node_id := st_node_id st, st_return := st_return st\<rparr>
      | StatementDeleteEdge \<Rightarrow>
          identifier_ok (st_edge_id st) \<and> mutation_ok st \<and>
          st = (zero_statement StatementDeleteEdge)
                 \<lparr>st_edge_id := st_edge_id st, st_return := st_return st\<rparr>)"

section \<open>Printer\<close>

definition sym :: "token_type \<Rightarrow> token" where
  "sym ty = Token ty (hd (symbol_values ty))"

definition ident :: "string \<Rightarrow> token" where
  "ident v = Token TokenIdentifier v"

fun sep_tokens :: "token \<Rightarrow> token list list \<Rightarrow> token list" where
  "sep_tokens s [] = []"
| "sep_tokens s [x] = x"
| "sep_tokens s (x # xs) = x @ s # sep_tokens s xs"

definition assignment_tokens :: "assignment \<Rightarrow> token list" where
  "assignment_tokens a =
     [ident (as_field a), sym TokenEqual, Token (li_token (as_value a)) (li_value (as_value a))]"

definition operator_token :: "condition_operator \<Rightarrow> token" where
  "operator_token p =
     sym (case p of
            OperatorEqual \<Rightarrow> TokenEqual
          | OperatorNotEqual \<Rightarrow> TokenNotEqual
          | OperatorLessThan \<Rightarrow> TokenLess
          | OperatorLessOrEqual \<Rightarrow> TokenLessEqual
          | OperatorGreaterThan \<Rightarrow> TokenGreater
          | OperatorGreaterOrEqual \<Rightarrow> TokenGreaterEqual)"

definition condition_tokens :: "condition \<Rightarrow> token list" where
  "condition_tokens c =
     [ident (co_field c), operator_token (co_operator c), Token TokenString (co_value c)]"

definition set_tokens :: "assignment list \<Rightarrow> token list" where
  "set_tokens as =
     (if as = [] then []
      else ident ''SET'' # sep_tokens (sym TokenComma) (map assignment_tokens as))"

definition return_tokens :: "string list \<Rightarrow> token list" where
  "return_tokens fs = ident ''RETURN'' # sep_tokens (sym TokenComma) (map (\<lambda>f. [ident f]) fs)"

definition clause_tokens :: "statement \<Rightarrow> token list" where
  "clause_tokens st =
     (if st_where st = [] then []
      else ident ''WHERE'' # sep_tokens (ident ''AND'') (map condition_tokens (st_where st))) @
     (if st_group_by st = [] then [] else [ident ''GROUP'', ident ''BY'', ident (st_group_by st)]) @
     return_tokens (st_return st) @
     (if st_order_by st = [] then []
      else [ident ''ORDER'', ident ''BY'', ident (st_order_by st),
            ident (if st_order st = SortDescending then ''DESC'' else ''ASC'')]) @
     [ident ''LIMIT'', Token TokenNumber (nat_str (nat (st_limit st)))]"

definition relation_tokens :: "token list \<Rightarrow> token list" where
  "relation_tokens ts = sym TokenDash # sym TokenLeftBracket # ts @ [sym TokenRightBracket, sym TokenArrow]"

definition statement_tokens :: "statement \<Rightarrow> token list" where
  "statement_tokens st =
     (case st_mode st of
        StatementFind \<Rightarrow> ident ''FIND'' # ident (st_kind st) # clause_tokens st
      | StatementMatch \<Rightarrow>
          ident ''MATCH'' # ident (st_from_kind st) #
          relation_tokens
            [ident (st_relation st), sym TokenStar, Token TokenNumber (nat_str (nat (st_min_depth st))),
             sym TokenRange, Token TokenNumber (nat_str (nat (st_max_depth st)))] @
          ident (st_to_kind st) # clause_tokens st
      | StatementInsertNode \<Rightarrow>
          ident ''INSERT'' # ident ''NODE'' # ident (st_kind st) #
          set_tokens (st_set st) @ return_tokens (st_return st)
      | StatementInsertEdge \<Rightarrow>
          ident ''INSERT'' # ident ''EDGE'' # ident (st_from_id st) #
          relation_tokens [ident (st_relation st)] @ ident (st_to_id st) #
          set_tokens (st_set st) @ return_tokens (st_return st)
      | StatementSetNode \<Rightarrow>
          ident ''SET'' # ident ''NODE'' # ident (st_node_id st) #
          set_tokens (st_set st) @ return_tokens (st_return st)
      | StatementSetEdge \<Rightarrow>
          ident ''SET'' # ident ''EDGE'' # ident (st_edge_id st) #
          set_tokens (st_set st) @ return_tokens (st_return st)
      | StatementDeleteNode \<Rightarrow>
          ident ''DELETE'' # ident ''NODE'' # ident (st_node_id st) # return_tokens (st_return st)
      | StatementDeleteEdge \<Rightarrow>
          ident ''DELETE'' # ident ''EDGE'' # ident (st_edge_id st) # return_tokens (st_return st))"

definition render :: "statement \<Rightarrow> string" where
  "render st = unlex (statement_tokens st)"


section \<open>What the parser returns is well formed\<close>


lemma identifier_no_space: "identifier_ok v \<Longrightarrow> \<forall>c\<in>set v. \<not> is_space c"
  using identifier_not_symbol by (auto simp: identifier_ok_def)

lemma lower_rune_keeps:
  "\<not> is_letter d \<Longrightarrow> (lower_rune c = d) = (c = d)" 
  using lower_rune_eq [of c d] lower_rune_changes [of d] by auto

lemma not_letter_marks [simp]: "\<not> is_letter CHR ''-''" "\<not> is_letter CHR ''.''"
  by (simp_all add: is_letter_def rune_def)

lemma not_letter_underscore [simp]: "\<not> is_letter CHR ''_''"
  by (simp add: is_letter_def rune_def)

lemma identifier_rune_lower [simp]: "identifier_rune (lower_rune c) = identifier_rune c"
  by (auto simp: identifier_rune_def lower_rune_keeps)

lemma identifier_ok_lower: "identifier_ok v \<Longrightarrow> identifier_ok (to_lower v)"
  by (cases v; cases "tl v")
     (auto simp: identifier_ok_def to_lower_def next_is_def lower_rune_keeps)

lemma normalize_field_ok: "identifier_ok v \<Longrightarrow> field_ok (normalize_field v)"
  using identifier_no_space [of v]
  by (simp add: normalize_field_def field_ok_def trim_space_id identifier_ok_lower)

lemma normalize_field_id: "field_ok f \<Longrightarrow> normalize_field f = f"
  using identifier_no_space [of f] by (simp add: normalize_field_def field_ok_def trim_space_id)

definition tokens_ok :: "token list \<Rightarrow> bool" where
  "tokens_ok ts \<longleftrightarrow> (\<forall>t\<in>set ts. token_ok t \<or> t = eof_token)"

lemma tokens_ok_Cons [simp]: "tokens_ok (t # ts) \<longleftrightarrow> (token_ok t \<or> t = eof_token) \<and> tokens_ok ts"
  by (simp add: tokens_ok_def)

lemma tokens_ok_tl [simp]: "tokens_ok ts \<Longrightarrow> tokens_ok (tl ts)"
  by (cases ts) auto

lemma eof_token_type [simp]: "tok_type eof_token = TokenEOF"
  by simp

lemma token_ok_type: "token_ok t \<Longrightarrow> tok_type t = TokenIdentifier \<Longrightarrow> identifier_ok (tok_value t)"
  by (simp add: token_ok_def)

lemma token_ok_field:
  "token_ok t \<Longrightarrow> tok_type t = TokenIdentifier \<Longrightarrow> field_ok (normalize_field (tok_value t))"
  by (simp add: token_ok_type normalize_field_ok)

named_theorems reads "what a parsing method returns and leaves, for good tokens"

lemma match_keyword_reads [reads]: "match_keyword k ts = (b, r) \<Longrightarrow> tokens_ok ts \<Longrightarrow> tokens_ok r"
  by (auto simp: match_keyword_def split: if_splits)

lemma match_type_reads [reads]: "match_type ty ts = (b, r) \<Longrightarrow> tokens_ok ts \<Longrightarrow> tokens_ok r"
  by (auto simp: match_type_def split: if_splits)

lemma expect_keyword_reads [reads]: "expect_keyword k ts = Inr r \<Longrightarrow> tokens_ok ts \<Longrightarrow> tokens_ok r"
  by (auto simp: expect_keyword_def dest: match_keyword_reads split: prod.splits if_splits)

lemma expect_type_reads [reads]: "expect_type ty l ts = Inr r \<Longrightarrow> tokens_ok ts \<Longrightarrow> tokens_ok r"
  by (auto simp: expect_type_def expect_def res_simps split: if_splits)

lemma expect_number_reads:
  "expect TokenNumber l ts = Inr (t, r) \<Longrightarrow> tokens_ok ts \<Longrightarrow> tokens_ok r"
  by (auto dest!: expect_Inr)

lemma expect_identifier_reads:
  "expect TokenIdentifier l ts = Inr (t, r) \<Longrightarrow> tokens_ok ts \<Longrightarrow> identifier_ok (tok_value t) \<and> tokens_ok r"
  by (auto dest!: expect_Inr intro: token_ok_type)

lemma parse_node_kind_reads [reads]:
  "parse_node_kind l ts = Inr (k, r) \<Longrightarrow> tokens_ok ts \<Longrightarrow> valid_node_kind k \<and> tokens_ok r"
  by (auto simp: parse_node_kind_def Let_def split: if_splits prod.splits dest!: expect_identifier_reads)

lemma parse_relation_reads [reads]:
  "parse_relation ts = Inr (k, r) \<Longrightarrow> tokens_ok ts \<Longrightarrow> valid_relation_type k \<and> tokens_ok r"
  by (auto simp: parse_relation_def Let_def split: if_splits prod.splits dest!: expect_identifier_reads)

lemma parse_id_reads [reads]:
  "parse_id l ts = Inr (v, r) \<Longrightarrow> tokens_ok ts \<Longrightarrow> identifier_ok v \<and> tokens_ok r"
  by (auto simp: parse_id_def res_simps dest!: expect_identifier_reads)

lemma parse_field_reads [reads]:
  "parse_field ts = Inr (f, r) \<Longrightarrow> tokens_ok ts \<Longrightarrow> field_ok f \<and> tokens_ok r"
  by (auto simp: parse_field_def res_simps normalize_field_ok dest!: expect_identifier_reads)

lemma parse_assignment_reads [reads]:
  "parse_assignment ts = Inr (a, r) \<Longrightarrow> tokens_ok ts \<Longrightarrow> assignment_ok a \<and> tokens_ok r"
  by (auto simp: assignment_ok_def token_ok_field dest!: parse_assignment_Inr) (auto simp: token_ok_def)

lemma parse_condition_reads [reads]:
  "parse_condition ts = Inr (c, r) \<Longrightarrow> tokens_ok ts \<Longrightarrow> field_ok (co_field c) \<and> tokens_ok r"
  by (auto simp: token_ok_field dest!: parse_condition_Inr)

lemma parse_assignments_reads [reads]:
  "parse_assignments ts = Inr (as, r) \<Longrightarrow> tokens_ok ts \<Longrightarrow>
   as \<noteq> [] \<and> (\<forall>a\<in>set as. assignment_ok a) \<and> tokens_ok r"
proof (induction ts arbitrary: as r rule: parse_assignments.induct)
  case (1 ts)
  from "1.prems" obtain x u where x: "parse_assignment ts = Inr (x, u)"
    by (subst (asm) parse_assignments.simps) (auto split: sum.splits)
  with "1.prems" parse_assignment_reads [OF x] "1.IH" [OF x refl] show ?case
    by (subst (asm) parse_assignments.simps) (fastforce simp: res_simps split: if_splits)
qed

lemma parse_conditions_reads [reads]:
  "parse_conditions ts = Inr (cs, r) \<Longrightarrow> tokens_ok ts \<Longrightarrow>
   (\<forall>c\<in>set cs. field_ok (co_field c)) \<and> tokens_ok r"
proof (induction ts arbitrary: cs r rule: parse_conditions.induct)
  case (1 ts)
  from "1.prems" obtain x u where x: "parse_condition ts = Inr (x, u)"
    by (subst (asm) parse_conditions.simps) (auto split: sum.splits)
  obtain b v where m: "match_keyword ''AND'' u = (b, v)"
    by fastforce
  from "1.prems" x m parse_condition_reads [OF x] match_keyword_reads [OF m] "1.IH" [OF x refl m [symmetric]]
  show ?case
    by (subst (asm) parse_conditions.simps) (fastforce simp: res_simps split: if_splits)
qed

lemma parse_fields_reads [reads]:
  "parse_fields ts = Inr (fs, r) \<Longrightarrow> tokens_ok ts \<Longrightarrow>
   fs \<noteq> [] \<and> (\<forall>f\<in>set fs. field_ok f) \<and> tokens_ok r"
proof (induction ts arbitrary: fs r rule: parse_fields.induct)
  case (1 ts)
  from "1.prems" obtain x u where x: "parse_field ts = Inr (x, u)"
    by (subst (asm) parse_fields.simps) (auto split: sum.splits)
  with "1.prems" parse_field_reads [OF x] "1.IH" [OF x refl] show ?case
    by (subst (asm) parse_fields.simps) (fastforce simp: res_simps split: if_splits)
qed


lemma snd_match_keyword [simp]: "tokens_ok ts \<Longrightarrow> tokens_ok (snd (match_keyword k ts))"
  by (simp add: match_keyword_def)

lemma statement_update_same:
  "st\<lparr>st_return := st_return st\<rparr> = st" "st\<lparr>st_where := st_where st\<rparr> = st"
  "st\<lparr>st_group_by := st_group_by st, st_return := st_return st\<rparr> = st" "st\<lparr>st_limit := st_limit st\<rparr> = st"
  by simp_all

lemma return_reads:
  "optional_return st ts = Inr (st', r) \<Longrightarrow> tokens_ok ts \<Longrightarrow>
   st_return st \<noteq> [] \<and> (\<forall>f\<in>set (st_return st). field_ok f) \<Longrightarrow>
   \<exists>fs. st' = st\<lparr>st_return := fs\<rparr> \<and> fs \<noteq> [] \<and> (\<forall>f\<in>set fs. field_ok f) \<and> tokens_ok r"
  by (auto simp: optional_return_def res_simps split: prod.splits if_splits
      dest!: match_keyword_reads parse_fields_reads)
    (metis (full_types) statement_update_same)

lemma where_reads:
  "where_clause st ts = Inr (st', r) \<Longrightarrow> tokens_ok ts \<Longrightarrow> st_where st = [] \<Longrightarrow>
   \<exists>cs. st' = st\<lparr>st_where := cs\<rparr> \<and> (\<forall>c\<in>set cs. field_ok (co_field c)) \<and> tokens_ok r"
  by (auto simp: where_clause_def res_simps split: prod.splits if_splits
      dest!: match_keyword_reads parse_conditions_reads)
    (metis empty_iff list.set(1) statement_update_same)

lemma field_ok_count: "field_ok ''count''"
  by code_simp

lemma field_ok_nonempty [simp]: "\<not> field_ok []"
  by (simp add: field_ok_def identifier_ok_def)

lemma group_reads:
  assumes c: "group_clause st ts = Inr (st', r)" and ok: "tokens_ok ts" and "st_group_by st = []"
    "st_return st \<noteq> [] \<and> (\<forall>f\<in>set (st_return st). field_ok f)"
  shows "\<exists>g fs. st' = st\<lparr>st_group_by := g, st_return := fs\<rparr> \<and> (g = [] \<or> field_ok g) \<and> fs \<noteq> [] \<and>
     (\<forall>f\<in>set fs. field_ok f) \<and> tokens_ok r"
proof (cases "fst (match_keyword ''GROUP'' ts)")
  case False
  then have "st' = st \<and> r = snd (match_keyword ''GROUP'' ts)"
    using c by (auto simp: group_clause_def split: prod.splits)
  then show ?thesis
    using assms(3,4) ok by (intro exI [of _ "[]"] exI [of _ "st_return st"]) simp
next
  case True
  then obtain u where u: "match_keyword ''GROUP'' ts = (True, u)"
    by (metis prod.collapse)
  with c obtain v t where v: "expect_keyword ''BY'' u = Inr v"
    and t: "expect TokenIdentifier ''group field'' v = Inr (t, r)"
    and st': "st' = st\<lparr>st_group_by := normalize_field (tok_value t),
                      st_return := [normalize_field (tok_value t), ''count'']\<rparr>"
    by (auto simp: group_clause_def Let_def split: prod.splits)
  have "field_ok (normalize_field (tok_value t))" "tokens_ok r"
    using expect_identifier_reads [OF t] expect_keyword_reads [OF v] match_keyword_reads [OF u] ok
    by (auto intro: normalize_field_ok)
  then show ?thesis
    unfolding st' by - (intro exI conjI, rule refl, auto simp: field_ok_count)
qed

lemma order_reads:
  assumes c: "order_clause st ts = Inr (st', r)" and ok: "tokens_ok ts" and "st_order_by st = []"
    "st_order st = SortAscending"
  shows "\<exists>f d. st' = st\<lparr>st_order_by := f, st_order := d\<rparr> \<and>
    (f = [] \<and> d = SortAscending \<or> field_ok f \<and> d \<in> {SortAscending, SortDescending}) \<and> tokens_ok r"
proof (cases "fst (match_keyword ''ORDER'' ts)")
  case False
  then have "st' = st \<and> r = snd (match_keyword ''ORDER'' ts)"
    using c by (auto simp: order_clause_def split: prod.splits)
  then show ?thesis
    using assms(3,4) ok by (intro exI [of _ "[]"] exI [of _ SortAscending]) simp
next
  case True
  then obtain u where u: "match_keyword ''ORDER'' ts = (True, u)"
    by (metis prod.collapse)
  with c obtain v t w where v: "expect_keyword ''BY'' u = Inr v"
    and t: "expect TokenIdentifier ''order field'' v = Inr (t, w)"
    by (auto simp: order_clause_def split: prod.splits)
  have ok': "field_ok (normalize_field (tok_value t))" "tokens_ok w"
    using expect_identifier_reads [OF t] expect_keyword_reads [OF v] match_keyword_reads [OF u] ok
    by (auto intro: normalize_field_ok)
  obtain b x where b: "match_keyword ''DESC'' w = (b, x)"
    by fastforce
  from c u v t b have "st' = st\<lparr>st_order_by := normalize_field (tok_value t),
      st_order := if b then SortDescending else SortAscending\<rparr> \<and> (r = x \<or> r = snd (match_keyword ''ASC'' x))"
    by (auto simp: order_clause_def Let_def split: if_splits)
  then show ?thesis
    using ok' match_keyword_reads [OF b] by fastforce
qed

lemma limit_reads:
  assumes c: "limit_clause st ts = Inr (st', r)" and ok: "tokens_ok ts"
    and l: "1 \<le> st_limit st \<and> st_limit st \<le> 100"
  shows "\<exists>n. st' = st\<lparr>st_limit := n\<rparr> \<and> 1 \<le> n \<and> n \<le> 100 \<and> tokens_ok r"
proof (cases "fst (match_keyword ''LIMIT'' ts)")
  case False
  then have "st' = st \<and> r = snd (match_keyword ''LIMIT'' ts)"
    using c by (auto simp: limit_clause_def split: prod.splits)
  then show ?thesis
    using l ok by (intro exI [of _ "st_limit st"]) simp
next
  case True
  then obtain u where u: "match_keyword ''LIMIT'' ts = (True, u)"
    by (metis prod.collapse)
  with c obtain t where t: "expect TokenNumber ''limit'' u = Inr (t, r)"
    by (auto simp: limit_clause_def split: prod.splits option.splits if_splits)
  with c u obtain n where "st' = st\<lparr>st_limit := n\<rparr>" "\<not> (n \<le> 0 \<or> n > 100)"
    by (simp add: limit_clause_def split: option.splits if_splits) blast
  then show ?thesis
    using expect_number_reads [OF t] match_keyword_reads [OF u] ok by (intro exI [of _ n]) auto
qed

text \<open>A FIND or MATCH statement as its head leaves it, before the trailing clauses.\<close>

definition fresh_read :: "statement \<Rightarrow> bool" where
  "fresh_read st \<longleftrightarrow>
     st_where st = [] \<and> st_group_by st = [] \<and> st_order_by st = [] \<and>
     st_order st = SortAscending \<and> st_limit st = 20 \<and>
     st_return st \<noteq> [] \<and> (\<forall>f\<in>set (st_return st). field_ok f)"

lemma trailing_reads:
  assumes "trailing_clauses st ts = Inr (st', r)" "tokens_ok ts" "fresh_read st"
    "validate_grouped st' = Inr ()"
  shows "tokens_ok r \<and> clauses_ok st' \<and>
    (\<exists>cs g fs f d n. st' = st\<lparr>st_where := cs, st_group_by := g, st_return := fs,
                           st_order_by := f, st_order := d, st_limit := n\<rparr>)"
proof -
  from assms(1) obtain s1 r1 s2 r2 s3 r3 s4 r4 where
    c: "where_clause st ts = Inr (s1, r1)" "group_clause s1 r1 = Inr (s2, r2)"
      "optional_return s2 r2 = Inr (s3, r3)" "order_clause s3 r3 = Inr (s4, r4)"
      "limit_clause s4 r4 = Inr (st', r)"
    by (auto simp: trailing_clauses_def split: prod.splits)
  from assms(2,3) where_reads [OF c(1)] obtain cs where 1: "s1 = st\<lparr>st_where := cs\<rparr>"
    "\<forall>c\<in>set cs. field_ok (co_field c)" "tokens_ok r1"
    by (auto simp: fresh_read_def)
  with assms(3) group_reads [OF c(2)] obtain g fs where 2: "s2 = s1\<lparr>st_group_by := g, st_return := fs\<rparr>"
    "g = [] \<or> field_ok g" "fs \<noteq> []" "\<forall>f\<in>set fs. field_ok f" "tokens_ok r2"
    by (auto simp: fresh_read_def)
  with return_reads [OF c(3)] obtain fs' where 3: "s3 = s2\<lparr>st_return := fs'\<rparr>" "fs' \<noteq> []"
    "\<forall>f\<in>set fs'. field_ok f" "tokens_ok r3"
    by auto
  with 1 2 assms(3) order_reads [OF c(4)] obtain f d where 4: "s4 = s3\<lparr>st_order_by := f, st_order := d\<rparr>"
    "f = [] \<and> d = SortAscending \<or> field_ok f \<and> d \<in> {SortAscending, SortDescending}" "tokens_ok r4"
    by (auto simp: fresh_read_def)
  with 1 2 3 assms(3) limit_reads [OF c(5)] obtain n where 5: "st' = s4\<lparr>st_limit := n\<rparr>" "1 \<le> n" "n \<le> 100"
    "tokens_ok r"
    by (auto simp: fresh_read_def)
  have st': "st' = st\<lparr>st_where := cs, st_group_by := g, st_return := fs', st_order_by := f,
                      st_order := d, st_limit := n\<rparr>"
    using 1(1) 2(1) 3(1) 4(1) 5(1) by simp
  then have "clauses_ok st'"
    using 1 2 3 4 5 assms(4) by (simp add: clauses_ok_def)
  then show ?thesis
    using st' 5(4) by blast
qed


lemma default_returns:
  "\<forall>f\<in>set [''id'', ''title'', ''kind'', ''lifecycle_status'', ''from.id'', ''from.title'',
            ''path.depth'', ''to.id'', ''to.title'', ''edge.type'', ''edge.id'', ''edge.from_id'',
            ''edge.to_id'', ''edge.status'', ''edge.lifecycle_status'']. field_ok f"
  by code_simp

lemma required_set_reads [reads]:
  "required_set ts = Inr (as, r) \<Longrightarrow> tokens_ok ts \<Longrightarrow>
   as \<noteq> [] \<and> (\<forall>a\<in>set as. assignment_ok a) \<and> tokens_ok r"
  by (auto simp: required_set_def dest!: expect_keyword_reads parse_assignments_reads)

lemma optional_set_reads [reads]:
  "optional_set ts = Inr (as, r) \<Longrightarrow> tokens_ok ts \<Longrightarrow> (\<forall>a\<in>set as. assignment_ok a) \<and> tokens_ok r"
  by (auto simp: optional_set_def split: prod.splits if_splits
      dest!: match_keyword_reads parse_assignments_reads)

lemma parse_depth_number_reads [reads]:
  "parse_depth_number l ts = Inr (n, r) \<Longrightarrow> tokens_ok ts \<Longrightarrow> tokens_ok r"
  by (auto simp: parse_depth_number_def split: prod.splits option.splits dest!: expect_number_reads)

lemma depth_reads [reads]:
  assumes d: "traversal_depth ts = Inr ((lo, hi), r)" and ok: "tokens_ok ts"
  shows "1 \<le> lo \<and> lo \<le> hi \<and> hi \<le> 12 \<and> tokens_ok r"
proof (cases "fst (match_type TokenStar ts)")
  case False
  then have "lo = 1 \<and> hi = 1 \<and> r = snd (match_type TokenStar ts)"
    using d by (auto simp: traversal_depth_def split: prod.splits)
  then show ?thesis
    using ok by (simp add: match_type_def)
next
  case True
  then obtain u where u: "match_type TokenStar ts = (True, u)"
    by (metis prod.collapse)
  have uok: "tokens_ok u"
    using match_type_reads [OF u ok] .
  from d u obtain lo' hi' v where
    v: "(if tok_type (current u) = TokenNumber
         then res_map (\<lambda>(n, r). ((n, n), r)) (parse_depth_number ''minimum traversal depth'' u)
         else Inr ((1, 6), u)) = Inr ((lo', hi'), v)"
    and w: "res_bind
              (case match_type TokenRange v of
                 (ranged, r') \<Rightarrow>
                   if \<not> ranged then Inr (hi', r')
                   else parse_depth_number ''maximum traversal depth'' r') (\<lambda>(hi, r).
            if lo' \<le> 0 \<or> hi < lo' \<or> hi > 12 then Inl DepthOutOfRange else Inr ((lo', hi), r))
          = Inr ((lo, hi), r)"
    by (auto simp: traversal_depth_def)
  have vok: "tokens_ok v"
    using v uok by (auto simp: res_simps split: if_splits dest: parse_depth_number_reads)
  from w have "\<not> (lo \<le> 0 \<or> hi < lo \<or> hi > 12)" "(case match_type TokenRange v of
      (ranged, r') \<Rightarrow> if \<not> ranged then Inr (hi', r')
        else parse_depth_number ''maximum traversal depth'' r') = Inr (hi, r)"
    by (auto split: if_splits prod.splits)
  then show ?thesis
    using vok by (auto split: if_splits prod.splits dest: match_type_reads parse_depth_number_reads)
qed

lemma find_reads:
  "find_statement ts = Inr (st, r) \<Longrightarrow> tokens_ok ts \<Longrightarrow>
   \<exists>k. st = (zero_statement StatementFind)
              \<lparr>st_kind := k, st_return := [''id'', ''title''], st_order := SortAscending,
               st_limit := 20\<rparr> \<and> valid_node_kind k \<and> tokens_ok r"
  by (auto simp: find_statement_def dest!: parse_node_kind_reads)

lemma match_reads:
  "match_statement ts = Inr (st, r) \<Longrightarrow> tokens_ok ts \<Longrightarrow>
   \<exists>k rel k' lo hi fs.
     st = (zero_statement StatementMatch)
            \<lparr>st_from_kind := k, st_relation := rel, st_to_kind := k', st_min_depth := lo,
             st_max_depth := hi, st_return := fs, st_order := SortAscending, st_limit := 20\<rparr> \<and>
     valid_node_kind k \<and> valid_relation_type rel \<and> valid_node_kind k' \<and>
     1 \<le> lo \<and> lo \<le> hi \<and> hi \<le> 12 \<and> fs \<noteq> [] \<and> (\<forall>f\<in>set fs. field_ok f) \<and> tokens_ok r"
  using default_returns
  by (auto simp: match_statement_def split: prod.splits
      dest!: expect_type_reads parse_node_kind_reads parse_relation_reads depth_reads)
     (intro exI conjI, rule refl, simp_all)+

lemma mutation_wf:
  assumes "statement_head ts = Inr (st, r)" "mutating st" "tokens_ok ts"
  shows "wf_statement st \<and> tokens_ok r"
proof -
  have m: "\<not> fst (match_keyword ''FIND'' ts)" "\<not> fst (match_keyword ''MATCH'' ts)"
    using assms find_reads [of "tl ts"] match_reads [of "tl ts"]
    by (auto simp: statement_head_def mutating_def zero_statement_def split: if_splits)
  have i: "wf_statement st \<and> tokens_ok r" if "insert_statement u = Inr (st, r)" "tokens_ok u" for u
    using that default_returns
    by (auto simp: insert_statement_def split: prod.splits if_splits
        dest!: match_keyword_reads expect_type_reads parse_node_kind_reads parse_relation_reads
          parse_id_reads required_set_reads optional_set_reads return_reads)
       (auto simp: wf_statement_def zero_statement_def mutation_ok_def)
  have s: "wf_statement st \<and> tokens_ok r" if "set_statement u = Inr (st, r)" "tokens_ok u" for u
    using that default_returns
    by (auto simp: set_statement_def split: prod.splits if_splits
        dest!: match_keyword_reads parse_id_reads required_set_reads return_reads)
       (auto simp: wf_statement_def zero_statement_def mutation_ok_def)
  have d: "wf_statement st \<and> tokens_ok r" if "delete_statement u = Inr (st, r)" "tokens_ok u" for u
    using that default_returns
    by (auto simp: delete_statement_def split: prod.splits if_splits
        dest!: match_keyword_reads parse_id_reads return_reads)
       (auto simp: wf_statement_def zero_statement_def mutation_ok_def)
  show ?thesis
    using assms m i [of "tl ts"] s [of "tl ts"] d [of "tl ts"]
    by (auto simp: statement_head_def split: if_splits)
qed

lemma return_mutating: "optional_return st ts = Inr (st', r) \<Longrightarrow> mutating st' = mutating st"
  by (auto simp: optional_return_def mutating_def res_simps split: prod.splits if_splits)

lemma read_wf:
  assumes h: "statement_head ts = Inr (st, r)" and m: "\<not> mutating st" and ok: "tokens_ok ts"
    and t: "trailing_clauses st r = Inr (st', r')" and g: "validate_grouped st' = Inr ()"
  shows "wf_statement st' \<and> tokens_ok r'"
proof -
  consider "find_statement (tl ts) = Inr (st, r)" | "match_statement (tl ts) = Inr (st, r)"
    | "insert_statement (tl ts) = Inr (st, r) \<or> set_statement (tl ts) = Inr (st, r) \<or>
       delete_statement (tl ts) = Inr (st, r)"
    using h by (auto simp: statement_head_def split: if_splits)
  then show ?thesis
  proof cases
    case 1
    with find_reads [OF 1] ok default_returns have "fresh_read st" "tokens_ok r"
      by (auto simp: fresh_read_def zero_statement_def)
    with trailing_reads [OF t _ _ g] find_reads [OF 1] ok show ?thesis
      by (auto simp: wf_statement_def zero_statement_def)
  next
    case 2
    with match_reads [OF 2] ok have "fresh_read st" "tokens_ok r"
      by (auto simp: fresh_read_def zero_statement_def)
    with trailing_reads [OF t _ _ g] match_reads [OF 2] ok show ?thesis
      by (auto simp: wf_statement_def zero_statement_def)
  next
    case 3
    have "mutating st"
      using 3 by (auto simp: insert_statement_def set_statement_def delete_statement_def
          split: prod.splits if_splits dest!: return_mutating) (simp_all add: mutating_def zero_statement_def)
    with m show ?thesis by simp
  qed
qed

lemma parse_wf: "parse s = Inr st \<Longrightarrow> wf_statement st"
proof -
  assume p: "parse s = Inr st"
  then obtain ts where ts: "lex s = Inr ts" and ps: "parse_statement ts = Inr st"
    by (auto simp: parse_def split: sum.splits)
  have ok: "tokens_ok ts"
    using lex_shape [OF ts] by (auto simp: tokens_ok_def)
  from ps obtain st0 r where h: "statement_head ts = Inr (st0, r)"
    by (auto simp: parse_statement_def split: prod.splits)
  show ?thesis
  proof (cases "mutating st0")
    case True
    with ps h have "st = st0"
      by (auto simp: parse_statement_def split: if_splits)
    with mutation_wf [OF h True ok] show ?thesis by simp
  next
    case False
    with ps h obtain r' where "trailing_clauses st0 r = Inr (st, r')" "validate_grouped st = Inr ()"
      by (auto simp: parse_statement_def split: if_splits prod.splits)
    with read_wf [OF h False ok] show ?thesis by blast
  qed
qed

end
