(* ===== verification/Query_Printer.thy ===== *)
theory Query_Printer imports Query_Grammar begin

text \<open>
  The other direction of the contract: parsing the printed form of a well-formed statement gives
  the statement back. Each parsing method of parser.go has a \<open>_print\<close> lemma for the tokens the
  printer writes for it; \<open>stops\<close> describes the tokens that may follow a list.
\<close>

section \<open>Printing and parsing back\<close>

definition clause_words :: "string list" where
  "clause_words =
     [''FIND'', ''MATCH'', ''INSERT'', ''SET'', ''DELETE'', ''NODE'', ''EDGE'', ''WHERE'', ''AND'', ''GROUP'',
      ''BY'', ''RETURN'', ''ORDER'', ''ASC'', ''DESC'', ''LIMIT'']"

lemma words_lower:
  "map to_lower clause_words =
     [''find'', ''match'', ''insert'', ''set'', ''delete'', ''node'', ''edge'', ''where'', ''and'', ''group'',
      ''by'', ''return'', ''order'', ''asc'', ''desc'', ''limit'']"
  by code_simp

lemma words_ok: "\<forall>k\<in>set clause_words. to_upper k = k \<and> identifier_ok k"
  by code_simp

lemma words_fold: "k \<in> set clause_words \<Longrightarrow> k' \<in> set clause_words \<Longrightarrow> equal_fold k k' = (k = k')"
proof -
  have "inj_on to_lower (set clause_words)"
    using words_lower by (intro conjunct2 [OF iffD1 [OF distinct_map]]) simp
  then show "k \<in> set clause_words \<Longrightarrow> k' \<in> set clause_words \<Longrightarrow> ?thesis"
    by (auto simp: equal_fold_def inj_on_def)
qed

named_theorems prints "what a parsing method returns on printed tokens"

lemma keyword_print [prints]:
  "k \<in> set clause_words \<Longrightarrow> k' \<in> set clause_words \<Longrightarrow>
   match_keyword k (ident k' # r) = (if k' = k then (True, r) else (False, ident k' # r))"
  using words_fold by (simp add: match_keyword_def current_def ident_def)

lemma keyword_other [prints]:
  "tok_type t \<noteq> TokenIdentifier \<Longrightarrow> match_keyword k (t # r) = (False, t # r)"
  by (simp add: match_keyword_def current_def)

lemma type_print [prints]:
  "match_type ty (t # r) = (if tok_type t = ty then (True, r) else (False, t # r))"
  by (simp add: match_type_def current_def)

lemma expect_print [prints]: "tok_type t = ty \<Longrightarrow> expect ty l (t # r) = Inr (t, r)"
  by (simp add: expect_def current_def)

lemma expect_type_print [prints]: "tok_type t = ty \<Longrightarrow> expect_type ty l (t # r) = Inr r"
  by (simp add: expect_type_def expect_print)

lemma expect_keyword_print [prints]:
  "k \<in> set clause_words \<Longrightarrow> expect_keyword k (ident k # r) = Inr r"
  by (simp add: expect_keyword_def keyword_print)

lemma current_print [prints]: "current (t # r) = t"
  by (simp add: current_def)

lemma sym_type [simp]: "tok_type (sym ty) = ty" "tok_type (ident v) = TokenIdentifier"
  "tok_value (ident v) = v"
  by (simp_all add: sym_def ident_def)

lemma kinds_lower:
  "\<forall>k\<in>set node_kinds. to_lower k = k \<and> identifier_ok k"
  "\<forall>k\<in>set relation_types. to_lower k = k \<and> identifier_ok k"
  by code_simp+

lemma parse_node_kind_print [prints]:
  "valid_node_kind k \<Longrightarrow> parse_node_kind l (ident k # r) = Inr (k, r)"
  using kinds_lower(1) by (simp add: parse_node_kind_def prints valid_node_kind_def Let_def)

lemma parse_relation_print [prints]:
  "valid_relation_type k \<Longrightarrow> parse_relation (ident k # r) = Inr (k, r)"
  using kinds_lower(2) by (simp add: parse_relation_def prints valid_relation_type_def Let_def)

lemma parse_id_print [prints]: "parse_id l (ident v # r) = Inr (v, r)"
  by (simp add: parse_id_def prints)

lemma parse_assignment_print:
  "assignment_ok a \<Longrightarrow> parse_assignment (assignment_tokens a @ r) = Inr (a, r)"
  by (auto simp: parse_assignment_def assignment_tokens_def prints parse_literal_def Let_def
      assignment_ok_def normalize_field_id)

lemma parse_operator_print: "parse_operator (operator_token p # r) = Inr (p, r)"
  by (cases p) (simp_all add: parse_operator_def operator_token_def prints Let_def)

lemma parse_condition_print:
  "field_ok (co_field c) \<Longrightarrow> parse_condition (condition_tokens c @ r) = Inr (c, r)"
  by (simp add: parse_condition_def condition_tokens_def prints parse_operator_print
      parse_value_def Let_def normalize_field_id)

lemma parse_field_print: "field_ok f \<Longrightarrow> parse_field (ident f # r) = Inr (f, r)"
  by (simp add: parse_field_def prints normalize_field_id)

text \<open>The token lists that may follow a printed list: they start with another keyword, or end.\<close>

definition stops :: "token list \<Rightarrow> bool" where
  "stops r \<longleftrightarrow> r = [eof_token] \<or> (\<exists>k s. r = ident k # s \<and> k \<in> set clause_words \<and> k \<noteq> ''AND'')"

lemma stops_type: "stops r \<Longrightarrow> tok_type (current r) \<noteq> TokenComma"
  by (auto simp: stops_def prints)

lemma stops_and: "stops r \<Longrightarrow> match_keyword ''AND'' r = (False, r)"
  by (auto simp: stops_def prints clause_words_def)

lemma parse_assignments_print [prints]:
  "as \<noteq> [] \<Longrightarrow> \<forall>a\<in>set as. assignment_ok a \<Longrightarrow> stops r \<Longrightarrow>
   parse_assignments (sep_tokens (sym TokenComma) (map assignment_tokens as) @ r) = Inr (as, r)"
proof (induction as rule: induct_list012)
  case (3 x y zs)
  then show ?case
    by (subst parse_assignments.simps) (simp add: parse_assignment_print prints)
next
  case (2 x)
  then show ?case
    by (subst parse_assignments.simps) (simp add: parse_assignment_print stops_type)
qed simp

lemma parse_conditions_print [prints]:
  "cs \<noteq> [] \<Longrightarrow> \<forall>c\<in>set cs. field_ok (co_field c) \<Longrightarrow> stops r \<Longrightarrow>
   parse_conditions (sep_tokens (ident ''AND'') (map condition_tokens cs) @ r) = Inr (cs, r)"
proof (induction cs rule: induct_list012)
  case (3 x y zs)
  then show ?case
    by (subst parse_conditions.simps) (simp add: parse_condition_print prints clause_words_def)
next
  case (2 x)
  then show ?case
    by (subst parse_conditions.simps) (simp add: parse_condition_print stops_and)
qed simp

lemma parse_fields_print [prints]:
  "fs \<noteq> [] \<Longrightarrow> \<forall>f\<in>set fs. field_ok f \<Longrightarrow> stops r \<Longrightarrow>
   parse_fields (sep_tokens (sym TokenComma) (map (\<lambda>f. [ident f]) fs) @ r) = Inr (fs, r)"
proof (induction fs rule: induct_list012)
  case (3 x y zs)
  then show ?case
    by (subst parse_fields.simps) (simp add: parse_field_print prints)
next
  case (2 x)
  then show ?case
    by (subst parse_fields.simps) (simp add: parse_field_print stops_type)
qed simp


lemma stops_word: "k \<in> set clause_words \<Longrightarrow> k \<noteq> ''AND'' \<Longrightarrow> stops (ident k # s)"
  by (auto simp: stops_def)

lemma stops_eof: "stops [eof_token]"
  by (simp add: stops_def)

lemma where_print:
  assumes "k \<in> {''GROUP'', ''RETURN''}" and "\<forall>c\<in>set cs. field_ok (co_field c)" and "st_where st = []"
  shows "where_clause st
      ((if cs = [] then [] else ident ''WHERE'' # sep_tokens (ident ''AND'') (map condition_tokens cs)) @
       ident k # r) = Inr (st\<lparr>st_where := cs\<rparr>, ident k # r)"
proof -
  have "stops (ident k # r)"
    using assms(1) by (auto intro!: stops_word simp: clause_words_def)
  then show ?thesis
    using assms by (auto simp: where_clause_def prints clause_words_def)
qed

lemma group_print:
  assumes "g = [] \<or> field_ok g" and "st_group_by st = []"
  shows "group_clause st
      ((if g = [] then [] else [ident ''GROUP'', ident ''BY'', ident g]) @ ident ''RETURN'' # r) =
      Inr (st\<lparr>st_group_by := g, st_return := (if g = [] then st_return st else [g, ''count''])\<rparr>,
           ident ''RETURN'' # r)"
  using assms by (auto simp: group_clause_def prints clause_words_def Let_def normalize_field_id)

lemma return_print:
  assumes "fs \<noteq> []" "\<forall>f\<in>set fs. field_ok f" "stops r"
  shows "optional_return st (return_tokens fs @ r) = Inr (st\<lparr>st_return := fs\<rparr>, r)"
  using assms by (simp add: optional_return_def return_tokens_def prints clause_words_def)

lemma order_print:
  assumes "f = [] \<and> d = SortAscending \<or> field_ok f \<and> d \<in> {SortAscending, SortDescending}"
    and "st_order_by st = []" "st_order st = SortAscending"
  shows "order_clause st
      ((if f = [] then []
        else [ident ''ORDER'', ident ''BY'', ident f,
              ident (if d = SortDescending then ''DESC'' else ''ASC'')]) @ ident ''LIMIT'' # r) =
      Inr (st\<lparr>st_order_by := f, st_order := d\<rparr>, ident ''LIMIT'' # r)"
proof (cases "f = []")
  case True
  with assms show ?thesis
    by (simp add: order_clause_def prints clause_words_def)
next
  case False
  then have "normalize_field f = f"
    using assms by (auto intro: normalize_field_id)
  with assms False show ?thesis
    by (cases d) (simp_all add: order_clause_def prints clause_words_def Let_def)
qed

lemma number_print: "0 \<le> n \<Longrightarrow> n \<le> 100 \<Longrightarrow> atoi (nat_str (nat n)) = Some n"
  using atoi_nat_str [of "nat n"] by (simp add: max_int_def)

lemma limit_print:
  assumes "1 \<le> n" "n \<le> 100"
  shows "limit_clause st (ident ''LIMIT'' # Token TokenNumber (nat_str (nat n)) # r) =
         Inr (st\<lparr>st_limit := n\<rparr>, r)"
  using assms by (simp add: limit_clause_def prints clause_words_def number_print)

lemma trailing_print:
  assumes ok: "clauses_ok st" and fresh: "fresh_read st0"
  shows "trailing_clauses st0 (clause_tokens st @ [eof_token]) =
    Inr (st0\<lparr>st_where := st_where st, st_group_by := st_group_by st, st_return := st_return st,
             st_order_by := st_order_by st, st_order := st_order st, st_limit := st_limit st\<rparr>,
         [eof_token])"
proof -
  let ?s1 = "st0\<lparr>st_where := st_where st\<rparr>"
  let ?s2 = "?s1\<lparr>st_group_by := st_group_by st,
                 st_return := (if st_group_by st = [] then st_return ?s1 else [st_group_by st, ''count''])\<rparr>"
  let ?s3 = "?s2\<lparr>st_return := st_return st\<rparr>"
  let ?s4 = "?s3\<lparr>st_order_by := st_order_by st, st_order := st_order st\<rparr>"
  define l where "l = [Token TokenNumber (nat_str (nat (st_limit st))), eof_token]"
  define ord where "ord = (if st_order_by st = [] then []
      else [ident ''ORDER'', ident ''BY'', ident (st_order_by st),
            ident (if st_order st = SortDescending then ''DESC'' else ''ASC'')]) @ ident ''LIMIT'' # l"
  define ret where "ret = return_tokens (st_return st) @ ord"
  define grp where "grp = (if st_group_by st = [] then []
      else [ident ''GROUP'', ident ''BY'', ident (st_group_by st)]) @ ret"
  obtain r' where r': "ret = ident ''RETURN'' # r'"
    by (simp add: return_tokens_def ret_def)
  obtain k g' where g': "grp = ident k # g'" "k \<in> {''GROUP'', ''RETURN''}"
    using r' by (cases "st_group_by st = []") (auto simp: grp_def)
  have stop: "stops ord"
    by (auto intro!: stops_word simp: clause_words_def ord_def)
  have split: "clause_tokens st @ [eof_token] =
      (if st_where st = [] then []
       else ident ''WHERE'' # sep_tokens (ident ''AND'') (map condition_tokens (st_where st))) @ grp"
    by (simp only: clause_tokens_def grp_def ret_def ord_def l_def append_assoc append_Cons append_Nil)
  have 1: "where_clause st0 (clause_tokens st @ [eof_token]) = Inr (?s1, grp)"
    unfolding split g'(1) by (rule where_print) (use ok fresh g'(2) in \<open>simp_all add: clauses_ok_def fresh_read_def\<close>)
  have 2: "group_clause ?s1 grp = Inr (?s2, ret)"
    unfolding grp_def r' by (rule group_print) (use ok fresh in \<open>simp_all add: clauses_ok_def fresh_read_def\<close>)
  have 3: "optional_return ?s2 ret = Inr (?s3, ord)"
    unfolding ret_def by (rule return_print) (use ok stop in \<open>simp_all add: clauses_ok_def\<close>)
  have 4: "order_clause ?s3 ord = Inr (?s4, ident ''LIMIT'' # l)"
    unfolding ord_def by (rule order_print) (use ok fresh in \<open>simp_all add: clauses_ok_def fresh_read_def\<close>)
  have 5: "limit_clause ?s4 (ident ''LIMIT'' # l) = Inr (?s4\<lparr>st_limit := st_limit st\<rparr>, [eof_token])"
    unfolding l_def by (rule limit_print) (use ok in \<open>simp_all add: clauses_ok_def\<close>)
  show ?thesis
    unfolding trailing_clauses_def 1 res_bind.simps prod.case 2 3 4 5 by simp
qed


lemma stops_return: "stops (return_tokens fs @ r)"
  by (simp add: return_tokens_def stops_word clause_words_def)

lemma required_set_print [prints]:
  "as \<noteq> [] \<Longrightarrow> \<forall>a\<in>set as. assignment_ok a \<Longrightarrow>
   required_set (set_tokens as @ return_tokens fs @ r) = Inr (as, return_tokens fs @ r)"
  by (simp add: required_set_def set_tokens_def prints clause_words_def stops_return)

lemma optional_set_print [prints]:
  "\<forall>a\<in>set as. assignment_ok a \<Longrightarrow>
   optional_set (set_tokens as @ return_tokens fs @ r) = Inr (as, return_tokens fs @ r)"
  by (cases "as = []")
     (simp_all add: optional_set_def set_tokens_def prints clause_words_def stops_return,
      simp add: return_tokens_def prints clause_words_def)

lemma return_end_print [prints]:
  "fs \<noteq> [] \<Longrightarrow> \<forall>f\<in>set fs. field_ok f \<Longrightarrow>
   optional_return st (return_tokens fs @ [eof_token]) = Inr (st\<lparr>st_return := fs\<rparr>, [eof_token])"
  by (rule return_print) (simp_all add: stops_eof)

lemma depth_print [prints]:
  "1 \<le> lo \<Longrightarrow> lo \<le> hi \<Longrightarrow> hi \<le> 12 \<Longrightarrow>
   traversal_depth (sym TokenStar # Token TokenNumber (nat_str (nat lo)) # sym TokenRange #
                    Token TokenNumber (nat_str (nat hi)) # r) = Inr ((lo, hi), r)"
  by (simp add: traversal_depth_def parse_depth_number_def prints number_print)

lemma find_print:
  "valid_node_kind k \<Longrightarrow> find_statement (ident k # r) =
   Inr ((zero_statement StatementFind)
          \<lparr>st_kind := k, st_return := [''id'', ''title''], st_order := SortAscending, st_limit := 20\<rparr>, r)"
  by (simp add: find_statement_def prints)

lemma match_print:
  assumes "valid_node_kind k" "valid_relation_type rel" "valid_node_kind k'" "1 \<le> lo" "lo \<le> hi" "hi \<le> 12"
  obtains fs where "fs \<noteq> []" "\<forall>f\<in>set fs. field_ok f"
    "match_statement
       (ident k #
        relation_tokens
          [ident rel, sym TokenStar, Token TokenNumber (nat_str (nat lo)), sym TokenRange,
           Token TokenNumber (nat_str (nat hi))] @ ident k' # r) =
     Inr ((zero_statement StatementMatch)
            \<lparr>st_from_kind := k, st_relation := rel, st_to_kind := k', st_min_depth := lo,
             st_max_depth := hi, st_return := fs, st_order := SortAscending, st_limit := 20\<rparr>, r)"
proof
  let ?fs = "if hi > 1 then [''from.id'', ''from.title'', ''path.depth'', ''to.id'', ''to.title'']
             else [''from.id'', ''from.title'', ''edge.type'', ''to.id'', ''to.title'']"
  show "?fs \<noteq> []" "\<forall>f\<in>set ?fs. field_ok f"
    using default_returns by simp_all
  show "match_statement
       (ident k #
        relation_tokens
          [ident rel, sym TokenStar, Token TokenNumber (nat_str (nat lo)), sym TokenRange,
           Token TokenNumber (nat_str (nat hi))] @ ident k' # r) =
     Inr ((zero_statement StatementMatch)
            \<lparr>st_from_kind := k, st_relation := rel, st_to_kind := k', st_min_depth := lo,
             st_max_depth := hi, st_return := ?fs, st_order := SortAscending, st_limit := 20\<rparr>, r)"
    using assms by (simp add: match_statement_def relation_tokens_def prints)
qed

lemma head_print:
  "k \<in> set clause_words \<Longrightarrow> statement_head (ident k # r) =
     (if k = ''FIND'' then find_statement r
      else if k = ''MATCH'' then match_statement r
      else if k = ''INSERT'' then insert_statement r
      else if k = ''SET'' then set_statement r
      else if k = ''DELETE'' then delete_statement r
      else Inl ExpectedStatement)"
  "k \<in> set clause_words \<Longrightarrow> reject_unsupported (ident k # r) = Inr ()"
  using words_ok by (auto simp: statement_head_def prints reject_unsupported_def clause_words_def Let_def)

lemma mutation_print:
  assumes "wf_statement st" "mutating st"
  shows "parse_statement (statement_tokens st @ [eof_token]) = Inr st"
proof -
  have *: "parse_statement (ident k # r) = Inr st"
    if "k \<in> set clause_words" "statement_head (ident k # r) = Inr (st, [eof_token])" for k r
    using that assms(2) by (simp add: parse_statement_def head_print(2) prints)
  have "\<exists>k r. statement_tokens st @ [eof_token] = ident k # r \<and> k \<in> set clause_words \<and>
          statement_head (ident k # r) = Inr (st, [eof_token])"
    using assms
    by (cases st; cases "st_mode st")
       (auto simp: wf_statement_def mutating_def zero_statement_def mutation_ok_def statement_tokens_def
         head_print insert_statement_def set_statement_def delete_statement_def prints
         clause_words_def relation_tokens_def)
  then show ?thesis
    using * by metis
qed


lemma read_print:
  assumes wf: "wf_statement st" and m: "\<not> mutating st"
  shows "parse_statement (statement_tokens st @ [eof_token]) = Inr st"
proof -
  have *: "parse_statement (ident k # r) = Inr st"
    if "k \<in> set clause_words" "statement_head (ident k # r) = Inr (st0, clause_tokens st @ [eof_token])"
      "fresh_read st0" "\<not> mutating st0" "clauses_ok st"
      "st = st0\<lparr>st_where := st_where st, st_group_by := st_group_by st, st_return := st_return st,
                st_order_by := st_order_by st, st_order := st_order st, st_limit := st_limit st\<rparr>"
    for k r st0
  proof -
    have "trailing_clauses st0 (clause_tokens st @ [eof_token]) = Inr (st, [eof_token])"
      using trailing_print [OF that(5,3)] that(6) by simp
    moreover have "validate_grouped st = Inr ()"
      using that(5) by (simp add: clauses_ok_def)
    ultimately show ?thesis
      using that(1,2,4) by (simp add: parse_statement_def head_print(2) prints)
  qed
  consider "st_mode st = StatementFind" | "st_mode st = StatementMatch"
    using m by (cases "st_mode st") (auto simp: mutating_def)
  then show ?thesis
  proof cases
    case 1
    let ?st0 = "(zero_statement StatementFind)
      \<lparr>st_kind := st_kind st, st_return := [''id'', ''title''], st_order := SortAscending, st_limit := 20\<rparr>"
    have h: "statement_head (ident ''FIND'' # ident (st_kind st) # clause_tokens st @ [eof_token]) =
        Inr (?st0, clause_tokens st @ [eof_token])"
      using wf 1 by (simp add: head_print clause_words_def find_print wf_statement_def)
    show ?thesis
      using * [OF _ h] wf 1 default_returns
      by (simp add: statement_tokens_def clause_words_def fresh_read_def zero_statement_def
          mutating_def wf_statement_def)
  next
    case 2
    let ?k = "st_from_kind st" and ?k' = "st_to_kind st" and ?r = "clause_tokens st @ [eof_token]"
    obtain fs where fs: "fs \<noteq> []" "\<forall>f\<in>set fs. field_ok f" and
      ms: "match_statement (ident ?k # relation_tokens
          [ident (st_relation st), sym TokenStar, Token TokenNumber (nat_str (nat (st_min_depth st))),
           sym TokenRange, Token TokenNumber (nat_str (nat (st_max_depth st)))] @ ident ?k' # ?r) =
        Inr ((zero_statement StatementMatch)
            \<lparr>st_from_kind := ?k, st_relation := st_relation st, st_to_kind := ?k',
             st_min_depth := st_min_depth st, st_max_depth := st_max_depth st, st_return := fs,
             st_order := SortAscending, st_limit := 20\<rparr>, ?r)"
      using wf 2 match_print [of ?k "st_relation st" ?k' "st_min_depth st" "st_max_depth st" ?r]
      by (auto simp: wf_statement_def)
    have h: "statement_head (ident ''MATCH'' # ident ?k # relation_tokens
          [ident (st_relation st), sym TokenStar, Token TokenNumber (nat_str (nat (st_min_depth st))),
           sym TokenRange, Token TokenNumber (nat_str (nat (st_max_depth st)))] @ ident ?k' # ?r) =
        Inr ((zero_statement StatementMatch)
            \<lparr>st_from_kind := ?k, st_relation := st_relation st, st_to_kind := ?k',
             st_min_depth := st_min_depth st, st_max_depth := st_max_depth st, st_return := fs,
             st_order := SortAscending, st_limit := 20\<rparr>, ?r)"
      using ms by (simp add: head_print clause_words_def)
    show ?thesis
      using * [OF _ h] fs wf 2
      by (simp add: statement_tokens_def clause_words_def fresh_read_def zero_statement_def
          mutating_def wf_statement_def)
  qed
qed

lemma number_ok_nat_str: "token_ok (Token TokenNumber (nat_str n))"
proof -
  have "number_ok (nat_str n)"
    unfolding number_ok_def using nat_str_digits [of _ n]
    by - (rule exI [of _ "nat_str n"], rule exI [of _ "[]"], simp)
  then show ?thesis
    by (simp add: token_ok_def)
qed

lemma sym_ok:
  "ty \<in> {TokenComma, TokenEqual, TokenNotEqual, TokenLess, TokenLessEqual, TokenGreater,
          TokenGreaterEqual, TokenLeftBracket, TokenRightBracket, TokenDash, TokenArrow, TokenStar,
          TokenRange} \<Longrightarrow> token_ok (sym ty)"
  by (auto simp: token_ok_def sym_def symbol_values_def)

lemma ident_ok: "token_ok (ident v) = identifier_ok v"
  by (simp add: token_ok_def)

lemma word_ok: "k \<in> set clause_words \<Longrightarrow> identifier_ok k"
  using words_ok by blast

lemma sep_tokens_ok:
  "t \<in> set (sep_tokens s xs) \<Longrightarrow> token_ok s \<Longrightarrow> \<forall>x\<in>set xs. \<forall>t\<in>set x. token_ok t \<Longrightarrow> token_ok t"
  by (induction s xs rule: sep_tokens.induct) auto

lemma operator_ok: "token_ok (operator_token p)"
  by (cases p) (simp_all add: operator_token_def sym_ok)

lemma field_identifier: "field_ok f \<Longrightarrow> identifier_ok f"
  by (simp add: field_ok_def)

lemma kind_identifier: "valid_node_kind k \<Longrightarrow> identifier_ok k" "valid_relation_type r \<Longrightarrow> identifier_ok r"
  using kinds_lower by (auto simp: valid_node_kind_def valid_relation_type_def)

lemma return_tokens_ok:
  "\<forall>f\<in>set fs. field_ok f \<Longrightarrow> t \<in> set (return_tokens fs) \<Longrightarrow> token_ok t"
  by (auto simp: return_tokens_def ident_ok word_ok clause_words_def sym_ok field_identifier
      elim!: sep_tokens_ok)

lemma set_tokens_ok:
  "\<forall>a\<in>set as. assignment_ok a \<Longrightarrow> t \<in> set (set_tokens as) \<Longrightarrow> token_ok t"
  by (auto simp: set_tokens_def ident_ok word_ok clause_words_def sym_ok field_identifier
      assignment_tokens_def assignment_ok_def elim!: sep_tokens_ok split: if_splits)

lemma clause_tokens_ok: "clauses_ok st \<Longrightarrow> t \<in> set (clause_tokens st) \<Longrightarrow> token_ok t"
proof -
  assume ok: "clauses_ok st" and t: "t \<in> set (clause_tokens st)"
  have w: "token_ok u" if "u \<in> set (sep_tokens (ident ''AND'') (map condition_tokens (st_where st)))" for u
    using that ok
    by (auto simp: ident_ok word_ok clause_words_def condition_tokens_def operator_ok clauses_ok_def
        field_identifier token_ok_def [of "Token TokenString _"] elim!: sep_tokens_ok)
  show ?thesis
    using t ok w return_tokens_ok [of "st_return st" t]
    by (auto simp: clause_tokens_def clauses_ok_def ident_ok word_ok clause_words_def
        number_ok_nat_str field_identifier split: if_splits)
qed

lemma statement_tokens_ok: "wf_statement st \<Longrightarrow> \<forall>t\<in>set (statement_tokens st). token_ok t"
  using clause_tokens_ok [of st] return_tokens_ok [of "st_return st"] set_tokens_ok [of "st_set st"]
  by (cases "st_mode st")
     (auto simp: wf_statement_def statement_tokens_def relation_tokens_def ident_ok word_ok
       clause_words_def sym_ok kind_identifier number_ok_nat_str mutation_ok_def)

lemma parse_tokens: "wf_statement st \<Longrightarrow> parse_statement (statement_tokens st @ [eof_token]) = Inr st"
  using mutation_print read_print by blast

lemma parse_render_wf: "wf_statement st \<Longrightarrow> parse (render st) = Inr st"
  by (simp add: parse_def render_def lex_unlex statement_tokens_ok parse_tokens)

end
