(* ===== verification/Query_Results.thy ===== *)
theory Query_Results imports Query_Audit begin

text \<open>
  What the rows of a result are: aggregate rows count the candidates of their group, the default
  order of FIND is newest first, and a successful read of \<open>execute\<close> is its statement's result.
\<close>

section \<open>Aggregates\<close>

lemma group_rows_spec:
  assumes "r \<in> set (group_rows g (group_candidates tf g cs))"
  obtains key where "members tf g key cs \<noteq> []"
    and "r = [g \<mapsto> tf (hd (members tf g key cs)) g, ''count'' \<mapsto> VInt (int (length (members tf g key cs)))]"
proof -
  from assms obtain key where key: "key \<in> set (map fst (group_candidates tf g cs))"
    and r: "r = (case map_of (group_candidates tf g cs) key of
                   Some (v, n) \<Rightarrow> [g \<mapsto> v, ''count'' \<mapsto> VInt n] | None \<Rightarrow> Map.empty)"
    by (auto simp: group_rows_def)
  have "members tf g key cs \<noteq> []"
    using key unfolding group_keys(2) by (auto simp: members_def filter_empty_conv)
  then show ?thesis
    using that [of key] r by (simp add: group_lookup)
qed

text \<open>The value a grouped row shows for a requested column, and for how many candidates it stands.\<close>

lemma members_hd: "members tf g key cs \<noteq> [] \<Longrightarrow> comparable_string (tf (hd (members tf g key cs)) g) = key"
  using hd_in_set [of "members tf g key cs"] by (auto simp: members_def)

lemma group_candidate_rows_spec:
  assumes "r \<in> set (group_candidate_rows tf cs st)" "st_group_by st \<noteq> ''count''"
  shows "\<exists>key. members tf (st_group_by st) key cs \<noteq> [] \<and>
    (\<forall>f\<in>set (st_return st).
       r f = Some (if f = ''count'' then VInt (int (length (members tf (st_group_by st) key cs)))
                   else if f = st_group_by st
                   then tf (hd (members tf (st_group_by st) key cs)) (st_group_by st)
                   else VNil))"
proof -
  let ?g = "st_group_by st"
  let ?rows = "group_rows ?g (group_candidates tf ?g cs)"
  obtain q where q: "q \<in> set ?rows" and r: "r = projector_row row_get q (st_return st)"
    using assms(1) limit_rows_set [of "sort_rows ?rows (group_order_field st) (st_order st)" "st_limit st"]
    by (auto simp: group_candidate_rows_def Let_def project_rows_def)
  from q obtain key where "members tf ?g key cs \<noteq> []"
    "q = [?g \<mapsto> tf (hd (members tf ?g key cs)) ?g, ''count'' \<mapsto> VInt (int (length (members tf ?g key cs)))]"
    by (rule group_rows_spec)
  then show ?thesis
    using r assms(2) by (auto simp: projector_row_apply row_get_def)
qed

definition row_count :: "row \<Rightarrow> int" where
  "row_count r = (case r ''count'' of Some (VInt n) \<Rightarrow> n | _ \<Rightarrow> 0)"

lemma sum_members:
  "finite K \<Longrightarrow> (\<lambda>c. comparable_string (tf c g)) ` set cs \<subseteq> K \<Longrightarrow>
   (\<Sum>k\<in>K. int (length (members tf g k cs))) = int (length cs)"
proof (induction cs)
  case Nil
  then show ?case by (simp add: members_def)
next
  case (Cons c cs)
  let ?k = "comparable_string (tf c g)"
  have "int (length (members tf g k (c # cs))) = (if k = ?k then 1 else 0) + int (length (members tf g k cs))" for k
    by (simp add: members_def)
  then have "(\<Sum>k\<in>K. int (length (members tf g k (c # cs)))) =
      (\<Sum>k\<in>K. if k = ?k then 1 else 0) + (\<Sum>k\<in>K. int (length (members tf g k cs)))"
    by (simp add: sum.distrib)
  then show ?case
    using Cons by simp
qed

lemma group_rows_counts:
  assumes "g \<noteq> ''count''"
  shows "sum_list (map row_count (group_rows g (group_candidates tf g cs))) = int (length cs)"
proof -
  let ?gs = "group_candidates tf g cs"
  let ?n = "\<lambda>k. int (length (members tf g k cs))"
  have "row_count (case map_of ?gs k of Some (v, n) \<Rightarrow> [g \<mapsto> v, ''count'' \<mapsto> VInt n] | None \<Rightarrow> Map.empty) = ?n k"
    for k
    by (simp add: group_lookup row_count_def)
  then have "sum_list (map row_count (group_rows g ?gs)) = sum_list (map ?n (sort_strings (map fst ?gs)))"
    by (simp add: group_rows_def comp_def)
  also have "\<dots> = (\<Sum>k\<in>set (map fst ?gs). ?n k)"
  proof -
    have "distinct (sort_strings (map fst ?gs))"
      unfolding sort_strings_def distinct_sort_slice by (rule group_keys(1))
    from sum_list_distinct_conv_sum_set [OF this, of ?n] show ?thesis
      unfolding sort_strings_set .
  qed
  also have "\<dots> = int (length cs)"
    by (rule sum_members) (unfold group_keys(2), simp_all only: finite_set finite_imageI subset_refl)
  finally show ?thesis .
qed

section \<open>Orders\<close>

lemma find_default_order:
  "sorted_wrt (\<lambda>a b. nd_updated (qc_node a) \<ge> nd_updated (qc_node b)) (sort_candidates cs [] ord)"
proof -
  have "sorted_wrt (\<lambda>a b. \<not> nd_updated (qc_node b) > nd_updated (qc_node a))
      (sort_slice (\<lambda>a b. nd_updated (qc_node a) > nd_updated (qc_node b)) cs)"
    by (rule sorted_sort_slice) auto
  then show ?thesis
    by (simp add: sort_candidates_def not_less)
qed

lemma value_less_time:
  "value_less ord (VTime a) (VTime b) = (if ord = SortDescending then b < a else a < b)"
  by (simp add: value_less_def compare_row_values_def time_condition_value_def compare_times_def)

section \<open>Reads\<close>

lemma execute_read:
  assumes "execute ops req s = (Inr res, t)" "parse (trim_space (rq_query req)) = Inr st" "\<not> mutating st"
  shows "t = s \<and> rs_columns res = st_return st \<and> rs_limit res = st_limit st \<and>
    (if st_mode st = StatementMatch
     then execute_match ops s st (if rq_allowed req = [] then default_readable_sensitivities else rq_allowed req)
     else execute_find ops s st (if rq_allowed req = [] then default_readable_sensitivities else rq_allowed req)) =
    Inr (rs_rows res, rs_paths res)"
  using assms(1)
proof (cases rule: execute_cases)
  case (ran req' st' mx o')
  have st: "st' = st" and al: "rq_allowed req' = (if rq_allowed req = [] then default_readable_sensitivities else rq_allowed req)"
    using ran(2) assms(2) normalize_request_Inr [OF ran(1)] by auto
  from ran(5) obtain rows paths where o: "o' = Inr (rows, paths)"
    and res: "res = \<lparr>rs_columns = st_return st, rs_rows = rows, rs_paths = paths, rs_limit = st_limit st,
                     rs_query = rq_query req'\<rparr>"
    using st by auto
  have "st_mode st = StatementFind \<or> st_mode st = StatementMatch"
    using assms(3) by (cases "st_mode st") (auto simp: mutating_def)
  then show ?thesis
    using ran(4) o res st al
    by (auto simp: execute_statement_def stored_def run_map_err_def run_read_def)
qed simp

text \<open>The allowed sensitivities of a request that runs are never empty.\<close>

lemma allowed_nonempty: "(if as = [] then default_readable_sensitivities else as) \<noteq> []"
  by (simp add: default_readable_sensitivities_def)

end
