(* ===== verification/Sample_Store.thy ===== *)
theory Sample_Store imports Graph_Exact Query_Printer Query_Results "HOL-Library.Code_Target_Nat" begin

text \<open>
  A small database on which the properties are instantiated: two tasks and a restricted project,
  joined by dependencies, with one property; a clock that stands still and a random source that
  numbers its identifiers.
\<close>

definition sample_stamp :: gotime where
  "sample_stamp = 1700000000000000000"

definition sample_text :: string where
  "sample_text = ''2023-11-14T22:13:20Z''"

definition sample_env :: env where
  "sample_env = \<lparr>en_now = (\<lambda>_. sample_stamp), en_rand = (\<lambda>_. Some ''00ff''), en_fts = (\<lambda>_. [])\<rparr>"

definition sample_node :: "string \<Rightarrow> string \<Rightarrow> string \<Rightarrow> node_row" where
  "sample_node i k sens =
     \<lparr>nr_id = i, nr_kind = k, nr_stable_key = Some i, nr_title = i, nr_summary = [],
      nr_status = ''active'', nr_sensitivity = sens, nr_trust = ''user_asserted'',
      nr_confidence = Fin 1, nr_source = None, nr_actor = ''me'', nr_created = sample_text,
      nr_updated = sample_text\<rparr>"

definition sample_edge :: "string \<Rightarrow> string \<Rightarrow> string \<Rightarrow> edge_row" where
  "sample_edge i a b =
     \<lparr>er_id = i, er_from = a, er_type = ''depends_on'', er_to = b, er_status = ''active'',
      er_confidence = Fin 1, er_trust = ''user_asserted'', er_source = None, er_actor = ''me'',
      er_valid_from = None, er_valid_to = None, er_created = sample_text, er_updated = sample_text\<rparr>"

definition sample_db :: graph_db where
  "sample_db =
     \<lparr>db_nodes = [sample_node ''a'' ''task'' ''private'', sample_node ''b'' ''task'' ''private'',
                  sample_node ''c'' ''task'' ''private'', sample_node ''x'' ''project'' ''restricted''],
      db_edges = [sample_edge ''e1'' ''a'' ''b'', sample_edge ''e2'' ''b'' ''c'', sample_edge ''e3'' ''b'' ''x''],
      db_node_props = [], db_edge_props = [], db_audit = [], db_tick = 0\<rparr>"

definition sample_request :: "string \<Rightarrow> request" where
  "sample_request q = \<lparr>rq_actor = ''me'', rq_query = q, rq_source = ''a'', rq_allowed = []\<rparr>"

definition sample_node_request :: upsert_node_request where
  "sample_node_request =
     \<lparr>un_id = [], un_kind = ''task'', un_stable_key = ''b'', un_title = ''B'', un_summary = [],
      un_status = [], un_sensitivity = [], un_trust = [], un_confidence = Fin 0,
      un_source = ''a'', un_actor = ''bob''\<rparr>"

lemma sample_db_ok: "db_ok sample_db"
  by code_simp

lemma sample_time:
  "time_string sample_stamp = sample_text" "parse_time sample_text = Inr sample_stamp"
  by code_simp+

lemma sample_now [simp]: "en_now sample_env k = sample_stamp"
  by (simp add: sample_env_def)

lemma sample_id [simp]: "new_id sample_env p s = (Inr (p @ ''_18bcfe56800_00ff''), tick s)"
proof -
  have "hex_int (sample_stamp div 1000000) = ''18bcfe56800''" by code_simp
  then show ?thesis by (simp add: new_id_def) (simp add: sample_env_def)
qed

lemma sample_year: "year_of sample_stamp = 2023"
  by code_simp

lemma sample_clock_ok: "clock_ok sample_env"
  by (simp add: clock_ok_def sample_env_def sample_year)

lemma sample_few: "card (readable_nodes sample_db allowed kind) < 100"
proof -
  have "readable_nodes sample_db allowed kind \<subseteq> (\<lambda>r. projr (scan_node r)) ` set (db_nodes sample_db)"
    by (rule readable_nodes_rows)
  then have "card (readable_nodes sample_db allowed kind) \<le> length (db_nodes sample_db)"
    by (meson card_image_le card_length card_mono finite_imageI finite_set le_trans)
  also have "length (db_nodes sample_db) = 4" by code_simp
  finally show ?thesis by simp
qed

lemma not_isl_Inr: "\<not> isl x \<Longrightarrow> x = Inr (projr x)"
  by (cases x) auto

lemma run_finishes: "m s = (fst (m s), snd (m s))"
  by simp


text \<open>The steps of a run, and the fields of the sample state that runs do not change.\<close>

lemmas run_steps = run_bind_def run_lift_def run_read_def run_ret_def run_map_err_def clock_now_def

end
