(* ===== verification/Graph_Query.thy ===== *)
theory Graph_Query imports Sample_Store Graph_Exact begin

text \<open>
  The executor on the SQLite store: the lemmas of the executor's locales at their interpretation,
  for whole requests. \<open>runs\<close> names a request that succeeded with a statement.
\<close>

definition allowed_of :: "request \<Rightarrow> sensitivity list" where
  "allowed_of req = (if rq_allowed req = [] then default_readable_sensitivities else rq_allowed req)"

definition runs :: "env \<Rightarrow> request \<Rightarrow> statement \<Rightarrow> graph_db \<Rightarrow> query_result \<Rightarrow> graph_db \<Rightarrow> bool" where
  "runs en req st s res t \<longleftrightarrow>
     db_ok s \<and> parse (trim_space (rq_query req)) = Inr st \<and> execute (sql_ops en) req s = (Inr res, t)"

lemma runsI:
  "db_ok s \<Longrightarrow> parse (trim_space (rq_query req)) = Inr st \<Longrightarrow> \<not> isl (fst (execute (sql_ops en) req s)) \<Longrightarrow>
   runs en req st s (projr (fst (execute (sql_ops en) req s))) (snd (execute (sql_ops en) req s))"
  by (cases "execute (sql_ops en) req s") (auto simp: runs_def isl_def)

lemma wf_find: "wf_statement st \<Longrightarrow> st_mode st = StatementFind \<Longrightarrow> clauses_ok st \<and> valid_node_kind (st_kind st)"
  by (simp add: wf_statement_def)

lemma wf_match:
  "wf_statement st \<Longrightarrow> st_mode st = StatementMatch \<Longrightarrow>
   clauses_ok st \<and> 1 \<le> st_min_depth st \<and> st_min_depth st \<le> st_max_depth st \<and> st_max_depth st \<le> 12"
  by (simp add: wf_statement_def)

lemma runs_read:
  assumes "runs en req st s res t" "st_mode st = StatementFind \<or> st_mode st = StatementMatch"
  shows "t = s" "rs_columns res = st_return st" "wf_statement st"
    and "st_mode st = StatementFind \<Longrightarrow>
          execute_find (sql_ops en) s st (allowed_of req) = Inr (rs_rows res, rs_paths res)"
    and "st_mode st = StatementMatch \<Longrightarrow>
          execute_match (sql_ops en) s st (allowed_of req) = Inr (rs_rows res, rs_paths res)"
proof -
  have "\<not> mutating st"
    using assms(2) by (auto simp: mutating_def)
  note r = execute_read [OF _ _ this, of "sql_ops en" req s res t, folded allowed_of_def]
  show "t = s" "rs_columns res = st_return st" "wf_statement st"
    "st_mode st = StatementFind \<Longrightarrow>
          execute_find (sql_ops en) s st (allowed_of req) = Inr (rs_rows res, rs_paths res)"
    "st_mode st = StatementMatch \<Longrightarrow>
          execute_match (sql_ops en) s st (allowed_of req) = Inr (rs_rows res, rs_paths res)"
    using r assms by (auto simp: runs_def intro: parse_wf)
qed

lemma runs_mutation:
  assumes "runs en req st s res t" "mutating st"
  obtains mx out where "execute_statement (sql_ops en) st (allowed_of req) mx s = (Inr out, t)"
proof -
  have p: "parse (trim_space (rq_query req)) = Inr st"
    using assms(1) by (simp add: runs_def)
  have "execute (sql_ops en) req s = (Inr res, t)"
    using assms(1) by (simp add: runs_def)
  then show thesis
  proof (cases rule: execute_cases)
    case (ran req' st' mx o')
    have "st' = st" "rq_allowed req' = allowed_of req"
      using ran(2) p normalize_request_Inr [OF ran(1)] by (auto simp: allowed_of_def)
    then show thesis
      using ran(4,5) that by auto
  qed simp
qed

lemma allowed_of_nonempty: "allowed_of req \<noteq> []"
  unfolding allowed_of_def by (rule allowed_nonempty)

lemma sql_visible:
  "visible_node (sql_ops en) s allowed n \<longleftrightarrow>
   get_node s (nd_id n) = Inr n \<and> nd_status n = ''active'' \<and> nd_sensitivity n \<in> set allowed"
  by (simp add: visible_node_def can_read_node_def sql_ops_def)

lemma candidate_eta [simp]: "\<lparr>qc_node = qc_node c, qc_props = qc_props c\<rparr> = c"
  by (cases c) simp

text \<open>A node the caller may read, with the properties stored for it.\<close>

definition readable :: "graph_db \<Rightarrow> sensitivity list \<Rightarrow> query_candidate \<Rightarrow> bool" where
  "readable s allowed c \<longleftrightarrow>
     (let n = qc_node c
      in get_node s (nd_id n) = Inr n \<and> nd_status n = ''active'' \<and> nd_sensitivity n \<in> set allowed \<and>
         res_map values_of (list_node_properties s (nd_id n)) = Inr (qc_props c))"

lemma readable_iff:
  "readable s allowed c \<longleftrightarrow>
   visible_node (sql_ops en) s allowed (qc_node c) \<and> candidate_of (sql_ops en) s c"
  by (simp add: readable_def sql_visible candidate_of_def property_values_def Let_def)
     (simp add: sql_ops_def)

text \<open>FIND and MATCH miss nothing, while fewer than a hundred nodes of the kind are readable.\<close>

lemma find_candidates_distinct:
  "find_candidates ops s ks ns = Inr cs \<Longrightarrow> distinct ns \<Longrightarrow> distinct cs \<and> qc_node ` set cs \<subseteq> set ns"
proof (induction ns arbitrary: cs)
  case (Cons n ns)
  then obtain props cs' where "find_candidates ops s ks ns = Inr cs'"
    "cs = cs' \<or> cs = \<lparr>qc_node = n, qc_props = props\<rparr> # cs'"
    by (auto simp: Let_def res_simps split: if_splits)
  then show ?case
    using Cons.IH [of cs'] Cons.prems(2) by (fastforce simp: image_subset_iff)
qed simp

lemma find_exact:
  assumes "runs en req st s res t" "st_mode st = StatementFind" "st_group_by st = []"
    and "card (readable_nodes s (allowed_of req) (st_kind st)) < 100"
  shows "\<exists>cs. distinct cs \<and>
     set cs = {c. readable s (allowed_of req) c \<and> nd_kind (qc_node c) = st_kind st \<and>
                  projector_matches node_typed_field c (st_where st)} \<and>
     rs_rows res = query_rows (limit_rows (sort_candidates cs (st_order_by st) (st_order st)) (st_limit st)) (st_return st)"
proof -
  have s: "db_ok s" using assms(1) by (simp add: runs_def)
  have f: "execute_find (sql_ops en) s st (allowed_of req) = Inr (rs_rows res, rs_paths res)"
    using runs_read [OF assms(1)] assms(2) by simp
  obtain ns cs where ns: "search_nodes en s (search_kind (st_kind st) (allowed_of req)) = Inr ns"
    and cs: "find_candidates (sql_ops en) s (st_where st) ns = Inr cs"
    and rows: "rs_rows res = query_rows (limit_rows (sort_candidates cs (st_order_by st) (st_order st)) (st_limit st)) (st_return st)"
    using f assms(3) by (auto simp: execute_find_def) (auto simp: sql_ops_def)
  note all = search_small [OF s ns allowed_of_nonempty assms(4)]
  note cf = find_candidates_filter [OF cs]
  have "c \<in> set cs \<longleftrightarrow> readable s (allowed_of req) c \<and> nd_kind (qc_node c) = st_kind st \<and>
                  projector_matches node_typed_field c (st_where st)" for c
  proof
    assume "c \<in> set cs"
    then show "readable s (allowed_of req) c \<and> nd_kind (qc_node c) = st_kind st \<and>
                  projector_matches node_typed_field c (st_where st)"
      using cf all(1) by (auto simp: readable_iff [of _ _ _ en] sql_visible readable_nodes_def)
  next
    assume c: "readable s (allowed_of req) c \<and> nd_kind (qc_node c) = st_kind st \<and>
                  projector_matches node_typed_field c (st_where st)"
    then have "qc_node c \<in> set ns"
      using all(1) by (auto simp: readable_iff [of _ _ _ en] sql_visible readable_nodes_def)
    then obtain props where "property_values (sql_ops en) s (nd_id (qc_node c)) = Inr props"
      "projector_matches node_typed_field \<lparr>qc_node = qc_node c, qc_props = props\<rparr> (st_where st) \<longrightarrow>
       \<lparr>qc_node = qc_node c, qc_props = props\<rparr> \<in> set cs"
      using cf by blast
    then show "c \<in> set cs"
      using c by (auto simp: readable_iff [of _ _ _ en] candidate_of_def)
  qed
  then show ?thesis
    using rows find_candidates_distinct [OF cs all(2)] by blast
qed

lemma match_exact:
  assumes "runs en req st s res t" "st_mode st = StatementMatch" "1 < st_max_depth st"
    and "card (readable_nodes s (allowed_of req) (st_from_kind st)) < 100"
  shows "\<exists>cs. length cs \<le> 1000 \<and> match_output cs st = (rs_rows res, rs_paths res) \<and>
     (length cs < 1000 \<longrightarrow>
      set cs = {c. path_match (sql_ops en) s st (allowed_of req) c \<and>
                   nd_kind (qc_node (mc_from c)) = st_from_kind st})"
proof -
  have s: "db_ok s" using assms(1) by (simp add: runs_def)
  have f: "execute_match (sql_ops en) s st (allowed_of req) = Inr (rs_rows res, rs_paths res)"
    using runs_read [OF assms(1)] assms(2) by simp
  obtain ns cs where ns: "search_nodes en s (search_kind (st_from_kind st) (allowed_of req)) = Inr ns"
    and cs: "walk_roots (sql_ops en) s st (allowed_of req) ns [] = Inr cs"
    and out: "match_output cs st = (rs_rows res, rs_paths res)"
    using f assms(3)
    by (auto simp: execute_match_def execute_variable_match_def res_simps) (auto simp: sql_ops_def)
  note all = search_small [OF s ns allowed_of_nonempty assms(4)]
  have roots: "\<forall>n\<in>set ns. so_get_node (sql_ops en) s (nd_id n) = Inr n"
    using all(1) by (auto simp: readable_nodes_def sql_ops_def)
  have "length cs \<le> 1000"
    using sql.variable_match_bounded [OF s _ cs, of "search_kind (st_from_kind st) (allowed_of req)"] ns
    by (simp add: max_traversal_candidates_def) (simp add: sql_ops_def)
  moreover have "set cs = {c. path_match (sql_ops en) s st (allowed_of req) c \<and> qc_node (mc_from c) \<in> set ns}"
    if "length cs < 1000"
    using sql.walk_roots_exact [OF s cs _ roots] that by (simp add: max_traversal_candidates_def)
  moreover have "qc_node (mc_from c) \<in> set ns \<longleftrightarrow> nd_kind (qc_node (mc_from c)) = st_from_kind st"
    if "path_match (sql_ops en) s st (allowed_of req) c" for c
    using that all(1) by (auto simp: path_match_def sql_visible readable_nodes_def)
  ultimately show ?thesis
    using out by blast
qed

text \<open>A statement that fails on a property after its node was written.\<close>

lemma insert_fails_late:
  assumes "db_ok s" "st_mode st = StatementInsertNode"
    and "apply_node_assignments (st_set st) (insert_node_request st mx, []) = Inr (nreq, a # props)"
    and "as_field a = []" "upsert_node en nreq s = (Inr n, u)"
    and "append_audit en (audit_request ''query_insert_node'' mx (nd_id n) [] ''inserted graph node'' (st_set st)) u =
          (Inr ev, t)"
  shows "execute_statement (sql_ops en) st allowed mx s = (Inl PropertyFieldRequired, t)"
    and "get_node t (nd_id n) = Inr n" and "length (db_audit t) = Suc (length (db_audit s))"
proof -
  show "execute_statement (sql_ops en) st allowed mx s = (Inl PropertyFieldRequired, t)"
    using assms
    by (simp add: execute_statement_def execute_insert_node_def write_node_def run_bind_def run_lift_def
        stored_def run_map_err_def sql_ops_def audit_node_mutation_def run_ret_def run_err_def res_err_def)
  obtain nid where g: "get_node u nid = Inr n"
    using upsert_node_table [OF assms(1,5)] by metis
  then have id: "nd_id n = nid"
    using get_node_row scan_node_fields by metis
  have "run_within stays (upsert_node en nreq)"
    by (intro store_writes_stay)
  then have u: "db_ok u" "db_audit u = db_audit s"
    using assms(1,5) by (auto simp: run_within_def stays_def dest!: spec [of _ s])
  show "get_node t (nd_id n) = Inr n" "length (db_audit t) = Suc (length (db_audit s))"
    using append_audit_table [OF u(1) assms(6)] g id u(2) by (auto simp: get_node_def find_node_def)
qed

end
