(* ===== verification/Sample_Runs.thy ===== *)
theory Sample_Runs imports Graph_Query begin

text \<open>
  Mutations of the sample database, evaluated step by step: a node deleted, a node found again by
  its stable key, and an INSERT that fails after its node was written.
\<close>

definition sample_context :: mutation_context where
  "sample_context = \<lparr>mx_actor = ''me'', mx_source = ''a''\<rparr>"

lemma sample_execute:
  assumes "parse (trim_space q) = Inr st" "mutating st" "q \<noteq> []" "trim_space q = q"
  shows "execute (sql_ops en) (sample_request q) s =
    run_bind (execute_statement (sql_ops en) st default_readable_sensitivities sample_context) (\<lambda>(rows, paths).
      run_ret \<lparr>rs_columns = st_return st, rs_rows = rows, rs_paths = paths, rs_limit = st_limit st, rs_query = q\<rparr>) s"
proof -
  have t: "trim_space ''a'' = ''a''" "trim_space ''me'' = ''me''" by code_simp+
  have p: "normalize_access_policy \<lparr>ap_actor = ''me'', ap_allowed = []\<rparr> =
      Inr \<lparr>ap_actor = ''me'', ap_allowed = default_readable_sensitivities\<rparr>"
    by code_simp
  have "normalize_request (sample_request q) = Inr ((sample_request q)\<lparr>rq_allowed := default_readable_sensitivities\<rparr>)"
    using assms by (simp add: normalize_request_def sample_request_def t p)
  moreover have "mutation_context_from_request st ((sample_request q)\<lparr>rq_allowed := default_readable_sensitivities\<rparr>)
      (trim_space (rq_actor (sample_request q))) = Inr sample_context"
    using assms by (simp add: mutation_context_from_request_def sample_request_def t sample_context_def)
  ultimately show ?thesis
    using assms by (simp add: execute_def run_bind_def [of "run_lift _"] run_lift_def res_err_def sample_request_def)
qed

lemma append_audit_run:
  assumes "normalize_append_audit req = Inr req'" "aa_id req' = []"
    and "audits_ok (db_nodes s) (db_edges s) (db_audit s @
      [\<lparr>ar_id = ''audit_18bcfe56800_00ff'', ar_kind = aa_kind req', ar_actor = aa_actor req',
        ar_node = nullable_id (aa_node req'), ar_edge = nullable_id (aa_edge req'),
        ar_source = nullable_id (aa_source req'), ar_message = aa_message req',
        ar_details = aa_details req', ar_created = sample_text\<rparr>])"
  obtains ev v where "append_audit sample_env req s = (Inr ev, v)" "db_nodes v = db_nodes s"
    "db_node_props v = db_node_props s"
  using assms that
  by (simp add: append_audit_def run_steps put_audits_def tick_def sample_time)

subsection \<open>A node deleted\<close>

definition deleted_db :: graph_db where
  "deleted_db = sample_db
     \<lparr>db_nodes := map (\<lambda>r. if nr_id r = ''b'' then r\<lparr>nr_status := ''deleted''\<rparr> else r) (db_nodes sample_db),
      db_tick := 1\<rparr>"

lemma sample_delete_node: "set_node_status sample_env ''b'' ''deleted'' ''me'' sample_db = (get_node deleted_db ''b'', deleted_db)"
proof -
  have x: "valid_lifecycle_status ''deleted''" "norm_default ''me'' default_agent_actor = ''me''"
    "db_tick sample_db = 0"
    by code_simp+
  have y: "map (\<lambda>r. if nr_id r = ''b'' then r\<lparr>nr_status := ''deleted'', nr_actor := ''me'', nr_updated := sample_text\<rparr> else r)
      (db_nodes sample_db) = db_nodes deleted_db"
    by code_simp
  have z: "nodes_ok (db_nodes deleted_db)" "(find_node deleted_db ''b'' = None) = False"
    "sample_db\<lparr>db_tick := Suc 0, db_nodes := db_nodes deleted_db\<rparr> = deleted_db"
    by code_simp+
  show ?thesis
    by (simp add: set_node_status_def run_steps tick_def put_nodes_def x y z sample_time cong: if_cong)
qed

lemma sample_delete_runs: "\<exists>res t. runs sample_env (sample_request ''DELETE NODE b'') (projr (parse ''DELETE NODE b'')) sample_db res t"
proof -
  let ?q = "''DELETE NODE b''"
  let ?st = "projr (parse ?q)"
  let ?a = "audit_request ''query_delete_node'' sample_context ''b'' [] ''deleted graph node'' []"
  have q: "parse (trim_space ?q) = Inr ?st" "mutating ?st" "?q \<noteq> []" "trim_space ?q = ?q"
    "st_mode ?st = StatementDeleteNode" "st_node_id ?st = ''b''"
    by code_simp+
  have "\<not> isl (get_node deleted_db ''b'')" "nd_id (projr (get_node deleted_db ''b'')) = ''b''" by code_simp+
  then obtain n where n: "get_node deleted_db ''b'' = Inr n" "nd_id n = ''b''"
    by (auto dest: not_isl_Inr)
  have a: "normalize_append_audit ?a = Inr ?a" "aa_id ?a = []" by code_simp+
  have "audits_ok (db_nodes deleted_db) (db_edges deleted_db) (db_audit deleted_db @
      [\<lparr>ar_id = ''audit_18bcfe56800_00ff'', ar_kind = aa_kind ?a, ar_actor = aa_actor ?a,
        ar_node = nullable_id (aa_node ?a), ar_edge = nullable_id (aa_edge ?a),
        ar_source = nullable_id (aa_source ?a), ar_message = aa_message ?a,
        ar_details = aa_details ?a, ar_created = sample_text\<rparr>])"
    by code_simp
  then obtain ev v where ev: "append_audit sample_env ?a deleted_db = (Inr ev, v)" "db_nodes v = db_nodes deleted_db"
    "db_node_props v = db_node_props deleted_db"
    by (rule append_audit_run [OF a])
  have "list_properties (db_node_props deleted_db) ''b'' = Inr []" by code_simp
  then have r: "get_node v ''b'' = Inr n" "list_node_properties v ''b'' = Inr []"
    using n ev by (simp_all add: get_node_def find_node_def list_node_properties_def)
  have mx: "mx_actor sample_context = ''me''" by code_simp
  have "\<exists>out. execute_statement (sql_ops sample_env) ?st default_readable_sensitivities sample_context sample_db = (Inr out, v)"
    using r
    by (simp add: execute_statement_def q execute_delete_node_def stored_def run_bind_def run_map_err_def sql_ops_def
        mx sample_delete_node n audit_node_mutation_def ev run_ret_def node_mutation_result_def run_read_def
        property_values_def res_err_def)
  then show ?thesis
    using sample_execute [OF q(1-4), of sample_env sample_db] sample_db_ok q(1)
    by (auto simp: runs_def run_bind_def run_ret_def sample_request_def)
qed

subsection \<open>A node found by its stable key\<close>

definition sample_node_written :: upsert_node_request where
  "sample_node_written = sample_node_request
     \<lparr>un_status := ''active'', un_sensitivity := ''private'', un_trust := ''user_asserted'', un_confidence := Fin 1\<rparr>"

lemma sample_upsert_runs:
  "\<exists>n t. upsert_node sample_env sample_node_request sample_db = (Inr n, t)"
proof -
  have n: "normalize_upsert_node sample_node_request = Inr sample_node_written" by code_simp
  have k: "(un_id sample_node_written = []) = True" "(un_stable_key sample_node_written = []) = False"
    "node_id_by_stable_key (tick sample_db) (un_kind sample_node_written) (un_stable_key sample_node_written) = Some ''b''"
    by code_simp+
  let ?rows = "map (\<lambda>r. if nr_id r = ''b'' then
      \<lparr>nr_id = ''b'', nr_kind = ''task'', nr_stable_key = Some ''b'', nr_title = ''B'', nr_summary = [],
       nr_status = ''active'', nr_sensitivity = ''private'', nr_trust = ''user_asserted'',
       nr_confidence = Fin 1, nr_source = Some ''a'', nr_actor = ''bob'', nr_created = nr_created r,
       nr_updated = sample_text\<rparr> else r) (db_nodes sample_db)"
  have f: "un_kind sample_node_written = ''task''" "nullable_string (un_stable_key sample_node_written) = Some ''b''"
    "un_title sample_node_written = ''B''" "un_summary sample_node_written = []"
    "un_status sample_node_written = ''active''" "un_sensitivity sample_node_written = ''private''"
    "un_trust sample_node_written = ''user_asserted''" "un_confidence sample_node_written = Fin 1"
    "nullable_id (un_source sample_node_written) = Some ''a''" "un_actor sample_node_written = ''bob''"
    by code_simp+
  have ok: "nodes_ok ?rows" "(length (filter (\<lambda>r. nr_id r = ''b'') (db_nodes sample_db)) = 0) = False"
    by code_simp+
  let ?t = "(tick sample_db)\<lparr>db_nodes := ?rows\<rparr>"
  have "\<not> isl (get_node ?t ''b'')" by code_simp
  then obtain m where m: "get_node ?t ''b'' = Inr m" by (auto dest: not_isl_Inr)
  have "update_node ''b'' sample_node_written sample_stamp (tick sample_db) =
      (Inr (length (filter (\<lambda>r. nr_id r = ''b'') (db_nodes sample_db))), ?t)"
    using ok(1) by (simp add: update_node_def run_bind_def put_nodes_def run_ret_def node_row_of_def f sample_time
        tick_def cong: if_cong)
  then show ?thesis
    using m ok(2)
    by (simp add: upsert_node_def n run_bind_steps k run_bind_def [of "update_node _ _ _"])
       (simp add: run_bind_def run_ret_def run_read_def)
qed

subsection \<open>An INSERT that fails after its node was written\<close>

definition partial_query :: string where
  "partial_query = ''INSERT NODE task SET property. = 3''"

definition partial_statement :: statement where
  "partial_statement = projr (parse partial_query)"

definition partial_row :: node_row where
  "partial_row =
     \<lparr>nr_id = ''node_18bcfe56800_00ff'', nr_kind = ''task'', nr_stable_key = None, nr_title = [],
      nr_summary = [], nr_status = ''active'', nr_sensitivity = ''private'',
      nr_trust = ''user_asserted'', nr_confidence = Fin 1, nr_source = Some ''a'', nr_actor = ''me'',
      nr_created = sample_text, nr_updated = sample_text\<rparr>"

definition partial_db :: graph_db where
  "partial_db = (tick (tick sample_db))\<lparr>db_nodes := db_nodes sample_db @ [partial_row]\<rparr>"

definition partial_property :: assignment where
  "partial_property = \<lparr>as_field = [], as_value = \<lparr>li_value = ''3'', li_token = TokenNumber\<rparr>\<rparr>"

lemma partial_runs:
  "\<exists>n u ev t.
     st_mode partial_statement = StatementInsertNode \<and>
     apply_node_assignments (st_set partial_statement) (insert_node_request partial_statement sample_context, []) =
       Inr (insert_node_request partial_statement sample_context, [partial_property]) \<and>
     upsert_node sample_env (insert_node_request partial_statement sample_context) sample_db = (Inr n, u) \<and>
     append_audit sample_env
       (audit_request ''query_insert_node'' sample_context (nd_id n) [] ''inserted graph node'' (st_set partial_statement)) u =
       (Inr ev, t)"
proof -
  let ?req = "insert_node_request partial_statement sample_context"
  let ?w = "?req\<lparr>un_status := ''active'', un_sensitivity := ''private'', un_trust := ''user_asserted'', un_confidence := Fin 1\<rparr>"
  let ?id = "''node_18bcfe56800_00ff''"
  have n: "normalize_upsert_node ?req = Inr ?w" by code_simp
  have k: "un_id ?w = []" "un_stable_key ?w = []" by code_simp+
  have row: "node_row_of x ?w sample_stamp = partial_row\<lparr>nr_id := x\<rparr>" for x
  proof -
    have "un_kind ?w = ''task''" "nullable_string (un_stable_key ?w) = None" "un_title ?w = []"
      "un_summary ?w = []" "nullable_id (un_source ?w) = Some ''a''" "un_actor ?w = ''me''"
      by code_simp+
    then show ?thesis by (simp add: node_row_of_def partial_row_def sample_time)
  qed
  have ok: "nodes_ok (db_nodes sample_db @ [partial_row])" "partial_row\<lparr>nr_id := ?id\<rparr> = partial_row" by code_simp+
  have up: "upsert_node sample_env ?req sample_db = (get_node partial_db ?id, partial_db)"
    using ok
    by (simp add: upsert_node_def n run_bind_steps k run_bind_def [of "new_id _ _"] insert_node_def row)
       (simp add: run_bind_def insert_node_def row put_nodes_def run_read_def tick_def partial_db_def)
  have "\<not> isl (get_node partial_db ?id)" "nd_id (projr (get_node partial_db ?id)) = ?id" by code_simp+
  then obtain m where m: "get_node partial_db ?id = Inr m" "nd_id m = ?id"
    by (auto dest: not_isl_Inr)
  let ?a = "audit_request ''query_insert_node'' sample_context ?id [] ''inserted graph node'' (st_set partial_statement)"
  have a: "normalize_append_audit ?a = Inr ?a" "aa_id ?a = []" by code_simp+
  have "audits_ok (db_nodes partial_db) (db_edges partial_db) (db_audit partial_db @
      [\<lparr>ar_id = ''audit_18bcfe56800_00ff'', ar_kind = aa_kind ?a, ar_actor = aa_actor ?a,
        ar_node = nullable_id (aa_node ?a), ar_edge = nullable_id (aa_edge ?a),
        ar_source = nullable_id (aa_source ?a), ar_message = aa_message ?a,
        ar_details = aa_details ?a, ar_created = sample_text\<rparr>])"
    by code_simp
  then obtain ev v where "append_audit sample_env ?a partial_db = (Inr ev, v)"
    by (rule append_audit_run [OF a])
  moreover have "st_mode partial_statement = StatementInsertNode"
    "apply_node_assignments (st_set partial_statement) (?req, []) = Inr (?req, [partial_property])"
    by code_simp+
  ultimately show ?thesis using up m by auto
qed

end
