(* ===== verification/Runbook_Json.thy ===== *)
theory Runbook_Json imports Go_Float "HOL-Library.AList" begin

text \<open>
  JSON-shaped data as the runbook service passes it around (Go's \<open>any\<close> holding maps, slices and
  scalars) and \<open>runbook/jsondata\<close>: dotted paths and the schema subset. A map is an association
  list; Go leaves its order of iteration open, so no claim depends on it. \<open>JInt\<close> is a Go integer
  (from YAML or Go code), \<open>JFloat\<close> a \<open>float64\<close> (every number decoded from JSON).
\<close>

datatype json = JNull | JBool bool | JInt int | JFloat f64 | JStr string
  | JArr "json list" | JObj "(string \<times> json) list"

type_synonym json_map = "(string \<times> json) list"

abbreviation put :: "string \<Rightarrow> json \<Rightarrow> json_map \<Rightarrow> json_map" where
  "put \<equiv> AList.update"

lemma json_item_size [simp]: "v \<in> set vs \<Longrightarrow> size v < size (JArr vs)"
  by (induction vs) auto

lemma json_field_size [simp]: "(k, v) \<in> set kvs \<Longrightarrow> size v < size (JObj kvs)"
  by (induction kvs) auto

lemma map_of_field_size: "map_of kvs k = Some v \<Longrightarrow> size v < size (JObj kvs)"
  using json_field_size map_of_SomeD by fast

text \<open>Go's checked type assertions \<open>x, _ := m[k].(string)\<close> and \<open>x, ok := m[k].(map[string]any)\<close>.\<close>

definition field_str :: "json_map \<Rightarrow> string \<Rightarrow> string" where
  "field_str m k = (case map_of m k of Some (JStr s) \<Rightarrow> s | _ \<Rightarrow> [])"

definition field_map :: "json_map \<Rightarrow> string \<Rightarrow> json_map option" where
  "field_map m k = (case map_of m k of Some (JObj kvs) \<Rightarrow> Some kvs | _ \<Rightarrow> None)"

definition field_list :: "json_map \<Rightarrow> string \<Rightarrow> json list option" where
  "field_list m k = (case map_of m k of Some (JArr vs) \<Rightarrow> Some vs | _ \<Rightarrow> None)"

definition field_bool :: "json_map \<Rightarrow> string \<Rightarrow> bool option" where
  "field_bool m k = (case map_of m k of Some (JBool b) \<Rightarrow> Some b | _ \<Rightarrow> None)"

lemma field_map_Some [simp]: "field_map m k = Some kvs \<longleftrightarrow> map_of m k = Some (JObj kvs)"
  by (auto simp: field_map_def split: option.splits json.splits)

lemma field_list_Some [simp]: "field_list m k = Some vs \<longleftrightarrow> map_of m k = Some (JArr vs)"
  by (auto simp: field_list_def split: option.splits json.splits)

section \<open>Encoding and decoding\<close>

text \<open>
  What \<open>json.Marshal\<close> followed by \<open>json.Unmarshal\<close> makes of a value: every number becomes a float,
  and a number that is not finite cannot be encoded.
\<close>

fun json_copy :: "json \<Rightarrow> json option" and json_copies :: "json list \<Rightarrow> json list option"
  and json_fields_copy :: "json_map \<Rightarrow> json_map option" where
  "json_copy (JInt i) = map_option (\<lambda>q. JFloat (Fin q)) (round_f64 (of_int i))"
| "json_copy (JFloat (Fin q)) = Some (JFloat (Fin q))"
| "json_copy (JFloat f) = None"
| "json_copy (JArr vs) = map_option JArr (json_copies vs)"
| "json_copy (JObj kvs) = map_option JObj (json_fields_copy kvs)"
| "json_copy v = Some v"
| "json_copies [] = Some []"
| "json_copies (v # vs) =
     (case json_copy v of None \<Rightarrow> None | Some w \<Rightarrow> map_option (Cons w) (json_copies vs))"
| "json_fields_copy [] = Some []"
| "json_fields_copy ((k, v) # kvs) =
     (case json_copy v of None \<Rightarrow> None | Some w \<Rightarrow> map_option (Cons (k, w)) (json_fields_copy kvs))"

lemma json_copy_idem:
  "json_copy v = Some w \<Longrightarrow> json_copy w = Some w"
  "json_copies vs = Some ws \<Longrightarrow> json_copies ws = Some ws"
  "json_fields_copy m = Some c \<Longrightarrow> json_fields_copy c = Some c"
  by (induction v and vs and m arbitrary: w and ws and c rule: json_copy_json_copies_json_fields_copy.induct)
     (auto split: option.splits)

lemmas json_fields_copy_idem = json_copy_idem(3)

text \<open>\<open>cloneMap\<close> and \<open>cloneAny\<close>: the copy, or an empty map and the value itself when there is none.\<close>

definition clone_map :: "json_map \<Rightarrow> json_map" where
  "clone_map m = (case json_fields_copy m of Some c \<Rightarrow> c | None \<Rightarrow> [])"

definition clone_any :: "json \<Rightarrow> json" where
  "clone_any v = (case json_copy v of Some c \<Rightarrow> c | None \<Rightarrow> v)"

text \<open>\<open>reflect.DeepEqual\<close>: the dynamic types must agree, and NaN differs from itself.\<close>

fun deep_equal :: "json \<Rightarrow> json \<Rightarrow> bool" and deep_equals :: "json list \<Rightarrow> json list \<Rightarrow> bool"
  and deep_fields :: "json_map \<Rightarrow> json_map \<Rightarrow> bool" where
  "deep_equal (JArr vs) (JArr ws) = deep_equals vs ws"
| "deep_equal (JObj kvs) (JObj ms) = (length kvs = length ms \<and> deep_fields kvs ms)"
| "deep_equal (JFloat f) (JFloat g) = (f \<noteq> NaN \<and> f = g)"
| "deep_equal v w = (v = w)"
| "deep_equals (v # vs) (w # ws) = (deep_equal v w \<and> deep_equals vs ws)"
| "deep_equals vs ws = (vs = [] \<and> ws = [])"
| "deep_fields [] ms = True"
| "deep_fields ((k, v) # kvs) ms =
     ((case map_of ms k of Some w \<Rightarrow> deep_equal v w | None \<Rightarrow> False) \<and> deep_fields kvs ms)"

section \<open>Dotted paths\<close>

fun dotted_parts :: "json \<Rightarrow> string list \<Rightarrow> json option" where
  "dotted_parts v [] = Some v"
| "dotted_parts v (p # ps) =
     (if p = [] then None
      else case v of
             JObj kvs \<Rightarrow> (case map_of kvs p of Some w \<Rightarrow> dotted_parts w ps | None \<Rightarrow> None)
           | JArr vs \<Rightarrow>
               (case atoi p of
                  Some i \<Rightarrow> if i < 0 \<or> i \<ge> int (length vs) then None else dotted_parts (vs ! nat i) ps
                | None \<Rightarrow> None)
           | _ \<Rightarrow> None)"

definition dotted :: "json \<Rightarrow> string \<Rightarrow> json option" where
  "dotted v path = (if trim_space path = [] then Some v else dotted_parts v (split_on CHR ''.'' path))"

lemma dotted_parts_append:
  "dotted_parts v (ps @ qs) = Option.bind (dotted_parts v ps) (\<lambda>w. dotted_parts w qs)"
  by (induction ps arbitrary: v) (auto split: json.splits option.splits)

section \<open>Schemas\<close>

record schema_error =
  se_path :: string
  se_message :: string
  se_code :: string

definition schema_integer :: "json \<Rightarrow> bool" where
  "schema_integer v =
     (case v of
        JInt i \<Rightarrow> True
      | JFloat (Fin q) \<Rightarrow> of_int \<lfloor>q\<rfloor> = q
      | JFloat NaN \<Rightarrow> False
      | JFloat f \<Rightarrow> True
      | _ \<Rightarrow> False)"

definition matches_schema_type :: "json \<Rightarrow> string \<Rightarrow> bool" where
  "matches_schema_type v t =
     (let name = to_lower (trim_space t)
      in if name = ''object'' then (case v of JObj kvs \<Rightarrow> True | _ \<Rightarrow> False)
         else if name = ''array'' then (case v of JArr vs \<Rightarrow> True | _ \<Rightarrow> False)
         else if name = ''string'' then (case v of JStr s \<Rightarrow> True | _ \<Rightarrow> False)
         else if name = ''number'' then (case v of JInt i \<Rightarrow> True | JFloat f \<Rightarrow> True | _ \<Rightarrow> False)
         else if name = ''integer'' then schema_integer v
         else if name = ''boolean'' then (case v of JBool b \<Rightarrow> True | _ \<Rightarrow> False)
         else if name = ''null'' then v = JNull
         else True)"

definition contains_equal :: "json list \<Rightarrow> json \<Rightarrow> bool" where
  "contains_equal vs v = list_ex (\<lambda>w. deep_equal w v) vs"

definition schema_string_list :: "json option \<Rightarrow> string list" where
  "schema_string_list v =
     (case v of
        Some (JArr vs) \<Rightarrow>
          List.map_filter
            (\<lambda>w. case w of JStr s \<Rightarrow> (if trim_space s \<noteq> [] then Some (trim_space s) else None) | _ \<Rightarrow> None) vs
      | _ \<Rightarrow> [])"

definition schema_properties :: "json_map \<Rightarrow> json_map" where
  "schema_properties schema = (case field_map schema ''properties'' of Some ps \<Rightarrow> ps | None \<Rightarrow> [])"

definition schema_enum :: "json_map \<Rightarrow> json list" where
  "schema_enum schema = (case field_list schema ''enum'' of Some vs \<Rightarrow> vs | None \<Rightarrow> [])"

lemma schema_property_size:
  assumes "(n, JObj c) \<in> set (schema_properties schema)"
  shows "size (JObj c) < size (JObj schema)"
proof -
  obtain ps where ps: "map_of schema ''properties'' = Some (JObj ps)" "(n, JObj c) \<in> set ps"
    using assms by (cases "field_map schema ''properties''") (auto simp: schema_properties_def)
  show ?thesis
    using json_field_size [OF ps(2)] map_of_field_size [OF ps(1)] by (rule less_trans)
qed

definition type_error :: "json \<Rightarrow> json_map \<Rightarrow> string \<Rightarrow> schema_error list" where
  "type_error v schema path =
     (let t = field_str schema ''type''
      in if trim_space t \<noteq> [] \<and> \<not> matches_schema_type v t
         then [\<lparr>se_path = path, se_message = path @ '' must be '' @ t, se_code = ''schema_type_mismatch''\<rparr>]
         else [])"

definition enum_error :: "json \<Rightarrow> json_map \<Rightarrow> string \<Rightarrow> schema_error list" where
  "enum_error v schema path =
     (if schema_enum schema \<noteq> [] \<and> \<not> contains_equal (schema_enum schema) v
      then [\<lparr>se_path = path, se_message = path @ '' has unsupported value'', se_code = ''schema_enum_mismatch''\<rparr>]
      else [])"

definition required_errors :: "json_map \<Rightarrow> string list \<Rightarrow> string \<Rightarrow> schema_error list" where
  "required_errors object required path =
     map (\<lambda>n. \<lparr>se_path = path @ ''.'' @ n, se_message = path @ ''.'' @ n @ '' is required'',
               se_code = ''schema_required_missing''\<rparr>)
       (filter (\<lambda>n. map_of object n = None) required)"

function (sequential) validate_schema_at :: "json \<Rightarrow> json_map \<Rightarrow> string \<Rightarrow> schema_error list" where
  "validate_schema_at v schema path =
     (if type_error v schema path \<noteq> [] then type_error v schema path
      else enum_error v schema path @
        (let required = schema_string_list (map_of schema ''required'')
         in if schema_properties schema = [] \<and> required = [] then []
            else case v of
                   JObj object \<Rightarrow>
                     required_errors object required path @
                     concat (map (\<lambda>(n, s).
                               case s of
                                 JObj child_schema \<Rightarrow>
                                   (case map_of object n of
                                      Some child \<Rightarrow> validate_schema_at child child_schema (path @ ''.'' @ n)
                                    | None \<Rightarrow> [])
                               | _ \<Rightarrow> [])
                             (schema_properties schema))
                 | _ \<Rightarrow> [\<lparr>se_path = path, se_message = path @ '' must be object'',
                          se_code = ''schema_object_required''\<rparr>]))"
  by pat_completeness auto
termination
  by (relation "measure (\<lambda>(v, schema, path). size (JObj schema))") (auto dest: schema_property_size)

declare validate_schema_at.simps [simp del]

definition validate_schema :: "json \<Rightarrow> json_map \<Rightarrow> string \<Rightarrow> bool \<Rightarrow> schema_error list" where
  "validate_schema v schema base require_schema =
     (if schema = []
      then (if require_schema
            then [\<lparr>se_path = base, se_message = ''schema is required'', se_code = ''schema_required''\<rparr>]
            else [])
      else validate_schema_at v schema (if trim_space base = [] then ''$'' else base))"

text \<open>
  The values a schema describes: the declared type, one of the listed values, and an object with
  the required fields whose described fields conform in turn.
\<close>

inductive conforms :: "json \<Rightarrow> json_map \<Rightarrow> bool" where
  "\<lbrakk>trim_space (field_str schema ''type'') = [] \<or> matches_schema_type v (field_str schema ''type'');
    schema_enum schema = [] \<or> (\<exists>w\<in>set (schema_enum schema). deep_equal w v);
    (schema_properties schema = [] \<and> schema_string_list (map_of schema ''required'') = []) \<or>
    (\<exists>object. v = JObj object \<and>
       (\<forall>n\<in>set (schema_string_list (map_of schema ''required'')). map_of object n \<noteq> None) \<and>
       (\<forall>n c child. (n, JObj c) \<in> set (schema_properties schema) \<longrightarrow> map_of object n = Some child \<longrightarrow>
          conforms child c))\<rbrakk>
   \<Longrightarrow> conforms v schema"

inductive_simps conforms_iff: "conforms v schema"

lemma type_error_Nil:
  "type_error v schema path = [] \<longleftrightarrow>
   trim_space (field_str schema ''type'') = [] \<or> matches_schema_type v (field_str schema ''type'')"
  by (auto simp: type_error_def Let_def)

lemma enum_error_Nil:
  "enum_error v schema path = [] \<longleftrightarrow>
   schema_enum schema = [] \<or> (\<exists>w\<in>set (schema_enum schema). deep_equal w v)"
  by (auto simp: enum_error_def contains_equal_def list_ex_iff)

lemma required_errors_Nil:
  "required_errors object required path = [] \<longleftrightarrow> (\<forall>n\<in>set required. map_of object n \<noteq> None)"
  by (auto simp: required_errors_def filter_empty_conv)

text \<open>The errors of an object are its own and those of its described fields.\<close>

definition child_errors :: "json_map \<Rightarrow> json_map \<Rightarrow> string \<Rightarrow> schema_error set" where
  "child_errors object schema path =
     {e. \<exists>n c child. (n, JObj c) \<in> set (schema_properties schema) \<and> map_of object n = Some child \<and>
        e \<in> set (validate_schema_at child c (path @ ''.'' @ n))}"

lemma set_child_errors:
  "set (concat (map (\<lambda>(n, s).
     case s of
       JObj child_schema \<Rightarrow>
         (case map_of object n of
            Some child \<Rightarrow> validate_schema_at child child_schema (path @ ''.'' @ n)
          | None \<Rightarrow> [])
     | _ \<Rightarrow> []) (schema_properties schema))) = child_errors object schema path"
proof -
  have "e \<in> set (case s of
       JObj child_schema \<Rightarrow>
         (case map_of object n of
            Some child \<Rightarrow> validate_schema_at child child_schema (path @ ''.'' @ n)
          | None \<Rightarrow> [])
     | _ \<Rightarrow> []) \<longleftrightarrow>
    (\<exists>c child. s = JObj c \<and> map_of object n = Some child \<and>
       e \<in> set (validate_schema_at child c (path @ ''.'' @ n)))" for e n s
    by (cases s; cases "map_of object n") auto
  note part = this
  show ?thesis
    unfolding child_errors_def by (rule set_eqI) (auto simp: part, metis, force)
qed

lemma validate_schema_at_set:
  "set (validate_schema_at v schema path) =
     (if type_error v schema path \<noteq> [] then set (type_error v schema path)
      else set (enum_error v schema path) \<union>
        (if schema_properties schema = [] \<and> schema_string_list (map_of schema ''required'') = [] then {}
         else case v of
                JObj object \<Rightarrow>
                  set (required_errors object (schema_string_list (map_of schema ''required'')) path) \<union>
                  child_errors object schema path
              | _ \<Rightarrow> {\<lparr>se_path = path, se_message = path @ '' must be object'',
                       se_code = ''schema_object_required''\<rparr>}))"
  by (subst validate_schema_at.simps) (cases v; simp only: Let_def set_append set_child_errors json.case if_distrib [of set] list.set Un_empty_right; simp)

lemma validate_schema_at_rec [consumes 0, case_names schema]:
  assumes "\<And>v schema path.
    (\<And>object n c child. v = JObj object \<Longrightarrow> (n, JObj c) \<in> set (schema_properties schema) \<Longrightarrow>
       map_of object n = Some child \<Longrightarrow> P child c (path @ ''.'' @ n)) \<Longrightarrow> P v schema path"
  shows "P v schema path"
proof (induction "size (JObj schema)" arbitrary: v schema path rule: less_induct)
  case less
  show ?case
    by (rule assms) (rule less, erule schema_property_size)
qed

lemma validate_schema_at_conforms: "set (validate_schema_at v schema path) = {} \<longleftrightarrow> conforms v schema"
proof (induction v schema path rule: validate_schema_at_rec)
  case (schema v schema path)
  have kids: "child_errors object schema path = {} \<longleftrightarrow>
      (\<forall>n c child. (n, JObj c) \<in> set (schema_properties schema) \<longrightarrow> map_of object n = Some child \<longrightarrow>
         conforms child c)" if "v = JObj object" for object
  proof -
    have "child_errors object schema path = {} \<longleftrightarrow>
        (\<forall>n c child. (n, JObj c) \<in> set (schema_properties schema) \<longrightarrow> map_of object n = Some child \<longrightarrow>
           set (validate_schema_at child c (path @ ''.'' @ n)) = {})"
      unfolding child_errors_def by (auto simp only: set_eq_iff empty_iff mem_Collect_eq)
    then show ?thesis using schema [OF that] by simp
  qed
  show ?case
  proof (cases v)
    case (JObj object)
    then show ?thesis
      by (subst validate_schema_at_set, subst conforms_iff)
         (use kids in \<open>auto simp: enum_error_Nil required_errors_Nil type_error_Nil\<close>)
  qed (subst validate_schema_at_set, subst conforms_iff, simp add: enum_error_Nil type_error_Nil)+
qed

lemma validate_schema_conforms:
  "schema \<noteq> [] \<Longrightarrow> validate_schema v schema base req = [] \<longleftrightarrow> conforms v schema"
  using validate_schema_at_conforms by (simp add: validate_schema_def)

text \<open>Every error names a place below the root: its path extends it by property names, and the message repeats it.\<close>

lemma validate_schema_at_cases:
  "e \<in> set (validate_schema_at v schema path) \<Longrightarrow>
   e \<in> set (type_error v schema path) \<or> e \<in> set (enum_error v schema path) \<or>
   e = \<lparr>se_path = path, se_message = path @ '' must be object'', se_code = ''schema_object_required''\<rparr> \<or>
   (\<exists>object. v = JObj object \<and>
      (e \<in> set (required_errors object (schema_string_list (map_of schema ''required'')) path) \<or>
       e \<in> child_errors object schema path))"
proof -
  assume e: "e \<in> set (validate_schema_at v schema path)"
  show ?thesis
  proof (cases v)
    case (JObj object)
    then show ?thesis
      using e [unfolded validate_schema_at_set]
      by (simp only: json.case json.inject) (auto simp only: Un_iff empty_iff split: if_split_asm)
  qed (use e [unfolded validate_schema_at_set] in \<open>auto split: if_split_asm\<close>)
qed

lemma validate_schema_at_paths:
  "e \<in> set (validate_schema_at v schema path) \<Longrightarrow>
   has_prefix (se_path e) path \<and> has_prefix (se_message e) (se_path e)"
proof (induction v schema path rule: validate_schema_at_rec)
  case (schema v schema path)
  have kids: "has_prefix (se_path e) path \<and> has_prefix (se_message e) (se_path e)"
    if o: "v = JObj object" "e \<in> child_errors object schema path" for object
  proof -
    obtain n c child where k: "(n, JObj c) \<in> set (schema_properties schema)" "map_of object n = Some child"
      "e \<in> set (validate_schema_at child c (path @ ''.'' @ n))"
      using o(2) by (auto simp: child_errors_def)
    show ?thesis
      using schema(1) [OF o(1) k] by (auto simp: has_prefix_iff)
  qed
  show ?case
    using validate_schema_at_cases [OF schema(2)] kids
    by (elim disjE exE conjE)
       (auto simp: type_error_def enum_error_def required_errors_def Let_def has_prefix_iff split: if_split_asm)
qed

definition schema_messages :: "schema_error list \<Rightarrow> string list" where
  "schema_messages es = map se_message es"

end
