(* ===== verification/Go_Text.thy ===== *)
theory Go_Text imports Go_Float begin

text \<open>
  More of Go's standard library, as the runbook service uses it: searching in strings,
  \<open>strconv.Quote\<close>, the default format of floats in \<open>fmt\<close>, and \<open>time.ParseDuration\<close> with its
  error texts.
\<close>

section \<open>Searching\<close>

text \<open>\<open>strings.Index\<close>, as the text before the first occurrence and the text after it.\<close>

fun cut :: "string \<Rightarrow> string \<Rightarrow> (string \<times> string) option" where
  "cut [] p = (if p = [] then Some ([], []) else None)"
| "cut (c # s) p =
     (if has_prefix (c # s) p then Some ([], drop (length p) (c # s))
      else map_option (\<lambda>(a, b). (c # a, b)) (cut s p))"

lemma cut_Some: "cut s p = Some (a, b) \<Longrightarrow> s = a @ p @ b"
  by (induction s p arbitrary: a b rule: cut.induct) (auto simp: has_prefix_iff split: if_splits)

function count_str :: "string \<Rightarrow> string \<Rightarrow> nat" where
  "count_str s p = (case cut s p of None \<Rightarrow> 0 | Some (a, b) \<Rightarrow> if p = [] then 0 else Suc (count_str b p))"
  by pat_completeness auto
termination
  by (relation "measure (\<lambda>(s, p). length s)") (auto dest!: cut_Some)

declare count_str.simps [simp del]

definition trim_suffix :: "string \<Rightarrow> string \<Rightarrow> string" where
  "trim_suffix s p = (if has_suffix s p then take (length s - length p) s else s)"

text \<open>\<open>strings.Trim\<close> with one character, and \<open>strings.ReplaceAll\<close>.\<close>

definition trim_char :: "char \<Rightarrow> string \<Rightarrow> string" where
  "trim_char c s = rev (dropWhile ((=) c) (rev (dropWhile ((=) c) s)))"

function replace_all :: "string \<Rightarrow> string \<Rightarrow> string \<Rightarrow> string" where
  "replace_all s p r =
     (if p = [] then s
      else case cut s p of None \<Rightarrow> s | Some (a, b) \<Rightarrow> a @ r @ replace_all b p r)"
  by pat_completeness auto
termination
  by (relation "measure (\<lambda>(s, p, r). length s)") (auto dest!: cut_Some)

declare replace_all.simps [simp del]

section \<open>Quoting\<close>

definition quote_rune :: "char \<Rightarrow> string" where
  "quote_rune c =
     (let n = rune c; hex = [char_of (let d = n div 16 in if d < 10 then 48 + d else 87 + d),
                             char_of (let d = n mod 16 in if d < 10 then 48 + d else 87 + d)]
      in if n = 34 \<or> n = 92 then [CHR 0x5C, c]
         else if n = 7 then [CHR 0x5C, CHR ''a'']
         else if n = 8 then [CHR 0x5C, CHR ''b'']
         else if n = 12 then [CHR 0x5C, CHR ''f'']
         else if n = 10 then [CHR 0x5C, CHR ''n'']
         else if n = 13 then [CHR 0x5C, CHR ''r'']
         else if n = 9 then [CHR 0x5C, CHR ''t'']
         else if n = 11 then [CHR 0x5C, CHR ''v'']
         else if n < 32 \<or> n = 127 then CHR 0x5C # CHR ''x'' # hex
         else if (128 \<le> n \<and> n \<le> 160) \<or> n = 173 then CHR 0x5C # ''u00'' @ hex
         else [c])"

definition go_quote :: "string \<Rightarrow> string" where
  "go_quote s = CHR 0x22 # concat (map quote_rune s) @ [CHR 0x22]"

section \<open>The default format of floats\<close>

text \<open>
  The verb \<open>%v\<close>, which is \<open>%g\<close> with the fewest digits that read back: in scientific notation when the
  decimal exponent is below -4 or at least 6.
\<close>

definition scientific :: "nat \<Rightarrow> int \<Rightarrow> string" where
  "scientific m k =
     (let ds = nat_str m; a = nat_str (nat \<bar>k\<bar>)
      in take 1 ds @ (if length ds > 1 then CHR ''.'' # drop 1 ds else []) @
         (if k < 0 then ''e-'' else ''e+'') @ (if length a < 2 then CHR ''0'' # a else a))"

definition default_float :: "f64 \<Rightarrow> string" where
  "default_float f =
     (case f of
        Fin q \<Rightarrow>
          if q = 0 then ''0''
          else let a = \<bar>q\<bar>; k = exponent_of 10 a; p = shortest 16 a k 1;
                   m = nat (round_even (a / 10 powi (k + 1 - int p)));
                   s = (if k < - 4 \<or> k \<ge> 6 then scientific m k else fixed_notation m (k + 1 - int p))
               in if q < 0 then CHR ''-'' # s else s
      | _ \<Rightarrow> format_float f)"

section \<open>Durations\<close>

text \<open>A \<open>time.Duration\<close> in nanoseconds. The fraction of a unit is computed with floats, as the library does.\<close>

definition unit_ns :: "string \<Rightarrow> int option" where
  "unit_ns u =
     (if u = ''ns'' then Some 1
      else if u = ''us'' \<or> u = [CHR 0xB5, CHR ''s''] then Some 1000
      else if u = ''ms'' then Some 1000000
      else if u = ''s'' then Some 1000000000
      else if u = ''m'' then Some 60000000000
      else if u = ''h'' then Some 3600000000000
      else None)"

text \<open>\<open>leadingFraction\<close>: the digits as long as they fit, and the power of ten that scales them.\<close>

fun leading_fraction :: "nat \<Rightarrow> nat \<Rightarrow> string \<Rightarrow> nat \<times> nat" where
  "leading_fraction x scale [] = (x, scale)"
| "leading_fraction x scale (c # s) =
     (if x > 922337203685477580 \<or> x * 10 + digit_value c > 9223372036854775808 then (x, scale)
      else leading_fraction (x * 10 + digit_value c) (scale * 10) s)"

definition float_of :: "rat \<Rightarrow> rat" where
  "float_of q = (case round_f64 q of Some v \<Rightarrow> v | None \<Rightarrow> q)"

definition fraction_ns :: "string \<Rightarrow> int \<Rightarrow> int" where
  "fraction_ns ds u =
     (let (f, scale) = leading_fraction 0 1 ds
      in \<lfloor>float_of (float_of (of_nat f) * float_of (of_int u / of_nat scale))\<rfloor>)"

definition invalid_duration :: "string \<Rightarrow> string" where
  "invalid_duration s = ''time: invalid duration '' @ go_quote s"

definition duration_part :: "string \<Rightarrow> string \<Rightarrow> string + int \<times> string" where
  "duration_part whole s =
     (let ip = takeWhile is_digit s; r1 = dropWhile is_digit s;
          point = (r1 \<noteq> [] \<and> hd r1 = CHR ''.'');
          fp = (if point then takeWhile is_digit (tl r1) else []);
          r2 = (if point then dropWhile is_digit (tl r1) else r1);
          u = takeWhile (\<lambda>c. c \<noteq> CHR ''.'' \<and> \<not> is_digit c) r2;
          r3 = dropWhile (\<lambda>c. c \<noteq> CHR ''.'' \<and> \<not> is_digit c) r2
      in if ip = [] \<and> fp = [] then Inl (invalid_duration whole)
         else case digits_value 0 ip of
                None \<Rightarrow> Inl (invalid_duration whole)
              | Some v \<Rightarrow>
                  if v > 9223372036854775808 then Inl (invalid_duration whole)
                  else if u = [] then Inl (''time: missing unit in duration '' @ go_quote whole)
                  else case unit_ns u of
                         None \<Rightarrow> Inl (''time: unknown unit '' @ go_quote u @ '' in duration '' @ go_quote whole)
                       | Some un \<Rightarrow>
                           if int v > 9223372036854775808 div un then Inl (invalid_duration whole)
                           else let d = int v * un + (if fp = [] then 0 else fraction_ns fp un)
                                in if d > 9223372036854775808 then Inl (invalid_duration whole)
                                   else Inr (d, r3))"

lemma duration_part_length:
  assumes "duration_part whole s = Inr (d, t)"
  shows "length t < length s"
proof -
  define r1 where "r1 = dropWhile is_digit s"
  define r2 where "r2 = (if r1 \<noteq> [] \<and> hd r1 = CHR ''.'' then dropWhile is_digit (tl r1) else r1)"
  define p where "p = (\<lambda>c. c \<noteq> CHR ''.'' \<and> \<not> is_digit c)"
  have t: "t = dropWhile p r2" and u: "takeWhile p r2 \<noteq> []"
    using assms by (auto simp: duration_part_def Let_def r1_def r2_def p_def split: if_splits option.splits)
  have "length t < length r2"
    using u takeWhile_dropWhile_id [of p r2] by (metis t append.simps(1) length_append length_greater_0_conv less_add_same_cancel2)
  moreover have "length r2 \<le> length r1"
    using length_dropWhile_le [of is_digit "tl r1"] by (auto simp: r2_def)
  moreover have "length r1 \<le> length s"
    by (simp add: r1_def length_dropWhile_le)
  ultimately show ?thesis by simp
qed

function duration_parts :: "string \<Rightarrow> int \<Rightarrow> string \<Rightarrow> string + int" where
  "duration_parts whole d s =
     (if s = [] then Inr d
      else case duration_part whole s of
             Inl e \<Rightarrow> Inl e
           | Inr (v, t) \<Rightarrow>
               if d + v > 9223372036854775808 then Inl (invalid_duration whole)
               else duration_parts whole (d + v) t)"
  by pat_completeness auto
termination
  by (relation "measure (\<lambda>(whole, d, s). length s)") (auto dest: duration_part_length)

declare duration_parts.simps [simp del]

definition parse_duration :: "string \<Rightarrow> string + int" where
  "parse_duration s =
     (let neg = (s \<noteq> [] \<and> hd s = CHR ''-'');
          t = (if s \<noteq> [] \<and> (hd s = CHR ''-'' \<or> hd s = CHR ''+'') then tl s else s)
      in if t = ''0'' then Inr 0
         else if t = [] then Inl (invalid_duration s)
         else case duration_parts s 0 t of
                Inl e \<Rightarrow> Inl e
              | Inr d \<Rightarrow>
                  if neg then Inr (- d)
                  else if d > max_int then Inl (invalid_duration s)
                  else Inr d)"

end
