(* ===== verification/Runbook_Refs.thy ===== *)
theory Runbook_Refs imports Runbook_Json Go_Text begin

text \<open>
  The data actions of runbooks (\<open>runbook/actions\<close>): input_refs.go, which puts values of earlier steps
  into the arguments of an action, data_defaults.go and data_assert.go.

  The loop of \<open>resolveInputRefString\<close> replaces the first reference until none is left, and looks
  again at the text it has just put in, so it need not end: \<open>substitute\<close> is None when it does not.
\<close>

text \<open>How an action fails: it is waiting for someone (\<open>ErrPending\<close>), or with an error text.\<close>

datatype failure = Pending | Failed string

definition failure_text :: "failure \<Rightarrow> string" where
  "failure_text e = (case e of Pending \<Rightarrow> ''runbook action pending'' | Failed m \<Rightarrow> m)"

section \<open>Values as text\<close>

definition format_bool_text :: "bool \<Rightarrow> string" where
  "format_bool_text b = (if b then ''true'' else ''false'')"

text \<open>\<open>fmt.Sprint\<close> of a value; the entries of a map come sorted by key.\<close>

fun sprint :: "json \<Rightarrow> string" and sprints :: "json list \<Rightarrow> string list"
  and sprint_fields :: "json_map \<Rightarrow> (string \<times> string) list" where
  "sprint JNull = ''<nil>''"
| "sprint (JBool b) = format_bool_text b"
| "sprint (JInt i) = itoa i"
| "sprint (JFloat f) = default_float f"
| "sprint (JStr s) = s"
| "sprint (JArr vs) = ''['' @ join_str (sprints vs) '' '' @ '']''"
| "sprint (JObj kvs) =
     ''map['' @
     join_str (map (\<lambda>(k, t). k @ '':'' @ t)
        (sort_slice (\<lambda>a b. str_less (fst a) (fst b)) (sprint_fields kvs))) '' '' @ '']''"
| "sprints [] = []"
| "sprints (v # vs) = sprint v # sprints vs"
| "sprint_fields [] = []"
| "sprint_fields ((k, v) # kvs) = (k, sprint v) # sprint_fields kvs"

section \<open>References\<close>

definition resolve_reference_path :: "json_map \<Rightarrow> string \<Rightarrow> json option" where
  "resolve_reference_path input path = dotted (JObj input) (trim_space path)"

text \<open>The text before the first reference, its path, and the text after it.\<close>

definition first_ref :: "string \<Rightarrow> (string \<times> string \<times> string) option" where
  "first_ref s =
     (case cut s ''${'' of
        None \<Rightarrow> None
      | Some (a, r) \<Rightarrow> (case cut r ''}'' of None \<Rightarrow> None | Some (path, b) \<Rightarrow> Some (a, path, b)))"

partial_function (option) substitute :: "json_map \<Rightarrow> string \<Rightarrow> string option" where
  "substitute input s =
     (case first_ref s of
        None \<Rightarrow> Some s
      | Some (a, path, b) \<Rightarrow>
          (case resolve_reference_path input path of
             None \<Rightarrow> Some s
           | Some v \<Rightarrow> substitute input (a @ sprint v @ b)))"

definition resolve_input_ref_string :: "string \<Rightarrow> json_map \<Rightarrow> json option" where
  "resolve_input_ref_string s input =
     (let t = trim_space s
      in if has_prefix t ''${'' \<and> has_suffix t ''}'' \<and> count_str t ''${'' = 1
         then (case resolve_reference_path input (trim_suffix (trim_prefix t ''${'') ''}'') of
                 Some v \<Rightarrow> Some v
               | None \<Rightarrow> Some (JStr s))
         else map_option JStr (substitute input s))"

fun resolve_input_refs :: "json \<Rightarrow> json_map \<Rightarrow> json option"
  and resolve_items :: "json list \<Rightarrow> json_map \<Rightarrow> json list option"
  and resolve_fields :: "json_map \<Rightarrow> json_map \<Rightarrow> json_map option" where
  "resolve_input_refs (JStr s) input = resolve_input_ref_string s input"
| "resolve_input_refs (JObj kvs) input = map_option JObj (resolve_fields kvs input)"
| "resolve_input_refs (JArr vs) input = map_option JArr (resolve_items vs input)"
| "resolve_input_refs v input = Some v"
| "resolve_items [] input = Some []"
| "resolve_items (v # vs) input =
     Option.bind (resolve_input_refs v input) (\<lambda>w. map_option (Cons w) (resolve_items vs input))"
| "resolve_fields [] input = Some []"
| "resolve_fields ((k, v) # kvs) input =
     Option.bind (resolve_input_refs v input) (\<lambda>w. map_option (Cons (k, w)) (resolve_fields kvs input))"

text \<open>The paths still referred to in a text.\<close>

lemma first_ref_Some: "first_ref s = Some (a, path, b) \<Longrightarrow> s = a @ ''${'' @ path @ ''}'' @ b"
  by (auto simp: first_ref_def split: option.splits dest!: cut_Some)

function unresolved_input_ref_paths :: "string \<Rightarrow> string list" where
  "unresolved_input_ref_paths s =
     (case first_ref s of
        None \<Rightarrow> []
      | Some (a, path, b) \<Rightarrow>
          (if trim_space path \<noteq> [] then [trim_space path] else []) @ unresolved_input_ref_paths b)"
  by pat_completeness auto
termination
  by (relation "measure length") (auto dest!: first_ref_Some)

declare unresolved_input_ref_paths.simps [simp del]

text \<open>The arguments of an action, with their references resolved; None when resolving does not end.\<close>

definition resolved_string_arg :: "json_map \<Rightarrow> string \<Rightarrow> json_map \<Rightarrow> string option" where
  "resolved_string_arg args key input =
     (case map_of args key of
        None \<Rightarrow> Some []
      | Some v \<Rightarrow>
          map_option (\<lambda>w. case w of JStr s \<Rightarrow> trim_space s | _ \<Rightarrow> []) (resolve_input_refs v input))"

definition resolved_map_arg ::
    "json_map \<Rightarrow> string \<Rightarrow> json_map option \<Rightarrow> json_map \<Rightarrow> json_map option option" where
  "resolved_map_arg args key fallback input =
     (case map_of args key of
        None \<Rightarrow> Some fallback
      | Some v \<Rightarrow>
          map_option (\<lambda>w. case w of JObj kvs \<Rightarrow> Some kvs | _ \<Rightarrow> fallback) (resolve_input_refs v input))"

section \<open>Defaults\<close>

definition is_defaultable_value :: "json \<Rightarrow> bool" where
  "is_defaultable_value v = (case v of JNull \<Rightarrow> True | JStr s \<Rightarrow> trim_space s = [] | _ \<Rightarrow> False)"

text \<open>
  \<open>mergeDefaults\<close> first copies the map of defaults with the maps in it; values of the model are not
  shared, so the copy is the map itself.
\<close>

function merge_defaults :: "json_map \<Rightarrow> json_map \<Rightarrow> json_map" where
  "merge_defaults defaults [] = defaults"
| "merge_defaults defaults ((k, v) # input) =
     merge_defaults
       (case v of
          JObj nested \<Rightarrow>
            (case field_map defaults k of
               Some d \<Rightarrow> put k (JObj (merge_defaults d nested)) defaults
             | None \<Rightarrow> put k v defaults)
        | _ \<Rightarrow> if is_defaultable_value v then defaults else put k v defaults)
       input"
  by pat_completeness auto
termination
  by (relation "measure (\<lambda>(d, kvs). size (JObj kvs))") auto

definition or_empty :: "json_map option \<Rightarrow> json_map" where
  "or_empty m = (case m of Some kvs \<Rightarrow> kvs | None \<Rightarrow> [])"

definition data_defaults :: "json_map \<Rightarrow> json_map \<Rightarrow> json_map option" where
  "data_defaults ctx args =
     Option.bind (resolved_map_arg args ''input'' (Some ctx) ctx) (\<lambda>input.
     map_option (\<lambda>defaults. merge_defaults (or_empty defaults) (or_empty input))
       (resolved_map_arg args ''defaults'' None ctx))"

section \<open>Assertions\<close>

record assertion_check =
  ck_path :: string
  ck_mode :: string
  ck_value :: json
  ck_schema :: json_map

definition schema_arg :: "json_map \<Rightarrow> json_map" where
  "schema_arg values =
     (case field_map values ''schema'' of
        Some s \<Rightarrow> s
      | None \<Rightarrow> or_empty (field_map values ''value''))"

definition assertion_check_from_map :: "json_map \<Rightarrow> assertion_check" where
  "assertion_check_from_map values =
     \<lparr>ck_path = trim_space (field_str values ''path''), ck_mode = trim_space (field_str values ''mode''),
      ck_value = (case map_of values ''value'' of Some v \<Rightarrow> v | None \<Rightarrow> JNull),
      ck_schema = schema_arg values\<rparr>"

definition assertion_checks :: "json_map \<Rightarrow> assertion_check list" where
  "assertion_checks args =
     (case field_list args ''checks'' of
        Some items \<Rightarrow>
          List.map_filter
            (\<lambda>v. case v of JObj kvs \<Rightarrow> Some (assertion_check_from_map kvs) | _ \<Rightarrow> None) items
      | None \<Rightarrow> [assertion_check_from_map args])"

definition evaluate_assertion :: "json_map \<Rightarrow> assertion_check \<Rightarrow> bool \<times> string" where
  "evaluate_assertion input ck =
     (if ck_path ck = [] then (False, ''path is required'')
      else
        let found = dotted (JObj input) (ck_path ck);
            value = (case found of Some v \<Rightarrow> v | None \<Rightarrow> JNull);
            mode = trim_space (ck_mode ck)
        in if mode = ''equals''
           then (deep_equal value (ck_value ck),
                 ''got '' @ sprint value @ '', want '' @ sprint (ck_value ck))
           else if mode = ''not_equals''
           then (\<not> deep_equal value (ck_value ck), ''got disallowed value '' @ sprint value)
           else if mode = ''exists'' then (found \<noteq> None, ''path does not exist'')
           else if mode = ''schema''
           then (if found = None then (False, ''path does not exist'')
                 else let es = validate_schema value (ck_schema ck) ''$'' True
                      in (es = [], join_str (schema_messages es) ''; ''))
           else (False, ''mode must be equals, not_equals, exists, or schema''))"

text \<open>The checks in turn up to the first that fails, with the results so far.\<close>

fun run_checks ::
    "json_map \<Rightarrow> assertion_check list \<Rightarrow> json list \<Rightarrow> json_map option \<times> failure option" where
  "run_checks input [] results =
     (Some [(''passed'', JBool True), (''checks'', JArr results)], None)"
| "run_checks input (ck # cks) results =
     (let (passed, message) = evaluate_assertion input ck;
          results = results @
            [JObj [(''path'', JStr (ck_path ck)), (''mode'', JStr (ck_mode ck)), (''passed'', JBool passed)]]
      in if passed then run_checks input cks results
         else (Some [(''passed'', JBool False), (''checks'', JArr results)],
               Some (Failed (''data.assert '' @ ck_path ck @ '' '' @ ck_mode ck @ '' failed: '' @ message))))"

definition data_assert :: "json_map \<Rightarrow> json_map \<Rightarrow> json_map option \<times> failure option" where
  "data_assert ctx args =
     (if assertion_checks args = [] then (None, Some (Failed ''data.assert requires at least one check''))
      else run_checks ctx (assertion_checks args) [])"

section \<open>What resolving does\<close>

text \<open>
  When no value that can be referred to has a dollar sign in its text, every substitution removes
  one, and resolving ends.
\<close>

definition plain_values :: "json_map \<Rightarrow> bool" where
  "plain_values input \<longleftrightarrow>
     (\<forall>path v. resolve_reference_path input path = Some v \<longrightarrow> CHR ''$'' \<notin> set (sprint v))"

lemma substitute_ends:
  assumes "plain_values input"
  shows "\<exists>t. substitute input s = Some t"
proof (induction "count_list s (CHR ''$'')" arbitrary: s rule: less_induct)
  case less
  show ?case
  proof (cases "first_ref s")
    case None
    then show ?thesis by (simp add: substitute.simps)
  next
    case (Some p)
    obtain a path b where p: "p = (a, path, b)" by (cases p)
    show ?thesis
    proof (cases "resolve_reference_path input path")
      case None
      then show ?thesis using Some p by (simp add: substitute.simps)
    next
      case v: (Some v)
      have "count_list (sprint v) (CHR ''$'') = 0"
        using assms v by (auto simp: plain_values_def count_list_0_iff)
      then have "count_list (a @ sprint v @ b) (CHR ''$'') < count_list s (CHR ''$'')"
        using first_ref_Some [OF Some [unfolded p]] by simp
      then show ?thesis
        using less Some p v by (simp add: substitute.simps [of input s])
    qed
  qed
qed

lemma resolve_string_ends: "plain_values input \<Longrightarrow> \<exists>w. resolve_input_ref_string s input = Some w"
  using substitute_ends [of input s]
  by (auto simp: resolve_input_ref_string_def Let_def split: option.splits)

lemma resolve_ends:
  "plain_values input \<Longrightarrow> \<exists>w. resolve_input_refs v input = Some w"
  "plain_values input \<Longrightarrow> \<exists>ws. resolve_items vs input = Some ws"
  "plain_values input \<Longrightarrow> \<exists>ms. resolve_fields kvs input = Some ms"
  by (induction v input and vs input and kvs input rule: resolve_input_refs_resolve_items_resolve_fields.induct)
     (auto simp: resolve_string_ends)

text \<open>
  A value whose text refers to itself is put in again and again: a text in which it is embedded is
  never resolved.
\<close>

lemma substitute_diverges:
  assumes ref: "\<And>s. P s \<Longrightarrow> \<exists>a path b v. first_ref s = Some (a, path, b) \<and>
      resolve_reference_path input path = Some v \<and> P (a @ sprint v @ b)"
    and "P s"
  shows "substitute input s = None"
proof (rule ccontr)
  assume "substitute input s \<noteq> None"
  then obtain r where r: "substitute input s = Some r" by blast
  have "input = input \<longrightarrow> \<not> P s"
  proof (rule substitute.raw_induct [where P = "\<lambda>i s r. i = input \<longrightarrow> \<not> P s", OF _ r])
    fix f i s r
    assume IH: "\<And>i s r. f i s = Some r \<Longrightarrow> i = input \<longrightarrow> \<not> P s"
      and eq: "(case first_ref s of None \<Rightarrow> Some s
         | Some (a, path, b) \<Rightarrow>
             (case resolve_reference_path i path of None \<Rightarrow> Some s | Some v \<Rightarrow> f i (a @ sprint v @ b))) = Some r"
    show "i = input \<longrightarrow> \<not> P s"
      using ref [of s] IH eq by force
  qed
  then show False using assms(2) by simp
qed

section \<open>What defaults do\<close>

lemma merge_defaults_lookup:
  "distinct (map fst input) \<Longrightarrow>
   map_of (merge_defaults defaults input) k =
     (case map_of input k of
        None \<Rightarrow> map_of defaults k
      | Some v \<Rightarrow>
          (case v of
             JObj nested \<Rightarrow>
               (case field_map defaults k of
                  Some d \<Rightarrow> Some (JObj (merge_defaults d nested))
                | None \<Rightarrow> Some v)
           | _ \<Rightarrow> if is_defaultable_value v then map_of defaults k else Some v))"
proof (induction input arbitrary: defaults)
  case (Cons e input)
  obtain k' v where e: "e = (k', v)" by (cases e)
  have "map_of input k' = None"
    using Cons.prems by (simp add: e map_of_eq_None_iff)
  then show ?case
    using Cons by (auto simp: e update_conv' field_map_def split: json.splits option.splits)
qed simp

end
