(* ===== verification/Runbook_Envelope.thy ===== *)
theory Runbook_Envelope imports Runbook_Refs Go_State begin

text \<open>
  The envelope in which actions get their input and leave their output (\<open>runbook/envelope/types.go\<close>),
  with its form as a map, in which it is stored, and the decoding of that form. Operations that
  stamp a time take it as the argument \<open>now\<close>, in the format of the code. Struct fields are decoded by
  their exact names: that \<open>encoding/json\<close> also accepts them in other letter case is left out.
\<close>

record provenance_item =
  pv_source_node :: string
  pv_field :: string
  pv_digest :: string
  pv_created :: string

record artifact_ref =
  af_id :: string
  af_media_type :: string
  af_name :: string
  af_size :: int
  af_uri :: string
  af_digest :: string

record diagnostic =
  dg_severity :: string
  dg_code :: string
  dg_path :: string
  dg_message :: string

record env_metadata =
  em_schema_ref :: string
  em_run_id :: string
  em_node_id :: string
  em_correlation :: string
  em_causation :: string
  em_tenant :: string
  em_user :: string
  em_attempt :: int
  em_created :: string
  em_security :: json_map
  em_provenance :: "provenance_item list"

record env_body =
  eb_kind :: string
  eb_value :: json

record env_control =
  ec_status :: string
  ec_trigger :: string

record envelope =
  ev_meta :: env_metadata
  ev_body :: env_body
  ev_facets :: json_map
  ev_artifacts :: "artifact_ref list"
  ev_variables :: json_map
  ev_diagnostics :: "diagnostic list"
  ev_control :: env_control

definition envelope_schema_ref :: string where
  "envelope_schema_ref = ''aa.runbook.envelope.v1''"

definition body_kind :: "json \<Rightarrow> string" where
  "body_kind v =
     (case v of
        JNull \<Rightarrow> ''empty''
      | JStr s \<Rightarrow> ''text''
      | JArr vs \<Rightarrow> ''array''
      | JObj m \<Rightarrow> if trim_space (field_str m ''kind'') = ''table'' then ''table'' else ''object''
      | _ \<Rightarrow> ''object'')"

definition new_envelope :: "string \<Rightarrow> string \<Rightarrow> string \<Rightarrow> int \<Rightarrow> json \<Rightarrow> envelope" where
  "new_envelope now run_id node_id attempt value =
     \<lparr>ev_meta =
        \<lparr>em_schema_ref = envelope_schema_ref, em_run_id = trim_space run_id, em_node_id = trim_space node_id,
         em_correlation = trim_space run_id, em_causation = [], em_tenant = [], em_user = [],
         em_attempt = attempt, em_created = now, em_security = [], em_provenance = []\<rparr>,
      ev_body = \<lparr>eb_kind = body_kind value, eb_value = value\<rparr>,
      ev_facets = [], ev_artifacts = [], ev_variables = [], ev_diagnostics = [],
      ev_control = \<lparr>ec_status = ''succeeded'', ec_trigger = []\<rparr>\<rparr>"

definition empty_envelope :: "string \<Rightarrow> string \<Rightarrow> string \<Rightarrow> int \<Rightarrow> envelope" where
  "empty_envelope now run_id node_id attempt = new_envelope now run_id node_id attempt JNull"

definition normalize_envelope :: "string \<Rightarrow> envelope \<Rightarrow> envelope" where
  "normalize_envelope now e =
     (let m = ev_meta e; b = ev_body e; c = ev_control e
      in e\<lparr>ev_meta :=
             m\<lparr>em_schema_ref := (if trim_space (em_schema_ref m) = [] then envelope_schema_ref else em_schema_ref m),
               em_created := (if trim_space (em_created m) = [] then now else em_created m)\<rparr>,
           ev_body := b\<lparr>eb_kind := (if trim_space (eb_kind b) = [] then body_kind (eb_value b) else eb_kind b)\<rparr>,
           ev_control := c\<lparr>ec_status := (if trim_space (ec_status c) = [] then ''succeeded'' else ec_status c)\<rparr>\<rparr>)"

section \<open>As a map\<close>

text \<open>Struct fields with \<open>omitempty\<close>.\<close>

definition omit_str :: "string \<Rightarrow> string \<Rightarrow> json_map" where
  "omit_str k s = (if s = [] then [] else [(k, JStr s)])"

definition omit_int :: "string \<Rightarrow> int \<Rightarrow> json_map" where
  "omit_int k i = (if i = 0 then [] else [(k, JInt i)])"

definition omit_map :: "string \<Rightarrow> json_map \<Rightarrow> json_map" where
  "omit_map k m = (if m = [] then [] else [(k, JObj m)])"

definition omit_list :: "string \<Rightarrow> ('a \<Rightarrow> json) \<Rightarrow> 'a list \<Rightarrow> json_map" where
  "omit_list k f xs = (if xs = [] then [] else [(k, JArr (map f xs))])"

definition omit_any :: "string \<Rightarrow> json \<Rightarrow> json_map" where
  "omit_any k v = (if v = JNull then [] else [(k, v)])"

definition provenance_json :: "provenance_item \<Rightarrow> json" where
  "provenance_json p =
     JObj (omit_str ''source_node_id'' (pv_source_node p) @ omit_str ''field'' (pv_field p) @
           omit_str ''digest'' (pv_digest p) @ omit_str ''created_at'' (pv_created p))"

definition artifact_json :: "artifact_ref \<Rightarrow> json" where
  "artifact_json a =
     JObj (omit_str ''id'' (af_id a) @ omit_str ''media_type'' (af_media_type a) @ omit_str ''name'' (af_name a) @
           omit_int ''size'' (af_size a) @ omit_str ''uri'' (af_uri a) @ omit_str ''digest'' (af_digest a))"

definition diagnostic_json :: "diagnostic \<Rightarrow> json" where
  "diagnostic_json d =
     JObj (omit_str ''severity'' (dg_severity d) @ omit_str ''code'' (dg_code d) @ omit_str ''path'' (dg_path d) @
           [(''message'', JStr (dg_message d))])"

definition metadata_json :: "env_metadata \<Rightarrow> json" where
  "metadata_json m =
     JObj ([(''schema_ref'', JStr (em_schema_ref m))] @ omit_str ''runbook_run_id'' (em_run_id m) @
           omit_str ''node_run_id'' (em_node_id m) @ omit_str ''correlation_id'' (em_correlation m) @
           omit_str ''causation_id'' (em_causation m) @ omit_str ''tenant_id'' (em_tenant m) @
           omit_str ''user_id'' (em_user m) @ omit_int ''attempt'' (em_attempt m) @
           [(''created_at'', JStr (em_created m))] @ omit_map ''security_context'' (em_security m) @
           omit_list ''provenance'' provenance_json (em_provenance m))"

definition body_json :: "env_body \<Rightarrow> json" where
  "body_json b = JObj ([(''kind'', JStr (eb_kind b))] @ omit_any ''value'' (eb_value b))"

definition control_json :: "env_control \<Rightarrow> json" where
  "control_json c = JObj (omit_str ''status'' (ec_status c) @ omit_str ''suggested_trigger'' (ec_trigger c))"

definition envelope_json :: "envelope \<Rightarrow> json_map" where
  "envelope_json e =
     [(''meta'', metadata_json (ev_meta e)), (''body'', body_json (ev_body e))] @
     omit_map ''facets'' (ev_facets e) @ omit_list ''artifacts'' artifact_json (ev_artifacts e) @
     omit_map ''variables'' (ev_variables e) @ omit_list ''diagnostics'' diagnostic_json (ev_diagnostics e) @
     [(''control'', control_json (ev_control e))]"

definition to_map :: "string \<Rightarrow> envelope \<Rightarrow> json_map" where
  "to_map now e = clone_map (envelope_json (normalize_envelope now e))"

section \<open>From a map\<close>

text \<open>Decoding into struct fields: an absent field or null leaves the zero value, another type fails.\<close>

definition dec_str :: "json_map \<Rightarrow> string \<Rightarrow> string option" where
  "dec_str m k =
     (case map_of m k of None \<Rightarrow> Some [] | Some JNull \<Rightarrow> Some [] | Some (JStr s) \<Rightarrow> Some s | _ \<Rightarrow> None)"

definition dec_int :: "json_map \<Rightarrow> string \<Rightarrow> int option" where
  "dec_int m k =
     (case map_of m k of
        None \<Rightarrow> Some 0
      | Some JNull \<Rightarrow> Some 0
      | Some (JFloat (Fin q)) \<Rightarrow>
          if of_int \<lfloor>q\<rfloor> = q \<and> - max_int - 1 \<le> \<lfloor>q\<rfloor> \<and> \<lfloor>q\<rfloor> \<le> max_int then Some \<lfloor>q\<rfloor> else None
      | _ \<Rightarrow> None)"

definition dec_map :: "json_map \<Rightarrow> string \<Rightarrow> json_map option" where
  "dec_map m k =
     (case map_of m k of None \<Rightarrow> Some [] | Some JNull \<Rightarrow> Some [] | Some (JObj v) \<Rightarrow> Some v | _ \<Rightarrow> None)"

fun dec_items :: "(json_map \<Rightarrow> 'a option) \<Rightarrow> json list \<Rightarrow> 'a list option" where
  "dec_items f [] = Some []"
| "dec_items f (v # vs) =
     Option.bind (case v of JNull \<Rightarrow> f [] | JObj m \<Rightarrow> f m | _ \<Rightarrow> None)
       (\<lambda>x. map_option (Cons x) (dec_items f vs))"

definition dec_list :: "(json_map \<Rightarrow> 'a option) \<Rightarrow> json_map \<Rightarrow> string \<Rightarrow> 'a list option" where
  "dec_list f m k =
     (case map_of m k of None \<Rightarrow> Some [] | Some JNull \<Rightarrow> Some [] | Some (JArr vs) \<Rightarrow> dec_items f vs | _ \<Rightarrow> None)"

definition dec_any :: "json_map \<Rightarrow> string \<Rightarrow> json" where
  "dec_any m k = (case map_of m k of None \<Rightarrow> JNull | Some v \<Rightarrow> v)"

definition dec_provenance :: "json_map \<Rightarrow> provenance_item option" where
  "dec_provenance m =
     Option.bind (dec_str m ''source_node_id'') (\<lambda>a.
     Option.bind (dec_str m ''field'') (\<lambda>b.
     Option.bind (dec_str m ''digest'') (\<lambda>c.
     Option.bind (dec_str m ''created_at'') (\<lambda>d.
     Some \<lparr>pv_source_node = a, pv_field = b, pv_digest = c, pv_created = d\<rparr>))))"

definition dec_artifact :: "json_map \<Rightarrow> artifact_ref option" where
  "dec_artifact m =
     Option.bind (dec_str m ''id'') (\<lambda>a.
     Option.bind (dec_str m ''media_type'') (\<lambda>b.
     Option.bind (dec_str m ''name'') (\<lambda>c.
     Option.bind (dec_int m ''size'') (\<lambda>d.
     Option.bind (dec_str m ''uri'') (\<lambda>e.
     Option.bind (dec_str m ''digest'') (\<lambda>f.
     Some \<lparr>af_id = a, af_media_type = b, af_name = c, af_size = d, af_uri = e, af_digest = f\<rparr>))))))"

definition dec_diagnostic :: "json_map \<Rightarrow> diagnostic option" where
  "dec_diagnostic m =
     Option.bind (dec_str m ''severity'') (\<lambda>a.
     Option.bind (dec_str m ''code'') (\<lambda>b.
     Option.bind (dec_str m ''path'') (\<lambda>c.
     Option.bind (dec_str m ''message'') (\<lambda>d.
     Some \<lparr>dg_severity = a, dg_code = b, dg_path = c, dg_message = d\<rparr>))))"

definition dec_metadata :: "json_map \<Rightarrow> env_metadata option" where
  "dec_metadata m =
     Option.bind (dec_str m ''schema_ref'') (\<lambda>a.
     Option.bind (dec_str m ''runbook_run_id'') (\<lambda>b.
     Option.bind (dec_str m ''node_run_id'') (\<lambda>c.
     Option.bind (dec_str m ''correlation_id'') (\<lambda>d.
     Option.bind (dec_str m ''causation_id'') (\<lambda>e.
     Option.bind (dec_str m ''tenant_id'') (\<lambda>f.
     Option.bind (dec_str m ''user_id'') (\<lambda>g.
     Option.bind (dec_int m ''attempt'') (\<lambda>h.
     Option.bind (dec_str m ''created_at'') (\<lambda>i.
     Option.bind (dec_map m ''security_context'') (\<lambda>j.
     Option.bind (dec_list dec_provenance m ''provenance'') (\<lambda>k.
     Some \<lparr>em_schema_ref = a, em_run_id = b, em_node_id = c, em_correlation = d, em_causation = e,
           em_tenant = f, em_user = g, em_attempt = h, em_created = i, em_security = j,
           em_provenance = k\<rparr>)))))))))))"

definition dec_body :: "json_map \<Rightarrow> env_body option" where
  "dec_body m =
     map_option (\<lambda>k. \<lparr>eb_kind = k, eb_value = dec_any m ''value''\<rparr>) (dec_str m ''kind'')"

definition dec_control :: "json_map \<Rightarrow> env_control option" where
  "dec_control m =
     Option.bind (dec_str m ''status'') (\<lambda>a.
     Option.bind (dec_str m ''suggested_trigger'') (\<lambda>b.
     Some \<lparr>ec_status = a, ec_trigger = b\<rparr>))"

definition dec_envelope :: "json_map \<Rightarrow> envelope option" where
  "dec_envelope m =
     Option.bind (Option.bind (dec_map m ''meta'') dec_metadata) (\<lambda>a.
     Option.bind (Option.bind (dec_map m ''body'') dec_body) (\<lambda>b.
     Option.bind (dec_map m ''facets'') (\<lambda>c.
     Option.bind (dec_list dec_artifact m ''artifacts'') (\<lambda>d.
     Option.bind (dec_map m ''variables'') (\<lambda>e.
     Option.bind (dec_list dec_diagnostic m ''diagnostics'') (\<lambda>f.
     Option.bind (Option.bind (dec_map m ''control'') dec_control) (\<lambda>g.
     Some \<lparr>ev_meta = a, ev_body = b, ev_facets = c, ev_artifacts = d, ev_variables = e,
           ev_diagnostics = f, ev_control = g\<rparr>)))))))"

text \<open>\<open>FromMap\<close>; the argument None is Go's nil map.\<close>

definition wrap_value :: "string \<Rightarrow> json \<Rightarrow> envelope" where
  "wrap_value now v = new_envelope now [] [] 0 (clone_any v)"

definition from_map :: "string \<Rightarrow> json_map option \<Rightarrow> envelope" where
  "from_map now value =
     (case value of
        None \<Rightarrow> empty_envelope now [] [] 0
      | Some m \<Rightarrow>
          (case (if map_of m ''meta'' \<noteq> None then Option.bind (json_fields_copy m) dec_envelope else None) of
             Some e \<Rightarrow>
               if trim_space (em_schema_ref (ev_meta e)) \<noteq> [] then normalize_envelope now e
               else wrap_value now (JObj m)
           | None \<Rightarrow> wrap_value now (JObj m)))"

definition map_any :: "json_map option \<Rightarrow> json" where
  "map_any m = (case m of Some kvs \<Rightarrow> JObj kvs | None \<Rightarrow> JNull)"

definition normalize_result ::
    "string \<Rightarrow> string \<Rightarrow> string \<Rightarrow> int \<Rightarrow> json_map option \<Rightarrow> string \<Rightarrow> envelope" where
  "normalize_result now run_id node_id attempt result status =
     (let e = from_map now result;
          e = (if em_schema_ref (ev_meta e) \<noteq> envelope_schema_ref
               then new_envelope now run_id node_id attempt (clone_any (map_any result)) else e);
          e = e\<lparr>ev_meta := (ev_meta e)\<lparr>em_run_id := trim_space run_id, em_node_id := trim_space node_id,
                                   em_attempt := attempt\<rparr>\<rparr>;
          e = (if trim_space status \<noteq> []
               then e\<lparr>ev_control := (ev_control e)\<lparr>ec_status := trim_space status\<rparr>\<rparr> else e)
      in normalize_envelope now e)"

section \<open>Changing envelopes\<close>

definition add_diagnostic :: "string \<Rightarrow> string \<Rightarrow> string \<Rightarrow> string \<Rightarrow> envelope \<Rightarrow> envelope" where
  "add_diagnostic severity code path message e =
     (if trim_space message = [] then e
      else e\<lparr>ev_diagnostics := ev_diagnostics e @
               [\<lparr>dg_severity = trim_space severity, dg_code = trim_space code, dg_path = trim_space path,
                 dg_message = trim_space message\<rparr>]\<rparr>)"

definition set_facet :: "string \<Rightarrow> string \<Rightarrow> json \<Rightarrow> envelope \<Rightarrow> envelope" where
  "set_facet now name v e =
     (if trim_space name = [] then e
      else let e = normalize_envelope now e
           in e\<lparr>ev_facets := put (trim_space name) (clone_any v) (ev_facets e)\<rparr>)"

section \<open>Size\<close>

text \<open>The text of \<open>json.Marshal\<close> and its length in bytes; map entries are sorted by key.\<close>

definition json_float :: "f64 \<Rightarrow> string" where
  "json_float f =
     (case f of
        Fin q \<Rightarrow>
          if q = 0 then ''0''
          else let a = \<bar>q\<bar>; k = exponent_of 10 a; p = shortest 16 a k 1;
                   m = nat (round_even (a / 10 powi (k + 1 - int p)));
                   ds = nat_str m;
                   s = (if a < 1 / 1000000 \<or> a \<ge> 10 ^ 21
                        then take 1 ds @ (if length ds > 1 then CHR ''.'' # drop 1 ds else []) @
                             (if k < 0 then ''e-'' else ''e+'') @ nat_str (nat \<bar>k\<bar>)
                        else fixed_notation m (k + 1 - int p))
               in if q < 0 then CHR ''-'' # s else s
      | _ \<Rightarrow> [])"

fun json_text :: "json \<Rightarrow> string" and json_texts :: "json list \<Rightarrow> string list"
  and json_entries :: "json_map \<Rightarrow> (string \<times> string) list" where
  "json_text JNull = ''null''"
| "json_text (JBool b) = format_bool_text b"
| "json_text (JInt i) = itoa i"
| "json_text (JFloat f) = json_float f"
| "json_text (JStr s) = json_string s"
| "json_text (JArr vs) = ''['' @ join_str (json_texts vs) '','' @ '']''"
| "json_text (JObj kvs) =
     CHR 0x7B # join_str (map (\<lambda>(k, t). json_string k @ '':'' @ t)
        (sort_slice (\<lambda>a b. str_less (fst a) (fst b)) (json_entries kvs))) '','' @ [CHR 0x7D]"
| "json_texts [] = []"
| "json_texts (v # vs) = json_text v # json_texts vs"
| "json_entries [] = []"
| "json_entries ((k, v) # kvs) = (k, json_text v) # json_entries kvs"

definition utf8_length :: "string \<Rightarrow> int" where
  "utf8_length s = int (length s + length (filter (\<lambda>c. rune c \<ge> 128) s))"

section \<open>Storing and loading\<close>

lemma json_fields_copy_lookup:
  "json_fields_copy m = Some c \<Longrightarrow> map_of c k = Option.bind (map_of m k) json_copy"
  by (induction m arbitrary: c) (auto split: option.splits)

lemma json_fields_copy_total:
  "(\<And>k v. (k, v) \<in> set m \<Longrightarrow> json_copy v \<noteq> None) \<Longrightarrow> \<exists>c. json_fields_copy m = Some c"
  by (induction m) (fastforce split: option.splits)+

lemma json_copies_total:
  "(\<And>v. v \<in> set vs \<Longrightarrow> json_copy v \<noteq> None) \<Longrightarrow> \<exists>ws. json_copies vs = Some ws"
  by (induction vs) (fastforce split: option.splits)+

text \<open>A value that a copy leaves as it is: all its numbers are finite floats.\<close>

definition stable_map :: "json_map \<Rightarrow> bool" where
  "stable_map m \<longleftrightarrow> json_fields_copy m = Some m"

definition stable_int :: "int \<Rightarrow> bool" where
  "stable_int i \<longleftrightarrow>
     round_f64 (of_int i) = Some (of_int i) \<and> - max_int - 1 \<le> i \<and> i \<le> max_int"

named_theorems omits "lookups in the fields of a struct"

lemma map_of_omits [omits]:
  "map_of (omit_str k s) x = (if s \<noteq> [] \<and> x = k then Some (JStr s) else None)"
  "map_of (omit_int k i) x = (if i \<noteq> 0 \<and> x = k then Some (JInt i) else None)"
  "map_of (omit_map k m) x = (if m \<noteq> [] \<and> x = k then Some (JObj m) else None)"
  "map_of (omit_list k f xs) x = (if xs \<noteq> [] \<and> x = k then Some (JArr (map f xs)) else None)"
  "map_of (omit_any k v) x = (if v \<noteq> JNull \<and> x = k then Some v else None)"
  "(g ++ h) x = (case h x of None \<Rightarrow> g x | Some v \<Rightarrow> Some v)"
  by (auto simp: omit_str_def omit_int_def omit_map_def omit_list_def omit_any_def map_add_def split: option.splits)

lemma set_omits [omits]:
  "(x, v) \<in> set (omit_str k s) \<longleftrightarrow> s \<noteq> [] \<and> x = k \<and> v = JStr s"
  "(x, v) \<in> set (omit_int k i) \<longleftrightarrow> i \<noteq> 0 \<and> x = k \<and> v = JInt i"
  "(x, v) \<in> set (omit_map k m) \<longleftrightarrow> m \<noteq> [] \<and> x = k \<and> v = JObj m"
  "(x, v) \<in> set (omit_list k f xs) \<longleftrightarrow> xs \<noteq> [] \<and> x = k \<and> v = JArr (map f xs)"
  "(x, v) \<in> set (omit_any k w) \<longleftrightarrow> w \<noteq> JNull \<and> x = k \<and> v = w"
  by (auto simp: omit_str_def omit_int_def omit_map_def omit_list_def omit_any_def)

text \<open>A decoder inverts an encoder when the copy of each encoded value decodes to it.\<close>

definition inverts :: "(json_map \<Rightarrow> 'a option) \<Rightarrow> ('a \<Rightarrow> json) \<Rightarrow> 'a \<Rightarrow> bool" where
  "inverts dec enc x \<longleftrightarrow> (\<exists>m. json_copy (enc x) = Some (JObj m) \<and> dec m = Some x)"

lemma dec_items_inverts:
  "(\<And>x. x \<in> set xs \<Longrightarrow> inverts dec enc x) \<Longrightarrow>
   \<exists>ws. json_copies (map enc xs) = Some ws \<and> dec_items dec ws = Some xs"
proof (induction xs)
  case (Cons x xs)
  then obtain ws where ws: "json_copies (map enc xs) = Some ws" "dec_items dec ws = Some xs" by auto
  obtain m where "json_copy (enc x) = Some (JObj m)" "dec m = Some x"
    using Cons.prems [of x] by (auto simp: inverts_def)
  with ws show ?case by simp
qed simp

lemma invertsI:
  assumes "enc x = JObj m" "\<And>k v. (k, v) \<in> set m \<Longrightarrow> json_copy v \<noteq> None"
    and "\<And>c. (\<And>k. map_of c k = Option.bind (map_of m k) json_copy) \<Longrightarrow> dec c = Some x"
  shows "inverts dec enc x"
proof -
  obtain c where c: "json_fields_copy m = Some c"
    using json_fields_copy_total assms(2) by blast
  then have "dec c = Some x"
    by (intro assms(3)) (rule json_fields_copy_lookup)
  then show ?thesis
    using c assms(1) by (simp add: inverts_def)
qed

lemma stable_int_copy:
  "stable_int i \<Longrightarrow> json_copy (JInt i) = Some (JFloat (Fin (of_int i)))"
  by (simp add: stable_int_def)

lemma provenance_inverts: "inverts dec_provenance provenance_json p"
  by (rule invertsI, rule provenance_json_def) (auto simp: omits dec_provenance_def dec_str_def)

lemma artifact_inverts: "stable_int (af_size a) \<Longrightarrow> inverts dec_artifact artifact_json a"
  by (rule invertsI, rule artifact_json_def)
     (auto simp: omits dec_artifact_def dec_str_def dec_int_def stable_int_def)

lemma diagnostic_inverts: "inverts dec_diagnostic diagnostic_json d"
  by (rule invertsI, rule diagnostic_json_def) (auto simp: omits dec_diagnostic_def dec_str_def)

lemma control_inverts: "inverts dec_control control_json c"
  by (rule invertsI, rule control_json_def) (auto simp: omits dec_control_def dec_str_def)

lemma body_inverts: "json_copy (eb_value b) = Some (eb_value b) \<Longrightarrow> inverts dec_body body_json b"
  by (rule invertsI, rule body_json_def) (auto simp: omits dec_body_def dec_str_def dec_any_def)

lemma metadata_inverts:
  assumes "stable_int (em_attempt m)" "stable_map (em_security m)"
  shows "inverts dec_metadata metadata_json m"
proof -
  obtain ws where ws: "json_copies (map provenance_json (em_provenance m)) = Some ws"
    "dec_items dec_provenance ws = Some (em_provenance m)"
    using dec_items_inverts [of "em_provenance m" dec_provenance provenance_json] provenance_inverts by blast
  show ?thesis
    by (rule invertsI, rule metadata_json_def)
       (use assms ws in \<open>auto simp: omits dec_metadata_def dec_str_def dec_int_def dec_map_def dec_list_def
          stable_int_def stable_map_def\<close>)
qed

text \<open>
  An envelope whose numbers are exact as floats and whose fields with defaults are filled: every
  envelope that has been stored and read is one.
\<close>

definition envelope_ok :: "envelope \<Rightarrow> bool" where
  "envelope_ok e \<longleftrightarrow>
     trim_space (em_schema_ref (ev_meta e)) \<noteq> [] \<and> trim_space (em_created (ev_meta e)) \<noteq> [] \<and>
     trim_space (eb_kind (ev_body e)) \<noteq> [] \<and> trim_space (ec_status (ev_control e)) \<noteq> [] \<and>
     stable_int (em_attempt (ev_meta e)) \<and> (\<forall>a\<in>set (ev_artifacts e). stable_int (af_size a)) \<and>
     stable_map (em_security (ev_meta e)) \<and> stable_map (ev_facets e) \<and> stable_map (ev_variables e) \<and>
     json_copy (eb_value (ev_body e)) = Some (eb_value (ev_body e))"

lemma normalize_envelope_ok: "envelope_ok e \<Longrightarrow> normalize_envelope now e = e"
  by (simp add: envelope_ok_def normalize_envelope_def Let_def)

lemma to_map_from_map:
  assumes "envelope_ok e"
  shows "from_map now (Some (to_map now' e)) = e"
proof -
  note ok = assms [unfolded envelope_ok_def]
  obtain am where am: "json_copies (map artifact_json (ev_artifacts e)) = Some am"
    "dec_items dec_artifact am = Some (ev_artifacts e)"
    using dec_items_inverts [of "ev_artifacts e" dec_artifact artifact_json] artifact_inverts ok by blast
  obtain dm where dm: "json_copies (map diagnostic_json (ev_diagnostics e)) = Some dm"
    "dec_items dec_diagnostic dm = Some (ev_diagnostics e)"
    using dec_items_inverts [of "ev_diagnostics e" dec_diagnostic diagnostic_json] diagnostic_inverts by blast
  obtain mm where mm: "json_copy (metadata_json (ev_meta e)) = Some (JObj mm)" "dec_metadata mm = Some (ev_meta e)"
    using metadata_inverts ok unfolding inverts_def by blast
  obtain bm where bm: "json_copy (body_json (ev_body e)) = Some (JObj bm)" "dec_body bm = Some (ev_body e)"
    using body_inverts ok unfolding inverts_def by blast
  obtain cm where cm: "json_copy (control_json (ev_control e)) = Some (JObj cm)"
    "dec_control cm = Some (ev_control e)"
    using control_inverts unfolding inverts_def by blast
  note parts = am dm mm bm cm
  have "inverts dec_envelope (\<lambda>e. JObj (envelope_json e)) e"
    by (rule invertsI, rule refl)
       (use ok parts in \<open>auto simp: envelope_json_def omits dec_envelope_def dec_map_def dec_list_def stable_map_def\<close>)
  then obtain c where c: "json_fields_copy (envelope_json e) = Some c" "dec_envelope c = Some e"
    by (auto simp: inverts_def)
  have "map_of c ''meta'' = Some (JObj mm)"
    using json_fields_copy_lookup [OF c(1), of "''meta''"] mm by (simp add: envelope_json_def)
  moreover have "json_fields_copy c = Some c"
    by (rule json_fields_copy_idem [OF c(1)])
  ultimately show ?thesis
    using c ok normalize_envelope_ok [OF assms]
    by (simp add: from_map_def to_map_def clone_map_def)
qed

end
