(* ===== verification/Runbook_Contracts.thy ===== *)
theory Runbook_Contracts imports Runbook_Envelope begin

text \<open>
  Contracts and manifests of runbook nodes (\<open>runbook/contracts\<close>): types.go, strings.go, inference.go,
  validation.go, manifest.go. The structs of \<open>Effects\<close> are flattened into one record. The digest of a
  manifest (the SHA-256 of its JSON text) and the check of an Ed25519 signature are parameters.
\<close>

record carrier =
  ca_kind :: string
  ca_media :: "string list"

record contract_example =
  ex_name :: string
  ex_shape :: json_map

record contract =
  ct_accepts :: "carrier list"
  ct_produces :: "carrier list"
  ct_required_facets :: "string list"
  ct_facets :: "string list"
  ct_schema :: json_map
  ct_examples :: "contract_example list"

record effects =
  fx_read :: "string list"
  fx_write :: "string list"
  fx_hosts :: "string list"
  fx_secrets :: "string list"
  fx_confirm :: "string list"

record runtime_policy =
  rp_timeout_ms :: int
  rp_max_input :: int
  rp_max_artifact :: int
  rp_rate_limit :: int
  rp_idempotent :: bool
  rp_retryable :: bool
  rp_sandbox :: string

record signing =
  sg_signer :: string
  sg_algorithm :: string
  sg_digest :: string
  sg_signature :: string

record tool_manifest =
  tm_id :: string
  tm_version :: string
  tm_title :: string
  tm_description :: string
  tm_input :: contract
  tm_output :: contract
  tm_effects :: effects
  tm_runtime :: runtime_policy
  tm_signing :: signing
  tm_source :: string

record trusted_signer =
  ts_id :: string
  ts_algorithm :: string
  ts_key :: string

record observed_field =
  of_path :: string
  of_type :: string
  of_facet :: string
  of_confidence :: string

definition no_contract :: contract where
  "no_contract = \<lparr>ct_accepts = [], ct_produces = [], ct_required_facets = [], ct_facets = [],
                  ct_schema = [], ct_examples = []\<rparr>"

definition no_effects :: effects where
  "no_effects = \<lparr>fx_read = [], fx_write = [], fx_hosts = [], fx_secrets = [], fx_confirm = []\<rparr>"

section \<open>String sets\<close>

definition string_set :: "string list \<Rightarrow> string set" where
  "string_set values = {v. v \<noteq> [] \<and> v \<in> trim_space ` set values}"

definition unique_strings :: "string list \<Rightarrow> string list" where
  "unique_strings values = sort_strings (remdups (filter (\<lambda>v. v \<noteq> []) (map trim_space values)))"

section \<open>Inference from examples\<close>

definition schema_type_name :: "json \<Rightarrow> string" where
  "schema_type_name v =
     (case v of
        JNull \<Rightarrow> ''null'' | JObj m \<Rightarrow> ''object'' | JArr vs \<Rightarrow> ''array'' | JStr s \<Rightarrow> ''string''
      | JBool b \<Rightarrow> ''boolean'' | JInt i \<Rightarrow> ''integer'' | JFloat f \<Rightarrow> ''number'')"

type_synonym observations = "(string \<times> observed_field) list"

definition record_observed_field :: "string \<Rightarrow> string \<Rightarrow> observations \<Rightarrow> observations" where
  "record_observed_field path type_name obs =
     (case map_of obs path of
        Some f \<Rightarrow>
          if of_type f \<noteq> type_name then AList.update path (f\<lparr>of_type := ''mixed''\<rparr>) obs else obs
      | None \<Rightarrow>
          AList.update path \<lparr>of_path = path, of_type = type_name, of_facet = [], of_confidence = []\<rparr> obs)"

definition sorted_fields :: "json_map \<Rightarrow> json_map" where
  "sorted_fields m = sort_slice (\<lambda>a b. str_less (fst a) (fst b)) m"

lemma size_sorted_fields [simp]: "size_list f (sorted_fields m) = size_list f m"
proof -
  have "size_list f xs = (\<Sum>x\<in>#mset xs. Suc (f x))" for xs :: "(string \<times> json) list"
    by (induction xs) auto
  then show ?thesis by (simp add: sorted_fields_def)
qed

function walk_observed :: "string \<Rightarrow> json \<Rightarrow> observations \<Rightarrow> observations"
  and walk_fields :: "string \<Rightarrow> json_map \<Rightarrow> observations \<Rightarrow> observations"
  and walk_items :: "string \<Rightarrow> json list \<Rightarrow> observations \<Rightarrow> observations" where
  "walk_observed prefix v obs =
     (let obs = (if prefix \<noteq> [] then record_observed_field prefix (schema_type_name v) obs else obs)
      in case v of
           JObj m \<Rightarrow> walk_fields prefix (sorted_fields m) obs
         | JArr vs \<Rightarrow> walk_items prefix vs obs
         | _ \<Rightarrow> obs)"
| "walk_fields prefix [] obs = obs"
| "walk_fields prefix ((k, v) # m) obs =
     (let child = trim_space k
      in walk_fields prefix m
           (if child = [] then obs
            else walk_observed (if prefix \<noteq> [] then prefix @ ''.'' @ child else child) v obs))"
| "walk_items prefix [] obs = obs"
| "walk_items prefix (v # vs) obs =
     walk_items prefix vs
       (case v of JObj m \<Rightarrow> walk_observed (prefix @ ''[]'') v obs | _ \<Rightarrow> obs)"
  by pat_completeness auto
termination
  by (relation "measure (\<lambda>x. case x of
     Inl (p, v, f) \<Rightarrow> 2 * size v
   | Inr (Inl (p, m, f)) \<Rightarrow> 2 * size (JObj m) - 1
   | Inr (Inr (p, vs, f)) \<Rightarrow> 2 * size (JArr vs) - 1)") auto

declare walk_observed.simps [simp del]

text \<open>The path as it is matched for facets; the loop replaces double dots until there are none.\<close>

lemma length_replace_all: "length r \<le> length p \<Longrightarrow> length (replace_all s p r) \<le> length s"
proof (induction s p r rule: replace_all.induct)
  case (1 s p r)
  show ?case
  proof (cases "p = [] \<or> cut s p = None")
    case False
    then obtain a b where c: "cut s p = Some (a, b)" "p \<noteq> []" by auto
    have "length (replace_all b p r) \<le> length b"
      using 1 c by blast
    then show ?thesis
      using c cut_Some [OF c(1)] 1(2) by (subst replace_all.simps) auto
  qed (subst replace_all.simps, auto split: option.splits)
qed

lemma replace_all_shorter:
  assumes "cut s p = Some (a, b)" "length r < length p"
  shows "length (replace_all s p r) < length s"
  using assms cut_Some [OF assms(1)] length_replace_all [of r p b]
  by (subst replace_all.simps) auto

function collapse_dots :: "string \<Rightarrow> string" where
  "collapse_dots s = (if cut s ''..'' = None then s else collapse_dots (replace_all s ''..'' ''.''))"
  by pat_completeness auto
termination
  by (relation "measure length") (auto intro: replace_all_shorter)

declare collapse_dots.simps [simp del]

definition normalize_facet_path :: "string \<Rightarrow> string" where
  "normalize_facet_path path =
     (let s = replace_all (to_lower (trim_space path)) ''[]'' [];
          s = map (\<lambda>c. if c = CHR ''-'' then CHR ''_'' else if c = CHR ''/'' then CHR ''.'' else c) s
      in trim_char CHR ''.'' (collapse_dots s))"

definition semantic_tokens :: "string \<Rightarrow> string list" where
  "semantic_tokens s =
     filter (\<lambda>t. t \<noteq> [])
       (map trim_space
         (split_on CHR '' '' (map (\<lambda>c. if c \<in> set ''._-/'' then CHR '' '' else c) s)))"

definition inferred_facet :: "string \<Rightarrow> string \<Rightarrow> string \<times> string" where
  "inferred_facet path type_name =
     (let s = normalize_facet_path path; ts = semantic_tokens s
      in if ''email'' \<in> set ts \<and> type_name = ''string'' then (s, ''high'')
         else if (\<exists>t\<in>set [''total'', ''amount'', ''price'', ''cost'']. t \<in> set ts) \<and>
                 (type_name = ''number'' \<or> type_name = ''integer'')
         then (s, ''medium'')
         else if ''id'' \<in> set ts \<and> type_name = ''string'' then (s, ''low'')
         else ([], []))"

fun add_schema_property :: "json_map \<Rightarrow> string list \<Rightarrow> string \<Rightarrow> json_map" where
  "add_schema_property properties [] type_name = properties"
| "add_schema_property properties (part # parts) type_name =
     (let name = trim_space part; schema = or_empty (field_map properties name)
      in if name = [] then properties
         else if parts = []
         then put name (JObj (if type_name \<noteq> ''mixed'' then put ''type'' (JStr type_name) schema else schema))
                properties
         else let schema = put ''type'' (JStr ''object'') schema;
                  child = add_schema_property (or_empty (field_map schema ''properties'')) parts type_name
              in put name (JObj (put ''properties'' (JObj child) schema)) properties)"

definition observed_schema_properties :: "observed_field list \<Rightarrow> json_map" where
  "observed_schema_properties observed =
     foldl (\<lambda>properties f.
        let path = normalize_facet_path (of_path f)
        in if path = [] \<or> contains_str path ''[]'' then properties
           else add_schema_property properties (split_on CHR ''.'' path) (of_type f))
       [] observed"

definition infer_observed_contract :: "json_map list \<Rightarrow> contract \<times> observed_field list" where
  "infer_observed_contract samples =
     (let obs = foldl (\<lambda>obs m. walk_observed [] (JObj m) obs) [] samples;
          observed =
            map (\<lambda>path. let f = the (map_of obs path); (facet, confidence) = inferred_facet (of_path f) (of_type f)
                        in f\<lparr>of_facet := facet, of_confidence := confidence\<rparr>)
                (sort_strings (map fst obs));
          facets = filter (\<lambda>f. f \<noteq> []) (map of_facet observed)
      in (\<lparr>ct_accepts = [], ct_produces = [\<lparr>ca_kind = ''object'', ca_media = []\<rparr>],
           ct_required_facets = [], ct_facets = unique_strings facets,
           ct_schema = [(''type'', JStr ''object''),
                        (''properties'', JObj (observed_schema_properties observed))],
           ct_examples = []\<rparr>, observed))"

definition example_samples :: "contract_example list \<Rightarrow> json_map list" where
  "example_samples examples = filter (\<lambda>m. m \<noteq> []) (map ex_shape examples)"

definition with_inferred_examples :: "contract \<Rightarrow> contract" where
  "with_inferred_examples c =
     (let samples = example_samples (ct_examples c); inferred = fst (infer_observed_contract samples)
      in if samples = [] then c
         else c\<lparr>ct_produces := (if ct_produces c = [] then ct_produces inferred else ct_produces c),
                ct_accepts := (if ct_accepts c = [] then ct_produces inferred else ct_accepts c),
                ct_facets := (if ct_facets c = [] then ct_facets inferred else ct_facets c),
                ct_schema := (if ct_schema c = [] then ct_schema inferred else ct_schema c)\<rparr>)"

section \<open>Validation of envelopes\<close>

definition carrier_matches_envelope :: "carrier \<Rightarrow> envelope \<Rightarrow> bool" where
  "carrier_matches_envelope c e \<longleftrightarrow>
     (let kind = trim_space (ca_kind c)
      in \<not> (kind \<noteq> [] \<and> kind \<noteq> eb_kind (ev_body e)) \<and>
         (ca_media c = [] \<or>
          (\<exists>a\<in>set (ev_artifacts e). trim_space (af_media_type a) \<in> string_set (ca_media c))))"

definition validate_carriers :: "envelope \<Rightarrow> carrier list \<Rightarrow> string \<Rightarrow> diagnostic list" where
  "validate_carriers e carriers label =
     (if carriers = [] \<or> (\<exists>c\<in>set carriers. carrier_matches_envelope c e) then []
      else [\<lparr>dg_severity = ''error'', dg_code = label @ ''_carrier_mismatch'', dg_path = ''body.kind'',
             dg_message = ''body kind '' @ go_quote (eb_kind (ev_body e)) @
               '' does not satisfy declared '' @ label @ '' carriers''\<rparr>])"

definition missing_facets :: "envelope \<Rightarrow> string list \<Rightarrow> string list" where
  "missing_facets e facets =
     filter (\<lambda>n. n \<noteq> [] \<and> map_of (ev_facets e) n = None) (map trim_space facets)"

definition validate_required_facets :: "envelope \<Rightarrow> string list \<Rightarrow> diagnostic list" where
  "validate_required_facets e facets =
     map (\<lambda>n. \<lparr>dg_severity = ''error'', dg_code = ''required_facet_missing'', dg_path = ''facets.'' @ n,
               dg_message = ''required facet '' @ n @ '' is missing''\<rparr>) (missing_facets e facets)"

definition validate_declared_facets :: "envelope \<Rightarrow> string list \<Rightarrow> diagnostic list" where
  "validate_declared_facets e facets =
     map (\<lambda>n. \<lparr>dg_severity = ''warning'', dg_code = ''declared_facet_missing'', dg_path = ''facets.'' @ n,
               dg_message = ''declared output facet '' @ n @ '' was not produced''\<rparr>) (missing_facets e facets)"

definition validate_body_schema :: "json \<Rightarrow> json_map \<Rightarrow> string \<Rightarrow> diagnostic list" where
  "validate_body_schema v schema path =
     map (\<lambda>s. \<lparr>dg_severity = ''error'', dg_code = se_code s, dg_path = se_path s, dg_message = se_message s\<rparr>)
       (validate_schema v schema path False)"

definition validate_input :: "string \<Rightarrow> envelope \<Rightarrow> contract \<Rightarrow> diagnostic list" where
  "validate_input now e0 c0 =
     (let e = normalize_envelope now e0; c = with_inferred_examples c0
      in validate_carriers e (ct_accepts c) ''input'' @ validate_required_facets e (ct_required_facets c) @
         validate_body_schema (eb_value (ev_body e)) (ct_schema c) ''body.value'')"

definition validate_output :: "string \<Rightarrow> envelope \<Rightarrow> contract \<Rightarrow> diagnostic list" where
  "validate_output now e0 c0 =
     (let e = normalize_envelope now e0; c = with_inferred_examples c0
      in validate_carriers e (ct_produces c) ''output'' @ validate_declared_facets e (ct_facets c) @
         validate_body_schema (eb_value (ev_body e)) (ct_schema c) ''body.value'')"

end
