(* ===== verification/Runbook_Definition.thy ===== *)
theory Runbook_Definition imports Runbook_Contracts begin

text \<open>
  Runbook definitions (\<open>runbook/definition\<close>): the hierarchical state machines of types.go, their checks in
  validation.go and the loading of a directory in loader.go. Validation errors are the texts of the code.
  The YAML decoder is not part of the sources: it is a parameter of loading.
\<close>

record node_definition =
  sn_id :: string
  sn_type :: string
  sn_uses :: string
  sn_tool :: string
  sn_with :: json_map
  sn_input :: contract
  sn_output :: contract
  sn_effects :: effects
  sn_runtime :: runtime_policy
  sn_timeout :: string
  sn_retry :: int
  sn_retry_delay :: string

record transition_definition =
  tr_trigger :: string
  tr_to :: string

datatype state_definition =
  StateDefinition (sd_id: string) (sd_initial: string) (sd_states: "state_definition list")
    (sd_on_entry: "node_definition list") (sd_transitions: "transition_definition list")

record runbook_definition =
  df_api_version :: string
  df_kind :: string
  df_id :: string
  df_name :: string
  df_description :: string
  df_schedule :: string
  df_initial :: string
  df_states :: "state_definition list"
  df_authoring :: json_map

type_synonym state_table = "(string \<times> state_definition) list"

text \<open>The action types of \<open>NewRegistry\<close>, the catalog against which definitions are checked.\<close>

definition registry_names :: "string list" where
  "registry_names =
     [''tool.call'', ''mcp.call'', ''command.execute'', ''data.assert'', ''data.defaults'', ''decision.route'',
      ''llm.generate'', ''runbook.run'', ''runbook.signal'', ''human.request'', ''delay.until'']"

definition has_action :: "string \<Rightarrow> bool" where
  "has_action name \<longleftrightarrow> trim_space name \<in> set registry_names"

definition node_action :: "node_definition \<Rightarrow> string" where
  "node_action n =
     (let t = to_lower (trim_space (sn_type n))
      in if trim_space (sn_uses n) \<noteq> [] then trim_space (sn_uses n)
         else if t = ''tool'' then ''tool.call''
         else if t = ''mcp'' then ''mcp.call''
         else if t = ''command'' then ''command.execute''
         else if t = ''llm'' \<or> t = ''model'' then ''llm.generate''
         else if t = ''runbook'' then ''runbook.run''
         else if t = ''assert'' \<or> t = ''validation'' then ''data.assert''
         else if t = ''decision'' then ''decision.route''
         else if t = ''human'' then ''human.request''
         else if t = ''delay'' \<or> t = ''wait'' then ''delay.until''
         else trim_space (sn_type n))"

section \<open>Checks\<close>

definition safe_id :: "string \<Rightarrow> bool" where
  "safe_id s \<longleftrightarrow>
     (case s of
        [] \<Rightarrow> False
      | c # t \<Rightarrow>
          (is_letter c \<and> rune c < 128 \<or> c = CHR ''_'') \<and>
          list_all (\<lambda>d. is_letter d \<and> rune d < 128 \<or> is_digit d \<or> d = CHR ''_'' \<or> d = CHR ''-'') t)"

definition validate_safe_id :: "string \<Rightarrow> string \<Rightarrow> string option" where
  "validate_safe_id value label =
     (let t = trim_space value
      in if t = [] then Some (label @ '' is required'')
         else if \<not> safe_id t then Some (label @ '' '' @ go_quote t @ '' is invalid'')
         else None)"

definition validate_action :: "string \<Rightarrow> string option" where
  "validate_action name =
     (let t = trim_space name
      in if t = [] then Some ''action uses is required''
         else if \<not> has_action t then Some (''action '' @ go_quote t @ '' is not registered'')
         else None)"

definition validate_duration :: "string \<Rightarrow> string \<Rightarrow> string \<Rightarrow> string option" where
  "validate_duration value field node_id =
     (if trim_space value = [] then None
      else case parse_duration value of
             Inl e \<Rightarrow> Some (''node '' @ go_quote node_id @ '' '' @ field @ '': '' @ e)
           | Inr d \<Rightarrow> None)"

definition validate_schedule :: "string \<Rightarrow> string option" where
  "validate_schedule value =
     (let t = trim_space value; fs = Go_Base.fields t; bad = ''schedule '' @ go_quote t
      in if t = [] then None
         else if length fs \<noteq> 5 then Some (bad @ '' must use five-field cron syntax'')
         else if fs ! 2 \<noteq> ''*'' \<or> fs ! 3 \<noteq> ''*'' \<or> fs ! 4 \<noteq> ''*''
         then Some (bad @ '' must use daily minute/hour syntax'')
         else case atoi (fs ! 0) of
                None \<Rightarrow> Some (bad @ '' has invalid minute'')
              | Some m \<Rightarrow>
                  if m < 0 \<or> m > 59 then Some (bad @ '' has invalid minute'')
                  else case atoi (fs ! 1) of
                         None \<Rightarrow> Some (bad @ '' has invalid hour'')
                       | Some h \<Rightarrow> if h < 0 \<or> h > 23 then Some (bad @ '' has invalid hour'') else None)"

definition validate_action_node :: "string \<Rightarrow> node_definition \<Rightarrow> string option" where
  "validate_action_node state_id n =
     (case validate_safe_id (sn_id n) ''state action id'' of
        Some e \<Rightarrow> Some e
      | None \<Rightarrow>
          (case validate_action (node_action n) of
             Some e \<Rightarrow> Some (''state '' @ state_id @ '' action '' @ sn_id n @ '': '' @ e)
           | None \<Rightarrow>
               if sn_retry n < 0
               then Some (''state action '' @ go_quote (sn_id n) @ '' retry must not be negative'')
               else (case validate_duration (sn_timeout n) ''timeout'' (sn_id n) of
                       Some e \<Rightarrow> Some e
                     | None \<Rightarrow> validate_duration (sn_retry_delay n) ''retry_delay'' (sn_id n))))"

fun first_error :: "('a \<Rightarrow> string option) \<Rightarrow> 'a list \<Rightarrow> string option" where
  "first_error f [] = None"
| "first_error f (x # xs) = (case f x of Some e \<Rightarrow> Some e | None \<Rightarrow> first_error f xs)"

lemma first_error_None [simp]: "first_error f xs = None \<longleftrightarrow> (\<forall>x\<in>set xs. f x = None)"
  by (induction xs) (auto split: option.splits)

fun collect_state_definitions :: "state_definition list \<Rightarrow> state_table \<Rightarrow> string + state_table" where
  "collect_state_definitions [] states = Inr states"
| "collect_state_definitions (StateDefinition sid init kids entry exits # items) states =
     (case validate_safe_id sid ''state id'' of
        Some e \<Rightarrow> Inl e
      | None \<Rightarrow>
          if map_of states sid \<noteq> None then Inl (''state machine has duplicate state '' @ go_quote sid)
          else (case first_error (validate_action_node sid) entry of
                  Some e \<Rightarrow> Inl e
                | None \<Rightarrow>
                    (case collect_state_definitions kids
                            (states @ [(sid, StateDefinition sid init kids entry exits)]) of
                       Inl e \<Rightarrow> Inl e
                     | Inr states \<Rightarrow> collect_state_definitions items states)))"

text \<open>The state entered first among some states: the named one, or else the first.\<close>

definition initial_state :: "string \<Rightarrow> state_definition list \<Rightarrow> string" where
  "initial_state init states =
     (if trim_space init = [] \<and> states \<noteq> [] then trim_space (sd_id (hd states)) else trim_space init)"

definition check_transition :: "state_table \<Rightarrow> string \<Rightarrow> transition_definition \<Rightarrow> string option" where
  "check_transition states sid tr =
     (let target = trim_space (tr_to tr)
      in if trim_space (tr_trigger tr) = []
         then Some (''state '' @ go_quote sid @ '' transition trigger is required'')
         else if target \<noteq> [] \<and> map_of states target = None
         then Some (''state '' @ go_quote sid @ '' transition target '' @ go_quote target @ '' is not defined'')
         else None)"

definition check_state :: "state_table \<Rightarrow> state_definition \<Rightarrow> string option" where
  "check_state states st =
     (let child = initial_state (sd_initial st) (sd_states st)
      in if sd_states st \<noteq> [] \<and> map_of states child = None
         then Some (''state '' @ go_quote (sd_id st) @ '' initial state '' @ go_quote child @ '' is not defined'')
         else first_error (check_transition states (sd_id st)) (sd_transitions st))"

definition validate_state_machine :: "runbook_definition \<Rightarrow> string option" where
  "validate_state_machine def =
     (if df_states def = [] then Some (''state machine '' @ go_quote (df_id def) @ '' must define states'')
      else case collect_state_definitions (df_states def) [] of
             Inl e \<Rightarrow> Some e
           | Inr states \<Rightarrow>
               let init = initial_state (df_initial def) (df_states def)
               in if map_of states init = None
                  then Some (''state machine '' @ go_quote (df_id def) @ '' initial state '' @ go_quote init @
                             '' is not defined'')
                  else first_error (check_state states) (map snd states))"

definition validate_definition :: "runbook_definition \<Rightarrow> string option" where
  "validate_definition def =
     (case validate_safe_id (df_id def) ''runbook id'' of
        Some e \<Rightarrow> Some e
      | None \<Rightarrow>
          (case validate_schedule (df_schedule def) of
             Some e \<Rightarrow> Some e
           | None \<Rightarrow>
               if trim_space (df_kind def) = ''state_machine'' then validate_state_machine def
               else Some (''runbook '' @ go_quote (df_id def) @ '' kind must be '' @ go_quote ''state_machine'')))"

definition has_state_machine :: "runbook_definition \<Rightarrow> bool" where
  "has_state_machine def \<longleftrightarrow> trim_space (df_kind def) = ''state_machine'' \<and> df_states def \<noteq> []"

section \<open>The states of a definition\<close>

text \<open>\<open>stateMachineStates\<close> of the runtime: all states by id.\<close>

fun visit_states :: "state_definition list \<Rightarrow> state_table \<Rightarrow> state_table" where
  "visit_states [] states = states"
| "visit_states (StateDefinition sid init kids entry exits # items) states =
     visit_states items
       (visit_states kids (AList.update sid (StateDefinition sid init kids entry exits) states))"

definition state_machine_states :: "runbook_definition \<Rightarrow> state_table" where
  "state_machine_states def = visit_states (df_states def) []"

lemma collect_visits:
  "collect_state_definitions items states = Inr t \<Longrightarrow> visit_states items states = t"
proof (induction items states arbitrary: t rule: collect_state_definitions.induct)
  case (2 sid init kids entry exits items states)
  then have new: "map_of states sid = None"
    by (auto split: option.splits if_splits)
  have "AList.update sid v states = states @ [(sid, v)]" for v
    using new by (induction states) (auto split: if_splits)
  with 2 show ?case by (auto split: option.splits if_splits sum.splits)
qed simp

lemma validated_states:
  assumes "validate_definition def = None"
  shows "collect_state_definitions (df_states def) [] = Inr (state_machine_states def)"
    and "map_of (state_machine_states def) (initial_state (df_initial def) (df_states def)) \<noteq> None"
    and "\<forall>st\<in>snd ` set (state_machine_states def). check_state (state_machine_states def) st = None"
proof -
  obtain t where t: "collect_state_definitions (df_states def) [] = Inr t"
    "map_of t (initial_state (df_initial def) (df_states def)) \<noteq> None"
    "\<forall>st\<in>snd ` set t. check_state t st = None"
    using assms
    by (auto simp: validate_definition_def validate_state_machine_def Let_def split: option.splits if_splits sum.splits)
  moreover have "t = state_machine_states def"
    using collect_visits [OF t(1)] by (simp add: state_machine_states_def)
  ultimately show "collect_state_definitions (df_states def) [] = Inr (state_machine_states def)"
    and "map_of (state_machine_states def) (initial_state (df_initial def) (df_states def)) \<noteq> None"
    and "\<forall>st\<in>snd ` set (state_machine_states def). check_state (state_machine_states def) st = None"
    by simp_all
qed

text \<open>A closed table of states: where a state can go, there is a state.\<close>

definition closed_states :: "state_table \<Rightarrow> bool" where
  "closed_states states \<longleftrightarrow>
     (\<forall>sid st. map_of states sid = Some st \<longrightarrow>
        (sd_states st \<noteq> [] \<longrightarrow> map_of states (initial_state (sd_initial st) (sd_states st)) \<noteq> None) \<and>
        (\<forall>tr\<in>set (sd_transitions st). trim_space (tr_to tr) \<noteq> [] \<longrightarrow>
           map_of states (trim_space (tr_to tr)) \<noteq> None))"

lemma validated_closed:
  assumes "validate_definition def = None"
  shows "closed_states (state_machine_states def)"
  unfolding closed_states_def
proof (intro allI impI)
  fix sid st
  assume "map_of (state_machine_states def) sid = Some st"
  then have "st \<in> snd ` set (state_machine_states def)"
    by (force dest: map_of_SomeD)
  then have c: "check_state (state_machine_states def) st = None"
    by (rule bspec [OF validated_states(3) [OF assms]])
  show "(sd_states st \<noteq> [] \<longrightarrow>
           map_of (state_machine_states def) (initial_state (sd_initial st) (sd_states st)) \<noteq> None) \<and>
        (\<forall>tr\<in>set (sd_transitions st). trim_space (tr_to tr) \<noteq> [] \<longrightarrow>
           map_of (state_machine_states def) (trim_space (tr_to tr)) \<noteq> None)"
    using c by (auto simp: check_state_def check_transition_def Let_def split: if_splits)
qed

section \<open>Loading a directory\<close>

text \<open>
  The parts of loading outside the sources: the decoder of YAML, the encoder of a definition as
  JSON (it fails on numbers that are not finite) and the hash of a text.
\<close>

record definition_codec =
  dc_decode :: "string \<Rightarrow> string + runbook_definition"
  dc_encode :: "runbook_definition \<Rightarrow> string + string"
  dc_sha256 :: "string \<Rightarrow> string"

record loaded_definition =
  ld_definition :: runbook_definition
  ld_path :: string
  ld_hash :: string
  ld_body :: string

record load_warning =
  lw_path :: string
  lw_message :: string

definition load_file :: "definition_codec \<Rightarrow> string \<Rightarrow> string \<Rightarrow> string + loaded_definition" where
  "load_file dc path text =
     (case dc_decode dc text of
        Inl e \<Rightarrow> Inl (''decode runbook definition '' @ go_quote path @ '': '' @ e)
      | Inr def \<Rightarrow>
          (case validate_definition def of
             Some e \<Rightarrow> Inl (path @ '': '' @ e)
           | None \<Rightarrow>
               (case dc_encode dc def of
                  Inl e \<Rightarrow> Inl (''normalize runbook definition '' @ go_quote path @ '': '' @ e)
                | Inr body \<Rightarrow>
                    Inr \<lparr>ld_definition = def, ld_path = path, ld_hash = dc_sha256 dc body, ld_body = body\<rparr>)))"

text \<open>The files of a directory, each with its path and text, in the order of the sorted paths.\<close>

fun load_files ::
    "definition_codec \<Rightarrow> bool \<Rightarrow> (string \<times> string) list \<Rightarrow> loaded_definition list \<Rightarrow> load_warning list \<Rightarrow>
     string + loaded_definition list \<times> load_warning list" where
  "load_files dc skip [] loaded warnings = Inr (loaded, warnings)"
| "load_files dc skip ((path, text) # files) loaded warnings =
     (case load_file dc path text of
        Inl e \<Rightarrow>
          if skip then load_files dc skip files loaded (warnings @ [\<lparr>lw_path = path, lw_message = e\<rparr>])
          else Inl e
      | Inr ld \<Rightarrow>
          if df_id (ld_definition ld) \<in> set (map (\<lambda>l. df_id (ld_definition l)) loaded)
          then Inl (''duplicate runbook definition '' @ go_quote (df_id (ld_definition ld)))
          else load_files dc skip files (loaded @ [ld]) warnings)"

text \<open>The entries of the directory: None when it does not exist; each entry is a name and a text, or a directory.\<close>

definition load_directory ::
    "definition_codec \<Rightarrow> bool \<Rightarrow> string \<Rightarrow> (string \<times> string option) list option \<Rightarrow>
     string + loaded_definition list \<times> load_warning list" where
  "load_directory dc skip dir entries =
     (let d = trim_space dir
      in if d = [] then Inl ''definitions directory is required''
         else case entries of
                None \<Rightarrow> Inr ([], [])
              | Some es \<Rightarrow>
                  load_files dc skip
                    (sort_slice (\<lambda>a b. str_less (fst a) (fst b))
                      (List.map_filter
                        (\<lambda>(name, text). case text of
                           None \<Rightarrow> None
                         | Some t \<Rightarrow> if has_suffix name ''.yaml'' \<or> has_suffix name ''.yml''
                                     then Some (d @ ''/'' @ name, t) else None) es))
                    [] [])"

lemma load_files_valid:
  assumes "load_files dc skip files loaded warnings = Inr (ls, ws)"
    and "\<forall>l\<in>set loaded. validate_definition (ld_definition l) = None"
    and "distinct (map (\<lambda>l. df_id (ld_definition l)) loaded)"
  shows "(\<forall>l\<in>set ls. validate_definition (ld_definition l) = None) \<and>
    distinct (map (\<lambda>l. df_id (ld_definition l)) ls)"
  using assms
proof (induction dc skip files loaded warnings rule: load_files.induct)
  case (2 dc skip path content files loaded warnings)
  show ?case
  proof (cases "load_file dc path content")
    case (Inr ld)
    then have "validate_definition (ld_definition ld) = None"
      by (auto simp: load_file_def split: sum.splits option.splits)
    with Inr 2 show ?thesis by (auto split: if_splits)
  qed (use 2 in \<open>auto split: if_splits\<close>)
qed simp

end
