(* ===== verification/Runbook_Store.thy ===== *)
theory Runbook_Store imports Runbook_Definition Go_Time begin

text \<open>
  The state of the runbook service and its tables in SQLite (\<open>runbook/store\<close>: records.go, repository.go,
  observations.go). A table is the list of its rows in insertion order. JSON columns hold what
  \<open>json.Marshal\<close> and \<open>json.Unmarshal\<close> make of a map. Beside the tables the state has what the service
  keeps in memory: the loaded definitions, the recent invocations per manifest for rate limits, the
  executions started in the background and not yet run, and the number of answers taken so far from the
  environment (clock, random source, other programs), which is a parameter. Disk errors are left out.
\<close>

record run_record =
  ru_id :: string
  ru_definition :: string
  ru_kind :: string
  ru_status :: string
  ru_state :: string
  ru_input :: json_map
  ru_output :: json_map
  ru_created :: string
  ru_updated :: string

record event_record =
  lg_run :: string
  lg_type :: string
  lg_message :: string
  lg_data :: json_map
  lg_created :: string

record step_output =
  st_run :: string
  st_step :: string
  st_output :: json_map
  st_created :: string

record node_state =
  ns_run :: string
  ns_state :: string
  ns_status :: string
  ns_attempts :: int
  ns_output :: json_map
  ns_error :: string
  ns_started :: string
  ns_completed :: string
  ns_updated :: string

record pending_item =
  pi_id :: string
  pi_run :: string
  pi_step :: string
  pi_status :: string
  pi_prompt :: string
  pi_payload :: json_map
  pi_response :: json_map
  pi_created :: string
  pi_updated :: string

record observed_contract =
  oc_definition :: string
  oc_node :: string
  oc_tool :: string
  oc_hash :: string
  oc_occurrences :: int
  oc_contract :: json_map
  oc_fields :: "json_map list"
  oc_first :: string
  oc_last :: string

record service_state =
  rb_definitions :: "(string \<times> runbook_definition) list"
  rb_runs :: "run_record list"
  rb_events :: "event_record list"
  rb_outputs :: "step_output list"
  rb_nodes :: "node_state list"
  rb_pending :: "pending_item list"
  rb_observed :: "observed_contract list"
  rb_hits :: "(string \<times> gotime list) list"
  rb_started :: "string list"
  rb_tick :: nat

text \<open>
  How a stateful operation fails. \<open>Stuck\<close> is not an error of the code: the call does not return, and
  nothing that comes after it happens.
\<close>

datatype fault = Fault failure | Stuck

type_synonym 'a service_run = "(service_state, fault, 'a) run"

definition fail :: "string \<Rightarrow> 'a service_run" where
  "fail m = run_err (Fault (Failed m))"

definition modify :: "(service_state \<Rightarrow> service_state) \<Rightarrow> unit service_run" where
  "modify f s = (Inr (), f s)"

text \<open>\<open>_ = f()\<close>: an error that is dropped.\<close>

definition ignore :: "unit service_run \<Rightarrow> unit service_run" where
  "ignore m s = (case m s of (Inl Stuck, t) \<Rightarrow> (Inl Stuck, t) | (r, t) \<Rightarrow> (Inr (), t))"

text \<open>The next answer of the environment.\<close>

definition answer :: "(nat \<Rightarrow> 'a) \<Rightarrow> 'a service_run" where
  "answer f s = (Inr (f (rb_tick s)), s\<lparr>rb_tick := Suc (rb_tick s)\<rparr>)"

definition now_string :: "(nat \<Rightarrow> gotime) \<Rightarrow> string service_run" where
  "now_string clock = run_bind (answer clock) (\<lambda>t. run_ret (format_rfc3339_nano t))"

definition encode_map :: "string \<Rightarrow> json_map \<Rightarrow> json_map service_run" where
  "encode_map label m =
     (case json_fields_copy m of
        Some c \<Rightarrow> run_ret c
      | None \<Rightarrow> fail (label @ '': json: unsupported value''))"

section \<open>Runs\<close>

definition find_run :: "service_state \<Rightarrow> string \<Rightarrow> run_record option" where
  "find_run s rid = List.find (\<lambda>r. ru_id r = rid) (rb_runs s)"

definition get_run :: "string \<Rightarrow> run_record service_run" where
  "get_run rid s =
     (case find_run s rid of
        Some r \<Rightarrow> (Inr r, s)
      | None \<Rightarrow> (Inl (Fault (Failed ''runbook run not found'')), s))"

definition create_run :: "(nat \<Rightarrow> gotime) \<Rightarrow> run_record \<Rightarrow> unit service_run" where
  "create_run clock r =
     run_bind (now_string clock) (\<lambda>now.
     run_bind (encode_map ''encode run input'' (ru_input r)) (\<lambda>input.
     run_bind (encode_map ''encode run output'' (ru_output r)) (\<lambda>output.
     \<lambda>s. if find_run s (ru_id r) \<noteq> None
         then (Inl (Fault (Failed (''create runbook run '' @ go_quote (ru_id r) @ '': UNIQUE constraint failed''))), s)
         else (Inr (), s\<lparr>rb_runs := rb_runs s @
                 [r\<lparr>ru_input := input, ru_output := output, ru_created := now, ru_updated := now\<rparr>]\<rparr>))))"

definition list_runs_by_status :: "service_state \<Rightarrow> string \<Rightarrow> run_record list" where
  "list_runs_by_status s status =
     sort_slice (\<lambda>a b. str_less (ru_created a) (ru_created b))
       (filter (\<lambda>r. ru_status r = status) (rb_runs s))"

definition update_run_state ::
    "(nat \<Rightarrow> gotime) \<Rightarrow> string \<Rightarrow> string \<Rightarrow> string \<Rightarrow> json_map \<Rightarrow> unit service_run" where
  "update_run_state clock rid status state output =
     run_bind (encode_map ''encode run output'' output) (\<lambda>out.
     run_bind (now_string clock) (\<lambda>now.
     modify (\<lambda>s. s\<lparr>rb_runs := map (\<lambda>r. if ru_id r = rid
       then r\<lparr>ru_status := status, ru_state := state, ru_output := out, ru_updated := now\<rparr> else r) (rb_runs s)\<rparr>)))"

section \<open>Events and step outputs\<close>

definition append_event_row ::
    "(nat \<Rightarrow> gotime) \<Rightarrow> string \<Rightarrow> string \<Rightarrow> string \<Rightarrow> json_map \<Rightarrow> unit service_run" where
  "append_event_row clock rid etype message data =
     run_bind (encode_map ''encode runbook event'' data) (\<lambda>d.
     run_bind (now_string clock) (\<lambda>now.
     modify (\<lambda>s. s\<lparr>rb_events := rb_events s @
       [\<lparr>lg_run = rid, lg_type = etype, lg_message = message, lg_data = d, lg_created = now\<rparr>]\<rparr>)))"

definition list_events :: "service_state \<Rightarrow> string \<Rightarrow> event_record list" where
  "list_events s rid = filter (\<lambda>e. lg_run e = rid) (rb_events s)"

definition save_step_output ::
    "(nat \<Rightarrow> gotime) \<Rightarrow> string \<Rightarrow> string \<Rightarrow> json_map \<Rightarrow> unit service_run" where
  "save_step_output clock rid step output =
     run_bind (encode_map ''encode step output'' output) (\<lambda>out.
     run_bind (now_string clock) (\<lambda>now.
     modify (\<lambda>s.
       let row = \<lparr>st_run = rid, st_step = step, st_output = out, st_created = now\<rparr>
       in s\<lparr>rb_outputs :=
            (if \<exists>o'\<in>set (rb_outputs s). st_run o' = rid \<and> st_step o' = step
             then map (\<lambda>o'. if st_run o' = rid \<and> st_step o' = step then row else o') (rb_outputs s)
             else rb_outputs s @ [row])\<rparr>)))"

definition step_output_of :: "service_state \<Rightarrow> string \<Rightarrow> string \<Rightarrow> json_map option" where
  "step_output_of s rid step =
     map_option st_output (List.find (\<lambda>o'. st_run o' = rid \<and> st_step o' = step) (rb_outputs s))"

definition step_outputs :: "service_state \<Rightarrow> string \<Rightarrow> (string \<times> json_map) list" where
  "step_outputs s rid = map (\<lambda>o'. (st_step o', st_output o')) (filter (\<lambda>o'. st_run o' = rid) (rb_outputs s))"

section \<open>Node states\<close>

definition get_node_state :: "service_state \<Rightarrow> string \<Rightarrow> string \<Rightarrow> node_state option" where
  "get_node_state s rid sid = List.find (\<lambda>n. ns_run n = rid \<and> ns_state n = sid) (rb_nodes s)"

text \<open>\<open>INSERT ... ON CONFLICT(run_id, state_id) DO UPDATE\<close>: a new row, or a change of the old one.\<close>

definition upsert_node_state ::
    "string \<Rightarrow> string \<Rightarrow> node_state \<Rightarrow> (node_state \<Rightarrow> node_state) \<Rightarrow> service_state \<Rightarrow> service_state" where
  "upsert_node_state rid sid row change s =
     s\<lparr>rb_nodes :=
        (if get_node_state s rid sid \<noteq> None
         then map (\<lambda>n. if ns_run n = rid \<and> ns_state n = sid then change n else n) (rb_nodes s)
         else rb_nodes s @ [row])\<rparr>"

definition mark_running :: "(nat \<Rightarrow> gotime) \<Rightarrow> string \<Rightarrow> string \<Rightarrow> int \<Rightarrow> unit service_run" where
  "mark_running clock rid sid attempts =
     run_bind (now_string clock) (\<lambda>now.
     modify (upsert_node_state rid sid
       \<lparr>ns_run = rid, ns_state = sid, ns_status = ''running'', ns_attempts = attempts, ns_output = [],
        ns_error = [], ns_started = now, ns_completed = [], ns_updated = now\<rparr>
       (\<lambda>n. n\<lparr>ns_status := ''running'', ns_attempts := attempts, ns_error := [], ns_started := now,
              ns_updated := now\<rparr>)))"

definition mark_succeeded :: "(nat \<Rightarrow> gotime) \<Rightarrow> string \<Rightarrow> string \<Rightarrow> int \<Rightarrow> json_map \<Rightarrow> unit service_run" where
  "mark_succeeded clock rid sid attempts output =
     run_bind (encode_map ''encode runbook node output'' output) (\<lambda>out.
     run_bind (now_string clock) (\<lambda>now.
     modify (upsert_node_state rid sid
       \<lparr>ns_run = rid, ns_state = sid, ns_status = ''succeeded'', ns_attempts = attempts, ns_output = out,
        ns_error = [], ns_started = now, ns_completed = now, ns_updated = now\<rparr>
       (\<lambda>n. n\<lparr>ns_status := ''succeeded'', ns_attempts := attempts, ns_output := out, ns_error := [],
              ns_completed := now, ns_updated := now\<rparr>))))"

definition mark_skipped :: "(nat \<Rightarrow> gotime) \<Rightarrow> string \<Rightarrow> string \<Rightarrow> int \<Rightarrow> json_map \<Rightarrow> unit service_run" where
  "mark_skipped clock rid sid attempts output =
     run_bind (encode_map ''encode runbook skipped node output'' output) (\<lambda>out.
     run_bind (now_string clock) (\<lambda>now.
     modify (upsert_node_state rid sid
       \<lparr>ns_run = rid, ns_state = sid, ns_status = ''skipped'', ns_attempts = attempts, ns_output = out,
        ns_error = [], ns_started = [], ns_completed = now, ns_updated = now\<rparr>
       (\<lambda>n. n\<lparr>ns_status := ''skipped'', ns_attempts := attempts, ns_output := out, ns_error := [],
              ns_completed := now, ns_updated := now\<rparr>))))"

definition mark_failed :: "(nat \<Rightarrow> gotime) \<Rightarrow> string \<Rightarrow> string \<Rightarrow> int \<Rightarrow> string \<Rightarrow> unit service_run" where
  "mark_failed clock rid sid attempts message =
     run_bind (now_string clock) (\<lambda>now.
     modify (upsert_node_state rid sid
       \<lparr>ns_run = rid, ns_state = sid, ns_status = ''failed'', ns_attempts = attempts, ns_output = [],
        ns_error = message, ns_started = now, ns_completed = now, ns_updated = now\<rparr>
       (\<lambda>n. n\<lparr>ns_status := ''failed'', ns_attempts := attempts, ns_error := message, ns_completed := now,
              ns_updated := now\<rparr>)))"

section \<open>Pending items\<close>

definition create_pending_item :: "(nat \<Rightarrow> gotime) \<Rightarrow> pending_item \<Rightarrow> unit service_run" where
  "create_pending_item clock p =
     run_bind (encode_map ''encode pending payload'' (pi_payload p)) (\<lambda>payload.
     run_bind (encode_map ''encode pending response'' (pi_response p)) (\<lambda>response.
     run_bind (now_string clock) (\<lambda>now.
     \<lambda>s. if \<exists>q\<in>set (rb_pending s). pi_id q = pi_id p
         then (Inl (Fault (Failed (''create pending runbook item '' @ go_quote (pi_id p) @
                 '': UNIQUE constraint failed''))), s)
         else (Inr (), s\<lparr>rb_pending := rb_pending s @
                 [p\<lparr>pi_payload := payload, pi_response := response, pi_created := now, pi_updated := now\<rparr>]\<rparr>))))"

definition complete_pending_items :: "(nat \<Rightarrow> gotime) \<Rightarrow> string \<Rightarrow> json_map \<Rightarrow> unit service_run" where
  "complete_pending_items clock rid response =
     run_bind (encode_map ''encode pending response'' response) (\<lambda>r.
     run_bind (now_string clock) (\<lambda>now.
     modify (\<lambda>s. s\<lparr>rb_pending := map (\<lambda>p. if pi_run p = rid \<and> pi_status p = ''open''
       then p\<lparr>pi_status := ''completed'', pi_response := r, pi_updated := now\<rparr> else p) (rb_pending s)\<rparr>)))"

definition list_open_pending_items :: "service_state \<Rightarrow> pending_item list" where
  "list_open_pending_items s =
     sort_slice (\<lambda>a b. str_less (pi_created a) (pi_created b))
       (filter (\<lambda>p. pi_status p = ''open'') (rb_pending s))"

section \<open>Observed contracts\<close>

definition same_shape :: "observed_contract \<Rightarrow> observed_contract \<Rightarrow> bool" where
  "same_shape a b \<longleftrightarrow>
     oc_definition a = oc_definition b \<and> oc_node a = oc_node b \<and> oc_tool a = oc_tool b \<and> oc_hash a = oc_hash b"

definition upsert_observed_contract :: "(nat \<Rightarrow> gotime) \<Rightarrow> observed_contract \<Rightarrow> unit service_run" where
  "upsert_observed_contract clock r =
     run_bind (now_string clock) (\<lambda>now.
     run_bind (encode_map ''encode observed contract'' (oc_contract r)) (\<lambda>contract.
     let r = r\<lparr>oc_contract := contract,
               oc_first := (if oc_first r = [] then now else oc_first r),
               oc_last := (if oc_last r = [] then now else oc_last r),
               oc_occurrences := (if oc_occurrences r \<le> 0 then 1 else oc_occurrences r)\<rparr>
     in modify (\<lambda>s. s\<lparr>rb_observed :=
          (if \<exists>q\<in>set (rb_observed s). same_shape q r
           then map (\<lambda>q. if same_shape q r
                  then q\<lparr>oc_occurrences := oc_occurrences q + oc_occurrences r, oc_contract := oc_contract r,
                         oc_fields := oc_fields r, oc_last := oc_last r\<rparr> else q) (rb_observed s)
           else rb_observed s @ [r])\<rparr>)))"

definition blank_or :: "string \<Rightarrow> string \<Rightarrow> bool" where
  "blank_or wanted value \<longleftrightarrow> trim_space wanted = [] \<or> value = trim_space wanted"

definition list_observed_contracts ::
    "service_state \<Rightarrow> string \<Rightarrow> string \<Rightarrow> string \<Rightarrow> int \<Rightarrow> observed_contract list" where
  "list_observed_contracts s def node tool limit =
     take (nat (if limit \<le> 0 \<or> limit > 200 then 100 else limit))
       (sort_slice (\<lambda>a b. oc_occurrences a > oc_occurrences b \<or>
            oc_occurrences a = oc_occurrences b \<and> str_less (oc_last b) (oc_last a))
         (filter (\<lambda>q. blank_or def (oc_definition q) \<and> blank_or node (oc_node q) \<and> blank_or tool (oc_tool q))
            (rb_observed s)))"

end
