(* ===== verification/Runbook_Manifest.thy ===== *)
theory Runbook_Manifest imports Runbook_Contracts begin

text \<open>
  Manifests: their validation and the check of their signatures (\<open>contracts/manifest.go\<close>) and the table
  of the built-in actions (\<open>actions/metadata.go\<close>).
\<close>

text \<open>
  What the check of a signature asks of the cryptographic library: the hexadecimal SHA-256 of the
  JSON text of a manifest, and whether a signature of a text is valid under an Ed25519 key.
\<close>

record crypto =
  cr_sha256 :: "tool_manifest \<Rightarrow> string"
  cr_verify :: "string \<Rightarrow> string \<Rightarrow> string \<Rightarrow> bool"

section \<open>Binary text\<close>

definition base64_value :: "char \<Rightarrow> nat option" where
  "base64_value c =
     (let n = rune c
      in if 65 \<le> n \<and> n \<le> 90 then Some (n - 65)
         else if 97 \<le> n \<and> n \<le> 122 then Some (n - 71)
         else if 48 \<le> n \<and> n \<le> 57 then Some (n + 4)
         else if n = 43 then Some 62 else if n = 47 then Some 63 else None)"

fun base64_quanta :: "bool \<Rightarrow> string \<Rightarrow> string option" where
  "base64_quanta padded [] = Some []"
| "base64_quanta padded [a] = None"
| "base64_quanta padded [a, b] =
     (if padded then None
      else case (base64_value a, base64_value b) of
             (Some x, Some y) \<Rightarrow> Some [char_of (x * 4 + y div 16)]
           | _ \<Rightarrow> None)"
| "base64_quanta padded [a, b, c] =
     (if padded then None
      else case (base64_value a, base64_value b, base64_value c) of
             (Some x, Some y, Some z) \<Rightarrow> Some [char_of (x * 4 + y div 16), char_of (y mod 16 * 16 + z div 4)]
           | _ \<Rightarrow> None)"
| "base64_quanta padded (a # b # c # d # s) =
     (case (base64_value a, base64_value b, base64_value c, base64_value d) of
        (Some x, Some y, Some z, Some w) \<Rightarrow>
          map_option
            (\<lambda>t. char_of (x * 4 + y div 16) # char_of (y mod 16 * 16 + z div 4) # char_of (z mod 4 * 64 + w) # t)
            (base64_quanta padded s)
      | (Some x, Some y, Some z, None) \<Rightarrow>
          if padded \<and> d = CHR ''='' \<and> s = []
          then Some [char_of (x * 4 + y div 16), char_of (y mod 16 * 16 + z div 4)] else None
      | (Some x, Some y, None, None) \<Rightarrow>
          if padded \<and> c = CHR ''='' \<and> d = CHR ''='' \<and> s = [] then Some [char_of (x * 4 + y div 16)] else None
      | _ \<Rightarrow> None)"

definition base64_decode :: "bool \<Rightarrow> string \<Rightarrow> string option" where
  "base64_decode padded s = base64_quanta padded (filter (\<lambda>c. rune c \<noteq> 10 \<and> rune c \<noteq> 13) s)"

definition hex_value :: "char \<Rightarrow> nat option" where
  "hex_value c =
     (let n = rune c
      in if 48 \<le> n \<and> n \<le> 57 then Some (n - 48)
         else if 97 \<le> n \<and> n \<le> 102 then Some (n - 87)
         else if 65 \<le> n \<and> n \<le> 70 then Some (n - 55) else None)"

fun hex_decode :: "string \<Rightarrow> string option" where
  "hex_decode [] = Some []"
| "hex_decode [a] = None"
| "hex_decode (a # b # s) =
     (case (hex_value a, hex_value b) of
        (Some x, Some y) \<Rightarrow> map_option (Cons (char_of (x * 16 + y))) (hex_decode s)
      | _ \<Rightarrow> None)"

definition decode_binary :: "string \<Rightarrow> string option" where
  "decode_binary value =
     (let s = trim_space value
      in case base64_decode True s of
           Some b \<Rightarrow> Some b
         | None \<Rightarrow> (case base64_decode False s of Some b \<Rightarrow> Some b | None \<Rightarrow> hex_decode s))"

section \<open>Validation\<close>

datatype manifest_error = ManifestIDRequired | VersionRequired | SandboxUnsupported string
  | SandboxRequired | SigningRequired | AlgorithmUnsupported | ExternalSandbox
  | DigestMismatch | SignerNotTrusted string | PublicKeyUndecodable string | PublicKeyLength string
  | SignatureUndecodable | SignatureInvalid

definition sandboxes :: "string list" where
  "sandboxes = [''aa-runtime'', ''harness-context'', ''mcp'', ''command-daemon'', ''model'', ''process'',
                ''wasm'', ''container'']"

definition validate_sandbox :: "string \<Rightarrow> manifest_error option" where
  "validate_sandbox sandbox =
     (let s = trim_space sandbox
      in if s = [] \<or> s \<in> set sandboxes then None else Some (SandboxUnsupported s))"

definition sandbox_supported :: "string \<Rightarrow> bool" where
  "sandbox_supported sandbox \<longleftrightarrow> validate_sandbox sandbox = None"

definition external_sandbox_supported :: "string \<Rightarrow> bool" where
  "external_sandbox_supported sandbox \<longleftrightarrow>
     trim_space sandbox \<in> {''process'', ''wasm'', ''container'', ''mcp'', ''command-daemon''}"

definition is_external_manifest :: "tool_manifest \<Rightarrow> bool" where
  "is_external_manifest m =
     (let source = to_lower (trim_space (tm_source m)); mid = trim_space (tm_id m)
      in if source \<in> {''external'', ''marketplace'', ''third_party'', ''non_aa''} then True
         else if source \<in> {[], ''aa'', ''internal''} then False
         else mid \<noteq> [] \<and> \<not> has_prefix mid ''aa.'' \<and> contains_str mid ''.'')"

definition validate_manifest :: "tool_manifest \<Rightarrow> manifest_error option" where
  "validate_manifest m =
     (if trim_space (tm_id m) = [] then Some ManifestIDRequired
      else if trim_space (tm_version m) = [] then Some VersionRequired
      else case validate_sandbox (rp_sandbox (tm_runtime m)) of
             Some e \<Rightarrow> Some e
           | None \<Rightarrow>
               if \<not> is_external_manifest m then None
               else if trim_space (rp_sandbox (tm_runtime m)) = [] then Some SandboxRequired
               else if trim_space (sg_signer (tm_signing m)) = [] \<or> trim_space (sg_algorithm (tm_signing m)) = [] \<or>
                       trim_space (sg_signature (tm_signing m)) = [] \<or> trim_space (sg_digest (tm_signing m)) = []
               then Some SigningRequired
               else if \<not> equal_fold (trim_space (sg_algorithm (tm_signing m))) ''ed25519''
               then Some AlgorithmUnsupported
               else if \<not> external_sandbox_supported (rp_sandbox (tm_runtime m)) then Some ExternalSandbox
               else None)"

definition manifest_digest :: "crypto \<Rightarrow> tool_manifest \<Rightarrow> string" where
  "manifest_digest cr m =
     ''sha256:'' @ cr_sha256 cr (m\<lparr>tm_signing := (tm_signing m)\<lparr>sg_digest := [], sg_signature := []\<rparr>\<rparr>)"

definition find_trusted_signer :: "signing \<Rightarrow> trusted_signer list \<Rightarrow> trusted_signer option" where
  "find_trusted_signer sg trusted =
     List.find (\<lambda>t. trim_space (ts_id t) = trim_space (sg_signer sg) \<and>
                    equal_fold (trim_space (ts_algorithm t)) (trim_space (sg_algorithm sg))) trusted"

definition verify_manifest :: "crypto \<Rightarrow> tool_manifest \<Rightarrow> trusted_signer list \<Rightarrow> manifest_error option" where
  "verify_manifest cr m trusted =
     (case validate_manifest m of
        Some e \<Rightarrow> Some e
      | None \<Rightarrow>
          if \<not> is_external_manifest m then None
          else if trim_space (sg_digest (tm_signing m)) \<noteq> manifest_digest cr m then Some DigestMismatch
          else case find_trusted_signer (tm_signing m) trusted of
                 None \<Rightarrow> Some (SignerNotTrusted (sg_signer (tm_signing m)))
               | Some t \<Rightarrow>
                   (case decode_binary (ts_key t) of
                      None \<Rightarrow> Some (PublicKeyUndecodable (ts_id t))
                    | Some key \<Rightarrow>
                        if length key \<noteq> 32 then Some (PublicKeyLength (ts_id t))
                        else case decode_binary (sg_signature (tm_signing m)) of
                               None \<Rightarrow> Some SignatureUndecodable
                             | Some sig \<Rightarrow>
                                 if \<not> cr_verify cr key (manifest_digest cr m) sig then Some SignatureInvalid
                                 else None))"

lemma verify_external:
  assumes "verify_manifest cr m trusted = None" "is_external_manifest m"
  shows "\<exists>t\<in>set trusted. \<exists>key sig. trim_space (ts_id t) = trim_space (sg_signer (tm_signing m)) \<and>
    decode_binary (ts_key t) = Some key \<and> length key = 32 \<and>
    decode_binary (sg_signature (tm_signing m)) = Some sig \<and> cr_verify cr key (manifest_digest cr m) sig"
proof -
  obtain t where t: "find_trusted_signer (tm_signing m) trusted = Some t"
    using assms by (auto simp: verify_manifest_def split: option.splits if_splits)
  then have "t \<in> set trusted" "trim_space (ts_id t) = trim_space (sg_signer (tm_signing m))"
    by (auto simp: find_trusted_signer_def find_Some_iff)
  with assms t show ?thesis
    by (auto simp: verify_manifest_def split: option.splits if_splits intro!: bexI [of _ t])
qed

lemma verify_external_runtime:
  "verify_manifest cr m trusted = None \<Longrightarrow> is_external_manifest m \<Longrightarrow>
   external_sandbox_supported (rp_sandbox (tm_runtime m))"
  by (auto simp: verify_manifest_def validate_manifest_def split: option.splits if_splits)

section \<open>The built-in actions\<close>

record action_metadata =
  am_name :: string
  am_label :: string
  am_description :: string
  am_risk :: string
  am_available :: bool
  am_input_schema :: json_map
  am_output_schema :: json_map
  am_input_contracts :: "string list"
  am_output_contracts :: "string list"

definition typed :: "string \<Rightarrow> json" where
  "typed t = JObj [(''type'', JStr t)]"

text \<open>An object schema with its required fields and properties; empty parts are left out.\<close>

definition object_schema :: "string list \<Rightarrow> json_map \<Rightarrow> json_map" where
  "object_schema required properties =
     [(''type'', JStr ''object'')] @ omit_list ''required'' JStr required @ omit_map ''properties'' properties"

definition set_action ::
    "string \<Rightarrow> string \<Rightarrow> string \<Rightarrow> json_map \<Rightarrow> json_map \<Rightarrow> string \<Rightarrow> string \<Rightarrow> action_metadata \<Rightarrow> action_metadata" where
  "set_action label description risk input output ic oc a =
     a\<lparr>am_label := label, am_description := description, am_risk := risk, am_input_schema := input,
       am_output_schema := output, am_input_contracts := [ic], am_output_contracts := [oc]\<rparr>"

definition metadata_for :: "string \<Rightarrow> action_metadata" where
  "metadata_for name0 =
     (let name = trim_space name0;
          a = \<lparr>am_name = name, am_label = name, am_description = ''Runbook action.'', am_risk = ''read'',
               am_available = True, am_input_schema = object_schema [] [], am_output_schema = object_schema [] [],
               am_input_contracts = [''aa.runbook.action_input.v1''], am_output_contracts = []\<rparr>;
          str = typed ''string''; obj = typed ''object''; arr = typed ''array''; bool = typed ''boolean''
      in if name = ''tool.call'' then
           set_action ''Run Tool'' ''Call a harness-exposed context or MCP-backed tool.'' ''tool''
             (object_schema [''name''] [(''name'', str), (''domain_id'', str), (''arguments'', obj)])
             (object_schema [] []) ''aa.external_call_request.v1'' ''aa.external_call_result.v1'' a
         else if name = ''mcp.call'' then
           set_action ''Call MCP Tool'' ''Call an installed MCP tool endpoint.'' ''tool''
             (object_schema [''tool''] [(''server_id'', str), (''endpoint'', str), (''tool'', str), (''arguments'', obj)])
             (object_schema [] []) ''aa.external_call_request.v1'' ''aa.external_call_result.v1'' a
         else if name = ''command.execute'' then
           set_action ''Run Command'' ''Run a configured deterministic command operation.'' ''tool''
             (object_schema [''template_id'']
               [(''template_id'', str), (''parameters'', obj), (''cwd'', str), (''reason'', str)])
             (object_schema [] []) ''aa.command_execute_request.v1'' ''aa.command_result.v1'' a
         else if name = ''data.assert'' then
           set_action ''Assert Data'' ''Gate runbook progression on deterministic input data checks.'' ''validation''
             (object_schema [] [(''path'', str), (''mode'', str), (''value'', JObj []), (''checks'', arr)])
             (object_schema [] [(''passed'', bool), (''checks'', arr)])
             ''aa.validation_request.v1'' ''aa.validation_result.v1'' a
         else if name = ''data.defaults'' then
           set_action ''Apply Defaults'' ''Merge an input object with declarative default values.'' ''validation''
             (object_schema [] [(''input'', obj), (''defaults'', obj)])
             (object_schema [] []) ''aa.runbook.action_input.v1'' ''aa.runbook.action_output.v1'' a
         else if name = ''decision.route'' then
           set_action ''Choose Route'' ''Select one deterministic downstream route from ordered rules.'' ''validation''
             (object_schema [''default''] [(''rules'', arr), (''default'', str)])
             (object_schema [''route'', ''matched''] [(''route'', str), (''rule_id'', str), (''matched'', bool)])
             ''aa.decision_route_request.v1'' ''aa.decision_route_result.v1'' a
         else if name = ''llm.generate'' then
           set_action ''Generate Structured Output''
             ''Call a configured model boundary and require JSON-shaped output.'' ''llm''
             (object_schema [''prompt''] [(''model'', str), (''prompt'', str), (''output_schema'', obj)])
             (object_schema [] []) ''aa.llm_generate_request.v1'' ''aa.llm_generate_result.v1'' a
         else if name = ''runbook.run'' then
           set_action ''Run Runbook'' ''Start a nested runbook definition.'' ''runbook''
             (object_schema [''runbook''] [(''runbook'', str), (''input'', obj)])
             (object_schema [] [(''run_id'', str), (''definition_id'', str), (''status'', str)])
             ''aa.runbook_run_request.v1'' ''aa.runbook_run_result.v1'' a
         else if name = ''runbook.signal'' then
           set_action ''Signal Runbook'' ''Emit a runbook signal.'' ''runbook''
             (object_schema [''signal''] [(''run_id'', str), (''signal'', str), (''payload'', obj)])
             (object_schema [] [(''run_id'', str), (''signal'', str)])
             ''aa.runbook_signal_request.v1'' ''aa.runbook_signal_result.v1'' a
         else if name = ''human.request'' then
           set_action ''Ask User'' ''Create a pending user item through the gateway-facing inbox.'' ''approval''
             (object_schema [''prompt''] [(''prompt'', str), (''payload'', obj)])
             (object_schema [] [(''pending_id'', str)])
             ''aa.human_request.v1'' ''aa.human_request_result.v1'' a
         else if name = ''delay.until'' then
           set_action ''Wait'' ''Pause until a timestamp or duration elapses.'' ''time''
             (object_schema [] [(''until'', str), (''duration'', str)])
             (object_schema [] [(''waited'', str)]) ''aa.wait_request.v1'' ''aa.wait_result.v1'' a
         else a)"

definition effects_for_risk :: "string \<Rightarrow> effects" where
  "effects_for_risk risk =
     (if trim_space risk = ''tool'' \<or> trim_space risk = ''llm''
      then no_effects\<lparr>fx_hosts := [''configured-tool-boundary'']\<rparr> else no_effects)"

definition sandbox_for_action :: "string \<Rightarrow> string" where
  "sandbox_for_action name =
     (let a = trim_space name
      in if a = ''tool.call'' then ''harness-context''
         else if a = ''mcp.call'' then ''mcp''
         else if a = ''command.execute'' then ''command-daemon''
         else if a = ''llm.generate'' then ''model''
         else ''aa-runtime'')"

definition manifest_for_metadata :: "action_metadata \<Rightarrow> tool_manifest" where
  "manifest_for_metadata a =
     \<lparr>tm_id = trim_space (am_name a), tm_version = ''1'', tm_title = trim_space (am_label a),
      tm_description = trim_space (am_description a),
      tm_input = no_contract\<lparr>ct_schema := clone_map (am_input_schema a)\<rparr>,
      tm_output = no_contract\<lparr>ct_schema := clone_map (am_output_schema a)\<rparr>,
      tm_effects = effects_for_risk (am_risk a),
      tm_runtime =
        \<lparr>rp_timeout_ms = 30000, rp_max_input = 0, rp_max_artifact = 0, rp_rate_limit = 0,
         rp_idempotent = False, rp_retryable = (am_risk a \<noteq> ''approval'' \<and> am_risk a \<noteq> ''time''),
         rp_sandbox = sandbox_for_action (am_name a)\<rparr>,
      tm_signing = \<lparr>sg_signer = [], sg_algorithm = [], sg_digest = [], sg_signature = []\<rparr>,
      tm_source = ''aa''\<rparr>"

end
