(* ===== verification/Runbook_Policy.thy ===== *)
theory Runbook_Policy imports Runbook_Manifest begin

text \<open>
  The policy of runbook actions (\<open>runbook/policy/types.go\<close>): which invocations are allowed, need an
  approval or are blocked, and how credentials are taken out of data and texts.
\<close>

section \<open>Credentials\<close>

definition sensitive_key :: "string \<Rightarrow> bool" where
  "sensitive_key key \<longleftrightarrow>
     (let k = to_lower (trim_space key)
      in k = ''password'' \<or> has_suffix k ''_password'' \<or> k = ''secret'' \<or> has_suffix k ''_secret'' \<or>
         k = ''token'' \<or> has_suffix k ''_token'' \<or> k = ''credential'' \<or> has_suffix k ''_credential'' \<or>
         contains_str k ''api_key'' \<or> contains_str k ''access_key'')"

fun contains_sensitive_key :: "json \<Rightarrow> bool" and sensitive_items :: "json list \<Rightarrow> bool"
  and sensitive_fields :: "json_map \<Rightarrow> bool" where
  "contains_sensitive_key (JObj m) = sensitive_fields m"
| "contains_sensitive_key (JArr vs) = sensitive_items vs"
| "contains_sensitive_key v = False"
| "sensitive_items [] = False"
| "sensitive_items (v # vs) = (contains_sensitive_key v \<or> sensitive_items vs)"
| "sensitive_fields [] = False"
| "sensitive_fields ((k, v) # m) = (sensitive_key k \<or> contains_sensitive_key v \<or> sensitive_fields m)"

text \<open>
  The pattern \<open>(?i)(password|secret|token|credential|api[_-]?key|access[_-]?key)\s*[:=]\s*[^,\s;]+\<close>:
  the match at the head of a text is the keyword, blanks, a colon or an equals sign, blanks, and the longest
  nonempty run without comma, blank and semicolon.
\<close>

definition re_space :: "char \<Rightarrow> bool" where
  "re_space c \<longleftrightarrow> rune c \<in> {9, 10, 12, 13, 32}"

definition secret_words :: "string list" where
  "secret_words =
     [''password'', ''secret'', ''token'', ''credential'', ''api_key'', ''api-key'', ''apikey'',
      ''access_key'', ''access-key'', ''accesskey'']"

definition keyword_at :: "string \<Rightarrow> nat option" where
  "keyword_at s = map_option length (List.find (\<lambda>k. has_prefix (to_lower s) k) secret_words)"

definition secret_rune :: "char \<Rightarrow> bool" where
  "secret_rune c \<longleftrightarrow> c \<noteq> CHR '','' \<and> c \<noteq> CHR '';'' \<and> \<not> re_space c"

definition secret_at :: "string \<Rightarrow> (string \<times> string) option" where
  "secret_at s =
     (case keyword_at s of
        None \<Rightarrow> None
      | Some n \<Rightarrow>
          (case dropWhile re_space (drop n s) of
             [] \<Rightarrow> None
           | c # t \<Rightarrow>
               if c \<noteq> CHR '':'' \<and> c \<noteq> CHR ''='' then None
               else let u = dropWhile re_space t
                    in if takeWhile secret_rune u = [] then None
                       else Some (take n s, dropWhile secret_rune u)))"

lemma secret_at_shorter:
  assumes "secret_at s = Some (k, r)"
  shows "length r < length s"
proof -
  obtain n c t where n: "keyword_at s = Some n" "dropWhile re_space (drop n s) = c # t"
    and r: "r = dropWhile secret_rune (dropWhile re_space t)"
    using assms by (auto simp: secret_at_def Let_def split: option.splits list.splits if_splits)
  have "length r \<le> length t"
    using r length_dropWhile_le [of secret_rune "dropWhile re_space t"] length_dropWhile_le [of re_space t]
    by simp
  moreover have "length (c # t) \<le> length s"
    using n(2) length_dropWhile_le [of re_space "drop n s"] by simp
  ultimately show ?thesis by simp
qed

function redact_string :: "string \<Rightarrow> string" where
  "redact_string s =
     (case secret_at s of
        Some (k, r) \<Rightarrow> k @ ''=[REDACTED]'' @ redact_string r
      | None \<Rightarrow> (case s of [] \<Rightarrow> [] | c # t \<Rightarrow> c # redact_string t))"
  by pat_completeness auto
termination
  by (relation "measure length") (auto dest: secret_at_shorter)

declare redact_string.simps [simp del]

fun redact_sensitive :: "json \<Rightarrow> json" and redact_items :: "json list \<Rightarrow> json list"
  and redact_fields :: "json_map \<Rightarrow> json_map" where
  "redact_sensitive (JObj m) = JObj (redact_fields m)"
| "redact_sensitive (JArr vs) = JArr (redact_items vs)"
| "redact_sensitive (JStr s) = JStr (redact_string s)"
| "redact_sensitive v = v"
| "redact_items [] = []"
| "redact_items (v # vs) = redact_sensitive v # redact_items vs"
| "redact_fields [] = []"
| "redact_fields ((k, v) # m) =
     (k, if sensitive_key k then JStr ''[REDACTED]'' else redact_sensitive v) # redact_fields m"

fun omit_sensitive :: "json \<Rightarrow> json" and omit_items :: "json list \<Rightarrow> json list"
  and omit_fields :: "json_map \<Rightarrow> json_map" where
  "omit_sensitive (JObj m) = JObj (omit_fields m)"
| "omit_sensitive (JArr vs) = JArr (omit_items vs)"
| "omit_sensitive v = v"
| "omit_items [] = []"
| "omit_items (v # vs) = omit_sensitive v # omit_items vs"
| "omit_fields [] = []"
| "omit_fields ((k, v) # m) =
     (if sensitive_key k then omit_fields m else (k, omit_sensitive v) # omit_fields m)"

lemma omit_sensitive_clean:
  "\<not> contains_sensitive_key (omit_sensitive v)" "\<not> sensitive_items (omit_items vs)"
  "\<not> sensitive_fields (omit_fields m)"
  by (induction v and vs and m rule: omit_sensitive_omit_items_omit_fields.induct) auto

lemma omit_sensitive_id:
  "\<not> contains_sensitive_key v \<Longrightarrow> omit_sensitive v = v"
  "\<not> sensitive_items vs \<Longrightarrow> omit_items vs = vs"
  "\<not> sensitive_fields m \<Longrightarrow> omit_fields m = m"
  by (induction v and vs and m rule: omit_sensitive_omit_items_omit_fields.induct) auto

text \<open>Data without credentials: what a credential-like key holds is blanked, and texts are redacted.\<close>

inductive redacted :: "json \<Rightarrow> bool" where
  red_null: "redacted JNull"
| red_bool: "redacted (JBool b)"
| red_int: "redacted (JInt i)"
| red_float: "redacted (JFloat f)"
| red_str: "redacted (JStr (redact_string s))"
| red_arr: "\<forall>v\<in>set vs. redacted v \<Longrightarrow> redacted (JArr vs)"
| red_obj: "\<forall>(k, v)\<in>set m. if sensitive_key k then v = JStr ''[REDACTED]'' else redacted v \<Longrightarrow>
    redacted (JObj m)"

lemma redact_sensitive_redacted:
  "redacted (redact_sensitive v)" "\<forall>v\<in>set (redact_items vs). redacted v"
  "\<forall>(k, v)\<in>set (redact_fields m). if sensitive_key k then v = JStr ''[REDACTED]'' else redacted v"
  by (induction v and vs and m rule: redact_sensitive_redact_items_redact_fields.induct)
     (auto intro: redacted.intros)

section \<open>Decisions\<close>

record decision =
  de_status :: string
  de_reasons :: "string list"

definition decision_allowed :: "decision \<Rightarrow> bool" where
  "decision_allowed d \<longleftrightarrow> trim_space (de_status d) = [] \<or> de_status d = ''allowed''"

definition contains_untrusted_text :: "envelope \<Rightarrow> bool" where
  "contains_untrusted_text e \<longleftrightarrow>
     equal_fold (trim_space (field_str (ev_facets e) ''trust.level'')) ''untrusted'' \<or>
     equal_fold (trim_space (field_str (ev_facets e) ''source.trust'')) ''untrusted''"

definition has_filesystem_write :: "effects \<Rightarrow> bool" where
  "has_filesystem_write fx \<longleftrightarrow> fx_write fx \<noteq> []"

definition has_network_effects :: "effects \<Rightarrow> bool" where
  "has_network_effects fx \<longleftrightarrow> fx_hosts fx \<noteq> []"

definition non_aa_effects :: "effects \<Rightarrow> bool" where
  "non_aa_effects fx \<longleftrightarrow> fx_read fx \<noteq> [] \<or> fx_write fx \<noteq> [] \<or> fx_hosts fx \<noteq> [] \<or> fx_secrets fx \<noteq> []"

definition runtime_sandbox_reason :: "effects \<Rightarrow> runtime_policy \<Rightarrow> string" where
  "runtime_sandbox_reason fx rt =
     (let s = trim_space (rp_sandbox rt)
      in if s \<noteq> [] \<and> \<not> sandbox_supported s then ''runtime sandbox '' @ s @ '' is not supported''
         else if s = [] \<and> non_aa_effects fx then ''effectful nodes must declare a runtime sandbox''
         else if s = ''aa-runtime'' \<and> non_aa_effects fx
         then ''aa-runtime sandbox cannot execute network, filesystem, or secret effects''
         else [])"

definition has_wildcard_network :: "effects \<Rightarrow> bool" where
  "has_wildcard_network fx \<longleftrightarrow>
     (\<exists>h\<in>set (fx_hosts fx). to_lower (trim_space h) \<in> {''*'', ''0.0.0.0/0'', ''::/0''})"

definition block_reasons :: "string \<Rightarrow> envelope \<Rightarrow> effects \<Rightarrow> runtime_policy \<Rightarrow> string list" where
  "block_reasons now e fx rt =
     (let sandbox = runtime_sandbox_reason fx rt; untrusted = contains_untrusted_text e
      in (if sandbox \<noteq> [] then [sandbox] else []) @
         (if has_wildcard_network fx then [''network effects must declare bounded hosts''] else []) @
         (if untrusted \<and> has_filesystem_write fx
          then [''untrusted text cannot flow directly into filesystem write effects''] else []) @
         (if untrusted \<and> has_network_effects fx
          then [''untrusted text cannot flow directly into network effects''] else []) @
         (if untrusted \<and> fx_secrets fx \<noteq> []
          then [''untrusted text cannot flow directly into secret-using effects''] else []) @
         (if contains_sensitive_key (JObj (to_map now e)) \<and> (has_network_effects fx \<or> has_filesystem_write fx)
          then [''credential-like data cannot flow into network or filesystem write effects''] else []))"

definition evaluate_invocation :: "string \<Rightarrow> envelope \<Rightarrow> effects \<Rightarrow> runtime_policy \<Rightarrow> decision" where
  "evaluate_invocation now e fx rt =
     (if block_reasons now e fx rt \<noteq> []
      then \<lparr>de_status = ''blocked'', de_reasons = block_reasons now e fx rt\<rparr>
      else if fx_confirm fx \<noteq> [] \<or> fx_secrets fx \<noteq> []
      then \<lparr>de_status = ''needs_approval'',
            de_reasons = [''node declares user-confirmed or secret-using effects'']\<rparr>
      else \<lparr>de_status = ''allowed'', de_reasons = []\<rparr>)"

definition sanitize_llm_input :: "string \<Rightarrow> envelope \<Rightarrow> envelope" where
  "sanitize_llm_input now e =
     (let m = (case omit_sensitive (redact_sensitive (JObj (to_map now e))) of JObj m \<Rightarrow> Some m | _ \<Rightarrow> None);
          s = set_facet now ''llm.input_sanitized'' (JBool True) (from_map now m)
      in if contains_untrusted_text e then set_facet now ''llm.untrusted_input'' (JBool True) s else s)"

lemma evaluate_invocation_allowed:
  "decision_allowed (evaluate_invocation now e fx rt) \<longleftrightarrow>
   block_reasons now e fx rt = [] \<and> fx_confirm fx = [] \<and> fx_secrets fx = []"
proof -
  have "trim_space ''allowed'' \<noteq> []" "trim_space ''blocked'' \<noteq> []" "trim_space ''needs_approval'' \<noteq> []"
    by code_simp+
  then show ?thesis by (simp add: evaluate_invocation_def decision_allowed_def)
qed

section \<open>What reaches a model\<close>

text \<open>Copying keeps the keys; an envelope is clean when no map in it has a credential-like key.\<close>

lemma json_copy_sensitive:
  "json_copy v = Some w \<Longrightarrow> contains_sensitive_key w = contains_sensitive_key v"
  "json_copies vs = Some ws \<Longrightarrow> sensitive_items ws = sensitive_items vs"
  "json_fields_copy m = Some c \<Longrightarrow> sensitive_fields c = sensitive_fields m"
  by (induction v and vs and m arbitrary: w and ws and c rule: json_copy_json_copies_json_fields_copy.induct)
     (auto split: option.splits)

lemma sensitive_fields_iff:
  "sensitive_fields m \<longleftrightarrow> (\<exists>(k, v)\<in>set m. sensitive_key k \<or> contains_sensitive_key v)"
  by (induction m) auto

lemma sensitive_items_iff: "sensitive_items vs \<longleftrightarrow> (\<exists>v\<in>set vs. contains_sensitive_key v)"
  by (induction vs) auto

lemma clean_field: "\<not> sensitive_fields m \<Longrightarrow> map_of m k = Some v \<Longrightarrow> \<not> contains_sensitive_key v"
  by (auto simp: sensitive_fields_iff dest!: map_of_SomeD)

definition clean_envelope :: "envelope \<Rightarrow> bool" where
  "clean_envelope e \<longleftrightarrow>
     \<not> contains_sensitive_key (eb_value (ev_body e)) \<and> \<not> sensitive_fields (ev_facets e) \<and>
     \<not> sensitive_fields (ev_variables e) \<and> \<not> sensitive_fields (em_security (ev_meta e))"

lemma dec_map_clean: "\<not> sensitive_fields m \<Longrightarrow> dec_map m k = Some c \<Longrightarrow> \<not> sensitive_fields c"
  by (auto simp: dec_map_def split: option.splits json.splits dest!: clean_field [of m k])

lemma dec_envelope_clean:
  assumes "dec_envelope m = Some e" "\<not> sensitive_fields m"
  shows "clean_envelope e"
proof -
  obtain mm bm where m: "dec_map m ''meta'' = Some mm" "dec_metadata mm = Some (ev_meta e)"
    and b: "dec_map m ''body'' = Some bm" "dec_body bm = Some (ev_body e)"
    and f: "dec_map m ''facets'' = Some (ev_facets e)" "dec_map m ''variables'' = Some (ev_variables e)"
    using assms(1) by (auto simp: dec_envelope_def bind_eq_Some_conv)
  have "dec_map mm ''security_context'' = Some (em_security (ev_meta e))"
    using m(2) by (auto simp: dec_metadata_def bind_eq_Some_conv dest!: sym [of _ "ev_meta e"])
  moreover have "eb_value (ev_body e) = dec_any bm ''value''"
    using b(2) by (auto simp: dec_body_def dest!: sym [of _ "ev_body e"])
  ultimately show ?thesis
    using dec_map_clean [OF assms(2)] m(1) b(1) f dec_map_clean [of mm] clean_field [of bm "''value''"]
    by (auto simp: clean_envelope_def dec_any_def split: option.splits)
qed

lemma clone_any_clean: "contains_sensitive_key (clone_any v) = contains_sensitive_key v"
  by (auto simp: clone_any_def json_copy_sensitive split: option.splits)

lemma normalize_envelope_clean [simp]: "clean_envelope (normalize_envelope now e) = clean_envelope e"
  by (simp add: clean_envelope_def normalize_envelope_def Let_def)

lemma from_map_clean:
  assumes "\<not> sensitive_fields m"
  shows "clean_envelope (from_map now (Some m))"
proof -
  have "clean_envelope (wrap_value now (JObj m))"
    using assms by (simp add: wrap_value_def new_envelope_def clean_envelope_def clone_any_clean)
  moreover have "clean_envelope e" if "Option.bind (json_fields_copy m) dec_envelope = Some e" for e
    using that assms dec_envelope_clean json_copy_sensitive(3) by (auto simp: bind_eq_Some_conv)
  ultimately show ?thesis
    by (auto simp: from_map_def split: option.splits if_splits)
qed

lemma set_facet_clean:
  assumes "clean_envelope e" "\<not> sensitive_key (trim_space name)" "\<not> contains_sensitive_key v"
  shows "clean_envelope (set_facet now name v e)"
proof -
  have "\<not> sensitive_fields (put k w m)" if "\<not> sensitive_fields m" "\<not> sensitive_key k" "\<not> contains_sensitive_key w"
    for k w and m :: json_map
    using that by (induction m) auto
  moreover have "\<not> contains_sensitive_key (clone_any v)"
    using assms(3) by (simp add: clone_any_clean)
  ultimately show ?thesis
    using assms by (simp add: set_facet_def Let_def clean_envelope_def normalize_envelope_def)
qed

text \<open>Lower case names without blanks are compared as they are.\<close>

definition plain_name :: "string \<Rightarrow> bool" where
  "plain_name k \<longleftrightarrow> list_all (\<lambda>c. c \<in> set ''abcdefghijklmnopqrstuvwxyz_.'') k"

lemma plain_runes: "\<forall>c\<in>set ''abcdefghijklmnopqrstuvwxyz_.''. lower_rune c = c \<and> \<not> is_space c"
  by code_simp

lemma plain_name_same: "plain_name k \<Longrightarrow> to_lower (trim_space k) = k"
proof -
  assume "plain_name k"
  then have k: "\<forall>c\<in>set k. lower_rune c = c \<and> \<not> is_space c"
    using plain_runes by (auto simp only: plain_name_def list_all_iff)
  then have "trim_space k = k" by (simp add: trim_space_id)
  moreover have "map lower_rune k = k" using k by (simp add: map_idI)
  ultimately show ?thesis by (simp add: to_lower_def)
qed

lemma struct_names_clean:
  "\<forall>k\<in>set [''meta'', ''body'', ''facets'', ''artifacts'', ''variables'', ''diagnostics'', ''control'', ''schema_ref'',
     ''runbook_run_id'', ''node_run_id'', ''correlation_id'', ''causation_id'', ''tenant_id'', ''user_id'',
     ''attempt'', ''created_at'', ''security_context'', ''provenance'', ''source_node_id'', ''field'', ''digest'',
     ''id'', ''media_type'', ''name'', ''size'', ''uri'', ''severity'', ''code'', ''path'', ''message'', ''kind'',
     ''value'', ''status'', ''suggested_trigger'', ''llm.input_sanitized'', ''llm.untrusted_input'']. \<not> sensitive_key k"
  by (simp add: sensitive_key_def plain_name_same plain_name_def has_suffix_def)

lemmas struct_names = struct_names_clean [simplified]

lemma sensitive_append: "sensitive_fields (m @ c) \<longleftrightarrow> sensitive_fields m \<or> sensitive_fields c"
  by (auto simp: sensitive_fields_iff)

lemma sensitive_parts:
  "sensitive_fields (omit_str k s) \<longleftrightarrow> s \<noteq> [] \<and> sensitive_key k"
  "sensitive_fields (omit_int k i) \<longleftrightarrow> i \<noteq> 0 \<and> sensitive_key k"
  "sensitive_fields (omit_map k m) \<longleftrightarrow> m \<noteq> [] \<and> (sensitive_key k \<or> sensitive_fields m)"
  "sensitive_fields (omit_any k v) \<longleftrightarrow> v \<noteq> JNull \<and> (sensitive_key k \<or> contains_sensitive_key v)"
  "sensitive_fields (omit_list k f xs) \<longleftrightarrow>
     xs \<noteq> [] \<and> (sensitive_key k \<or> (\<exists>x\<in>set xs. contains_sensitive_key (f x)))"
  by (simp_all add: omit_str_def omit_int_def omit_map_def omit_any_def omit_list_def sensitive_items_iff)

lemma envelope_json_clean:
  assumes "clean_envelope e"
  shows "\<not> sensitive_fields (envelope_json e)"
proof -
  have "\<not> contains_sensitive_key (provenance_json p)" "\<not> contains_sensitive_key (artifact_json a)"
    "\<not> contains_sensitive_key (diagnostic_json d)" "\<not> contains_sensitive_key (control_json c)" for p a d c
    by (simp_all add: provenance_json_def artifact_json_def diagnostic_json_def control_json_def
        sensitive_append sensitive_parts struct_names)
  then show ?thesis
    using assms
    by (simp add: envelope_json_def metadata_json_def body_json_def clean_envelope_def sensitive_append sensitive_parts struct_names)
qed

lemma to_map_clean:
  assumes "clean_envelope e"
  shows "\<not> sensitive_fields (to_map now e)"
proof -
  have "\<not> sensitive_fields (envelope_json (normalize_envelope now e))"
    using assms by (simp add: envelope_json_clean)
  then show ?thesis
    by (auto simp: to_map_def clone_map_def json_copy_sensitive split: option.splits)
qed

lemma sanitize_llm_input_clean: "\<not> sensitive_fields (to_map now' (sanitize_llm_input now e))"
proof -
  define m where "m = omit_fields (redact_fields (to_map now e))"
  have "\<not> sensitive_fields m" by (simp add: m_def omit_sensitive_clean)
  then have c: "clean_envelope (from_map now (Some m))" by (rule from_map_clean)
  have "\<not> sensitive_key (trim_space ''llm.input_sanitized'')" "\<not> sensitive_key (trim_space ''llm.untrusted_input'')"
    using struct_names by (simp_all add: sensitive_key_def)
  then have "clean_envelope (sanitize_llm_input now e)"
    using c by (simp add: sanitize_llm_input_def Let_def m_def set_facet_clean)
  then show ?thesis by (rule to_map_clean)
qed

end
