(* ===== verification/Runbook_Decision.thy ===== *)
theory Runbook_Decision imports Runbook_Envelope begin

text \<open>
  Decision tables (\<open>runbook/decision\<close>, \<open>runbook/expr\<close>): ordered rules with a condition each, of which the
  first that holds gives the route. The evaluator of CEL expressions is not part of the sources; it is
  the parameter \<open>cel\<close>, from an expression and its variables to a value or an error text.
\<close>

type_synonym cel = "string \<Rightarrow> json_map \<Rightarrow> string + json"

record decision_when =
  wh_expr :: string
  wh_path :: string

record decision_rule =
  dr_id :: string
  dr_route :: string
  dr_when :: decision_when

record decision_definition =
  dd_rules :: "decision_rule list"
  dd_default :: string

record decision_result =
  rr_route :: string
  rr_rule :: string
  rr_matched :: bool

definition dec_when :: "json_map \<Rightarrow> decision_when option" where
  "dec_when m =
     Option.bind (dec_str m ''expr'') (\<lambda>a.
     Option.bind (dec_str m ''path'') (\<lambda>b. Some \<lparr>wh_expr = a, wh_path = b\<rparr>))"

definition dec_rule :: "json_map \<Rightarrow> decision_rule option" where
  "dec_rule m =
     Option.bind (dec_str m ''id'') (\<lambda>a.
     Option.bind (dec_str m ''route'') (\<lambda>b.
     Option.bind (Option.bind (dec_map m ''when'') dec_when) (\<lambda>c.
     Some \<lparr>dr_id = a, dr_route = b, dr_when = c\<rparr>)))"

definition decision_from_map :: "json_map \<Rightarrow> string + decision_definition" where
  "decision_from_map args =
     (case json_fields_copy args of
        None \<Rightarrow> Inl ''encode decision definition''
      | Some m \<Rightarrow>
          (case Option.bind (dec_list dec_rule m ''rules'') (\<lambda>rs.
                map_option (\<lambda>d. \<lparr>dd_rules = rs, dd_default = d\<rparr>) (dec_str m ''default'')) of
             None \<Rightarrow> Inl ''decode decision definition''
           | Some d \<Rightarrow> Inr d))"

section \<open>Checks\<close>

definition validate_when_at :: "decision_when \<Rightarrow> bool \<Rightarrow> string \<Rightarrow> string option" where
  "validate_when_at w required path =
     (let has_expr = trim_space (wh_expr w) \<noteq> []; has_path = trim_space (wh_path w) \<noteq> []
      in if has_expr \<and> has_path then Some (path @ '' must declare expr or path, not both'')
         else if required \<and> \<not> has_expr \<and> \<not> has_path then Some (path @ '' must declare expr or path'')
         else None)"

definition validate_when :: "decision_when \<Rightarrow> string option" where
  "validate_when w = validate_when_at w False ''when''"

fun validate_rules :: "nat \<Rightarrow> decision_rule list \<Rightarrow> string list \<Rightarrow> string option" where
  "validate_rules i [] seen = None"
| "validate_rules i (r # rs) seen =
     (let path = ''rules.'' @ nat_str i; rid = trim_space (dr_id r)
      in if trim_space (dr_route r) = [] then Some (path @ ''.route is required'')
         else if rid \<noteq> [] \<and> rid \<in> set seen
         then Some (''decision rule id '' @ go_quote (dr_id r) @ '' is duplicated'')
         else case validate_when_at (dr_when r) True (path @ ''.when'') of
                Some e \<Rightarrow> Some e
              | None \<Rightarrow> validate_rules (Suc i) rs (if rid \<noteq> [] then rid # seen else seen))"

definition validate_decision :: "decision_definition \<Rightarrow> string option" where
  "validate_decision d =
     (if trim_space (dd_default d) = [] then Some ''decision default route is required''
      else validate_rules 0 (dd_rules d) [])"

section \<open>Evaluation\<close>

definition truthy :: "json \<Rightarrow> bool" where
  "truthy v =
     (case v of
        JNull \<Rightarrow> False | JBool b \<Rightarrow> b | JStr s \<Rightarrow> trim_space s \<noteq> []
      | JArr vs \<Rightarrow> vs \<noteq> [] | JObj m \<Rightarrow> m \<noteq> [] | _ \<Rightarrow> True)"

definition variables_from_envelopes :: "string \<Rightarrow> envelope \<Rightarrow> envelope \<Rightarrow> json_map" where
  "variables_from_envelopes now input output =
     [(''input'', JObj (to_map now input)), (''output'', JObj (to_map now output))]"

definition evaluate_bool :: "cel \<Rightarrow> string \<Rightarrow> json_map \<Rightarrow> string + bool" where
  "evaluate_bool cel expression vars = res_map truthy (cel (trim_space expression) vars)"

definition lookup_path :: "string \<Rightarrow> envelope \<Rightarrow> string \<Rightarrow> json option" where
  "lookup_path now e path =
     (let t = trim_space path
      in if t = [] then None
         else if has_prefix t ''input.facets.''
         then let key = trim_prefix t ''input.facets.''
              in case map_of (ev_facets e) key of
                   Some v \<Rightarrow> Some v | None \<Rightarrow> dotted (JObj (ev_facets e)) key
         else if has_prefix t ''input.body.''
         then dotted (JObj [(''kind'', JStr (eb_kind (ev_body e))), (''value'', eb_value (ev_body e))])
                (trim_prefix t ''input.body.'')
         else if has_prefix t ''input.'' then dotted (JObj (to_map now e)) (trim_prefix t ''input.'')
         else dotted (eb_value (ev_body e)) t)"

definition match_when :: "cel \<Rightarrow> string \<Rightarrow> decision_when \<Rightarrow> envelope \<Rightarrow> string + bool" where
  "match_when cel now w input0 =
     (case validate_when w of
        Some e \<Rightarrow> Inl e
      | None \<Rightarrow>
          let input = normalize_envelope now input0; m = ev_meta input
          in if trim_space (wh_expr w) \<noteq> []
             then evaluate_bool cel (wh_expr w)
                    (variables_from_envelopes now input
                      (empty_envelope now (em_run_id m) (em_node_id m) (em_attempt m)))
             else if trim_space (wh_path w) \<noteq> []
             then (case lookup_path now input (wh_path w) of Some v \<Rightarrow> Inr (truthy v) | None \<Rightarrow> Inr False)
             else Inr True)"

definition rule_identity :: "decision_rule \<Rightarrow> nat \<Rightarrow> string" where
  "rule_identity r i =
     (if trim_space (dr_id r) \<noteq> [] then trim_space (dr_id r) else ''rule_'' @ nat_str (i + 1))"

fun first_rule ::
    "cel \<Rightarrow> string \<Rightarrow> nat \<Rightarrow> decision_rule list \<Rightarrow> string \<Rightarrow> envelope \<Rightarrow> string + decision_result" where
  "first_rule cel now i [] fallback input =
     Inr \<lparr>rr_route = trim_space fallback, rr_rule = [], rr_matched = False\<rparr>"
| "first_rule cel now i (r # rs) fallback input =
     (case match_when cel now (dr_when r) input of
        Inl e \<Rightarrow> Inl (''decision rule '' @ go_quote (rule_identity r i) @ '': '' @ e)
      | Inr True \<Rightarrow> Inr \<lparr>rr_route = trim_space (dr_route r), rr_rule = rule_identity r i, rr_matched = True\<rparr>
      | Inr False \<Rightarrow> first_rule cel now (Suc i) rs fallback input)"

definition evaluate_decision ::
    "cel \<Rightarrow> string \<Rightarrow> decision_definition \<Rightarrow> envelope \<Rightarrow> string + decision_result" where
  "evaluate_decision cel now d input =
     (case validate_decision d of
        Some e \<Rightarrow> Inl e
      | None \<Rightarrow> first_rule cel now 0 (dd_rules d) (dd_default d) (normalize_envelope now input))"

definition output_envelope :: "string \<Rightarrow> string \<Rightarrow> string \<Rightarrow> int \<Rightarrow> decision_result \<Rightarrow> envelope" where
  "output_envelope now run_id node_id attempt r =
     (let body = [(''route'', JStr (rr_route r)), (''matched'', JBool (rr_matched r))] @
                 (if trim_space (rr_rule r) \<noteq> [] then [(''rule_id'', JStr (trim_space (rr_rule r)))] else []);
          e = set_facet now ''decision.route'' (JStr (rr_route r))
                (new_envelope now run_id node_id attempt (JObj body));
          e = (if trim_space (rr_rule r) \<noteq> [] then set_facet now ''decision.rule_id'' (JStr (rr_rule r)) e else e)
      in e\<lparr>ev_control := (ev_control e)\<lparr>ec_trigger := rr_route r\<rparr>\<rparr>)"

section \<open>First match\<close>

text \<open>The route of a decision is that of the first rule that holds, or else the default.\<close>

lemma first_rule_result:
  assumes "first_rule cel now i rs fallback input = Inr r"
  shows "if rr_matched r
     then \<exists>k<length rs. match_when cel now (dr_when (rs ! k)) input = Inr True \<and>
            rr_route r = trim_space (dr_route (rs ! k)) \<and> rr_rule r = rule_identity (rs ! k) (i + k) \<and>
            (\<forall>j<k. match_when cel now (dr_when (rs ! j)) input = Inr False)
     else rr_route r = trim_space fallback \<and>
          (\<forall>q\<in>set rs. match_when cel now (dr_when q) input = Inr False)"
  using assms
proof (induction cel now i rs fallback input arbitrary: r rule: first_rule.induct)
  case (2 cel now i q rs fallback input)
  show ?case
  proof (cases "match_when cel now (dr_when q) input")
    case (Inr b)
    show ?thesis
    proof (cases b)
      case True
      then show ?thesis using 2(2) Inr by (auto intro!: exI [of _ 0])
    next
      case False
      then have "first_rule cel now (Suc i) rs fallback input = Inr r" using 2(2) Inr by simp
      note IH = 2(1) [OF Inr _ this, simplified False, simplified]
      show ?thesis
      proof (cases "rr_matched r")
        case True
        then obtain k where "k < length rs" "match_when cel now (dr_when (rs ! k)) input = Inr True"
          "rr_route r = trim_space (dr_route (rs ! k))" "rr_rule r = rule_identity (rs ! k) (Suc i + k)"
          "\<forall>j<k. match_when cel now (dr_when (rs ! j)) input = Inr False"
          using IH by auto
        then show ?thesis
          using True Inr False by (auto intro!: exI [of _ "Suc k"] simp: nth_Cons split: nat.splits)
      qed (use IH Inr False in auto)
    qed
  qed (use 2(2) in simp)
qed auto

end
