(* ===== verification/Runbook_Host.thy ===== *)
theory Runbook_Host imports Runbook_Store Runbook_Policy Runbook_Decision begin

text \<open>
  The operations of the runbook service that its API and its actions call: service.go (start, cancel,
  signal), action_host.go, event_logging.go, ids.go and the node life cycle and the approvals of
  execution_helpers.go, all under \<open>runbook/runtime\<close>.

  Everything outside the service is the \<open>environment\<close>: the clock, the random source, the definition
  files, the answers of tools, models and commands, and the API calls that other clients make
  while such an answer is awaited. Each answer is numbered by the tick of the state.
\<close>

datatype api_call =
    ApiStart string json_map
  | ApiCancel string
  | ApiSignal string string json_map

record tool_request =
  tq_name :: string
  tq_domain :: string
  tq_arguments :: "json_map option"

record mcp_request =
  mq_server :: string
  mq_endpoint :: string
  mq_tool :: string
  mq_arguments :: "json_map option"

record command_request =
  cq_template :: string
  cq_parameters :: "json_map option"
  cq_working_dir :: string
  cq_reason :: string
  cq_actor :: string
  cq_session :: string

record llm_request =
  lq_model :: string
  lq_prompt :: string
  lq_input :: json_map
  lq_schema :: "json_map option"

datatype external_call =
  CallTool tool_request | CallMCP mcp_request | CallCommand command_request | CallModel llm_request

text \<open>
  An external call may never return (None), fail with a text, or give a map or Go's nil. The
  services for models and commands may not be configured.
\<close>

record environment =
  ho_clock :: "nat \<Rightarrow> gotime"
  ho_random :: "nat \<Rightarrow> string option"
  ho_files :: "nat \<Rightarrow> (string \<times> string option) list option"
  ho_codec :: definition_codec
  ho_directory :: string
  ho_skip_invalid :: bool
  ho_external :: "nat \<Rightarrow> external_call \<Rightarrow> (string + json_map option) option"
  ho_meanwhile :: "nat \<Rightarrow> api_call list"
  ho_cel :: cel
  ho_shape_hash :: "json_map \<Rightarrow> string"
  ho_llm :: bool
  ho_commands :: bool
  ho_mcp :: "(string \<times> string) list"

section \<open>Events, identifiers, definitions\<close>

text \<open>
  Values that are Go slices of strings (\<open>raw\<close>) are left as they are: \<open>RedactSensitive\<close> knows only \<open>[]any\<close>.
\<close>

definition append_event_with ::
    "environment \<Rightarrow> string \<Rightarrow> string \<Rightarrow> string \<Rightarrow> json_map \<Rightarrow> (string \<times> string list) list \<Rightarrow>
     unit service_run" where
  "append_event_with en rid etype message data raw =
     append_event_row (ho_clock en) rid etype (redact_string message)
       (redact_fields data @
        map (\<lambda>(k, vs). (k, if vs = [] then JNull else JArr (map JStr vs)))
          (filter (\<lambda>(k, vs). \<not> sensitive_key k) raw))"

definition append_event ::
    "environment \<Rightarrow> string \<Rightarrow> string \<Rightarrow> string \<Rightarrow> json_map \<Rightarrow> unit service_run" where
  "append_event en rid etype message data = append_event_with en rid etype message data []"

definition random_id :: "environment \<Rightarrow> string \<Rightarrow> string service_run" where
  "random_id en prefix =
     run_bind (answer (ho_random en)) (\<lambda>r.
       case r of
         None \<Rightarrow> fail (''create '' @ prefix @ '' id: no randomness'')
       | Some x \<Rightarrow> run_ret (prefix @ ''_'' @ x))"

text \<open>
  The definitions are loaded again when the files have changed; loading unchanged files gives the
  definitions there are.
\<close>

definition sync_definitions :: "environment \<Rightarrow> unit service_run" where
  "sync_definitions en =
     run_bind (answer (ho_files en)) (\<lambda>entries.
       case load_directory (ho_codec en) (ho_skip_invalid en) (ho_directory en) entries of
         Inl e \<Rightarrow> fail e
       | Inr (loaded, warnings) \<Rightarrow>
           modify (\<lambda>s. s\<lparr>rb_definitions :=
             map (\<lambda>l. (df_id (ld_definition l), ld_definition l)) loaded\<rparr>))"

definition describe_definition :: "service_state \<Rightarrow> string \<Rightarrow> runbook_definition option" where
  "describe_definition s did = map_of (rb_definitions s) (trim_space did)"

section \<open>The life cycle of a node\<close>

datatype node_trigger = NodeStart | NodeSucceed | NodeFail | NodeSkip

definition trigger_text :: "node_trigger \<Rightarrow> string" where
  "trigger_text t =
     (case t of NodeStart \<Rightarrow> ''start'' | NodeSucceed \<Rightarrow> ''succeed'' | NodeFail \<Rightarrow> ''fail'' | NodeSkip \<Rightarrow> ''skip'')"

text \<open>The machine that \<open>fireNodeStateTrigger\<close> configures.\<close>

definition next_status :: "string \<Rightarrow> node_trigger \<Rightarrow> string option" where
  "next_status current t =
     (if current = ''pending'' then
        (case t of NodeStart \<Rightarrow> Some ''running'' | NodeSkip \<Rightarrow> Some ''skipped'' | _ \<Rightarrow> None)
      else if current = ''running'' then
        (case t of NodeStart \<Rightarrow> Some ''running'' | NodeSucceed \<Rightarrow> Some ''succeeded'' | NodeFail \<Rightarrow> Some ''failed''
         | NodeSkip \<Rightarrow> None)
      else None)"

definition fire_node_state_trigger ::
    "environment \<Rightarrow> string \<Rightarrow> string \<Rightarrow> node_trigger \<Rightarrow> int \<Rightarrow> json_map \<Rightarrow> string \<Rightarrow> unit service_run" where
  "fire_node_state_trigger en rid sid t attempts output message s =
     (let current = (case get_node_state s rid sid of Some n \<Rightarrow> ns_status n | None \<Rightarrow> ''pending'');
          label = ''node state '' @ go_quote sid @ '' transition '' @ go_quote (trigger_text t) @
                  '' from '' @ go_quote current
      in case next_status current t of
           None \<Rightarrow> (Inl (Fault (Failed (label @ '': not permitted''))), s)
         | Some next \<Rightarrow>
             if next = ''running'' then mark_running (ho_clock en) rid sid attempts s
             else if next = ''succeeded'' then mark_succeeded (ho_clock en) rid sid attempts output s
             else if next = ''failed'' then mark_failed (ho_clock en) rid sid attempts message s
             else mark_skipped (ho_clock en) rid sid attempts output s)"

definition node_state_attempts :: "service_state \<Rightarrow> string \<Rightarrow> string \<Rightarrow> int" where
  "node_state_attempts s rid sid =
     (case get_node_state s rid sid of
        None \<Rightarrow> 0
      | Some n \<Rightarrow> if ns_status n = ''running'' \<and> ns_attempts n > 0 then ns_attempts n - 1 else ns_attempts n)"

section \<open>Starting, cancelling, signalling\<close>

definition start_runbook :: "environment \<Rightarrow> string \<Rightarrow> json_map \<Rightarrow> run_record service_run" where
  "start_runbook en did input =
     run_bind (sync_definitions en) (\<lambda>_.
     run_bind (run_read (\<lambda>s. Inr (describe_definition s did))) (\<lambda>def.
       case def of
         None \<Rightarrow> fail (''runbook definition '' @ go_quote did @ '' not found'')
       | Some d \<Rightarrow>
           run_bind (random_id en ''run'') (\<lambda>rid.
           run_bind (create_run (ho_clock en)
             \<lparr>ru_id = rid, ru_definition = df_id d, ru_kind = df_kind d, ru_status = ''running'',
              ru_state = ''running'', ru_input = input, ru_output = [], ru_created = [], ru_updated = []\<rparr>) (\<lambda>_.
           run_bind (ignore (append_event en rid ''run_started'' ''runbook run started''
             [(''definition_id'', JStr (df_id d))])) (\<lambda>_.
           run_bind (modify (\<lambda>s. s\<lparr>rb_started := rb_started s @ [rid]\<rparr>)) (\<lambda>_.
           get_run rid))))))"

definition cancel_run :: "environment \<Rightarrow> string \<Rightarrow> run_record service_run" where
  "cancel_run en rid =
     run_bind (get_run (trim_space rid)) (\<lambda>r.
     run_bind (update_run_state (ho_clock en) (ru_id r) ''canceled'' (ru_state r) (ru_output r)) (\<lambda>_.
     run_bind (ignore (append_event en (ru_id r) ''run_canceled'' ''runbook run canceled'' [])) (\<lambda>_.
     get_run (ru_id r))))"

text \<open>Completed pending items become step outputs, and their nodes succeed unless they are policy gates.\<close>

fun complete_items :: "environment \<Rightarrow> run_record \<Rightarrow> pending_item list \<Rightarrow> json_map \<Rightarrow> unit service_run" where
  "complete_items en r [] payload = run_ret ()"
| "complete_items en r (p # ps) payload =
     (if pi_run p \<noteq> ru_id r then complete_items en r ps payload
      else
        run_bind (run_read (\<lambda>s. Inr (node_state_attempts s (ru_id r) (pi_step p)))) (\<lambda>a.
        let attempts = (if a \<le> 0 then 1 else a)
        in run_bind (now_string (ho_clock en)) (\<lambda>now.
           let output = to_map now (new_envelope now (ru_id r) (pi_step p) attempts (JObj payload))
           in run_bind (save_step_output (ho_clock en) (ru_id r) (pi_step p) output) (\<lambda>_.
              run_bind (if has_suffix (pi_step p) ''.policy'' then run_ret ()
                        else fire_node_state_trigger en (ru_id r) (pi_step p) NodeSucceed attempts output [])
                (\<lambda>_. complete_items en r ps payload)))))"

definition complete_pending_signals ::
    "environment \<Rightarrow> run_record \<Rightarrow> pending_item list \<Rightarrow> json_map \<Rightarrow> unit service_run" where
  "complete_pending_signals en r items payload =
     run_bind (complete_items en r items payload) (\<lambda>_.
     update_run_state (ho_clock en) (ru_id r) ''running'' (ru_state r) (ru_output r))"

definition signal_run :: "environment \<Rightarrow> string \<Rightarrow> string \<Rightarrow> json_map \<Rightarrow> run_record service_run" where
  "signal_run en rid signal payload =
     run_bind (get_run (trim_space rid)) (\<lambda>r.
     run_bind (run_read (\<lambda>s. Inr (describe_definition s (ru_definition r)))) (\<lambda>def.
       case def of
         None \<Rightarrow> fail (''runbook definition '' @ go_quote (ru_definition r) @ '' not loaded'')
       | Some d \<Rightarrow>
           run_bind (run_read (\<lambda>s. Inr (list_open_pending_items s))) (\<lambda>items.
           run_bind (complete_pending_items (ho_clock en) (ru_id r) payload) (\<lambda>_.
           run_bind (append_event en (ru_id r) ''signal_received'' ''runbook signal received''
             [(''signal'', JStr signal), (''payload'', JObj payload)]) (\<lambda>_.
           if \<not> has_state_machine d
           then fail (''runbook definition '' @ go_quote (df_id d) @ '' is not executable'')
           else
             run_bind (complete_pending_signals en r items payload) (\<lambda>_.
             run_bind (modify (\<lambda>s. s\<lparr>rb_started := rb_started s @ [ru_id r]\<rparr>)) (\<lambda>_.
             get_run (ru_id r))))))))"

definition request_human ::
    "environment \<Rightarrow> string \<Rightarrow> string \<Rightarrow> string \<Rightarrow> json_map \<Rightarrow> string service_run" where
  "request_human en rid step prompt payload =
     (if sensitive_fields payload then fail ''human.request payload must not contain credential-like keys''
      else
        run_bind (random_id en ''pending'') (\<lambda>pid.
        run_bind (create_pending_item (ho_clock en)
          \<lparr>pi_id = pid, pi_run = rid, pi_step = step, pi_status = ''open'', pi_prompt = prompt,
           pi_payload = payload, pi_response = [], pi_created = [], pi_updated = []\<rparr>) (\<lambda>_.
        run_bind (ignore (append_event en rid ''human_requested'' ''runbook is waiting for user input''
          [(''pending_id'', JStr pid), (''step_id'', JStr step)])) (\<lambda>_.
        run_ret pid))))"

definition policy_approval_granted :: "service_state \<Rightarrow> string \<Rightarrow> string \<Rightarrow> bool" where
  "policy_approval_granted s rid node_id =
     (case step_output_of s rid (node_id @ ''.policy'') of
        None \<Rightarrow> False
      | Some output \<Rightarrow>
          let body = or_empty (field_map output ''body''); value = or_empty (field_map body ''value'')
          in case field_bool value ''approved'' of
               Some b \<Rightarrow> b
             | None \<Rightarrow> (case field_bool output ''approved'' of Some b \<Rightarrow> b | None \<Rightarrow> True))"

section \<open>Calls from other clients\<close>

definition dropped :: "'a service_run \<Rightarrow> unit service_run" where
  "dropped m s = (Inr (), snd (m s))"

definition serve_call :: "environment \<Rightarrow> api_call \<Rightarrow> unit service_run" where
  "serve_call en c =
     (case c of
        ApiStart did input \<Rightarrow> dropped (start_runbook en did input)
      | ApiCancel rid \<Rightarrow> dropped (cancel_run en rid)
      | ApiSignal rid signal payload \<Rightarrow> dropped (signal_run en rid signal payload))"

fun serve_calls :: "environment \<Rightarrow> api_call list \<Rightarrow> unit service_run" where
  "serve_calls en [] = run_ret ()"
| "serve_calls en (c # cs) = run_bind (serve_call en c) (\<lambda>_. serve_calls en cs)"

text \<open>A call to the outside, with the API calls that are served until it answers.\<close>

definition call_external :: "environment \<Rightarrow> external_call \<Rightarrow> json_map option service_run" where
  "call_external en c =
     run_bind (answer (\<lambda>n. (ho_external en n c, ho_meanwhile en n))) (\<lambda>(result, calls).
     run_bind (serve_calls en calls) (\<lambda>_.
       case result of
         None \<Rightarrow> run_err Stuck
       | Some (Inl e) \<Rightarrow> fail e
       | Some (Inr m) \<Rightarrow> run_ret m))"

end
