(* ===== verification/Runbook_Actions.thy ===== *)
theory Runbook_Actions imports Runbook_Host begin

text \<open>
  The built-in actions and their dispatch (\<open>runbook/actions/registry.go\<close>) over the host operations of the
  service (\<open>runtime/action_host.go\<close>). An action gives a map or Go's nil together with an error or none:
  some actions give both. Where resolving the references of an argument does not end, the action is
  stuck. The deadline of the context bounds waiting; for external calls the error it causes is one of their
  answers.
\<close>

record action_context =
  ac_run :: string
  ac_step :: string
  ac_input :: json_map
  ac_deadline :: "gotime option"

type_synonym action_result = "json_map option \<times> failure option"

text \<open>A host operation as the result of an action: its value, or nil with its error.\<close>

definition as_result :: "json_map option service_run \<Rightarrow> action_result service_run" where
  "as_result m s =
     (case m s of
        (Inl (Fault e), t) \<Rightarrow> (Inr (None, Some e), t)
      | (Inl Stuck, t) \<Rightarrow> (Inl Stuck, t)
      | (Inr r, t) \<Rightarrow> (Inr (r, None), t))"

definition resolving :: "'a option \<Rightarrow> 'a service_run" where
  "resolving v = (case v of None \<Rightarrow> run_err Stuck | Some x \<Rightarrow> run_ret x)"

definition string_arg :: "json_map \<Rightarrow> string \<Rightarrow> string" where
  "string_arg args key = trim_space (field_str args key)"

definition map_arg :: "json_map \<Rightarrow> string \<Rightarrow> json_map option \<Rightarrow> json_map option" where
  "map_arg args key fallback = (case field_map args key of Some m \<Rightarrow> Some m | None \<Rightarrow> fallback)"

section \<open>Host operations\<close>

definition call_mcp :: "environment \<Rightarrow> mcp_request \<Rightarrow> json_map option service_run" where
  "call_mcp en q =
     (if trim_space (mq_endpoint q) \<noteq> [] then call_external en (CallMCP q)
      else case map_of (ho_mcp en) (trim_space (mq_server q)) of
             None \<Rightarrow> fail (''mcp.call server '' @ go_quote (mq_server q) @ '' is not configured'')
           | Some endpoint \<Rightarrow>
               if trim_space endpoint = []
               then fail (''mcp.call server '' @ go_quote (mq_server q) @ '' is not configured'')
               else call_external en (CallMCP (q\<lparr>mq_endpoint := endpoint\<rparr>)))"

definition execute_command :: "environment \<Rightarrow> command_request \<Rightarrow> json_map option service_run" where
  "execute_command en q =
     (if \<not> ho_commands en then fail ''command.execute host is not configured''
      else call_external en (CallCommand
        (q\<lparr>cq_template := trim_space (cq_template q), cq_working_dir := trim_space (cq_working_dir q),
           cq_reason := trim_space (cq_reason q), cq_actor := trim_space (cq_actor q),
           cq_session := trim_space (cq_session q)\<rparr>)))"

definition generate_llm :: "environment \<Rightarrow> llm_request \<Rightarrow> json_map option service_run" where
  "generate_llm en q =
     (if \<not> ho_llm en then fail ''llm.generate host is not configured''
      else if trim_space (lq_prompt q) = [] then fail ''llm.generate prompt is required''
      else
        run_bind (call_external en (CallModel q)) (\<lambda>result.
          case result of
            None \<Rightarrow> fail ''llm.generate returned no structured result''
          | Some m \<Rightarrow>
              let schema = or_empty (lq_schema q); es = validate_schema (JObj m) schema ''result'' True
              in if schema \<noteq> [] \<and> es \<noteq> []
                 then fail (''llm.generate output schema validation failed: '' @ join_str (schema_messages es) ''; '')
                 else run_ret (Some m)))"

definition start_nested_runbook :: "environment \<Rightarrow> string \<Rightarrow> json_map \<Rightarrow> json_map option service_run" where
  "start_nested_runbook en did input =
     run_bind (start_runbook en did input) (\<lambda>r.
     run_ret (Some [(''run_id'', JStr (ru_id r)), (''definition_id'', JStr (ru_definition r)),
                    (''status'', JStr (ru_status r))]))"

section \<open>Actions\<close>

definition tool_call :: "environment \<Rightarrow> action_context \<Rightarrow> json_map \<Rightarrow> json_map option service_run" where
  "tool_call en cx args =
     run_bind (resolving (resolved_string_arg args ''name'' (ac_input cx))) (\<lambda>name.
     run_bind (resolving (resolved_string_arg args ''domain_id'' (ac_input cx))) (\<lambda>domain.
     run_bind (resolving (resolved_map_arg args ''arguments'' None (ac_input cx))) (\<lambda>arguments.
     call_external en (CallTool \<lparr>tq_name = name, tq_domain = domain, tq_arguments = arguments\<rparr>))))"

definition mcp_call :: "environment \<Rightarrow> action_context \<Rightarrow> json_map \<Rightarrow> json_map option service_run" where
  "mcp_call en cx args =
     run_bind (resolving (resolved_string_arg args ''server_id'' (ac_input cx))) (\<lambda>server.
     run_bind (resolving (resolved_string_arg args ''endpoint'' (ac_input cx))) (\<lambda>endpoint.
     run_bind (resolving (resolved_string_arg args ''tool'' (ac_input cx))) (\<lambda>tool.
     run_bind (resolving (resolved_map_arg args ''arguments'' None (ac_input cx))) (\<lambda>arguments.
     call_mcp en \<lparr>mq_server = server, mq_endpoint = endpoint, mq_tool = tool, mq_arguments = arguments\<rparr>))))"

definition command_execute :: "environment \<Rightarrow> action_context \<Rightarrow> json_map \<Rightarrow> json_map option service_run" where
  "command_execute en cx args =
     run_bind (resolving (resolved_string_arg args ''cwd'' (ac_input cx))) (\<lambda>cwd.
     if unresolved_input_ref_paths cwd \<noteq> []
     then fail (''command.execute cwd contains unresolved runbook references: '' @
                join_str (unresolved_input_ref_paths cwd) '', '')
     else
       run_bind (resolving (resolved_string_arg args ''template_id'' (ac_input cx))) (\<lambda>template.
       run_bind (resolving (resolved_map_arg args ''parameters'' None (ac_input cx))) (\<lambda>parameters.
       run_bind (resolving (resolved_string_arg args ''reason'' (ac_input cx))) (\<lambda>reason.
       run_bind (resolving (resolved_string_arg args ''actor'' (ac_input cx))) (\<lambda>actor.
       run_bind (resolving (resolved_string_arg args ''session_id'' (ac_input cx))) (\<lambda>session.
       execute_command en \<lparr>cq_template = template, cq_parameters = parameters, cq_working_dir = cwd,
         cq_reason = reason, cq_actor = actor, cq_session = session\<rparr>))))))"

definition llm_generate :: "environment \<Rightarrow> action_context \<Rightarrow> json_map \<Rightarrow> json_map option service_run" where
  "llm_generate en cx args =
     run_bind (resolving (resolved_string_arg args ''prompt'' (ac_input cx))) (\<lambda>prompt.
     if prompt = [] then fail ''llm.generate prompt is required''
     else
       run_bind (resolving (resolved_string_arg args ''model'' (ac_input cx))) (\<lambda>model.
       run_bind (resolving (resolved_map_arg args ''output_schema'' None (ac_input cx))) (\<lambda>schema.
       generate_llm en \<lparr>lq_model = model, lq_prompt = prompt, lq_input = ac_input cx, lq_schema = schema\<rparr>)))"

definition runbook_run :: "environment \<Rightarrow> action_context \<Rightarrow> json_map \<Rightarrow> json_map option service_run" where
  "runbook_run en cx args =
     (if string_arg args ''runbook'' = [] then fail ''runbook.run runbook is required''
      else
        run_bind (resolving (resolved_map_arg args ''input'' (Some (ac_input cx)) (ac_input cx))) (\<lambda>input.
        start_nested_runbook en (string_arg args ''runbook'') (or_empty input)))"

definition runbook_signal :: "environment \<Rightarrow> action_context \<Rightarrow> json_map \<Rightarrow> json_map option service_run" where
  "runbook_signal en cx args =
     (let rid = (if string_arg args ''run_id'' = [] then ac_run cx else string_arg args ''run_id'');
          signal = string_arg args ''signal''
      in if signal = [] then fail ''runbook.signal signal is required''
         else
           run_bind (signal_run en rid signal (or_empty (map_arg args ''payload'' None))) (\<lambda>_.
           run_ret (Some [(''run_id'', JStr rid), (''signal'', JStr signal)])))"

text \<open>The only action that waits for someone: it leaves a pending item and the error \<open>ErrPending\<close>.\<close>

definition human_request :: "environment \<Rightarrow> action_context \<Rightarrow> json_map \<Rightarrow> action_result service_run" where
  "human_request en cx args s =
     (case request_human en (ac_run cx) (ac_step cx) (string_arg args ''prompt'')
             (or_empty (map_arg args ''payload'' None)) s of
        (Inl (Fault e), t) \<Rightarrow> (Inr (None, Some e), t)
      | (Inl Stuck, t) \<Rightarrow> (Inl Stuck, t)
      | (Inr pid, t) \<Rightarrow> (Inr (Some [(''pending_id'', JStr pid)], Some Pending), t))"

text \<open>\<open>Duration.String\<close> of a positive duration.\<close>

definition fraction_text :: "nat \<Rightarrow> nat \<Rightarrow> string" where
  "fraction_text v digits =
     (let ds = nat_str (v mod 10 ^ digits);
          ds = replicate (digits - length ds) CHR ''0'' @ ds;
          ds = rev (dropWhile ((=) CHR ''0'') (rev ds))
      in if ds = [] then [] else CHR ''.'' # ds)"

definition duration_string :: "nat \<Rightarrow> string" where
  "duration_string d =
     (if d = 0 then ''0s''
      else if d < 1000 then nat_str d @ ''ns''
      else if d < 1000000 then nat_str (d div 1000) @ fraction_text d 3 @ [CHR 0xB5, CHR ''s'']
      else if d < 1000000000 then nat_str (d div 1000000) @ fraction_text d 6 @ ''ms''
      else let secs = d div 1000000000; mins = secs div 60; hours = mins div 60
           in (if hours > 0 then nat_str hours @ ''h'' else []) @
              (if mins > 0 then nat_str (mins mod 60) @ ''m'' else []) @
              nat_str (secs mod 60) @ fraction_text d 9 @ ''s'')"

text \<open>A wait ends with an error when the deadline of the context comes first.\<close>

definition wait_for :: "environment \<Rightarrow> gotime option \<Rightarrow> int \<Rightarrow> json_map option service_run" where
  "wait_for en deadline wait =
     (if wait \<le> 0 then run_ret (Some [(''waited'', JStr ''0s'')])
      else
        run_bind (answer (ho_clock en)) (\<lambda>now.
        run_bind (answer (ho_meanwhile en)) (\<lambda>calls.
        run_bind (serve_calls en calls) (\<lambda>_.
        if (case deadline of Some d \<Rightarrow> d \<le> now + wait | None \<Rightarrow> False) then fail ''context deadline exceeded''
        else run_ret (Some [(''waited'', JStr (duration_string (nat wait)))])))))"

definition delay_until :: "environment \<Rightarrow> action_context \<Rightarrow> json_map \<Rightarrow> json_map option service_run" where
  "delay_until en cx args =
     (let until = string_arg args ''until''; dur = string_arg args ''duration''
      in if until \<noteq> [] then
           (case parse_rfc3339 until of
              None \<Rightarrow> fail (''delay.until invalid until: parsing time '' @ go_quote until)
            | Some t \<Rightarrow> run_bind (answer (ho_clock en)) (\<lambda>now. wait_for en (ac_deadline cx) (t - now)))
         else if dur \<noteq> [] then
           (case parse_duration dur of
              Inl e \<Rightarrow> fail (''delay.until invalid duration: '' @ e)
            | Inr d \<Rightarrow> wait_for en (ac_deadline cx) d)
         else fail ''delay.until requires until or duration'')"

definition decision_route :: "environment \<Rightarrow> action_context \<Rightarrow> json_map \<Rightarrow> json_map option service_run" where
  "decision_route en cx args =
     (case decision_from_map args of
        Inl e \<Rightarrow> fail e
      | Inr d \<Rightarrow>
          run_bind (now_string (ho_clock en)) (\<lambda>now.
          case evaluate_decision (ho_cel en) now d (from_map now (Some (ac_input cx))) of
            Inl e \<Rightarrow> fail e
          | Inr r \<Rightarrow> run_ret (Some (to_map now (output_envelope now (ac_run cx) (ac_step cx) 0 r)))))"

definition execute_action ::
    "environment \<Rightarrow> string \<Rightarrow> action_context \<Rightarrow> json_map \<Rightarrow> action_result service_run" where
  "execute_action en action cx args =
     (let a = trim_space action
      in if a = ''tool.call'' then as_result (tool_call en cx args)
         else if a = ''mcp.call'' then as_result (mcp_call en cx args)
         else if a = ''command.execute'' then as_result (command_execute en cx args)
         else if a = ''data.assert'' then run_ret (data_assert (ac_input cx) args)
         else if a = ''data.defaults'' then
           as_result (run_bind (resolving (data_defaults (ac_input cx) args)) (\<lambda>m. run_ret (Some m)))
         else if a = ''decision.route'' then as_result (decision_route en cx args)
         else if a = ''llm.generate'' then as_result (llm_generate en cx args)
         else if a = ''runbook.run'' then as_result (runbook_run en cx args)
         else if a = ''runbook.signal'' then as_result (runbook_signal en cx args)
         else if a = ''human.request'' then human_request en cx args
         else if a = ''delay.until'' then as_result (delay_until en cx args)
         else run_ret (None, Some (Failed (''action '' @ go_quote action @ '' is not registered''))))"

end
