(* ===== verification/Runbook_Runtime.thy ===== *)
theory Runbook_Runtime imports Runbook_Actions begin

text \<open>
  The execution of runbooks (\<open>runbook/runtime\<close>): manifests.go, rate_limit.go, shape_learning.go, the
  helpers of execution_helpers.go, state_machine.go, execution.go and scheduler.go.
\<close>

section \<open>Manifests of nodes\<close>

definition contract_declared :: "contract \<Rightarrow> bool" where
  "contract_declared c \<longleftrightarrow>
     ct_accepts c \<noteq> [] \<or> ct_produces c \<noteq> [] \<or> ct_required_facets c \<noteq> [] \<or> ct_facets c \<noteq> [] \<or>
     ct_schema c \<noteq> [] \<or> ct_examples c \<noteq> []"

definition merge_contract :: "contract \<Rightarrow> contract \<Rightarrow> contract" where
  "merge_contract base override = (if contract_declared override then override else base)"

definition merge_effects :: "effects \<Rightarrow> effects \<Rightarrow> effects" where
  "merge_effects base override =
     (if fx_read override \<noteq> [] \<or> fx_write override \<noteq> [] \<or> fx_hosts override \<noteq> [] \<or>
         fx_secrets override \<noteq> [] \<or> fx_confirm override \<noteq> []
      then override else base)"

definition merge_runtime :: "runtime_policy \<Rightarrow> runtime_policy \<Rightarrow> runtime_policy" where
  "merge_runtime base override =
     \<lparr>rp_timeout_ms = (if rp_timeout_ms override \<noteq> 0 then rp_timeout_ms override else rp_timeout_ms base),
      rp_max_input = (if rp_max_input override \<noteq> 0 then rp_max_input override else rp_max_input base),
      rp_max_artifact = (if rp_max_artifact override \<noteq> 0 then rp_max_artifact override else rp_max_artifact base),
      rp_rate_limit = (if rp_rate_limit override \<noteq> 0 then rp_rate_limit override else rp_rate_limit base),
      rp_idempotent = (rp_idempotent override \<or> rp_idempotent base),
      rp_retryable = (rp_retryable override \<or> rp_retryable base),
      rp_sandbox = (if trim_space (rp_sandbox override) \<noteq> [] then trim_space (rp_sandbox override)
                    else rp_sandbox base)\<rparr>"

definition node_manifest_id :: "node_definition \<Rightarrow> string \<Rightarrow> string" where
  "node_manifest_id n action =
     (if trim_space (sn_tool n) \<noteq> [] then trim_space (sn_tool n)
      else if trim_space (sn_uses n) = ''tool.call'' \<and> trim_space (field_str (sn_with n) ''name'') \<noteq> []
      then trim_space (field_str (sn_with n) ''name'')
      else if trim_space (sn_uses n) \<noteq> [] then trim_space (sn_uses n)
      else trim_space action)"

definition manifest_for_node :: "node_definition \<Rightarrow> tool_manifest" where
  "manifest_for_node n =
     (let m = manifest_for_metadata (metadata_for (node_action n))
      in m\<lparr>tm_id := node_manifest_id n (node_action n), tm_input := merge_contract (tm_input m) (sn_input n),
           tm_output := merge_contract (tm_output m) (sn_output n),
           tm_effects := merge_effects (tm_effects m) (sn_effects n),
           tm_runtime := merge_runtime (tm_runtime m) (sn_runtime n)\<rparr>)"

section \<open>Rate limits\<close>

definition rate_window :: int where
  "rate_window = 60000000000"

definition check_rate_limit :: "environment \<Rightarrow> string \<Rightarrow> runtime_policy \<Rightarrow> unit service_run" where
  "check_rate_limit en key rt =
     (if rp_rate_limit rt \<le> 0 then run_ret ()
      else
        let k = (if trim_space key = [] then ''runbook-node'' else trim_space key)
        in run_bind (answer (ho_clock en)) (\<lambda>now s.
             let hits = (case map_of (rb_hits s) k of Some hs \<Rightarrow> hs | None \<Rightarrow> []);
                 recent = filter (\<lambda>h. h > now - rate_window) hits
             in if int (length recent) \<ge> rp_rate_limit rt
                then (Inl (Fault (Failed (''runtime rate limit for '' @ go_quote k @ '' exceeded '' @
                        itoa (rp_rate_limit rt) @ '' invocations per minute''))),
                      s\<lparr>rb_hits := AList.update k recent (rb_hits s)\<rparr>)
                else (Inr (), s\<lparr>rb_hits := AList.update k (recent @ [now]) (rb_hits s)\<rparr>)))"

section \<open>Observed contracts\<close>

definition observed_output_sample :: "envelope \<Rightarrow> json_map" where
  "observed_output_sample e =
     (case eb_value (ev_body e) of
        JNull \<Rightarrow> []
      | JObj m \<Rightarrow> clone_map m
      | JArr vs \<Rightarrow> [(''items'', JArr vs)]
      | v \<Rightarrow> [(''value'', v)])"

definition observed_carriers :: "envelope \<Rightarrow> carrier list" where
  "observed_carriers e =
     [\<lparr>ca_kind = trim_space (eb_kind (ev_body e)), ca_media = unique_strings (map af_media_type (ev_artifacts e))\<rparr>]"

definition merge_observed_facets :: "string list \<Rightarrow> json_map \<Rightarrow> string list" where
  "merge_observed_facets inferred facets = unique_strings (inferred @ map fst facets)"

definition carrier_json :: "carrier \<Rightarrow> json" where
  "carrier_json c = JObj (omit_str ''kind'' (ca_kind c) @ omit_list ''media_types'' JStr (ca_media c))"

definition example_json :: "contract_example \<Rightarrow> json" where
  "example_json x = JObj (omit_str ''name'' (ex_name x) @ omit_map ''output_shape'' (ex_shape x))"

definition contract_json :: "contract \<Rightarrow> json_map" where
  "contract_json c =
     omit_list ''accepts'' carrier_json (ct_accepts c) @ omit_list ''produces'' carrier_json (ct_produces c) @
     omit_list ''required_facets'' JStr (ct_required_facets c) @ omit_list ''facets'' JStr (ct_facets c) @
     omit_map ''schema'' (ct_schema c) @ omit_list ''examples'' example_json (ct_examples c)"

definition observed_field_json :: "observed_field \<Rightarrow> json_map" where
  "observed_field_json f =
     [(''path'', JStr (of_path f)), (''type'', JStr (of_type f))] @ omit_str ''facet'' (of_facet f) @
     omit_str ''confidence'' (of_confidence f)"

definition record_observed_contract ::
    "environment \<Rightarrow> runbook_definition \<Rightarrow> node_definition \<Rightarrow> envelope \<Rightarrow> unit service_run" where
  "record_observed_contract en def n output0 =
     run_bind (now_string (ho_clock en)) (\<lambda>now.
     let output = normalize_envelope now output0;
         sample = observed_output_sample output;
         (inferred, observed) = infer_observed_contract [sample];
         contract = inferred\<lparr>ct_produces := observed_carriers output,
           ct_facets := merge_observed_facets (ct_facets inferred) (ev_facets output),
           ct_examples := [\<lparr>ex_name = ''observed-'' @ trim_space (sn_id n), ex_shape = sample\<rparr>]\<rparr>
     in run_bind (encode_map ''encode inferred observed contract'' (contract_json contract)) (\<lambda>body.
        upsert_observed_contract (ho_clock en)
          \<lparr>oc_definition = trim_space (df_id def), oc_node = trim_space (sn_id n),
           oc_tool = tm_id (manifest_for_node n),
           oc_hash = ho_shape_hash en (AList.delete ''examples'' (clone_map body)), oc_occurrences = 1,
           oc_contract = body, oc_fields = map observed_field_json observed, oc_first = [], oc_last = []\<rparr>))"

section \<open>Limits\<close>

definition envelope_size_error :: "string \<Rightarrow> envelope \<Rightarrow> runtime_policy \<Rightarrow> string \<Rightarrow> string option" where
  "envelope_size_error now e rt label =
     (let size = utf8_length (json_text (JObj (to_map now e)))
      in if rp_max_input rt \<le> 0 \<or> size \<le> rp_max_input rt then None
         else Some (label @ '' envelope size '' @ itoa size @ '' exceeds max_input_bytes '' @ itoa (rp_max_input rt)))"

definition artifact_policy_error :: "envelope \<Rightarrow> runtime_policy \<Rightarrow> string \<Rightarrow> string option" where
  "artifact_policy_error e rt label =
     (if rp_max_artifact rt \<le> 0 then None
      else map_option
             (\<lambda>a. label @ '' artifact '' @ go_quote (af_id a) @ '' size '' @ itoa (af_size a) @
                  '' exceeds max_artifact_bytes '' @ itoa (rp_max_artifact rt))
             (List.find (\<lambda>a. af_size a > rp_max_artifact rt) (ev_artifacts e)))"

definition policy_error :: "string \<Rightarrow> envelope \<Rightarrow> runtime_policy \<Rightarrow> string \<Rightarrow> string option" where
  "policy_error now e rt label =
     (case envelope_size_error now e rt label of Some m \<Rightarrow> Some m | None \<Rightarrow> artifact_policy_error e rt label)"

definition sandbox_boundary_error :: "string \<Rightarrow> runtime_policy \<Rightarrow> string option" where
  "sandbox_boundary_error action rt =
     (let s = trim_space (rp_sandbox rt); expected = sandbox_for_action action
      in if s = [] \<or> s = expected then None
         else Some (''action '' @ go_quote action @ '' must use runtime sandbox '' @ go_quote expected @
                    '', got '' @ go_quote s))"

definition diagnostics_error :: "string \<Rightarrow> diagnostic list \<Rightarrow> string option" where
  "diagnostics_error stage ds =
     (let ms = map dg_message (filter (\<lambda>d. equal_fold (trim_space (dg_severity d)) ''error'') ds)
      in if ms = [] then None else Some (stage @ '' envelope validation failed: '' @ join_str ms ''; ''))"

definition map_string :: "json_map \<Rightarrow> string \<Rightarrow> string" where
  "map_string m k = trim_space (field_str m k)"

definition action_node_args :: "node_definition \<Rightarrow> json_map" where
  "action_node_args n =
     (let args = clone_map (sn_with n); t = to_lower (trim_space (sn_type n)); tool = trim_space (sn_tool n);
          fill = (\<lambda>k. if map_string args k = [] \<and> tool \<noteq> [] then put k (JStr tool) args else args)
      in if t = ''tool'' then fill ''name''
         else if t = ''mcp'' then fill ''tool''
         else if t = ''command'' then fill ''template_id''
         else if t = ''runbook'' then fill ''runbook''
         else args)"

definition policy_approval_prompt :: "node_definition \<Rightarrow> decision \<Rightarrow> string" where
  "policy_approval_prompt n d =
     (let reason = join_str (de_reasons d) ''; ''
      in ''Approve runbook node '' @ go_quote (sn_id n) @ '': '' @
         (if reason = [] then ''node declares user-confirmed effects'' else reason))"

text \<open>The delay between attempts: \<open>retry_delay\<close> as a duration.\<close>

definition node_retry_delay :: "node_definition \<Rightarrow> string + int" where
  "node_retry_delay n =
     (if trim_space (sn_retry_delay n) = [] then Inr 0
      else case parse_duration (sn_retry_delay n) of
             Inl e \<Rightarrow> Inl (''node '' @ go_quote (sn_id n) @ '' retry_delay: '' @ e)
           | Inr d \<Rightarrow> Inr d)"

text \<open>The time an action may take, in nanoseconds; it is unbounded unless it is positive.\<close>

definition node_timeout :: "node_definition \<Rightarrow> runtime_policy \<Rightarrow> int" where
  "node_timeout n rt =
     (let configured = (if rp_timeout_ms rt > 0 then signed_take_bit 63 (rp_timeout_ms rt * 1000000) else 0)
      in if trim_space (sn_timeout n) = [] then configured
         else case parse_duration (sn_timeout n) of Inr d \<Rightarrow> d | Inl e \<Rightarrow> configured)"

definition attempt_deadline :: "node_definition \<Rightarrow> runtime_policy \<Rightarrow> gotime \<Rightarrow> gotime option" where
  "attempt_deadline n rt now = (if node_timeout n rt > 0 then Some (now + node_timeout n rt) else None)"

section \<open>Attempts\<close>

definition state_output_value :: "json_map \<Rightarrow> json" where
  "state_output_value output =
     (case map_of (or_empty (field_map output ''body'')) ''value'' of Some v \<Rightarrow> v | None \<Rightarrow> JObj output)"

definition state_action_context :: "service_state \<Rightarrow> run_record \<Rightarrow> json_map" where
  "state_action_context s r =
     (let input = foldl (\<lambda>m (step, output).
            if has_suffix step ''.input'' \<or> has_suffix step ''.pending'' then m
            else put step (state_output_value output) m)
          [(''runbook_input'', JObj (ru_input r)), (''runbook_output'', JObj (ru_output r))]
          (step_outputs s (ru_id r))
      in put ''body'' (JObj [(''value'', JObj (clone_map input))]) input)"

text \<open>An attempt gives an envelope, and an error with it when it fails.\<close>

type_synonym attempt_result = "envelope \<times> failure option"

definition reject :: "string \<Rightarrow> string \<Rightarrow> attempt_result service_run" where
  "reject now m = run_ret (empty_envelope now [] [] 0, Some (Failed m))"

definition execute_once ::
    "environment \<Rightarrow> run_record \<Rightarrow> node_definition \<Rightarrow> int \<Rightarrow> json_map \<Rightarrow> gotime option \<Rightarrow>
     attempt_result service_run" where
  "execute_once en r n attempts input deadline =
     (let action = node_action n
      in run_bind (ignore (append_event en (ru_id r) ''step_started'' ''runbook state action started''
           [(''step_id'', JStr (sn_id n)), (''action'', JStr action), (''attempt'', JInt attempts)])) (\<lambda>_.
         run_bind (ignore (save_step_output (ho_clock en) (ru_id r) (sn_id n @ ''.input'') input)) (\<lambda>_.
         run_bind (execute_action en action \<lparr>ac_run = ru_id r, ac_step = sn_id n, ac_input = input,
             ac_deadline = deadline\<rparr> (action_node_args n)) (\<lambda>(output, err).
         run_bind (now_string (ho_clock en)) (\<lambda>now.
         let e = normalize_result now (ru_id r) (sn_id n) attempts output
                   (if err = None then ''succeeded'' else ''failed'')
         in run_ret
              (case err of
                 Some (Failed m) \<Rightarrow> add_diagnostic ''error'' ''state_action_failed'' [] m e
               | _ \<Rightarrow> e, err))))))"

definition invoke_action ::
    "environment \<Rightarrow> run_record \<Rightarrow> node_definition \<Rightarrow> int \<Rightarrow> string \<Rightarrow> envelope \<Rightarrow> json_map \<Rightarrow>
     attempt_result service_run" where
  "invoke_action en r n attempts now policy_env input =
     (let m = manifest_for_node n; rt = tm_runtime m
      in run_bind (answer (ho_clock en)) (\<lambda>begun s.
         case check_rate_limit en (tm_id m) rt s of
           (Inl (Fault e), t) \<Rightarrow> (Inr (empty_envelope now [] [] 0, Some e), t)
         | (Inl Stuck, t) \<Rightarrow> (Inl Stuck, t)
         | (Inr _, t) \<Rightarrow>
             run_bind
               (execute_once en r n attempts
                 (if node_action n = ''llm.generate'' then to_map now policy_env else input)
                 (attempt_deadline n rt begun))
               (\<lambda>(output, err).
                  case err of
                    Some e \<Rightarrow> run_ret (output, Some e)
                  | None \<Rightarrow>
                      run_bind (now_string (ho_clock en)) (\<lambda>now.
                      case diagnostics_error ''output'' (validate_output now output (tm_output m)) of
                        Some e \<Rightarrow> run_ret (output, Some (Failed e))
                      | None \<Rightarrow> run_ret (output, map_option Failed (policy_error now output rt ''output'')))) t))"

definition execute_attempt ::
    "environment \<Rightarrow> run_record \<Rightarrow> node_definition \<Rightarrow> int \<Rightarrow> attempt_result service_run" where
  "execute_attempt en r n attempts =
     run_bind (run_read (\<lambda>s. Inr (state_action_context s r))) (\<lambda>input.
     run_bind (now_string (ho_clock en)) (\<lambda>now.
     let m = manifest_for_node n; rt = tm_runtime m; action = node_action n;
         input_env = new_envelope now (ru_id r) (sn_id n) attempts (JObj input);
         policy_env = (if action = ''llm.generate'' then sanitize_llm_input now input_env else input_env);
         d = evaluate_invocation now policy_env (tm_effects m) rt
     in case diagnostics_error ''input'' (validate_input now input_env (sn_input n)) of
          Some e \<Rightarrow> reject now e
        | None \<Rightarrow>
          (case policy_error now policy_env rt ''input'' of
             Some e \<Rightarrow> reject now e
           | None \<Rightarrow>
             (case sandbox_boundary_error action rt of
                Some e \<Rightarrow> reject now e
              | None \<Rightarrow>
                run_bind (ignore (append_event_with en (ru_id r) ''node_policy_decision''
                  ''runbook state action policy evaluated''
                  [(''node_id'', JStr (sn_id n)), (''status'', JStr (de_status d))]
                  [(''reasons'', de_reasons d)])) (\<lambda>_.
                run_bind (run_read (\<lambda>s. Inr (policy_approval_granted s (ru_id r) (sn_id n)))) (\<lambda>granted.
                let needs = (de_status d = ''needs_approval''); approved = (needs \<and> granted)
                in if needs \<and> \<not> approved
                   then (\<lambda>s. case request_human en (ru_id r) (sn_id n @ ''.policy'') (policy_approval_prompt n d)
                               [(''node_id'', JStr (sn_id n)), (''policy'', JStr (de_status d)),
                                (''reasons'', JArr (map JStr (de_reasons d)))] s of
                           (Inl (Fault e), t) \<Rightarrow> (Inr (empty_envelope now [] [] 0, Some e), t)
                         | (Inl Stuck, t) \<Rightarrow> (Inl Stuck, t)
                         | (Inr _, t) \<Rightarrow> (Inr (empty_envelope now (ru_id r) (sn_id n) attempts, Some Pending), t))
                   else if \<not> decision_allowed d \<and> \<not> approved
                   then reject now (''state action '' @ go_quote (sn_id n) @ '' policy '' @ de_status d @ '': '' @
                          join_str (de_reasons d) ''; '')
                   else invoke_action en r n attempts now policy_env input))))))"

section \<open>Actions of a state\<close>

text \<open>The loop over the attempts, with the number of attempts left.\<close>

fun try_action ::
    "environment \<Rightarrow> runbook_definition \<Rightarrow> run_record \<Rightarrow> node_definition \<Rightarrow> int \<Rightarrow> nat \<Rightarrow> int \<Rightarrow>
     string option \<Rightarrow> string service_run" where
  "try_action en def r n delay 0 attempts earlier =
     (let m = (case earlier of Some m \<Rightarrow> m | None \<Rightarrow> ''state action '' @ go_quote (sn_id n) @ '' failed'')
      in run_bind (now_string (ho_clock en)) (\<lambda>now.
         run_bind (ignore (save_step_output (ho_clock en) (ru_id r) (sn_id n)
           (to_map now (add_diagnostic ''error'' ''state_action_failed'' [] m
              (normalize_result now (ru_id r) (sn_id n) attempts None ''failed''))))) (\<lambda>_.
         run_bind (fire_node_state_trigger en (ru_id r) (sn_id n) NodeFail attempts [] m) (\<lambda>_.
         run_bind (ignore (append_event en (ru_id r) ''step_failed'' m [(''step_id'', JStr (sn_id n))])) (\<lambda>_.
         fail m)))))"
| "try_action en def r n delay (Suc left) attempts0 earlier =
     (let attempts = attempts0 + 1
      in run_bind (fire_node_state_trigger en (ru_id r) (sn_id n) NodeStart attempts [] []) (\<lambda>_.
         run_bind (execute_attempt en r n attempts) (\<lambda>(output, err).
         run_bind (now_string (ho_clock en)) (\<lambda>now.
         case err of
           None \<Rightarrow>
             run_bind (save_step_output (ho_clock en) (ru_id r) (sn_id n) (to_map now output)) (\<lambda>_.
             run_bind (\<lambda>s. case record_observed_contract en def n output s of
                 (Inl (Fault f), t) \<Rightarrow>
                   ignore (append_event en (ru_id r) ''contract_observation_failed'' (failure_text f)
                     [(''node_id'', JStr (sn_id n))]) t
               | (res, t) \<Rightarrow> (res, t)) (\<lambda>_.
             run_bind (fire_node_state_trigger en (ru_id r) (sn_id n) NodeSucceed attempts (to_map now output) [])
               (\<lambda>_.
             run_bind (ignore (append_event en (ru_id r) ''step_succeeded'' ''runbook state action succeeded''
               [(''step_id'', JStr (sn_id n))])) (\<lambda>_.
             run_ret (trim_space (ec_trigger (ev_control output)))))))
         | Some Pending \<Rightarrow>
             run_bind (ignore (save_step_output (ho_clock en) (ru_id r) (sn_id n @ ''.pending'')
               (to_map now (output\<lparr>ev_control := (ev_control output)\<lparr>ec_status := ''needs_input''\<rparr>\<rparr>)))) (\<lambda>_.
             run_bind (ignore (append_event en (ru_id r) ''step_pending'' ''runbook state action is pending''
               [(''step_id'', JStr (sn_id n))])) (\<lambda>_.
             run_err (Fault Pending)))
         | Some (Failed m) \<Rightarrow>
             run_bind (if left > 0 \<and> delay > 0
                       then run_bind (answer (ho_meanwhile en)) (serve_calls en)
                       else run_ret ()) (\<lambda>_.
             try_action en def r n delay left attempts (Some m))))))"

definition execute_state_action ::
    "environment \<Rightarrow> runbook_definition \<Rightarrow> run_record \<Rightarrow> node_definition \<Rightarrow> string service_run" where
  "execute_state_action en def r n =
     run_bind (run_read (\<lambda>s. Inr (node_state_attempts s (ru_id r) (sn_id n)))) (\<lambda>attempts.
       case node_retry_delay n of
         Inl e \<Rightarrow> fail e
       | Inr delay \<Rightarrow> try_action en def r n delay (nat (sn_retry n + 1 - attempts)) attempts None)"

definition suggested_trigger :: "string \<Rightarrow> json_map \<Rightarrow> string" where
  "suggested_trigger now output = trim_space (ec_trigger (ev_control (from_map now (Some output))))"

fun execute_entry ::
    "environment \<Rightarrow> runbook_definition \<Rightarrow> run_record \<Rightarrow> node_definition list \<Rightarrow> string \<Rightarrow> string service_run" where
  "execute_entry en def r [] trigger = run_ret trigger"
| "execute_entry en def r (n # ns) trigger =
     run_bind (run_read (\<lambda>s. Inr (get_node_state s (ru_id r) (sn_id n)))) (\<lambda>record.
     run_bind (now_string (ho_clock en)) (\<lambda>now.
     let status = (case record of Some x \<Rightarrow> ns_status x | None \<Rightarrow> []);
         keep = (\<lambda>t. if t \<noteq> [] then t else trigger)
     in if status = ''succeeded''
        then execute_entry en def r ns (keep (suggested_trigger now (ns_output (the record))))
        else if status = ''failed''
        then fail (''state action '' @ go_quote (sn_id n) @ '' failed: '' @ ns_error (the record))
        else run_bind (execute_state_action en def r n) (\<lambda>t. execute_entry en def r ns (keep (trim_space t)))))"

section \<open>States\<close>

text \<open>The transition taken on a trigger: the first one declared for it.\<close>

definition matching_transition :: "state_definition \<Rightarrow> string \<Rightarrow> transition_definition option" where
  "matching_transition st trigger = List.find (\<lambda>tr. trim_space (tr_trigger tr) = trigger) (sd_transitions st)"

definition max_state_machine_depth :: nat where
  "max_state_machine_depth = 128"

text \<open>
  Entering a state, with how many more may be entered below it: the depth of the code counted down
  from \<open>maxStateMachineDepth + 1\<close>. \<open>follow\<close> is \<open>executeStateTransition\<close>.
\<close>

fun execute_state ::
    "environment \<Rightarrow> runbook_definition \<Rightarrow> run_record \<Rightarrow> state_table \<Rightarrow> nat \<Rightarrow> string \<Rightarrow> string service_run" where
  "execute_state en def r states 0 sid = fail ''state machine exceeded maximum transition depth''"
| "execute_state en def r states (Suc left) sid =
     (case map_of states (trim_space sid) of
        None \<Rightarrow> fail (''state '' @ go_quote sid @ '' is not defined'')
      | Some st \<Rightarrow>
          let follow = (\<lambda>trigger.
                case matching_transition st trigger of
                  None \<Rightarrow> run_ret trigger
                | Some tr \<Rightarrow>
                    if trim_space (tr_to tr) = [] then run_ret trigger
                    else execute_state en def r states left (trim_space (tr_to tr)))
          in run_bind (ignore (update_run_state (ho_clock en) (ru_id r) ''running'' (sd_id st) (ru_output r)))
               (\<lambda>_ s.
               case execute_entry en def r (sd_on_entry st) [] s of
                 (Inl (Fault (Failed m)), t) \<Rightarrow> follow ''failed'' t
               | (Inl e, t) \<Rightarrow> (Inl e, t)
               | (Inr entry, t) \<Rightarrow>
                   if sd_states st \<noteq> []
                   then run_bind (execute_state en def r states left (initial_state (sd_initial st) (sd_states st)))
                          follow t
                   else follow (if trim_space entry \<noteq> [] then trim_space entry else ''succeeded'') t))"

definition execute_state_machine ::
    "environment \<Rightarrow> runbook_definition \<Rightarrow> run_record \<Rightarrow> unit service_run" where
  "execute_state_machine en def r =
     run_bind (execute_state en def r (state_machine_states def) (Suc max_state_machine_depth)
       (initial_state (df_initial def) (df_states def))) (\<lambda>trigger.
     if trigger \<noteq> ''succeeded''
     then fail (''state machine ended with trigger '' @ go_quote trigger)
     else
       run_bind (run_read (\<lambda>s. Inr (state_action_context s r))) (\<lambda>output.
       run_bind (get_run (ru_id r)) (\<lambda>current.
       run_bind (ignore (update_run_state (ho_clock en) (ru_id r) ''succeeded'' (ru_state current) output)) (\<lambda>_.
       ignore (append_event en (ru_id r) ''run_succeeded'' ''runbook run succeeded'' [])))))"

section \<open>Runs\<close>

definition fail_run :: "environment \<Rightarrow> run_record \<Rightarrow> string \<Rightarrow> unit service_run" where
  "fail_run en r m =
     run_bind (ignore (update_run_state (ho_clock en) (ru_id r) ''failed'' (ru_state r) [(''error'', JStr m)]))
       (\<lambda>_. ignore (append_event en (ru_id r) ''run_failed'' m []))"

text \<open>
  An execution, which the lock of the run keeps apart from others of the same run. When an action is
  stuck, so is the execution.
\<close>

definition execute_run :: "environment \<Rightarrow> string \<Rightarrow> service_state \<Rightarrow> service_state" where
  "execute_run en rid s =
     (case find_run s rid of
        None \<Rightarrow> s
      | Some r \<Rightarrow>
          if ru_status r = ''canceled'' \<or> ru_status r = ''succeeded'' then s
          else
            (case describe_definition s (ru_definition r) of
               None \<Rightarrow> snd (fail_run en r (''runbook definition '' @ go_quote (ru_definition r) @ '' not loaded'') s)
             | Some def \<Rightarrow>
                 if \<not> has_state_machine def
                 then snd (fail_run en r (''runbook definition '' @ go_quote (df_id def) @ '' is not a state machine'') s)
                 else
                   (case execute_state_machine en def r s of
                      (Inr _, t) \<Rightarrow> t
                    | (Inl (Fault Pending), t) \<Rightarrow>
                        (case find_run t rid of
                           None \<Rightarrow> t
                         | Some now \<Rightarrow>
                             snd (update_run_state (ho_clock en) rid ''waiting'' (ru_state now) (ru_output now) t))
                    | (Inl (Fault (Failed m)), t) \<Rightarrow> snd (fail_run en r m t)
                    | (Inl Stuck, t) \<Rightarrow> t)))"

definition resume_active_runs :: "environment \<Rightarrow> unit service_run" where
  "resume_active_runs en =
     run_bind (run_read (\<lambda>s. Inr (map ru_id (list_runs_by_status s ''running'')))) (\<lambda>rids.
       foldr (\<lambda>rid m. run_bind (ignore (append_event en rid ''run_resumed'' ''runbook run resumed after startup'' []))
                (\<lambda>_. run_bind (modify (\<lambda>s. s\<lparr>rb_started := rb_started s @ [rid]\<rparr>)) (\<lambda>_. m)))
         rids (run_ret ()))"

text \<open>Opening the service, on what a stopped one has left in the database.\<close>

definition open_service :: "environment \<Rightarrow> service_state \<Rightarrow> service_state" where
  "open_service en s =
     snd (run_bind (sync_definitions en) (\<lambda>_. resume_active_runs en)
       (s\<lparr>rb_definitions := [], rb_hits := [], rb_started := []\<rparr>))"

section \<open>Schedules\<close>

text \<open>The daily schedule \<open>minute hour * * *\<close> against the minute and hour of the local time.\<close>

definition cron_due :: "string \<Rightarrow> int \<Rightarrow> int \<Rightarrow> bool" where
  "cron_due schedule minute hour =
     (let fs = Go_Base.fields schedule
      in if length fs \<noteq> 5 \<or> fs ! 2 \<noteq> ''*'' \<or> fs ! 3 \<noteq> ''*'' \<or> fs ! 4 \<noteq> ''*'' then False
         else case (atoi (fs ! 0), atoi (fs ! 1)) of
                (Some m, Some h) \<Rightarrow> minute = m \<and> hour = h
              | _ \<Rightarrow> False)"

text \<open>
  One tick of the scheduler: the minute and hour, the text of the minute that keeps a runbook from starting
  twice in it, the text passed as input, and the last starts by id.
\<close>

fun fire_due_schedules ::
    "environment \<Rightarrow> int \<Rightarrow> int \<Rightarrow> string \<Rightarrow> string \<Rightarrow> string list \<Rightarrow> (string \<times> string) list \<Rightarrow>
     (string \<times> string) list service_run" where
  "fire_due_schedules en minute hour stamp utc [] earlier = run_ret earlier"
| "fire_due_schedules en minute hour stamp utc (did # dids) earlier =
     run_bind (run_read (\<lambda>s. Inr (describe_definition s did))) (\<lambda>def.
     let key = did @ '':'' @ stamp
     in case def of
          None \<Rightarrow> fire_due_schedules en minute hour stamp utc dids earlier
        | Some d \<Rightarrow>
            if \<not> cron_due (df_schedule d) minute hour \<or> map_of earlier did = Some key
            then fire_due_schedules en minute hour stamp utc dids earlier
            else run_bind (dropped (start_runbook en did [(''scheduled_at'', JStr utc)])) (\<lambda>_.
                 fire_due_schedules en minute hour stamp utc dids (AList.update did key earlier)))"

section \<open>Steps\<close>

text \<open>
  The steps of the service: an API call is served, an execution started earlier takes place, the
  scheduler ticks, or the service stops and is opened again.
\<close>

inductive service_step :: "environment \<Rightarrow> service_state \<Rightarrow> service_state \<Rightarrow> bool" for en where
  serve: "service_step en s (snd (serve_call en c s))"
| execute: "rb_started s = xs @ rid # ys \<Longrightarrow>
    service_step en s (execute_run en rid (s\<lparr>rb_started := xs @ ys\<rparr>))"
| schedule: "service_step en s (snd (fire_due_schedules en minute hour stamp utc (map fst (rb_definitions s)) earlier s))"
| restart: "service_step en s (open_service en s)"

inductive_cases service_stepE: "service_step en s t"

end
