(* ===== verification/Runbook_Laws.thy ===== *)
theory Runbook_Laws imports Runbook_Runtime begin

text \<open>
  Relations between the states before and after that the whole runtime keeps. The locale
  \<open>service_relation\<close> says what the operations on the tables must keep; then every operation of the
  service, every action and every execution keeps it, whatever the environment answers.
\<close>

section \<open>Failures of an action\<close>

lemma within_failure:
  "\<lbrakk>e = Pending \<Longrightarrow> run_within R (\<lambda>t. f t); \<And>m. e = Failed m \<Longrightarrow> run_within R (\<lambda>t. g m t)\<rbrakk> \<Longrightarrow>
   run_within R (\<lambda>t. case e of Pending \<Rightarrow> f t | Failed m \<Rightarrow> g m t)"
  by (cases e) simp_all

lemma within_fault:
  "\<lbrakk>\<And>x. e = Fault x \<Longrightarrow> run_within R (\<lambda>t. f x t); e = Stuck \<Longrightarrow> run_within R (\<lambda>t. g t)\<rbrakk> \<Longrightarrow>
   run_within R (\<lambda>t. case e of Fault x \<Rightarrow> f x t | Stuck \<Rightarrow> g t)"
  by (cases e) simp_all

lemma within_case_failure:
  "\<lbrakk>w = Pending \<Longrightarrow> run_within R f3; \<And>m. w = Failed m \<Longrightarrow> run_within R (g3 m)\<rbrakk> \<Longrightarrow>
   run_within R (case w of Pending \<Rightarrow> f3 | Failed m \<Rightarrow> g3 m)"
  by (simp split: failure.split)

lemmas within_cases = within_sum within_failure within_fault within_if

lemmas within_options = within_case within_case_failure

locale service_relation =
  fixes R :: "service_state \<Rightarrow> service_state \<Rightarrow> bool"
  assumes kept_same: "reflp R"
    and kept_twice: "transp R"
    and kept_tick: "R s (s\<lparr>rb_tick := n\<rparr>)"
    and kept_hits: "R s (s\<lparr>rb_hits := h\<rparr>)"
    and kept_started: "R s (s\<lparr>rb_started := q\<rparr>)"
    and kept_restart: "R s (s\<lparr>rb_definitions := [], rb_hits := [], rb_started := []\<rparr>)"
    and kept_create: "run_within R (create_run clock r)"
    and kept_update: "run_within R (update_run_state clock rid status st out)"
    and kept_log: "run_within R (append_event_with en rid etype message data raw)"
    and kept_output: "run_within R (save_step_output clock rid step out)"
    and kept_fire: "run_within R (fire_node_state_trigger en rid sid t attempts out message)"
    and kept_ask: "run_within R (create_pending_item clock p)"
    and kept_reply: "run_within R (complete_pending_items clock rid out)"
    and kept_learn: "run_within R (upsert_observed_contract clock oc)"
    and kept_sync: "run_within R (sync_definitions en)"
begin

lemmas kept_basic =
  within_ret [OF kept_same] within_err [OF kept_same] within_read [OF kept_same] within_lift [OF kept_same]
  within_pair [OF kept_same]

lemmas kept_steps =
  within_bind [OF kept_twice] within_catch [OF kept_twice] within_options within_cases

lemma kept_answer: "run_within R (answer f)"
  by (simp add: run_within_def answer_def kept_tick)

lemma kept_fail: "run_within R (fail m)"
  unfolding fail_def by (rule kept_basic)

lemma kept_queue: "run_within R (modify (\<lambda>s. s\<lparr>rb_started := f s\<rparr>))"
  by (simp add: run_within_def modify_def kept_started)

lemma kept_ignore: "run_within R m \<Longrightarrow> run_within R (ignore m)"
  unfolding ignore_def by (intro kept_steps kept_basic) simp_all

lemma kept_dropped: "run_within R m \<Longrightarrow> run_within R (dropped m)"
  by (simp add: run_within_def dropped_def)

lemma kept_get: "run_within R (get_run rid)"
  unfolding get_run_def run_within_def using reflpD [OF kept_same] by (simp split: option.split)

lemma kept_event: "run_within R (append_event en rid etype message data)"
  unfolding append_event_def by (rule kept_log)

lemma kept_now: "run_within R (now_string clock)"
  unfolding now_string_def by (intro kept_steps kept_basic kept_answer)

lemma kept_encode: "run_within R (encode_map label m)"
  unfolding encode_map_def by (intro kept_steps kept_basic kept_fail)

lemma kept_random: "run_within R (random_id en p)"
  unfolding random_id_def by (intro kept_steps kept_basic kept_fail kept_answer)

lemmas kept_tables =
  kept_create kept_update kept_log kept_output kept_fire kept_ask kept_reply kept_learn kept_sync kept_basic
  kept_answer kept_fail kept_queue kept_ignore kept_dropped kept_get kept_event kept_now kept_encode
  kept_random

lemma kept_start: "run_within R (start_runbook en did input)"
  unfolding start_runbook_def Let_def by (intro kept_tables kept_steps)

lemma kept_cancel: "run_within R (cancel_run en rid)"
  unfolding cancel_run_def by (intro kept_tables kept_steps)

lemma kept_complete: "run_within R (complete_items en r ps payload)"
  by (induction ps) (auto simp: Let_def intro!: kept_tables kept_steps)

lemma kept_signal: "run_within R (signal_run en rid signal payload)"
  unfolding signal_run_def complete_pending_signals_def by (intro kept_tables kept_complete kept_steps)

lemma kept_human: "run_within R (request_human en rid step prompt payload)"
  unfolding request_human_def by (intro kept_tables kept_steps)

lemma kept_call: "run_within R (serve_call en c)"
  unfolding serve_call_def
  by (cases c) (simp_all add: kept_dropped kept_start kept_cancel kept_signal)

lemma kept_calls: "run_within R (serve_calls en cs)"
  by (induction cs) (auto intro!: kept_tables kept_call kept_steps)

lemma kept_external: "run_within R (call_external en c)"
  unfolding call_external_def by (intro kept_tables kept_calls kept_steps)

lemma kept_resolving: "run_within R (resolving v)"
  unfolding resolving_def by (intro kept_tables kept_steps)

lemma kept_result: "run_within R m \<Longrightarrow> run_within R (as_result m)"
  unfolding as_result_def by (intro kept_tables kept_steps)

lemma kept_wait: "run_within R (wait_for en deadline w)"
  unfolding wait_for_def by (intro kept_tables kept_calls kept_steps)

lemmas kept_host = kept_tables kept_start kept_signal kept_human kept_external kept_resolving kept_result kept_wait

lemma kept_action: "run_within R (execute_action en action cx args)"
  unfolding execute_action_def tool_call_def mcp_call_def call_mcp_def command_execute_def execute_command_def
    decision_route_def llm_generate_def generate_llm_def runbook_run_def start_nested_runbook_def
    runbook_signal_def human_request_def delay_until_def Let_def
  by (intro kept_host kept_steps)

lemma kept_rate: "run_within R (check_rate_limit en key rt)"
proof -
  have hits: "run_within R (\<lambda>s. (x, s\<lparr>rb_hits := f s\<rparr>))" for x :: "fault + unit" and f
    by (simp add: run_within_def kept_hits)
  have same: "run_within R (\<lambda>s. if P s then (x, s\<lparr>rb_hits := f s\<rparr>) else (y, s\<lparr>rb_hits := g s\<rparr>))"
    for x y :: "fault + unit" and P f g
    by (simp add: run_within_def kept_hits)
  show ?thesis
    unfolding check_rate_limit_def Let_def by (intro kept_tables kept_steps same)
qed

lemma kept_observed: "run_within R (record_observed_contract en def n e)"
  unfolding record_observed_contract_def by (auto simp: Let_def split: prod.split intro!: kept_host kept_steps)

lemma kept_once: "run_within R (execute_once en r n attempts input deadline)"
  unfolding execute_once_def Let_def by (intro kept_host kept_action kept_steps)

lemma kept_invoke: "run_within R (invoke_action en r n attempts now e input)"
  unfolding invoke_action_def Let_def by (intro kept_host kept_rate kept_once kept_steps)

lemma kept_attempt: "run_within R (execute_attempt en r n attempts)"
  unfolding execute_attempt_def reject_def Let_def by (intro kept_host kept_invoke kept_steps)

lemma kept_try: "run_within R (try_action en def r n delay left attempts err)"
proof (induction left arbitrary: attempts err)
  case 0
  show ?case
    by (simp add: Let_def) (intro kept_host kept_steps)
next
  case (Suc left)
  show ?case
    by (simp only: try_action.simps Let_def)
      (intro kept_host kept_calls kept_attempt kept_observed Suc.IH kept_steps)
qed

lemma kept_state_action: "run_within R (execute_state_action en def r n)"
  unfolding execute_state_action_def by (intro kept_host kept_try kept_steps)

lemma kept_entry: "run_within R (execute_entry en def r ns trigger)"
  by (induction ns arbitrary: trigger)
    (simp_all only: execute_entry.simps Let_def, (intro kept_host kept_state_action kept_steps | assumption)+)

lemma kept_state: "run_within R (execute_state en def r states left sid)"
proof (induction left arbitrary: sid)
  case 0
  show ?case by (simp only: execute_state.simps) (rule kept_fail)
next
  case (Suc left)
  show ?case
    by (simp only: execute_state.simps Let_def)
      (intro kept_host kept_entry Suc.IH kept_steps)
qed

lemma kept_machine: "run_within R (execute_state_machine en def r)"
  unfolding execute_state_machine_def by (intro kept_host kept_state kept_steps)

lemma kept_failing: "run_within R (fail_run en r m)"
  unfolding fail_run_def by (intro kept_host kept_steps)

lemma kept_run: "R s (execute_run en rid s)"
proof -
  have ok: "R s (snd (m s))" if "run_within R m" for m :: "unit service_run" and s
    using that unfolding run_within_def by blast
  show ?thesis
  proof (cases "find_run s rid")
    case None
    then show ?thesis by (simp add: execute_run_def reflpD [OF kept_same])
  next
    case (Some r)
    show ?thesis
    proof (cases "\<exists>def. describe_definition s (ru_definition r) = Some def \<and> has_state_machine def \<and>
        \<not> (ru_status r = ''canceled'' \<or> ru_status r = ''succeeded'')")
      case False
      then show ?thesis
        using Some ok [OF kept_failing] reflpD [OF kept_same]
        by (auto simp: execute_run_def split: option.split)
    next
      case True
      then obtain def where def: "describe_definition s (ru_definition r) = Some def" "has_state_machine def"
        "ru_status r \<noteq> ''canceled''" "ru_status r \<noteq> ''succeeded''" by blast
      obtain q t where m: "execute_state_machine en def r s = (q, t)" by force
      have st: "R s t" using ok [OF kept_machine, of s en def r] m by simp
      have further: "R s (snd (w t))" if "run_within R w" for w :: "unit service_run"
        using transpD [OF kept_twice st ok [OF that]] .
      show ?thesis
        using Some def m st further [OF kept_failing] further [OF kept_update]
        by (simp add: execute_run_def split: sum.split fault.split failure.split option.split)
    qed
  qed
qed

lemma kept_resume: "run_within R (resume_active_runs en)"
proof -
  have "run_within R (foldr (\<lambda>rid m. run_bind (ignore (append_event en rid ''run_resumed''
      ''runbook run resumed after startup'' [])) (\<lambda>_. run_bind (modify (\<lambda>s. s\<lparr>rb_started :=
      rb_started s @ [rid]\<rparr>)) (\<lambda>_. m))) rids (run_ret ()))" for rids
    by (induction rids) (auto intro!: kept_host kept_steps)
  then show ?thesis unfolding resume_active_runs_def by (intro kept_host kept_steps)
qed

lemma kept_schedules: "run_within R (fire_due_schedules en minute hour stamp utc dids earlier)"
  by (induction dids arbitrary: earlier)
    (simp_all only: fire_due_schedules.simps Let_def, (intro kept_host kept_steps | assumption)+)

lemma kept_step:
  assumes "service_step en s t"
  shows "R s t"
  using assms
proof cases
  case (serve c)
  then show ?thesis using kept_call unfolding run_within_def by blast
next
  case (execute xs rid ys)
  then show ?thesis using transpD [OF kept_twice kept_started kept_run] by simp
next
  case (schedule minute hour stamp utc earlier)
  then show ?thesis using kept_schedules unfolding run_within_def by blast
next
  case restart
  have "run_within R (run_bind (sync_definitions en) (\<lambda>_. resume_active_runs en))"
    by (intro kept_host kept_resume kept_steps)
  then show ?thesis
    using transpD [OF kept_twice kept_restart] restart unfolding open_service_def run_within_def by blast
qed

lemma kept_steps_many:
  assumes "(service_step en)\<^sup>*\<^sup>* s t"
  shows "R s t"
  using assms
proof induction
  case base
  show ?case by (rule reflpD [OF kept_same])
next
  case (step t u)
  then show ?case using kept_step transpD [OF kept_twice] by blast
qed

end

end
