(* ===== verification/Runbook_History.thy ===== *)
theory Runbook_History imports Runbook_Laws begin

text \<open>
  What the tables of the runbook service keep over any number of steps: the locale \<open>service_relation\<close>
  is interpreted for the life cycle of nodes, the log of events, the records of runs and pending
  items, and the loaded definitions.
\<close>

section \<open>Operations on the tables\<close>

lemmas table_ops =
  run_bind_def now_string_def answer_def encode_map_def modify_def fail_def run_ret_def run_err_def Let_def

lemma create_run_frame [simp]:
  "rb_nodes (snd (create_run c r s)) = rb_nodes s"
  "rb_events (snd (create_run c r s)) = rb_events s"
  "rb_pending (snd (create_run c r s)) = rb_pending s"
  "rb_definitions (snd (create_run c r s)) = rb_definitions s"
  "rb_outputs (snd (create_run c r s)) = rb_outputs s"
  by (simp_all add: create_run_def table_ops split: option.split)

lemma update_run_state_frame [simp]:
  "rb_nodes (snd (update_run_state c rid status st out s)) = rb_nodes s"
  "rb_events (snd (update_run_state c rid status st out s)) = rb_events s"
  "rb_pending (snd (update_run_state c rid status st out s)) = rb_pending s"
  "rb_definitions (snd (update_run_state c rid status st out s)) = rb_definitions s"
  "rb_outputs (snd (update_run_state c rid status st out s)) = rb_outputs s"
  by (simp_all add: update_run_state_def table_ops split: option.split)

lemma append_event_frame [simp]:
  "rb_nodes (snd (append_event_with en rid ty m d raw s)) = rb_nodes s"
  "rb_runs (snd (append_event_with en rid ty m d raw s)) = rb_runs s"
  "rb_pending (snd (append_event_with en rid ty m d raw s)) = rb_pending s"
  "rb_definitions (snd (append_event_with en rid ty m d raw s)) = rb_definitions s"
  "rb_outputs (snd (append_event_with en rid ty m d raw s)) = rb_outputs s"
  by (simp_all add: append_event_with_def append_event_row_def table_ops split: option.split)

lemma save_step_output_frame [simp]:
  "rb_nodes (snd (save_step_output c rid step out s)) = rb_nodes s"
  "rb_runs (snd (save_step_output c rid step out s)) = rb_runs s"
  "rb_events (snd (save_step_output c rid step out s)) = rb_events s"
  "rb_pending (snd (save_step_output c rid step out s)) = rb_pending s"
  "rb_definitions (snd (save_step_output c rid step out s)) = rb_definitions s"
  by (simp_all add: save_step_output_def table_ops split: option.split)

lemma fire_frame [simp]:
  "rb_runs (snd (fire_node_state_trigger en rid sid t a out m s)) = rb_runs s"
  "rb_events (snd (fire_node_state_trigger en rid sid t a out m s)) = rb_events s"
  "rb_pending (snd (fire_node_state_trigger en rid sid t a out m s)) = rb_pending s"
  "rb_definitions (snd (fire_node_state_trigger en rid sid t a out m s)) = rb_definitions s"
  "rb_outputs (snd (fire_node_state_trigger en rid sid t a out m s)) = rb_outputs s"
  by (simp_all add: fire_node_state_trigger_def mark_running_def mark_succeeded_def mark_failed_def
      mark_skipped_def upsert_node_state_def table_ops split: option.split)

lemma create_pending_item_frame [simp]:
  "rb_nodes (snd (create_pending_item c p s)) = rb_nodes s"
  "rb_runs (snd (create_pending_item c p s)) = rb_runs s"
  "rb_events (snd (create_pending_item c p s)) = rb_events s"
  "rb_definitions (snd (create_pending_item c p s)) = rb_definitions s"
  "rb_outputs (snd (create_pending_item c p s)) = rb_outputs s"
  by (simp_all add: create_pending_item_def table_ops split: option.split)

lemma complete_pending_items_frame [simp]:
  "rb_nodes (snd (complete_pending_items c rid out s)) = rb_nodes s"
  "rb_runs (snd (complete_pending_items c rid out s)) = rb_runs s"
  "rb_events (snd (complete_pending_items c rid out s)) = rb_events s"
  "rb_definitions (snd (complete_pending_items c rid out s)) = rb_definitions s"
  "rb_outputs (snd (complete_pending_items c rid out s)) = rb_outputs s"
  by (simp_all add: complete_pending_items_def table_ops split: option.split)

lemma upsert_observed_contract_frame [simp]:
  "rb_nodes (snd (upsert_observed_contract c oc s)) = rb_nodes s"
  "rb_runs (snd (upsert_observed_contract c oc s)) = rb_runs s"
  "rb_events (snd (upsert_observed_contract c oc s)) = rb_events s"
  "rb_pending (snd (upsert_observed_contract c oc s)) = rb_pending s"
  "rb_definitions (snd (upsert_observed_contract c oc s)) = rb_definitions s"
  "rb_outputs (snd (upsert_observed_contract c oc s)) = rb_outputs s"
  by (simp_all add: upsert_observed_contract_def table_ops split: option.split)

lemma sync_definitions_frame [simp]:
  "rb_nodes (snd (sync_definitions en s)) = rb_nodes s"
  "rb_runs (snd (sync_definitions en s)) = rb_runs s"
  "rb_events (snd (sync_definitions en s)) = rb_events s"
  "rb_pending (snd (sync_definitions en s)) = rb_pending s"
  "rb_outputs (snd (sync_definitions en s)) = rb_outputs s"
  by (simp_all add: sync_definitions_def table_ops split: sum.split prod.split)

section \<open>The life cycle of nodes\<close>

lemma find_map_keyed:
  "(\<And>x. Q (f x) = Q x) \<Longrightarrow> List.find Q (map f xs) = map_option f (List.find Q xs)"
  by (induction xs) auto

lemma find_append: "List.find Q (xs @ ys) = (case List.find Q xs of Some x \<Rightarrow> Some x | None \<Rightarrow> List.find Q ys)"
  by (induction xs) auto

lemma get_node_state_upsert:
  assumes "ns_run row = rid" "ns_state row = sid"
    and "\<And>n. ns_run (change n) = ns_run n" "\<And>n. ns_state (change n) = ns_state n"
  shows "get_node_state (upsert_node_state rid sid row change s) rid' sid' =
    (if rid' = rid \<and> sid' = sid
     then Some (case get_node_state s rid sid of Some n \<Rightarrow> change n | None \<Rightarrow> row)
     else get_node_state s rid' sid')"
proof -
  have key: "map_option (\<lambda>n. if ns_run n = rid \<and> ns_state n = sid then change n else n)
      (List.find (\<lambda>n. ns_run n = rid' \<and> ns_state n = sid') xs) =
    (if rid' = rid \<and> sid' = sid then map_option change (List.find (\<lambda>n. ns_run n = rid' \<and> ns_state n = sid') xs)
     else List.find (\<lambda>n. ns_run n = rid' \<and> ns_state n = sid') xs)" for xs
    by (induction xs) auto
  have "List.find (\<lambda>n. ns_run n = rid' \<and> ns_state n = sid')
      (map (\<lambda>n. if ns_run n = rid \<and> ns_state n = sid then change n else n) (rb_nodes s)) =
    map_option (\<lambda>n. if ns_run n = rid \<and> ns_state n = sid then change n else n)
      (List.find (\<lambda>n. ns_run n = rid' \<and> ns_state n = sid') (rb_nodes s))"
    by (rule find_map_keyed) (simp add: assms(3,4))
  then show ?thesis
    using assms(1,2) key
    by (auto simp: get_node_state_def upsert_node_state_def find_append split: option.split)
qed

definition finished :: "string list" where
  "finished = [''succeeded'', ''failed'', ''skipped'']"

text \<open>
  How the row of a node may change: there was none or it was running, and there is one now, running or
  finished.
\<close>

definition lives :: "node_state option \<Rightarrow> node_state option \<Rightarrow> bool" where
  "lives a b \<longleftrightarrow> a = b \<or>
     (case a of None \<Rightarrow> True | Some n \<Rightarrow> ns_status n = ''pending'' \<or> ns_status n = ''running'') \<and>
     (case b of None \<Rightarrow> False | Some n \<Rightarrow> ns_status n = ''running'' \<or> ns_status n \<in> set finished)"

definition nodes_live :: "service_state \<Rightarrow> service_state \<Rightarrow> bool" where
  "nodes_live s t \<longleftrightarrow> (\<forall>rid sid. lives (get_node_state s rid sid) (get_node_state t rid sid))"

lemma lives_then: "lives a b \<Longrightarrow> lives b c \<Longrightarrow> lives a c"
  by (auto simp: lives_def finished_def split: option.splits)

lemma nodes_live_same [simp]: "rb_nodes t = rb_nodes s \<Longrightarrow> nodes_live s t"
  by (simp add: nodes_live_def get_node_state_def lives_def)

lemma upsert_lives:
  assumes "get_node_state s rid sid = None \<or> (\<exists>n. get_node_state s rid sid = Some n \<and>
      (ns_status n = ''pending'' \<or> ns_status n = ''running''))"
    and "ns_run row = rid" "ns_state row = sid"
    and "\<And>n. ns_run (change n) = ns_run n" "\<And>n. ns_state (change n) = ns_state n"
    and "\<And>n. ns_status (change n) = ns_status row"
    and "ns_status row = ''running'' \<or> ns_status row \<in> set finished"
  shows "nodes_live s (upsert_node_state rid sid row change (s\<lparr>rb_tick := k\<rparr>))"
proof -
  have ticks: "get_node_state (s\<lparr>rb_tick := k\<rparr>) = get_node_state s"
    by (simp add: get_node_state_def fun_eq_iff)
  show ?thesis
    unfolding nodes_live_def lives_def
    using assms(1,6,7) by (auto simp: get_node_state_upsert [OF assms(2-5)] ticks)
qed

lemma fire_lives: "nodes_live s (snd (fire_node_state_trigger en rid sid t a out m s))"
proof -
  let ?c = "case get_node_state s rid sid of Some n \<Rightarrow> ns_status n | None \<Rightarrow> ''pending''"
  show ?thesis
  proof (cases "next_status ?c t")
    case None
    then show ?thesis by (simp add: fire_node_state_trigger_def Let_def)
  next
    case (Some nx)
    have "get_node_state s rid sid = None \<or> (\<exists>n. get_node_state s rid sid = Some n \<and>
        (ns_status n = ''pending'' \<or> ns_status n = ''running''))"
      using Some by (cases "get_node_state s rid sid") (simp_all add: next_status_def split: if_splits)
    note up = upsert_lives [OF this]
    have "nodes_live s (snd (mark_running (ho_clock en) rid sid a s))"
      "nodes_live s (snd (mark_failed (ho_clock en) rid sid a m s))"
      by (simp_all add: mark_running_def mark_failed_def table_ops up finished_def)
    moreover have "nodes_live s (snd (mark_succeeded (ho_clock en) rid sid a out s))"
      "nodes_live s (snd (mark_skipped (ho_clock en) rid sid a out s))"
      by (cases "json_fields_copy out"; simp add: mark_succeeded_def mark_skipped_def table_ops up finished_def)+
    ultimately show ?thesis
      using Some by (simp add: fire_node_state_trigger_def Let_def)
  qed
qed

interpretation life: service_relation nodes_live
proof (unfold_locales, goal_cases)
  case 1
  show ?case by (simp add: reflp_def)
next
  case 2
  show ?case unfolding transp_def nodes_live_def using lives_then by blast
qed (simp_all add: run_within_def fire_lives)

section \<open>The log of events\<close>

text \<open>Below every sensitive key there is only the mark of redaction.\<close>

fun secrets_hidden :: "json \<Rightarrow> bool" and items_hidden :: "json list \<Rightarrow> bool"
  and fields_hidden :: "json_map \<Rightarrow> bool" where
  "secrets_hidden (JObj m) = fields_hidden m"
| "secrets_hidden (JArr vs) = items_hidden vs"
| "secrets_hidden v = True"
| "items_hidden [] = True"
| "items_hidden (v # vs) = (secrets_hidden v \<and> items_hidden vs)"
| "fields_hidden [] = True"
| "fields_hidden ((k, v) # m) =
     ((if sensitive_key k then v = JStr ''[REDACTED]'' else secrets_hidden v) \<and> fields_hidden m)"

lemma redact_hides:
  "secrets_hidden (redact_sensitive v)" "items_hidden (redact_items vs)" "fields_hidden (redact_fields m)"
  by (induction v and vs and m rule: redact_sensitive_redact_items_redact_fields.induct) auto

lemma copy_hides:
  "json_copy v = Some w \<Longrightarrow> secrets_hidden v \<Longrightarrow> secrets_hidden w"
  "json_copies vs = Some ws \<Longrightarrow> items_hidden vs \<Longrightarrow> items_hidden ws"
  "json_fields_copy m = Some c \<Longrightarrow> fields_hidden m \<Longrightarrow> fields_hidden c"
  by (induction v and vs and m arbitrary: w and ws and c rule: json_copy_json_copies_json_fields_copy.induct)
     (auto split: option.splits if_splits)

lemma fields_hidden_append: "fields_hidden (m @ c) \<longleftrightarrow> fields_hidden m \<and> fields_hidden c"
  by (induction m) auto

lemma items_hidden_strings: "items_hidden (map JStr vs)"
  by (induction vs) auto

lemma raw_hidden:
  "fields_hidden (map (\<lambda>(k, vs). (k, if vs = [] then JNull else JArr (map JStr vs)))
     (filter (\<lambda>(k, vs). \<not> sensitive_key k) raw))"
  by (induction raw) (auto simp: items_hidden_strings)

definition event_clean :: "event_record \<Rightarrow> bool" where
  "event_clean e \<longleftrightarrow> fields_hidden (lg_data e) \<and> (\<exists>m. lg_message e = redact_string m)"

definition events_grow :: "service_state \<Rightarrow> service_state \<Rightarrow> bool" where
  "events_grow s t \<longleftrightarrow> (\<exists>es. rb_events t = rb_events s @ es \<and> (\<forall>e\<in>set es. event_clean e))"

lemma events_grow_same [simp]: "rb_events t = rb_events s \<Longrightarrow> events_grow s t"
  by (auto simp: events_grow_def)

lemma append_event_grows: "events_grow s (snd (append_event_with en rid ty m data raw s))"
proof -
  have hidden: "fields_hidden (redact_fields data @ map (\<lambda>(k, vs). (k, if vs = [] then JNull else JArr (map JStr vs)))
     (filter (\<lambda>(k, vs). \<not> sensitive_key k) raw))"
    by (simp only: fields_hidden_append redact_hides raw_hidden simp_thms)
  show ?thesis
    using copy_hides(3) [OF _ hidden]
    unfolding append_event_with_def append_event_row_def
    by (auto simp: table_ops events_grow_def event_clean_def split: option.split)
qed

interpretation log: service_relation events_grow
proof (unfold_locales, goal_cases)
  case 1
  show ?case by (simp add: reflp_def)
next
  case 2
  show ?case unfolding transp_def events_grow_def by (metis append_assoc set_append Un_iff)
qed (simp_all add: run_within_def append_event_grows)

section \<open>Runs and pending items\<close>

text \<open>
  A run keeps its identity and its input, a pending item its question; a completed item is never
  changed, and identifiers stay unique.
\<close>

definition run_key :: "run_record \<Rightarrow> string \<times> string \<times> string \<times> json_map \<times> string" where
  "run_key r = (ru_id r, ru_definition r, ru_kind r, ru_input r, ru_created r)"

definition pending_step :: "pending_item \<Rightarrow> pending_item \<Rightarrow> bool" where
  "pending_step p q \<longleftrightarrow> p = q \<or>
     pi_status p = ''open'' \<and> pi_status q = ''completed'' \<and> pi_id q = pi_id p \<and> pi_run q = pi_run p \<and>
     pi_step q = pi_step p \<and> pi_prompt q = pi_prompt p \<and> pi_payload q = pi_payload p \<and>
     pi_created q = pi_created p"

definition runs_kept :: "run_record list \<Rightarrow> run_record list \<Rightarrow> bool" where
  "runs_kept rs ts \<longleftrightarrow> (\<exists>ks. map run_key ts = map run_key rs @ ks) \<and>
     (distinct (map ru_id rs) \<longrightarrow> distinct (map ru_id ts))"

definition items_kept :: "pending_item list \<Rightarrow> pending_item list \<Rightarrow> bool" where
  "items_kept ps qs \<longleftrightarrow> (\<exists>ps' new. qs = ps' @ new \<and> list_all2 pending_step ps ps') \<and>
     (distinct (map pi_id ps) \<longrightarrow> distinct (map pi_id qs))"

definition records_kept :: "service_state \<Rightarrow> service_state \<Rightarrow> bool" where
  "records_kept s t \<longleftrightarrow> runs_kept (rb_runs s) (rb_runs t) \<and> items_kept (rb_pending s) (rb_pending t)"

lemma pending_step_then: "pending_step p q \<Longrightarrow> pending_step q r \<Longrightarrow> pending_step p r"
  by (auto simp: pending_step_def)

lemma runs_kept_same [simp]: "runs_kept rs rs"
  by (simp add: runs_kept_def)

lemma items_kept_same [simp]: "items_kept ps ps"
proof -
  have "list_all2 pending_step ps ps" by (simp add: list_all2_same pending_step_def)
  then show ?thesis by (auto simp: items_kept_def)
qed

lemma items_kept_map:
  assumes "\<And>p. pending_step p (f p)" "\<And>p. pi_id (f p) = pi_id p"
  shows "items_kept ps (map f ps)"
proof -
  have "list_all2 pending_step ps (map f ps)" by (simp add: list.rel_map assms(1) list.rel_refl)
  moreover have "map pi_id (map f ps) = map pi_id ps" by (simp add: assms(2))
  ultimately show ?thesis by (simp only: items_kept_def) (metis append_Nil2)
qed

lemma items_kept_add:
  assumes "pi_id p \<notin> pi_id ` set ps"
  shows "items_kept ps (ps @ [p])"
proof -
  have "list_all2 pending_step ps ps" by (simp add: list_all2_same pending_step_def)
  then show ?thesis using assms by (auto simp: items_kept_def)
qed

lemma runs_kept_map:
  assumes "\<And>r. run_key (f r) = run_key r"
  shows "runs_kept rs (map f rs)"
proof -
  have "ru_id (f r) = ru_id r" for r using assms [of r] by (simp add: run_key_def)
  then have "map ru_id (map f rs) = map ru_id rs" by simp
  moreover have "map run_key (map f rs) = map run_key rs" using assms by simp
  ultimately show ?thesis by (simp only: runs_kept_def) (metis append_Nil2)
qed

lemma runs_kept_then: "runs_kept rs ts \<Longrightarrow> runs_kept ts us \<Longrightarrow> runs_kept rs us"
  by (auto simp: runs_kept_def)

lemma items_kept_then:
  assumes "items_kept ps qs" "items_kept qs rs"
  shows "items_kept ps rs"
proof -
  obtain ps' new rs' new' where p: "qs = ps' @ new" "list_all2 pending_step ps ps'"
    "rs = rs' @ new'" "list_all2 pending_step (ps' @ new) rs'"
    using assms by (auto simp: items_kept_def)
  obtain p1 p2 where rs': "rs' = p1 @ p2" "list_all2 pending_step ps' p1"
    using p(4) by (auto simp: list_all2_append1)
  have "list_all2 pending_step ps p1"
    by (rule list_all2_trans [of pending_step pending_step pending_step, OF _ p(2) rs'(2)])
      (rule pending_step_then)
  then show ?thesis using assms p(3) rs'(1) unfolding items_kept_def by auto
qed

lemma records_kept_same [simp]:
  "rb_runs t = rb_runs s \<Longrightarrow> rb_pending t = rb_pending s \<Longrightarrow> records_kept s t"
  by (simp add: records_kept_def)

lemma find_run_None: "find_run s rid = None \<longleftrightarrow> rid \<notin> ru_id ` set (rb_runs s)"
  by (auto simp: find_run_def find_None_iff)

lemma create_run_kept: "records_kept s (snd (create_run c r s))"
proof -
  have same: "find_run (s\<lparr>rb_tick := k\<rparr>) = find_run s" for k
    by (simp add: find_run_def fun_eq_iff)
  have "runs_kept rs (rs @ [r'])" if "ru_id r' \<notin> ru_id ` set rs" for rs and r' :: run_record
    using that by (simp add: runs_kept_def)
  then show ?thesis
    by (simp add: create_run_def table_ops records_kept_def same find_run_None split: option.split)
qed

lemma update_run_state_kept: "records_kept s (snd (update_run_state c rid status st out s))"
  by (simp add: update_run_state_def table_ops records_kept_def runs_kept_map run_key_def split: option.split)

lemma create_pending_item_kept: "records_kept s (snd (create_pending_item c p s))"
proof -
  have "items_kept ps (ps @ [q])" if "\<not> (\<exists>q'\<in>set ps. pi_id q' = pi_id q)" for ps q
    by (rule items_kept_add) (use that in auto)
  then show ?thesis
    by (simp add: create_pending_item_def table_ops records_kept_def split: option.split)
qed

lemma complete_pending_items_kept: "records_kept s (snd (complete_pending_items c rid out s))"
  by (simp add: complete_pending_items_def table_ops records_kept_def items_kept_map pending_step_def
      split: option.split)

interpretation records: service_relation records_kept
proof (unfold_locales, goal_cases)
  case 1
  show ?case by (simp add: reflp_def)
next
  case 2
  show ?case unfolding transp_def records_kept_def using runs_kept_then items_kept_then by blast
qed (simp_all add: run_within_def create_run_kept update_run_state_kept create_pending_item_kept
  complete_pending_items_kept)

section \<open>Loaded definitions\<close>

definition definitions_valid :: "service_state \<Rightarrow> bool" where
  "definitions_valid s \<longleftrightarrow> distinct (map fst (rb_definitions s)) \<and>
     (\<forall>(did, def)\<in>set (rb_definitions s). did = df_id def \<and> validate_definition def = None)"

lemma load_directory_valid:
  assumes "load_directory dc skip dir entries = Inr (ls, ws)"
  shows "(\<forall>l\<in>set ls. validate_definition (ld_definition l) = None) \<and>
    distinct (map (\<lambda>l. df_id (ld_definition l)) ls)"
  using assms load_files_valid [of dc skip _ "[]" "[]" ls ws]
  by (auto simp: load_directory_def Let_def split: if_splits option.splits)

lemma sync_definitions_valid:
  assumes "definitions_valid s"
  shows "definitions_valid (snd (sync_definitions en s))"
proof (cases "load_directory (ho_codec en) (ho_skip_invalid en) (ho_directory en) (ho_files en (rb_tick s))")
  case (Inl e)
  then show ?thesis using assms by (simp add: sync_definitions_def table_ops definitions_valid_def)
next
  case (Inr lw)
  obtain ls ws where lw: "lw = (ls, ws)" by force
  note ok = load_directory_valid [OF Inr [unfolded lw]]
  have "distinct (map fst (map (\<lambda>l. (df_id (ld_definition l), ld_definition l)) ls))"
    using ok by (simp add: comp_def)
  then show ?thesis
    using Inr lw ok by (auto simp: sync_definitions_def table_ops definitions_valid_def)
qed

definition definitions_stay :: "service_state \<Rightarrow> service_state \<Rightarrow> bool" where
  "definitions_stay s t \<longleftrightarrow> (definitions_valid s \<longrightarrow> definitions_valid t)"

lemma definitions_stay_same [simp]: "rb_definitions t = rb_definitions s \<Longrightarrow> definitions_stay s t"
  by (simp add: definitions_stay_def definitions_valid_def)

interpretation defs: service_relation definitions_stay
proof (unfold_locales, goal_cases)
  case 1
  show ?case by (simp add: reflp_def)
next
  case 2
  show ?case unfolding transp_def definitions_stay_def by blast
next
  case (6 s)
  show ?case by (simp add: definitions_stay_def definitions_valid_def)
qed (simp_all add: run_within_def, simp add: definitions_stay_def sync_definitions_valid)

end
