(* ===== verification/Runbook_Progress.thy ===== *)
theory Runbook_Progress imports Runbook_History begin

text \<open>
  When an execution returns: references that stand alone are resolved in one step, so a definition that
  embeds none never gets stuck while the programs outside answer.
\<close>

section \<open>Arguments that always resolve\<close>

text \<open>A text without a reference, or one that is a single reference.\<close>

definition text_ends :: "string \<Rightarrow> bool" where
  "text_ends s \<longleftrightarrow> first_ref s = None \<or>
     (let t = trim_space s in has_prefix t ''${'' \<and> has_suffix t ''}'' \<and> count_str t ''${'' = 1)"

fun refs_whole :: "json \<Rightarrow> bool" and items_whole :: "json list \<Rightarrow> bool" and fields_whole :: "json_map \<Rightarrow> bool" where
  "refs_whole (JStr s) = text_ends s"
| "refs_whole (JArr vs) = items_whole vs"
| "refs_whole (JObj m) = fields_whole m"
| "refs_whole v = True"
| "items_whole [] = True"
| "items_whole (v # vs) = (refs_whole v \<and> items_whole vs)"
| "fields_whole [] = True"
| "fields_whole ((k, v) # m) = (refs_whole v \<and> fields_whole m)"

lemma text_resolves: "text_ends s \<Longrightarrow> \<exists>w. resolve_input_ref_string s input = Some w"
  by (auto simp: text_ends_def resolve_input_ref_string_def Let_def substitute.simps [of input s]
      split: option.split)

lemma refs_whole_resolve:
  "refs_whole v \<Longrightarrow> \<exists>w. resolve_input_refs v input = Some w"
  "items_whole vs \<Longrightarrow> \<exists>ws. resolve_items vs input = Some ws"
  "fields_whole m \<Longrightarrow> \<exists>ms. resolve_fields m input = Some ms"
  by (induction v and vs and m rule: refs_whole_items_whole_fields_whole.induct) (auto simp: text_resolves)

lemma fields_whole_lookup: "fields_whole m \<Longrightarrow> map_of m k = Some v \<Longrightarrow> refs_whole v"
  by (induction m) (auto split: if_splits)

lemma args_resolve:
  assumes "fields_whole args"
  shows "resolved_string_arg args k input \<noteq> None" "resolved_map_arg args k fallback input \<noteq> None"
    "data_defaults input args \<noteq> None"
proof -
  have found: "resolve_input_refs v input \<noteq> None" if "map_of args k = Some v" for k v
    using fields_whole_lookup [OF assms that] refs_whole_resolve(1) by blast
  then show str: "resolved_string_arg args k input \<noteq> None"
    unfolding resolved_string_arg_def by (fastforce split: option.split)
  have map: "resolved_map_arg args k fallback input \<noteq> None" for k fallback
    using found [of k] unfolding resolved_map_arg_def by (fastforce split: option.split)
  then show "resolved_map_arg args k fallback input \<noteq> None" .
  show "data_defaults input args \<noteq> None"
    using map by (auto simp: data_defaults_def bind_eq_None_conv)
qed

section \<open>Operations that return\<close>

definition returns :: "'a service_run \<Rightarrow> bool" where
  "returns m \<longleftrightarrow> (\<forall>s. fst (m s) \<noteq> Inl Stuck)"

lemma returns_catch:
  assumes "returns m" "\<And>r. r \<noteq> Inl Stuck \<Longrightarrow> returns (h r)"
  shows "returns (\<lambda>s. case m s of (r, t) \<Rightarrow> h r t)"
  using assms by (simp add: returns_def split: prod.split) (metis fst_conv)

lemma returns_bind:
  assumes "returns m" "\<And>x. returns (f x)"
  shows "returns (run_bind m f)"
  unfolding run_bind_def
proof (rule returns_catch [OF assms(1)])
  show "returns (\<lambda>t. case r of Inl e \<Rightarrow> (Inl e, t) | Inr x \<Rightarrow> f x t)" if "r \<noteq> Inl Stuck" for r
    using that assms(2) by (cases r) (simp_all add: returns_def)
qed

lemma returns_sum:
  "\<lbrakk>\<And>x. r = Inl x \<Longrightarrow> returns (\<lambda>t. f x t); \<And>y. r = Inr y \<Longrightarrow> returns (\<lambda>t. g y t)\<rbrakk> \<Longrightarrow>
   returns (\<lambda>t. case r of Inl x \<Rightarrow> f x t | Inr y \<Rightarrow> g y t)"
  by (cases r) simp_all

lemma returns_fault:
  "\<lbrakk>\<And>x. e = Fault x \<Longrightarrow> returns (\<lambda>t. f x t); e = Stuck \<Longrightarrow> returns (\<lambda>t. g t)\<rbrakk> \<Longrightarrow>
   returns (\<lambda>t. case e of Fault x \<Rightarrow> f x t | Stuck \<Rightarrow> g t)"
  by (cases e) simp_all

lemma returns_failure:
  "\<lbrakk>e = Pending \<Longrightarrow> returns (\<lambda>t. f t); \<And>m. e = Failed m \<Longrightarrow> returns (\<lambda>t. g m t)\<rbrakk> \<Longrightarrow>
   returns (\<lambda>t. case e of Pending \<Rightarrow> f t | Failed m \<Rightarrow> g m t)"
  by (cases e) simp_all

lemma returns_if:
  "\<lbrakk>b \<Longrightarrow> returns (\<lambda>t. f t); \<not> b \<Longrightarrow> returns (\<lambda>t. g t)\<rbrakk> \<Longrightarrow> returns (\<lambda>t. if b then f t else g t)"
  by (cases b) simp_all

lemmas returns_cases = returns_sum returns_fault returns_failure returns_if

lemma returns_options:
  "\<lbrakk>q = None \<Longrightarrow> returns f; \<And>x. q = Some x \<Longrightarrow> returns (g x)\<rbrakk> \<Longrightarrow>
   returns (case q of None \<Rightarrow> f | Some x \<Rightarrow> g x)"
  "\<lbrakk>\<And>x. r = Inl x \<Longrightarrow> returns (f1 x); \<And>y. r = Inr y \<Longrightarrow> returns (g1 y)\<rbrakk> \<Longrightarrow>
   returns (case r of Inl x \<Rightarrow> f1 x | Inr y \<Rightarrow> g1 y)"
  "\<lbrakk>\<And>x y. p = (x, y) \<Longrightarrow> returns (h x y)\<rbrakk> \<Longrightarrow> returns (case p of (x, y) \<Rightarrow> h x y)"
  "\<lbrakk>b \<Longrightarrow> returns f2; \<not> b \<Longrightarrow> returns g2\<rbrakk> \<Longrightarrow> returns (if b then f2 else g2)"
  "\<lbrakk>w = Pending \<Longrightarrow> returns f3; \<And>m. w = Failed m \<Longrightarrow> returns (g3 m)\<rbrakk> \<Longrightarrow>
   returns (case w of Pending \<Rightarrow> f3 | Failed m \<Rightarrow> g3 m)"
  by (simp_all split: option.split sum.split prod.split failure.split)

lemma returns_basic:
  "returns (run_ret x)" "returns (fail m)" "returns (run_err (Fault e))" "returns (answer f)" "returns (modify g)"
  "returns (run_read (\<lambda>s. Inr (h s)))" "returns (\<lambda>s. (Inr y, s))" "returns (\<lambda>s. (Inl (Fault e'), s))"
  "returns (get_run rid)"
  by (simp_all add: returns_def run_ret_def fail_def run_err_def answer_def modify_def run_read_def get_run_def
      split: option.split)

lemma returns_tables:
  "returns (now_string c)" "returns (encode_map l m)" "returns (create_run c r)"
  "returns (update_run_state c rid st x out)" "returns (append_event_with en rid ty m' d raw)"
  "returns (append_event en rid ty m' d)" "returns (save_step_output c rid step out)"
  "returns (fire_node_state_trigger en rid sid t a out m')" "returns (create_pending_item c p)"
  "returns (complete_pending_items c rid out)" "returns (upsert_observed_contract c oc)"
  "returns (sync_definitions en)" "returns (random_id en x')"
  by (simp_all add: returns_def now_string_def create_run_def update_run_state_def append_event_def
      append_event_with_def append_event_row_def save_step_output_def fire_node_state_trigger_def
      mark_running_def mark_succeeded_def mark_failed_def mark_skipped_def create_pending_item_def
      complete_pending_items_def upsert_observed_contract_def sync_definitions_def random_id_def table_ops
      split: option.split sum.split prod.split)

lemma returns_ignore: "returns m \<Longrightarrow> returns (ignore m)"
  unfolding ignore_def returns_def by (simp split: prod.split sum.split fault.split) (metis fst_conv)

lemma returns_dropped: "returns (dropped m)"
  by (simp add: returns_def dropped_def)

lemmas returns_steps = returns_bind returns_catch returns_options returns_cases
lemmas returning = returns_basic returns_tables returns_ignore returns_dropped

section \<open>Actions that return\<close>

lemma start_returns: "returns (start_runbook en did input)"
  unfolding start_runbook_def by (intro returning returns_steps)

lemma complete_returns: "returns (complete_items en r ps payload)"
  by (induction ps) (auto simp: Let_def intro!: returning returns_steps)

lemma signal_returns: "returns (signal_run en rid signal payload)"
  unfolding signal_run_def complete_pending_signals_def by (intro returning complete_returns returns_steps)

lemma human_returns: "returns (request_human en rid step prompt payload)"
  unfolding request_human_def by (intro returning returns_steps)

lemma calls_return: "returns (serve_calls en cs)"
  unfolding serve_call_def
  by (induction cs) (auto simp: serve_call_def split: api_call.split intro!: returning returns_steps)

lemma external_returns:
  assumes "\<And>k c. ho_external en k c \<noteq> None"
  shows "returns (call_external en c)"
proof -
  have "returns (\<lambda>s. call_external en c s)"
    unfolding call_external_def returns_def run_bind_def answer_def
    using assms calls_return [of en]
    by (simp add: returns_def run_ret_def fail_def run_err_def split: option.split sum.split prod.split)
      (metis fst_conv)
  then show ?thesis .
qed

lemma result_returns: "returns m \<Longrightarrow> returns (as_result m)"
  unfolding as_result_def by (intro returns_catch returns_cases returning) simp_all

lemma wait_returns: "returns (wait_for en d w)"
  unfolding wait_for_def by (intro returning calls_return returns_steps)

lemma resolving_returns: "v \<noteq> None \<Longrightarrow> returns (resolving v)"
  unfolding resolving_def by (auto intro!: returning)

lemma action_returns:
  assumes "\<And>k c. ho_external en k c \<noteq> None" "fields_whole args"
  shows "returns (execute_action en action cx args)"
  unfolding execute_action_def tool_call_def mcp_call_def call_mcp_def command_execute_def execute_command_def
    decision_route_def llm_generate_def generate_llm_def runbook_run_def start_nested_runbook_def
    runbook_signal_def human_request_def delay_until_def Let_def
  by (intro result_returns returning start_returns signal_returns human_returns wait_returns
      external_returns [OF assms(1)] resolving_returns args_resolve [OF assms(2)] returns_steps) simp_all

section \<open>Executions that return\<close>

lemma rate_returns: "returns (check_rate_limit en key rt)"
  unfolding check_rate_limit_def Let_def
  by (simp add: returns_def run_bind_def answer_def run_ret_def)

lemma observed_returns: "returns (record_observed_contract en def n e)"
  unfolding record_observed_contract_def by (auto simp: Let_def split: prod.split intro!: returning returns_steps)

definition node_whole :: "node_definition \<Rightarrow> bool" where
  "node_whole n \<longleftrightarrow> fields_whole (action_node_args n)"

definition table_whole :: "state_table \<Rightarrow> bool" where
  "table_whole states \<longleftrightarrow> list_all (\<lambda>(sid, st). list_all node_whole (sd_on_entry st)) states"

definition answers :: "environment \<Rightarrow> bool" where
  "answers en \<longleftrightarrow> (\<forall>k c. ho_external en k c \<noteq> None)"

lemma once_returns:
  assumes "answers en" "node_whole n"
  shows "returns (execute_once en r n a input d)"
  unfolding execute_once_def Let_def
  by (intro returning returns_steps action_returns) (use assms in \<open>simp_all add: answers_def node_whole_def\<close>)

lemma invoke_returns:
  assumes "answers en" "node_whole n"
  shows "returns (invoke_action en r n a now e input)"
  unfolding invoke_action_def Let_def
  by (intro returning rate_returns once_returns [OF assms] returns_steps) simp_all

lemma attempt_returns:
  assumes "answers en" "node_whole n"
  shows "returns (execute_attempt en r n a)"
proof -
  have ask: "returns (\<lambda>s. case request_human en rid step prompt payload s of
      (Inl (Fault e), t) \<Rightarrow> (Inr (f e), t) | (Inl Stuck, t) \<Rightarrow> (Inl Stuck, t) | (Inr x, t) \<Rightarrow> (Inr (g x), t))"
    for rid step prompt payload and f :: "failure \<Rightarrow> attempt_result" and g
    by (intro returns_catch human_returns returns_cases returning) simp_all
  show ?thesis
    unfolding execute_attempt_def reject_def Let_def
    by (intro ask returning invoke_returns [OF assms] returns_bind returns_options)
qed

lemma try_returns:
  assumes "answers en" "node_whole n"
  shows "returns (try_action en def r n d left a err)"
proof (induction left arbitrary: a err)
  case 0
  show ?case by (simp only: try_action.simps Let_def) (intro returning returns_steps)
next
  case (Suc left)
  have learn: "returns (\<lambda>s. case record_observed_contract en def n e s of
      (Inl (Fault f), t) \<Rightarrow> ignore (append_event en (ru_id r) ty (failure_text f) m) t | (q, t) \<Rightarrow> (q, t))" for e ty m
    using observed_returns [of en def n e] returns_ignore [OF returns_tables(6)]
    unfolding returns_def by (simp split: prod.split sum.split fault.split) (metis fst_conv)
  show ?case
    by (simp only: try_action.simps Let_def)
      (intro learn returning calls_return attempt_returns [OF assms] Suc.IH returns_bind returns_options)
qed

lemma entry_returns:
  assumes "answers en" "list_all node_whole ns"
  shows "returns (execute_entry en def r ns tr)"
  using assms(2)
proof (induction ns arbitrary: tr)
  case (Cons n ns)
  have "returns (execute_state_action en def r n)"
    unfolding execute_state_action_def
    by (intro returning try_returns [OF assms(1)] returns_bind returns_options) (use Cons.prems in simp)
  then show ?case
    using Cons by (simp only: execute_entry.simps Let_def list.pred_inject)
      (intro returning returns_bind returns_options; simp)
qed (simp add: returning)

lemma state_returns:
  assumes "answers en" "table_whole states"
  shows "returns (execute_state en def r states left sid)"
proof (induction left arbitrary: sid)
  case 0
  show ?case by (simp add: returning)
next
  case (Suc left)
  show ?case
  proof (cases "map_of states (trim_space sid)")
    case None
    then show ?thesis by (simp add: returning)
  next
    case (Some st)
    then have "list_all node_whole (sd_on_entry st)"
      using assms(2) by (auto simp: table_whole_def list_all_iff dest!: map_of_SomeD)
    then have entry: "returns (execute_entry en def r (sd_on_entry st) [])"
      by (rule entry_returns [OF assms(1)])
    let ?follow = "\<lambda>trigger. case matching_transition st trigger of
        None \<Rightarrow> run_ret trigger
      | Some tr \<Rightarrow> if trim_space (tr_to tr) = [] then run_ret trigger
                  else execute_state en def r states left (trim_space (tr_to tr))"
    have follow: "returns (?follow trigger)" for trigger
      by (intro returns_options returning Suc.IH)
    have child: "returns (run_bind (execute_state en def r states left
        (initial_state (sd_initial st) (sd_states st))) ?follow)"
      by (intro returns_bind follow Suc.IH)
    have inner: "returns (\<lambda>s. case execute_entry en def r (sd_on_entry st) [] s of
        (Inl (Fault (Failed m)), t) \<Rightarrow> ?follow ''failed'' t
      | (Inl e, t) \<Rightarrow> (Inl e, t)
      | (Inr entry, t) \<Rightarrow>
          if sd_states st \<noteq> []
          then run_bind (execute_state en def r states left (initial_state (sd_initial st) (sd_states st))) ?follow t
          else ?follow (if trim_space entry \<noteq> [] then trim_space entry else ''succeeded'') t)"
      using entry follow child unfolding returns_def
      by (simp split: prod.split sum.split fault.split failure.split) (metis fst_conv)
    show ?thesis
      using returns_bind [OF returns_ignore [OF returns_tables(4)] inner] Some
      by (simp only: execute_state.simps option.case Let_def)
  qed
qed

lemma machine_returns:
  assumes "answers en" "table_whole (state_machine_states def)"
  shows "returns (execute_state_machine en def r)"
  unfolding execute_state_machine_def
  by (intro returning returns_steps state_returns assms)

end
