(* ===== verification/Runbook_Settle.thy ===== *)
theory Runbook_Settle imports Runbook_Progress begin

text \<open>
  How an execution ends: the errors the machine of a checked definition can end with, and the status
  in which an execution leaves its run.
\<close>

section \<open>Stored values can be encoded\<close>

definition encodable :: "json_map \<Rightarrow> bool" where
  "encodable m \<longleftrightarrow> (\<forall>(k, v)\<in>set m. json_copy v \<noteq> None)"

lemma encodable_iff: "encodable m \<longleftrightarrow> json_fields_copy m \<noteq> None"
  unfolding encodable_def by (induction m) (auto split: option.splits)

lemma encodable_Cons [simp]: "encodable ((k, v) # m) \<longleftrightarrow> json_copy v \<noteq> None \<and> encodable m" "encodable []"
  by (simp_all add: encodable_def)

lemma encodable_obj: "json_copy (JObj m) \<noteq> None \<longleftrightarrow> encodable m"
  by (simp add: encodable_iff)

lemma encodable_put: "encodable m \<Longrightarrow> json_copy v \<noteq> None \<Longrightarrow> encodable (put k v m)"
proof -
  assume m: "encodable m" and v: "json_copy v \<noteq> None"
  have "set (AList.update k v m) \<subseteq> insert (k, v) (set m)" by (induction m) auto
  then show ?thesis using m v by (auto simp: encodable_def)
qed

lemma encodable_field: "encodable m \<Longrightarrow> map_of m k = Some v \<Longrightarrow> json_copy v \<noteq> None"
  by (auto simp: encodable_def dest!: map_of_SomeD)

lemma encodable_clone: "encodable (clone_map m)"
  using json_fields_copy_idem [of m] by (auto simp: encodable_iff clone_map_def split: option.split)

definition stored_ok :: "service_state \<Rightarrow> bool" where
  "stored_ok s \<longleftrightarrow> list_all (\<lambda>r. encodable (ru_input r) \<and> encodable (ru_output r)) (rb_runs s) \<and>
     list_all (\<lambda>o'. encodable (st_output o')) (rb_outputs s)"

definition stored_stay :: "service_state \<Rightarrow> service_state \<Rightarrow> bool" where
  "stored_stay s t \<longleftrightarrow> (stored_ok s \<longrightarrow> stored_ok t)"

lemma stored_stay_same [simp]: "rb_runs t = rb_runs s \<Longrightarrow> rb_outputs t = rb_outputs s \<Longrightarrow> stored_stay s t"
  by (simp add: stored_stay_def stored_ok_def)

lemma copy_encodable: "json_fields_copy m = Some c \<Longrightarrow> encodable c"
  using json_fields_copy_idem by (simp add: encodable_iff)

lemma create_run_stored: "stored_stay s (snd (create_run c r s))"
  by (simp add: create_run_def table_ops stored_stay_def stored_ok_def copy_encodable split: option.split)

lemma update_run_state_stored: "stored_stay s (snd (update_run_state c rid st x out s))"
  by (auto simp: update_run_state_def table_ops stored_stay_def stored_ok_def copy_encodable list_all_iff
      split: option.split)

lemma save_step_output_stored: "stored_stay s (snd (save_step_output c rid step out s))"
  by (auto simp: save_step_output_def table_ops stored_stay_def stored_ok_def copy_encodable list_all_iff
      split: option.split)

interpretation stored: service_relation stored_stay
proof (unfold_locales, goal_cases)
  case 1
  show ?case by (simp add: reflp_def)
next
  case 2
  show ?case unfolding transp_def stored_stay_def by blast
qed (simp_all add: run_within_def create_run_stored update_run_state_stored save_step_output_stored)

lemma output_value_encodable: "encodable m \<Longrightarrow> json_copy (state_output_value m) \<noteq> None"
proof -
  assume m: "encodable m"
  have "encodable x" if "field_map m ''body'' = Some x" for x
    using encodable_field [OF m, of "''body''" "JObj x"] that encodable_obj [of x] by simp
  then have "encodable (or_empty (field_map m ''body''))"
    unfolding or_empty_def by (cases "field_map m ''body''") (simp_all del: field_map_Some)
  then show ?thesis
    using m encodable_field encodable_iff [of m] by (auto simp: state_output_value_def encodable_obj split: option.split)
qed

lemma context_encodable:
  assumes "stored_ok s" "encodable (ru_input r)" "encodable (ru_output r)"
  shows "encodable (state_action_context s r)"
proof -
  have "encodable (foldl (\<lambda>m (step, output).
      if has_suffix step ''.input'' \<or> has_suffix step ''.pending'' then m
      else put step (state_output_value output) m) m os)"
    if "encodable m" "\<forall>(step, output)\<in>set os. encodable output" for m os
    using that
    by (induction os arbitrary: m) (auto simp: encodable_put output_value_encodable)
  moreover have "encodable [(''runbook_input'', JObj (ru_input r)), (''runbook_output'', JObj (ru_output r))]"
    using assms(2,3) by (simp only: encodable_Cons encodable_obj simp_thms)
  moreover have "\<forall>(step, output)\<in>set (step_outputs s (ru_id r)). encodable output"
    using assms(1) by (auto simp: step_outputs_def stored_ok_def list_all_iff)
  ultimately have "encodable (foldl (\<lambda>m (step, output).
      if has_suffix step ''.input'' \<or> has_suffix step ''.pending'' then m
      else put step (state_output_value output) m)
      [(''runbook_input'', JObj (ru_input r)), (''runbook_output'', JObj (ru_output r))]
      (step_outputs s (ru_id r)))" by blast
  moreover have "json_copy (JObj [(''value'', JObj (clone_map m))]) \<noteq> None" for m
    using encodable_clone [of m] by (simp add: encodable_iff split: option.split)
  ultimately show ?thesis
    unfolding state_action_context_def Let_def by (rule encodable_put)
qed

section \<open>The status of a run\<close>

lemma find_run_later: "records_kept s t \<Longrightarrow> find_run s rid \<noteq> None \<Longrightarrow> find_run t rid \<noteq> None"
proof -
  assume "records_kept s t" and some: "find_run s rid \<noteq> None"
  then obtain ks where ks: "map run_key (rb_runs t) = map run_key (rb_runs s) @ ks"
    by (auto simp: records_kept_def runs_kept_def)
  have "map ru_id rs = map fst (map run_key rs)" for rs by (simp add: run_key_def)
  then have "set (map ru_id (rb_runs s)) \<subseteq> set (map ru_id (rb_runs t))"
    using ks by (metis map_append set_append Un_upper1)
  then show ?thesis using some by (auto simp: find_run_None)
qed

lemma find_run_runs: "rb_runs t = rb_runs s \<Longrightarrow> find_run t = find_run s"
  by (simp add: find_run_def fun_eq_iff)

lemma update_sets:
  assumes "encodable out" "find_run s rid \<noteq> None"
  obtains t r where "update_run_state c rid status x out s = (Inr (), t)" "find_run t rid = Some r"
    "ru_status r = status" "ru_state r = x"
proof -
  obtain o' where o': "json_fields_copy out = Some o'" using assms(1) by (auto simp: encodable_iff)
  let ?now = "format_rfc3339_nano (c (rb_tick s))"
  let ?f = "\<lambda>r. if ru_id r = rid
       then r\<lparr>ru_status := status, ru_state := x, ru_output := o', ru_updated := ?now\<rparr> else r"
  have "update_run_state c rid status x out s =
      (Inr (), s\<lparr>rb_tick := Suc (rb_tick s), rb_runs := map ?f (rb_runs s)\<rparr>)"
    by (simp add: update_run_state_def table_ops o')
  moreover obtain r where r: "find_run s rid = Some r" using assms(2) by blast
  then have "ru_id r = rid" by (auto simp: find_run_def find_Some_iff)
  moreover have "List.find (\<lambda>r. ru_id r = rid) (map ?f (rb_runs s)) = map_option ?f (find_run s rid)"
    unfolding find_run_def by (rule find_map_keyed) simp
  ultimately show ?thesis using that r by (simp add: find_run_def)
qed

definition status_is :: "string list \<Rightarrow> string \<Rightarrow> service_state \<Rightarrow> bool" where
  "status_is xs rid s \<longleftrightarrow> (\<exists>r. find_run s rid = Some r \<and> ru_status r \<in> set xs)"

lemma update_status:
  assumes "encodable out" "find_run s rid \<noteq> None"
  shows "status_is [status] rid (snd (update_run_state c rid status x out s))"
    "status_is [status] rid (snd (ignore (update_run_state c rid status x out) s))"
  using update_sets [OF assms, of c status x] unfolding status_is_def ignore_def by fastforce+

lemma ignore_runs: "rb_runs (snd (m s)) = rb_runs s \<Longrightarrow> rb_runs (snd (ignore m s)) = rb_runs s"
  by (auto simp: ignore_def split: prod.split sum.split fault.split)

lemma event_status: "status_is xs rid (snd (ignore (append_event en i ty m d) s)) = status_is xs rid s"
proof -
  have "rb_runs (snd (ignore (append_event en i ty m d) s)) = rb_runs s"
    unfolding append_event_def by (rule ignore_runs) simp
  from find_run_runs [OF this] show ?thesis by (simp add: status_is_def)
qed

lemma ignore_returns:
  assumes "returns m"
  shows "ignore m s = (Inr (), snd (m s))"
proof -
  obtain r t where m: "m s = (r, t)" by force
  then have "r \<noteq> Inl Stuck" using assms unfolding returns_def by (metis fst_conv)
  then show ?thesis
    using m by (simp add: ignore_def split: sum.split fault.split)
qed

lemma run_bind_ignore: "returns m \<Longrightarrow> run_bind (ignore m) f s = f () (snd (ignore m s))"
  by (simp add: run_bind_def ignore_returns)

lemma fail_run_status:
  assumes "find_run s (ru_id r) \<noteq> None"
  shows "status_is [''failed''] (ru_id r) (snd (fail_run en r m s))"
  using update_status(2) [OF _ assms, of "[(''error'', JStr m)]" "''failed''"]
  unfolding fail_run_def
  by (simp add: run_bind_ignore returns_tables event_status encodable_def)

lemma status_mono: "status_is xs rid s \<Longrightarrow> set xs \<subseteq> set ys \<Longrightarrow> status_is ys rid s"
  by (auto simp: status_is_def)

lemma machine_status:
  assumes "execute_state_machine en def r s = (Inr (), t)" "stored_ok s" "find_run s (ru_id r) = Some r"
  shows "status_is [''succeeded''] (ru_id r) t"
proof -
  obtain trigger u where m: "execute_state en def r (state_machine_states def) (Suc max_state_machine_depth)
      (initial_state (df_initial def) (df_states def)) s = (Inr trigger, u)"
    and rest: "(if trigger \<noteq> ''succeeded'' then fail (''state machine ended with trigger '' @ go_quote trigger)
      else run_bind (run_read (\<lambda>s. Inr (state_action_context s r))) (\<lambda>output.
       run_bind (get_run (ru_id r)) (\<lambda>current.
       run_bind (ignore (update_run_state (ho_clock en) (ru_id r) ''succeeded'' (ru_state current) output)) (\<lambda>_.
       ignore (append_event en (ru_id r) ''run_succeeded'' ''runbook run succeeded'' []))))) u = (Inr (), t)"
    using assms(1) unfolding execute_state_machine_def by (rule run_bind_Inr)
  have "records_kept s u" "stored_stay s u"
    using records.kept_state [of en def r "state_machine_states def" "Suc max_state_machine_depth"]
      stored.kept_state [of en def r "state_machine_states def" "Suc max_state_machine_depth"] m
    unfolding run_within_def by (metis snd_conv)+
  then have u: "find_run u (ru_id r) \<noteq> None" "stored_ok u"
    using find_run_later assms(2,3) by (auto simp: stored_stay_def)
  have "r \<in> set (rb_runs s)" using assms(3) by (auto simp: find_run_def find_Some_iff)
  then have "encodable (state_action_context u r)"
    using assms(2) by (intro context_encodable u(2)) (auto simp: stored_ok_def list_all_iff)
  note up = update_status(2) [OF this u(1)]
  obtain now where now: "find_run u (ru_id r) = Some now" using u(1) by blast
  have "snd (ignore (append_event en (ru_id r) ''run_succeeded'' ''runbook run succeeded'' [])
      (snd (ignore (update_run_state (ho_clock en) (ru_id r) ''succeeded'' (ru_state now)
        (state_action_context u r)) u))) = t"
    using rest now
    by (simp add: fail_def run_err_def run_bind_ok run_read_def get_run_def run_bind_ignore returns_tables
        run_bind_def [of "get_run _"] split: if_splits)
  then show ?thesis
    using event_status up by metis
qed

lemma run_settles:
  assumes "stored_ok s" "find_run s rid = Some r" "ru_status r \<noteq> ''canceled''" "ru_status r \<noteq> ''succeeded''"
    and "answers en"
    and "\<And>def. describe_definition s (ru_definition r) = Some def \<Longrightarrow> table_whole (state_machine_states def)"
  shows "status_is [''succeeded'', ''failed'', ''waiting''] rid (execute_run en rid s)"
proof -
  have rid: "rid = ru_id r" using assms(2) by (auto simp: find_run_def find_Some_iff)
  have failing: "status_is [''succeeded'', ''failed'', ''waiting''] rid (snd (fail_run en r m t))"
    if "find_run t rid \<noteq> None" for m t
    unfolding rid by (rule status_mono [OF fail_run_status]) (use that rid in simp_all)
  show ?thesis
  proof (cases "\<exists>def. describe_definition s (ru_definition r) = Some def \<and> has_state_machine def")
    case False
    then show ?thesis
      using assms(2-4) failing [of s] by (auto simp: execute_run_def split: option.split)
  next
    case True
    then obtain def where def: "describe_definition s (ru_definition r) = Some def" "has_state_machine def" by blast
    obtain q t where m: "execute_state_machine en def r s = (q, t)" by force
    have "records_kept s t" "stored_stay s t"
      using records.kept_machine [of en def r] stored.kept_machine [of en def r] m
      unfolding run_within_def by (metis snd_conv)+
    then have t: "find_run t rid \<noteq> None" "stored_ok t"
      using find_run_later assms(1,2) by (auto simp: stored_stay_def)
    have live: "q \<noteq> Inl Stuck"
      using machine_returns [OF assms(5) assms(6) [OF def(1)], of r] m unfolding returns_def by (metis fst_conv)
    have run: "execute_run en rid s =
        (case q of
           Inr _ \<Rightarrow> t
         | Inl (Fault Pending) \<Rightarrow>
             (case find_run t rid of
                None \<Rightarrow> t
              | Some now \<Rightarrow> snd (update_run_state (ho_clock en) rid ''waiting'' (ru_state now) (ru_output now) t))
         | Inl (Fault (Failed e)) \<Rightarrow> snd (fail_run en r e t)
         | Inl Stuck \<Rightarrow> t)"
      using assms(2-4) def m by (simp add: execute_run_def split: sum.split fault.split failure.split)
    show ?thesis
    proof (cases q)
      case (Inr u)
      then show ?thesis
        using machine_status [of en def r s t] m run assms(1,2) rid by (auto intro: status_mono)
    next
      case (Inl e)
      show ?thesis
      proof (cases "e = Fault Pending")
        case True
        obtain now where now: "find_run t rid = Some now" using t(1) by blast
        then have "now \<in> set (rb_runs t)" by (auto simp: find_run_def find_Some_iff)
        then have "encodable (ru_output now)" using t(2) by (auto simp: stored_ok_def list_all_iff)
        then have "status_is [''waiting''] rid (execute_run en rid s)"
          using update_status(1) [OF _ t(1)] run Inl True now by simp
        then show ?thesis by (rule status_mono) simp
      next
        case False
        then obtain m' where "e = Fault (Failed m')"
          using live Inl by (cases e) (metis failure.exhaust, simp)
        then show ?thesis using run Inl failing [OF t(1)] by simp
      qed
    qed
  qed
qed

section \<open>The errors of a machine\<close>

definition depth_exceeded :: fault where
  "depth_exceeded = Fault (Failed ''state machine exceeded maximum transition depth'')"

text \<open>Of the states of a checked definition, none is missing when it is entered.\<close>

lemma state_faults:
  assumes "closed_states states" "map_of states (trim_space sid) \<noteq> None"
    and "fst (execute_state en def r states left sid s) = Inl e"
  shows "e = Stuck \<or> e = Fault Pending \<or> e = depth_exceeded"
  using assms(2,3)
proof (induction left arbitrary: sid s e)
  case 0
  then show ?case by (simp add: fail_def run_err_def depth_exceeded_def)
next
  case (Suc left)
  then obtain st where st: "map_of states (trim_space sid) = Some st" by auto
  let ?follow = "\<lambda>trigger. case matching_transition st trigger of
      None \<Rightarrow> run_ret trigger
    | Some tr \<Rightarrow> if trim_space (tr_to tr) = [] then run_ret trigger
                else execute_state en def r states left (trim_space (tr_to tr))"
  have follow: "e = Stuck \<or> e = Fault Pending \<or> e = depth_exceeded"
    if "fst (?follow trigger u) = Inl e" for trigger u e
  proof (cases "matching_transition st trigger")
    case None
    then show ?thesis using that by (simp add: run_ret_def)
  next
    case (Some tr)
    then have "tr \<in> set (sd_transitions st)" by (auto simp: matching_transition_def find_Some_iff)
    then have "trim_space (tr_to tr) \<noteq> [] \<Longrightarrow> map_of states (trim_space (trim_space (tr_to tr))) \<noteq> None"
      using assms(1) st by (auto simp: closed_states_def)
    then show ?thesis
      using that Some Suc.IH [of "trim_space (tr_to tr)"]
      by (auto simp: run_ret_def split: if_splits)
  qed
  obtain u where u: "ignore (update_run_state (ho_clock en) (ru_id r) ''running'' (sd_id st) (ru_output r)) s = (Inr (), u)"
    using ignore_returns [OF returns_tables(4)] by blast
  obtain q v where q: "execute_entry en def r (sd_on_entry st) [] u = (q, v)" by force
  have run: "execute_state en def r states (Suc left) sid s =
      (case q of
         Inl (Fault (Failed m)) \<Rightarrow> ?follow ''failed'' v
       | Inl e \<Rightarrow> (Inl e, v)
       | Inr entry \<Rightarrow>
           if sd_states st \<noteq> []
           then run_bind (execute_state en def r states left (initial_state (sd_initial st) (sd_states st))) ?follow v
           else ?follow (if trim_space entry \<noteq> [] then trim_space entry else ''succeeded'') v)"
    using st u q by (simp add: run_bind_def Let_def split: sum.split fault.split failure.split)
  show ?case
  proof (cases q)
    case (Inl f)
    then show ?thesis
      using run Suc.prems(2) follow [of "''failed''" v e]
      by (cases f rule: fault.exhaust) (auto split: failure.splits)
  next
    case (Inr entry)
    show ?thesis
    proof (cases "sd_states st = []")
      case True
      then show ?thesis
        using run Inr Suc.prems(2) follow [of "if trim_space entry \<noteq> [] then trim_space entry else ''succeeded''" v e]
        by simp
    next
      case False
      have "map_of states (initial_state (sd_initial st) (sd_states st)) \<noteq> None"
        using assms(1) [unfolded closed_states_def, rule_format, OF st] False by simp
      moreover have "trim_space (initial_state i sts) = initial_state i sts" for i sts
        by (simp add: initial_state_def)
      ultimately have "map_of states (trim_space (initial_state (sd_initial st) (sd_states st))) \<noteq> None"
        by simp
      note child = Suc.IH [OF this, of v]
      obtain q' w where w: "execute_state en def r states left (initial_state (sd_initial st) (sd_states st)) v = (q', w)"
        by force
      show ?thesis
        using run Inr False Suc.prems(2) child w follow [of _ w e]
        by (cases q') (auto simp: run_bind_def)
    qed
  qed
qed

end
