(* ===== verification/Runbook_Limits.thy ===== *)
theory Runbook_Limits imports Runbook_Settle begin

text \<open>
  Limits of the runtime: invocations per minute, the deadline of a delay, what a resumed execution
  does not repeat, and what a signal restarts.
\<close>

section \<open>Invocations per minute\<close>

text \<open>The times at which n successive checks of a limit let an invocation pass.\<close>

fun admissions :: "environment \<Rightarrow> string \<Rightarrow> runtime_policy \<Rightarrow> nat \<Rightarrow> service_state \<Rightarrow> gotime list" where
  "admissions en key rt 0 s = []"
| "admissions en key rt (Suc n) s =
     (case check_rate_limit en key rt s of
        (Inr _, t) \<Rightarrow> ho_clock en (rb_tick s) # admissions en key rt n t
      | (Inl _, t) \<Rightarrow> admissions en key rt n t)"

definition rate_key :: "string \<Rightarrow> string" where
  "rate_key key = (if trim_space key = [] then ''runbook-node'' else trim_space key)"

definition rate_hits :: "string \<Rightarrow> service_state \<Rightarrow> gotime list" where
  "rate_hits key s = (case map_of (rb_hits s) (rate_key key) of Some hs \<Rightarrow> hs | None \<Rightarrow> [])"

definition in_window :: "gotime \<Rightarrow> gotime list \<Rightarrow> nat" where
  "in_window t hs = length (filter (\<lambda>h. t - rate_window < h \<and> h \<le> t) hs)"

definition clock_forward :: "environment \<Rightarrow> bool" where
  "clock_forward en \<longleftrightarrow> (\<forall>i j. i \<le> j \<longrightarrow> ho_clock en i \<le> ho_clock en j)"

lemma rate_check:
  assumes "rp_rate_limit rt > 0"
  shows "check_rate_limit en key rt s =
    (let now = ho_clock en (rb_tick s); recent = filter (\<lambda>h. h > now - rate_window) (rate_hits key s);
         ok = (int (length recent) < rp_rate_limit rt)
     in (if ok then Inr () else Inl (Fault (Failed (''runtime rate limit for '' @ go_quote (rate_key key) @
           '' exceeded '' @ itoa (rp_rate_limit rt) @ '' invocations per minute''))),
         s\<lparr>rb_tick := Suc (rb_tick s),
           rb_hits := AList.update (rate_key key) (if ok then recent @ [now] else recent) (rb_hits s)\<rparr>))"
  using assms
  by (simp add: check_rate_limit_def rate_hits_def rate_key_def run_bind_def answer_def Let_def)

lemma window_later:
  assumes "now \<le> t" "\<forall>h\<in>set hs. h \<le> now"
  shows "in_window t hs \<le> length (filter (\<lambda>h. h > now - rate_window) hs)"
proof -
  have "length (filter (\<lambda>h. t - rate_window < h \<and> h \<le> t) hs) \<le> length (filter (\<lambda>h. h > now - rate_window) hs)"
    using assms by (induction hs) auto
  then show ?thesis by (simp add: in_window_def)
qed

text \<open>
  The stored times are those of all admissions A that a check can still count; adding the present one
  to A keeps every window within the limit.
\<close>

lemma admissions_bounded:
  assumes "clock_forward en" "rp_rate_limit rt > 0"
    and "rate_hits key s = filter (\<lambda>h. h > c) A" "c \<le> ho_clock en (rb_tick s) - rate_window"
    and "\<forall>h\<in>set A. h \<le> ho_clock en (rb_tick s)"
    and "\<And>t. int (in_window t A) \<le> rp_rate_limit rt"
  shows "int (in_window t (A @ admissions en key rt n s)) \<le> rp_rate_limit rt"
  using assms(3-6)
proof (induction n arbitrary: s c A t)
  case 0
  then show ?case by simp
next
  case (Suc n)
  define now where "now = ho_clock en (rb_tick s)"
  define recent where "recent = filter (\<lambda>h. h > now - rate_window) A"
  have r: "filter (\<lambda>h. h > now - rate_window) (rate_hits key s) = recent"
    using Suc.prems(1,2) by (auto simp: recent_def now_def intro!: filter_cong)
  have mono: "now \<le> ho_clock en (Suc (rb_tick s))"
    using assms(1) by (simp add: clock_forward_def now_def)
  have later: "\<forall>h\<in>set A. h \<le> ho_clock en (Suc (rb_tick s))"
    using Suc.prems(3) mono by (force simp: now_def)
  have hits: "rate_hits key (s\<lparr>rb_tick := k, rb_hits := AList.update (rate_key key) hs (rb_hits s)\<rparr>) = hs" for k hs
    by (simp add: rate_hits_def update_conv')
  show ?case
  proof (cases "int (length recent) < rp_rate_limit rt")
    case True
    define u where "u = s\<lparr>rb_tick := Suc (rb_tick s),
      rb_hits := AList.update (rate_key key) (recent @ [now]) (rb_hits s)\<rparr>"
    have check: "check_rate_limit en key rt s = (Inr (), u)"
      using rate_check [OF assms(2), of en key s] True r unfolding u_def now_def [symmetric] by (simp add: Let_def)
    have window: "int (in_window t' (A @ [now])) \<le> rp_rate_limit rt" for t'
    proof (cases "now \<le> t'")
      case False
      then show ?thesis using Suc.prems(4) [of t'] by (simp add: in_window_def)
    next
      case later: True
      have "in_window t' A \<le> length recent"
        using window_later [OF later] Suc.prems(3) by (simp add: now_def recent_def)
      then show ?thesis using True by (simp add: in_window_def)
    qed
    have "int (in_window t ((A @ [now]) @ admissions en key rt n u)) \<le> rp_rate_limit rt"
    proof (rule Suc.IH [of u "now - rate_window"])
      show "rate_hits key u = filter (\<lambda>h. h > now - rate_window) (A @ [now])"
        by (simp add: u_def hits recent_def rate_window_def)
      show "now - rate_window \<le> ho_clock en (rb_tick u) - rate_window" using mono by (simp add: u_def)
      show "\<forall>h\<in>set (A @ [now]). h \<le> ho_clock en (rb_tick u)" using later mono by (simp add: u_def)
    qed (rule window)
    then show ?thesis using check by (simp add: now_def)
  next
    case False
    define u where "u = s\<lparr>rb_tick := Suc (rb_tick s),
      rb_hits := AList.update (rate_key key) recent (rb_hits s)\<rparr>"
    obtain e where check: "check_rate_limit en key rt s = (Inl e, u)"
      using rate_check [OF assms(2), of en key s] False r unfolding u_def now_def [symmetric] by (simp add: Let_def)
    have "int (in_window t (A @ admissions en key rt n u)) \<le> rp_rate_limit rt"
    proof (rule Suc.IH [of u "now - rate_window"])
      show "rate_hits key u = filter (\<lambda>h. h > now - rate_window) A"
        by (simp add: u_def hits recent_def)
      show "now - rate_window \<le> ho_clock en (rb_tick u) - rate_window" using mono by (simp add: u_def)
      show "\<forall>h\<in>set A. h \<le> ho_clock en (rb_tick u)" using later by (simp add: u_def)
    qed (rule Suc.prems(4))
    then show ?thesis using check by simp
  qed
qed

section \<open>Delays\<close>

lemma calls_succeed: "\<exists>t. serve_calls en cs s = (Inr (), t)"
proof (induction cs arbitrary: s)
  case (Cons c cs)
  have "\<exists>t. serve_call en c s = (Inr (), t)"
    by (cases c) (simp_all add: serve_call_def dropped_def)
  then show ?case using Cons by (auto simp: run_bind_def)
qed (simp add: run_ret_def)

lemma wait_too_long:
  assumes "w > 0" "d \<le> ho_clock en (rb_tick s) + w"
  shows "\<exists>t. wait_for en (Some d) w s = (Inl (Fault (Failed ''context deadline exceeded'')), t)"
proof -
  let ?s = "s\<lparr>rb_tick := Suc (Suc (rb_tick s))\<rparr>"
  obtain t where "serve_calls en (ho_meanwhile en (Suc (rb_tick s))) ?s = (Inr (), t)"
    using calls_succeed by blast
  then show ?thesis using assms by (simp add: wait_for_def run_bind_def answer_def fail_def run_err_def)
qed

section \<open>Resuming\<close>

lemma entry_skips:
  assumes "\<And>n. n \<in> set ns \<Longrightarrow> \<exists>x. get_node_state s (ru_id r) (sn_id n) = Some x \<and> ns_status x = ''succeeded''"
  shows "\<exists>tr'. execute_entry en def r ns tr s = (Inr tr', s\<lparr>rb_tick := rb_tick s + length ns\<rparr>)"
  using assms
proof (induction ns arbitrary: tr s)
  case Nil
  then show ?case by (simp add: run_ret_def)
next
  case (Cons n ns)
  obtain x where x: "get_node_state s (ru_id r) (sn_id n) = Some x" "ns_status x = ''succeeded''"
    using Cons.prems [of n] by auto
  have tick: "get_node_state (s\<lparr>rb_tick := k\<rparr>) = get_node_state s" for k
    by (simp add: get_node_state_def fun_eq_iff)
  have "\<exists>tr'. execute_entry en def r ns t' (s\<lparr>rb_tick := Suc (rb_tick s)\<rparr>) =
      (Inr tr', s\<lparr>rb_tick := Suc (rb_tick s) + length ns\<rparr>)" for t'
    using Cons.IH [of "s\<lparr>rb_tick := Suc (rb_tick s)\<rparr>" t'] Cons.prems tick by simp
  then show ?case
    using x by (simp add: run_bind_def run_read_def now_string_def answer_def run_ret_def Let_def)
qed

section \<open>Signals\<close>

definition quiet :: "service_state \<Rightarrow> service_state \<Rightarrow> bool" where
  "quiet s t \<longleftrightarrow> rb_started t = rb_started s \<and> rb_pending t = rb_pending s"

lemma quiet_parts:
  "run_within quiet (run_read f)" "run_within quiet (run_ret x)" "run_within quiet (now_string c)"
  "run_within quiet (save_step_output c rid step out)"
  "run_within quiet (fire_node_state_trigger en rid sid tr a out m)"
  "run_within quiet (update_run_state c rid st y out)"
  "run_within quiet (append_event en rid ty m data)"
  by (simp_all add: run_within_def quiet_def run_read_def now_string_def save_step_output_def
      fire_node_state_trigger_def mark_running_def mark_succeeded_def mark_failed_def mark_skipped_def
      update_run_state_def append_event_def append_event_with_def append_event_row_def upsert_node_state_def
      table_ops split: option.split)

lemma quiet_items: "run_within quiet (complete_items en r ps payload)"
proof -
  have tr: "transp quiet" by (simp add: transp_def quiet_def)
  show ?thesis
    by (induction ps) (auto simp: Let_def intro!: quiet_parts within_bind [OF tr] within_options)
qed

lemma all_changed: "(\<And>x. P (f x)) \<Longrightarrow> \<forall>x\<in>set (map f xs). P x"
  by simp

lemma completed_closed:
  assumes "complete_pending_items c rid out s = (Inr (), t)"
  shows "\<forall>p\<in>set (rb_pending t). pi_run p = rid \<longrightarrow> pi_status p \<noteq> ''open''" "rb_started t = rb_started s"
proof -
  obtain o' where "json_fields_copy out = Some o'"
    using assms by (cases "json_fields_copy out") (simp_all add: complete_pending_items_def table_ops)
  then have new: "complete_pending_items c rid out s = (Inr (), s\<lparr>rb_tick := Suc (rb_tick s),
      rb_pending := map (\<lambda>p. if pi_run p = rid \<and> pi_status p = ''open''
        then p\<lparr>pi_status := ''completed'', pi_response := o', pi_updated := format_rfc3339_nano (c (rb_tick s))\<rparr>
        else p) (rb_pending s)\<rparr>)"
    by (simp add: complete_pending_items_def table_ops)
  have t: "t = snd (complete_pending_items c rid out s)" using assms by simp
  show "rb_started t = rb_started s" unfolding t new by simp
  show "\<forall>p\<in>set (rb_pending t). pi_run p = rid \<longrightarrow> pi_status p \<noteq> ''open''"
  proof -
    have "rb_pending t = map (\<lambda>p. if pi_run p = rid \<and> pi_status p = ''open''
        then p\<lparr>pi_status := ''completed'', pi_response := o', pi_updated := format_rfc3339_nano (c (rb_tick s))\<rparr>
        else p) (rb_pending s)"
      unfolding t new by simp
    then show ?thesis by (simp only:) (rule all_changed, simp)
  qed
qed

lemma update_run_status:
  assumes "update_run_state c rid status x out s = (Inr (), t)" "find_run t rid = Some r"
  shows "ru_status r = status"
proof -
  obtain o' where "json_fields_copy out = Some o'"
    using assms(1) by (cases "json_fields_copy out") (simp_all add: update_run_state_def table_ops)
  then have new: "rb_runs (snd (update_run_state c rid status x out s)) = map (\<lambda>r. if ru_id r = rid
      then r\<lparr>ru_status := status, ru_state := x, ru_output := o', ru_updated := format_rfc3339_nano (c (rb_tick s))\<rparr>
      else r) (rb_runs s)"
    by (simp add: update_run_state_def table_ops)
  have "\<forall>r\<in>set (rb_runs (snd (update_run_state c rid status x out s))). ru_id r = rid \<longrightarrow> ru_status r = status"
    unfolding new by (rule all_changed) simp
  moreover have "t = snd (update_run_state c rid status x out s)" using assms(1) by simp
  ultimately show ?thesis using assms(2) by (auto simp: find_run_def find_Some_iff)
qed

lemma signal_restarts:
  assumes "signal_run en rid sg payload s = (Inr r', t)" "find_run s (trim_space rid) = Some r"
  shows "ru_id r' = ru_id r \<and> ru_status r' = ''running'' \<and> rb_started t = rb_started s @ [ru_id r] \<and>
    (\<forall>p\<in>set (rb_pending t). pi_run p = ru_id r \<longrightarrow> pi_status p \<noteq> ''open'')"
proof -
  have get: "get_run (trim_space rid) s = (Inr r, s)" using assms(2) by (simp add: get_run_def)
  obtain d where d: "describe_definition s (ru_definition r) = Some d"
    using assms(1) get by (auto simp: signal_run_def run_bind_def run_read_def fail_def run_err_def split: option.splits)
  have eq: "signal_run en rid sg payload s =
    run_bind (complete_pending_items (ho_clock en) (ru_id r) payload) (\<lambda>_.
       run_bind (append_event en (ru_id r) ''signal_received'' ''runbook signal received''
         [(''signal'', JStr sg), (''payload'', JObj payload)]) (\<lambda>_.
       if \<not> has_state_machine d
       then fail (''runbook definition '' @ go_quote (df_id d) @ '' is not executable'')
       else
         run_bind (run_bind (complete_items en r (list_open_pending_items s) payload) (\<lambda>_.
           update_run_state (ho_clock en) (ru_id r) ''running'' (ru_state r) (ru_output r))) (\<lambda>_.
         run_bind (modify (\<lambda>s. s\<lparr>rb_started := rb_started s @ [ru_id r]\<rparr>)) (\<lambda>_.
         get_run (ru_id r))))) s"
    using get d by (simp add: signal_run_def run_bind_def [of "get_run _"] run_bind_def [of "run_read _"]
        run_read_def complete_pending_signals_def)
  obtain s1 where s1: "complete_pending_items (ho_clock en) (ru_id r) payload s = (Inr (), s1)"
    and k1: "run_bind (append_event en (ru_id r) ''signal_received'' ''runbook signal received''
         [(''signal'', JStr sg), (''payload'', JObj payload)]) (\<lambda>_.
       if \<not> has_state_machine d
       then fail (''runbook definition '' @ go_quote (df_id d) @ '' is not executable'')
       else
         run_bind (run_bind (complete_items en r (list_open_pending_items s) payload) (\<lambda>_.
           update_run_state (ho_clock en) (ru_id r) ''running'' (ru_state r) (ru_output r))) (\<lambda>_.
         run_bind (modify (\<lambda>s. s\<lparr>rb_started := rb_started s @ [ru_id r]\<rparr>)) (\<lambda>_.
         get_run (ru_id r)))) s1 = (Inr r', t)"
    using assms(1) unfolding eq by (rule run_bind_Inr) auto
  obtain s2 where s2: "append_event en (ru_id r) ''signal_received'' ''runbook signal received''
         [(''signal'', JStr sg), (''payload'', JObj payload)] s1 = (Inr (), s2)"
    and k2: "(if \<not> has_state_machine d
       then fail (''runbook definition '' @ go_quote (df_id d) @ '' is not executable'')
       else
         run_bind (run_bind (complete_items en r (list_open_pending_items s) payload) (\<lambda>_.
           update_run_state (ho_clock en) (ru_id r) ''running'' (ru_state r) (ru_output r))) (\<lambda>_.
         run_bind (modify (\<lambda>s. s\<lparr>rb_started := rb_started s @ [ru_id r]\<rparr>)) (\<lambda>_.
         get_run (ru_id r)))) s2 = (Inr r', t)"
    using k1 by (rule run_bind_Inr) auto
  from k2 have "run_bind (run_bind (complete_items en r (list_open_pending_items s) payload) (\<lambda>_.
           update_run_state (ho_clock en) (ru_id r) ''running'' (ru_state r) (ru_output r))) (\<lambda>_.
         run_bind (modify (\<lambda>s. s\<lparr>rb_started := rb_started s @ [ru_id r]\<rparr>)) (\<lambda>_.
         get_run (ru_id r))) s2 = (Inr r', t)"
    by (simp add: fail_def run_err_def split: if_splits)
  then obtain s4 where k3: "run_bind (complete_items en r (list_open_pending_items s) payload) (\<lambda>_.
           update_run_state (ho_clock en) (ru_id r) ''running'' (ru_state r) (ru_output r)) s2 = (Inr (), s4)"
    and k4: "run_bind (modify (\<lambda>s. s\<lparr>rb_started := rb_started s @ [ru_id r]\<rparr>)) (\<lambda>_. get_run (ru_id r)) s4 = (Inr r', t)"
    by (rule run_bind_Inr) auto
  obtain s3 where s3: "complete_items en r (list_open_pending_items s) payload s2 = (Inr (), s3)"
    and s4: "update_run_state (ho_clock en) (ru_id r) ''running'' (ru_state r) (ru_output r) s3 = (Inr (), s4)"
    using k3 by (rule run_bind_Inr) auto
  have t: "t = s4\<lparr>rb_started := rb_started s4 @ [ru_id r]\<rparr>" "find_run s4 (ru_id r) = Some r'"
    using k4 by (auto simp: run_bind_def modify_def get_run_def find_run_def split: option.splits)
  have "quiet s1 s2" "quiet s2 s3" "quiet s3 s4"
    using s2 s3 s4 quiet_parts(6,7) quiet_items unfolding run_within_def by (metis snd_conv)+
  then have "quiet s1 s4" by (simp add: quiet_def)
  then show ?thesis
    using completed_closed [OF s1] t update_run_status [OF s4 t(2)] t(2)
    by (auto simp: quiet_def find_run_def find_Some_iff)
qed

section \<open>References to themselves\<close>

lemma cut_again: "p \<noteq> [] \<Longrightarrow> cut s p = Some (a, b) \<Longrightarrow> cut (a @ p @ c) p = Some (a, c)"
proof (induction s p arbitrary: a b rule: cut.induct)
  case (2 x s p)
  show ?case
  proof (cases "has_prefix (x # s) p")
    case True
    then have "a = []" using 2 by simp
    moreover have "cut (p @ c) p = Some ([], c)" using 2(2) by (cases p) (auto simp: has_prefix_iff)
    ultimately show ?thesis by simp
  next
    case False
    then obtain a' where a: "a = x # a'" "cut s p = Some (a', b)" using 2(3) by auto
    have "\<not> has_prefix (x # a' @ p @ c) p"
    proof
      assume "has_prefix (x # a' @ p @ c) p"
      then have "take (length p) (x # a' @ p @ c) = p" by (auto simp: has_prefix_iff)
      moreover have "s = a' @ p @ b" using a(2) by (rule cut_Some)
      moreover have "take (length p) ((x # a' @ p) @ d) = take (length p) (x # a' @ p)" for d
        by (simp only: take_append) simp
      then have "take (length p) (x # a' @ p @ c) = take (length p) (x # a' @ p @ b)" by simp
      ultimately have "take (length p) (x # s) = p" by simp
      then show False using False by (metis append_take_drop_id has_prefix_iff)
    qed
    then show ?thesis using 2(1) [OF False 2(2) a(2)] a(1) by simp
  qed
qed simp

lemma first_ref_again:
  assumes "first_ref s = Some (a, path, b)"
  shows "first_ref (a @ ''${'' @ path @ ''}'' @ c) = Some (a, path, c)"
proof -
  obtain r where r: "cut s ''${'' = Some (a, r)" "cut r ''}'' = Some (path, b)"
    using assms by (auto simp: first_ref_def split: option.splits)
  have "cut (a @ ''${'' @ (path @ ''}'' @ c)) ''${'' = Some (a, path @ ''}'' @ c)"
    by (rule cut_again [OF _ r(1)]) simp
  moreover have "cut (path @ ''}'' @ c) ''}'' = Some (path, c)"
    by (rule cut_again [OF _ r(2)]) simp
  ultimately show ?thesis by (simp add: first_ref_def)
qed

text \<open>A text whose first reference leads to a text that begins with the same reference.\<close>

lemma self_reference:
  assumes "first_ref s = Some (a, path, b)"
    and "resolve_reference_path input path = Some (JStr (''${'' @ path @ ''}'' @ w))"
  shows "substitute input s = None"
proof (rule substitute_diverges [where P = "\<lambda>u. \<exists>c. first_ref u = Some (a, path, c)"])
  fix u
  assume "\<exists>c. first_ref u = Some (a, path, c)"
  then obtain c where c: "first_ref u = Some (a, path, c)" by blast
  have "first_ref (a @ (''${'' @ path @ ''}'' @ w) @ c) = Some (a, path, w @ c)"
    using first_ref_again [OF c, of "w @ c"] by simp
  then show "\<exists>a' path' b v. first_ref u = Some (a', path', b) \<and> resolve_reference_path input path' = Some v \<and>
      (\<exists>c. first_ref (a' @ sprint v @ b) = Some (a, path, c))"
    using c assms(2) by auto
qed (use assms in blast)

lemma self_reference_unresolved:
  assumes "map_of args key = Some (JStr s)" "first_ref s = Some (a, path, b)" "a \<noteq> []" "\<not> is_space (hd a)"
    and "resolve_reference_path input path = Some (JStr (''${'' @ path @ ''}'' @ w))"
  shows "resolved_string_arg args key input = None"
proof -
  obtain c a' where a: "a = c # a'" "\<not> is_space c" using assms(3,4) by (cases a) auto
  have s: "s = a @ ''${'' @ path @ ''}'' @ b" using assms(2) by (rule first_ref_Some)
  have "\<not> has_prefix (trim_space s) ''${''"
  proof
    assume pre: "has_prefix (trim_space s) ''${''"
    have "trim_left s = s" using s a by (simp add: trim_left_def)
    then have "s = trim_space s @ rev (takeWhile is_space (rev s))"
      unfolding trim_space_def by (metis rev_append rev_rev_ident takeWhile_dropWhile_id)
    then have "has_prefix s ''${''" using pre by (metis append.assoc has_prefix_iff)
    then have "first_ref s = None \<or> (\<exists>p r. first_ref s = Some ([], p, r))"
      by (cases s) (auto simp: first_ref_def split: option.splits)
    then show False using assms(2) a by auto
  qed
  then have "resolve_input_ref_string s input = None"
    using self_reference [OF assms(2,5)] by (simp add: resolve_input_ref_string_def Let_def)
  then show ?thesis using assms(1) by (simp add: resolved_string_arg_def)
qed

text \<open>The arguments that the actions with references resolve first.\<close>

lemma unresolved_stuck:
  assumes "(action, key) \<in> {(''tool.call'', ''name''), (''mcp.call'', ''server_id''), (''command.execute'', ''cwd''), (''llm.generate'', ''prompt'')}"
    and "resolved_string_arg args key (ac_input cx) = None"
  shows "execute_action en action cx args st = (Inl Stuck, st)"
proof -
  have trimmed: "trim_space ''tool.call'' = ''tool.call''" "trim_space ''mcp.call'' = ''mcp.call''"
    "trim_space ''command.execute'' = ''command.execute''" "trim_space ''llm.generate'' = ''llm.generate''"
    by code_simp+
  have stuck: "run_bind (resolving None) f st = (Inl Stuck, st)" for f :: "string \<Rightarrow> json_map option service_run"
    by (simp add: resolving_def run_bind_def run_err_def)
  have result: "as_result m st = (Inl Stuck, st)" if "m st = (Inl Stuck, st)" for m
    using that by (simp add: as_result_def)
  from assms(1) show ?thesis
  proof (elim insertE emptyE Pair_inject)
    assume a: "action = ''tool.call''" and k: "key = ''name''"
    have "tool_call en cx args st = (Inl Stuck, st)"
      unfolding tool_call_def assms(2) [unfolded k] by (rule stuck)
    then show ?thesis
      unfolding a by (simp add: execute_action_def Let_def trimmed result)
  next
    assume a: "action = ''mcp.call''" and k: "key = ''server_id''"
    have "mcp_call en cx args st = (Inl Stuck, st)"
      unfolding mcp_call_def assms(2) [unfolded k] by (rule stuck)
    then show ?thesis
      unfolding a by (simp add: execute_action_def Let_def trimmed result)
  next
    assume a: "action = ''command.execute''" and k: "key = ''cwd''"
    have "command_execute en cx args st = (Inl Stuck, st)"
      unfolding command_execute_def assms(2) [unfolded k] by (rule stuck)
    then show ?thesis
      unfolding a by (simp add: execute_action_def Let_def trimmed result)
  next
    assume a: "action = ''llm.generate''" and k: "key = ''prompt''"
    have "llm_generate en cx args st = (Inl Stuck, st)"
      unfolding llm_generate_def assms(2) [unfolded k] by (rule stuck)
    then show ?thesis
      unfolding a by (simp add: execute_action_def Let_def trimmed result)
  qed
qed

end
