(* ===== verification/Runbook_External.thy ===== *)
theory Runbook_External imports Runbook_Runtime begin

text \<open>
  What the runtime asks of the programs outside. Replacing their answers changes nothing in operations
  that do not call them; replacing the answers to calls that are never made changes nothing at all.
\<close>

abbreviation outside :: "(nat \<Rightarrow> external_call \<Rightarrow> (string + json_map option) option) \<Rightarrow> environment \<Rightarrow> environment" where
  "outside f en \<equiv> en\<lparr>ho_external := f\<rparr>"

named_theorems inside "operations that do not call outside"

lemma outside_fields [inside]:
  "ho_clock (outside f en) = ho_clock en"
  "ho_random (outside f en) = ho_random en"
  "ho_files (outside f en) = ho_files en"
  "ho_codec (outside f en) = ho_codec en"
  "ho_directory (outside f en) = ho_directory en"
  "ho_skip_invalid (outside f en) = ho_skip_invalid en"
  "ho_meanwhile (outside f en) = ho_meanwhile en"
  "ho_cel (outside f en) = ho_cel en"
  "ho_shape_hash (outside f en) = ho_shape_hash en"
  "ho_llm (outside f en) = ho_llm en"
  "ho_commands (outside f en) = ho_commands en"
  "ho_mcp (outside f en) = ho_mcp en"
  by simp_all

lemma append_event_with_inside [inside]: "append_event_with (outside f en) = append_event_with en"
  by (intro ext) (unfold append_event_with_def inside, rule refl)

lemma append_event_inside [inside]: "append_event (outside f en) = append_event en"
  by (intro ext) (unfold append_event_def inside, rule refl)

lemma random_id_inside [inside]: "random_id (outside f en) = random_id en"
  by (intro ext) (unfold random_id_def inside, rule refl)

lemma sync_inside [inside]: "sync_definitions (outside f en) = sync_definitions en"
  by (intro ext) (unfold sync_definitions_def inside, rule refl)

lemma fire_inside [inside]: "fire_node_state_trigger (outside f en) = fire_node_state_trigger en"
  by (intro ext) (unfold fire_node_state_trigger_def inside, rule refl)

lemma start_inside [inside]: "start_runbook (outside f en) = start_runbook en"
  by (intro ext) (unfold start_runbook_def inside, rule refl)

lemma cancel_inside [inside]: "cancel_run (outside f en) = cancel_run en"
  by (intro ext) (unfold cancel_run_def inside, rule refl)

lemma complete_inside [inside]: "complete_items (outside f en) = complete_items en"
proof (intro ext)
  show "complete_items (outside f en) r ps payload s = complete_items en r ps payload s" for r ps payload s
  proof (induction ps arbitrary: s)
    case (Cons p ps)
    have same: "complete_items (outside f en) r ps payload = complete_items en r ps payload"
      by (rule ext) (rule Cons.IH)
    show ?case by (unfold complete_items.simps inside same) (rule refl)
  qed simp
qed

lemma signal_inside [inside]: "signal_run (outside f en) = signal_run en"
  by (intro ext) (unfold signal_run_def complete_pending_signals_def inside, rule refl)

lemma human_inside [inside]: "request_human (outside f en) = request_human en"
  by (intro ext) (unfold request_human_def inside, rule refl)

lemma call_inside [inside]: "serve_call (outside f en) = serve_call en"
  by (intro ext) (unfold serve_call_def inside, rule refl)

lemma calls_inside [inside]: "serve_calls (outside f en) = serve_calls en"
proof
  show "serve_calls (outside f en) cs = serve_calls en cs" for cs
    by (induction cs) (simp_all add: inside)
qed

lemma wait_inside [inside]: "wait_for (outside f en) = wait_for en"
  by (intro ext) (unfold wait_for_def inside, rule refl)

lemma rate_inside [inside]: "check_rate_limit (outside f en) = check_rate_limit en"
  by (intro ext) (unfold check_rate_limit_def inside, rule refl)

lemma observed_inside [inside]: "record_observed_contract (outside f en) = record_observed_contract en"
  by (intro ext) (unfold record_observed_contract_def inside, rule refl)

lemma failing_inside [inside]: "fail_run (outside f en) = fail_run en"
  by (intro ext) (unfold fail_run_def inside, rule refl)

section \<open>Model calls\<close>

text \<open>The calls that may be made: a model is given no map with a sensitive key.\<close>

definition call_clean :: "external_call \<Rightarrow> bool" where
  "call_clean c = (case c of CallModel q \<Rightarrow> \<not> sensitive_fields (lq_input q) | _ \<Rightarrow> True)"

text \<open>An environment in which a call that may not be made would hang.\<close>

definition guarded :: "environment \<Rightarrow> environment" where
  "guarded en = outside (\<lambda>k c. if call_clean c then ho_external en k c else None) en"

lemma guarded_inside [inside]:
  "append_event_with (guarded en) = append_event_with en"
  "append_event (guarded en) = append_event en"
  "fire_node_state_trigger (guarded en) = fire_node_state_trigger en"
  "start_runbook (guarded en) = start_runbook en"
  "signal_run (guarded en) = signal_run en"
  "request_human (guarded en) = request_human en"
  "serve_calls (guarded en) = serve_calls en"
  "wait_for (guarded en) = wait_for en"
  "check_rate_limit (guarded en) = check_rate_limit en"
  "record_observed_contract (guarded en) = record_observed_contract en"
  "fail_run (guarded en) = fail_run en"
  "ho_clock (guarded en) = ho_clock en"
  "ho_meanwhile (guarded en) = ho_meanwhile en"
  "ho_mcp (guarded en) = ho_mcp en"
  "ho_commands (guarded en) = ho_commands en"
  "ho_llm (guarded en) = ho_llm en"
  "ho_cel (guarded en) = ho_cel en"
  unfolding guarded_def by (simp_all only: inside)

lemma call_external_guarded:
  assumes "call_clean c"
  shows "call_external (guarded en) c = call_external en c"
  unfolding call_external_def inside
  by (simp add: guarded_def assms)

lemma node_action_trim: "trim_space (node_action n) = node_action n"
proof -
  have "trim_space (trim_space s) = trim_space s" for s
    by (rule trim_space_idem)
  moreover have "\<forall>s\<in>set [''tool.call'', ''mcp.call'', ''command.execute'', ''llm.generate'', ''runbook.run'', ''data.assert'',
      ''decision.route'', ''human.request'', ''delay.until'']. trim_space s = s"
    by code_simp
  ultimately show ?thesis by (simp add: node_action_def Let_def)
qed

lemma execute_action_guarded:
  assumes "action = ''llm.generate'' \<longrightarrow> \<not> sensitive_fields (ac_input cx)" "trim_space action = action"
  shows "execute_action (guarded en) action cx args = execute_action en action cx args"
proof -
  have calls: "call_external (guarded en) (CallTool q) = call_external en (CallTool q)"
    "call_external (guarded en) (CallMCP q') = call_external en (CallMCP q')"
    "call_external (guarded en) (CallCommand q'') = call_external en (CallCommand q'')" for q q' q''
    by (simp_all add: call_external_guarded call_clean_def)
  have "tool_call (guarded en) cx args = tool_call en cx args"
    by (unfold tool_call_def inside calls) (rule refl)
  moreover have "mcp_call (guarded en) cx args = mcp_call en cx args"
    by (unfold mcp_call_def call_mcp_def inside calls) (rule refl)
  moreover have "command_execute (guarded en) cx args = command_execute en cx args"
    by (unfold command_execute_def execute_command_def inside calls) (rule refl)
  moreover have "decision_route (guarded en) cx args = decision_route en cx args"
    by (unfold decision_route_def inside) (rule refl)
  moreover have "runbook_run (guarded en) cx args = runbook_run en cx args"
    by (unfold runbook_run_def start_nested_runbook_def inside) (rule refl)
  moreover have "runbook_signal (guarded en) cx args = runbook_signal en cx args"
    by (unfold runbook_signal_def inside) (rule refl)
  moreover have "human_request (guarded en) cx args = human_request en cx args"
    by (intro ext) (unfold human_request_def inside, rule refl)
  moreover have "delay_until (guarded en) cx args = delay_until en cx args"
    by (unfold delay_until_def inside) (rule refl)
  moreover have "llm_generate (guarded en) cx args = llm_generate en cx args" if "\<not> sensitive_fields (ac_input cx)"
  proof -
    have model: "call_external (guarded en) (CallModel \<lparr>lq_model = m, lq_prompt = p, lq_input = ac_input cx, lq_schema = o'\<rparr>) =
        call_external en (CallModel \<lparr>lq_model = m, lq_prompt = p, lq_input = ac_input cx, lq_schema = o'\<rparr>)" for m p o'
      using that by (simp add: call_external_guarded call_clean_def)
    show ?thesis by (unfold llm_generate_def generate_llm_def inside model) (rule refl)
  qed
  ultimately show ?thesis
    using assms by (simp add: execute_action_def Let_def)
qed

lemma execute_once_guarded:
  assumes "node_action n = ''llm.generate'' \<longrightarrow> \<not> sensitive_fields input"
  shows "execute_once (guarded en) r n a input d = execute_once en r n a input d"
proof -
  have "execute_action (guarded en) (node_action n) \<lparr>ac_run = x, ac_step = y, ac_input = input, ac_deadline = d\<rparr> =
      execute_action en (node_action n) \<lparr>ac_run = x, ac_step = y, ac_input = input, ac_deadline = d\<rparr>" for x y
    by (rule ext, rule execute_action_guarded) (use assms node_action_trim in auto)
  then show ?thesis by (unfold execute_once_def inside) (simp add: Let_def)
qed

lemma invoke_action_guarded:
  assumes "node_action n = ''llm.generate'' \<longrightarrow> \<not> sensitive_fields (to_map now e)"
  shows "invoke_action (guarded en) r n a now e input = invoke_action en r n a now e input"
proof -
  have once: "execute_once (guarded en) r n a (if node_action n = ''llm.generate'' then to_map now e else input) d =
      execute_once en r n a (if node_action n = ''llm.generate'' then to_map now e else input) d" for d
    by (rule execute_once_guarded) (use assms in simp)
  show ?thesis by (unfold invoke_action_def inside Let_def once) (rule refl)
qed

lemma execute_attempt_guarded: "execute_attempt (guarded en) r n a = execute_attempt en r n a"
proof -
  have invoke: "invoke_action (guarded en) r n a now
        (if node_action n = ''llm.generate'' then sanitize_llm_input now e else e) input =
      invoke_action en r n a now
        (if node_action n = ''llm.generate'' then sanitize_llm_input now e else e) input" for now e input
    by (rule invoke_action_guarded) (simp add: sanitize_llm_input_clean)
  show ?thesis by (unfold execute_attempt_def inside Let_def invoke) (rule refl)
qed

lemma try_action_guarded: "try_action (guarded en) def r n d left a err = try_action en def r n d left a err"
proof (induction left arbitrary: a err)
  case 0
  show ?case by (unfold try_action.simps inside) (rule refl)
next
  case (Suc left)
  show ?case by (unfold try_action.simps inside execute_attempt_guarded Suc.IH) (rule refl)
qed

lemma execute_entry_guarded: "execute_entry (guarded en) def r ns tr = execute_entry en def r ns tr"
proof (induction ns arbitrary: tr)
  case (Cons n ns)
  show ?case
    by (unfold execute_entry.simps execute_state_action_def inside try_action_guarded Cons.IH) (rule refl)
qed simp

lemma execute_state_guarded:
  "execute_state (guarded en) def r states left sid = execute_state en def r states left sid"
proof (induction left arbitrary: sid)
  case (Suc left)
  show ?case by (unfold execute_state.simps inside execute_entry_guarded Suc.IH) (rule refl)
qed simp

lemma execute_run_guarded: "execute_run (guarded en) rid s = execute_run en rid s"
  by (unfold execute_run_def execute_state_machine_def inside execute_state_guarded) (rule refl)

end
