(* ===== verification/Runbook_Approval.thy ===== *)
theory Runbook_Approval imports Runbook_External Runbook_History begin

text \<open>
  The gate of \<open>executeStateActionAttempt\<close>: a node whose effects need a confirmation or secrets waits for an
  approval before its action is invoked.
\<close>

definition needs_confirmation :: "node_definition \<Rightarrow> bool" where
  "needs_confirmation n \<longleftrightarrow>
     fx_confirm (tm_effects (manifest_for_node n)) \<noteq> [] \<or> fx_secrets (tm_effects (manifest_for_node n)) \<noteq> []"

lemma ignore_event:
  "\<exists>t. ignore (append_event_with en rid ty m d raw) s = (Inr (), t) \<and> rb_nodes t = rb_nodes s \<and>
     rb_runs t = rb_runs s \<and> rb_pending t = rb_pending s \<and> rb_outputs t = rb_outputs s \<and>
     rb_definitions t = rb_definitions s"
proof -
  have "fst (append_event_with en rid ty m d raw s) \<noteq> Inl Stuck"
    by (simp add: append_event_with_def append_event_row_def table_ops split: option.split)
  moreover have "ignore (append_event_with en rid ty m d raw) s = (Inr (), snd (append_event_with en rid ty m d raw s))"
    if "fst (append_event_with en rid ty m d raw s) \<noteq> Inl Stuck"
    using that by (cases "append_event_with en rid ty m d raw s" rule: prod.exhaust)
      (auto simp: ignore_def split: sum.split fault.split)
  ultimately show ?thesis by simp
qed

text \<open>What asking leaves behind: an open item, or nothing but an error.\<close>

lemma request_human_asks:
  "case request_human en rid step prompt payload s of
     (Inl (Fault (Failed m)), t) \<Rightarrow> rb_nodes t = rb_nodes s \<and> rb_runs t = rb_runs s \<and>
       rb_outputs t = rb_outputs s \<and> rb_pending t = rb_pending s
   | (Inl e, t) \<Rightarrow> False
   | (Inr pid, t) \<Rightarrow> rb_nodes t = rb_nodes s \<and> rb_runs t = rb_runs s \<and> rb_outputs t = rb_outputs s \<and>
       (\<exists>p. rb_pending t = rb_pending s @ [p] \<and> pi_id p = pid \<and> pi_run p = rid \<and> pi_step p = step \<and>
          pi_status p = ''open'' \<and> pi_prompt p = prompt)"
proof (cases "sensitive_fields payload")
  case True
  then show ?thesis by (simp add: request_human_def table_ops)
next
  case False
  show ?thesis
  proof (cases "ho_random en (rb_tick s)")
    case None
    then show ?thesis using False by (simp add: request_human_def random_id_def table_ops)
  next
    case (Some x)
    let ?pid = "''pending'' @ ''_'' @ x"
    let ?p = "\<lparr>pi_id = ?pid, pi_run = rid, pi_step = step, pi_status = ''open'', pi_prompt = prompt,
           pi_payload = payload, pi_response = [], pi_created = [], pi_updated = []\<rparr>"
    let ?s = "s\<lparr>rb_tick := Suc (rb_tick s)\<rparr>"
    have eq: "request_human en rid step prompt payload s =
      run_bind (create_pending_item (ho_clock en) ?p) (\<lambda>_.
        run_bind (ignore (append_event en rid ''human_requested'' ''runbook is waiting for user input''
          [(''pending_id'', JStr ?pid), (''step_id'', JStr step)])) (\<lambda>_. run_ret ?pid)) ?s"
      using False Some by (simp add: request_human_def random_id_def table_ops)
    obtain q t where c: "create_pending_item (ho_clock en) ?p ?s = (q, t)" by force
    have t: "rb_nodes t = rb_nodes s \<and> rb_runs t = rb_runs s \<and> rb_outputs t = rb_outputs s"
      using create_pending_item_frame [of "ho_clock en" ?p ?s] unfolding c by simp
    show ?thesis
    proof (cases q)
      case (Inl e)
      then have "(\<exists>m. e = Fault (Failed m)) \<and> rb_pending t = rb_pending s"
        using c by (auto simp: create_pending_item_def table_ops split: option.splits if_splits)
      then show ?thesis using eq c Inl t by (auto simp: run_bind_def)
    next
      case (Inr u)
      have "\<exists>p. rb_pending t = rb_pending s @ [p] \<and> pi_id p = ?pid \<and> pi_run p = rid \<and> pi_step p = step \<and>
          pi_status p = ''open'' \<and> pi_prompt p = prompt"
        using c Inr by (auto simp: create_pending_item_def table_ops split: option.splits if_splits)
      moreover obtain t' where "ignore (append_event en rid ''human_requested'' ''runbook is waiting for user input''
          [(''pending_id'', JStr ?pid), (''step_id'', JStr step)]) t = (Inr (), t')"
        "rb_nodes t' = rb_nodes t" "rb_runs t' = rb_runs t" "rb_pending t' = rb_pending t"
        "rb_outputs t' = rb_outputs t"
        using ignore_event unfolding append_event_def by blast
      ultimately show ?thesis
        using eq c Inr t by (simp add: run_bind_def run_ret_def)
    qed
  qed
qed

text \<open>The result of an attempt at a node that is not approved, from where the decision has been logged.\<close>

definition gate ::
    "environment \<Rightarrow> run_record \<Rightarrow> node_definition \<Rightarrow> int \<Rightarrow> string \<Rightarrow> decision \<Rightarrow> attempt_result service_run" where
  "gate en r n attempts now d =
     (if de_status d = ''needs_approval''
      then (\<lambda>s. case request_human en (ru_id r) (sn_id n @ ''.policy'') (policy_approval_prompt n d)
                  [(''node_id'', JStr (sn_id n)), (''policy'', JStr (de_status d)),
                   (''reasons'', JArr (map JStr (de_reasons d)))] s of
              (Inl (Fault e), t) \<Rightarrow> (Inr (empty_envelope now [] [] 0, Some e), t)
            | (Inl Stuck, t) \<Rightarrow> (Inl Stuck, t)
            | (Inr _, t) \<Rightarrow> (Inr (empty_envelope now (ru_id r) (sn_id n) attempts, Some Pending), t))
      else reject now (''state action '' @ go_quote (sn_id n) @ '' policy '' @ de_status d @ '': '' @
             join_str (de_reasons d) ''; ''))"

definition closed_attempt :: "run_record \<Rightarrow> node_definition \<Rightarrow> service_state \<Rightarrow>
    (fault + attempt_result) \<times> service_state \<Rightarrow> bool" where
  "closed_attempt r n s q \<longleftrightarrow> (\<exists>e err t. q = (Inr (e, Some err), t) \<and> rb_outputs t = rb_outputs s \<and>
     rb_nodes t = rb_nodes s \<and> rb_runs t = rb_runs s \<and>
     (if err = Pending
      then \<exists>p. rb_pending t = rb_pending s @ [p] \<and> pi_run p = ru_id r \<and> pi_step p = sn_id n @ ''.policy'' \<and>
             pi_status p = ''open''
      else rb_pending t = rb_pending s))"

lemma reject_closed:
  "rb_outputs t = rb_outputs s \<Longrightarrow> rb_nodes t = rb_nodes s \<Longrightarrow> rb_runs t = rb_runs s \<Longrightarrow>
   rb_pending t = rb_pending s \<Longrightarrow> closed_attempt r n s (reject now m t)"
  by (simp add: reject_def run_ret_def closed_attempt_def)

lemma gate_closed:
  assumes "rb_outputs t = rb_outputs s" "rb_nodes t = rb_nodes s" "rb_runs t = rb_runs s"
    "rb_pending t = rb_pending s"
  shows "closed_attempt r n s (gate en r n a now d t)"
proof (cases "de_status d = ''needs_approval''")
  case False
  then show ?thesis using assms by (simp add: gate_def reject_closed)
next
  case True
  show ?thesis
    using request_human_asks [where en = en and rid = "ru_id r" and step = "sn_id n @ ''.policy''" and s = t and
        prompt = "policy_approval_prompt n d" and payload = "[(''node_id'', JStr (sn_id n)),
          (''policy'', JStr (de_status d)), (''reasons'', JArr (map JStr (de_reasons d)))]"] True assms
    by (auto simp: gate_def closed_attempt_def split: prod.splits sum.splits fault.splits failure.splits)
qed

lemma attempt_closed:
  assumes "needs_confirmation n" "\<not> policy_approval_granted s (ru_id r) (sn_id n)"
  shows "closed_attempt r n s (execute_attempt en r n a s)"
    and "execute_attempt (outside f en) r n a s = execute_attempt en r n a s"
proof -
  define rt where "rt = tm_runtime (manifest_for_node n)"
  define now where "now = format_rfc3339_nano (ho_clock en (rb_tick s))"
  define s1 where "s1 = s\<lparr>rb_tick := Suc (rb_tick s)\<rparr>"
  define ie where "ie = new_envelope now (ru_id r) (sn_id n) a (JObj (state_action_context s r))"
  define pe where "pe = (if node_action n = ''llm.generate'' then sanitize_llm_input now ie else ie)"
  define d where "d = evaluate_invocation now pe (tm_effects (manifest_for_node n)) rt"
  let ?log = "ignore (append_event_with en (ru_id r) ''node_policy_decision''
    ''runbook state action policy evaluated'' [(''node_id'', JStr (sn_id n)), (''status'', JStr (de_status d))]
    [(''reasons'', de_reasons d)])"
  obtain t where t: "?log s1 = (Inr (), t)" "rb_nodes t = rb_nodes s1" "rb_runs t = rb_runs s1"
    "rb_pending t = rb_pending s1" "rb_outputs t = rb_outputs s1"
    using ignore_event by blast
  have granted: "\<not> policy_approval_granted t (ru_id r) (sn_id n)"
    using assms(2) t(5) by (simp add: policy_approval_granted_def step_output_of_def s1_def)
  have not_allowed: "\<not> decision_allowed d"
    using assms(1) evaluate_invocation_allowed unfolding d_def needs_confirmation_def by blast
  have eq: "execute_attempt e' r n a s =
      (case diagnostics_error ''input'' (validate_input now ie (sn_input n)) of
         Some m \<Rightarrow> reject now m s1
       | None \<Rightarrow>
         (case policy_error now pe rt ''input'' of
            Some m \<Rightarrow> reject now m s1
          | None \<Rightarrow>
            (case sandbox_boundary_error (node_action n) rt of
               Some m \<Rightarrow> reject now m s1
             | None \<Rightarrow> gate en r n a now d t)))" if "e' = en \<or> e' = outside f en" for e'
  proof -
    have env: "ho_clock e' = ho_clock en" "append_event_with e' = append_event_with en"
      "request_human e' = request_human en"
      using that by (auto simp only: inside)
    have log: "ignore (append_event_with en (ru_id r) ''node_policy_decision''
       ''runbook state action policy evaluated'' [(''node_id'', JStr (sn_id n)), (''status'', JStr (de_status d))]
       [(''reasons'', de_reasons d)]) s1 = (Inr (), t)" by (rule t(1))
    then have log_asked: "de_status d = ''needs_approval'' \<Longrightarrow>
       ignore (append_event_with en (ru_id r) ''node_policy_decision''
       ''runbook state action policy evaluated'' [(''node_id'', JStr (sn_id n)), (''status'', JStr ''needs_approval'')]
       [(''reasons'', de_reasons d)]) s1 = (Inr (), t)" by simp
    show ?thesis
      using granted not_allowed
      by (cases "diagnostics_error ''input'' (validate_input now ie (sn_input n))";
          cases "policy_error now pe rt ''input''"; cases "sandbox_boundary_error (node_action n) rt";
          cases "de_status d = ''needs_approval''";
          simp add: execute_attempt_def Let_def env run_read_def run_bind_def now_string_def answer_def run_ret_def
            log log_asked gate_def flip: now_def s1_def ie_def pe_def d_def rt_def split del: if_split cong del: if_weak_cong)
        (simp only: now_def)
  qed
  have s1: "rb_outputs s1 = rb_outputs s" "rb_nodes s1 = rb_nodes s" "rb_runs s1 = rb_runs s"
    "rb_pending s1 = rb_pending s"
    by (simp_all add: s1_def)
  have "closed_attempt r n s (reject now m s1)" for m
    using s1 by (rule reject_closed)
  moreover have "closed_attempt r n s (gate en r n a now d t)"
    by (rule gate_closed) (use s1 t in simp_all)
  ultimately show "closed_attempt r n s (execute_attempt en r n a s)"
    using eq [of en] by (simp split: option.split)
  show "execute_attempt (outside f en) r n a s = execute_attempt en r n a s"
    using eq [of en] eq [of "outside f en"] by simp
qed

end
