(* ===== verification/Sample_Service.thy ===== *)
theory Sample_Service imports Runbook_Limits Runbook_Approval begin

text \<open>
  A small runbook service: an environment whose programs answer at once, a machine of one state that asks
  for a review, and the tables after it was started.
\<close>

definition no_runtime :: runtime_policy where
  "no_runtime = \<lparr>rp_timeout_ms = 0, rp_max_input = 0, rp_max_artifact = 0, rp_rate_limit = 0, rp_idempotent = False,
     rp_retryable = False, rp_sandbox = []\<rparr>"

definition sample_step :: "string \<Rightarrow> json_map \<Rightarrow> node_definition" where
  "sample_step uses args = \<lparr>sn_id = ''ask'', sn_type = [], sn_uses = uses, sn_tool = [], sn_with = args,
     sn_input = no_contract, sn_output = no_contract, sn_effects = no_effects, sn_runtime = no_runtime,
     sn_timeout = [], sn_retry = 0, sn_retry_delay = []\<rparr>"

definition sample_machine :: runbook_definition where
  "sample_machine = \<lparr>df_api_version = [], df_kind = ''state_machine'', df_id = ''review'', df_name = [], df_description = [],
     df_schedule = [], df_initial = ''start'',
     df_states = [StateDefinition ''start'' [] [] [sample_step ''human.request'' [(''prompt'', JStr ''Review'')]] []],
     df_authoring = []\<rparr>"

definition sample_host :: environment where
  "sample_host = \<lparr>ho_clock = (\<lambda>n. 1700000000000000000 + int n * 1000000000), ho_random = (\<lambda>n. Some ''00ff''),
     ho_files = (\<lambda>n. None),
     ho_codec = \<lparr>dc_decode = (\<lambda>t. Inl ''no yaml''), dc_encode = (\<lambda>d. Inr []), dc_sha256 = (\<lambda>t. [])\<rparr>,
     ho_directory = ''runbooks'', ho_skip_invalid = False, ho_external = (\<lambda>n c. Some (Inr None)),
     ho_meanwhile = (\<lambda>n. []), ho_cel = (\<lambda>e vars. Inl ''no expressions''), ho_shape_hash = (\<lambda>m. []),
     ho_llm = True, ho_commands = True, ho_mcp = []\<rparr>"

definition sample_run :: "string \<Rightarrow> run_record" where
  "sample_run status = \<lparr>ru_id = ''run_1'', ru_definition = ''review'', ru_kind = ''state_machine'', ru_status = status,
     ru_state = ''running'', ru_input = [], ru_output = [], ru_created = ''t'', ru_updated = ''t''\<rparr>"

definition sample_service :: "string \<Rightarrow> service_state" where
  "sample_service status = \<lparr>rb_definitions = [(''review'', sample_machine)], rb_runs = [sample_run status],
     rb_events = [], rb_outputs = [], rb_nodes = [], rb_pending = [], rb_observed = [], rb_hits = [],
     rb_started = [], rb_tick = 0\<rparr>"

definition done_node :: node_state where
  "done_node = \<lparr>ns_run = ''run_1'', ns_state = ''ask'', ns_status = ''succeeded'', ns_attempts = 1, ns_output = [],
     ns_error = [], ns_started = ''t'', ns_completed = ''t'', ns_updated = ''t''\<rparr>"

lemma sample_machine_valid: "validate_definition sample_machine = None"
  by code_simp

lemma sample_definitions: "definitions_valid (sample_service status)"
  using sample_machine_valid by (simp add: definitions_valid_def sample_service_def) (simp add: sample_machine_def)

lemma sample_stored: "stored_ok (sample_service status)"
  by (simp add: stored_ok_def sample_service_def sample_run_def)

lemma sample_find: "find_run (sample_service status) ''run_1'' = Some (sample_run status)"
  by (simp add: find_run_def sample_service_def sample_run_def)

lemma sample_described: "describe_definition (sample_service status) ''review'' = Some sample_machine"
proof -
  have "trim_space ''review'' = ''review''" by code_simp
  then show ?thesis by (simp add: describe_definition_def sample_service_def)
qed

lemma sample_answers: "answers sample_host"
  by (simp add: answers_def sample_host_def)

lemma sample_whole: "table_whole (state_machine_states sample_machine)"
  by code_simp

lemma sample_clock: "clock_forward sample_host"
  by (simp add: clock_forward_def sample_host_def)

text \<open>A signal to the run, whatever its status.\<close>

lemma sample_signal:
  "\<exists>r t. signal_run sample_host ''run_1'' ''go'' [] (sample_service status) = (Inr r, t)"
proof -
  have x: "trim_space ''run_1'' = ''run_1''" "has_state_machine sample_machine" by code_simp+
  have y: "list_open_pending_items (sample_service status) = []"
    by (simp add: list_open_pending_items_def sample_service_def sort_slice_def)
  have "describe_definition (sample_service status) (ru_definition (sample_run status)) = Some sample_machine"
    using sample_described by (simp add: sample_run_def)
  then show ?thesis
    by (simp add: signal_run_def x y get_run_def sample_find run_bind_def run_read_def complete_pending_items_def
        append_event_def append_event_with_def append_event_row_def complete_pending_signals_def
        update_run_state_def table_ops sample_find)
      (simp add: sample_service_def sample_run_def find_run_def get_run_def table_ops)
qed

lemma sample_minute: "parse_duration ''1m'' = Inr 60000000000"
proof -
  have cuts: "takeWhile is_digit ''1m'' = ''1''" "dropWhile is_digit ''1m'' = ''m''"
    "dropWhile (\<lambda>c. c \<noteq> CHR ''.'' \<and> \<not> is_digit c) ''m'' = []"
    "takeWhile (\<lambda>c. c \<noteq> CHR ''.'' \<and> \<not> is_digit c) ''m'' = ''m''"
    "unit_ns ''m'' = Some 60000000000" "digits_value 0 ''1'' = Some 1" "\<not> is_digit CHR ''m''"
    by code_simp+
  then have "duration_part whole ''1m'' = Inr (60000000000, [])" for whole
    by (simp add: duration_part_def Let_def)
  then show ?thesis
    by (simp add: parse_duration_def duration_parts.simps [of _ _ "''1m''"] duration_parts.simps [of _ _ "[]"] max_int_def)
qed

text \<open>A decision with one rule, evaluated where only the expression \<open>ok\<close> holds.\<close>

definition sample_decision :: decision_definition where
  "sample_decision = \<lparr>dd_rules = [\<lparr>dr_id = [], dr_route = ''yes'', dr_when = \<lparr>wh_expr = ''ok'', wh_path = []\<rparr>\<rparr>],
     dd_default = ''no''\<rparr>"

lemma sample_route:
  "evaluate_decision (\<lambda>e vars. Inr (JBool (e = ''ok''))) now sample_decision input =
     Inr \<lparr>rr_route = ''yes'', rr_rule = ''rule_1'', rr_matched = True\<rparr>"
proof -
  have texts: "trim_space ''ok'' = ''ok''" "validate_when \<lparr>wh_expr = ''ok'', wh_path = []\<rparr> = None" "trim_space ''yes'' = ''yes''"
    "rule_identity \<lparr>dr_id = [], dr_route = ''yes'', dr_when = \<lparr>wh_expr = ''ok'', wh_path = []\<rparr>\<rparr> 0 = ''rule_1''"
    by code_simp+
  have "match_when (\<lambda>e vars. Inr (JBool (e = ''ok''))) now \<lparr>wh_expr = ''ok'', wh_path = []\<rparr> e = Inr True" for e
    by (simp add: match_when_def texts evaluate_bool_def Let_def truthy_def)
  moreover have "validate_decision sample_decision = None" by code_simp
  ultimately show ?thesis by (simp add: evaluate_decision_def sample_decision_def texts)
qed

text \<open>A key of 32 bytes written in hex is read as base64 text of 48 bytes; names in camel case pass as harmless.\<close>

lemma sample_hex_key: "map_option length (decode_binary (concat (replicate 32 ''ab''))) = Some 48"
  by code_simp

lemma sample_camel_key: "\<not> sensitive_key ''apiKey'' \<and> \<not> sensitive_key ''accessToken'' \<and> sensitive_key ''api_key''"
  by code_simp

text \<open>An answer that does not say so approves.\<close>

lemma sample_silent_approval:
  "policy_approval_granted (sample_service ''running''\<lparr>rb_outputs := [\<lparr>st_run = ''run_1'', st_step = ''ask.policy'',
     st_output = [(''body'', JObj [(''value'', JObj [(''comment'', JStr ''no'')])])], st_created = ''t''\<rparr>]\<rparr>) ''run_1'' ''ask''"
  by code_simp

end
