(* ===== verification/Runbook_Properties.thy ===== *)
theory Runbook_Properties imports Sample_Service begin

text \<open>
  The properties of the runbook service: of its data (schemas, references, envelopes, manifests,
  decisions), of its executions, and of its tables over any number of steps.
\<close>

section \<open>Data\<close>

text \<open>
  C32: Checking a value against a schema that is not empty reports no error exactly when the value conforms to the
  schema, and every error names a path at or below the one that was checked and begins with it.
\<close>

theorem schema_errors_iff_conforms:
  assumes "schema \<noteq> []"
  shows "(validate_schema v schema base needed = [] \<longleftrightarrow> conforms v schema) \<and>
    (\<forall>e\<in>set (validate_schema v schema base needed).
       has_prefix (se_path e) (if trim_space base = [] then ''$'' else base) \<and>
       has_prefix (se_message e) (se_path e))"
  using validate_schema_conforms [OF assms, of v base needed] validate_schema_at_paths assms
  by (simp add: validate_schema_def)

lemma schema_errors_iff_conforms_witness:
  "conforms (JObj [(''a'', JInt 1)]) [(''properties'', JObj [(''a'', JObj [(''type'', JStr ''integer'')])])]"
proof -
  have "validate_schema (JObj [(''a'', JInt 1)]) [(''properties'', JObj [(''a'', JObj [(''type'', JStr ''integer'')])])]
      [] True = []"
    by code_simp
  then show ?thesis
    using schema_errors_iff_conforms [of "[(''properties'', JObj [(''a'', JObj [(''type'', JStr ''integer'')])])]"
        "JObj [(''a'', JInt 1)]" "[]" True] by simp
qed

text \<open>
  Resolving the references of an argument ends whenever no value of the input has a dollar sign in
  its text, however the argument nests and repeats its references.
\<close>

theorem references_end:
  assumes "plain_values input"
  shows "resolve_input_refs v input \<noteq> None"
  using resolve_ends(1) [OF assms, of v] by auto

lemma references_end_witness: "resolve_input_refs (JStr ''a ${b} ${b}'') [] \<noteq> None"
proof (rule references_end)
  have "dotted_parts (JObj []) ps = None" if "ps \<noteq> []" for ps
    using that by (cases ps) auto
  moreover have "split_on s c \<noteq> []" for s c by (induction s c rule: split_on.induct) (auto split: list.splits)
  ultimately show "plain_values []" by (auto simp: plain_values_def resolve_reference_path_def dotted_def sort_slice_def
      split: if_splits)
qed

text \<open>
  C33: A reference to a text that begins with the same reference is put in again for ever: a call of a tool, of an
  MCP server, of a command or of a model never returns if its first argument (name, server, directory or prompt)
  is a text that begins with no space and embeds such a reference first, so that its run stays as it is.
\<close>

theorem self_reference_never_returns:
  assumes "(action, key) \<in> {(''tool.call'', ''name''), (''mcp.call'', ''server_id''), (''command.execute'', ''cwd''), (''llm.generate'', ''prompt'')}"
    and "map_of args key = Some (JStr s)" "first_ref s = Some (a, path, b)" "a \<noteq> []" "\<not> is_space (hd a)"
    and "resolve_reference_path (ac_input cx) path = Some (JStr (''${'' @ path @ ''}'' @ w))"
  shows "execute_action en action cx args st = (Inl Stuck, st)"
  by (rule unresolved_stuck [OF assms(1) self_reference_unresolved [OF assms(2-6)]])

lemma self_reference_never_returns_witness:
  "execute_action sample_host ''tool.call''
     \<lparr>ac_run = ''run_1'', ac_step = ''call'', ac_input = [(''t'', JStr ''${t}'')], ac_deadline = None\<rparr>
     [(''name'', JStr ''x${t}'')] (sample_service ''running'') = (Inl Stuck, sample_service ''running'')"
proof (rule self_reference_never_returns)
  show "(''tool.call'', ''name'') \<in> {(''tool.call'', ''name''), (''mcp.call'', ''server_id''), (''command.execute'', ''cwd''),
      (''llm.generate'', ''prompt'')}" by (rule insertI1)
  show "map_of [(''name'', JStr ''x${t}'')] ''name'' = Some (JStr ''x${t}'')" by simp
  show "first_ref ''x${t}'' = Some (''x'', ''t'', [])" by code_simp
  show "\<not> is_space (hd ''x'')" by code_simp
  have "resolve_reference_path [(''t'', JStr ''${t}'')] ''t'' = Some (JStr ''${t}'')" by code_simp
  then show "resolve_reference_path (ac_input \<lparr>ac_run = ''run_1'', ac_step = ''call'', ac_input = [(''t'', JStr ''${t}'')],
      ac_deadline = None\<rparr>) ''t'' = Some (JStr (''${'' @ ''t'' @ ''}'' @ []))" by simp
qed simp

text \<open>
  An envelope written as a map, encoded, decoded and read again is the same envelope, whenever its
  numbers survive the encoding and its required texts are not empty; in particular every field is kept.
\<close>

theorem envelope_roundtrip:
  assumes "envelope_ok e"
  shows "from_map now (Some (to_map now' e)) = e"
  by (rule to_map_from_map [OF assms])

text \<open>
  C34: A manifest from outside is accepted only with a signature of its own digest that verifies with the
  32-byte key of a trusted signer it names, and only for an isolated sandbox.
\<close>

theorem external_manifest_signed:
  assumes "verify_manifest cr m trusted = None" "is_external_manifest m"
  shows "(\<exists>t\<in>set trusted. \<exists>key sig. trim_space (ts_id t) = trim_space (sg_signer (tm_signing m)) \<and>
      decode_binary (ts_key t) = Some key \<and> length key = 32 \<and>
      decode_binary (sg_signature (tm_signing m)) = Some sig \<and> cr_verify cr key (manifest_digest cr m) sig) \<and>
    external_sandbox_supported (rp_sandbox (tm_runtime m))"
  using verify_external [OF assms] verify_external_runtime [OF assms] by blast

definition sample_manifest :: tool_manifest where
  "sample_manifest = \<lparr>tm_id = ''acme.echo'', tm_version = ''1'', tm_title = [], tm_description = [],
     tm_input = no_contract, tm_output = no_contract, tm_effects = no_effects,
     tm_runtime = no_runtime\<lparr>rp_sandbox := ''wasm''\<rparr>,
     tm_signing = \<lparr>sg_signer = ''acme'', sg_algorithm = ''ed25519'', sg_digest = ''sha256:d'', sg_signature = ''AAAA''\<rparr>,
     tm_source = ''external''\<rparr>"

definition sample_crypto :: crypto where
  "sample_crypto = \<lparr>cr_sha256 = (\<lambda>m. ''d''), cr_verify = (\<lambda>k d sig. d = ''sha256:d'')\<rparr>"

definition sample_signer :: trusted_signer where
  "sample_signer = \<lparr>ts_id = ''acme'', ts_algorithm = ''ed25519'',
     ts_key = ''AAAAAAAAAAAAAAAAAAAAAAAAAAAAAAAAAAAAAAAAAAA='' \<rparr>"

lemma external_manifest_signed_witness: "external_sandbox_supported (rp_sandbox (tm_runtime sample_manifest))"
proof -
  have "verify_manifest sample_crypto sample_manifest [sample_signer] = None" by code_simp
  moreover have "is_external_manifest sample_manifest" by code_simp
  ultimately show ?thesis by (rule external_manifest_signed [THEN conjunct2])
qed

text \<open>
  A decision that succeeds takes the route of the first rule whose condition holds, and the
  default route when none holds; the conditions of all earlier rules were evaluated and are false.
\<close>

theorem decision_first_match:
  assumes "evaluate_decision cel now d input = Inr r"
  shows "validate_decision d = None \<and>
    (if rr_matched r
     then \<exists>k<length (dd_rules d).
            match_when cel now (dr_when (dd_rules d ! k)) (normalize_envelope now input) = Inr True \<and>
            rr_route r = trim_space (dr_route (dd_rules d ! k)) \<and> rr_rule r = rule_identity (dd_rules d ! k) k \<and>
            (\<forall>j<k. match_when cel now (dr_when (dd_rules d ! j)) (normalize_envelope now input) = Inr False)
     else rr_route r = trim_space (dd_default d) \<and>
          (\<forall>q\<in>set (dd_rules d). match_when cel now (dr_when q) (normalize_envelope now input) = Inr False))"
proof -
  have "validate_decision d = None"
    using assms by (simp add: evaluate_decision_def split: option.splits)
  moreover from this assms have
    "first_rule cel now 0 (dd_rules d) (dd_default d) (normalize_envelope now input) = Inr r"
    by (simp add: evaluate_decision_def)
  from first_rule_result [OF this] have "if rr_matched r
     then \<exists>k<length (dd_rules d).
            match_when cel now (dr_when (dd_rules d ! k)) (normalize_envelope now input) = Inr True \<and>
            rr_route r = trim_space (dr_route (dd_rules d ! k)) \<and> rr_rule r = rule_identity (dd_rules d ! k) k \<and>
            (\<forall>j<k. match_when cel now (dr_when (dd_rules d ! j)) (normalize_envelope now input) = Inr False)
     else rr_route r = trim_space (dd_default d) \<and>
          (\<forall>q\<in>set (dd_rules d). match_when cel now (dr_when q) (normalize_envelope now input) = Inr False)"
    by (simp only: add_0)
  ultimately show ?thesis by (rule conjI)
qed

lemma decision_first_match_witness: "validate_decision sample_decision = None"
  by (rule decision_first_match [OF sample_route, THEN conjunct1])

section \<open>Executions\<close>

text \<open>
  C6: No model is ever given an input with a credential-like key, however deep in it: an environment in which every
  such call would hang behaves like the environment itself, in the whole execution of any run. Its prompt
  and the schema of its answer, which the definition writes, are not looked at.
\<close>

theorem model_inputs_clean: "execute_run (guarded en) rid s = execute_run en rid s"
  by (rule execute_run_guarded)

text \<open>
  C3: An attempt at a node that needs a confirmation or secrets and has no recorded approval never
  reaches the outside: its result does not depend on what the programs there answer, it is an error,
  and the tables of runs, nodes and outputs stay as they are; it may write to the log of events. It is the error \<open>ErrPending\<close> exactly when
  an open item for the approval has been added to the inbox.
\<close>

theorem approval_gate:
  assumes "needs_confirmation n" "\<not> policy_approval_granted s (ru_id r) (sn_id n)"
  shows "execute_attempt (en\<lparr>ho_external := f\<rparr>) r n a s = execute_attempt en r n a s \<and>
    (\<exists>e err t. execute_attempt en r n a s = (Inr (e, Some err), t) \<and> rb_outputs t = rb_outputs s \<and>
       rb_nodes t = rb_nodes s \<and> rb_runs t = rb_runs s \<and>
       (if err = Pending
        then \<exists>p. rb_pending t = rb_pending s @ [p] \<and> pi_run p = ru_id r \<and> pi_step p = sn_id n @ ''.policy'' \<and>
               pi_status p = ''open''
        else rb_pending t = rb_pending s))"
  using attempt_closed [OF assms] unfolding closed_attempt_def by blast

lemma approval_gate_witness:
  "\<exists>e err t. execute_attempt sample_host (sample_run ''running'')
     (sample_step ''tool.call'' []\<lparr>sn_effects := no_effects\<lparr>fx_secrets := [''token'']\<rparr>\<rparr>) 1 (sample_service ''running'') =
     (Inr (e, Some err), t)"
proof -
  let ?n = "sample_step ''tool.call'' []\<lparr>sn_effects := no_effects\<lparr>fx_secrets := [''token'']\<rparr>\<rparr>"
  have "needs_confirmation ?n" by code_simp
  moreover have "\<not> policy_approval_granted (sample_service ''running'') (ru_id (sample_run ''running'')) (sn_id ?n)"
    by code_simp
  ultimately show ?thesis
    using approval_gate [of ?n "sample_service ''running''" "sample_run ''running''"] by blast
qed

text \<open>
  C31: In any window of a minute at most the declared number of invocations of a manifest passes the
  rate limit, however many ask, as long as the clock does not go back.
\<close>

theorem rate_limit_window:
  assumes "clock_forward en" "rp_rate_limit rt > 0" "rate_hits key s = []"
  shows "int (in_window t (admissions en key rt n s)) \<le> rp_rate_limit rt"
proof -
  have "int (in_window t ([] @ admissions en key rt n s)) \<le> rp_rate_limit rt"
    by (rule admissions_bounded [OF assms(1,2), where c = "ho_clock en (rb_tick s) - rate_window"])
      (use assms in \<open>simp_all add: in_window_def\<close>)
  then show ?thesis by simp
qed

lemma rate_limit_window_witness:
  "int (in_window 1700000000000000000 (admissions sample_host ''m'' (no_runtime\<lparr>rp_rate_limit := 2\<rparr>) 5
     (sample_service ''running''))) \<le> 2"
  using rate_limit_window [OF sample_clock, of "no_runtime\<lparr>rp_rate_limit := 2\<rparr>" "''m''" "sample_service ''running''"]
  by (simp add: no_runtime_def rate_hits_def sample_service_def)

text \<open>
  C10: An execution of a run that is not over always ends, and leaves the run succeeded, failed or
  waiting: whenever the programs outside answer, whatever they answer and whatever else is asked of the
  service meanwhile, if the references in the arguments of the definition stand alone. In particular
  a run that is canceled while it is executed does not stay canceled.
\<close>

theorem execution_settles:
  assumes "stored_ok s" "find_run s rid = Some r" "ru_status r \<noteq> ''canceled''" "ru_status r \<noteq> ''succeeded''"
    and "answers en"
    and "\<And>def. describe_definition s (ru_definition r) = Some def \<Longrightarrow> table_whole (state_machine_states def)"
  shows "\<exists>r'. find_run (execute_run en rid s) rid = Some r' \<and>
    (ru_status r' = ''succeeded'' \<or> ru_status r' = ''failed'' \<or> ru_status r' = ''waiting'')"
  using run_settles [OF assms] by (auto simp: status_is_def)

lemma execution_settles_witness:
  "\<exists>r'. find_run (execute_run sample_host ''run_1'' (sample_service ''running'')) ''run_1'' = Some r' \<and>
    (ru_status r' = ''succeeded'' \<or> ru_status r' = ''failed'' \<or> ru_status r' = ''waiting'')"
proof (rule execution_settles [OF sample_stored sample_find _ _ sample_answers])
  show "table_whole (state_machine_states def)"
    if "describe_definition (sample_service ''running'') (ru_definition (sample_run ''running'')) = Some def" for def
    using that sample_described [of "''running''"] sample_whole by (simp add: sample_run_def)
qed (simp_all add: sample_run_def)

text \<open>
  C23: From a state with checked definitions on, the machine of any definition that is ever loaded ends
  with success, with the report of another trigger, waiting, or at the bound of 128 nested
  transitions; it never enters a state that is not there.
\<close>

theorem loaded_machines_closed:
  assumes "definitions_valid s" "(service_step en)\<^sup>*\<^sup>* s t" "describe_definition t did = Some def"
  shows "validate_definition def = None \<and>
    (\<forall>left u e. fst (execute_state en' def r (state_machine_states def) left
        (initial_state (df_initial def) (df_states def)) u) = Inl e \<longrightarrow>
      e = Stuck \<or> e = Fault Pending \<or>
      e = Fault (Failed ''state machine exceeded maximum transition depth''))"
proof -
  have "definitions_valid t"
    using defs.kept_steps_many [OF assms(2)] assms(1) by (simp add: definitions_stay_def)
  moreover have "(trim_space did, def) \<in> set (rb_definitions t)"
    using assms(3) by (auto simp: describe_definition_def dest: map_of_SomeD)
  ultimately have ok: "validate_definition def = None" by (auto simp: definitions_valid_def)
  have "trim_space (initial_state i sts) = initial_state i sts" for i sts by (simp add: initial_state_def)
  then have there: "map_of (state_machine_states def) (trim_space (initial_state (df_initial def) (df_states def))) \<noteq> None"
    using validated_states(2) [OF ok] by simp
  show ?thesis
    using ok state_faults [OF validated_closed [OF ok] there, unfolded depth_exceeded_def] by blast
qed

lemma loaded_machines_closed_witness: "validate_definition sample_machine = None"
  using loaded_machines_closed [OF sample_definitions rtranclp.rtrancl_refl sample_described] by blast

text \<open>
  A delay of thirty seconds or more at a node without a timeout of its own always fails with the
  error of an exceeded deadline.
\<close>

theorem long_delay_fails:
  assumes "node_action n = ''delay.until''" "rp_timeout_ms (sn_runtime n) = 0" "trim_space (sn_timeout n) = []"
    and "string_arg args ''until'' = []" "string_arg args ''duration'' \<noteq> []"
    and "parse_duration (string_arg args ''duration'') = Inr w" "w \<ge> 30000000000"
    and "begun \<le> ho_clock en (rb_tick s)"
    and "ac_deadline cx = attempt_deadline n (tm_runtime (manifest_for_node n)) begun"
  shows "\<exists>t. execute_action en (node_action n) cx args s =
    (Inr (None, Some (Failed ''context deadline exceeded'')), t)"
proof -
  have "rp_timeout_ms (tm_runtime (manifest_for_metadata m)) = 30000" for m
    by (simp add: manifest_for_metadata_def)
  then have "rp_timeout_ms (tm_runtime (manifest_for_node n)) = 30000"
    using assms(1,2) by (simp add: manifest_for_node_def merge_runtime_def Let_def)
  moreover have "signed_take_bit 63 (30000 * 1000000 :: int) = 30000000000" by code_simp
  ultimately have "node_timeout n (tm_runtime (manifest_for_node n)) = 30000000000"
    using assms(3) by (simp add: node_timeout_def Let_def)
  then have "ac_deadline cx = Some (begun + 30000000000)" using assms(9) by (simp add: attempt_deadline_def)
  moreover obtain t where "wait_for en (Some (begun + 30000000000)) w s =
      (Inl (Fault (Failed ''context deadline exceeded'')), t)"
    using wait_too_long [of w "begun + 30000000000" en s] assms(7,8) by auto
  moreover have "trim_space ''delay.until'' = ''delay.until''" by code_simp
  ultimately show ?thesis
    using assms(1,4-6) by (simp add: execute_action_def delay_until_def as_result_def Let_def)
qed

lemma long_delay_fails_witness:
  "\<exists>t. execute_action sample_host (node_action (sample_step ''delay.until'' [(''duration'', JStr ''1m'')]))
     \<lparr>ac_run = ''run_1'', ac_step = ''ask'', ac_input = [], ac_deadline = attempt_deadline (sample_step ''delay.until''
        [(''duration'', JStr ''1m'')]) (tm_runtime (manifest_for_node (sample_step ''delay.until''
        [(''duration'', JStr ''1m'')]))) 1700000000000000000\<rparr> [(''duration'', JStr ''1m'')] (sample_service ''running'') =
    (Inr (None, Some (Failed ''context deadline exceeded'')), t)"
proof (rule long_delay_fails)
  show "node_action (sample_step ''delay.until'' [(''duration'', JStr ''1m'')]) = ''delay.until''" by code_simp
  show "trim_space (sn_timeout (sample_step ''delay.until'' [(''duration'', JStr ''1m'')])) = []" by code_simp
  show "string_arg [(''duration'', JStr ''1m'')] ''until'' = []" by code_simp
  show "string_arg [(''duration'', JStr ''1m'')] ''duration'' \<noteq> []" by code_simp
  have "string_arg [(''duration'', JStr ''1m'')] ''duration'' = ''1m''" by code_simp
  then show "parse_duration (string_arg [(''duration'', JStr ''1m'')] ''duration'') = Inr 60000000000"
    using sample_minute by simp
  show "1700000000000000000 \<le> ho_clock sample_host (rb_tick (sample_service ''running''))"
    by (simp add: sample_host_def sample_service_def)
qed (simp_all add: sample_step_def no_runtime_def)

section \<open>Histories\<close>

text \<open>
  C8: Over any number of steps the row of a node only moves forward: a node that has succeeded,
  failed or been skipped keeps its row for ever, with its output and attempts, and one that has a row
  never loses it.
\<close>

theorem node_life_cycle:
  assumes "(service_step en)\<^sup>*\<^sup>* s t"
  shows "lives (get_node_state s rid sid) (get_node_state t rid sid)"
  using life.kept_steps_many [OF assms] by (simp add: nodes_live_def)

lemma node_life_cycle_witness:
  "lives (get_node_state (sample_service ''running'') ''run_1'' ''ask'')
     (get_node_state (open_service sample_host (sample_service ''running'')) ''run_1'' ''ask'')"
  by (rule node_life_cycle [OF r_into_rtranclp [of "service_step sample_host", OF restart]])

text \<open>
  Resumed executions do not repeat what has succeeded: once all nodes of a state have succeeded,
  entering it at any later time invokes nothing and changes nothing but the reading of the clock.
\<close>

theorem succeeded_not_repeated:
  assumes "(service_step en)\<^sup>*\<^sup>* s t"
    and "\<And>n. n \<in> set ns \<Longrightarrow> \<exists>x. get_node_state s (ru_id r) (sn_id n) = Some x \<and> ns_status x = ''succeeded''"
  shows "\<exists>tr'. execute_entry en' def r ns tr t = (Inr tr', t\<lparr>rb_tick := rb_tick t + length ns\<rparr>)"
proof (rule entry_skips)
  fix n
  assume "n \<in> set ns"
  then obtain x where "get_node_state s (ru_id r) (sn_id n) = Some x" "ns_status x = ''succeeded''"
    using assms(2) by blast
  moreover have "lives (get_node_state s (ru_id r) (sn_id n)) (get_node_state t (ru_id r) (sn_id n))"
    using life.kept_steps_many [OF assms(1)] by (simp add: nodes_live_def)
  ultimately have "get_node_state t (ru_id r) (sn_id n) = Some x" "ns_status x = ''succeeded''"
    by (auto simp: lives_def)
  then show "\<exists>x. get_node_state t (ru_id r) (sn_id n) = Some x \<and> ns_status x = ''succeeded''" by blast
qed

lemma succeeded_not_repeated_witness:
  "\<exists>tr'. execute_entry sample_host sample_machine (sample_run ''running'') [sample_step ''human.request'' []] []
     (sample_service ''running''\<lparr>rb_nodes := [done_node]\<rparr>) =
     (Inr tr', sample_service ''running''\<lparr>rb_nodes := [done_node], rb_tick := 1\<rparr>)"
proof -
  have "\<exists>x. get_node_state (sample_service ''running''\<lparr>rb_nodes := [done_node]\<rparr>) (ru_id (sample_run ''running'')) (sn_id n) =
      Some x \<and> ns_status x = ''succeeded''" if "n \<in> set [sample_step ''human.request'' []]" for n
    using that by (simp add: get_node_state_def done_node_def sample_step_def sample_run_def)
  from succeeded_not_repeated [where ns = "[sample_step ''human.request'' []]", OF rtranclp.rtrancl_refl this]
  show ?thesis by (simp add: sample_service_def del: execute_entry.simps)
qed

text \<open>
  C22: The log of events only grows, and every event added has its message and its strings redacted by
  \<open>RedactString\<close> and a mark of redaction in the place of every value under a credential-like key.
\<close>

theorem event_log_redacted:
  assumes "(service_step en)\<^sup>*\<^sup>* s t"
  shows "\<exists>es. rb_events t = rb_events s @ es \<and>
    (\<forall>e\<in>set es. fields_hidden (lg_data e) \<and> (\<exists>m. lg_message e = redact_string m))"
  using log.kept_steps_many [OF assms] by (auto simp: events_grow_def event_clean_def)

lemma event_log_redacted_witness:
  "\<exists>es. rb_events (open_service sample_host (sample_service ''running'')) = es \<and>
     (\<forall>e\<in>set es. fields_hidden (lg_data e))"
  using event_log_redacted [OF r_into_rtranclp [of "service_step sample_host", OF restart],
      of "sample_service ''running''"] by (auto simp: sample_service_def)

text \<open>
  C24: No step removes a run or a pending item or changes what identifies it: a run keeps its
  definition, input and time of creation, an item its question, a completed item its answer.
\<close>

theorem run_records_kept:
  assumes "(service_step en)\<^sup>*\<^sup>* s t"
  shows "runs_kept (rb_runs s) (rb_runs t) \<and> items_kept (rb_pending s) (rb_pending t)"
  using records.kept_steps_many [OF assms] by (simp add: records_kept_def)

lemma run_records_kept_witness:
  "runs_kept [sample_run ''running''] (rb_runs (open_service sample_host (sample_service ''running'')))"
  using run_records_kept [OF r_into_rtranclp [of "service_step sample_host", OF restart],
      of "sample_service ''running''"] by (simp add: sample_service_def)

text \<open>
  A signal that succeeds starts its run again whatever its status, also when the run was
  canceled, has failed or has succeeded, and answers every open item of the run.
\<close>

theorem signal_restarts_run:
  assumes "signal_run en rid signal payload s = (Inr r', t)" "find_run s (trim_space rid) = Some r"
  shows "ru_id r' = ru_id r \<and> ru_status r' = ''running'' \<and> rb_started t = rb_started s @ [ru_id r] \<and>
    (\<forall>p\<in>set (rb_pending t). pi_run p = ru_id r \<longrightarrow> pi_status p \<noteq> ''open'')"
  by (rule signal_restarts [OF assms])

lemma signal_restarts_run_witness:
  "\<exists>r t. signal_run sample_host ''run_1'' ''go'' [] (sample_service ''canceled'') = (Inr r, t) \<and>
     ru_status r = ''running''"
proof -
  have "trim_space ''run_1'' = ''run_1''" by code_simp
  then have f: "find_run (sample_service ''canceled'') (trim_space ''run_1'') = Some (sample_run ''canceled'')"
    using sample_find by simp
  obtain r t where "signal_run sample_host ''run_1'' ''go'' [] (sample_service ''canceled'') = (Inr r, t)"
    using sample_signal by blast
  with signal_restarts_run [OF this f] show ?thesis by blast
qed

end
