(* ===== verification/Memory_Domain.thy ===== *)
theory Memory_Domain imports Go_Text Graph_Domain begin

text \<open>
  The requests and records of the memory service and their normalisation,
  memory/internal/memory/domain: types.go, validation.go, vocabulary_values.go,
  graph_query_types.go, graph_query_validation.go and domain_pool_types.go. Errors are the texts
  the code builds. A pointer is an option; a slice is a list, and an option of a list where the
  code tells a nil slice from an empty one.
\<close>

section \<open>Vocabulary\<close>

type_synonym domain_id = firewall

definition kinds :: "string list" where
  "kinds =
     [''conversation'', ''document'', ''tool_output'', ''artifact'', ''summary'', ''entity_page'',
      ''timeline'', ''profile_fact'']"

definition task_statuses :: "string list" where
  "task_statuses = [''open'', ''waiting'', ''blocked'', ''done'', ''canceled'']"

definition task_priorities :: "string list" where
  "task_priorities = [''low'', ''normal'', ''high'', ''urgent'']"

definition task_memory_relationships :: "string list" where
  "task_memory_relationships = [''originated_from'', ''context'', ''supporting'', ''related'']"

definition task_relation_types :: "string list" where
  "task_relation_types = [''blocks'', ''depends_on'', ''enables'', ''part_of'', ''related_to'']"

definition task_relation_directions :: "string list" where
  "task_relation_directions = [''outgoing'', ''incoming'', ''either'']"

definition task_relation_direction_semantics :: "string \<Rightarrow> string" where
  "task_relation_direction_semantics r =
     (if r = ''blocks'' then ''from_blocks_to''
      else if r = ''depends_on'' then ''from_depends_on_to''
      else if r = ''enables'' then ''from_enables_to''
      else if r = ''part_of'' then ''from_part_of_to''
      else ''from_related_to_to'')"

definition executive_summary_horizons :: "string list" where
  "executive_summary_horizons = [''now'', ''today'', ''tomorrow'', ''week'', ''all'']"

definition executive_summary_channels :: "string list" where
  "executive_summary_channels = [''ui'', ''slack'', ''chat'', ''api'']"

definition valid_kind :: "string \<Rightarrow> bool" where
  "valid_kind k \<longleftrightarrow> k \<in> set kinds"

definition normalize_domain_id :: "domain_id \<Rightarrow> firewall \<Rightarrow> string + domain_id" where
  "normalize_domain_id domain legacy =
     (let c = trim_space domain;
          c = (if c = [] then trim_space legacy else c);
          c = default_firewall c
      in if valid_firewall c then Inr c else Inl (''invalid memory domain '' @ go_quote c))"

text \<open>The first value that fails a check, with the error for it.\<close>

definition check_all :: "('a \<Rightarrow> bool) \<Rightarrow> ('a \<Rightarrow> string) \<Rightarrow> 'a list \<Rightarrow> string + unit" where
  "check_all ok err vs = (case List.find (\<lambda>v. \<not> ok v) vs of None \<Rightarrow> Inr () | Some v \<Rightarrow> Inl (err v))"

definition check :: "bool \<Rightarrow> string \<Rightarrow> string + unit" where
  "check ok err = (if ok then Inr () else Inl err)"

definition opt_ok :: "('a \<Rightarrow> bool) \<Rightarrow> 'a option \<Rightarrow> bool" where
  "opt_ok ok v = (case v of None \<Rightarrow> True | Some x \<Rightarrow> ok x)"

definition or_default :: "string \<Rightarrow> string \<Rightarrow> string" where
  "or_default v d = (if v = [] then d else v)"

definition invalid :: "string \<Rightarrow> string \<Rightarrow> string" where
  "invalid what v = ''invalid '' @ what @ '' '' @ go_quote v"

definition limit_or :: "int \<Rightarrow> int \<Rightarrow> int \<Rightarrow> int" where
  "limit_or most d l = (if l \<le> 0 \<or> l > most then d else l)"

section \<open>Memory requests\<close>

record source_ref =
  src_system :: string
  src_id :: string

record capture_request =
  cap_actor :: string
  cap_content :: string
  cap_media_type :: string
  cap_title :: string
  cap_source :: source_ref
  cap_kind :: string
  cap_domain :: domain_id
  cap_firewall :: firewall
  cap_trust :: trust_level
  cap_sensitivity :: sensitivity
  cap_subjects :: "string list"
  cap_topics :: "string list"
  cap_entities :: "string list"
  cap_event_time :: "gotime option"
  cap_key :: string

record capture_result =
  cpr_evidence :: string
  cpr_memory :: string
  cpr_duplicate :: bool

record retrieval_query =
  ret_actor :: string
  ret_domain :: domain_id
  ret_firewall :: firewall
  ret_include_global :: bool
  ret_text :: string
  ret_kinds :: "string list"
  ret_topics :: "string list"
  ret_entities :: "string list"
  ret_from :: "gotime option"
  ret_to :: "gotime option"
  ret_allowed :: "sensitivity list"
  ret_limit :: int

record organize_request =
  org_actor :: string
  org_domain :: domain_id
  org_firewall :: firewall
  org_include_global :: bool
  org_allowed :: "sensitivity list"
  org_limit :: int
  org_dry_run :: bool

record repair_request =
  rep_actor :: string
  rep_memory :: string
  rep_domain :: domain_id
  rep_firewall :: firewall
  rep_kind :: "string option"
  rep_sensitivity :: "sensitivity option"
  rep_status :: "lifecycle_status option"
  rep_title :: "string option"
  rep_summary :: "string option"
  rep_subjects :: "string list option"
  rep_topics :: "string list option"
  rep_entities :: "string list option"

record correction_request =
  cor_actor :: string
  cor_memory :: string
  cor_domain :: domain_id
  cor_firewall :: firewall
  cor_text :: string

record refresh_page_request =
  rfp_actor :: string
  rfp_kind :: string
  rfp_domain :: domain_id
  rfp_firewall :: firewall
  rfp_title :: string
  rfp_entity :: string
  rfp_topic :: string

record graph_query_request =
  gqr_actor :: string
  gqr_query :: string
  gqr_source :: string
  gqr_domain :: domain_id
  gqr_firewall :: firewall
  gqr_include_global :: bool
  gqr_allowed :: "sensitivity list"

section \<open>Memory records\<close>

record relationship =
  rls_id :: string
  rls_from :: string
  rls_type :: string
  rls_to :: string
  rls_source :: string
  rls_trust :: trust_level
  rls_created :: gotime

record raw_evidence =
  raw_id :: string
  raw_checksum :: string
  raw_path :: string
  raw_media_type :: string
  raw_source :: source_ref
  raw_title :: string
  raw_created :: gotime
  raw_size :: int
  raw_content :: string
  raw_key :: string

record memory_record =
  mem_id :: string
  mem_evidence :: string
  mem_kind :: string
  mem_domain :: domain_id
  mem_firewall :: firewall
  mem_trust :: trust_level
  mem_sensitivity :: sensitivity
  mem_status :: lifecycle_status
  mem_title :: string
  mem_summary :: string
  mem_subjects :: "string list"
  mem_topics :: "string list"
  mem_entity_ids :: "string list"
  mem_entity_names :: "string list"
  mem_event_time :: "gotime option"
  mem_created :: gotime
  mem_updated :: gotime
  mem_key :: string
  mem_source :: source_ref
  mem_raw :: "raw_evidence option"
  mem_relationships :: "relationship list"

record compiled_page =
  pag_id :: string
  pag_kind :: string
  pag_domain :: domain_id
  pag_firewall :: firewall
  pag_title :: string
  pag_status :: lifecycle_status
  pag_sources :: "string list"
  pag_content :: string
  pag_created :: gotime
  pag_updated :: gotime

record memory_metrics =
  met_evidence :: nat
  met_memory :: nat
  met_pages :: nat
  met_pending :: nat
  met_failed :: nat
  met_with_sources :: nat

record retrieval_bundle =
  rbu_primary :: "memory_record list"
  rbu_supporting :: "memory_record list"
  rbu_provenance :: "source_ref list"
  rbu_uncertainty :: "string list"
  rbu_contradictions :: "relationship list"

section \<open>Normalisers\<close>

definition normalize_capture_request :: "capture_request \<Rightarrow> string + capture_request" where
  "normalize_capture_request req =
     (let req = req\<lparr>cap_content := trim_space (cap_content req)\<rparr>
      in if cap_content req = [] then Inl ''content is required''
         else let req = req\<lparr>cap_actor := norm_default (cap_actor req) default_agent_actor,
                            cap_media_type := norm_default (cap_media_type req) ''text/plain; charset=utf-8'',
                            cap_title := or_default (trim_space (cap_title req)) ''Untitled memory'',
                            cap_key := trim_space (cap_key req),
                            cap_kind := or_default (cap_kind req) ''document''\<rparr>
              in res_bind (check (valid_kind (cap_kind req)) (invalid ''kind'' (cap_kind req))) (\<lambda>_.
                 res_bind (normalize_domain_id (cap_domain req) (cap_firewall req)) (\<lambda>d.
                 let req = req\<lparr>cap_domain := d, cap_firewall := d,
                               cap_trust := default_trust_level (cap_trust req) ''source_original''\<rparr>
                 in res_bind (check (valid_trust_level (cap_trust req)) (invalid ''trust level'' (cap_trust req))) (\<lambda>_.
                    let req = req\<lparr>cap_sensitivity := default_sensitivity (cap_sensitivity req)\<rparr>
                    in res_bind (check (valid_sensitivity (cap_sensitivity req))
                                   (invalid ''sensitivity'' (cap_sensitivity req))) (\<lambda>_.
                       Inr (req\<lparr>cap_subjects := lower_unique (cap_subjects req),
                                cap_topics := lower_unique (cap_topics req),
                                cap_entities := lower_unique (cap_entities req)\<rparr>))))))"

definition readable_or_default :: "sensitivity list \<Rightarrow> sensitivity list" where
  "readable_or_default vs = (if vs = [] then default_readable_sensitivities else vs)"

definition check_sensitivities :: "sensitivity list \<Rightarrow> string + unit" where
  "check_sensitivities vs = check_all valid_sensitivity (invalid ''sensitivity'') vs"

definition normalize_retrieval_query :: "retrieval_query \<Rightarrow> string + retrieval_query" where
  "normalize_retrieval_query q =
     res_bind (normalize_domain_id (ret_domain q) (ret_firewall q)) (\<lambda>d.
     let q = q\<lparr>ret_actor := norm_default (ret_actor q) default_agent_actor, ret_domain := d, ret_firewall := d\<rparr>
     in res_bind (check_all valid_kind (invalid ''kind'') (ret_kinds q)) (\<lambda>_.
        let q = q\<lparr>ret_topics := lower_unique (ret_topics q),
                  ret_allowed := readable_or_default (ret_allowed q)\<rparr>
        in res_bind (check_sensitivities (ret_allowed q)) (\<lambda>_.
           Inr (q\<lparr>ret_limit := limit_or 100 20 (ret_limit q)\<rparr>))))"

definition normalize_organize_request :: "organize_request \<Rightarrow> string + organize_request" where
  "normalize_organize_request req =
     res_bind (normalize_domain_id (org_domain req) (org_firewall req)) (\<lambda>d.
     let req = req\<lparr>org_actor := norm_default (org_actor req) default_agent_actor, org_domain := d,
                   org_firewall := d, org_allowed := readable_or_default (org_allowed req)\<rparr>
     in res_bind (check_sensitivities (org_allowed req)) (\<lambda>_.
        Inr (req\<lparr>org_limit := limit_or 100 50 (org_limit req)\<rparr>)))"

text \<open>\<open>NormalizeStrings\<close> of a nil slice is an empty slice that is not nil.\<close>

definition normalize_slice :: "string list option \<Rightarrow> string list option" where
  "normalize_slice vs = Some (lower_unique (case vs of None \<Rightarrow> [] | Some xs \<Rightarrow> xs))"

definition normalize_repair_request :: "repair_request \<Rightarrow> string + repair_request" where
  "normalize_repair_request req =
     res_bind (normalize_domain_id (rep_domain req) (rep_firewall req)) (\<lambda>d.
     let req = req\<lparr>rep_actor := norm_default (rep_actor req) default_agent_actor,
                   rep_domain := d, rep_firewall := d\<rparr>
     in if rep_memory req = [] then Inl ''memory_id is required''
        else if \<not> opt_ok valid_kind (rep_kind req) then Inl (invalid ''kind'' (the (rep_kind req)))
        else if \<not> opt_ok valid_sensitivity (rep_sensitivity req)
             then Inl (invalid ''sensitivity'' (the (rep_sensitivity req)))
        else if \<not> opt_ok valid_memory_status (rep_status req)
             then Inl (invalid ''status'' (the (rep_status req)))
        else Inr (req\<lparr>rep_subjects := normalize_slice (rep_subjects req),
                      rep_topics := normalize_slice (rep_topics req),
                      rep_entities := normalize_slice (rep_entities req)\<rparr>))"

definition normalize_correction_request :: "correction_request \<Rightarrow> string + correction_request" where
  "normalize_correction_request req =
     (let req = req\<lparr>cor_actor := norm_default (cor_actor req) default_agent_actor,
                    cor_text := trim_space (cor_text req)\<rparr>
      in if cor_memory req = [] then Inl ''memory_id is required''
         else if cor_text req = [] then Inl ''correction text is required''
         else res_bind (normalize_domain_id (cor_domain req) (cor_firewall req)) (\<lambda>d.
              Inr (req\<lparr>cor_domain := d, cor_firewall := d\<rparr>)))"

definition normalize_refresh_page_request :: "refresh_page_request \<Rightarrow> string + refresh_page_request" where
  "normalize_refresh_page_request req =
     (let req = req\<lparr>rfp_actor := norm_default (rfp_actor req) default_agent_actor,
                    rfp_kind := or_default (rfp_kind req) ''entity_page''\<rparr>
      in if rfp_kind req \<noteq> ''entity_page'' \<and> rfp_kind req \<noteq> ''timeline''
         then Inl (''unsupported page kind '' @ go_quote (rfp_kind req))
         else res_bind (normalize_domain_id (rfp_domain req) (rfp_firewall req)) (\<lambda>d.
              let req = req\<lparr>rfp_domain := d, rfp_firewall := d, rfp_title := trim_space (rfp_title req),
                            rfp_topic := trim_space (rfp_topic req)\<rparr>
              in if rfp_title req = [] \<and> rfp_entity req = [] \<and> rfp_topic req = []
                 then Inl ''title, entity_id, or topic is required''
                 else Inr req))"

definition normalize_graph_query_request :: "graph_query_request \<Rightarrow> string + graph_query_request" where
  "normalize_graph_query_request req =
     (let req = req\<lparr>gqr_actor := norm_default (gqr_actor req) default_agent_actor,
                    gqr_query := trim_space (gqr_query req), gqr_source := trim_space (gqr_source req)\<rparr>
      in if gqr_query req = [] then Inl ''query is required''
         else res_bind (normalize_domain_id (gqr_domain req) (gqr_firewall req)) (\<lambda>d.
              let req = req\<lparr>gqr_domain := d, gqr_firewall := d,
                            gqr_allowed := readable_or_default (gqr_allowed req)\<rparr>
              in res_bind (check_sensitivities (gqr_allowed req)) (\<lambda>_. Inr req)))"

end
