(* ===== verification/Task_Domain.thy ===== *)
theory Task_Domain imports Memory_Domain begin

text \<open>
  Tasks and their requests, memory/internal/memory/domain: task_types.go, task_validation.go,
  task_projection_types.go, task_projection_validation.go and task_risk.go. Scores are 64-bit
  floats; a comparison with a not-a-number is false, as in Go.
\<close>

section \<open>Tasks and relations\<close>

record resource_requirement =
  rsc_name :: string
  rsc_type :: string
  rsc_quantity :: f64
  rsc_unit :: string
  rsc_spend :: int
  rsc_currency :: string
  rsc_notes :: string

record work_breakdown =
  wbs_code :: string
  wbs_deliverable :: string
  wbs_start :: "string list"
  wbs_acceptance :: "string list"
  wbs_requirements :: "string list"
  wbs_rubrics :: "string list"
  wbs_resources :: "resource_requirement list"
  wbs_spend :: int
  wbs_currency :: string

definition no_breakdown :: work_breakdown where
  "no_breakdown =
     \<lparr>wbs_code = [], wbs_deliverable = [], wbs_start = [], wbs_acceptance = [], wbs_requirements = [],
      wbs_rubrics = [], wbs_resources = [], wbs_spend = 0, wbs_currency = []\<rparr>"

record memory_link_request =
  mlr_memory :: string
  mlr_evidence :: string
  mlr_relationship :: string
  mlr_note :: string

record memory_link =
  mli_id :: string
  mli_memory :: string
  mli_evidence :: string
  mli_relationship :: string
  mli_note :: string
  mli_created :: gotime

record task =
  tsk_id :: string
  tsk_domain :: domain_id
  tsk_firewall :: firewall
  tsk_title :: string
  tsk_description :: string
  tsk_status :: string
  tsk_priority :: string
  tsk_due :: "gotime option"
  tsk_scheduled :: "gotime option"
  tsk_follow_up :: "gotime option"
  tsk_topics :: "string list"
  tsk_estimate :: int
  tsk_urgency :: f64
  tsk_risk :: f64
  tsk_project :: string
  tsk_location :: string
  tsk_person :: string
  tsk_actor :: string
  tsk_key :: string
  tsk_created :: gotime
  tsk_updated :: gotime
  tsk_completed :: "gotime option"
  tsk_canceled :: "gotime option"
  tsk_overdue :: bool
  tsk_links :: "memory_link list"
  tsk_breakdown :: work_breakdown

record task_relation =
  tre_id :: string
  tre_domain :: domain_id
  tre_firewall :: firewall
  tre_from :: string
  tre_from_title :: string
  tre_type :: string
  tre_to :: string
  tre_to_title :: string
  tre_note :: string
  tre_lag :: int
  tre_confidence :: f64
  tre_actor :: string
  tre_created :: gotime
  tre_updated :: gotime

record task_relation_path =
  trp_root :: string
  trp_tasks :: "string list"
  trp_relation_ids :: "string list"
  trp_task_data :: "task list"
  trp_relations :: "task_relation list"
  trp_depth :: nat
  trp_cycle :: bool

record task_relation_traversal =
  trv_root :: string
  trv_types :: "string list"
  trv_direction :: string
  trv_max_depth :: int
  trv_paths :: "task_relation_path list"

section \<open>Requests\<close>

record create_task_request =
  ctr_actor :: string
  ctr_domain :: domain_id
  ctr_firewall :: firewall
  ctr_title :: string
  ctr_description :: string
  ctr_status :: string
  ctr_priority :: string
  ctr_due :: "gotime option"
  ctr_scheduled :: "gotime option"
  ctr_follow_up :: "gotime option"
  ctr_topics :: "string list"
  ctr_estimate :: int
  ctr_urgency :: f64
  ctr_project :: string
  ctr_location :: string
  ctr_person :: string
  ctr_links :: "memory_link_request list"
  ctr_breakdown :: work_breakdown
  ctr_key :: string

record update_task_request =
  utr_task :: string
  utr_actor :: string
  utr_domain :: domain_id
  utr_firewall :: firewall
  utr_title :: "string option"
  utr_description :: "string option"
  utr_status :: "string option"
  utr_priority :: "string option"
  utr_due :: "gotime option"
  utr_clear_due :: bool
  utr_scheduled :: "gotime option"
  utr_clear_scheduled :: bool
  utr_follow_up :: "gotime option"
  utr_clear_follow_up :: bool
  utr_topics :: "string list option"
  utr_estimate :: "int option"
  utr_urgency :: "f64 option"
  utr_project :: "string option"
  utr_location :: "string option"
  utr_person :: "string option"
  utr_breakdown :: "work_breakdown option"

record task_query =
  tqu_domain :: domain_id
  tqu_firewall :: firewall
  tqu_statuses :: "string list"
  tqu_priorities :: "string list"
  tqu_topics :: "string list"
  tqu_search :: string
  tqu_overdue_only :: bool
  tqu_include_done :: bool
  tqu_include_links :: bool
  tqu_limit :: int

record task_relation_query =
  trq_domain :: domain_id
  trq_firewall :: firewall
  trq_task :: string
  trq_types :: "string list"
  trq_direction :: string
  trq_limit :: int

record task_relation_traversal_query =
  ttq_domain :: domain_id
  ttq_firewall :: firewall
  ttq_root :: string
  ttq_types :: "string list"
  ttq_direction :: string
  ttq_max_depth :: int
  ttq_limit :: int
  ttq_include_tasks :: bool
  ttq_include_links :: bool

record task_id_request =
  tir_task :: string
  tir_actor :: string
  tir_domain :: domain_id
  tir_firewall :: firewall

record upsert_task_relation_request =
  utq_actor :: string
  utq_domain :: domain_id
  utq_firewall :: firewall
  utq_from :: string
  utq_type :: string
  utq_to :: string
  utq_note :: string
  utq_lag :: int
  utq_confidence :: f64

record delete_task_relation_request =
  dtr_actor :: string
  dtr_domain :: domain_id
  dtr_firewall :: firewall
  dtr_relation :: string

record link_task_memory_request =
  ltm_task :: string
  ltm_domain :: domain_id
  ltm_firewall :: firewall
  ltm_link :: memory_link_request

record task_graph_query =
  tgq_tasks :: task_query
  tgq_types :: "string list"
  tgq_include_facets :: bool

section \<open>Validity\<close>

definition valid_task_status :: "string \<Rightarrow> bool" where
  "valid_task_status v \<longleftrightarrow> v \<in> set task_statuses"

definition valid_task_priority :: "string \<Rightarrow> bool" where
  "valid_task_priority v \<longleftrightarrow> v \<in> set task_priorities"

definition valid_task_memory_relationship :: "string \<Rightarrow> bool" where
  "valid_task_memory_relationship v \<longleftrightarrow> v \<in> set task_memory_relationships"

definition valid_task_relation_type :: "string \<Rightarrow> bool" where
  "valid_task_relation_type v \<longleftrightarrow> v \<in> set task_relation_types"

definition terminal_task_status :: "string \<Rightarrow> bool" where
  "terminal_task_status v \<longleftrightarrow> v = ''canceled'' \<or> v = ''done''"

definition score_ok :: "f64 \<Rightarrow> bool" where
  "score_ok v \<longleftrightarrow> \<not> f64_less v (Fin 0) \<and> \<not> f64_less (Fin 1) v"

definition validate_task_metadata :: "int \<Rightarrow> f64 \<Rightarrow> string + unit" where
  "validate_task_metadata estimate urgency =
     res_bind (check (0 \<le> estimate) ''estimate_minutes must be zero or greater'') (\<lambda>_.
     check (score_ok urgency) ''urgency must be between 0 and 1'')"

definition validate_task_metadata_pointers :: "int option \<Rightarrow> f64 option \<Rightarrow> string + unit" where
  "validate_task_metadata_pointers estimate urgency =
     res_bind (check (opt_ok (\<lambda>v. 0 \<le> v) estimate) ''estimate_minutes must be zero or greater'') (\<lambda>_.
     check (opt_ok score_ok urgency) ''urgency must be between 0 and 1'')"

section \<open>Normalisers\<close>

definition normalize_memory_link_request :: "memory_link_request \<Rightarrow> string + memory_link_request" where
  "normalize_memory_link_request req =
     (let req = req\<lparr>mlr_memory := trim_space (mlr_memory req), mlr_evidence := trim_space (mlr_evidence req),
                    mlr_note := trim_space (mlr_note req)\<rparr>
      in if mlr_memory req = [] \<and> mlr_evidence req = [] then Inl ''memory_id or memory_evidence_id is required''
         else let req = req\<lparr>mlr_relationship := or_default (mlr_relationship req) ''related''\<rparr>
              in res_bind (check (valid_task_memory_relationship (mlr_relationship req))
                             (invalid ''memory relationship'' (mlr_relationship req))) (\<lambda>_. Inr req))"

definition normalize_task_memory_links :: "memory_link_request list \<Rightarrow> string + memory_link_request list" where
  "normalize_task_memory_links links = res_list normalize_memory_link_request links"

definition normalize_resource_requirement :: "resource_requirement \<Rightarrow> resource_requirement" where
  "normalize_resource_requirement r =
     r\<lparr>rsc_name := trim_space (rsc_name r), rsc_type := trim_space (rsc_type r),
       rsc_unit := trim_space (rsc_unit r), rsc_currency := trim_space (rsc_currency r),
       rsc_notes := trim_space (rsc_notes r)\<rparr>"

definition resource_has_content :: "resource_requirement \<Rightarrow> bool" where
  "resource_has_content r \<longleftrightarrow>
     rsc_name r \<noteq> [] \<or> rsc_type r \<noteq> [] \<or> f64_less (Fin 0) (rsc_quantity r) \<or> rsc_unit r \<noteq> [] \<or>
     rsc_spend r > 0 \<or> rsc_currency r \<noteq> [] \<or> rsc_notes r \<noteq> []"

definition normalize_work_breakdown :: "work_breakdown \<Rightarrow> work_breakdown" where
  "normalize_work_breakdown w =
     w\<lparr>wbs_code := trim_space (wbs_code w), wbs_deliverable := trim_space (wbs_deliverable w),
       wbs_start := lower_unique (wbs_start w), wbs_acceptance := lower_unique (wbs_acceptance w),
       wbs_requirements := lower_unique (wbs_requirements w), wbs_rubrics := lower_unique (wbs_rubrics w),
       wbs_currency := trim_space (wbs_currency w),
       wbs_resources := filter resource_has_content (map normalize_resource_requirement (wbs_resources w))\<rparr>"

definition breakdown_has_content :: "work_breakdown \<Rightarrow> bool" where
  "breakdown_has_content w \<longleftrightarrow>
     wbs_code w \<noteq> [] \<or> wbs_deliverable w \<noteq> [] \<or> wbs_start w \<noteq> [] \<or> wbs_acceptance w \<noteq> [] \<or>
     wbs_requirements w \<noteq> [] \<or> wbs_rubrics w \<noteq> [] \<or> wbs_resources w \<noteq> [] \<or> wbs_spend w > 0 \<or>
     wbs_currency w \<noteq> []"

text \<open>A week, in nanoseconds. The current time is an argument.\<close>

definition default_task_follow_up_delay :: int where
  "default_task_follow_up_delay = 7 * 24 * 3600 * ns_per_s"

definition normalize_create_task_request :: "gotime \<Rightarrow> create_task_request \<Rightarrow> string + create_task_request" where
  "normalize_create_task_request now req =
     res_bind (normalize_domain_id (ctr_domain req) (ctr_firewall req)) (\<lambda>d.
     let req = req\<lparr>ctr_actor := norm_default (ctr_actor req) ''user'', ctr_domain := d, ctr_firewall := d,
                   ctr_title := trim_space (ctr_title req)\<rparr>
     in if ctr_title req = [] then Inl ''title is required''
        else let req = req\<lparr>ctr_description := trim_space (ctr_description req),
                           ctr_status := or_default (ctr_status req) ''open''\<rparr>
             in res_bind (check (valid_task_status (ctr_status req))
                            (invalid ''task status'' (ctr_status req))) (\<lambda>_.
                let req = req\<lparr>ctr_priority := or_default (ctr_priority req) ''normal''\<rparr>
                in res_bind (check (valid_task_priority (ctr_priority req))
                               (invalid ''task priority'' (ctr_priority req))) (\<lambda>_.
                   let req = req\<lparr>ctr_follow_up :=
                               (if ctr_follow_up req = None \<and> ctr_due req = None \<and> ctr_scheduled req = None \<and>
                                   \<not> terminal_task_status (ctr_status req)
                                then Some (now + default_task_follow_up_delay) else ctr_follow_up req),
                                 ctr_topics := lower_unique (ctr_topics req),
                                 ctr_project := trim_space (ctr_project req),
                                 ctr_location := trim_space (ctr_location req),
                                 ctr_person := trim_space (ctr_person req),
                                 ctr_key := trim_space (ctr_key req),
                                 ctr_breakdown := normalize_work_breakdown (ctr_breakdown req)\<rparr>
                   in res_bind (validate_task_metadata (ctr_estimate req) (ctr_urgency req)) (\<lambda>_.
                      res_bind (normalize_task_memory_links (ctr_links req)) (\<lambda>links.
                      Inr (req\<lparr>ctr_links := links\<rparr>))))))"

definition task_update_has_changes :: "update_task_request \<Rightarrow> bool" where
  "task_update_has_changes req \<longleftrightarrow>
     utr_title req \<noteq> None \<or> utr_description req \<noteq> None \<or> utr_status req \<noteq> None \<or> utr_priority req \<noteq> None \<or>
     utr_due req \<noteq> None \<or> utr_clear_due req \<or> utr_scheduled req \<noteq> None \<or> utr_clear_scheduled req \<or>
     utr_follow_up req \<noteq> None \<or> utr_clear_follow_up req \<or> utr_topics req \<noteq> None \<or>
     utr_estimate req \<noteq> None \<or> utr_urgency req \<noteq> None \<or> utr_project req \<noteq> None \<or>
     utr_location req \<noteq> None \<or> utr_person req \<noteq> None \<or> utr_breakdown req \<noteq> None"

definition normalize_update_task_request :: "update_task_request \<Rightarrow> string + update_task_request" where
  "normalize_update_task_request req =
     res_bind (normalize_domain_id (utr_domain req) (utr_firewall req)) (\<lambda>d.
     let req = req\<lparr>utr_actor := norm_default (utr_actor req) ''user'', utr_domain := d, utr_firewall := d\<rparr>
     in if utr_task req = [] then Inl ''task_id is required''
        else let req = req\<lparr>utr_title := map_option trim_space (utr_title req)\<rparr>
             in if utr_title req = Some [] then Inl ''title cannot be blank''
                else let req = req\<lparr>utr_description := map_option trim_space (utr_description req),
                                   utr_project := map_option trim_space (utr_project req),
                                   utr_location := map_option trim_space (utr_location req),
                                   utr_person := map_option trim_space (utr_person req),
                                   utr_breakdown := map_option normalize_work_breakdown (utr_breakdown req)\<rparr>
                     in if \<not> opt_ok valid_task_status (utr_status req)
                        then Inl (invalid ''task status'' (the (utr_status req)))
                        else if \<not> opt_ok valid_task_priority (utr_priority req)
                             then Inl (invalid ''task priority'' (the (utr_priority req)))
                        else let req = req\<lparr>utr_topics := map_option lower_unique (utr_topics req)\<rparr>
                             in res_bind (validate_task_metadata_pointers (utr_estimate req) (utr_urgency req)) (\<lambda>_.
                                if task_update_has_changes req then Inr req
                                else Inl ''at least one task field is required''))"

definition normalize_task_query :: "task_query \<Rightarrow> string + task_query" where
  "normalize_task_query q =
     res_bind (normalize_domain_id (tqu_domain q) (tqu_firewall q)) (\<lambda>d.
     let q = q\<lparr>tqu_domain := d, tqu_firewall := d\<rparr>
     in res_bind (check_all valid_task_status (invalid ''task status'') (tqu_statuses q)) (\<lambda>_.
        res_bind (check_all valid_task_priority (invalid ''task priority'') (tqu_priorities q)) (\<lambda>_.
        Inr (q\<lparr>tqu_topics := lower_unique (tqu_topics q), tqu_search := trim_space (tqu_search q),
               tqu_limit := limit_or 100 50 (tqu_limit q)\<rparr>))))"

definition check_relation_types :: "string list \<Rightarrow> string + unit" where
  "check_relation_types types = check_all valid_task_relation_type (invalid ''task relation type'') types"

definition normalize_direction :: "string \<Rightarrow> string + string" where
  "normalize_direction v =
     (let v = or_default (norm_key v) ''outgoing''
      in if v \<in> set task_relation_directions then Inr v
         else Inl (invalid ''task relation direction'' v))"

definition normalize_task_relation_query :: "task_relation_query \<Rightarrow> string + task_relation_query" where
  "normalize_task_relation_query q =
     res_bind (normalize_domain_id (trq_domain q) (trq_firewall q)) (\<lambda>d.
     res_bind (normalize_direction (trq_direction q)) (\<lambda>dir.
     res_bind (check_relation_types (trq_types q)) (\<lambda>_.
     Inr (q\<lparr>trq_domain := d, trq_firewall := d, trq_direction := dir,
            trq_limit := limit_or 500 100 (trq_limit q)\<rparr>))))"

definition normalize_task_relation_traversal_query ::
    "task_relation_traversal_query \<Rightarrow> string + task_relation_traversal_query" where
  "normalize_task_relation_traversal_query q =
     res_bind (normalize_domain_id (ttq_domain q) (ttq_firewall q)) (\<lambda>d.
     if ttq_root q = [] then Inl ''root_task_id is required''
     else res_bind (normalize_direction (ttq_direction q)) (\<lambda>dir.
          res_bind (check_relation_types (ttq_types q)) (\<lambda>_.
          Inr (q\<lparr>ttq_domain := d, ttq_firewall := d, ttq_direction := dir,
                 ttq_max_depth := limit_or 12 6 (ttq_max_depth q),
                 ttq_limit := limit_or 500 100 (ttq_limit q)\<rparr>))))"

definition normalize_task_id_request :: "task_id_request \<Rightarrow> string + task_id_request" where
  "normalize_task_id_request req =
     res_bind (normalize_domain_id (tir_domain req) (tir_firewall req)) (\<lambda>d.
     if tir_task req = [] then Inl ''task_id is required''
     else Inr (req\<lparr>tir_actor := norm_default (tir_actor req) ''user'', tir_domain := d, tir_firewall := d\<rparr>))"

definition normalize_upsert_task_relation_request ::
    "upsert_task_relation_request \<Rightarrow> string + upsert_task_relation_request" where
  "normalize_upsert_task_relation_request req =
     res_bind (normalize_domain_id (utq_domain req) (utq_firewall req)) (\<lambda>d.
     let req = req\<lparr>utq_actor := norm_default (utq_actor req) ''user'', utq_domain := d, utq_firewall := d,
                   utq_note := trim_space (utq_note req)\<rparr>
     in if utq_from req = [] then Inl ''from_task_id is required''
        else if utq_to req = [] then Inl ''to_task_id is required''
        else if utq_from req = utq_to req then Inl ''task relation cannot point to the same task''
        else let req = req\<lparr>utq_type := or_default (utq_type req) ''related_to''\<rparr>
             in if \<not> valid_task_relation_type (utq_type req) then Inl (invalid ''task relation type'' (utq_type req))
                else if utq_lag req < 0 then Inl ''lag_minutes must be zero or greater''
                else if \<not> score_ok (utq_confidence req) then Inl ''confidence must be between 0 and 1''
                else Inr req)"

definition normalize_delete_task_relation_request ::
    "delete_task_relation_request \<Rightarrow> string + delete_task_relation_request" where
  "normalize_delete_task_relation_request req =
     res_bind (normalize_domain_id (dtr_domain req) (dtr_firewall req)) (\<lambda>d.
     if dtr_relation req = [] then Inl ''relation_id is required''
     else Inr (req\<lparr>dtr_actor := norm_default (dtr_actor req) ''user'', dtr_domain := d, dtr_firewall := d\<rparr>))"

definition normalize_link_task_memory_request ::
    "link_task_memory_request \<Rightarrow> string + link_task_memory_request" where
  "normalize_link_task_memory_request req =
     res_bind (normalize_domain_id (ltm_domain req) (ltm_firewall req)) (\<lambda>d.
     if ltm_task req = [] then Inl ''task_id is required''
     else res_map (\<lambda>link. req\<lparr>ltm_domain := d, ltm_firewall := d, ltm_link := link\<rparr>)
            (normalize_memory_link_request (ltm_link req)))"

definition normalize_task_graph_query :: "task_graph_query \<Rightarrow> string + task_graph_query" where
  "normalize_task_graph_query q =
     res_bind (normalize_task_query (tgq_tasks q)) (\<lambda>t.
     res_bind (check_relation_types (tgq_types q)) (\<lambda>_.
     Inr (q\<lparr>tgq_tasks := t\<rparr>)))"

section \<open>Risk\<close>

text \<open>
  \<open>Duration.Hours\<close> as a comparison: the hours of a duration are at most a whole number n when its
  nanoseconds are at most n hours. The difference of two times saturates at the bounds of a duration.
\<close>

definition max_duration :: int where
  "max_duration = 9223372036854775807"

definition time_sub :: "gotime \<Rightarrow> gotime \<Rightarrow> int" where
  "time_sub t u = max (- max_duration - 1) (min max_duration (t - u))"

definition hours :: "int \<Rightarrow> int" where
  "hours n = n * 3600 * ns_per_s"

text \<open>The 64-bit float nearest to a decimal fraction of the source.\<close>

definition lit :: "rat \<Rightarrow> f64" where
  "lit q = Fin (float_of q)"

definition calculate_task_risk :: "task \<Rightarrow> gotime \<Rightarrow> f64" where
  "calculate_task_risk t now =
     (if terminal_task_status (tsk_status t) then Fin 0
      else case tsk_due t of
             None \<Rightarrow> lit (1 / 10)
           | Some due \<Rightarrow>
               (let d = time_sub due now
                in if d < 0 then Fin 1
                   else if d \<le> hours 24 then lit (85 / 100)
                   else if d \<le> hours 48 then lit (7 / 10)
                   else if d \<le> hours (7 * 24) then lit (45 / 100)
                   else if d \<le> hours (14 * 24) then Fin (1 / 4)
                   else lit (1 / 10)))"

end
