(* ===== verification/Memory_Store.thy ===== *)
theory Memory_Store imports Graph_Ops Task_Domain begin

text \<open>
  The rest of the graph store, as the repository of memories uses it: aliases.go,
  evidence_blobs.go, evidence_files.go, the index of search.go and the unit of work of store.go in
  memory/internal/memory/graph/store. The state \<open>memory_db\<close> adds the tables of aliases, evidence
  blobs and the full-text index to the graph, the files below the data root, and what a unit of work
  keeps in its store: the staged files and the removals. The ranking of SQLite's index, SHA-256 and
  the JSON form of a work breakdown are parameters. Disk and driver errors are not modelled but for a file that is not there. Node
  identifiers hold no slash, as those that \<open>id.New\<close> makes, so that cleaning a path changes nothing.
\<close>

section \<open>State\<close>

record alias_row =
  al_node :: string
  al_locale :: string
  al_alias :: string
  al_kind :: string
  al_created :: string

record blob_row =
  bl_node :: string
  bl_checksum :: string
  bl_path :: string
  bl_media_type :: string
  bl_system :: string
  bl_source_id :: string
  bl_size :: int
  bl_created :: string

record index_row =
  ix_node :: string
  ix_title :: string
  ix_summary :: string
  ix_aliases :: string
  ix_properties :: string
  ix_evidence :: string

text \<open>A staged file, with the content of its temporary file while that exists.\<close>

record evidence_write =
  ew_node :: string
  ew_checksum :: string
  ew_path :: string
  ew_size :: int
  ew_created :: bool
  ew_temp :: "string option"

record memory_db =
  md_graph :: graph_db
  md_aliases :: "alias_row list"
  md_blobs :: "blob_row list"
  md_index :: "index_row list"
  md_files :: "string \<rightharpoonup> string"
  md_in_unit :: bool
  md_staged :: "evidence_write list"
  md_staged_by :: "string \<rightharpoonup> string"
  md_removals :: "string list"

record store_env =
  se_graph :: env
  se_rank :: "index_row list \<Rightarrow> string \<Rightarrow> node_id list"
  se_checksum :: "string \<Rightarrow> string"
  se_encode :: "work_breakdown \<Rightarrow> string option"
  se_decode :: "string \<Rightarrow> work_breakdown option"

datatype merr = Invalid string | Graph gerr

type_synonym 'a mem_run = "(memory_db, merr, 'a) run"

section \<open>Operations on the graph\<close>

definition on_graph :: "'a db_run \<Rightarrow> 'a mem_run" where
  "on_graph m s = (case m (md_graph s) of (r, g) \<Rightarrow> (res_err Graph r, s\<lparr>md_graph := g\<rparr>))"

definition look :: "(graph_db \<Rightarrow> gerr + 'a) \<Rightarrow> 'a mem_run" where
  "look f = run_read (\<lambda>s. res_err Graph (f (md_graph s)))"

definition lift_domain :: "string + 'a \<Rightarrow> 'a mem_run" where
  "lift_domain r = run_lift (res_err Invalid r)"

text \<open>A \<open>for\<close> loop that calls an operation on each element and returns its first error.\<close>

fun each :: "('a \<Rightarrow> unit mem_run) \<Rightarrow> 'a list \<Rightarrow> unit mem_run" where
  "each f [] = run_ret ()"
| "each f (x # xs) = run_bind (f x) (\<lambda>_. each f xs)"

text \<open>One that collects the values the operation gives, if any.\<close>

fun gather :: "('a \<Rightarrow> 'b option mem_run) \<Rightarrow> 'a list \<Rightarrow> 'b list mem_run" where
  "gather f [] = run_ret []"
| "gather f (x # xs) =
     run_bind (f x) (\<lambda>y. run_bind (gather f xs) (\<lambda>ys.
     run_ret (case y of None \<Rightarrow> ys | Some v \<Rightarrow> v # ys)))"

definition memory_now :: "store_env \<Rightarrow> gotime mem_run" where
  "memory_now se = on_graph (clock_now (se_graph se))"

text \<open>\<open>ftsQuery\<close> and \<open>SearchNodes\<close> with the index of the state.\<close>

definition fts_cut :: "char set" where
  "fts_cut = {CHR 0x22, CHR 0x27, CHR ''('', CHR '')'', CHR ''['', CHR '']'', CHR ''{'', CHR ''}'', CHR '':'',
              CHR '';'', CHR '','', CHR ''.'', CHR ''!'', CHR ''?''}"

definition trim_chars :: "char set \<Rightarrow> string \<Rightarrow> string" where
  "trim_chars cs s = rev (dropWhile (\<lambda>c. c \<in> cs) (rev (dropWhile (\<lambda>c. c \<in> cs) s)))"

definition fts_query :: "string \<Rightarrow> string" where
  "fts_query v =
     (let terms = map go_quote (filter (\<lambda>p. p \<noteq> []) (map (trim_chars fts_cut) (Go_Base.fields (to_lower v))))
      in if terms = [] then [CHR 0x22, CHR 0x22] else join_str terms '' OR '')"

definition indexed_env :: "store_env \<Rightarrow> memory_db \<Rightarrow> env" where
  "indexed_env se s = (se_graph se)\<lparr>en_fts := \<lambda>v. se_rank se (md_index s) (fts_query v)\<rparr>"

definition find_nodes :: "store_env \<Rightarrow> search_nodes_query \<Rightarrow> node list mem_run" where
  "find_nodes se q = run_read (\<lambda>s. res_err Graph (search_nodes (indexed_env se s) (md_graph s) q))"

section \<open>Aliases\<close>

record upsert_alias_request =
  ual_node :: string
  ual_locale :: string
  ual_alias :: string
  ual_kind :: string

definition normalize_upsert_alias :: "upsert_alias_request \<Rightarrow> string + upsert_alias_request" where
  "normalize_upsert_alias req =
     (if ual_node req = [] then Inl ''node_id is required''
      else let req = req\<lparr>ual_locale := norm_key (ual_locale req), ual_alias := trim_space (ual_alias req)\<rparr>
           in if ual_alias req = [] then Inl ''alias is required''
              else Inr (req\<lparr>ual_kind := norm_default (ual_kind req) ''name''\<rparr>))"

definition same_alias :: "upsert_alias_request \<Rightarrow> alias_row \<Rightarrow> bool" where
  "same_alias req r \<longleftrightarrow>
     al_node r = ual_node req \<and> al_locale r = ual_locale req \<and> al_alias r = ual_alias req"

definition upsert_alias :: "store_env \<Rightarrow> upsert_alias_request \<Rightarrow> unit mem_run" where
  "upsert_alias se req0 =
     run_bind (lift_domain (normalize_upsert_alias req0)) (\<lambda>req.
     run_bind (memory_now se) (\<lambda>stamp.
     run_bind (\<lambda>s.
       if ual_node req \<notin> node_ids (db_nodes (md_graph s)) then (Inl (Graph (Constraint ''graph_aliases'')), s)
       else (Inr (), s\<lparr>md_aliases :=
               (if List.find (same_alias req) (md_aliases s) = None
                then md_aliases s @ [\<lparr>al_node = ual_node req, al_locale = ual_locale req,
                       al_alias = ual_alias req, al_kind = ual_kind req, al_created = time_string stamp\<rparr>]
                else map (\<lambda>r. if same_alias req r then r\<lparr>al_kind := ual_kind req\<rparr> else r) (md_aliases s))\<rparr>)) (\<lambda>_.
     run_bind (memory_now se) (\<lambda>_. run_ret ()))))"

definition alias_text :: "memory_db \<Rightarrow> node_id \<Rightarrow> string" where
  "alias_text s nid =
     join_str (sort_strings (map al_alias (filter (\<lambda>r. al_node r = nid) (md_aliases s)))) '' ''"

section \<open>Evidence\<close>

record evidence_blob =
  evb_node :: string
  evb_checksum :: string
  evb_path :: string
  evb_media_type :: string
  evb_system :: string
  evb_source_id :: string
  evb_size :: int
  evb_created :: gotime

record write_blob_request =
  wbr_node :: string
  wbr_content :: string
  wbr_media_type :: string
  wbr_system :: string
  wbr_source_id :: string
  wbr_source_node :: string
  wbr_actor :: string

definition normalize_write_blob :: "write_blob_request \<Rightarrow> string + write_blob_request" where
  "normalize_write_blob req =
     (if wbr_node req = [] then Inl ''node_id is required''
      else let req = req\<lparr>wbr_content := trim_space (wbr_content req)\<rparr>
           in if wbr_content req = [] then Inl ''content is required''
              else if trim_space (wbr_actor req) = [] then Inl ''actor is required''
              else Inr (req\<lparr>wbr_media_type := norm_default (wbr_media_type req) ''text/plain; charset=utf-8'',
                            wbr_system := trim_space (wbr_system req),
                            wbr_source_id := trim_space (wbr_source_id req),
                            wbr_source_node := or_default (wbr_source_node req) (wbr_node req),
                            wbr_actor := trim_space (wbr_actor req)\<rparr>))"

definition find_blob :: "memory_db \<Rightarrow> node_id \<Rightarrow> blob_row option" where
  "find_blob s nid = List.find (\<lambda>b. bl_node b = nid) (md_blobs s)"

definition get_evidence_blob :: "memory_db \<Rightarrow> node_id \<Rightarrow> merr + evidence_blob" where
  "get_evidence_blob s nid =
     (case find_blob s nid of
        None \<Rightarrow> Inl (Graph NoRows)
      | Some b \<Rightarrow>
          res_map (\<lambda>created. \<lparr>evb_node = bl_node b, evb_checksum = bl_checksum b, evb_path = bl_path b,
              evb_media_type = bl_media_type b, evb_system = bl_system b, evb_source_id = bl_source_id b,
              evb_size = bl_size b, evb_created = created\<rparr>)
            (res_err Graph (parse_time (bl_created b))))"

definition read_blob_content :: "memory_db \<Rightarrow> node_id \<Rightarrow> merr + string" where
  "read_blob_content s nid =
     res_bind (get_evidence_blob s nid) (\<lambda>b.
     case md_staged_by s nid of
       Some content \<Rightarrow> Inr content
     | None \<Rightarrow> (case md_files s (evb_path b) of
                  Some content \<Rightarrow> Inr content
                | None \<Rightarrow> Inl (Invalid ''read graph source file'')))"

text \<open>The length of the UTF-8 encoding.\<close>

definition byte_size :: "string \<Rightarrow> int" where
  "byte_size v = int (sum_list (map (\<lambda>c. if rune c < 128 then 1 else 2) v))"

definition write_evidence_file :: "store_env \<Rightarrow> node_id \<Rightarrow> string \<Rightarrow> evidence_write mem_run" where
  "write_evidence_file se nid content s =
     (let sum = se_checksum se content;
          path = ''sources/'' @ nid @ ''-'' @ sum @ ''.txt'';
          w = \<lparr>ew_node = nid, ew_checksum = sum, ew_path = path, ew_size = byte_size content,
               ew_created = False, ew_temp = None\<rparr>
      in if md_files s path \<noteq> None then (Inr w, s)
         else if md_in_unit s
         then let w = w\<lparr>ew_created := True, ew_temp := Some content\<rparr>
              in (Inr w, s\<lparr>md_staged := md_staged s @ [w], md_staged_by := (md_staged_by s)(nid \<mapsto> content)\<rparr>)
         else (Inr (w\<lparr>ew_created := True\<rparr>), s\<lparr>md_files := (md_files s)(path \<mapsto> content)\<rparr>))"

text \<open>Removing a temporary file keeps its staged entry.\<close>

definition discard_evidence_file :: "evidence_write \<Rightarrow> memory_db \<Rightarrow> memory_db" where
  "discard_evidence_file w s =
     (if \<not> ew_created w then s
      else if ew_temp w \<noteq> None
      then s\<lparr>md_staged := map (\<lambda>x. if x = w then x\<lparr>ew_temp := None\<rparr> else x) (md_staged s),
             md_staged_by := (md_staged_by s)(ew_node w := None)\<rparr>
      else s\<lparr>md_files := (md_files s)(ew_path w := None)\<rparr>)"

definition discarding :: "evidence_write \<Rightarrow> 'a mem_run \<Rightarrow> 'a mem_run" where
  "discarding w m s = (case m s of (Inl e, t) \<Rightarrow> (Inl e, discard_evidence_file w t) | (Inr x, t) \<Rightarrow> (Inr x, t))"

definition remove_superseded :: "string \<Rightarrow> memory_db \<Rightarrow> memory_db" where
  "remove_superseded path s =
     (if trim_space path = [] then s
      else if md_in_unit s then s\<lparr>md_removals := md_removals s @ [path]\<rparr>
      else s\<lparr>md_files := (md_files s)(path := None)\<rparr>)"

definition blobs_ok :: "node_row list \<Rightarrow> blob_row list \<Rightarrow> bool" where
  "blobs_ok nodes rows \<longleftrightarrow>
     distinct (map bl_node rows) \<and> distinct (map bl_path rows) \<and>
     (\<forall>b\<in>set rows. bl_node b \<in> node_ids nodes)"

definition put_blobs :: "blob_row list \<Rightarrow> unit mem_run" where
  "put_blobs rows s =
     (if blobs_ok (db_nodes (md_graph s)) rows then (Inr (), s\<lparr>md_blobs := rows\<rparr>)
      else (Inl (Graph (Constraint ''graph_evidence_blobs'')), s))"

definition blob_row_of :: "write_blob_request \<Rightarrow> evidence_write \<Rightarrow> gotime \<Rightarrow> blob_row" where
  "blob_row_of req w now =
     \<lparr>bl_node = wbr_node req, bl_checksum = ew_checksum w, bl_path = ew_path w,
      bl_media_type = wbr_media_type req, bl_system = wbr_system req, bl_source_id = wbr_source_id req,
      bl_size = ew_size w, bl_created = time_string now\<rparr>"

definition upsert_blob_row :: "blob_row \<Rightarrow> blob_row list \<Rightarrow> blob_row list" where
  "upsert_blob_row b rows =
     (if List.find (\<lambda>r. bl_node r = bl_node b) rows = None then rows @ [b]
      else map (\<lambda>r. if bl_node r = bl_node b then b\<lparr>bl_created := bl_created r\<rparr> else r) rows)"

definition blob_audit_details :: "write_blob_request \<Rightarrow> evidence_write \<Rightarrow> string" where
  "blob_audit_details req w =
     CHR ''{'' # join_str
       [json_string ''checksum'' @ '':'' @ json_string (ew_checksum w),
        json_string ''media_type'' @ '':'' @ json_string (wbr_media_type req),
        json_string ''size_bytes'' @ '':'' @ itoa (ew_size w),
        json_string ''source_id'' @ '':'' @ json_string (wbr_source_id req),
        json_string ''source_system'' @ '':'' @ json_string (wbr_system req)] '','' @ ''}''"

definition audit_of :: "string \<Rightarrow> string \<Rightarrow> node_id \<Rightarrow> node_id \<Rightarrow> string \<Rightarrow> append_audit_request" where
  "audit_of kind actor node source message =
     \<lparr>aa_id = [], aa_kind = kind, aa_actor = actor, aa_node = node, aa_edge = [], aa_source = source,
      aa_message = message, aa_details = []\<rparr>"

definition write_evidence_blob :: "store_env \<Rightarrow> write_blob_request \<Rightarrow> evidence_blob mem_run" where
  "write_evidence_blob se req0 =
     run_bind (lift_domain (normalize_write_blob req0)) (\<lambda>req.
     run_bind (run_read (\<lambda>s. Inr (find_blob s (wbr_node req)))) (\<lambda>existing.
     run_bind (write_evidence_file se (wbr_node req) (wbr_content req)) (\<lambda>w.
     run_bind (memory_now se) (\<lambda>now.
     run_bind (discarding w (\<lambda>s. put_blobs (upsert_blob_row (blob_row_of req w now) (md_blobs s)) s)) (\<lambda>_.
     run_bind (discarding w (on_graph (append_audit (se_graph se)
        ((audit_of ''write_evidence_blob'' (wbr_actor req) (wbr_node req) (wbr_source_node req)
            ''wrote graph source content'')\<lparr>aa_details := blob_audit_details req w\<rparr>)))) (\<lambda>_.
     run_bind (\<lambda>s. (Inr (), case existing of
                      Some b \<Rightarrow> if bl_path b \<noteq> ew_path w then remove_superseded (bl_path b) s else s
                    | None \<Rightarrow> s)) (\<lambda>_.
     run_read (\<lambda>s. get_evidence_blob s (wbr_node req)))))))))"

section \<open>The index\<close>

definition value_text :: "gvalue \<Rightarrow> string" where
  "value_text v =
     (if gv_type v = ''bool'' \<or> gv_type v = ''text'' then gv_text v
      else if gv_type v = ''json'' then gv_json v
      else if gv_type v = ''number'' then default_float (gv_number v)
      else if gv_type v = ''time'' then (case gv_time v of None \<Rightarrow> [] | Some t \<Rightarrow> time_string t)
      else [])"

definition property_text :: "graph_db \<Rightarrow> node_id \<Rightarrow> gerr + string" where
  "property_text g nid =
     res_map (\<lambda>ps. join_str (concat (map (\<lambda>p. [pr_key p, value_text (pr_value p)]) ps)) '' '')
       (list_node_properties g nid)"

definition evidence_text :: "memory_db \<Rightarrow> node_id \<Rightarrow> merr + string" where
  "evidence_text s nid =
     (case read_blob_content s nid of Inl (Graph NoRows) \<Rightarrow> Inr [] | r \<Rightarrow> r)"

definition reindex_node :: "node_id \<Rightarrow> unit mem_run" where
  "reindex_node nid =
     run_bind (look (\<lambda>g. get_node g nid)) (\<lambda>n.
     run_bind (look (\<lambda>g. property_text g nid)) (\<lambda>ps.
     run_bind (run_read (\<lambda>s. evidence_text s nid)) (\<lambda>ev s.
     (Inr (), s\<lparr>md_index := filter (\<lambda>r. ix_node r \<noteq> nid) (md_index s) @
                  [\<lparr>ix_node = nd_id n, ix_title = nd_title n, ix_summary = nd_summary n,
                    ix_aliases = alias_text s nid, ix_properties = ps, ix_evidence = ev\<rparr>]\<rparr>))))"

section \<open>Units of work\<close>

fun commit_files :: "evidence_write list \<Rightarrow> (string \<rightharpoonup> string) \<Rightarrow> (string \<rightharpoonup> string) option" where
  "commit_files [] files = Some files"
| "commit_files (w # ws) files =
     (if \<not> ew_created w \<or> files (ew_path w) \<noteq> None then commit_files ws files
      else case ew_temp w of
             None \<Rightarrow> None
           | Some content \<Rightarrow> commit_files ws (files(ew_path w \<mapsto> content)))"

definition remove_files :: "string list \<Rightarrow> (string \<rightharpoonup> string) \<Rightarrow> (string \<rightharpoonup> string)" where
  "remove_files paths files = fold (\<lambda>p f. f(p := None)) paths files"

definition begin_unit :: "memory_db \<Rightarrow> memory_db" where
  "begin_unit s = s\<lparr>md_in_unit := True, md_staged := [], md_staged_by := Map.empty, md_removals := []\<rparr>"

definition roll_back :: "memory_db \<Rightarrow> memory_db \<Rightarrow> memory_db" where
  "roll_back s t = s\<lparr>md_graph := (md_graph s)\<lparr>db_tick := db_tick (md_graph t)\<rparr>\<rparr>"

definition memory_unit :: "'a mem_run \<Rightarrow> 'a mem_run" where
  "memory_unit work s =
     (if md_in_unit s then (Inl (Graph NestedUnitOfWork), s)
      else case work (begin_unit s) of
             (Inl e, t) \<Rightarrow> (Inl e, roll_back s t)
           | (Inr x, t) \<Rightarrow>
               (case commit_files (md_staged t) (md_files t) of
                  None \<Rightarrow> (Inl (Invalid ''commit staged graph source file''), roll_back s t)
                | Some files \<Rightarrow>
                    (Inr x, t\<lparr>md_in_unit := False, md_staged := [], md_staged_by := Map.empty,
                              md_removals := [], md_files := remove_files (md_removals t) files\<rparr>)))"

end
