(* ===== verification/Memory_Repository.thy ===== *)
theory Memory_Repository imports Memory_Store begin

text \<open>
  Memories on the graph: memory/internal/memory/graph/repository/repository.go and mapping.go. A
  memory is a node with an edge to the node of its source, whose content is a file; subjects,
  topics and entities are nodes it has edges to. Methods that only read are functions of the
  state, the others operations on it.
\<close>

section \<open>Requests to the store\<close>

definition node_request :: "node_kind \<Rightarrow> string \<Rightarrow> string \<Rightarrow> string \<Rightarrow> upsert_node_request" where
  "node_request kind key title actor =
     \<lparr>un_id = [], un_kind = kind, un_stable_key = key, un_title = title, un_summary = [], un_status = [],
      un_sensitivity = [], un_trust = [], un_confidence = Fin 0, un_source = [], un_actor = actor\<rparr>"

definition edge_request :: "node_id \<Rightarrow> relation_type \<Rightarrow> node_id \<Rightarrow> node_id \<Rightarrow> string \<Rightarrow> upsert_edge_request" where
  "edge_request from rel to source actor =
     \<lparr>ue_id = [], ue_from = from, ue_type = rel, ue_to = to, ue_status = [], ue_confidence = Fin 0,
      ue_trust = [], ue_source = source, ue_actor = actor, ue_valid_from = None, ue_valid_to = None\<rparr>"

definition typed_value :: "value_type \<Rightarrow> gvalue" where
  "typed_value t = \<lparr>gv_type = t, gv_text = [], gv_number = Fin 0, gv_time = None, gv_json = []\<rparr>"

definition fact_request :: "string \<Rightarrow> string \<Rightarrow> gvalue \<Rightarrow> node_id \<Rightarrow> string \<Rightarrow> upsert_property_request" where
  "fact_request owner key v source actor =
     \<lparr>up_id = [], up_owner = owner, up_key = key, up_value = v, up_position = 0, up_status = [],
      up_confidence = Fin 0, up_trust = [], up_source = source, up_actor = actor\<rparr>"

definition text_property :: "node_id \<Rightarrow> string \<Rightarrow> string \<Rightarrow> node_id \<Rightarrow> string \<Rightarrow> upsert_property_request" where
  "text_property nid key v source actor =
     fact_request nid key ((typed_value ''text'')\<lparr>gv_text := trim_space v\<rparr>) source actor"

text \<open>An operation of the graph whose result is not used.\<close>

definition do_graph :: "'a db_run \<Rightarrow> unit mem_run" where
  "do_graph m = run_bind (on_graph m) (\<lambda>_. run_ret ())"

section \<open>Keys and texts\<close>

definition idempotency_stable_key :: "string \<Rightarrow> string \<Rightarrow> string" where
  "idempotency_stable_key prefix key =
     (let k = trim_space key in if k = [] then [] else prefix @ '':idempotency:'' @ k)"

definition evidence_stable_key :: "string \<Rightarrow> string" where
  "evidence_stable_key key = idempotency_stable_key ''evidence'' key"

definition memory_stable_key :: "string \<Rightarrow> string" where
  "memory_stable_key key = idempotency_stable_key ''memory'' key"

definition page_stable_key :: "string \<Rightarrow> string \<Rightarrow> string" where
  "page_stable_key kind title = ''page:'' @ kind @ '':'' @ to_lower (trim_space title)"

definition excerpt :: "string \<Rightarrow> nat \<Rightarrow> string" where
  "excerpt content limit =
     (let c = join_str (Go_Base.fields content) '' ''
      in if length c \<le> limit then c else trim_space (take limit c) @ ''...'')"

text \<open>The bytes of a string in UTF-8, as the verb \<open>%x\<close> prints them.\<close>

definition utf8 :: "string \<Rightarrow> nat list" where
  "utf8 v = concat (map (\<lambda>c. let n = rune c in if n < 128 then [n] else [192 + n div 64, 128 + n mod 64]) v)"

definition hex_bytes :: "string \<Rightarrow> string" where
  "hex_bytes v = concat (map (\<lambda>n. [hex_digit (n div 16), hex_digit (n mod 16)]) (utf8 v))"

section \<open>Reading\<close>

definition property_map :: "graph_db \<Rightarrow> node_id \<Rightarrow> gerr + (string \<rightharpoonup> property)" where
  "property_map g nid =
     res_map (\<lambda>ps. map_of (rev (map (\<lambda>p. (pr_key p, p)) ps))) (list_node_properties g nid)"

definition property_value_text :: "property option \<Rightarrow> string \<Rightarrow> string" where
  "property_value_text p fallback =
     (case p of
        None \<Rightarrow> fallback
      | Some q \<Rightarrow>
          (let v = pr_value q
           in if gv_type v = [] then fallback
              else if gv_type v = ''text'' \<or> gv_type v = ''bool''
              then (if gv_text v = [] then fallback else gv_text v)
              else fallback))"

definition edge_nodes :: "graph_db \<Rightarrow> node_id \<Rightarrow> relation_type list \<Rightarrow> gerr + node list" where
  "edge_nodes g nid rels =
     res_bind (list_outgoing_edges g nid rels) (\<lambda>edges. res_list (\<lambda>e. get_node g (ed_to e)) edges)"

definition edge_node_titles :: "graph_db \<Rightarrow> node_id \<Rightarrow> relation_type \<Rightarrow> gerr + string list" where
  "edge_node_titles g nid rel = res_map (\<lambda>ns. sort_strings (map nd_title ns)) (edge_nodes g nid [rel])"

definition edge_entity_nodes :: "graph_db \<Rightarrow> node_id \<Rightarrow> gerr + string list \<times> string list" where
  "edge_entity_nodes g nid =
     res_map (\<lambda>ns. let ps = sort_slice (\<lambda>a b. str_less (nd_title a) (nd_title b)) ns
                   in (map nd_id ps, map nd_title ps))
       (edge_nodes g nid [''mentions''])"

definition from_graph_status :: "lifecycle_status \<Rightarrow> lifecycle_status" where
  "from_graph_status v = (if v = ''deleted'' then ''archived'' else v)"

definition from_graph_relationship :: "relation_type \<Rightarrow> string" where
  "from_graph_relationship r =
     (if r = ''contradicts'' then ''contradicts''
      else if r = ''refers_to'' then ''refers_to''
      else if r = ''supersedes'' then ''supersedes''
      else ''refers_to'')"

definition memory_relationships :: "graph_db \<Rightarrow> node_id \<Rightarrow> gerr + relationship list" where
  "memory_relationships g nid =
     res_map (map (\<lambda>e. \<lparr>rls_id = ed_id e, rls_from = ed_from e, rls_type = from_graph_relationship (ed_type e),
                        rls_to = ed_to e, rls_source = ed_source e, rls_trust = ed_trust e,
                        rls_created = ed_created e\<rparr>))
       (list_outgoing_edges g nid [''contradicts'', ''refers_to'', ''supersedes''])"

definition captured_evidence :: "memory_db \<Rightarrow> node_id \<Rightarrow> merr + node \<times> raw_evidence" where
  "captured_evidence s nid =
     res_bind (res_err Graph (list_outgoing_edges (md_graph s) nid [''captured_from''])) (\<lambda>edges.
     if edges = [] then Inl (Graph NoRows)
     else res_bind (res_err Graph (get_node (md_graph s) (ed_to (hd edges)))) (\<lambda>n.
          res_map (\<lambda>b. (n, \<lparr>raw_id = nd_id n, raw_checksum = evb_checksum b, raw_path = evb_path b,
                       raw_media_type = evb_media_type b,
                       raw_source = \<lparr>src_system = evb_system b, src_id = evb_source_id b\<rparr>,
                       raw_title = nd_title n, raw_created = evb_created b, raw_size = evb_size b,
                       raw_content = [], raw_key = []\<rparr>))
            (get_evidence_blob s (nd_id n))))"

definition get_memory :: "memory_db \<Rightarrow> string \<Rightarrow> merr + memory_record" where
  "get_memory s mid =
     (let g = md_graph s
      in res_bind (res_err Graph (get_node g mid)) (\<lambda>n.
         if nd_kind n \<noteq> ''memory'' then Inl (Graph NoRows)
         else res_bind (res_err Graph (property_map g (nd_id n))) (\<lambda>ps.
         res_bind (captured_evidence s (nd_id n)) (\<lambda>(ev, raw).
         res_bind (res_err Graph (edge_node_titles g (nd_id n) ''about'')) (\<lambda>subjects.
         res_bind (res_err Graph (edge_node_titles g (nd_id n) ''tagged_with'')) (\<lambda>topics.
         res_bind (res_err Graph (edge_entity_nodes g (nd_id n))) (\<lambda>(ids, names).
         res_bind (res_err Graph (memory_relationships g (nd_id n))) (\<lambda>rels.
         let src = \<lparr>src_system = property_value_text (ps ''source_system'') [],
                    src_id = property_value_text (ps ''source_id'') []\<rparr>;
             key = property_value_text (ps ''idempotency_key'') []
         in Inr \<lparr>mem_id = nd_id n, mem_evidence = nd_id ev,
               mem_kind = property_value_text (ps ''memory_kind'') ''document'', mem_domain = [],
               mem_firewall = [], mem_trust = nd_trust n, mem_sensitivity = nd_sensitivity n,
               mem_status = from_graph_status (nd_status n), mem_title = nd_title n,
               mem_summary = nd_summary n, mem_subjects = subjects, mem_topics = topics,
               mem_entity_ids = ids, mem_entity_names = names,
               mem_event_time = (case ps ''event_time'' of None \<Rightarrow> None | Some p \<Rightarrow> gv_time (pr_value p)),
               mem_created = nd_created n, mem_updated = nd_updated n, mem_key = key, mem_source = src,
               mem_raw = Some (raw\<lparr>raw_source := src, raw_key := key\<rparr>), mem_relationships = rels\<rparr>))))))))"

definition get_evidence_content :: "memory_db \<Rightarrow> string \<Rightarrow> merr + string" where
  "get_evidence_content s ev = read_blob_content s ev"

definition record_matches :: "memory_record \<Rightarrow> retrieval_query \<Rightarrow> bool" where
  "record_matches r q \<longleftrightarrow>
     (ret_kinds q = [] \<or> mem_kind r \<in> set (ret_kinds q)) \<and>
     set (ret_topics q) \<subseteq> set (mem_topics r) \<and>
     set (ret_entities q) \<subseteq> set (mem_entity_ids r) \<and>
     (let t = (case mem_event_time r of None \<Rightarrow> mem_created r | Some e \<Rightarrow> e)
      in opt_ok (\<lambda>f. f \<le> t) (ret_from q) \<and> opt_ok (\<lambda>u. t \<le> u) (ret_to q))"

fun search_records :: "memory_db \<Rightarrow> retrieval_query \<Rightarrow> nat \<Rightarrow> node list \<Rightarrow> merr + memory_record list" where
  "search_records s q k [] = Inr []"
| "search_records s q k (n # ns) =
     res_bind (get_memory s (nd_id n)) (\<lambda>r.
     if \<not> record_matches r q then search_records s q k ns
     else if k \<le> 1 then Inr [r]
     else res_map (\<lambda>rs. r # rs) (search_records s q (k - 1) ns))"

definition memory_search_query :: "retrieval_query \<Rightarrow> search_nodes_query" where
  "memory_search_query q =
     \<lparr>sq_text = ret_text q, sq_kinds = [''memory''], sq_allowed = ret_allowed q, sq_limit = 100\<rparr>"

definition search :: "store_env \<Rightarrow> memory_db \<Rightarrow> retrieval_query \<Rightarrow> merr + memory_record list" where
  "search se s q0 =
     res_bind (res_err Invalid (normalize_retrieval_query q0)) (\<lambda>q.
     res_bind (res_err Graph (search_nodes (indexed_env se s) (md_graph s) (memory_search_query q))) (\<lambda>nodes.
     search_records s q (nat (ret_limit q)) nodes))"

definition metrics :: "memory_db \<Rightarrow> merr + memory_metrics" where
  "metrics s =
     (let count = (\<lambda>k. res_err Graph (count_nodes (md_graph s) k ''active''))
      in res_bind (count ''evidence'') (\<lambda>e.
         res_bind (count ''memory'') (\<lambda>m.
         res_bind (count ''artifact'') (\<lambda>p.
         Inr \<lparr>met_evidence = e, met_memory = m, met_pages = p, met_pending = 0, met_failed = 0,
              met_with_sources = m\<rparr>))))"

section \<open>Facets\<close>

definition archive_edges :: "store_env \<Rightarrow> node_id \<Rightarrow> relation_type \<Rightarrow> string \<Rightarrow> unit mem_run" where
  "archive_edges se nid rel actor =
     run_bind (look (\<lambda>g. list_outgoing_edges g nid [rel])) (\<lambda>edges.
     each (\<lambda>e. do_graph (set_edge_status (se_graph se) (ed_id e) ''archived'' actor)) edges)"

definition replace_facet_edges ::
    "store_env \<Rightarrow> node_id \<Rightarrow> node_id \<Rightarrow> string \<Rightarrow> relation_type \<Rightarrow> string list \<Rightarrow> string \<Rightarrow> unit mem_run" where
  "replace_facet_edges se mid ev actor rel vs prefix =
     run_bind (archive_edges se mid rel actor) (\<lambda>_.
     each (\<lambda>v. run_bind (on_graph (upsert_node (se_graph se)
                 (node_request ''topic'' (prefix @ '':'' @ v) v actor))) (\<lambda>n.
               do_graph (upsert_edge (se_graph se) (edge_request mid rel (nd_id n) ev actor))))
       (lower_unique vs))"

definition replace_entity_edges ::
    "store_env \<Rightarrow> node_id \<Rightarrow> node_id \<Rightarrow> string \<Rightarrow> string list \<Rightarrow> unit mem_run" where
  "replace_entity_edges se mid ev actor names =
     run_bind (archive_edges se mid ''mentions'' actor) (\<lambda>_.
     each (\<lambda>v. run_bind (on_graph (upsert_node (se_graph se)
                 (node_request ''entity'' (''entity:'' @ v) v actor))) (\<lambda>n.
               run_bind (upsert_alias se \<lparr>ual_node = nd_id n, ual_locale = [], ual_alias = v,
                                          ual_kind = ''name''\<rparr>) (\<lambda>_.
               do_graph (upsert_edge (se_graph se) (edge_request mid ''mentions'' (nd_id n) ev actor)))))
       (lower_unique names))"

definition write_facets ::
    "store_env \<Rightarrow> node_id \<Rightarrow> node_id \<Rightarrow> string \<Rightarrow> string list \<Rightarrow> string list \<Rightarrow> string list \<Rightarrow> unit mem_run" where
  "write_facets se mid ev actor subjects topics entities =
     run_bind (replace_facet_edges se mid ev actor ''about'' (lower_unique subjects) ''subject'') (\<lambda>_.
     run_bind (replace_facet_edges se mid ev actor ''tagged_with'' (lower_unique topics) ''topic'') (\<lambda>_.
     replace_entity_edges se mid ev actor (lower_unique entities)))"

section \<open>Capture\<close>

definition capture_facts :: "capture_request \<Rightarrow> node_id \<Rightarrow> node_id \<Rightarrow> upsert_property_request list" where
  "capture_facts req mid ev =
     [text_property mid ''memory_kind'' (cap_kind req) ev (cap_actor req),
      text_property mid ''source_system'' (src_system (cap_source req)) ev (cap_actor req),
      text_property mid ''source_id'' (src_id (cap_source req)) ev (cap_actor req)] @
     (if cap_key req = [] then []
      else [text_property mid ''idempotency_key'' (cap_key req) ev (cap_actor req)]) @
     (case cap_event_time req of
        None \<Rightarrow> []
      | Some t \<Rightarrow> [fact_request mid ''event_time'' ((typed_value ''time'')\<lparr>gv_time := Some t\<rparr>) ev (cap_actor req)])"

definition empty_fact :: "upsert_property_request \<Rightarrow> bool" where
  "empty_fact f \<longleftrightarrow> trim_space (gv_text (up_value f)) = [] \<and> gv_time (up_value f) = None"

definition write_capture_facts :: "store_env \<Rightarrow> capture_request \<Rightarrow> node_id \<Rightarrow> node_id \<Rightarrow> unit mem_run" where
  "write_capture_facts se req mid ev =
     each (\<lambda>f. if empty_fact f then run_ret () else do_graph (upsert_node_property (se_graph se) f))
       (capture_facts req mid ev)"

definition evidence_request :: "capture_request \<Rightarrow> upsert_node_request" where
  "evidence_request req =
     (node_request ''evidence'' (evidence_stable_key (cap_key req)) (cap_title req) (cap_actor req))
       \<lparr>un_summary := excerpt (cap_content req) 280, un_sensitivity := cap_sensitivity req,
        un_trust := ''source_original''\<rparr>"

definition memory_request :: "capture_request \<Rightarrow> upsert_node_request" where
  "memory_request req =
     (node_request ''memory'' (memory_stable_key (cap_key req)) (cap_title req) (cap_actor req))
       \<lparr>un_summary := excerpt (cap_content req) 280, un_sensitivity := cap_sensitivity req,
        un_trust := cap_trust req\<rparr>"

definition capture_normalized :: "store_env \<Rightarrow> capture_request \<Rightarrow> capture_result mem_run" where
  "capture_normalized se req =
     (let en = se_graph se
      in run_bind (on_graph (upsert_node en (evidence_request req))) (\<lambda>evn.
         let ev = nd_id evn in
         run_bind (write_evidence_blob se
           \<lparr>wbr_node = ev, wbr_content = cap_content req, wbr_media_type = cap_media_type req,
            wbr_system = src_system (cap_source req), wbr_source_id = src_id (cap_source req),
            wbr_source_node = ev, wbr_actor = cap_actor req\<rparr>) (\<lambda>_.
         run_bind (on_graph (upsert_node en (memory_request req))) (\<lambda>mn.
         let mid = nd_id mn in
         run_bind (write_capture_facts se req mid ev) (\<lambda>_.
         run_bind (do_graph (upsert_edge en
           ((edge_request mid ''captured_from'' ev ev (cap_actor req))\<lparr>ue_trust := ''source_original''\<rparr>))) (\<lambda>_.
         run_bind (write_facets se mid ev (cap_actor req) (cap_subjects req) (cap_topics req)
                     (cap_entities req)) (\<lambda>_.
         run_bind (upsert_alias se \<lparr>ual_node = mid, ual_locale = [], ual_alias = cap_title req,
                                    ual_kind = ''title''\<rparr>) (\<lambda>_.
         run_bind (reindex_node ev) (\<lambda>_.
         run_bind (reindex_node mid) (\<lambda>_.
         run_bind (do_graph (append_audit en (audit_of ''capture'' (cap_actor req) mid ev
           ''captured source content and projected it into the context graph''))) (\<lambda>_.
         run_ret \<lparr>cpr_evidence = ev, cpr_memory = mid, cpr_duplicate = False\<rparr>)))))))))))"

definition capture_by_idempotency :: "memory_db \<Rightarrow> string \<Rightarrow> merr + capture_result option" where
  "capture_by_idempotency s key =
     (case get_node_by_stable_key (md_graph s) ''memory'' (memory_stable_key key) of
        Inl NoRows \<Rightarrow> Inr None
      | Inl e \<Rightarrow> Inl (Graph e)
      | Inr n \<Rightarrow> res_map (\<lambda>r. Some \<lparr>cpr_evidence = mem_evidence r, cpr_memory = mem_id r,
                                   cpr_duplicate = True\<rparr>) (get_memory s (nd_id n)))"

text \<open>\<open>Capture\<close> looks for the key before its unit of work and once more in it.\<close>

definition known_capture :: "capture_request \<Rightarrow> capture_result option mem_run" where
  "known_capture req =
     (if cap_key req = [] then run_ret None else run_read (\<lambda>s. capture_by_idempotency s (cap_key req)))"

definition capture :: "store_env \<Rightarrow> capture_request \<Rightarrow> capture_result mem_run" where
  "capture se req0 =
     run_bind (lift_domain (normalize_capture_request req0)) (\<lambda>req.
     run_bind (known_capture req) (\<lambda>known.
     case known of
       Some r \<Rightarrow> run_ret r
     | None \<Rightarrow> memory_unit (run_bind (known_capture req) (\<lambda>again.
                 case again of Some r \<Rightarrow> run_ret r | None \<Rightarrow> capture_normalized se req))))"

section \<open>Repair and correction\<close>

definition repair_memory :: "store_env \<Rightarrow> repair_request \<Rightarrow> memory_record mem_run" where
  "repair_memory se req0 =
     (let en = se_graph se
      in run_bind (lift_domain (normalize_repair_request req0)) (\<lambda>req.
         run_bind (run_read (\<lambda>s. get_memory s (rep_memory req))) (\<lambda>r.
         run_bind (look (\<lambda>g. get_node g (rep_memory req))) (\<lambda>old.
         run_bind (on_graph (upsert_node en
           \<lparr>un_id = rep_memory req, un_kind = ''memory'', un_stable_key = nd_stable_key old,
            un_title = (case rep_title req of None \<Rightarrow> mem_title r | Some v \<Rightarrow> trim_space v),
            un_summary = (case rep_summary req of None \<Rightarrow> mem_summary r | Some v \<Rightarrow> trim_space v),
            un_status = (case rep_status req of None \<Rightarrow> mem_status r | Some v \<Rightarrow> v),
            un_sensitivity = (case rep_sensitivity req of None \<Rightarrow> mem_sensitivity r | Some v \<Rightarrow> v),
            un_trust = mem_trust r, un_confidence = Fin 0, un_source = [], un_actor = rep_actor req\<rparr>)) (\<lambda>n.
         let mid = nd_id n; ev = mem_evidence r; actor = rep_actor req in
         run_bind (case rep_kind req of None \<Rightarrow> run_ret ()
                   | Some k \<Rightarrow> do_graph (upsert_node_property en
                       (fact_request mid ''memory_kind'' ((typed_value ''text'')\<lparr>gv_text := k\<rparr>) [] actor))) (\<lambda>_.
         run_bind (if rep_subjects req0 = None then run_ret ()
                   else replace_facet_edges se mid ev actor ''about'' (the (rep_subjects req)) ''subject'') (\<lambda>_.
         run_bind (if rep_topics req0 = None then run_ret ()
                   else replace_facet_edges se mid ev actor ''tagged_with'' (the (rep_topics req)) ''topic'') (\<lambda>_.
         run_bind (if rep_entities req0 = None then run_ret ()
                   else replace_entity_edges se mid ev actor (the (rep_entities req))) (\<lambda>_.
         run_bind (reindex_node mid) (\<lambda>_.
         run_bind (do_graph (append_audit en (audit_of ''memory_repair'' actor mid ev
           ''repaired graph-backed memory metadata''))) (\<lambda>_.
         run_read (\<lambda>s. get_memory s (rep_memory req)))))))))))))"

definition correction_capture :: "correction_request \<Rightarrow> capture_request" where
  "correction_capture req =
     \<lparr>cap_actor = cor_actor req, cap_content = cor_text req, cap_media_type = [],
      cap_title = ''Memory correction'',
      cap_source = \<lparr>src_system = ''memory_correction'', src_id = cor_memory req\<rparr>,
      cap_kind = ''document'', cap_domain = cor_domain req, cap_firewall = cor_domain req,
      cap_trust = ''user_asserted'', cap_sensitivity = ''private'', cap_subjects = [],
      cap_topics = [''correction''], cap_entities = [], cap_event_time = None,
      cap_key = ''correction:'' @ cor_memory req @ '':'' @ hex_bytes (cor_text req)\<rparr>"

definition create_correction :: "store_env \<Rightarrow> correction_request \<Rightarrow> capture_result mem_run" where
  "create_correction se req0 =
     run_bind (lift_domain (normalize_correction_request req0)) (\<lambda>req.
     run_bind (capture se (correction_capture req)) (\<lambda>r.
     run_bind (do_graph (upsert_edge (se_graph se)
       ((edge_request (cpr_memory r) ''refers_to'' (cor_memory req) (cpr_evidence r) (cor_actor req))
          \<lparr>ue_trust := ''user_asserted''\<rparr>))) (\<lambda>_.
     run_ret r)))"

section \<open>Pages\<close>

definition nl :: string where "nl = [CHR 0x0A]"

definition bt :: string where "bt = [CHR 0x60]"

definition page_section :: "memory_record \<Rightarrow> string" where
  "page_section r =
     ''## '' @ mem_title r @ nl @ nl @
     (if mem_summary r = [] then [] else mem_summary r @ nl @ nl) @
     ''- Memory: '' @ bt @ mem_id r @ bt @ nl @
     ''- Source: '' @ bt @ mem_evidence r @ bt @ nl @
     (if mem_topics r = [] then [] else ''- Topics: '' @ join_str (mem_topics r) '', '' @ nl) @ nl"

definition build_page_content :: "string \<Rightarrow> string \<Rightarrow> memory_record list \<Rightarrow> string \<times> string list" where
  "build_page_content kind title records =
     (let heading = ''# '' @ title @ nl @ nl @ ''Kind: '' @ bt @ kind @ bt @ nl @ nl
      in if records = [] then (heading @ ''No source content matched this page yet.'' @ nl, [])
         else let rs = sort_slice (\<lambda>a b. mem_created b < mem_created a) records
              in (heading @ concat (map page_section rs), sort_strings (remdups (map mem_evidence rs))))"

definition refresh_page :: "store_env \<Rightarrow> refresh_page_request \<Rightarrow> compiled_page mem_run" where
  "refresh_page se req0 =
     run_bind (lift_domain (normalize_refresh_page_request req0)) (\<lambda>req s.
     (let t1 = (if rfp_topic req \<noteq> [] \<and> rfp_title req = [] then rfp_topic req else rfp_title req);
          t2 = (if rfp_entity req \<noteq> [] \<and> t1 = []
                then (case get_node (md_graph s) (rfp_entity req) of Inr n \<Rightarrow> nd_title n | Inl _ \<Rightarrow> [])
                else t1);
          title = (if t2 = [] then rfp_kind req else t2);
          q = \<lparr>ret_actor = rfp_actor req, ret_domain = rfp_domain req, ret_firewall = [],
               ret_include_global = False, ret_text = [], ret_kinds = [],
               ret_topics = (if rfp_topic req = [] then [] else [rfp_topic req]),
               ret_entities = (if rfp_entity req = [] then [] else [rfp_entity req]),
               ret_from = None, ret_to = None, ret_allowed = [], ret_limit = 100\<rparr>
      in run_bind (run_read (\<lambda>s. search se s q)) (\<lambda>records.
         let (content, sources) = build_page_content (rfp_kind req) title records in
         run_bind (on_graph (upsert_node (se_graph se)
           ((node_request ''artifact'' (page_stable_key (rfp_kind req) title) title (rfp_actor req))
              \<lparr>un_summary := excerpt content 280\<rparr>))) (\<lambda>n.
         run_ret \<lparr>pag_id = nd_id n, pag_kind = rfp_kind req, pag_domain = rfp_domain req,
                  pag_firewall = rfp_domain req, pag_title = title, pag_status = ''active'',
                  pag_sources = sources, pag_content = content, pag_created = nd_created n,
                  pag_updated = nd_updated n\<rparr>)) s))"

definition load_entity_page :: "store_env \<Rightarrow> domain_id \<Rightarrow> string \<Rightarrow> string \<Rightarrow> compiled_page mem_run" where
  "load_entity_page se d entity title s =
     (let t = (if title = [] then (case get_node (md_graph s) entity of Inr n \<Rightarrow> nd_title n | Inl _ \<Rightarrow> [])
               else title)
      in refresh_page se \<lparr>rfp_actor = [], rfp_kind = ''entity_page'', rfp_domain = d, rfp_firewall = [],
           rfp_title = t, rfp_entity = entity, rfp_topic = []\<rparr> s)"

definition load_timeline :: "store_env \<Rightarrow> domain_id \<Rightarrow> string \<Rightarrow> string \<Rightarrow> compiled_page mem_run" where
  "load_timeline se d topic entity =
     refresh_page se \<lparr>rfp_actor = [], rfp_kind = ''timeline'', rfp_domain = d, rfp_firewall = [],
       rfp_title = [], rfp_entity = entity, rfp_topic = topic\<rparr>"

section \<open>Maintenance\<close>

record memory_audit =
  mau_id :: string
  mau_kind :: string
  mau_actor :: string
  mau_subject :: string
  mau_source :: string
  mau_message :: string
  mau_details :: string

definition add_audit :: "store_env \<Rightarrow> memory_audit \<Rightarrow> unit mem_run" where
  "add_audit se ev =
     do_graph (append_audit (se_graph se)
       \<lparr>aa_id = mau_id ev, aa_kind = mau_kind ev, aa_actor = mau_actor ev, aa_node = mau_subject ev,
        aa_edge = [], aa_source = mau_source ev, aa_message = mau_message ev, aa_details = mau_details ev\<rparr>)"

definition reindex_memory :: "string \<Rightarrow> unit mem_run" where
  "reindex_memory mid = reindex_node mid"

definition graph_request :: "graph_query_request \<Rightarrow> request" where
  "graph_request req =
     \<lparr>rq_actor = gqr_actor req, rq_query = gqr_query req, rq_source = gqr_source req,
      rq_allowed = gqr_allowed req\<rparr>"

text \<open>\<open>QueryContextGraph\<close>. The errors of the executor stay what they are.\<close>

definition query_graph :: "store_env \<Rightarrow> graph_query_request \<Rightarrow> (memory_db, query_error, query_result) run" where
  "query_graph se req s =
     (case execute (sql_ops (indexed_env se s)) (graph_request req) (md_graph s) of
        (r, g) \<Rightarrow> (r, s\<lparr>md_graph := g\<rparr>))"

end
