(* ===== verification/Task_Repository.thy ===== *)
theory Task_Repository imports Memory_Repository begin

text \<open>
  Tasks on the graph: memory/internal/memory/graph/repository/tasks.go. A task is a node; its scalar
  facts are properties of it, its topics, project, person and location nodes it has edges to, its
  relations to other tasks and to memories edges of their own. Each reading of the clock is one of
  the state's, so that also reading a task is an operation on the state. A float outside the range of
  64-bit integers is converted as on amd64, to the least integer.
\<close>

section \<open>Vocabulary\<close>

definition task_memory_relation_mappings :: "(string \<times> relation_type) list" where
  "task_memory_relation_mappings =
     [(''context'', ''has_context''), (''originated_from'', ''sourced_from''),
      (''supporting'', ''supported_by''), (''related'', ''related_to'')]"

definition task_memory_relation :: "string \<Rightarrow> relation_type" where
  "task_memory_relation r =
     (case map_of task_memory_relation_mappings r of Some g \<Rightarrow> g | None \<Rightarrow> ''related_to'')"

definition task_memory_relationship :: "relation_type \<Rightarrow> string" where
  "task_memory_relationship g =
     (case map_of (map (\<lambda>(a, b). (b, a)) task_memory_relation_mappings) g of Some r \<Rightarrow> r | None \<Rightarrow> ''related'')"

text \<open>The names of the relations of tasks are those of the graph.\<close>

definition task_relation_graph_type :: "string \<Rightarrow> relation_type" where
  "task_relation_graph_type r = (if r \<in> set task_relation_types then r else ''related_to'')"

definition task_relation_type :: "relation_type \<Rightarrow> string" where
  "task_relation_type g = (if g \<in> set task_relation_types then g else ''related_to'')"

definition normalized_task_relation_types :: "string list \<Rightarrow> string list" where
  "normalized_task_relation_types types = (if types = [] then task_relation_types else types)"

definition task_relation_graph_types :: "string list \<Rightarrow> relation_type list" where
  "task_relation_graph_types types = map task_relation_graph_type (normalized_task_relation_types types)"

section \<open>Properties\<close>

definition go_int :: "f64 \<Rightarrow> int" where
  "go_int f =
     (case f of
        Fin q \<Rightarrow> (let n = (if q < 0 then \<lceil>q\<rceil> else \<lfloor>q\<rfloor>)
                  in if - max_int - 1 \<le> n \<and> n \<le> max_int then n else - max_int - 1)
      | _ \<Rightarrow> - max_int - 1)"

definition float_int :: "int \<Rightarrow> f64" where
  "float_int n = Fin (float_of (of_int n))"

definition task_text_property :: "node_id \<Rightarrow> string \<Rightarrow> string \<Rightarrow> string \<Rightarrow> upsert_property_request" where
  "task_text_property nid key v actor =
     fact_request nid key ((typed_value ''text'')\<lparr>gv_text := v\<rparr>) [] actor"

definition task_number_property :: "node_id \<Rightarrow> string \<Rightarrow> f64 \<Rightarrow> string \<Rightarrow> upsert_property_request" where
  "task_number_property nid key v actor =
     fact_request nid key ((typed_value ''number'')\<lparr>gv_number := v\<rparr>) [] actor"

definition task_time_property :: "node_id \<Rightarrow> string \<Rightarrow> gotime option \<Rightarrow> string \<Rightarrow> upsert_property_request" where
  "task_time_property nid key v actor =
     fact_request nid key ((typed_value ''time'')\<lparr>gv_time := v\<rparr>) [] actor"

definition work_breakdown_property ::
    "store_env \<Rightarrow> node_id \<Rightarrow> work_breakdown \<Rightarrow> string \<Rightarrow> merr + upsert_property_request" where
  "work_breakdown_property se nid w actor =
     (case se_encode se w of
        None \<Rightarrow> Inl (Invalid ''json'')
      | Some v \<Rightarrow> Inr (fact_request nid ''work_breakdown'' ((typed_value ''json'')\<lparr>gv_json := v\<rparr>) [] actor))"

definition empty_task_property :: "upsert_property_request \<Rightarrow> bool" where
  "empty_task_property p \<longleftrightarrow>
     (let v = up_value p
      in if gv_type v = ''text'' then trim_space (gv_text v) = []
         else if gv_type v = ''number'' then gv_number v = Fin 0
         else if gv_type v = ''time'' then gv_time v = None
         else if gv_type v = ''json'' then trim_space (gv_json v) = [] \<or> trim_space (gv_json v) = ''{}''
         else False)"

definition property_number :: "property option \<Rightarrow> f64" where
  "property_number p =
     (case p of None \<Rightarrow> Fin 0
      | Some q \<Rightarrow> if gv_type (pr_value q) = ''number'' then gv_number (pr_value q) else Fin 0)"

definition property_time :: "property option \<Rightarrow> gotime option" where
  "property_time p =
     (case p of None \<Rightarrow> None
      | Some q \<Rightarrow> if gv_type (pr_value q) = ''time'' then gv_time (pr_value q) else None)"

definition work_breakdown_from_property :: "store_env \<Rightarrow> property option \<Rightarrow> work_breakdown" where
  "work_breakdown_from_property se p =
     (case p of
        None \<Rightarrow> no_breakdown
      | Some q \<Rightarrow>
          if gv_type (pr_value q) \<noteq> ''json'' \<or> trim_space (gv_json (pr_value q)) = [] then no_breakdown
          else (case se_decode se (gv_json (pr_value q)) of
                  None \<Rightarrow> no_breakdown
                | Some w \<Rightarrow> normalize_work_breakdown w))"

definition task_stable_key :: "string \<Rightarrow> string" where
  "task_stable_key key = idempotency_stable_key ''task'' key"

section \<open>Reading tasks\<close>

definition task_node :: "graph_db \<Rightarrow> string \<Rightarrow> gerr + node" where
  "task_node g tid =
     res_bind (get_node g tid) (\<lambda>n.
     if nd_kind n \<noteq> ''task'' \<or> nd_status n = ''deleted'' then Inl NoRows else Inr n)"

definition memory_link_from_edge :: "graph_db \<Rightarrow> edge \<Rightarrow> gerr + memory_link" where
  "memory_link_from_edge g e =
     res_bind (list_edge_properties g (ed_id e)) (\<lambda>ps.
     res_bind (get_node g (ed_to e)) (\<lambda>target.
     let notes = filter (\<lambda>p. pr_key p = ''note'' \<and> gv_type (pr_value p) = ''text'') ps;
         note = (if notes = [] then [] else gv_text (pr_value (List.last notes)))
     in Inr \<lparr>mli_id = ed_id e,
          mli_memory = (if nd_kind target = ''memory'' then nd_id target else []),
          mli_evidence = (if ed_source e \<noteq> [] then ed_source e
                          else if nd_kind target = ''evidence'' then nd_id target else []),
          mli_relationship = task_memory_relationship (ed_type e), mli_note = note,
          mli_created = ed_created e\<rparr>))"

definition task_memory_links :: "graph_db \<Rightarrow> node_id \<Rightarrow> gerr + memory_link list" where
  "task_memory_links g tid =
     res_bind
       (res_list (\<lambda>rel. res_bind (list_outgoing_edges g tid [rel]) (res_list (memory_link_from_edge g)))
          [''sourced_from'', ''has_context'', ''supported_by'', ''related_to'']) (\<lambda>ls.
     Inr (sort_slice (\<lambda>a b. mli_created a < mli_created b)
            (filter (\<lambda>l. mli_memory l \<noteq> [] \<or> mli_evidence l \<noteq> []) (concat ls))))"

text \<open>\<open>firstTitleOfKind\<close>: an error is an empty title.\<close>

fun first_of_kind :: "graph_db \<Rightarrow> node_kind \<Rightarrow> edge list \<Rightarrow> string" where
  "first_of_kind g kind [] = []"
| "first_of_kind g kind (e # es) =
     (case get_node g (ed_to e) of
        Inl _ \<Rightarrow> []
      | Inr n \<Rightarrow> if nd_kind n = kind then nd_title n else first_of_kind g kind es)"

definition first_title_of_kind :: "graph_db \<Rightarrow> node_id \<Rightarrow> relation_type \<Rightarrow> node_kind \<Rightarrow> string" where
  "first_title_of_kind g nid rel kind =
     (case list_outgoing_edges g nid [rel] of Inl _ \<Rightarrow> [] | Inr es \<Rightarrow> first_of_kind g kind es)"

definition task_of_node ::
    "store_env \<Rightarrow> graph_db \<Rightarrow> node \<Rightarrow> (string \<rightharpoonup> property) \<Rightarrow> string list \<Rightarrow> task" where
  "task_of_node se g n ps topics =
     \<lparr>tsk_id = nd_id n, tsk_domain = [], tsk_firewall = [], tsk_title = nd_title n,
      tsk_description = property_value_text (ps ''description'') (nd_summary n),
      tsk_status = property_value_text (ps ''status'') ''open'',
      tsk_priority = property_value_text (ps ''priority'') ''normal'',
      tsk_due = property_time (ps ''due_at''), tsk_scheduled = property_time (ps ''scheduled_at''),
      tsk_follow_up = property_time (ps ''follow_up_at''), tsk_topics = topics,
      tsk_estimate = go_int (property_number (ps ''estimate_minutes'')),
      tsk_urgency = property_number (ps ''urgency''), tsk_risk = Fin 0,
      tsk_project = first_title_of_kind g (nd_id n) ''part_of'' ''project'',
      tsk_location = first_title_of_kind g (nd_id n) ''located_at'' ''location'',
      tsk_person = first_title_of_kind g (nd_id n) ''assigned_to'' ''person'',
      tsk_actor = nd_actor n, tsk_key = property_value_text (ps ''idempotency_key'') [],
      tsk_created = nd_created n, tsk_updated = nd_updated n,
      tsk_completed = property_time (ps ''completed_at''), tsk_canceled = property_time (ps ''canceled_at''),
      tsk_overdue = False, tsk_links = [],
      tsk_breakdown = work_breakdown_from_property se (ps ''work_breakdown'')\<rparr>"

text \<open>The clock is read for \<open>Overdue\<close> only when the task is due at some time.\<close>

definition task_from_node :: "store_env \<Rightarrow> bool \<Rightarrow> node \<Rightarrow> task mem_run" where
  "task_from_node se links n =
     run_bind (look (\<lambda>g. property_map g (nd_id n))) (\<lambda>ps.
     run_bind (look (\<lambda>g. edge_node_titles g (nd_id n) ''tagged_with'')) (\<lambda>topics.
     run_bind (run_read (\<lambda>s. Inr (task_of_node se (md_graph s) n ps topics))) (\<lambda>t.
     run_bind (case tsk_due t of
                 None \<Rightarrow> run_ret False
               | Some due \<Rightarrow> run_bind (memory_now se) (\<lambda>now.
                   run_ret (due < now \<and> \<not> terminal_task_status (tsk_status t)))) (\<lambda>overdue.
     let t = t\<lparr>tsk_overdue := overdue\<rparr> in
     run_bind (memory_now se) (\<lambda>now.
     let t = t\<lparr>tsk_risk := calculate_task_risk t now\<rparr> in
     if links then run_bind (look (\<lambda>g. task_memory_links g (nd_id n))) (\<lambda>ls. run_ret (t\<lparr>tsk_links := ls\<rparr>))
     else run_ret t)))))"

definition get_task :: "store_env \<Rightarrow> task_id_request \<Rightarrow> task mem_run" where
  "get_task se req0 =
     run_bind (lift_domain (normalize_task_id_request req0)) (\<lambda>req.
     run_bind (look (\<lambda>g. task_node g (tir_task req))) (task_from_node se True))"

definition task_matches :: "task \<Rightarrow> task_query \<Rightarrow> bool" where
  "task_matches t q \<longleftrightarrow>
     (tqu_include_done q \<or> \<not> terminal_task_status (tsk_status t)) \<and>
     (tqu_statuses q = [] \<or> tsk_status t \<in> set (tqu_statuses q)) \<and>
     (tqu_priorities q = [] \<or> tsk_priority t \<in> set (tqu_priorities q)) \<and>
     set (tqu_topics q) \<subseteq> set (tsk_topics t) \<and>
     (\<not> tqu_overdue_only q \<or> tsk_overdue t)"

definition first_time :: "gotime option list \<Rightarrow> gotime \<Rightarrow> gotime" where
  "first_time ts d = (case List.find (\<lambda>t. t \<noteq> None) ts of Some (Some t) \<Rightarrow> t | _ \<Rightarrow> d)"

definition task_sort_time :: "task \<Rightarrow> gotime" where
  "task_sort_time t = first_time [tsk_due t, tsk_scheduled t, tsk_follow_up t] (tsk_created t)"

definition task_before :: "task \<Rightarrow> task \<Rightarrow> bool" where
  "task_before a b \<longleftrightarrow>
     (if task_sort_time a \<noteq> task_sort_time b then task_sort_time a < task_sort_time b
      else str_less (tsk_title a) (tsk_title b))"

fun list_task_nodes :: "store_env \<Rightarrow> task_query \<Rightarrow> nat \<Rightarrow> node list \<Rightarrow> task list mem_run" where
  "list_task_nodes se q k [] = run_ret []"
| "list_task_nodes se q k (n # ns) =
     run_bind (task_from_node se (tqu_include_links q) n) (\<lambda>t.
     if \<not> task_matches t q then list_task_nodes se q k ns
     else if k \<le> 1 then run_ret [t]
     else run_bind (list_task_nodes se q (k - 1) ns) (\<lambda>ts. run_ret (t # ts)))"

definition list_tasks :: "store_env \<Rightarrow> task_query \<Rightarrow> task list mem_run" where
  "list_tasks se q0 =
     run_bind (lift_domain (normalize_task_query q0)) (\<lambda>q.
     run_bind (find_nodes se \<lparr>sq_text = tqu_search q, sq_kinds = [''task''], sq_allowed = [], sq_limit = 100\<rparr>)
       (\<lambda>nodes.
     run_bind (list_task_nodes se q (nat (tqu_limit q)) nodes) (\<lambda>ts.
     run_ret (sort_slice task_before ts))))"

section \<open>Links to memories\<close>

definition link_task_memory :: "store_env \<Rightarrow> link_task_memory_request \<Rightarrow> memory_link mem_run" where
  "link_task_memory se req0 =
     run_bind (lift_domain (normalize_link_task_memory_request req0)) (\<lambda>req.
     run_bind (look (\<lambda>g. get_node g (ltm_task req))) (\<lambda>n.
     if nd_kind n \<noteq> ''task'' then run_err (Graph NoRows)
     else
       let l = ltm_link req;
           target = or_default (mlr_memory l) (mlr_evidence l);
           source = or_default (mlr_evidence l) target
       in run_bind (on_graph (upsert_edge (se_graph se)
            (edge_request (nd_id n) (task_memory_relation (mlr_relationship l)) target source (nd_actor n)))) (\<lambda>e.
          run_bind (if mlr_note l = [] then run_ret ()
                    else do_graph (upsert_edge_property (se_graph se)
                           (task_text_property (ed_id e) ''note'' (mlr_note l) (nd_actor n)))) (\<lambda>_.
          look (\<lambda>g. memory_link_from_edge g e)))))"

section \<open>Creating tasks\<close>

definition opt_list :: "bool \<Rightarrow> 'a \<Rightarrow> 'a list" where
  "opt_list c x = (if c then [x] else [])"

definition task_facts :: "create_task_request \<Rightarrow> node_id \<Rightarrow> upsert_property_request list" where
  "task_facts req nid =
     (let a = ctr_actor req
      in [task_text_property nid ''description'' (ctr_description req) a,
          task_text_property nid ''status'' (ctr_status req) a,
          task_text_property nid ''priority'' (ctr_priority req) a,
          task_number_property nid ''estimate_minutes'' (float_int (ctr_estimate req)) a,
          task_number_property nid ''urgency'' (ctr_urgency req) a] @
         opt_list (ctr_key req \<noteq> []) (task_text_property nid ''idempotency_key'' (ctr_key req) a) @
         opt_list (ctr_due req \<noteq> None) (task_time_property nid ''due_at'' (ctr_due req) a) @
         opt_list (ctr_scheduled req \<noteq> None) (task_time_property nid ''scheduled_at'' (ctr_scheduled req) a) @
         opt_list (ctr_follow_up req \<noteq> None) (task_time_property nid ''follow_up_at'' (ctr_follow_up req) a))"

definition write_task_properties :: "store_env \<Rightarrow> node_id \<Rightarrow> create_task_request \<Rightarrow> gotime \<Rightarrow> unit mem_run" where
  "write_task_properties se nid req created =
     run_bind (run_lift (if breakdown_has_content (ctr_breakdown req)
                         then res_map (\<lambda>p. [p]) (work_breakdown_property se nid (ctr_breakdown req) (ctr_actor req))
                         else Inr [])) (\<lambda>wbs.
     each (\<lambda>p. if empty_task_property p then run_ret () else do_graph (upsert_node_property (se_graph se) p))
       (task_facts req nid @ wbs @
        opt_list (ctr_status req = ''done'') (task_time_property nid ''completed_at'' (Some created) (ctr_actor req)) @
        opt_list (ctr_status req = ''canceled'') (task_time_property nid ''canceled_at'' (Some created) (ctr_actor req))))"

definition upsert_facet_node :: "store_env \<Rightarrow> node_kind \<Rightarrow> string \<Rightarrow> string \<Rightarrow> string \<Rightarrow> node mem_run" where
  "upsert_facet_node se kind key title actor =
     on_graph (upsert_node (se_graph se) (node_request kind key (trim_space title) actor))"

definition write_task_facet_edge ::
    "store_env \<Rightarrow> node_id \<Rightarrow> node_kind \<Rightarrow> string \<Rightarrow> string \<Rightarrow> relation_type \<Rightarrow> string \<Rightarrow> unit mem_run" where
  "write_task_facet_edge se tid kind key title rel actor =
     run_bind (upsert_facet_node se kind key title actor) (\<lambda>n.
     do_graph (upsert_edge (se_graph se) (edge_request tid rel (nd_id n) [] actor)))"

definition write_task_facet_edges :: "store_env \<Rightarrow> node_id \<Rightarrow> create_task_request \<Rightarrow> unit mem_run" where
  "write_task_facet_edges se tid req =
     run_bind (each (\<lambda>v. write_task_facet_edge se tid ''topic'' (''topic:'' @ v) v ''tagged_with'' (ctr_actor req))
                 (ctr_topics req)) (\<lambda>_.
     each (\<lambda>(kind, title, rel).
             if trim_space title = [] then run_ret ()
             else write_task_facet_edge se tid kind (kind @ '':'' @ to_lower title) title rel (ctr_actor req))
       [(''project'', ctr_project req, ''part_of''), (''person'', ctr_person req, ''assigned_to''),
        (''location'', ctr_location req, ''located_at'')])"

definition task_request :: "create_task_request \<Rightarrow> upsert_node_request" where
  "task_request req =
     (node_request ''task'' (task_stable_key (ctr_key req)) (ctr_title req) (ctr_actor req))
       \<lparr>un_summary := ctr_description req, un_trust := ''user_asserted''\<rparr>"

definition create_new_task :: "store_env \<Rightarrow> create_task_request \<Rightarrow> task mem_run" where
  "create_new_task se req =
     run_bind (on_graph (upsert_node (se_graph se) (task_request req))) (\<lambda>n.
     run_bind (write_task_properties se (nd_id n) req (nd_created n)) (\<lambda>_.
     run_bind (write_task_facet_edges se (nd_id n) req) (\<lambda>_.
     run_bind (each (\<lambda>l. run_bind (link_task_memory se
                  \<lparr>ltm_task = nd_id n, ltm_domain = ctr_domain req, ltm_firewall = [], ltm_link = l\<rparr>) (\<lambda>_. run_ret ()))
                 (ctr_links req)) (\<lambda>_.
     run_bind (reindex_node (nd_id n)) (\<lambda>_.
     run_bind (do_graph (append_audit (se_graph se)
       (audit_of ''create_task'' (ctr_actor req) (nd_id n) [] ''created graph-backed task''))) (\<lambda>_.
     task_from_node se True n))))))"

definition create_task :: "store_env \<Rightarrow> create_task_request \<Rightarrow> task mem_run" where
  "create_task se req0 =
     run_bind (memory_now se) (\<lambda>now.
     run_bind (lift_domain (normalize_create_task_request now req0)) (\<lambda>req s.
     if ctr_key req = [] then create_new_task se req s
     else (case get_node_by_stable_key (md_graph s) ''task'' (task_stable_key (ctr_key req)) of
             Inr n \<Rightarrow> task_from_node se True n s
           | Inl NoRows \<Rightarrow> create_new_task se req s
           | Inl e \<Rightarrow> (Inl (Graph e), s))))"

section \<open>Updating tasks\<close>

definition upsert_task_property :: "store_env \<Rightarrow> upsert_property_request \<Rightarrow> unit mem_run" where
  "upsert_task_property se p = do_graph (upsert_node_property (se_graph se) p)"

definition write_status_patch :: "store_env \<Rightarrow> node_id \<Rightarrow> string \<Rightarrow> string \<Rightarrow> unit mem_run" where
  "write_status_patch se nid status actor =
     run_bind (upsert_task_property se (task_text_property nid ''status'' status actor)) (\<lambda>_.
     run_bind (memory_now se) (\<lambda>now.
     let stamp = (\<lambda>key v. upsert_task_property se (task_time_property nid key v actor))
     in if status = ''done''
        then run_bind (stamp ''completed_at'' (Some now)) (\<lambda>_. stamp ''canceled_at'' None)
        else if status = ''canceled''
        then run_bind (stamp ''canceled_at'' (Some now)) (\<lambda>_. stamp ''completed_at'' None)
        else run_bind (stamp ''completed_at'' None) (\<lambda>_. stamp ''canceled_at'' None)))"

definition when_some :: "('a \<Rightarrow> unit mem_run) \<Rightarrow> 'a option \<Rightarrow> unit mem_run" where
  "when_some f v = (case v of None \<Rightarrow> run_ret () | Some x \<Rightarrow> f x)"

definition write_task_patch_properties :: "store_env \<Rightarrow> node_id \<Rightarrow> update_task_request \<Rightarrow> unit mem_run" where
  "write_task_patch_properties se nid req =
     (let a = utr_actor req;
          put = upsert_task_property se;
          time_patch = (\<lambda>key v clear. if v \<noteq> None \<or> clear then put (task_time_property nid key v a) else run_ret ())
      in each (\<lambda>m. m)
           [when_some (\<lambda>v. put (task_text_property nid ''description'' v a)) (utr_description req),
            when_some (\<lambda>v. write_status_patch se nid v a) (utr_status req),
            when_some (\<lambda>v. put (task_text_property nid ''priority'' v a)) (utr_priority req),
            time_patch ''due_at'' (utr_due req) (utr_clear_due req),
            time_patch ''scheduled_at'' (utr_scheduled req) (utr_clear_scheduled req),
            time_patch ''follow_up_at'' (utr_follow_up req) (utr_clear_follow_up req),
            when_some (\<lambda>v. put (task_number_property nid ''estimate_minutes'' (float_int v) a)) (utr_estimate req),
            when_some (\<lambda>v. put (task_number_property nid ''urgency'' v a)) (utr_urgency req),
            when_some (\<lambda>w. run_bind (run_lift (work_breakdown_property se nid w a)) put) (utr_breakdown req)])"

definition replace_task_facet_edges ::
    "store_env \<Rightarrow> node_id \<Rightarrow> relation_type \<Rightarrow> node_kind \<Rightarrow> string \<Rightarrow> unit mem_run" where
  "replace_task_facet_edges se tid rel kind actor =
     run_bind (look (\<lambda>g. list_outgoing_edges g tid [rel])) (\<lambda>edges.
     each (\<lambda>e. run_bind (look (\<lambda>g. get_node g (ed_to e))) (\<lambda>target.
               if nd_kind target \<noteq> kind then run_ret ()
               else do_graph (set_edge_status (se_graph se) (ed_id e) ''archived'' actor))) edges)"

definition write_task_patch_facets :: "store_env \<Rightarrow> node_id \<Rightarrow> update_task_request \<Rightarrow> unit mem_run" where
  "write_task_patch_facets se tid req =
     run_bind (when_some (\<lambda>topics.
         run_bind (replace_task_facet_edges se tid ''tagged_with'' ''topic'' (utr_actor req)) (\<lambda>_.
         each (\<lambda>v. write_task_facet_edge se tid ''topic'' (''topic:'' @ v) v ''tagged_with'' (utr_actor req)) topics))
       (utr_topics req)) (\<lambda>_.
     each (\<lambda>(kind, title, rel). when_some (\<lambda>v.
             run_bind (replace_task_facet_edges se tid rel kind (utr_actor req)) (\<lambda>_.
             if trim_space v = [] then run_ret ()
             else write_task_facet_edge se tid kind (kind @ '':'' @ to_lower (trim_space v)) v rel (utr_actor req))) title)
       [(''project'', utr_project req, ''part_of''), (''person'', utr_person req, ''assigned_to''),
        (''location'', utr_location req, ''located_at'')])"

definition retitled_node :: "node \<Rightarrow> update_task_request \<Rightarrow> upsert_node_request" where
  "retitled_node n req =
     \<lparr>un_id = nd_id n, un_kind = nd_kind n, un_stable_key = nd_stable_key n,
      un_title = (case utr_title req of None \<Rightarrow> nd_title n | Some v \<Rightarrow> v),
      un_summary = (case utr_description req of None \<Rightarrow> nd_summary n | Some v \<Rightarrow> v),
      un_status = nd_status n, un_sensitivity = nd_sensitivity n, un_trust = nd_trust n,
      un_confidence = nd_confidence n, un_source = nd_source n, un_actor = utr_actor req\<rparr>"

definition update_task :: "store_env \<Rightarrow> update_task_request \<Rightarrow> task mem_run" where
  "update_task se req0 =
     run_bind (lift_domain (normalize_update_task_request req0)) (\<lambda>req.
     run_bind (look (\<lambda>g. task_node g (utr_task req))) (\<lambda>n0.
     let r = retitled_node n0 req in
     run_bind (if un_title r \<noteq> nd_title n0 \<or> un_summary r \<noteq> nd_summary n0
               then on_graph (upsert_node (se_graph se) r) else run_ret n0) (\<lambda>n.
     run_bind (write_task_patch_properties se (nd_id n) req) (\<lambda>_.
     run_bind (write_task_patch_facets se (nd_id n) req) (\<lambda>_.
     run_bind (reindex_node (nd_id n)) (\<lambda>_.
     run_bind (do_graph (append_audit (se_graph se)
       (audit_of ''update_task'' (utr_actor req) (nd_id n) [] ''updated graph-backed task''))) (\<lambda>_.
     get_task se \<lparr>tir_task = utr_task req, tir_actor = utr_actor req, tir_domain = utr_domain req,
                  tir_firewall = []\<rparr>)))))))"

definition status_update :: "task_id_request \<Rightarrow> string \<Rightarrow> update_task_request" where
  "status_update req status =
     \<lparr>utr_task = tir_task req, utr_actor = tir_actor req, utr_domain = tir_domain req, utr_firewall = [],
      utr_title = None, utr_description = None, utr_status = Some status, utr_priority = None,
      utr_due = None, utr_clear_due = False, utr_scheduled = None, utr_clear_scheduled = False,
      utr_follow_up = None, utr_clear_follow_up = False, utr_topics = None, utr_estimate = None,
      utr_urgency = None, utr_project = None, utr_location = None, utr_person = None,
      utr_breakdown = None\<rparr>"

definition complete_task :: "store_env \<Rightarrow> task_id_request \<Rightarrow> task mem_run" where
  "complete_task se req0 =
     run_bind (lift_domain (normalize_task_id_request req0)) (\<lambda>req. update_task se (status_update req ''done''))"

definition cancel_task :: "store_env \<Rightarrow> task_id_request \<Rightarrow> task mem_run" where
  "cancel_task se req0 =
     run_bind (lift_domain (normalize_task_id_request req0)) (\<lambda>req. update_task se (status_update req ''canceled''))"

definition delete_task :: "store_env \<Rightarrow> task_id_request \<Rightarrow> unit mem_run" where
  "delete_task se req0 =
     run_bind (lift_domain (normalize_task_id_request req0)) (\<lambda>req.
     run_bind (look (\<lambda>g. task_node g (tir_task req))) (\<lambda>n.
     run_bind (do_graph (set_node_status (se_graph se) (nd_id n) ''deleted'' (tir_actor req))) (\<lambda>_.
     do_graph (append_audit (se_graph se)
       (audit_of ''delete_task'' (tir_actor req) (nd_id n) [] ''deleted graph-backed task'')))))"

end
