(* ===== verification/Task_Relations.thy ===== *)
theory Task_Relations imports Task_Repository begin

text \<open>
  Relations between tasks and the snapshot of the task graph: the second half of tasks.go and
  task_projection.go in memory/internal/memory/graph/repository, with the types of
  domain/task_projection_types.go. The recursion of a traversal goes down with the depth it may still
  reach.
\<close>

section \<open>Relations\<close>

definition relation_note :: "property list \<Rightarrow> string" where
  "relation_note ps =
     (let notes = filter (\<lambda>p. pr_key p = ''note'' \<and> gv_type (pr_value p) = ''text'') ps
      in if notes = [] then [] else gv_text (pr_value (List.last notes)))"

definition relation_lag :: "property list \<Rightarrow> int" where
  "relation_lag ps =
     (let lags = filter (\<lambda>p. pr_key p = ''lag_minutes'' \<and> gv_type (pr_value p) = ''number'') ps
      in if lags = [] then 0 else go_int (gv_number (pr_value (List.last lags))))"

text \<open>None for an edge that does not join two tasks that are there.\<close>

definition task_relation_from_edge :: "graph_db \<Rightarrow> edge \<Rightarrow> gerr + task_relation option" where
  "task_relation_from_edge g e =
     res_bind (get_node g (ed_from e)) (\<lambda>from.
     res_bind (get_node g (ed_to e)) (\<lambda>to.
     if nd_kind from \<noteq> ''task'' \<or> nd_kind to \<noteq> ''task'' \<or> nd_status from = ''deleted'' \<or> nd_status to = ''deleted''
     then Inr None
     else res_bind (list_edge_properties g (ed_id e)) (\<lambda>ps.
          Inr (Some \<lparr>tre_id = ed_id e, tre_domain = [], tre_firewall = [], tre_from = nd_id from,
                 tre_from_title = nd_title from, tre_type = task_relation_type (ed_type e),
                 tre_to = nd_id to, tre_to_title = nd_title to, tre_note = relation_note ps,
                 tre_lag = relation_lag ps, tre_confidence = ed_confidence e, tre_actor = ed_actor e,
                 tre_created = ed_created e, tre_updated = ed_updated e\<rparr>))))"

definition task_relation_edges ::
    "graph_db \<Rightarrow> node_id \<Rightarrow> relation_type list \<Rightarrow> string \<Rightarrow> gerr + edge list" where
  "task_relation_edges g tid types dir =
     res_bind (if dir = ''outgoing'' \<or> dir = ''either'' then list_outgoing_edges g tid types else Inr []) (\<lambda>outs.
     res_bind (if dir = ''incoming'' \<or> dir = ''either'' then list_incoming_edges g tid types else Inr []) (\<lambda>ins.
     Inr (outs @ ins)))"

fun collect_relations :: "graph_db \<Rightarrow> nat \<Rightarrow> string set \<Rightarrow> edge list \<Rightarrow> gerr + task_relation list" where
  "collect_relations g k seen [] = Inr []"
| "collect_relations g k seen (e # es) =
     (if ed_id e \<in> seen then collect_relations g k seen es
      else res_bind (task_relation_from_edge g e) (\<lambda>r.
           case r of
             None \<Rightarrow> collect_relations g k (insert (ed_id e) seen) es
           | Some rel \<Rightarrow>
               if k \<le> 1 then Inr [rel]
               else res_map (\<lambda>rs. rel # rs) (collect_relations g (k - 1) (insert (ed_id e) seen) es)))"

definition list_task_relations :: "graph_db \<Rightarrow> task_relation_query \<Rightarrow> merr + task_relation list" where
  "list_task_relations g q0 =
     res_bind (res_err Invalid (normalize_task_relation_query q0)) (\<lambda>q.
     res_err Graph
       (let types = task_relation_graph_types (trq_types q)
        in res_bind
             (if trq_task q = [] then list_edges g types (trq_limit q * 4)
              else res_bind (task_node g (trq_task q)) (\<lambda>_.
                   task_relation_edges g (trq_task q) types (trq_direction q))) (\<lambda>edges.
           collect_relations g (nat (trq_limit q)) {} edges)))"

definition upsert_task_relation :: "store_env \<Rightarrow> upsert_task_relation_request \<Rightarrow> task_relation mem_run" where
  "upsert_task_relation se req0 =
     run_bind (lift_domain (normalize_upsert_task_relation_request req0)) (\<lambda>req.
     run_bind (look (\<lambda>g. task_node g (utq_from req))) (\<lambda>from.
     run_bind (look (\<lambda>g. task_node g (utq_to req))) (\<lambda>to.
     run_bind (on_graph (upsert_edge (se_graph se)
       ((edge_request (nd_id from) (task_relation_graph_type (utq_type req)) (nd_id to) [] (utq_actor req))
          \<lparr>ue_confidence := utq_confidence req\<rparr>))) (\<lambda>e.
     run_bind (do_graph (upsert_edge_property (se_graph se)
       (task_text_property (ed_id e) ''note'' (utq_note req) (utq_actor req)))) (\<lambda>_.
     run_bind (do_graph (upsert_edge_property (se_graph se)
       (task_number_property (ed_id e) ''lag_minutes'' (float_int (utq_lag req)) (utq_actor req)))) (\<lambda>_.
     run_bind (do_graph (append_audit (se_graph se)
       ((audit_of ''upsert_task_relation'' (utq_actor req) [] [] ''upserted graph-backed task relation'')
          \<lparr>aa_edge := ed_id e\<rparr>))) (\<lambda>_.
     look (\<lambda>g. res_bind (task_relation_from_edge g e) (\<lambda>r.
            case r of None \<Rightarrow> Inl NoRows | Some rel \<Rightarrow> Inr rel)))))))))"

definition delete_task_relation :: "store_env \<Rightarrow> delete_task_relation_request \<Rightarrow> unit mem_run" where
  "delete_task_relation se req0 =
     run_bind (lift_domain (normalize_delete_task_relation_request req0)) (\<lambda>req.
     run_bind (look (\<lambda>g. get_edge g (dtr_relation req))) (\<lambda>e.
     run_bind (look (\<lambda>g. res_bind (task_relation_from_edge g e) (\<lambda>r. if r = None then Inl NoRows else Inr ()))) (\<lambda>_.
     run_bind (do_graph (set_edge_status (se_graph se) (ed_id e) ''deleted'' (dtr_actor req))) (\<lambda>_.
     do_graph (append_audit (se_graph se)
       ((audit_of ''delete_task_relation'' (dtr_actor req) [] [] ''deleted graph-backed task relation'')
          \<lparr>aa_edge := ed_id e\<rparr>))))))"

section \<open>Traversal\<close>

record relation_path_state =
  rps_tasks :: "string list"
  rps_relations :: "task_relation list"
  rps_seen :: "string set"

definition next_traversal_task :: "task_relation \<Rightarrow> string \<Rightarrow> string \<Rightarrow> string option" where
  "next_traversal_task r here dir =
     (if dir = ''incoming'' then (if tre_to r = here then Some (tre_from r) else None)
      else if dir = ''either'' then
        (if tre_from r = here then Some (tre_to r)
         else if tre_to r = here then Some (tre_from r) else None)
      else if tre_from r = here then Some (tre_to r) else None)"

definition traversal_before :: "string \<Rightarrow> string \<Rightarrow> task_relation \<Rightarrow> task_relation \<Rightarrow> bool" where
  "traversal_before here dir a b \<longleftrightarrow>
     (let na = (case next_traversal_task a here dir of Some x \<Rightarrow> x | None \<Rightarrow> []);
          nb = (case next_traversal_task b here dir of Some x \<Rightarrow> x | None \<Rightarrow> [])
      in if na \<noteq> nb then str_less na nb
         else if tre_type a \<noteq> tre_type b then str_less (tre_type a) (tre_type b)
         else str_less (tre_id a) (tre_id b))"

definition sort_traversal_relations :: "task_relation list \<Rightarrow> string \<Rightarrow> string \<Rightarrow> task_relation list" where
  "sort_traversal_relations rs here dir = sort_slice (traversal_before here dir) rs"

definition extend_path :: "relation_path_state \<Rightarrow> task_relation \<Rightarrow> string \<Rightarrow> relation_path_state" where
  "extend_path st r tid = st\<lparr>rps_tasks := rps_tasks st @ [tid], rps_relations := rps_relations st @ [r]\<rparr>"

fun get_tasks :: "store_env \<Rightarrow> bool \<Rightarrow> string list \<Rightarrow> task list mem_run" where
  "get_tasks se links [] = run_ret []"
| "get_tasks se links (tid # tids) =
     run_bind (get_task se \<lparr>tir_task = tid, tir_actor = [], tir_domain = [], tir_firewall = []\<rparr>) (\<lambda>t.
     run_bind (get_tasks se links tids) (\<lambda>ts.
     run_ret ((if links then t else t\<lparr>tsk_links := []\<rparr>) # ts)))"

definition append_path ::
    "store_env \<Rightarrow> task_relation_traversal_query \<Rightarrow> relation_path_state \<Rightarrow> bool \<Rightarrow> task_relation_path list \<Rightarrow>
     task_relation_path list mem_run" where
  "append_path se q st cycle paths =
     run_bind (if ttq_include_tasks q then get_tasks se (ttq_include_links q) (rps_tasks st) else run_ret []) (\<lambda>ts.
     run_ret (paths @ [\<lparr>trp_root = ttq_root q, trp_tasks = rps_tasks st,
                        trp_relation_ids = map tre_id (rps_relations st), trp_task_data = ts,
                        trp_relations = rps_relations st, trp_depth = length (rps_relations st),
                        trp_cycle = cycle\<rparr>]))"

text \<open>The loop over the relations of a task, which ends when enough paths are found.\<close>

fun each_relation ::
    "nat \<Rightarrow> (task_relation \<Rightarrow> task_relation_path list \<Rightarrow> task_relation_path list mem_run) \<Rightarrow> task_relation list \<Rightarrow>
     task_relation_path list \<Rightarrow> task_relation_path list mem_run" where
  "each_relation limit f [] paths = run_ret paths"
| "each_relation limit f (r # rs) paths =
     (if length paths \<ge> limit then run_ret paths
      else run_bind (f r paths) (each_relation limit f rs))"

definition adjacent_query :: "task_relation_traversal_query \<Rightarrow> string \<Rightarrow> task_relation_query" where
  "adjacent_query q here =
     \<lparr>trq_domain = [], trq_firewall = [], trq_task = here, trq_types = ttq_types q,
      trq_direction = ttq_direction q, trq_limit = ttq_limit q\<rparr>"

text \<open>The first argument is the number of relations that may still be added to the path.\<close>

primrec walk_relations ::
    "nat \<Rightarrow> store_env \<Rightarrow> task_relation_traversal_query \<Rightarrow> string \<Rightarrow> relation_path_state \<Rightarrow>
     task_relation_path list \<Rightarrow> task_relation_path list mem_run" where
  "walk_relations 0 se q here st paths =
     (if length paths \<ge> nat (ttq_limit q) then run_ret paths else append_path se q st False paths)"
| "walk_relations (Suc d) se q here st paths =
     (if length paths \<ge> nat (ttq_limit q) then run_ret paths
      else run_bind (run_read (\<lambda>s. list_task_relations (md_graph s) (adjacent_query q here))) (\<lambda>rs.
           let rs = sort_traversal_relations rs here (ttq_direction q) in
           if rs = [] then (if rps_relations st = [] then run_ret paths else append_path se q st False paths)
           else each_relation (nat (ttq_limit q)) (\<lambda>r paths.
                  case next_traversal_task r here (ttq_direction q) of
                    None \<Rightarrow> run_ret paths
                  | Some tid \<Rightarrow>
                      (let st' = extend_path st r tid
                       in if tid \<in> rps_seen st then append_path se q st' True paths
                          else walk_relations d se q tid (st'\<lparr>rps_seen := insert tid (rps_seen st)\<rparr>) paths))
                  rs paths))"

definition traverse_task_relations ::
    "store_env \<Rightarrow> task_relation_traversal_query \<Rightarrow> task_relation_traversal mem_run" where
  "traverse_task_relations se q0 =
     run_bind (lift_domain (normalize_task_relation_traversal_query q0)) (\<lambda>q.
     run_bind (look (\<lambda>g. task_node g (ttq_root q))) (\<lambda>_.
     run_bind (walk_relations (nat (ttq_max_depth q)) se q (ttq_root q)
       \<lparr>rps_tasks = [ttq_root q], rps_relations = [], rps_seen = {ttq_root q}\<rparr> []) (\<lambda>paths.
     run_ret \<lparr>trv_root = ttq_root q, trv_types = normalized_task_relation_types (ttq_types q),
              trv_direction = ttq_direction q, trv_max_depth = ttq_max_depth q, trv_paths = paths\<rparr>)))"

section \<open>The snapshot of the task graph\<close>

record projection_node =
  prn_id :: string
  prn_kind :: string
  prn_label :: string
  prn_task_id :: string
  prn_task :: "task option"
  prn_properties :: "(string \<times> string) list"

record projection_edge =
  pre_id :: string
  pre_from :: string
  pre_to :: string
  pre_type :: string
  pre_semantics :: string
  pre_relation_id :: string
  pre_relation :: "task_relation option"
  pre_confidence :: f64

record task_graph =
  tgr_generated :: gotime
  tgr_tasks :: "task list"
  tgr_relations :: "task_relation list"
  tgr_nodes :: "projection_node list"
  tgr_edges :: "projection_edge list"
  tgr_facets :: "projection_node list"
  tgr_coverage :: f64

definition relation_before :: "task_relation \<Rightarrow> task_relation \<Rightarrow> bool" where
  "relation_before a b \<longleftrightarrow>
     (if tre_from a \<noteq> tre_from b then str_less (tre_from a) (tre_from b)
      else if tre_to a \<noteq> tre_to b then str_less (tre_to a) (tre_to b)
      else if tre_type a \<noteq> tre_type b then str_less (tre_type a) (tre_type b)
      else str_less (tre_id a) (tre_id b))"

definition projected_task_relations ::
    "graph_db \<Rightarrow> task list \<Rightarrow> string list \<Rightarrow> merr + task_relation list" where
  "projected_task_relations g tasks types =
     res_bind (list_task_relations g \<lparr>trq_domain = [], trq_firewall = [], trq_task = [], trq_types = types,
                 trq_direction = ''either'', trq_limit = 500\<rparr>) (\<lambda>rs.
     let ids = set (map tsk_id tasks)
     in Inr (sort_slice relation_before (filter (\<lambda>r. tre_from r \<in> ids \<and> tre_to r \<in> ids) rs)))"

text \<open>The verb \<open>%.3g\<close>: three significant digits without trailing zeros.\<close>

fun strip_zeros :: "nat \<Rightarrow> nat" where
  "strip_zeros m = (if m = 0 \<or> m mod 10 \<noteq> 0 then m else strip_zeros (m div 10))"

declare strip_zeros.simps [simp del]

definition format_3g :: "f64 \<Rightarrow> string" where
  "format_3g f =
     (case f of
        Fin q \<Rightarrow>
          if q = 0 then ''0''
          else let a = \<bar>q\<bar>; k0 = exponent_of 10 a; m0 = nat (round_even (a / 10 powi (k0 - 2)));
                   k = (if m0 = 1000 then k0 + 1 else k0); m = strip_zeros m0; nd = int (length (nat_str m));
                   prec = (if 3 > nd \<and> nd \<ge> k + 1 then nd else 3);
                   s = (if k < - 4 \<or> k \<ge> prec then scientific m k else fixed_notation m (k + 1 - nd))
               in if q < 0 then CHR ''-'' # s else s
      | _ \<Rightarrow> format_float f)"

definition projected_task_node :: "task \<Rightarrow> projection_node" where
  "projected_task_node t =
     \<lparr>prn_id = tsk_id t, prn_kind = ''task'', prn_label = tsk_title t, prn_task_id = tsk_id t,
      prn_task = Some t,
      prn_properties =
        [(''status'', tsk_status t), (''priority'', tsk_priority t), (''project'', tsk_project t),
         (''person'', tsk_person t), (''risk'', format_3g (tsk_risk t)), (''urgency'', format_3g (tsk_urgency t))]\<rparr>"

definition projected_relation_edge :: "task_relation \<Rightarrow> projection_edge" where
  "projected_relation_edge r =
     \<lparr>pre_id = tre_id r, pre_from = tre_from r, pre_to = tre_to r, pre_type = tre_type r,
      pre_semantics = task_relation_direction_semantics (tre_type r), pre_relation_id = tre_id r,
      pre_relation = Some r, pre_confidence = tre_confidence r\<rparr>"

definition projection_key :: "string \<Rightarrow> string" where
  "projection_key v = join_str (Go_Base.fields (to_lower (trim_space v))) ''-''"

definition projection_facet_id :: "string \<Rightarrow> string \<Rightarrow> string" where
  "projection_facet_id kind v = kind @ '':'' @ projection_key v"

type_synonym facet_graph = "projection_node list \<times> projection_edge list"

definition append_task_facet :: "task \<Rightarrow> string \<Rightarrow> string \<Rightarrow> facet_graph \<Rightarrow> facet_graph" where
  "append_task_facet t kind v0 fg =
     (let v = trim_space v0; fid = projection_facet_id kind v; (facets, edges) = fg
      in if v = [] then fg
         else ((if fid \<in> set (map prn_id facets) then facets
                else facets @ [\<lparr>prn_id = fid, prn_kind = kind, prn_label = v, prn_task_id = [], prn_task = None,
                                prn_properties = [(''source'', ''task_projection'')]\<rparr>]),
               edges @ [\<lparr>pre_id = tsk_id t @ '':'' @ kind @ '':'' @ projection_key v, pre_from = tsk_id t,
                         pre_to = fid, pre_type = ''tagged_with_'' @ kind, pre_semantics = [],
                         pre_relation_id = [], pre_relation = None, pre_confidence = Fin 0\<rparr>]))"

definition append_task_facets :: "task \<Rightarrow> facet_graph \<Rightarrow> facet_graph" where
  "append_task_facets t fg =
     fold (append_task_facet t ''topic'') (tsk_topics t)
       (append_task_facet t ''person'' (tsk_person t) (append_task_facet t ''project'' (tsk_project t) fg))"

definition projection_edge_before :: "projection_edge \<Rightarrow> projection_edge \<Rightarrow> bool" where
  "projection_edge_before a b \<longleftrightarrow>
     (if pre_from a \<noteq> pre_from b then str_less (pre_from a) (pre_from b)
      else if pre_to a \<noteq> pre_to b then str_less (pre_to a) (pre_to b)
      else if pre_type a \<noteq> pre_type b then str_less (pre_type a) (pre_type b)
      else str_less (pre_id a) (pre_id b))"

definition projected_facet_graph :: "task list \<Rightarrow> projection_edge list \<Rightarrow> facet_graph" where
  "projected_facet_graph tasks edges0 =
     (let (facets, edges) = fold append_task_facets tasks ([], edges0)
      in (sort_slice (\<lambda>a b. str_less (prn_id a) (prn_id b)) facets, sort_slice projection_edge_before edges))"

definition projected_relation_coverage :: "task list \<Rightarrow> task_relation list \<Rightarrow> f64" where
  "projected_relation_coverage tasks rs =
     (if tasks = [] then Fin 0
      else Fin (float_of (of_nat (card (set (map tre_from rs @ map tre_to rs))) / of_nat (length tasks))))"

definition task_graph_projection :: "store_env \<Rightarrow> task_graph_query \<Rightarrow> task_graph mem_run" where
  "task_graph_projection se q0 =
     run_bind (lift_domain (normalize_task_graph_query q0)) (\<lambda>q.
     run_bind (list_tasks se (tgq_tasks q)) (\<lambda>tasks.
     run_bind (run_read (\<lambda>s. projected_task_relations (md_graph s) tasks (tgq_types q))) (\<lambda>rs.
     let edges0 = map projected_relation_edge rs;
         (facets, edges) = (if tgq_include_facets q then projected_facet_graph tasks edges0 else ([], edges0))
     in run_bind (memory_now se) (\<lambda>now.
        run_ret \<lparr>tgr_generated = now, tgr_tasks = tasks, tgr_relations = rs,
                 tgr_nodes = map projected_task_node tasks, tgr_edges = edges, tgr_facets = facets,
                 tgr_coverage = projected_relation_coverage tasks rs\<rparr>))))"

end
