(* ===== verification/Memory_Pool.thy ===== *)
theory Memory_Pool imports Task_Relations begin

text \<open>
  One database per memory domain: memory/internal/memory/graph/repository/pool.go. The state has the
  databases on disk, the directories below the root of the pool and the domains whose database is
  open. Opening a database that is not there creates an empty one. Each domain has its own
  parameters (\<open>pe_store\<close>), so that the clocks of two databases are independent sequences.
\<close>

section \<open>State\<close>

record pool =
  po_db :: "domain_id \<rightharpoonup> memory_db"
  po_dirs :: "string list"
  po_open :: "domain_id list"

record pool_env =
  pe_store :: "domain_id \<Rightarrow> store_env"
  pe_root :: string

text \<open>The errors of the service: its own, those of the repository, those of the query executor.\<close>

datatype serr = Refused string | Repo merr | Query query_error

type_synonym 'a pool_run = "(pool, serr, 'a) run"

definition empty_graph :: graph_db where
  "empty_graph = \<lparr>db_nodes = [], db_edges = [], db_node_props = [], db_edge_props = [], db_audit = [], db_tick = 0\<rparr>"

definition empty_memory :: memory_db where
  "empty_memory =
     \<lparr>md_graph = empty_graph, md_aliases = [], md_blobs = [], md_index = [], md_files = Map.empty,
      md_in_unit = False, md_staged = [], md_staged_by = Map.empty, md_removals = []\<rparr>"

definition content :: "pool \<Rightarrow> domain_id \<Rightarrow> memory_db" where
  "content p d = (case po_db p d of None \<Rightarrow> empty_memory | Some m \<Rightarrow> m)"

definition pool_domain :: "string + 'a \<Rightarrow> 'a pool_run" where
  "pool_domain r = run_lift (res_err (\<lambda>e. Repo (Invalid e)) r)"

section \<open>Routing\<close>

definition repo_for_domain :: "domain_id \<Rightarrow> domain_id pool_run" where
  "repo_for_domain d p =
     (case normalize_domain_id d [] of
        Inl e \<Rightarrow> (Inl (Repo (Invalid e)), p)
      | Inr n \<Rightarrow>
          if n \<in> set (po_open p) then (Inr n, p)
          else (Inr n, p\<lparr>po_open := po_open p @ [n],
                         po_dirs := (if n \<in> set (po_dirs p) then po_dirs p else po_dirs p @ [n]),
                         po_db := (po_db p)(n \<mapsto> content p n)\<rparr>))"

text \<open>Run an operation on the database of a domain that is open.\<close>

definition on_repo :: "pool_env \<Rightarrow> domain_id \<Rightarrow> (store_env \<Rightarrow> 'a mem_run) \<Rightarrow> 'a pool_run" where
  "on_repo pe n m p =
     (case m (pe_store pe n) (content p n) of
        (r, db) \<Rightarrow> (res_err Repo r, p\<lparr>po_db := (po_db p)(n \<mapsto> db)\<rparr>))"

definition with_repo :: "pool_env \<Rightarrow> domain_id \<Rightarrow> (store_env \<Rightarrow> 'a mem_run) \<Rightarrow> 'a pool_run" where
  "with_repo pe d m = run_bind (repo_for_domain d) (\<lambda>n. on_repo pe n m)"

definition known_domain_ids :: "pool \<Rightarrow> domain_id list" where
  "known_domain_ids p = sort_strings (remdups (''user'' # po_open p @ filter valid_firewall (po_dirs p)))"

definition explicit_domain_id :: "domain_id \<Rightarrow> firewall \<Rightarrow> domain_id" where
  "explicit_domain_id d legacy = (if trim_space d \<noteq> [] then trim_space d else trim_space legacy)"

definition annotate_record :: "domain_id \<Rightarrow> memory_record \<Rightarrow> memory_record" where
  "annotate_record d r = r\<lparr>mem_domain := d, mem_firewall := d\<rparr>"

definition annotate_page :: "domain_id \<Rightarrow> compiled_page \<Rightarrow> compiled_page" where
  "annotate_page d r = r\<lparr>pag_domain := d, pag_firewall := d\<rparr>"

definition annotate_task :: "domain_id \<Rightarrow> task \<Rightarrow> task" where
  "annotate_task d t = t\<lparr>tsk_domain := d, tsk_firewall := d\<rparr>"

definition annotate_relation :: "domain_id \<Rightarrow> task_relation \<Rightarrow> task_relation" where
  "annotate_relation d r = r\<lparr>tre_domain := d, tre_firewall := d\<rparr>"

definition annotate_graph :: "domain_id \<Rightarrow> task_graph \<Rightarrow> task_graph" where
  "annotate_graph d g =
     g\<lparr>tgr_tasks := map (annotate_task d) (tgr_tasks g),
       tgr_relations := map (annotate_relation d) (tgr_relations g),
       tgr_nodes := map (\<lambda>n. n\<lparr>prn_task := map_option (annotate_task d) (prn_task n)\<rparr>) (tgr_nodes g),
       tgr_edges := map (\<lambda>e. e\<lparr>pre_relation := map_option (annotate_relation d) (pre_relation e)\<rparr>) (tgr_edges g)\<rparr>"

definition giving :: "('a \<Rightarrow> 'b) \<Rightarrow> 'a pool_run \<Rightarrow> 'b pool_run" where
  "giving f m = run_bind m (\<lambda>x. run_ret (f x))"

section \<open>Memories\<close>

definition pool_capture :: "pool_env \<Rightarrow> capture_request \<Rightarrow> capture_result pool_run" where
  "pool_capture pe req0 =
     run_bind (pool_domain (normalize_capture_request req0)) (\<lambda>req.
     with_repo pe (cap_domain req) (\<lambda>se. capture se req))"

text \<open>\<open>Search\<close>: the loop over the domains with the identifiers already seen and the records found.\<close>

fun take_new :: "domain_id \<Rightarrow> nat \<Rightarrow> memory_record list \<Rightarrow> memory_record list \<Rightarrow> memory_record list" where
  "take_new d limit acc [] = acc"
| "take_new d limit acc (r # rs) =
     (if mem_id r \<in> set (map mem_id acc) then take_new d limit acc rs
      else let acc = acc @ [annotate_record d r]
           in if length acc \<ge> limit then acc else take_new d limit acc rs)"

fun search_domains ::
    "pool_env \<Rightarrow> retrieval_query \<Rightarrow> domain_id list \<Rightarrow> memory_record list \<Rightarrow> memory_record list pool_run" where
  "search_domains pe q [] acc = run_ret acc"
| "search_domains pe q (d # ds) acc =
     run_bind (with_repo pe d (\<lambda>se. run_read (\<lambda>s.
        search se s (q\<lparr>ret_domain := d, ret_firewall := d, ret_include_global := False\<rparr>)))) (\<lambda>found.
     let limit = nat (ret_limit q); acc' = take_new d limit acc found
     in if length acc' \<ge> limit then run_ret acc' else search_domains pe q ds acc')"

definition search_scope :: "retrieval_query \<Rightarrow> domain_id list" where
  "search_scope q =
     ret_domain q # (if ret_include_global q \<and> ret_domain q \<noteq> ''global'' then [''global''] else [])"

definition pool_search :: "pool_env \<Rightarrow> retrieval_query \<Rightarrow> memory_record list pool_run" where
  "pool_search pe q0 =
     run_bind (pool_domain (normalize_retrieval_query q0)) (\<lambda>q. search_domains pe q (search_scope q) [])"

text \<open>The first domain whose database has what is looked for.\<close>

fun first_domain :: "pool_env \<Rightarrow> (memory_db \<Rightarrow> merr + 'a) \<Rightarrow> domain_id list \<Rightarrow> (domain_id \<times> 'a) pool_run" where
  "first_domain pe f [] = run_err (Repo (Graph NoRows))"
| "first_domain pe f (d # ds) =
     run_bind (with_repo pe d (\<lambda>se. run_read (\<lambda>s. Inr (f s)))) (\<lambda>r.
     case r of
       Inr x \<Rightarrow> run_ret (d, x)
     | Inl e \<Rightarrow> if e = Graph NoRows then first_domain pe f ds else run_err (Repo e))"

definition pool_get_memory :: "pool_env \<Rightarrow> string \<Rightarrow> memory_record pool_run" where
  "pool_get_memory pe mid p =
     (if mid = [] then (Inl (Repo (Graph NoRows)), p)
      else giving (\<lambda>(d, r). annotate_record d r) (first_domain pe (\<lambda>s. get_memory s mid) (known_domain_ids p)) p)"

definition pool_evidence_content :: "pool_env \<Rightarrow> string \<Rightarrow> string pool_run" where
  "pool_evidence_content pe ev p =
     (if ev = [] then (Inl (Repo (Graph NoRows)), p)
      else giving snd (first_domain pe (\<lambda>s. get_evidence_content s ev) (known_domain_ids p)) p)"

definition pool_repair :: "pool_env \<Rightarrow> repair_request \<Rightarrow> memory_record pool_run" where
  "pool_repair pe req0 =
     run_bind (if explicit_domain_id (rep_domain req0) (rep_firewall req0) = []
               then giving (\<lambda>r. req0\<lparr>rep_domain := mem_domain r, rep_firewall := mem_domain r\<rparr>)
                      (pool_get_memory pe (rep_memory req0))
               else run_ret req0) (\<lambda>req1.
     run_bind (pool_domain (normalize_repair_request req1)) (\<lambda>req.
     giving (annotate_record (rep_domain req)) (with_repo pe (rep_domain req) (\<lambda>se. repair_memory se req))))"

definition pool_correction :: "pool_env \<Rightarrow> correction_request \<Rightarrow> capture_result pool_run" where
  "pool_correction pe req0 =
     run_bind (pool_domain (normalize_correction_request req0)) (\<lambda>req.
     with_repo pe (cor_domain req) (\<lambda>se. create_correction se req))"

definition pool_refresh_page :: "pool_env \<Rightarrow> refresh_page_request \<Rightarrow> compiled_page pool_run" where
  "pool_refresh_page pe req0 =
     run_bind (pool_domain (normalize_refresh_page_request req0)) (\<lambda>req.
     giving (annotate_page (rfp_domain req)) (with_repo pe (rfp_domain req) (\<lambda>se. refresh_page se req)))"

definition pool_entity_page :: "pool_env \<Rightarrow> domain_id \<Rightarrow> string \<Rightarrow> string \<Rightarrow> compiled_page pool_run" where
  "pool_entity_page pe d entity title =
     pool_refresh_page pe \<lparr>rfp_actor = [], rfp_kind = ''entity_page'', rfp_domain = d, rfp_firewall = [],
       rfp_title = title, rfp_entity = entity, rfp_topic = []\<rparr>"

definition pool_timeline :: "pool_env \<Rightarrow> domain_id \<Rightarrow> string \<Rightarrow> string \<Rightarrow> compiled_page pool_run" where
  "pool_timeline pe d topic entity =
     pool_refresh_page pe \<lparr>rfp_actor = [], rfp_kind = ''timeline'', rfp_domain = d, rfp_firewall = [],
       rfp_title = [], rfp_entity = entity, rfp_topic = topic\<rparr>"

definition pool_reindex :: "pool_env \<Rightarrow> string \<Rightarrow> unit pool_run" where
  "pool_reindex pe mid =
     run_bind (pool_get_memory pe mid) (\<lambda>r. with_repo pe (mem_domain r) (\<lambda>se. reindex_memory mid))"

definition pool_add_audit :: "pool_env \<Rightarrow> memory_audit \<Rightarrow> unit pool_run" where
  "pool_add_audit pe ev = with_repo pe ''user'' (\<lambda>se. add_audit se ev)"

definition add_metrics :: "memory_metrics \<Rightarrow> memory_metrics \<Rightarrow> memory_metrics" where
  "add_metrics a b =
     \<lparr>met_evidence = met_evidence a + met_evidence b, met_memory = met_memory a + met_memory b,
      met_pages = met_pages a + met_pages b, met_pending = met_pending a + met_pending b,
      met_failed = met_failed a + met_failed b, met_with_sources = met_with_sources a + met_with_sources b\<rparr>"

fun sum_metrics :: "pool_env \<Rightarrow> domain_id list \<Rightarrow> memory_metrics \<Rightarrow> memory_metrics pool_run" where
  "sum_metrics pe [] acc = run_ret acc"
| "sum_metrics pe (d # ds) acc =
     run_bind (with_repo pe d (\<lambda>se. run_read metrics)) (\<lambda>m. sum_metrics pe ds (add_metrics acc m))"

definition pool_metrics :: "pool_env \<Rightarrow> memory_metrics pool_run" where
  "pool_metrics pe p =
     sum_metrics pe (known_domain_ids p)
       \<lparr>met_evidence = 0, met_memory = 0, met_pages = 0, met_pending = 0, met_failed = 0, met_with_sources = 0\<rparr> p"

definition pool_query :: "pool_env \<Rightarrow> graph_query_request \<Rightarrow> query_result pool_run" where
  "pool_query pe req0 =
     run_bind (pool_domain (normalize_graph_query_request req0)) (\<lambda>req.
     run_bind (repo_for_domain (gqr_domain req)) (\<lambda>n p.
     case query_graph (pe_store pe n) req (content p n) of
       (r, db) \<Rightarrow> (res_err Query r, p\<lparr>po_db := (po_db p)(n \<mapsto> db)\<rparr>)))"

section \<open>Domains\<close>

record domain_info =
  dmi_domain :: domain_id
  dmi_path :: string
  dmi_open :: bool
  dmi_exists :: bool

definition domain_db_path :: "pool_env \<Rightarrow> domain_id \<Rightarrow> string" where
  "domain_db_path pe d = pe_root pe @ ''/'' @ d @ ''/memory.db''"

definition memory_domain_info :: "pool_env \<Rightarrow> pool \<Rightarrow> domain_id \<Rightarrow> domain_info" where
  "memory_domain_info pe p d =
     \<lparr>dmi_domain = d, dmi_path = domain_db_path pe d, dmi_open = (d \<in> set (po_open p)),
      dmi_exists = (po_db p d \<noteq> None)\<rparr>"

definition pool_domains :: "pool_env \<Rightarrow> pool \<Rightarrow> domain_info list" where
  "pool_domains pe p = map (memory_domain_info pe p) (known_domain_ids p)"

definition pool_create_domain :: "pool_env \<Rightarrow> domain_id \<Rightarrow> domain_info pool_run" where
  "pool_create_domain pe d =
     run_bind (pool_domain (normalize_domain_id d [])) (\<lambda>n.
     run_bind (repo_for_domain n) (\<lambda>_. run_read (\<lambda>p. Inr (memory_domain_info pe p n))))"

definition pool_remove_domain :: "pool_env \<Rightarrow> domain_id \<Rightarrow> bool \<Rightarrow> domain_info pool_run" where
  "pool_remove_domain pe d delete_files =
     run_bind (pool_domain (normalize_domain_id d [])) (\<lambda>n.
     if n = ''user'' then run_err (Repo (Invalid (''memory domain '' @ go_quote n @ '' cannot be removed'')))
     else (\<lambda>p.
       let p1 = p\<lparr>po_open := filter (\<lambda>x. x \<noteq> n) (po_open p)\<rparr>;
           p2 = (if delete_files
                 then p1\<lparr>po_db := (po_db p1)(n := None), po_dirs := filter (\<lambda>x. x \<noteq> n) (po_dirs p1)\<rparr>
                 else p1)
       in (Inr (memory_domain_info pe p2 n), p2)))"

definition pool_close :: "pool \<Rightarrow> pool" where
  "pool_close p = p\<lparr>po_open := []\<rparr>"

text \<open>\<open>OpenPool\<close> opens the default domain.\<close>

definition open_pool :: "pool \<Rightarrow> pool" where
  "open_pool p = snd (repo_for_domain ''user'' (p\<lparr>po_open := []\<rparr>))"

section \<open>Tasks\<close>

definition pool_create_task :: "pool_env \<Rightarrow> gotime \<Rightarrow> create_task_request \<Rightarrow> task pool_run" where
  "pool_create_task pe now req0 =
     run_bind (pool_domain (normalize_create_task_request now req0)) (\<lambda>req.
     giving (annotate_task (ctr_domain req)) (with_repo pe (ctr_domain req) (\<lambda>se. create_task se req)))"

definition pool_get_task :: "pool_env \<Rightarrow> task_id_request \<Rightarrow> task pool_run" where
  "pool_get_task pe req0 =
     run_bind (pool_domain (normalize_task_id_request req0)) (\<lambda>req.
     giving (annotate_task (tir_domain req)) (with_repo pe (tir_domain req) (\<lambda>se. get_task se req)))"

definition pool_list_tasks :: "pool_env \<Rightarrow> task_query \<Rightarrow> task list pool_run" where
  "pool_list_tasks pe q0 =
     run_bind (pool_domain (normalize_task_query q0)) (\<lambda>q.
     giving (map (annotate_task (tqu_domain q))) (with_repo pe (tqu_domain q) (\<lambda>se. list_tasks se q)))"

definition pool_task_graph :: "pool_env \<Rightarrow> task_graph_query \<Rightarrow> task_graph pool_run" where
  "pool_task_graph pe q0 =
     run_bind (pool_domain (normalize_task_graph_query q0)) (\<lambda>q.
     giving (annotate_graph (tqu_domain (tgq_tasks q)))
       (with_repo pe (tqu_domain (tgq_tasks q)) (\<lambda>se. task_graph_projection se q)))"

definition pool_update_task :: "pool_env \<Rightarrow> update_task_request \<Rightarrow> task pool_run" where
  "pool_update_task pe req0 =
     run_bind (pool_domain (normalize_update_task_request req0)) (\<lambda>req.
     giving (annotate_task (utr_domain req)) (with_repo pe (utr_domain req) (\<lambda>se. update_task se req)))"

definition pool_complete_task :: "pool_env \<Rightarrow> task_id_request \<Rightarrow> task pool_run" where
  "pool_complete_task pe req0 =
     run_bind (pool_domain (normalize_task_id_request req0)) (\<lambda>req.
     giving (annotate_task (tir_domain req)) (with_repo pe (tir_domain req) (\<lambda>se. complete_task se req)))"

definition pool_cancel_task :: "pool_env \<Rightarrow> task_id_request \<Rightarrow> task pool_run" where
  "pool_cancel_task pe req0 =
     run_bind (pool_domain (normalize_task_id_request req0)) (\<lambda>req.
     giving (annotate_task (tir_domain req)) (with_repo pe (tir_domain req) (\<lambda>se. cancel_task se req)))"

definition pool_delete_task :: "pool_env \<Rightarrow> task_id_request \<Rightarrow> unit pool_run" where
  "pool_delete_task pe req0 =
     run_bind (pool_domain (normalize_task_id_request req0)) (\<lambda>req.
     with_repo pe (tir_domain req) (\<lambda>se. delete_task se req))"

definition pool_link_task_memory :: "pool_env \<Rightarrow> link_task_memory_request \<Rightarrow> memory_link pool_run" where
  "pool_link_task_memory pe req0 =
     run_bind (pool_domain (normalize_link_task_memory_request req0)) (\<lambda>req.
     with_repo pe (ltm_domain req) (\<lambda>se. link_task_memory se req))"

definition pool_list_task_relations :: "pool_env \<Rightarrow> task_relation_query \<Rightarrow> task_relation list pool_run" where
  "pool_list_task_relations pe q0 =
     run_bind (pool_domain (normalize_task_relation_query q0)) (\<lambda>q.
     giving (map (annotate_relation (trq_domain q)))
       (with_repo pe (trq_domain q) (\<lambda>se. run_read (\<lambda>s. list_task_relations (md_graph s) q))))"

definition annotate_path :: "domain_id \<Rightarrow> task_relation_path \<Rightarrow> task_relation_path" where
  "annotate_path d r =
     r\<lparr>trp_task_data := map (annotate_task d) (trp_task_data r),
       trp_relations := map (annotate_relation d) (trp_relations r)\<rparr>"

definition pool_traverse_task_relations ::
    "pool_env \<Rightarrow> task_relation_traversal_query \<Rightarrow> task_relation_traversal pool_run" where
  "pool_traverse_task_relations pe q0 =
     run_bind (pool_domain (normalize_task_relation_traversal_query q0)) (\<lambda>q.
     giving (\<lambda>t. t\<lparr>trv_paths := map (annotate_path (ttq_domain q)) (trv_paths t)\<rparr>)
       (with_repo pe (ttq_domain q) (\<lambda>se. traverse_task_relations se q)))"

definition pool_upsert_task_relation ::
    "pool_env \<Rightarrow> upsert_task_relation_request \<Rightarrow> task_relation pool_run" where
  "pool_upsert_task_relation pe req0 =
     run_bind (pool_domain (normalize_upsert_task_relation_request req0)) (\<lambda>req.
     giving (annotate_relation (utq_domain req))
       (with_repo pe (utq_domain req) (\<lambda>se. upsert_task_relation se req)))"

definition pool_delete_task_relation :: "pool_env \<Rightarrow> delete_task_relation_request \<Rightarrow> unit pool_run" where
  "pool_delete_task_relation pe req0 =
     run_bind (pool_domain (normalize_delete_task_relation_request req0)) (\<lambda>req.
     with_repo pe (dtr_domain req) (\<lambda>se. delete_task_relation se req))"

end
