(* ===== verification/Memory_Firewall.thy ===== *)
theory Memory_Firewall imports Memory_Domain Go_State begin

text \<open>
  Who may read or write a memory domain: firewall_policy.go and firewall_authorization.go of
  memory/internal/memory/service. The file of the policy and its JSON decoder are parameters.
\<close>

section \<open>Policies\<close>

record firewall_rule =
  fwr_firewall :: firewall
  fwr_readers :: "string list"
  fwr_writers :: "string list"

record firewall_policy =
  fwp_default_allow :: bool
  fwp_rules :: "firewall_rule list"

definition normalize_policy_actor :: "string \<Rightarrow> string" where
  "normalize_policy_actor actor = to_lower (trim_space actor)"

fun policy_actors_loop :: "string set \<Rightarrow> string list \<Rightarrow> string list" where
  "policy_actors_loop seen [] = []"
| "policy_actors_loop seen (a # as) =
     (let key = normalize_policy_actor a
      in if key = [] \<or> key \<in> seen then policy_actors_loop seen as
         else key # policy_actors_loop (insert key seen) as)"

definition normalize_policy_actors :: "string list \<Rightarrow> string list" where
  "normalize_policy_actors actors = policy_actors_loop {} actors"

fun normalize_rules :: "firewall_rule list \<Rightarrow> string + firewall_rule list" where
  "normalize_rules [] = Inr []"
| "normalize_rules (r # rs) =
     (let f = trim_space (fwr_firewall r)
      in if f = [] then normalize_rules rs
         else if \<not> valid_firewall f then Inl (''invalid firewall policy firewall '' @ go_quote f)
         else res_map (\<lambda>ns. \<lparr>fwr_firewall = f, fwr_readers = normalize_policy_actors (fwr_readers r),
                             fwr_writers = normalize_policy_actors (fwr_writers r)\<rparr> # ns)
                (normalize_rules rs))"

definition normalize_firewall_policy :: "firewall_policy \<Rightarrow> string + firewall_policy" where
  "normalize_firewall_policy p = res_map (\<lambda>rs. p\<lparr>fwp_rules := rs\<rparr>) (normalize_rules (fwp_rules p))"

definition actor_allowed :: "string \<Rightarrow> string list \<Rightarrow> bool" where
  "actor_allowed actor grants =
     (let key = normalize_policy_actor actor
      in if key = [] then False else (\<exists>g\<in>set grants. g = ''*'' \<or> g = key))"

definition rule_for :: "firewall_policy \<Rightarrow> firewall \<Rightarrow> firewall_rule option" where
  "rule_for p f = List.find (\<lambda>r. fwr_firewall r = f) (fwp_rules p)"

definition allows_read :: "firewall_policy \<Rightarrow> string \<Rightarrow> firewall \<Rightarrow> bool" where
  "allows_read p actor f =
     (case rule_for p f of
        None \<Rightarrow> fwp_default_allow p
      | Some r \<Rightarrow> actor_allowed actor (fwr_readers r) \<or> actor_allowed actor (fwr_writers r))"

definition allows_write :: "firewall_policy \<Rightarrow> string \<Rightarrow> firewall \<Rightarrow> bool" where
  "allows_write p actor f =
     (case rule_for p f of
        None \<Rightarrow> fwp_default_allow p
      | Some r \<Rightarrow> actor_allowed actor (fwr_writers r))"

section \<open>The policy of a service\<close>

record firewall_env =
  fwe_policy :: "firewall_policy option"
  fwe_path :: string
  fwe_stat :: "string \<Rightarrow> string + bool"
  fwe_read :: "string \<Rightarrow> string + string"
  fwe_parse :: "string \<Rightarrow> string + firewall_policy"

definition load_firewall_policy_file :: "firewall_env \<Rightarrow> string \<Rightarrow> string + firewall_policy option" where
  "load_firewall_policy_file fe path =
     (if trim_space path = [] then Inr None
      else res_bind (res_err (\<lambda>e. ''read firewall policy: '' @ e) (fwe_read fe path)) (\<lambda>text.
           res_bind (res_err (\<lambda>e. ''parse firewall policy: '' @ e) (fwe_parse fe text)) (\<lambda>p.
           res_map Some (normalize_firewall_policy p))))"

text \<open>With a path, the file is read again for every decision: the second field is whether it is a directory.\<close>

definition policy_for_authorization :: "firewall_env \<Rightarrow> string + firewall_policy option" where
  "policy_for_authorization fe =
     (let path = trim_space (fwe_path fe)
      in if path = [] then Inr (fwe_policy fe)
         else case fwe_stat fe path of
                Inl e \<Rightarrow> Inl (''stat memory domain policy: '' @ e)
              | Inr True \<Rightarrow> Inl ''memory domain policy path is a directory''
              | Inr False \<Rightarrow> load_firewall_policy_file fe path)"

definition authorize ::
    "firewall_env \<Rightarrow> (firewall_policy \<Rightarrow> string \<Rightarrow> firewall \<Rightarrow> bool) \<Rightarrow> string \<Rightarrow> string \<Rightarrow> firewall \<Rightarrow> string + unit" where
  "authorize fe allows verb actor f =
     res_bind (policy_for_authorization fe) (\<lambda>p.
     case p of
       None \<Rightarrow> Inr ()
     | Some q \<Rightarrow> if allows q actor f then Inr ()
                 else Inl (''actor '' @ go_quote actor @ '' cannot '' @ verb @ '' memory domain '' @ go_quote f))"

definition authorize_read :: "firewall_env \<Rightarrow> string \<Rightarrow> firewall \<Rightarrow> string + unit" where
  "authorize_read fe actor f = authorize fe allows_read ''read'' actor f"

definition authorize_write :: "firewall_env \<Rightarrow> string \<Rightarrow> firewall \<Rightarrow> string + unit" where
  "authorize_write fe actor f = authorize fe allows_write ''write'' actor f"

definition authorize_global :: "firewall_env \<Rightarrow> string \<Rightarrow> firewall \<Rightarrow> bool \<Rightarrow> string + unit" where
  "authorize_global fe actor f include_global =
     res_bind (authorize_read fe actor f) (\<lambda>_.
     if include_global \<and> f \<noteq> ''global'' then authorize_read fe actor ''global'' else Inr ())"

definition authorize_retrieval :: "firewall_env \<Rightarrow> retrieval_query \<Rightarrow> string + unit" where
  "authorize_retrieval fe q = authorize_global fe (ret_actor q) (ret_domain q) (ret_include_global q)"

definition graph_query_mutates :: "string \<Rightarrow> bool" where
  "graph_query_mutates query =
     (let v = to_upper (trim_space query)
      in has_prefix v ''INSERT '' \<or> has_prefix v ''SET '' \<or> has_prefix v ''DELETE '')"

definition authorize_graph_query :: "firewall_env \<Rightarrow> graph_query_request \<Rightarrow> string + unit" where
  "authorize_graph_query fe req =
     (if graph_query_mutates (gqr_query req) then authorize_write fe (gqr_actor req) (gqr_domain req)
      else authorize_global fe (gqr_actor req) (gqr_domain req) (gqr_include_global req))"

end
