(* ===== verification/Task_Projection.thy ===== *)
theory Task_Projection imports Task_Relations begin

text \<open>
  The Today projection of a task graph: memory/internal/memory/projection, with the types and the
  normaliser of domain/executive_summary_types.go and executive_summary_validation.go. Scores are
  computed with 64-bit floats, each operation rounded as on amd64. The local time zone is a parameter:
  its offset from UTC, in nanoseconds, at a time.
\<close>

section \<open>Queries and read models\<close>

record summary_query =
  esq_domain :: domain_id
  esq_firewall :: firewall
  esq_horizon :: string
  esq_now :: "gotime option"
  esq_max_items :: int
  esq_evidence :: "bool option"
  esq_actions :: "bool option"
  esq_channel :: string

record projection_link =
  pln_label :: string
  pln_route :: string

record summary_evidence =
  ese_kind :: string
  ese_id :: string
  ese_label :: string
  ese_relationship :: string

record summary_action =
  esa_label :: string
  esa_tool :: string
  esa_safety :: string
  esa_payload :: "(string \<times> string) list"

record summary_item =
  esi_id :: string
  esi_kind :: string
  esi_lane :: string
  esi_title :: string
  esi_subtitle :: string
  esi_reason :: string
  esi_score :: f64
  esi_confidence :: f64
  esi_status :: string
  esi_priority :: string
  esi_task :: string
  esi_person :: string
  esi_project :: string
  esi_due :: "gotime option"
  esi_scheduled :: "gotime option"
  esi_follow_up :: "gotime option"
  esi_estimate :: int
  esi_evidence :: "summary_evidence list"
  esi_action :: "summary_action option"
  esi_links :: "projection_link list"

text \<open>A category of open loops or a bucket of delegation: its count and a few of its items.\<close>

record item_group =
  igr_id :: string
  igr_label :: string
  igr_count :: nat
  igr_items :: "summary_item list"
  igr_severity :: string
  igr_link :: projection_link

record horizon_group =
  hgr_id :: string
  hgr_label :: string
  hgr_count :: nat
  hgr_summary :: string
  hgr_top :: string
  hgr_link :: projection_link

record chain_node =
  chn_task :: string
  chn_title :: string
  chn_subtitle :: string

record unblock_chain =
  uch_id :: string
  uch_nodes :: "chain_node list"
  uch_action :: "summary_action option"

record coverage_summary =
  cov_good :: "string list"
  cov_partial :: "string list"
  cov_not_connected :: "string list"
  cov_promise :: string

record quality_summary =
  qua_label :: string
  qua_coverage :: f64
  qua_tasks :: nat
  qua_unknown :: "string list"
  qua_limits :: "string list"

record summary_metric =
  smt_id :: string
  smt_label :: string
  smt_value :: string
  smt_subtitle :: string
  smt_severity :: string
  smt_link :: projection_link

record summary_projection =
  spr_generated :: gotime
  spr_domain :: domain_id
  spr_firewall :: firewall
  spr_horizon :: string
  spr_narrative :: string
  spr_metrics :: "summary_metric list"
  spr_attention :: "summary_item list"
  spr_open_loops :: "item_group list"
  spr_horizons :: "horizon_group list"
  spr_delegation :: "item_group list"
  spr_chains :: "unblock_chain list"
  spr_coverage :: coverage_summary
  spr_quality :: quality_summary
  spr_links :: "projection_link list"

definition normalize_summary_query :: "gotime \<Rightarrow> summary_query \<Rightarrow> string + summary_query" where
  "normalize_summary_query now q =
     res_bind (normalize_domain_id (esq_domain q) (esq_firewall q)) (\<lambda>d.
     let horizon = or_default (trim_space (esq_horizon q)) ''today''
     in res_bind (check (horizon \<in> set executive_summary_horizons) (invalid ''horizon'' horizon)) (\<lambda>_.
        let channel = or_default (trim_space (esq_channel q)) ''ui'';
            most = (if esq_max_items q \<le> 0 then 12 else esq_max_items q)
        in res_bind (check (channel \<in> set executive_summary_channels) (invalid ''channel'' channel)) (\<lambda>_.
           Inr \<lparr>esq_domain = d, esq_firewall = d, esq_horizon = horizon,
                esq_now = Some (case esq_now q of None \<Rightarrow> now | Some t \<Rightarrow> t),
                esq_max_items = (if most > 50 then 50 else most),
                esq_evidence = Some (case esq_evidence q of None \<Rightarrow> True | Some b \<Rightarrow> b),
                esq_actions = Some (case esq_actions q of None \<Rightarrow> True | Some b \<Rightarrow> b),
                esq_channel = channel\<rparr>)))"

definition enabled :: "bool option \<Rightarrow> bool" where
  "enabled v = (case v of None \<Rightarrow> True | Some b \<Rightarrow> b)"

definition query_now :: "summary_query \<Rightarrow> gotime" where
  "query_now q = the (esq_now q)"

section \<open>Floats and times\<close>

text \<open>Operations on finite floats; the scores never leave the range.\<close>

definition f_op :: "(rat \<Rightarrow> rat \<Rightarrow> rat) \<Rightarrow> f64 \<Rightarrow> f64 \<Rightarrow> f64" where
  "f_op f a b = (case (a, b) of (Fin x, Fin y) \<Rightarrow> Fin (float_of (f x y)) | _ \<Rightarrow> NaN)"

definition f_le :: "f64 \<Rightarrow> f64 \<Rightarrow> bool" where
  "f_le a b \<longleftrightarrow> f64_less a b \<or> (a = b \<and> a \<noteq> NaN)"

definition f_max :: "f64 \<Rightarrow> f64 \<Rightarrow> f64" where
  "f_max a b = (if f64_less a b then b else a)"

definition clamp01 :: "f64 \<Rightarrow> f64" where
  "clamp01 v = (if f64_less v (Fin 0) then Fin 0 else if f64_less (Fin 1) v then Fin 1 else v)"

text \<open>\<open>math.Round\<close> of a number that is not negative: half goes up.\<close>

definition round_score :: "f64 \<Rightarrow> f64" where
  "round_score v =
     (case f_op (*) (clamp01 v) (Fin 1000) of
        Fin x \<Rightarrow> f_op (/) (Fin (of_int \<lfloor>x + 1 / 2\<rfloor>)) (Fin 1000)
      | _ \<Rightarrow> NaN)"

definition day_of :: "(gotime \<Rightarrow> int) \<Rightarrow> gotime \<Rightarrow> int" where
  "day_of zone t = (t + zone t) div hours 24"

definition same_local_day :: "(gotime \<Rightarrow> int) \<Rightarrow> gotime \<Rightarrow> gotime \<Rightarrow> bool" where
  "same_local_day zone a b \<longleftrightarrow> day_of zone a = day_of zone b"

definition same_optional_local_day :: "(gotime \<Rightarrow> int) \<Rightarrow> gotime option \<Rightarrow> gotime \<Rightarrow> bool" where
  "same_optional_local_day zone a b = (case a of None \<Rightarrow> False | Some t \<Rightarrow> same_local_day zone t b)"

section \<open>The index of tasks\<close>

record task_index =
  tix_graph :: task_graph
  tix_tasks :: "task list"

definition index_sort_time :: "task \<Rightarrow> gotime" where
  "index_sort_time t =
     first_time [tsk_due t, tsk_scheduled t, tsk_follow_up t]
       (if tsk_updated t \<noteq> zero_time then tsk_updated t else tsk_created t)"

definition compare_tasks :: "task \<Rightarrow> task \<Rightarrow> bool" where
  "compare_tasks a b \<longleftrightarrow>
     (if index_sort_time a \<noteq> index_sort_time b then index_sort_time a < index_sort_time b
      else str_less (tsk_title a) (tsk_title b))"

definition new_task_index :: "task_graph \<Rightarrow> task_index" where
  "new_task_index g = \<lparr>tix_graph = g, tix_tasks = sort_slice compare_tasks (tgr_tasks g)\<rparr>"

text \<open>The map from identifiers keeps the last task of an identifier.\<close>

definition task_by_id :: "task_index \<Rightarrow> string \<Rightarrow> task option" where
  "task_by_id ix tid = List.find (\<lambda>t. tsk_id t = tid) (rev (tgr_tasks (tix_graph ix)))"

definition relations_for :: "task_index \<Rightarrow> string \<Rightarrow> task_relation list" where
  "relations_for ix tid =
     concat (map (\<lambda>r. (if tre_from r = tid then [r] else []) @ (if tre_to r = tid then [r] else []))
       (tgr_relations (tix_graph ix)))"

definition active_tasks :: "task_index \<Rightarrow> task list" where
  "active_tasks ix = filter (\<lambda>t. tsk_status t \<noteq> ''done'' \<and> tsk_status t \<noteq> ''canceled'') (tix_tasks ix)"

section \<open>Scores\<close>

definition priority_importance_score :: "task \<Rightarrow> f64" where
  "priority_importance_score t =
     (if tsk_priority t = ''urgent'' then Fin 1
      else if tsk_priority t = ''high'' then lit (3 / 4)
      else if tsk_priority t = ''low'' then lit (2 / 10)
      else lit (45 / 100))"

definition pressure_score :: "task \<Rightarrow> f64" where
  "pressure_score t =
     (if tsk_priority t = ''urgent'' then Fin 1
      else if tsk_priority t = ''high'' then lit (3 / 4)
      else if tsk_priority t = ''low'' then lit (2 / 10)
      else if tsk_status t = ''blocked'' then lit (65 / 100)
      else lit (4 / 10))"

definition time_candidate_score :: "(gotime \<Rightarrow> int) \<Rightarrow> gotime \<Rightarrow> gotime \<Rightarrow> f64" where
  "time_candidate_score zone now t =
     (let d = time_sub t now
      in if d < 0 then Fin 1
         else if d \<le> hours 2 then lit (9 / 10)
         else if same_local_day zone t now then lit (3 / 4)
         else if d \<le> hours 48 then lit (45 / 100)
         else if d \<le> hours 168 then lit (1 / 4)
         else Fin 0)"

definition times_of :: "task \<Rightarrow> gotime list" where
  "times_of t = List.map_filter (\<lambda>x. x) [tsk_due t, tsk_scheduled t, tsk_follow_up t]"

definition time_pressure_score :: "(gotime \<Rightarrow> int) \<Rightarrow> summary_query \<Rightarrow> task \<Rightarrow> f64" where
  "time_pressure_score zone q t =
     fold (\<lambda>c best. f_max best (time_candidate_score zone (query_now q) c)) (times_of t) (Fin 0)"

definition urgency_score :: "task \<Rightarrow> f64" where
  "urgency_score t =
     (if f64_less (Fin 0) (tsk_urgency t) then clamp01 (tsk_urgency t)
      else if tsk_priority t = ''urgent'' then lit (9 / 10)
      else if tsk_priority t = ''high'' then lit (65 / 100)
      else Fin 0)"

definition plus_if :: "bool \<Rightarrow> rat \<Rightarrow> f64 \<Rightarrow> f64" where
  "plus_if c x acc = (if c then f_op (+) acc (lit x) else acc)"

definition due_by :: "gotime \<Rightarrow> gotime option \<Rightarrow> bool" where
  "due_by limit v = (case v of None \<Rightarrow> False | Some t \<Rightarrow> t \<le> limit)"

definition relationship_cost_score :: "summary_query \<Rightarrow> task \<Rightarrow> f64" where
  "relationship_cost_score q t =
     clamp01
       (plus_if (\<exists>l\<in>set (tsk_links t). mli_relationship l = ''originated_from'' \<or> mli_relationship l = ''supporting'')
          (1 / 10)
       (plus_if (due_by (query_now q) (tsk_follow_up t)) (35 / 100)
       (plus_if (tsk_person t \<noteq> []) (35 / 100) (Fin 0))))"

definition is_orphan_task :: "task \<Rightarrow> bool" where
  "is_orphan_task t \<longleftrightarrow> tsk_project t = [] \<and> tsk_person t = [] \<and> tsk_topics t = []"

definition forgetting_risk :: "summary_query \<Rightarrow> task_index \<Rightarrow> task \<Rightarrow> f64" where
  "forgetting_risk q ix t =
     (if tsk_status t \<noteq> ''open'' \<and> tsk_status t \<noteq> ''waiting'' then Fin 0
      else clamp01
        (plus_if (tsk_updated t < query_now q - hours (14 * 24)) (8 / 100)
        (plus_if (tsk_estimate t > 0 \<and> tsk_estimate t \<le> 20) (15 / 100)
        (plus_if (relations_for ix (tsk_id t) = []) (2 / 10)
        (plus_if (is_orphan_task t) (25 / 100)
        (plus_if (tsk_due t = None) (22 / 100) (Fin 0)))))))"

definition unsafe_task :: "task \<Rightarrow> bool" where
  "unsafe_task t \<longleftrightarrow> f_le (lit (65 / 100)) (tsk_risk t)"

definition safely_delegable :: "task \<Rightarrow> bool" where
  "safely_delegable t \<longleftrightarrow>
     \<not> unsafe_task t \<and> (tsk_status t = ''open'' \<or> tsk_status t = ''waiting'') \<and>
     0 < tsk_estimate t \<and> tsk_estimate t \<le> 60 \<and> (tsk_description t \<noteq> [] \<or> tsk_links t \<noteq> [])"

definition attention_score :: "(gotime \<Rightarrow> int) \<Rightarrow> summary_query \<Rightarrow> task_index \<Rightarrow> task \<Rightarrow> f64" where
  "attention_score zone q ix t =
     (let weigh = (\<lambda>v w. f_op (*) v (lit w)); plus = f_op (+)
      in round_score
           (f_op (-)
             (plus (plus (plus (plus (plus (plus
               (weigh (pressure_score t) (22 / 100))
               (weigh (time_pressure_score zone q t) (18 / 100)))
               (weigh (clamp01 (tsk_risk t)) (16 / 100)))
               (weigh (priority_importance_score t) (14 / 100)))
               (weigh (urgency_score t) (12 / 100)))
               (weigh (relationship_cost_score q t) (8 / 100)))
               (weigh (forgetting_risk q ix t) (8 / 100)))
             (weigh (if safely_delegable t then Fin 1 else Fin 0) (6 / 100))))"

section \<open>Attention\<close>

definition relationship_loop_due :: "summary_query \<Rightarrow> task \<Rightarrow> bool" where
  "relationship_loop_due q t \<longleftrightarrow> tsk_person t \<noteq> [] \<and> due_by (query_now q + hours 24) (tsk_follow_up t)"

definition requires_human_decision :: "task \<Rightarrow> bool" where
  "requires_human_decision t \<longleftrightarrow>
     tsk_status t = ''blocked'' \<or> tsk_priority t = ''urgent'' \<or> unsafe_task t"

definition should_protect :: "(gotime \<Rightarrow> int) \<Rightarrow> summary_query \<Rightarrow> task \<Rightarrow> bool" where
  "should_protect zone q t \<longleftrightarrow>
     same_optional_local_day zone (tsk_scheduled t) (query_now q) \<or>
     (f_le (lit (3 / 4)) (priority_importance_score t) \<and>
      (f_le (lit (35 / 100)) (tsk_risk t) \<or> tsk_estimate t \<ge> 60)) \<or>
     (tsk_priority t = ''high'' \<and> tsk_estimate t \<ge> 45)"

definition attention_lane :: "(gotime \<Rightarrow> int) \<Rightarrow> summary_query \<Rightarrow> task \<Rightarrow> string" where
  "attention_lane zone q t =
     (if relationship_loop_due q t then ''follow_up''
      else if tsk_status t = ''blocked'' \<or> tsk_status t = ''waiting'' then ''monitor''
      else if requires_human_decision t then ''decide''
      else if safely_delegable t then ''delegate''
      else if should_protect zone q t then ''protect''
      else ''do'')"

definition attention_reason :: "summary_query \<Rightarrow> task_index \<Rightarrow> task \<Rightarrow> string \<Rightarrow> string" where
  "attention_reason q ix t lane =
     (if lane = ''protect'' then ''High-priority or scheduled work should not be casually displaced.''
      else if lane = ''decide'' then
        (if unsafe_task t then ''High-risk work needs your approval.''
         else ''Risk, urgency, or priority requires human judgment.'')
      else if lane = ''delegate'' then ''Low-risk work with concrete task context can be prepared safely.''
      else if lane = ''follow_up'' then ''Explicit person or follow-up metadata needs attention.''
      else if lane = ''monitor'' then
        (if tsk_status t = ''blocked'' then ''Blocked work should stay visible until the blocker moves.''
         else ''Waiting work needs monitoring but no immediate action.'')
      else if f64_less (lit (55 / 100)) (forgetting_risk q ix t)
      then ''Small or under-specified task is easy to forget.''
      else ''Concrete open task is ready for your attention.'')"

definition attention_subtitle :: "task \<Rightarrow> string" where
  "attention_subtitle t =
     (if tsk_project t \<noteq> [] then tsk_project t
      else if tsk_person t \<noteq> [] then tsk_person t
      else if tsk_topics t \<noteq> [] then join_str (tsk_topics t) '', ''
      else tsk_status t)"

definition plain_action :: "string \<Rightarrow> string \<Rightarrow> summary_action" where
  "plain_action label safety = \<lparr>esa_label = label, esa_tool = [], esa_safety = safety, esa_payload = []\<rparr>"

definition primary_action_for_lane :: "string \<Rightarrow> task \<Rightarrow> summary_action option" where
  "primary_action_for_lane lane t =
     (if lane = ''do'' then Some ((plain_action ''Mark done'' ''safe'')
          \<lparr>esa_tool := ''complete_task'', esa_payload := [(''task_id'', tsk_id t)]\<rparr>)
      else if lane = ''delegate'' then Some (plain_action ''Prepare draft'' ''safe'')
      else if lane = ''decide'' then Some (plain_action ''Review decision'' ''approval_required'')
      else None)"

definition link_source :: "memory_link \<Rightarrow> summary_evidence option" where
  "link_source l =
     (let (kind, lid) = (if mli_memory l = [] then (''source'', mli_evidence l) else (''memory'', mli_memory l))
      in if lid = [] then None
         else Some \<lparr>ese_kind = kind, ese_id = lid, ese_label = mli_note l, ese_relationship = mli_relationship l\<rparr>)"

definition source_handles :: "task \<Rightarrow> summary_evidence list" where
  "source_handles t =
     \<lparr>ese_kind = ''task'', ese_id = tsk_id t, ese_label = tsk_title t, ese_relationship = ''source''\<rparr> #
     List.map_filter link_source (tsk_links t)"

definition bare_item :: "string \<Rightarrow> task \<Rightarrow> string \<Rightarrow> f64 \<Rightarrow> summary_query \<Rightarrow> summary_item" where
  "bare_item iid t reason score q =
     \<lparr>esi_id = iid, esi_kind = ''task'', esi_lane = [], esi_title = tsk_title t, esi_subtitle = [],
      esi_reason = reason, esi_score = score, esi_confidence = Fin 0, esi_status = tsk_status t,
      esi_priority = [], esi_task = tsk_id t, esi_person = [], esi_project = [], esi_due = None,
      esi_scheduled = None, esi_follow_up = None, esi_estimate = 0,
      esi_evidence = (if enabled (esq_evidence q) then source_handles t else []), esi_action = None,
      esi_links = []\<rparr>"

definition route_link :: "string \<Rightarrow> projection_link" where
  "route_link r = \<lparr>pln_label = [], pln_route = r\<rparr>"

definition attention_item :: "(gotime \<Rightarrow> int) \<Rightarrow> summary_query \<Rightarrow> task_index \<Rightarrow> task \<Rightarrow> summary_item" where
  "attention_item zone q ix t =
     (let lane = attention_lane zone q t
      in (bare_item (''attention:'' @ lane @ '':'' @ tsk_id t) t (attention_reason q ix t lane)
            (attention_score zone q ix t) q)
         \<lparr>esi_lane := lane, esi_subtitle := attention_subtitle t, esi_priority := tsk_priority t,
          esi_person := tsk_person t, esi_project := tsk_project t, esi_due := tsk_due t,
          esi_scheduled := tsk_scheduled t, esi_follow_up := tsk_follow_up t,
          esi_estimate := tsk_estimate t,
          esi_action := (if enabled (esq_actions q) then primary_action_for_lane lane t else None),
          esi_links := [route_link (''/attention?item='' @ tsk_id t)]\<rparr>)"

definition lane_order :: "string \<Rightarrow> nat" where
  "lane_order lane =
     (case map_of [(''protect'', 0), (''decide'', 1), (''do'', 2), (''delegate'', 3), (''follow_up'', 4),
                   (''monitor'', 5)] lane of Some n \<Rightarrow> n | None \<Rightarrow> 0)"

definition attention_before :: "summary_item \<Rightarrow> summary_item \<Rightarrow> bool" where
  "attention_before a b \<longleftrightarrow>
     (if lane_order (esi_lane a) \<noteq> lane_order (esi_lane b)
      then lane_order (esi_lane a) < lane_order (esi_lane b)
      else if esi_score a \<noteq> esi_score b then f64_less (esi_score b) (esi_score a)
      else str_less (esi_title a) (esi_title b))"

definition build_attention :: "(gotime \<Rightarrow> int) \<Rightarrow> summary_query \<Rightarrow> task_index \<Rightarrow> summary_item list" where
  "build_attention zone q ix =
     take (nat (esq_max_items q))
       (sort_slice attention_before (map (attention_item zone q ix) (active_tasks ix)))"

section \<open>Open loops and delegation\<close>

definition score_before :: "summary_item \<Rightarrow> summary_item \<Rightarrow> bool" where
  "score_before a b \<longleftrightarrow>
     (if esi_score a \<noteq> esi_score b then f64_less (esi_score b) (esi_score a)
      else str_less (esi_title a) (esi_title b))"

definition item_group_of ::
    "string \<Rightarrow> string \<Rightarrow> string \<Rightarrow> string \<Rightarrow> summary_item list \<Rightarrow> item_group" where
  "item_group_of gid label severity route items =
     \<lparr>igr_id = gid, igr_label = label, igr_count = length items,
      igr_items = take 3 (sort_slice score_before items), igr_severity = severity,
      igr_link = route_link (route @ gid)\<rparr>"

definition open_loop_item :: "(gotime \<Rightarrow> int) \<Rightarrow> summary_query \<Rightarrow> string \<Rightarrow> task \<Rightarrow> summary_item" where
  "open_loop_item zone q category t =
     bare_item (''open_loop:'' @ category @ '':'' @ tsk_id t) t
       (''Task is included in the '' @ category @ '' open-loop category.'')
       (f_op (+) (pressure_score t) (time_pressure_score zone q t)) q"

definition open_loop_category ::
    "(gotime \<Rightarrow> int) \<Rightarrow> summary_query \<Rightarrow> task_index \<Rightarrow> string \<Rightarrow> string \<Rightarrow> string \<Rightarrow> (task \<Rightarrow> bool) \<Rightarrow> item_group" where
  "open_loop_category zone q ix gid label severity matches =
     item_group_of gid label severity ''/open-loops?category=''
       (map (open_loop_item zone q gid) (filter matches (active_tasks ix)))"

definition build_open_loops :: "(gotime \<Rightarrow> int) \<Rightarrow> summary_query \<Rightarrow> task_index \<Rightarrow> item_group list" where
  "build_open_loops zone q ix =
     [open_loop_category zone q ix ''orphan_tasks'' ''Orphan tasks'' ''warning'' is_orphan_task,
      open_loop_category zone q ix ''stale_promises'' ''Stale promises'' ''warning'' (relationship_loop_due q),
      open_loop_category zone q ix ''waiting_on'' ''Waiting on'' ''normal'' (\<lambda>t. tsk_status t = ''waiting''),
      open_loop_category zone q ix ''blocked'' ''Blocked'' ''attention'' (\<lambda>t. tsk_status t = ''blocked''),
      open_loop_category zone q ix ''unscheduled_due_items'' ''Unscheduled due items'' ''normal''
        (\<lambda>t. tsk_due t \<noteq> None \<and> tsk_scheduled t = None)]"

definition completed_recently :: "summary_query \<Rightarrow> task \<Rightarrow> bool" where
  "completed_recently q t \<longleftrightarrow>
     tsk_status t = ''done'' \<and>
     query_now q - hours 24 < (case tsk_completed t of Some c \<Rightarrow> c | None \<Rightarrow> tsk_updated t)"

definition maybe_delegable :: "task \<Rightarrow> bool" where
  "maybe_delegable t \<longleftrightarrow>
     tsk_status t = ''open'' \<and> \<not> unsafe_task t \<and> tsk_description t = [] \<and> tsk_links t = [] \<and>
     0 < tsk_estimate t \<and> tsk_estimate t \<le> 60"

definition delegation_reason :: "string \<Rightarrow> string" where
  "delegation_reason bucket =
     (if bucket = ''can_do_now'' then ''Low-risk bounded work has enough context to proceed.''
      else if bucket = ''needs_approval'' then ''High-risk work needs approval.''
      else if bucket = ''needs_context''
      then ''The task is bounded and low risk, but lacks supporting context.''
      else if bucket = ''running'' then ''Task is already waiting on another actor or process.''
      else if bucket = ''done'' then ''Task has been completed.''
      else ''Task needs attention before it can be delegated.'')"

definition delegation_item ::
    "(gotime \<Rightarrow> int) \<Rightarrow> summary_query \<Rightarrow> task_index \<Rightarrow> string \<Rightarrow> task \<Rightarrow> summary_item" where
  "delegation_item zone q ix bucket t =
     (bare_item (''delegation:'' @ bucket @ '':'' @ tsk_id t) t (delegation_reason bucket)
        (attention_score zone q ix t) q)
       \<lparr>esi_subtitle := (if tsk_project t \<noteq> [] then tsk_project t else tsk_status t),
        esi_action := (if enabled (esq_actions q) \<and> bucket = ''can_do_now''
                       then Some (plain_action ''Prepare draft'' ''safe'') else None)\<rparr>"

definition delegation_bucket ::
    "(gotime \<Rightarrow> int) \<Rightarrow> summary_query \<Rightarrow> task_index \<Rightarrow> string \<Rightarrow> string \<Rightarrow> string \<Rightarrow> (task \<Rightarrow> bool) \<Rightarrow> item_group" where
  "delegation_bucket zone q ix gid label severity matches =
     item_group_of gid label severity ''/delegation?bucket=''
       (map (delegation_item zone q ix gid) (filter matches (tix_tasks ix)))"

definition build_delegation :: "(gotime \<Rightarrow> int) \<Rightarrow> summary_query \<Rightarrow> task_index \<Rightarrow> item_group list" where
  "build_delegation zone q ix =
     [delegation_bucket zone q ix ''can_do_now'' ''Agent can do now'' ''good'' safely_delegable,
      delegation_bucket zone q ix ''needs_approval'' ''Needs your approval'' ''attention'' unsafe_task,
      delegation_bucket zone q ix ''needs_context'' ''Needs context'' ''warning'' maybe_delegable,
      delegation_bucket zone q ix ''running'' ''Running'' ''normal'' (\<lambda>t. tsk_status t = ''waiting''),
      delegation_bucket zone q ix ''done'' ''Done'' ''good'' (completed_recently q),
      delegation_bucket zone q ix ''failed'' ''Needs attention'' ''warning'' (\<lambda>t. tsk_status t = ''canceled'')]"

section \<open>Risks\<close>

definition status_subtitle :: "task \<Rightarrow> string" where
  "status_subtitle t =
     (if tsk_person t \<noteq> [] \<and> tsk_status t = ''waiting'' then ''Waiting on '' @ tsk_person t
      else if tsk_project t \<noteq> [] then tsk_project t else tsk_status t)"

definition chain_of :: "task_relation \<Rightarrow> task \<Rightarrow> task \<Rightarrow> unblock_chain" where
  "chain_of r blocker blocked =
     (let node = (\<lambda>t. \<lparr>chn_task = tsk_id t, chn_title = tsk_title t, chn_subtitle = status_subtitle t\<rparr>)
      in \<lparr>uch_id = ''risk:'' @ tre_id r, uch_nodes = [node blocker, node blocked],
          uch_action = Some (plain_action (''Take action on '' @ tsk_title blocker)
            (if unsafe_task blocker then ''approval_required'' else ''safe''))\<rparr>)"

definition risk_chain :: "task_index \<Rightarrow> task_relation \<Rightarrow> unblock_chain option" where
  "risk_chain ix r =
     (case (task_by_id ix (tre_from r), task_by_id ix (tre_to r)) of
        (Some from, Some to) \<Rightarrow>
          (case (if tre_type r = ''depends_on'' then Some (to, from)
                 else if tre_type r = ''blocks'' then Some (from, to) else None) of
             None \<Rightarrow> None
           | Some (blocker, blocked) \<Rightarrow>
               if tsk_status blocked \<noteq> ''blocked'' \<and> tsk_status blocked \<noteq> ''waiting'' \<and>
                  f64_less (tsk_risk blocked) (lit (4 / 10)) \<and>
                  f64_less (priority_importance_score blocked) (lit (4 / 10))
               then None else Some (chain_of r blocker blocked))
      | _ \<Rightarrow> None)"

definition chain_score :: "task_index \<Rightarrow> unblock_chain \<Rightarrow> f64" where
  "chain_score ix c =
     (if uch_nodes c = [] then Fin 0
      else case task_by_id ix (chn_task (List.last (uch_nodes c))) of
             None \<Rightarrow> Fin 0
           | Some t \<Rightarrow> f_op (+) (f_op (+) (tsk_risk t) (priority_importance_score t)) (pressure_score t))"

definition build_risk_unblocks :: "task_index \<Rightarrow> unblock_chain list" where
  "build_risk_unblocks ix =
     take 3 (sort_slice (\<lambda>a b. f64_less (chain_score ix b) (chain_score ix a))
       (List.map_filter (risk_chain ix) (tgr_relations (tix_graph ix))))"

section \<open>Horizon\<close>

definition is_now_task :: "summary_query \<Rightarrow> task \<Rightarrow> bool" where
  "is_now_task q t \<longleftrightarrow>
     tsk_status t = ''blocked'' \<or> due_by (query_now q + hours 2) (tsk_scheduled t) \<or>
     due_by (query_now q + hours 2) (tsk_due t)"

definition is_next_task :: "summary_query \<Rightarrow> task \<Rightarrow> bool" where
  "is_next_task q t \<longleftrightarrow>
     \<not> is_now_task q t \<and>
     (tsk_priority t = ''urgent'' \<or> tsk_priority t = ''high'' \<or> f_le (Fin (1 / 2)) (tsk_risk t))"

definition on_day :: "(gotime \<Rightarrow> int) \<Rightarrow> gotime \<Rightarrow> task \<Rightarrow> bool" where
  "on_day zone day t \<longleftrightarrow>
     same_optional_local_day zone (tsk_due t) day \<or> same_optional_local_day zone (tsk_scheduled t) day"

definition is_this_week_task :: "summary_query \<Rightarrow> task \<Rightarrow> bool" where
  "is_this_week_task q t \<longleftrightarrow>
     (\<exists>c\<in>set (times_of t). query_now q < c \<and> c < query_now q + hours (7 * 24))"

definition horizon_summary :: "string \<Rightarrow> nat \<Rightarrow> string \<Rightarrow> string" where
  "horizon_summary gid n first =
     (if n = 0 then (if gid = ''now'' then ''Clear'' else if gid = ''next'' then ''No priority queued'' else ''No items'')
      else if first \<noteq> [] then first else nat_str n @ '' items'')"

definition horizon_bucket :: "task_index \<Rightarrow> string \<Rightarrow> string \<Rightarrow> (task \<Rightarrow> bool) \<Rightarrow> horizon_group" where
  "horizon_bucket ix gid label matches =
     (let ts = filter matches (active_tasks ix);
          titled = filter (\<lambda>v. v \<noteq> []) (map tsk_title ts);
          first = (if titled = [] then [] else hd titled)
      in \<lparr>hgr_id = gid, hgr_label = label, hgr_count = length ts,
          hgr_summary = horizon_summary gid (length ts) first, hgr_top = first,
          hgr_link = route_link (''/timeline?horizon='' @ gid)\<rparr>)"

definition build_time_horizon :: "(gotime \<Rightarrow> int) \<Rightarrow> summary_query \<Rightarrow> task_index \<Rightarrow> horizon_group list" where
  "build_time_horizon zone q ix =
     [horizon_bucket ix ''now'' ''Now'' (is_now_task q),
      horizon_bucket ix ''next'' ''Next'' (is_next_task q),
      horizon_bucket ix ''today'' ''Today'' (on_day zone (query_now q)),
      horizon_bucket ix ''tomorrow'' ''Tomorrow'' (on_day zone (query_now q + hours 24)),
      horizon_bucket ix ''this_week'' ''This Week'' (is_this_week_task q)]"

section \<open>Coverage and quality\<close>

definition build_coverage :: "task_index \<Rightarrow> coverage_summary" where
  "build_coverage ix =
     (let any = (tix_tasks ix \<noteq> []); rels = (tgr_relations (tix_graph ix) \<noteq> []);
          people = (\<exists>t\<in>set (tix_tasks ix). tsk_person t \<noteq> []);
          due = length (filter (\<lambda>t. tsk_due t = None) (active_tasks ix));
          projects = length (filter (\<lambda>t. tsk_project t = []) (active_tasks ix))
      in \<lparr>cov_good = opt_list any ''Tasks & projects'' @ opt_list rels ''Task relations'' @
                     opt_list people ''People & contacts'',
          cov_partial = opt_list (\<not> rels \<and> any) ''No task relations recorded'' @
                        opt_list (\<not> people \<and> any) ''Some missing people context'' @
                        opt_list (due > 0) (nat_str due @ '' tasks missing due dates'') @
                        opt_list (projects > 0) (nat_str projects @ '' tasks missing projects''),
          cov_not_connected = [''Calendar'', ''Email'', ''Health / Sleep'', ''Banking / Bills''],
          cov_promise = ''I only use information that is source-backed in memory.''\<rparr>)"

definition build_quality :: "task_index \<Rightarrow> coverage_summary \<Rightarrow> quality_summary" where
  "build_quality ix cov =
     (let any = (tix_tasks ix \<noteq> []); rc = tgr_coverage (tix_graph ix)
      in \<lparr>qua_label = (if any \<and> length (cov_partial cov) \<le> 2 \<and> f_le (Fin (1 / 4)) rc then ''Good''
                       else if any then ''Partial'' else ''Sparse''),
          qua_coverage = rc, qua_tasks = length (tix_tasks ix), qua_unknown = cov_not_connected cov,
          qua_limits =
            opt_list (\<not> any) ''No graph-backed tasks are available yet.'' @
            opt_list (cov_not_connected cov \<noteq> [])
              ''Calendar, email, health, and banking are unknown unless source-backed signals are added.''\<rparr>)"

section \<open>Metrics and the projection\<close>

definition count_lane :: "summary_item list \<Rightarrow> string \<Rightarrow> nat" where
  "count_lane items lane = length (filter (\<lambda>i. esi_lane i = lane) items)"

definition bucket_count :: "item_group list \<Rightarrow> string \<Rightarrow> nat" where
  "bucket_count gs gid = (case List.find (\<lambda>g. igr_id g = gid) gs of None \<Rightarrow> 0 | Some g \<Rightarrow> igr_count g)"

definition severity_for_count :: "nat \<Rightarrow> string \<Rightarrow> string" where
  "severity_for_count n non_zero = (if n = 0 then ''normal'' else non_zero)"

definition picture_subtitle :: "quality_summary \<Rightarrow> coverage_summary \<Rightarrow> string" where
  "picture_subtitle qua cov =
     (if qua_tasks qua = 0 then ''No task graph yet''
      else if cov_partial cov \<noteq> [] \<or> cov_not_connected cov \<noteq> [] then ''Some gaps known''
      else ''Strong overall'')"

definition picture_severity :: "quality_summary \<Rightarrow> string" where
  "picture_severity qua =
     (if qua_label qua = ''Good'' then ''good'' else if qua_label qua = ''Sparse'' then ''warning'' else ''normal'')"

definition metric_row :: "string \<Rightarrow> string \<Rightarrow> string \<Rightarrow> string \<Rightarrow> string \<Rightarrow> string \<Rightarrow> summary_metric" where
  "metric_row mid label v subtitle severity route =
     \<lparr>smt_id = mid, smt_label = label, smt_value = v, smt_subtitle = subtitle, smt_severity = severity,
      smt_link = route_link route\<rparr>"

definition build_metrics ::
    "summary_item list \<Rightarrow> item_group list \<Rightarrow> coverage_summary \<Rightarrow> quality_summary \<Rightarrow> summary_metric list" where
  "build_metrics attention delegation cov qua =
     (let decisions = count_lane attention ''decide''; follow_ups = count_lane attention ''follow_up'';
          can = bucket_count delegation ''can_do_now''
      in [metric_row ''decisions'' ''Decide'' (nat_str decisions) ''Need your judgment''
            (severity_for_count decisions ''attention'') ''/attention?metric=decisions'',
          metric_row ''relationships'' ''Follow-ups'' (nat_str follow_ups) ''People or promises''
            (severity_for_count follow_ups ''warning'') ''/attention?metric=relationships'',
          metric_row ''agent_can_handle'' ''Agent can handle'' (nat_str can) ''Ready to act''
            (severity_for_count can ''good'') ''/delegation'',
          metric_row ''picture_quality'' ''Picture quality'' (qua_label qua) (picture_subtitle qua cov)
            (picture_severity qua) ''/memory/coverage''])"

definition metric_value :: "summary_metric list \<Rightarrow> string \<Rightarrow> string" where
  "metric_value ms mid =
     (case map_of (rev (map (\<lambda>m. (smt_id m, smt_value m)) ms)) mid of Some v \<Rightarrow> v | None \<Rightarrow> [])"

definition narrative_summary :: "summary_metric list \<Rightarrow> string" where
  "narrative_summary ms =
     ''You have '' @ metric_value ms ''decisions'' @ '' decisions, '' @ metric_value ms ''relationships'' @
     '' follow-ups, and '' @ metric_value ms ''agent_can_handle'' @ '' items Agent Awesome can handle.''"

definition projection_links :: "projection_link list" where
  "projection_links =
     [\<lparr>pln_label = ''Open Loop Radar'', pln_route = ''/open-loops''\<rparr>,
      \<lparr>pln_label = ''Today'' @ [CHR 0x27] @ ''s Attention'', pln_route = ''/attention''\<rparr>,
      \<lparr>pln_label = ''Delegation & Agent'', pln_route = ''/delegation''\<rparr>,
      \<lparr>pln_label = ''Horizon'', pln_route = ''/timeline''\<rparr>,
      \<lparr>pln_label = ''Risk & Unblocks'', pln_route = ''/risks''\<rparr>,
      \<lparr>pln_label = ''Confidence & Coverage'', pln_route = ''/memory/coverage''\<rparr>]"

definition project_summary :: "(gotime \<Rightarrow> int) \<Rightarrow> summary_query \<Rightarrow> task_graph \<Rightarrow> summary_projection" where
  "project_summary zone q g =
     (let ix = new_task_index g; attention = build_attention zone q ix;
          delegation = build_delegation zone q ix; cov = build_coverage ix; qua = build_quality ix cov;
          ms = build_metrics attention delegation cov qua
      in \<lparr>spr_generated = query_now q, spr_domain = esq_domain q, spr_firewall = esq_firewall q,
          spr_horizon = esq_horizon q, spr_narrative = narrative_summary ms, spr_metrics = ms,
          spr_attention = attention, spr_open_loops = build_open_loops zone q ix,
          spr_horizons = build_time_horizon zone q ix, spr_delegation = delegation,
          spr_chains = build_risk_unblocks ix, spr_coverage = cov, spr_quality = qua,
          spr_links = projection_links\<rparr>)"

section \<open>Explanations\<close>

record explain_query =
  exq_item :: string
  exq_sources :: "bool option"

record item_explanation =
  exp_item :: string
  exp_title :: string
  exp_reason :: string
  exp_evidence :: "summary_evidence list"
  exp_confidence :: f64
  exp_limits :: "string list"

definition normalize_explain_query :: "explain_query \<Rightarrow> string + explain_query" where
  "normalize_explain_query q =
     (let iid = trim_space (exq_item q)
      in if iid = [] then Inl ''item_id is required''
         else Inr \<lparr>exq_item = iid, exq_sources = Some (enabled (exq_sources q))\<rparr>)"

definition summary_items :: "summary_projection \<Rightarrow> summary_item list" where
  "summary_items p =
     spr_attention p @ concat (map igr_items (spr_open_loops p)) @ concat (map igr_items (spr_delegation p))"

definition explain_item :: "summary_projection \<Rightarrow> explain_query \<Rightarrow> string + item_explanation" where
  "explain_item p q =
     (case List.find (\<lambda>i. esi_id i = exq_item q) (summary_items p) of
        None \<Rightarrow> Inl ''executive summary item was not found''
      | Some i \<Rightarrow>
          (let sources = (if enabled (exq_sources q) then esi_evidence i else [])
           in Inr \<lparr>exp_item = esi_id i, exp_title = esi_title i, exp_reason = esi_reason i,
                exp_evidence = sources,
                exp_confidence = (if esi_confidence i = Fin 0 then lit (72 / 100) else esi_confidence i),
                exp_limits = opt_list (sources = [])
                  ''No source handles were requested or available beyond graph task fields.''\<rparr>))"

end
