(* ===== verification/Memory_Service.thy ===== *)
theory Memory_Service imports Memory_Pool Memory_Firewall Task_Projection begin

text \<open>
  The memory service: service.go, domain_pool.go and executive_summary.go of
  memory/internal/memory/service, over the pool of databases. The steward, which proposes repairs, is an
  interface without an implementation in the sources: its answers are parameters. The pool never
  leases a job, so that only \<open>handle_job\<close> says what a worker would do with one.
\<close>

record service_env =
  sve_pool :: pool_env
  sve_firewall :: firewall_env
  sve_zone :: "gotime \<Rightarrow> int"
  sve_now :: gotime

definition permit :: "string + 'a \<Rightarrow> 'a pool_run" where
  "permit r = run_lift (res_err Refused r)"

section \<open>Memories\<close>

definition service_capture :: "service_env \<Rightarrow> capture_request \<Rightarrow> capture_result pool_run" where
  "service_capture sv req0 =
     run_bind (pool_domain (normalize_capture_request req0)) (\<lambda>req.
     run_bind (permit (authorize_write (sve_firewall sv) (cap_actor req) (cap_domain req))) (\<lambda>_.
     pool_capture (sve_pool sv) req))"

definition contradiction_note :: "memory_record \<Rightarrow> relationship \<Rightarrow> string" where
  "contradiction_note r rel = ''record '' @ mem_id r @ '' has contradiction relationship '' @ rls_id rel"

definition bundle_of :: "memory_record list \<Rightarrow> retrieval_bundle" where
  "bundle_of rs =
     (let cs = concat (map (\<lambda>r. map (\<lambda>rel. (r, rel)) (filter (\<lambda>rel. rls_type rel = ''contradicts'') (mem_relationships r))) rs)
      in \<lparr>rbu_primary = rs, rbu_supporting = (if length rs > 1 then tl rs else []),
          rbu_provenance = map mem_source rs, rbu_uncertainty = map (\<lambda>(r, rel). contradiction_note r rel) cs,
          rbu_contradictions = map snd cs\<rparr>)"

definition search_memory :: "service_env \<Rightarrow> retrieval_query \<Rightarrow> retrieval_bundle pool_run" where
  "search_memory sv q0 =
     run_bind (pool_domain (normalize_retrieval_query q0)) (\<lambda>q.
     run_bind (permit (authorize_retrieval (sve_firewall sv) q)) (\<lambda>_.
     giving bundle_of (pool_search (sve_pool sv) q)))"

fun hydrate :: "service_env \<Rightarrow> memory_record list \<Rightarrow> memory_record list pool_run" where
  "hydrate sv [] = run_ret []"
| "hydrate sv (r # rs) =
     run_bind (pool_evidence_content (sve_pool sv) (mem_evidence r)) (\<lambda>text.
     run_bind (hydrate sv rs) (\<lambda>hs.
     run_ret (r\<lparr>mem_raw := map_option (\<lambda>raw. raw\<lparr>raw_content := text\<rparr>) (mem_raw r)\<rparr> # hs)))"

definition search_sources :: "service_env \<Rightarrow> retrieval_query \<Rightarrow> retrieval_bundle pool_run" where
  "search_sources sv q =
     run_bind (search_memory sv q) (\<lambda>b.
     run_bind (hydrate sv (rbu_primary b)) (\<lambda>rs. run_ret (b\<lparr>rbu_primary := rs\<rparr>)))"

definition service_refresh_page :: "service_env \<Rightarrow> refresh_page_request \<Rightarrow> compiled_page pool_run" where
  "service_refresh_page sv req0 =
     run_bind (pool_domain (normalize_refresh_page_request req0)) (\<lambda>req.
     run_bind (permit (authorize_write (sve_firewall sv) (rfp_actor req) (rfp_domain req))) (\<lambda>_.
     pool_refresh_page (sve_pool sv) req))"

definition service_entity_page ::
    "service_env \<Rightarrow> string \<Rightarrow> domain_id \<Rightarrow> string \<Rightarrow> string \<Rightarrow> compiled_page pool_run" where
  "service_entity_page sv actor d entity title =
     run_bind (pool_domain (normalize_refresh_page_request
       \<lparr>rfp_actor = actor, rfp_kind = ''entity_page'', rfp_domain = d, rfp_firewall = [], rfp_title = title,
        rfp_entity = entity, rfp_topic = []\<rparr>)) (\<lambda>req.
     run_bind (permit (authorize_write (sve_firewall sv) (rfp_actor req) (rfp_domain req))) (\<lambda>_.
     pool_entity_page (sve_pool sv) (rfp_domain req) (rfp_entity req) (rfp_title req)))"

definition service_timeline ::
    "service_env \<Rightarrow> string \<Rightarrow> domain_id \<Rightarrow> string \<Rightarrow> string \<Rightarrow> compiled_page pool_run" where
  "service_timeline sv actor d topic entity =
     run_bind (pool_domain (normalize_refresh_page_request
       \<lparr>rfp_actor = actor, rfp_kind = ''timeline'', rfp_domain = d, rfp_firewall = [], rfp_title = [],
        rfp_entity = entity, rfp_topic = topic\<rparr>)) (\<lambda>req.
     run_bind (permit (authorize_write (sve_firewall sv) (rfp_actor req) (rfp_domain req))) (\<lambda>_.
     pool_timeline (sve_pool sv) (rfp_domain req) (rfp_topic req) (rfp_entity req)))"

definition service_repair :: "service_env \<Rightarrow> repair_request \<Rightarrow> memory_record pool_run" where
  "service_repair sv req0 =
     run_bind (pool_domain (normalize_repair_request req0)) (\<lambda>req.
     run_bind (pool_get_memory (sve_pool sv) (rep_memory req)) (\<lambda>r.
     run_bind (permit (authorize_write (sve_firewall sv) (rep_actor req) (mem_domain r))) (\<lambda>_.
     pool_repair (sve_pool sv) (req\<lparr>rep_domain := mem_domain r, rep_firewall := mem_domain r\<rparr>))))"

definition service_correction :: "service_env \<Rightarrow> correction_request \<Rightarrow> capture_result pool_run" where
  "service_correction sv req0 =
     run_bind (pool_domain (normalize_correction_request req0)) (\<lambda>req.
     run_bind (permit (authorize_write (sve_firewall sv) (cor_actor req) (cor_domain req))) (\<lambda>_.
     pool_correction (sve_pool sv) req))"

definition service_query :: "service_env \<Rightarrow> graph_query_request \<Rightarrow> query_result pool_run" where
  "service_query sv req0 =
     (if graph_query_mutates (gqr_query req0) \<and> trim_space (gqr_actor req0) = []
      then run_err (Refused ''actor is required for graph mutations'')
      else run_bind (pool_domain (normalize_graph_query_request req0)) (\<lambda>req.
           run_bind (permit (authorize_graph_query (sve_firewall sv) req)) (\<lambda>_.
           pool_query (sve_pool sv) req)))"

section \<open>Maintenance\<close>

record organization_item =
  ogi_memory :: string
  ogi_title :: string
  ogi_questions :: "string list"
  ogi_summary_updated :: bool
  ogi_task :: string

record organize_result =
  ogr_reviewed :: nat
  ogr_repaired :: nat
  ogr_tasks :: "task list"
  ogr_items :: "organization_item list"

definition untitled :: "string \<Rightarrow> bool" where
  "untitled title \<longleftrightarrow> equal_fold title ''Untitled memory''"

definition memory_record_label :: "memory_record \<Rightarrow> string" where
  "memory_record_label r =
     (let title = trim_space (mem_title r)
      in if title \<noteq> [] \<and> \<not> untitled title then title
         else if src_system (mem_source r) \<noteq> [] \<and> src_id (mem_source r) \<noteq> []
         then src_system (mem_source r) @ '':'' @ src_id (mem_source r)
         else mem_id r)"

definition memory_follow_up_questions :: "memory_record \<Rightarrow> string \<Rightarrow> string list" where
  "memory_follow_up_questions r text =
     (let label = go_quote (memory_record_label r); title = trim_space (mem_title r)
      in opt_list (untitled title \<or> title = []) ''What short title should identify this memory?'' @
         opt_list (mem_topics r = []) (''Which topic should '' @ label @ '' belong to?'') @
         opt_list (mem_subjects r = [] \<and> mem_entity_names r = [] \<and> mem_entity_ids r = [])
           (''Who or what is '' @ label @ '' about?'') @
         opt_list (length (Go_Base.fields text) < 8)
           (''What additional detail should be preserved for '' @ label @ ''?''))"

text \<open>A text of at most 180 runes may be longer in bytes; both tests of the code return it.\<close>

fun cut_at_marker :: "string \<Rightarrow> string list \<Rightarrow> string option" where
  "cut_at_marker text [] = None"
| "cut_at_marker text (m # ms) =
     (case cut text m of Some (a, b) \<Rightarrow> Some (a @ take 1 m) | None \<Rightarrow> cut_at_marker text ms)"

definition memory_summary_from_content :: "string \<Rightarrow> string" where
  "memory_summary_from_content text0 =
     (let text = join_str (Go_Base.fields text0) '' ''
      in if text = [] then []
         else case cut_at_marker text [''. '', ''! '', ''? ''] of
                Some v \<Rightarrow> v
              | None \<Rightarrow> if length text \<le> 180 then text else trim_space (take 177 text) @ ''...'')"

definition follow_up_request :: "string \<Rightarrow> memory_record \<Rightarrow> string list \<Rightarrow> create_task_request" where
  "follow_up_request actor r questions =
     \<lparr>ctr_actor = actor, ctr_domain = mem_domain r, ctr_firewall = [],
      ctr_title = ''Clarify memory: '' @ memory_record_label r,
      ctr_description = ''Answer these questions so Agent Awesome can file this memory correctly:'' @ nl @ ''- '' @
        join_str questions (nl @ ''- ''),
      ctr_status = [], ctr_priority = ''normal'', ctr_due = None, ctr_scheduled = None, ctr_follow_up = None,
      ctr_topics = [''memory'', ''follow-up''], ctr_estimate = 0, ctr_urgency = Fin 0, ctr_project = [],
      ctr_location = [], ctr_person = [],
      ctr_links = [\<lparr>mlr_memory = mem_id r, mlr_evidence = [], mlr_relationship = ''originated_from'',
                    mlr_note = ''Created by memory organization batch maintenance.''\<rparr>],
      ctr_breakdown = no_breakdown, ctr_key = ''memory-organize-follow-up:'' @ mem_id r\<rparr>"

definition summary_repair :: "string \<Rightarrow> memory_record \<Rightarrow> string \<Rightarrow> repair_request" where
  "summary_repair actor r summary =
     \<lparr>rep_actor = actor, rep_memory = mem_id r, rep_domain = mem_domain r, rep_firewall = [],
      rep_kind = None, rep_sensitivity = None, rep_status = None, rep_title = None,
      rep_summary = Some summary, rep_subjects = None, rep_topics = None, rep_entities = None\<rparr>"

text \<open>The item of a record, the follow-up task if one was made, and whether the record was repaired.\<close>

definition organize_memory_record ::
    "service_env \<Rightarrow> organize_request \<Rightarrow> memory_record \<Rightarrow> (organization_item \<times> task option \<times> bool) pool_run" where
  "organize_memory_record sv req r =
     run_bind (pool_evidence_content (sve_pool sv) (mem_evidence r)) (\<lambda>text.
     let questions = memory_follow_up_questions r text;
         summary = (if trim_space (mem_summary r) = [] then memory_summary_from_content text else []);
         item = \<lparr>ogi_memory = mem_id r, ogi_title = mem_title r, ogi_questions = questions,
                 ogi_summary_updated = (summary \<noteq> []), ogi_task = []\<rparr>
     in run_bind (if summary \<noteq> [] \<and> \<not> org_dry_run req
                  then giving (\<lambda>_. True) (service_repair sv (summary_repair (org_actor req) r summary))
                  else run_ret False) (\<lambda>repaired.
        if questions = [] \<or> org_dry_run req then run_ret (item, None, repaired)
        else run_bind (pool_create_task (sve_pool sv) (sve_now sv) (follow_up_request (org_actor req) r questions))
               (\<lambda>t. run_ret (item\<lparr>ogi_task := tsk_id t\<rparr>, Some t, repaired))))"

fun organize_records ::
    "service_env \<Rightarrow> organize_request \<Rightarrow> memory_record list \<Rightarrow> organize_result \<Rightarrow> organize_result pool_run" where
  "organize_records sv req [] acc = run_ret acc"
| "organize_records sv req (r # rs) acc =
     run_bind (organize_memory_record sv req r) (\<lambda>(item, made, repaired).
     organize_records sv req rs
       (if ogi_questions item = [] \<and> \<not> ogi_summary_updated item then acc
        else acc\<lparr>ogr_repaired := ogr_repaired acc + (if repaired then 1 else 0),
                 ogr_tasks := ogr_tasks acc @ (case made of Some t \<Rightarrow> if tsk_id t \<noteq> [] then [t] else [] | None \<Rightarrow> []),
                 ogr_items := ogr_items acc @ [item]\<rparr>))"

definition organize_query :: "organize_request \<Rightarrow> retrieval_query" where
  "organize_query req =
     \<lparr>ret_actor = org_actor req, ret_domain = org_domain req, ret_firewall = [],
      ret_include_global = org_include_global req, ret_text = [], ret_kinds = [], ret_topics = [],
      ret_entities = [], ret_from = None, ret_to = None, ret_allowed = org_allowed req,
      ret_limit = org_limit req\<rparr>"

definition organize_memory :: "service_env \<Rightarrow> organize_request \<Rightarrow> organize_result pool_run" where
  "organize_memory sv req0 =
     run_bind (pool_domain (normalize_organize_request req0)) (\<lambda>req.
     run_bind (search_memory sv (organize_query req)) (\<lambda>b.
     organize_records sv req (rbu_primary b)
       \<lparr>ogr_reviewed = length (rbu_primary b), ogr_repaired = 0, ogr_tasks = [], ogr_items = []\<rparr>))"

section \<open>Jobs\<close>

record steward =
  std_classify :: "memory_record \<Rightarrow> string \<Rightarrow> string + repair_request"
  std_summarize :: "memory_record \<Rightarrow> string \<Rightarrow> string + string"
  std_review :: "memory_record \<Rightarrow> string \<Rightarrow> string + relationship list"

record job =
  job_kind :: string
  job_target :: string

text \<open>\<open>id.New\<close> gives the identifier of the audit event; a failure of the random source is not modelled here.\<close>

definition worker_audit :: "service_env \<Rightarrow> string \<Rightarrow> string \<Rightarrow> string \<Rightarrow> string \<Rightarrow> string \<Rightarrow> string \<Rightarrow> unit pool_run" where
  "worker_audit sv aid kind worker subject source message =
     pool_add_audit (sve_pool sv)
       \<lparr>mau_id = aid, mau_kind = kind, mau_actor = worker, mau_subject = subject, mau_source = source,
        mau_message = message, mau_details = []\<rparr>"

definition handle_classify ::
    "service_env \<Rightarrow> steward option \<Rightarrow> string \<Rightarrow> string \<Rightarrow> memory_record \<Rightarrow> string \<Rightarrow> unit pool_run" where
  "handle_classify sv st aid worker r text =
     (case st of
        None \<Rightarrow> worker_audit sv aid ''worker_enrichment'' worker (mem_id r) (mem_evidence r)
                  ''classification skipped because no steward is configured''
      | Some d \<Rightarrow>
          run_bind (permit (std_classify d r text)) (\<lambda>rep.
          giving (\<lambda>_. ()) (pool_repair (sve_pool sv)
            (rep\<lparr>rep_actor := worker, rep_memory := mem_id r, rep_domain := mem_domain r\<rparr>))))"

definition handle_summarize ::
    "service_env \<Rightarrow> steward option \<Rightarrow> string \<Rightarrow> string \<Rightarrow> memory_record \<Rightarrow> string \<Rightarrow> unit pool_run" where
  "handle_summarize sv st aid worker r text =
     (case st of
        None \<Rightarrow> worker_audit sv aid ''worker_enrichment'' worker (mem_id r) (mem_evidence r)
                  ''summarization skipped because deterministic capture summary already exists''
      | Some d \<Rightarrow>
          run_bind (permit (std_summarize d r text)) (\<lambda>summary.
          giving (\<lambda>_. ()) (pool_repair (sve_pool sv) (summary_repair worker r summary))))"

definition handle_contradictions ::
    "service_env \<Rightarrow> steward option \<Rightarrow> string \<Rightarrow> string \<Rightarrow> memory_record \<Rightarrow> string \<Rightarrow> unit pool_run" where
  "handle_contradictions sv st aid worker r text =
     (let note = worker_audit sv aid ''worker_enrichment'' worker (mem_id r) (mem_evidence r)
      in case st of
           None \<Rightarrow> note ''contradiction review skipped because no steward is configured''
         | Some d \<Rightarrow>
             run_bind (permit (std_review d r text)) (\<lambda>rels.
             if rels = [] then note ''steward found no contradictions''
             else note (''steward flagged '' @ nat_str (length rels) @ '' contradiction candidates for review'')))"

definition handle_job :: "service_env \<Rightarrow> steward option \<Rightarrow> string \<Rightarrow> string \<Rightarrow> job \<Rightarrow> unit pool_run" where
  "handle_job sv st aid worker j =
     run_bind (pool_get_memory (sve_pool sv) (job_target j)) (\<lambda>r.
     run_bind (pool_evidence_content (sve_pool sv) (mem_evidence r)) (\<lambda>text.
     let k = job_kind j; note = worker_audit sv aid k worker (job_target j) [] in
     if k = ''classification'' then handle_classify sv st aid worker r text
     else if k = ''entity_resolution'' then note ''entity aliases are already canonicalized during capture''
     else if k = ''relationship_linking'' then note ''relationship linking completed with deterministic v1 rules''
     else if k = ''summarization'' then handle_summarize sv st aid worker r text
     else if k = ''duplicate_detection''
     then note ''duplicate detection completed for checksum-indexed source content''
     else if k = ''contradiction_review'' then handle_contradictions sv st aid worker r text
     else if k = ''reindexing''
     then run_bind (pool_reindex (sve_pool sv) (job_target j)) (\<lambda>_. note ''lexical index refreshed'')
     else if k = ''compiled_page_refresh''
     then note ''compiled page refresh jobs are triggered explicitly in v1''
     else run_err (Refused (''unsupported job kind '' @ k))))"

section \<open>Domains\<close>

definition service_domains :: "service_env \<Rightarrow> string \<Rightarrow> domain_id \<Rightarrow> domain_info list pool_run" where
  "service_domains sv actor d p =
     (let infos = pool_domains (sve_pool sv) p
      in run_bind (permit (policy_for_authorization (sve_firewall sv))) (\<lambda>policy.
         if d = []
         then run_ret (filter (\<lambda>i. case policy of None \<Rightarrow> True | Some q \<Rightarrow> allows_read q actor (dmi_domain i)) infos)
         else run_bind (pool_domain (normalize_domain_id d [])) (\<lambda>n.
              if (case policy of None \<Rightarrow> False | Some q \<Rightarrow> \<not> allows_read q actor n)
              then run_err (Refused (''actor '' @ go_quote actor @ '' cannot read memory domain '' @ go_quote n))
              else run_ret (filter (\<lambda>i. dmi_domain i = n) infos))) p)"

definition service_create_domain :: "service_env \<Rightarrow> string \<Rightarrow> domain_id \<Rightarrow> domain_info pool_run" where
  "service_create_domain sv actor d =
     run_bind (pool_domain (normalize_domain_id d [])) (\<lambda>n.
     run_bind (permit (authorize_write (sve_firewall sv) actor n)) (\<lambda>_.
     pool_create_domain (sve_pool sv) n))"

definition service_remove_domain :: "service_env \<Rightarrow> string \<Rightarrow> domain_id \<Rightarrow> bool \<Rightarrow> domain_info pool_run" where
  "service_remove_domain sv actor d delete_files =
     run_bind (pool_domain (normalize_domain_id d [])) (\<lambda>n.
     run_bind (permit (authorize_write (sve_firewall sv) actor n)) (\<lambda>_.
     pool_remove_domain (sve_pool sv) n delete_files))"

section \<open>The executive summary\<close>

definition summary_graph_query :: "summary_query \<Rightarrow> task_graph_query" where
  "summary_graph_query q =
     \<lparr>tgq_tasks = \<lparr>tqu_domain = esq_domain q, tqu_firewall = [], tqu_statuses = [], tqu_priorities = [],
        tqu_topics = [], tqu_search = [], tqu_overdue_only = False, tqu_include_done = True,
        tqu_include_links = enabled (esq_evidence q), tqu_limit = 100\<rparr>,
      tgq_types = [], tgq_include_facets = True\<rparr>"

definition executive_summary :: "service_env \<Rightarrow> summary_query \<Rightarrow> summary_projection pool_run" where
  "executive_summary sv q0 =
     run_bind (pool_domain (normalize_summary_query (sve_now sv) q0)) (\<lambda>q.
     giving (project_summary (sve_zone sv) q) (pool_task_graph (sve_pool sv) (summary_graph_query q)))"

definition explain_summary_item :: "service_env \<Rightarrow> explain_query \<Rightarrow> item_explanation pool_run" where
  "explain_summary_item sv q0 =
     run_bind (pool_domain (normalize_explain_query q0)) (\<lambda>q.
     run_bind (executive_summary sv
       \<lparr>esq_domain = ''user'', esq_firewall = [], esq_horizon = ''today'', esq_now = None, esq_max_items = 50,
        esq_evidence = Some (enabled (exq_sources q)), esq_actions = Some (enabled (exq_sources q)),
        esq_channel = ''api''\<rparr>) (\<lambda>p.
     permit (explain_item p q)))"

section \<open>Requests\<close>

text \<open>The calls of the service. Those on tasks go to the pool as they are.\<close>

datatype call =
    Capture capture_request
  | Repair repair_request
  | Correct correction_request
  | RefreshPage refresh_page_request
  | EntityPage string domain_id string string
  | Timeline string domain_id string string
  | GraphQuery graph_query_request
  | SearchMemory retrieval_query
  | SearchSources retrieval_query
  | Organize organize_request
  | Metrics
  | ListDomains string domain_id
  | CreateDomain string domain_id
  | RemoveDomain string domain_id bool
  | CreateTask create_task_request
  | GetTask task_id_request
  | ListTasks task_query
  | ProjectTasks task_graph_query
  | UpdateTask update_task_request
  | CompleteTask task_id_request
  | CancelTask task_id_request
  | DeleteTask task_id_request
  | LinkTaskMemory link_task_memory_request
  | ListTaskRelations task_relation_query
  | TraverseTaskRelations task_relation_traversal_query
  | UpsertTaskRelation upsert_task_relation_request
  | DeleteTaskRelation delete_task_relation_request
  | Summarize summary_query
  | Explain explain_query

definition no_result :: "'a pool_run \<Rightarrow> unit pool_run" where
  "no_result m = giving (\<lambda>_. ()) m"

definition serve :: "service_env \<Rightarrow> call \<Rightarrow> unit pool_run" where
  "serve sv c =
     (let pe = sve_pool sv
      in case c of
           Capture r \<Rightarrow> no_result (service_capture sv r)
         | Repair r \<Rightarrow> no_result (service_repair sv r)
         | Correct r \<Rightarrow> no_result (service_correction sv r)
         | RefreshPage r \<Rightarrow> no_result (service_refresh_page sv r)
         | EntityPage actor d entity title \<Rightarrow> no_result (service_entity_page sv actor d entity title)
         | Timeline actor d topic entity \<Rightarrow> no_result (service_timeline sv actor d topic entity)
         | GraphQuery r \<Rightarrow> no_result (service_query sv r)
         | SearchMemory q \<Rightarrow> no_result (search_memory sv q)
         | SearchSources q \<Rightarrow> no_result (search_sources sv q)
         | Organize r \<Rightarrow> no_result (organize_memory sv r)
         | Metrics \<Rightarrow> no_result (pool_metrics pe)
         | ListDomains actor d \<Rightarrow> no_result (service_domains sv actor d)
         | CreateDomain actor d \<Rightarrow> no_result (service_create_domain sv actor d)
         | RemoveDomain actor d files \<Rightarrow> no_result (service_remove_domain sv actor d files)
         | CreateTask r \<Rightarrow> no_result (pool_create_task pe (sve_now sv) r)
         | GetTask r \<Rightarrow> no_result (pool_get_task pe r)
         | ListTasks q \<Rightarrow> no_result (pool_list_tasks pe q)
         | ProjectTasks q \<Rightarrow> no_result (pool_task_graph pe q)
         | UpdateTask r \<Rightarrow> no_result (pool_update_task pe r)
         | CompleteTask r \<Rightarrow> no_result (pool_complete_task pe r)
         | CancelTask r \<Rightarrow> no_result (pool_cancel_task pe r)
         | DeleteTask r \<Rightarrow> pool_delete_task pe r
         | LinkTaskMemory r \<Rightarrow> no_result (pool_link_task_memory pe r)
         | ListTaskRelations q \<Rightarrow> no_result (pool_list_task_relations pe q)
         | TraverseTaskRelations q \<Rightarrow> no_result (pool_traverse_task_relations pe q)
         | UpsertTaskRelation r \<Rightarrow> no_result (pool_upsert_task_relation pe r)
         | DeleteTaskRelation r \<Rightarrow> pool_delete_task_relation pe r
         | Summarize q \<Rightarrow> no_result (executive_summary sv q)
         | Explain q \<Rightarrow> no_result (explain_summary_item sv q))"

end
