(* ===== verification/Memory_Laws.thy ===== *)
theory Memory_Laws imports Memory_Service begin

text \<open>
  Relations between a memory database before and after that the whole service keeps. The locale
  \<open>memory_relation\<close> says what the operations of the store must keep; then every operation of the
  repositories of memories and tasks keeps it, and every call of the service keeps it for the
  database of every domain.
\<close>

section \<open>The relation on databases\<close>

lemma within_state: "(\<And>u. run_within R (f u)) \<Longrightarrow> run_within R (\<lambda>s. f s s)"
  by (simp add: run_within_def)

text \<open>The relation for the database of every domain.\<close>

definition everywhere :: "(memory_db \<Rightarrow> memory_db \<Rightarrow> bool) \<Rightarrow> pool \<Rightarrow> pool \<Rightarrow> bool" where
  "everywhere R p q \<longleftrightarrow> (\<forall>d. R (content p d) (content q d))"

lemma content_opened: "repo_for_domain d p = (r, q) \<Longrightarrow> content q x = content p x"
  by (auto simp: repo_for_domain_def content_def split: sum.splits if_splits option.splits)

lemma content_update: "content (p\<lparr>po_db := (po_db p)(n \<mapsto> db)\<rparr>) x = (if x = n then db else content p x)"
  by (simp add: content_def)

lemma on_repo_content:
  "on_repo pe n m p = (r, q) \<Longrightarrow>
   content q x = (if x = n then snd (m (pe_store pe n) (content p n)) else content p x)"
  by (auto simp: on_repo_def content_update split: prod.splits)

lemma pool_query_content:
  "(case query_graph (pe_store pe n) req (content p n) of
     (r, db) \<Rightarrow> (res_err Query r, p\<lparr>po_db := (po_db p)(n \<mapsto> db)\<rparr>)) = (r, q) \<Longrightarrow>
   content q x = (if x = n then snd (query_graph (pe_store pe n) req (content p n)) else content p x)"
  by (auto simp: content_update split: prod.splits)

lemma remove_domain_content:
  "content (snd (pool_remove_domain pe d files p)) x = content p x \<or> (files \<and> content (snd (pool_remove_domain pe d files p)) x = empty_memory)"
  by (auto simp: pool_remove_domain_def pool_domain_def content_def Let_def run_defs run_bind_def res_err_def
      split: sum.splits)

locale memory_relation =
  fixes R :: "memory_db \<Rightarrow> memory_db \<Rightarrow> bool"
  assumes kept_same: "reflp R"
    and kept_twice: "transp R"
    and kept_clock: "run_within R (memory_now se)"
    and kept_node: "run_within R (on_graph (upsert_node en nreq))"
    and kept_edge: "run_within R (on_graph (upsert_edge en ereq))"
    and kept_node_status: "run_within R (on_graph (set_node_status en nid st actor))"
    and kept_edge_status: "run_within R (on_graph (set_edge_status en eid st actor))"
    and kept_node_property: "run_within R (on_graph (upsert_node_property en preq))"
    and kept_edge_property: "run_within R (on_graph (upsert_edge_property en preq))"
    and kept_audit: "run_within R (on_graph (append_audit en areq))"
    and kept_query: "run_within R (query_graph se qreq)"
    and kept_alias: "run_within R (upsert_alias se alreq)"
    and kept_blob: "run_within R (write_evidence_blob se breq)"
    and kept_index: "run_within R (reindex_node nid)"
    and kept_unit: "run_within R (m :: capture_result mem_run) \<Longrightarrow> run_within R (memory_unit m)"
begin

lemmas kept_basic =
  within_ret [OF kept_same] within_err [OF kept_same] within_read [OF kept_same]
  within_lift [OF kept_same] within_pair [OF kept_same]

lemma kept_look: "run_within R (look f)" "run_within R (lift_domain r)" "run_within R (find_nodes se q)"
  unfolding look_def lift_domain_def find_nodes_def by (rule kept_basic)+

lemma kept_each: "(\<And>x. run_within R (f x)) \<Longrightarrow> run_within R (each f xs)"
  by (induction xs) (simp_all add: kept_basic within_bind [OF kept_twice])

lemma kept_do: "run_within R (on_graph m) \<Longrightarrow> run_within R (do_graph m)"
  unfolding do_graph_def by (intro within_bind [OF kept_twice] kept_basic)

lemma kept_when: "(\<And>x. run_within R (f x)) \<Longrightarrow> run_within R (when_some f v)"
  unfolding when_some_def by (intro within_case kept_basic)

lemmas kept_parts =
  kept_basic kept_look kept_clock kept_node kept_edge kept_node_status kept_edge_status
  kept_node_property kept_edge_property kept_audit kept_alias kept_blob kept_index

lemmas kept_steps =
  within_bind [OF kept_twice] within_case within_sum within_if kept_each kept_do kept_when

section \<open>Memories\<close>

lemma kept_archive: "run_within R (archive_edges se nid rel actor)"
  unfolding archive_edges_def by (intro kept_steps kept_parts)

lemma kept_facets:
  "run_within R (replace_facet_edges se mid ev actor rel vs prefix)"
  "run_within R (replace_entity_edges se mid ev actor names)"
  unfolding replace_facet_edges_def replace_entity_edges_def
  by (intro kept_steps kept_parts kept_archive)+

lemma kept_capture: "run_within R (capture se req)"
  unfolding capture_def known_capture_def capture_normalized_def write_capture_facts_def write_facets_def Let_def
  by (intro kept_steps kept_parts kept_facets kept_unit)

lemma kept_repair: "run_within R (repair_memory se req)"
  unfolding repair_memory_def Let_def by (intro kept_steps kept_parts kept_facets)

lemma kept_correction: "run_within R (create_correction se req)"
  unfolding create_correction_def by (intro kept_steps kept_parts kept_capture)

lemma kept_page: "run_within R (refresh_page se req)"
  unfolding refresh_page_def Let_def
  by (rule within_bind [OF kept_twice kept_look(2)], rule within_state) (intro kept_steps kept_parts)

lemma kept_entity_page: "run_within R (load_entity_page se d entity title)"
  unfolding load_entity_page_def [abs_def] Let_def by (rule within_state) (rule kept_page)

lemma kept_timeline: "run_within R (load_timeline se d topic entity)"
  unfolding load_timeline_def by (rule kept_page)

lemma kept_note: "run_within R (add_audit se ev)" "run_within R (reindex_memory mid)"
  unfolding add_audit_def reindex_memory_def by (intro kept_steps kept_parts)+

section \<open>Tasks\<close>

lemma kept_task_read: "run_within R (task_from_node se links n)"
  unfolding task_from_node_def Let_def by (intro kept_steps kept_parts)

lemma kept_get_task: "run_within R (get_task se req)"
  unfolding get_task_def by (intro kept_steps kept_parts kept_task_read)

lemma kept_list_nodes: "run_within R (list_task_nodes se q k ns)"
  by (induction ns arbitrary: k) (simp_all, (intro kept_steps kept_parts kept_task_read | assumption)+)

lemma kept_list_tasks: "run_within R (list_tasks se q)"
  unfolding list_tasks_def by (intro kept_steps kept_parts kept_list_nodes)

lemma kept_link: "run_within R (link_task_memory se req)"
  unfolding link_task_memory_def Let_def by (intro kept_steps kept_parts)

lemma kept_task_facet: "run_within R (write_task_facet_edge se tid kind key title rel actor)"
  unfolding write_task_facet_edge_def upsert_facet_node_def by (intro kept_steps kept_parts)

lemma kept_new_task: "run_within R (create_new_task se req)"
  unfolding create_new_task_def write_task_properties_def write_task_facet_edges_def
  by (intro kept_steps kept_parts kept_task_facet kept_link kept_task_read)

lemma kept_create_task: "run_within R (create_task se req)"
proof -
  have "run_within R (\<lambda>s. if c then f s else case g s of Inr n \<Rightarrow> h n s | Inl NoRows \<Rightarrow> f s | Inl e \<Rightarrow> (Inl (Graph e), s))"
    if "run_within R f" "\<And>n. run_within R (h n)" for c f g and h :: "node \<Rightarrow> task mem_run"
    using that reflpD [OF kept_same]
    by (auto simp: run_within_def split: sum.split gerr.split)
  from this [OF kept_new_task kept_task_read] show ?thesis
    unfolding create_task_def by (intro within_bind [OF kept_twice] kept_parts)
qed

lemma kept_status_patch: "run_within R (write_status_patch se nid st actor)"
  unfolding write_status_patch_def upsert_task_property_def Let_def by (intro kept_steps kept_parts)

lemma kept_patches:
  "run_within R (write_task_patch_properties se nid req)" "run_within R (write_task_patch_facets se nid req)"
proof -
  have "run_within R (each (\<lambda>m. m) ms)" if "\<forall>m\<in>set ms. run_within R m" for ms
    using that by (induction ms) (simp_all add: kept_basic within_bind [OF kept_twice])
  moreover have "run_within R (upsert_task_property se p)" for p
    unfolding upsert_task_property_def by (intro kept_steps kept_parts)
  ultimately show "run_within R (write_task_patch_properties se nid req)"
    unfolding write_task_patch_properties_def Let_def
    by (auto intro!: kept_status_patch kept_parts within_case kept_when within_bind [OF kept_twice])
  show "run_within R (write_task_patch_facets se nid req)"
    unfolding write_task_patch_facets_def replace_task_facet_edges_def
    by (intro kept_steps kept_parts kept_task_facet)
qed

lemma kept_update_task: "run_within R (update_task se req)"
  unfolding update_task_def Let_def by (intro kept_steps kept_parts kept_patches kept_get_task)

lemma kept_task_status:
  "run_within R (complete_task se tr)" "run_within R (cancel_task se tr)" "run_within R (delete_task se tr)"
  unfolding complete_task_def cancel_task_def delete_task_def by (intro kept_steps kept_parts kept_update_task)+

lemma kept_relations:
  "run_within R (upsert_task_relation se ureq)" "run_within R (delete_task_relation se dreq)"
  unfolding upsert_task_relation_def delete_task_relation_def by (intro kept_steps kept_parts)+

lemma kept_path: "run_within R (append_path se q st cycle paths)"
proof -
  have "run_within R (get_tasks se links tids)" for links tids
    by (induction tids) (simp_all, (intro kept_steps kept_parts kept_get_task | assumption)+)
  then show ?thesis unfolding append_path_def by (intro kept_steps kept_parts)
qed

lemma kept_walk: "run_within R (walk_relations d se q here st paths)"
proof (induction d arbitrary: here st paths)
  case 0
  show ?case unfolding walk_relations.simps by (intro kept_steps kept_parts kept_path)
next
  case (Suc d)
  have loop: "run_within R (each_relation limit f rs paths)" if "\<And>r ps. run_within R (f r ps)" for limit f rs paths
    by (induction rs arbitrary: paths) (simp_all add: kept_basic that within_bind [OF kept_twice])
  show ?case
    unfolding walk_relations.simps Let_def by (intro kept_steps kept_parts kept_path loop Suc.IH)
qed

lemma kept_traverse: "run_within R (traverse_task_relations se q)"
  unfolding traverse_task_relations_def by (intro kept_steps kept_parts kept_walk)

lemma kept_projection: "run_within R (task_graph_projection se q)"
  unfolding task_graph_projection_def Let_def by (intro kept_steps kept_parts kept_list_tasks)

end

section \<open>The relation on pools\<close>

text \<open>A relation on pools that holds when a database goes to one in the relation on databases.\<close>

locale pool_relation = memory_relation R for R +
  fixes Q :: "pool \<Rightarrow> pool \<Rightarrow> bool"
  assumes pool_same: "reflp Q"
    and pool_twice: "transp Q"
    and pool_opened: "Q p (snd (repo_for_domain d p))"
    and pool_changed: "R (content p n) db \<Longrightarrow> Q p (p\<lparr>po_db := (po_db p)(n \<mapsto> db)\<rparr>)"
    and pool_shut: "Q p (p\<lparr>po_open := filter g (po_open p)\<rparr>)"
begin

lemmas pool_basic =
  within_ret [OF pool_same] within_err [OF pool_same] within_read [OF pool_same]
  within_lift [OF pool_same] within_pair [OF pool_same]

lemma pool_lift: "run_within Q (pool_domain r)" "run_within Q (permit q)"
  unfolding pool_domain_def permit_def by (rule pool_basic)+

lemma pool_open: "run_within Q (repo_for_domain d)"
  unfolding run_within_def by (blast intro: pool_opened)

lemma pool_repo:
  assumes "\<And>se. run_within R (m se)"
  shows "run_within Q (with_repo pe d m)"
proof -
  have "run_within Q (on_repo pe n m)" for n
    unfolding run_within_def on_repo_def
    using assms pool_changed by (auto simp: run_within_def split: prod.split) (metis snd_conv)
  then show ?thesis
    unfolding with_repo_def by (intro within_bind [OF pool_twice] pool_open)
qed

lemma pool_giving: "run_within Q m \<Longrightarrow> run_within Q (giving f m)"
  unfolding giving_def by (intro within_bind [OF pool_twice] pool_basic)

lemma pool_no_result: "run_within Q m \<Longrightarrow> run_within Q (no_result m)"
  unfolding no_result_def by (rule pool_giving)

lemmas pool_steps =
  within_bind [OF pool_twice] within_case within_sum within_if pool_giving pool_no_result
  pool_basic pool_lift pool_open pool_repo kept_basic

lemma pool_first: "run_within Q (first_domain pe f ds)"
  by (induction ds) (simp_all add: pool_basic, (intro pool_steps | assumption)+)

lemma pool_reads: "run_within Q (pool_get_memory pe mid)" "run_within Q (pool_evidence_content pe ev)"
  unfolding pool_get_memory_def [abs_def] pool_evidence_content_def [abs_def]
  by (rule within_state, intro pool_steps pool_first)+

lemma pool_searches: "run_within Q (pool_search pe q)"
proof -
  have "run_within Q (search_domains pe q ds acc)" for q ds acc
    by (induction ds arbitrary: acc) (simp_all add: pool_basic Let_def, (intro pool_steps | assumption)+)
  then show ?thesis unfolding pool_search_def by (intro pool_steps)
qed

lemma pool_memory_calls:
  "run_within Q (pool_capture pe cr)"
  "run_within Q (pool_repair pe rr)"
  "run_within Q (pool_correction pe kr)"
  "run_within Q (pool_refresh_page pe pr)"
  "run_within Q (pool_entity_page pe d entity title)"
  "run_within Q (pool_timeline pe d topic entity)"
  "run_within Q (pool_reindex pe mid)"
  "run_within Q (pool_add_audit pe ev)"
  unfolding pool_capture_def pool_repair_def pool_correction_def pool_refresh_page_def pool_entity_page_def
    pool_timeline_def pool_reindex_def pool_add_audit_def
  by (intro pool_steps pool_reads kept_capture kept_repair kept_correction kept_page kept_note)+

lemma pool_queries: "run_within Q (pool_query pe req)"
proof -
  have "run_within Q (\<lambda>p. case query_graph (pe_store pe n) req (content p n) of
       (r, db) \<Rightarrow> (res_err Query r, p\<lparr>po_db := (po_db p)(n \<mapsto> db)\<rparr>))" for n req
    unfolding run_within_def
    using kept_query pool_changed by (auto simp: run_within_def split: prod.split) (metis snd_conv)
  then show ?thesis unfolding pool_query_def by (intro pool_steps)
qed

lemma pool_task_calls:
  "run_within Q (pool_create_task pe now ctr)"
  "run_within Q (pool_get_task pe tr)"
  "run_within Q (pool_list_tasks pe tq)"
  "run_within Q (pool_task_graph pe gq)"
  "run_within Q (pool_update_task pe ur)"
  "run_within Q (pool_complete_task pe tr)"
  "run_within Q (pool_cancel_task pe tr)"
  "run_within Q (pool_delete_task pe tr)"
  "run_within Q (pool_link_task_memory pe lr)"
  "run_within Q (pool_list_task_relations pe rq)"
  "run_within Q (pool_traverse_task_relations pe vq)"
  "run_within Q (pool_upsert_task_relation pe xr)"
  "run_within Q (pool_delete_task_relation pe dr)"
  unfolding pool_create_task_def pool_get_task_def pool_list_tasks_def pool_task_graph_def pool_update_task_def
    pool_complete_task_def pool_cancel_task_def pool_delete_task_def pool_link_task_memory_def
    pool_list_task_relations_def pool_traverse_task_relations_def pool_upsert_task_relation_def
    pool_delete_task_relation_def
  by (intro pool_steps kept_create_task kept_get_task kept_list_tasks kept_projection kept_update_task
      kept_task_status kept_link kept_relations kept_traverse)+

section \<open>The service\<close>

lemma service_memory_calls:
  "run_within Q (service_capture sv cr)"
  "run_within Q (service_repair sv rr)"
  "run_within Q (service_correction sv kr)"
  "run_within Q (service_refresh_page sv pr)"
  "run_within Q (service_entity_page sv actor d entity title)"
  "run_within Q (service_timeline sv actor d topic entity)"
  "run_within Q (service_query sv qr)"
  unfolding service_capture_def service_repair_def service_correction_def service_refresh_page_def
    service_entity_page_def service_timeline_def service_query_def
  by (intro pool_steps pool_memory_calls pool_reads pool_queries)+

lemma service_searches: "run_within Q (search_memory sv q)" "run_within Q (search_sources sv q)"
proof -
  show *: "run_within Q (search_memory sv q)" for q
    unfolding search_memory_def by (intro pool_steps pool_searches)
  have "run_within Q (hydrate sv rs)" for rs
    by (induction rs) (simp_all add: pool_basic, (intro pool_steps pool_reads | assumption)+)
  then show "run_within Q (search_sources sv q)"
    unfolding search_sources_def by (intro pool_steps *)
qed

lemma service_organize: "run_within Q (organize_memory sv req)"
proof -
  have "run_within Q (organize_memory_record sv req r)" for req r
    unfolding organize_memory_record_def Let_def
    by (intro pool_steps pool_reads service_memory_calls pool_task_calls)
  then have "run_within Q (organize_records sv req rs acc)" for req rs acc
    by (induction rs arbitrary: acc) (simp_all add: pool_basic, (intro pool_steps | simp)+)
  then show ?thesis
    unfolding organize_memory_def by (intro pool_steps service_searches)
qed

lemma service_jobs: "run_within Q (handle_job sv st aid worker j)"
  unfolding handle_job_def handle_classify_def handle_summarize_def handle_contradictions_def worker_audit_def Let_def
  by (intro pool_steps pool_reads pool_memory_calls)

lemma service_domain_calls:
  "run_within Q (service_domains sv actor d)"
  "run_within Q (service_create_domain sv actor d)"
  "run_within Q (service_remove_domain sv actor d False)"
proof -
  show "run_within Q (service_domains sv actor d)"
    unfolding service_domains_def [abs_def] Let_def by (rule within_state) (intro pool_steps)
  show "run_within Q (service_create_domain sv actor d)"
    unfolding service_create_domain_def pool_create_domain_def by (intro pool_steps)
  have "run_within Q (pool_remove_domain pe d False)" for pe d
    unfolding pool_remove_domain_def Let_def if_False
    by (intro pool_steps) (simp add: run_within_def pool_shut)
  then show "run_within Q (service_remove_domain sv actor d False)"
    unfolding service_remove_domain_def by (intro pool_steps)
qed

lemma service_metrics: "run_within Q (pool_metrics pe)"
proof -
  have *: "run_within Q (sum_metrics pe ds acc)" for ds acc
    by (induction ds arbitrary: acc) (simp_all add: pool_basic, (intro pool_steps | simp)+)
  show ?thesis unfolding pool_metrics_def [abs_def] by (rule within_state) (rule *)
qed

lemma service_summaries:
  "run_within Q (executive_summary sv q)" "run_within Q (explain_summary_item sv xq)"
  unfolding explain_summary_item_def executive_summary_def by (intro pool_steps pool_task_calls)+

text \<open>Every call of the service but the one that deletes a database.\<close>

lemmas service_calls =
  service_memory_calls service_searches service_organize service_domain_calls service_metrics
  service_summaries pool_task_calls

lemma kept_serve:
  assumes "\<And>actor d. c \<noteq> RemoveDomain actor d True"
  shows "run_within Q (serve sv c)"
proof (cases c)
  case (RemoveDomain actor d files)
  then have "\<not> files" using assms by auto
  then show ?thesis
    using RemoveDomain by (simp only: serve_def Let_def call.case service_calls pool_no_result)
qed (simp_all only: serve_def Let_def call.case service_calls pool_no_result)

end

section \<open>Every domain\<close>

sublocale memory_relation \<subseteq> each_domain: pool_relation R "everywhere R"
proof
  show "reflp (everywhere R)"
    using reflpD [OF kept_same] by (simp add: everywhere_def reflpI)
  show "transp (everywhere R)"
    using transpD [OF kept_twice] unfolding everywhere_def by (intro transpI) blast
  show "everywhere R p (snd (repo_for_domain d p))" for p d
    using content_opened reflpD [OF kept_same] unfolding everywhere_def by (metis prod.collapse)
  show "R (content p n) db \<Longrightarrow> everywhere R p (p\<lparr>po_db := (po_db p)(n \<mapsto> db)\<rparr>)" for p n db
    using reflpD [OF kept_same] by (simp add: everywhere_def content_update)
  show "everywhere R p (p\<lparr>po_open := filter g (po_open p)\<rparr>)" for p g
    using reflpD [OF kept_same] by (simp add: everywhere_def content_def)
qed

end
