(* ===== verification/Memory_Normal.thy ===== *)
theory Memory_Normal imports Memory_Service begin

text \<open>
  What a normalised request is: it names the domain of the request, and normalising it again changes
  nothing, so that it does not matter that the service, the pool and the repository each do it.
\<close>

section \<open>Names of domains\<close>

definition named :: "domain_id \<Rightarrow> firewall \<Rightarrow> domain_id set" where
  "named d f = (case normalize_domain_id d f of Inl _ \<Rightarrow> {} | Inr n \<Rightarrow> {n})"

lemma firewall_rune_no_space: "firewall_rune c \<Longrightarrow> \<not> is_space c"
  by (auto simp: firewall_rune_def is_space_def rune_def)

lemma valid_firewall_runes: "valid_firewall d \<Longrightarrow> d \<noteq> [] \<and> (\<forall>c\<in>set d. firewall_rune c)"
proof (cases d)
  case (Cons c s)
  assume "valid_firewall d"
  then have "firewall_runes_ok 0 (c # s)" using Cons by (simp add: valid_firewall_def split: if_splits)
  then show ?thesis
    using Cons firewall_runes_tail [of "Suc 0" s] by (auto simp: Let_def firewall_rune_def split: if_splits)
qed (simp add: valid_firewall_def)

lemma valid_firewall_trim: "valid_firewall d \<Longrightarrow> trim_space d = d"
  by (intro trim_space_id) (blast dest: valid_firewall_runes firewall_rune_no_space)

lemma normalize_domain_valid: "normalize_domain_id d f = Inr n \<Longrightarrow> valid_firewall n"
  by (auto simp: normalize_domain_id_def Let_def split: if_splits)

lemma normalize_valid_domain: "valid_firewall n \<Longrightarrow> normalize_domain_id n f = Inr n"
  using valid_firewall_runes [of n]
  by (simp add: normalize_domain_id_def Let_def valid_firewall_trim default_firewall_def)

lemma normalize_domain_twice: "normalize_domain_id d f = Inr n \<Longrightarrow> normalize_domain_id n g = Inr n"
  by (rule normalize_valid_domain [OF normalize_domain_valid])

lemma named_normal: "normalize_domain_id d f = Inr n \<Longrightarrow> named d f = {n} \<and> named n g = {n}"
  by (simp add: named_def normalize_domain_twice)

section \<open>Requests\<close>

text \<open>A normalised request names the domain that its request named.\<close>

lemma check_Inr: "check b e = Inr x \<longleftrightarrow> b"
  by (simp add: check_def)

named_theorems normal "what a normalised request names"

lemma capture_names [normal]:
  "normalize_capture_request r = Inr r' \<Longrightarrow> normalize_domain_id (cap_domain r) (cap_firewall r) = Inr (cap_domain r')"
  by (auto simp: normalize_capture_request_def Let_def res_bind_Inr split: if_splits)

lemma retrieval_names [normal]:
  "normalize_retrieval_query r = Inr r' \<Longrightarrow> normalize_domain_id (ret_domain r) (ret_firewall r) = Inr (ret_domain r')"
  by (auto simp: normalize_retrieval_query_def Let_def res_bind_Inr)

lemma repair_names [normal]:
  "normalize_repair_request r = Inr r' \<Longrightarrow>
   normalize_domain_id (rep_domain r) (rep_firewall r) = Inr (rep_domain r')"
  by (auto simp: normalize_repair_request_def Let_def res_bind_Inr split: if_splits)

lemma correction_names [normal]:
  "normalize_correction_request r = Inr r' \<Longrightarrow> normalize_domain_id (cor_domain r) (cor_firewall r) = Inr (cor_domain r')"
  by (auto simp: normalize_correction_request_def Let_def res_bind_Inr split: if_splits)

lemma page_names [normal]:
  "normalize_refresh_page_request r = Inr r' \<Longrightarrow> normalize_domain_id (rfp_domain r) (rfp_firewall r) = Inr (rfp_domain r')"
  by (auto simp: normalize_refresh_page_request_def Let_def res_bind_Inr split: if_splits)

lemma query_names [normal]:
  "normalize_graph_query_request r = Inr r' \<Longrightarrow> normalize_domain_id (gqr_domain r) (gqr_firewall r) = Inr (gqr_domain r')"
  by (auto simp: normalize_graph_query_request_def Let_def res_bind_Inr split: if_splits)

lemma create_task_names [normal]:
  "normalize_create_task_request now r = Inr r' \<Longrightarrow> normalize_domain_id (ctr_domain r) (ctr_firewall r) = Inr (ctr_domain r')"
  by (auto simp: normalize_create_task_request_def Let_def res_bind_Inr check_Inr split: if_splits)

lemma update_task_names [normal]:
  "normalize_update_task_request r = Inr r' \<Longrightarrow> normalize_domain_id (utr_domain r) (utr_firewall r) = Inr (utr_domain r')"
  by (auto simp: normalize_update_task_request_def Let_def res_bind_Inr split: if_splits)

lemma task_query_names [normal]:
  "normalize_task_query r = Inr r' \<Longrightarrow> normalize_domain_id (tqu_domain r) (tqu_firewall r) = Inr (tqu_domain r')"
  by (auto simp: normalize_task_query_def Let_def res_bind_Inr)

lemma task_graph_names [normal]:
  "normalize_task_graph_query q = Inr q' \<Longrightarrow>
   normalize_domain_id (tqu_domain (tgq_tasks q)) (tqu_firewall (tgq_tasks q)) = Inr (tqu_domain (tgq_tasks q'))"
  by (auto simp: normalize_task_graph_query_def res_bind_Inr dest: task_query_names)

lemma relation_query_names [normal]:
  "normalize_task_relation_query r = Inr r' \<Longrightarrow> normalize_domain_id (trq_domain r) (trq_firewall r) = Inr (trq_domain r')"
  by (auto simp: normalize_task_relation_query_def res_bind_Inr)

lemma traversal_names [normal]:
  "normalize_task_relation_traversal_query r = Inr r' \<Longrightarrow>
   normalize_domain_id (ttq_domain r) (ttq_firewall r) = Inr (ttq_domain r')"
  by (auto simp: normalize_task_relation_traversal_query_def res_bind_Inr split: if_splits)

lemma task_id_names [normal]:
  "normalize_task_id_request r = Inr r' \<Longrightarrow> normalize_domain_id (tir_domain r) (tir_firewall r) = Inr (tir_domain r')"
  by (auto simp: normalize_task_id_request_def res_bind_Inr split: if_splits)

lemma relation_names [normal]:
  "normalize_upsert_task_relation_request r = Inr r' \<Longrightarrow>
   normalize_domain_id (utq_domain r) (utq_firewall r) = Inr (utq_domain r')"
  "normalize_delete_task_relation_request x = Inr x' \<Longrightarrow>
   normalize_domain_id (dtr_domain x) (dtr_firewall x) = Inr (dtr_domain x')"
  by (auto simp: normalize_upsert_task_relation_request_def normalize_delete_task_relation_request_def
      Let_def res_bind_Inr split: if_splits)

lemma link_names [normal]:
  "normalize_link_task_memory_request r = Inr r' \<Longrightarrow>
   normalize_domain_id (ltm_domain r) (ltm_firewall r) = Inr (ltm_domain r')"
  by (auto simp: normalize_link_task_memory_request_def res_simps split: if_splits)

lemma summary_names [normal]:
  "normalize_summary_query now q = Inr q' \<Longrightarrow> normalize_domain_id (esq_domain q) (esq_firewall q) = Inr (esq_domain q')"
  by (auto simp: normalize_summary_query_def Let_def res_bind_Inr)

section \<open>Normalising again\<close>

named_theorems again "normalising a normalised request"

lemmas idem_simps = res_simps check_Inr normalize_valid_domain lower_unique_idem norm_default_agent_idem norm_key_idem

lemma trimmed_default:
  "trim_space ''user'' = ''user''" "trim_space ''text/plain; charset=utf-8'' = ''text/plain; charset=utf-8''"
  "trim_space ''Untitled memory'' = ''Untitled memory''"
  by code_simp+

lemma norm_default_user [simp]: "norm_default (norm_default v ''user'') ''user'' = norm_default v ''user''"
  by (rule norm_default_idem) (rule trimmed_default)

lemma norm_default_media [simp]:
  "norm_default (norm_default v ''text/plain; charset=utf-8'') ''text/plain; charset=utf-8'' =
   norm_default v ''text/plain; charset=utf-8''"
  by (rule norm_default_idem) (rule trimmed_default)

lemma or_default_again [simp]: "or_default (or_default v d) d = or_default v d"
  by (simp add: or_default_def)

lemma title_again [simp]:
  "or_default (trim_space (or_default (trim_space v) ''Untitled memory'')) ''Untitled memory'' =
   or_default (trim_space v) ''Untitled memory''"
  by (simp add: or_default_def trimmed_default)

lemma limit_again [simp]: "0 < d \<Longrightarrow> d \<le> m \<Longrightarrow> limit_or m d (limit_or m d l) = limit_or m d l"
  by (simp add: limit_or_def)

lemma readable_again [simp]: "readable_or_default (readable_or_default vs) = readable_or_default vs"
  by (simp add: readable_or_default_def)

lemma capture_again [again]: 
  assumes "normalize_capture_request r = Inr x"
  shows "normalize_capture_request x = Inr x"
proof -
  obtain d where d: "valid_firewall d"
    and x: "x = r\<lparr>cap_content := trim_space (cap_content r), cap_actor := norm_default (cap_actor r) default_agent_actor,
       cap_media_type := norm_default (cap_media_type r) ''text/plain; charset=utf-8'',
       cap_title := or_default (trim_space (cap_title r)) ''Untitled memory'', cap_key := trim_space (cap_key r),
       cap_kind := or_default (cap_kind r) ''document'', cap_domain := d, cap_firewall := d,
       cap_trust := default_trust_level (cap_trust r) ''source_original'',
       cap_sensitivity := default_sensitivity (cap_sensitivity r), cap_subjects := lower_unique (cap_subjects r),
       cap_topics := lower_unique (cap_topics r), cap_entities := lower_unique (cap_entities r)\<rparr>"
    and ok: "trim_space (cap_content r) \<noteq> []" "valid_kind (or_default (cap_kind r) ''document'')"
      "valid_trust_level (default_trust_level (cap_trust r) ''source_original'')"
      "valid_sensitivity (default_sensitivity (cap_sensitivity r))"
    using assms
    by (auto simp: normalize_capture_request_def Let_def res_simps check_Inr dest!: normalize_domain_valid split: if_splits)
  have "normalize_domain_id d d = Inr d" by (rule normalize_valid_domain [OF d])
  then show ?thesis
    unfolding x normalize_capture_request_def Let_def
    using ok
    by (simp add: check_def lower_unique_idem norm_default_agent_idem default_sensitivity_idem default_trust_idem)
qed

lemma retrieval_again [again]: "normalize_retrieval_query r = Inr x \<Longrightarrow> normalize_retrieval_query x = Inr x"
  by (auto simp: normalize_retrieval_query_def Let_def idem_simps dest!: normalize_domain_valid)

lemma organize_again [again]: "normalize_organize_request r = Inr x \<Longrightarrow> normalize_organize_request x = Inr x"
  by (auto simp: normalize_organize_request_def Let_def idem_simps dest!: normalize_domain_valid)

lemma repair_again [again]: "normalize_repair_request r = Inr x \<Longrightarrow> normalize_repair_request x = Inr x"
  by (auto simp: normalize_repair_request_def normalize_slice_def Let_def idem_simps dest!: normalize_domain_valid split: if_splits)

lemma correction_again [again]: "normalize_correction_request r = Inr x \<Longrightarrow> normalize_correction_request x = Inr x"
  by (auto simp: normalize_correction_request_def Let_def idem_simps dest!: normalize_domain_valid split: if_splits)

lemma page_again [again]:
  assumes "normalize_refresh_page_request r = Inr x"
  shows "normalize_refresh_page_request x = Inr x"
proof -
  define k where "k = or_default (rfp_kind r) ''entity_page''"
  obtain d where d: "valid_firewall d"
    and x: "x = r\<lparr>rfp_actor := norm_default (rfp_actor r) default_agent_actor, rfp_kind := k, rfp_domain := d,
       rfp_firewall := d, rfp_title := trim_space (rfp_title r), rfp_topic := trim_space (rfp_topic r)\<rparr>"
    and ok: "k = ''entity_page'' \<or> k = ''timeline''"
      "\<not> (trim_space (rfp_title r) = [] \<and> rfp_entity r = [] \<and> trim_space (rfp_topic r) = [])"
    using assms
    by (auto simp: normalize_refresh_page_request_def Let_def res_simps k_def [symmetric]
        dest!: normalize_domain_valid split: if_splits)
  have "or_default k ''entity_page'' = k" by (simp add: k_def)
  then show ?thesis
    unfolding x normalize_refresh_page_request_def Let_def
    using ok normalize_valid_domain [OF d, of d] by (simp add: norm_default_agent_idem)
qed

lemma query_again [again]: "normalize_graph_query_request r = Inr x \<Longrightarrow> normalize_graph_query_request x = Inr x"
  by (auto simp: normalize_graph_query_request_def Let_def idem_simps dest!: normalize_domain_valid split: if_splits)

lemma link_request_again [again]: "normalize_memory_link_request l = Inr y \<Longrightarrow> normalize_memory_link_request y = Inr y"
  by (auto simp: normalize_memory_link_request_def Let_def idem_simps split: if_splits)

lemma links_again [again]: "normalize_task_memory_links ls = Inr ys \<Longrightarrow> normalize_task_memory_links ys = Inr ys"
  unfolding normalize_task_memory_links_def
  by (induction ls arbitrary: ys) (auto simp: link_request_again)

lemma resource_again: "normalize_resource_requirement (normalize_resource_requirement r) = normalize_resource_requirement r"
  by (simp add: normalize_resource_requirement_def)

lemma breakdown_again [simp]: "normalize_work_breakdown (normalize_work_breakdown w) = normalize_work_breakdown w"
proof -
  have "map normalize_resource_requirement (filter P (map normalize_resource_requirement rs)) =
      filter P (map normalize_resource_requirement rs)" for P rs
    by (induction rs) (simp_all add: resource_again)
  then show ?thesis by (simp add: normalize_work_breakdown_def lower_unique_idem)
qed

lemma update_task_again [again]:
  assumes "normalize_update_task_request r = Inr x"
  shows "normalize_update_task_request x = Inr x"
proof -
  obtain d where d: "valid_firewall d"
    and x: "x = r\<lparr>utr_actor := norm_default (utr_actor r) ''user'', utr_domain := d, utr_firewall := d,
       utr_title := map_option trim_space (utr_title r), utr_description := map_option trim_space (utr_description r),
       utr_project := map_option trim_space (utr_project r), utr_location := map_option trim_space (utr_location r),
       utr_person := map_option trim_space (utr_person r),
       utr_breakdown := map_option normalize_work_breakdown (utr_breakdown r),
       utr_topics := map_option lower_unique (utr_topics r)\<rparr>"
    and ok: "utr_task r \<noteq> []" "map_option trim_space (utr_title r) \<noteq> Some []"
      "opt_ok valid_task_status (utr_status r)" "opt_ok valid_task_priority (utr_priority r)"
      "validate_task_metadata_pointers (utr_estimate r) (utr_urgency r) = Inr ()" "task_update_has_changes x"
    using assms
    by (auto simp: normalize_update_task_request_def Let_def res_simps dest!: normalize_domain_valid split: if_splits)
  have again: "map_option trim_space (map_option trim_space v) = map_option trim_space v"
    "map_option normalize_work_breakdown (map_option normalize_work_breakdown w) = map_option normalize_work_breakdown w"
    "map_option lower_unique (map_option lower_unique ts) = map_option lower_unique ts" for v w ts
    by (simp_all add: option.map_comp comp_def lower_unique_idem)
  show ?thesis
    unfolding normalize_update_task_request_def Let_def
    using ok normalize_valid_domain [OF d, of d] by (simp add: x again)
qed

lemma task_query_again [again]: "normalize_task_query q = Inr y \<Longrightarrow> normalize_task_query y = Inr y"
  by (auto simp: normalize_task_query_def Let_def idem_simps dest!: normalize_domain_valid)

lemma direction_again: "normalize_direction v = Inr d \<Longrightarrow> normalize_direction d = Inr d"
proof -
  assume "normalize_direction v = Inr d"
  then have "d \<in> set task_relation_directions"
    by (auto simp: normalize_direction_def Let_def split: if_splits)
  moreover have "\<forall>d\<in>set task_relation_directions. normalize_direction d = Inr d" by code_simp
  ultimately show ?thesis by blast
qed

lemma relation_query_again [again]:
  assumes "normalize_task_relation_query q = Inr y"
  shows "normalize_task_relation_query y = Inr y"
proof -
  obtain d dir where d: "valid_firewall d" and dir: "normalize_direction (trq_direction q) = Inr dir"
    and ok: "check_relation_types (trq_types q) = Inr ()"
    and y: "y = q\<lparr>trq_domain := d, trq_firewall := d, trq_direction := dir, trq_limit := limit_or 500 100 (trq_limit q)\<rparr>"
    using assms by (auto simp: normalize_task_relation_query_def res_simps dest!: normalize_domain_valid)
  show ?thesis
    unfolding normalize_task_relation_query_def y
    using ok direction_again [OF dir] normalize_valid_domain [OF d, of d] by simp
qed

lemma traversal_again [again]:
  assumes "normalize_task_relation_traversal_query q = Inr y"
  shows "normalize_task_relation_traversal_query y = Inr y"
proof -
  obtain d dir where d: "valid_firewall d" and dir: "normalize_direction (ttq_direction q) = Inr dir"
    and ok: "check_relation_types (ttq_types q) = Inr ()" "ttq_root q \<noteq> []"
    and y: "y = q\<lparr>ttq_domain := d, ttq_firewall := d, ttq_direction := dir,
       ttq_max_depth := limit_or 12 6 (ttq_max_depth q), ttq_limit := limit_or 500 100 (ttq_limit q)\<rparr>"
    using assms
    by (auto simp: normalize_task_relation_traversal_query_def res_simps dest!: normalize_domain_valid split: if_splits)
  show ?thesis
    unfolding normalize_task_relation_traversal_query_def y
    using ok direction_again [OF dir] normalize_valid_domain [OF d, of d] by simp
qed

lemma task_id_again [again]: "normalize_task_id_request r = Inr x \<Longrightarrow> normalize_task_id_request x = Inr x"
  by (auto simp: normalize_task_id_request_def idem_simps dest!: normalize_domain_valid split: if_splits)

lemma relations_again [again]:
  "normalize_upsert_task_relation_request r = Inr x \<Longrightarrow> normalize_upsert_task_relation_request x = Inr x"
  "normalize_delete_task_relation_request q = Inr y \<Longrightarrow> normalize_delete_task_relation_request y = Inr y"
  by (auto simp: normalize_upsert_task_relation_request_def normalize_delete_task_relation_request_def Let_def
      idem_simps dest!: normalize_domain_valid split: if_splits)

lemma task_link_again [again]:
  assumes "normalize_link_task_memory_request r = Inr x"
  shows "normalize_link_task_memory_request x = Inr x"
proof -
  obtain d l where d: "valid_firewall d" and l: "normalize_memory_link_request (ltm_link r) = Inr l"
    and "ltm_task r \<noteq> []" "x = r\<lparr>ltm_domain := d, ltm_firewall := d, ltm_link := l\<rparr>"
    using assms
    by (auto simp: normalize_link_task_memory_request_def res_simps dest!: normalize_domain_valid split: if_splits)
  then show ?thesis
    using link_request_again [OF l] normalize_valid_domain [OF d, of d]
    by (simp add: normalize_link_task_memory_request_def)
qed

lemma task_graph_again [again]:
  assumes "normalize_task_graph_query q = Inr y"
  shows "normalize_task_graph_query y = Inr y"
proof -
  obtain t where t: "normalize_task_query (tgq_tasks q) = Inr t" and "check_relation_types (tgq_types q) = Inr ()"
    "y = q\<lparr>tgq_tasks := t\<rparr>"
    using assms by (auto simp: normalize_task_graph_query_def res_simps)
  then show ?thesis
    using task_query_again [OF t] by (simp add: normalize_task_graph_query_def)
qed

lemma summary_again [again]:
  assumes "normalize_summary_query now q = Inr y"
  shows "normalize_summary_query later y = Inr y"
proof -
  define h where "h = or_default (trim_space (esq_horizon q)) ''today''"
  define c where "c = or_default (trim_space (esq_channel q)) ''ui''"
  obtain d where d: "valid_firewall d" and h: "h \<in> set executive_summary_horizons"
    and c: "c \<in> set executive_summary_channels"
    and y: "esq_domain y = d" "esq_firewall y = d" "esq_horizon y = h" "esq_channel y = c"
      "esq_now y \<noteq> None" "0 < esq_max_items y" "esq_max_items y \<le> 50" "esq_evidence y \<noteq> None" "esq_actions y \<noteq> None"
    using assms
    by (auto simp: normalize_summary_query_def Let_def res_simps check_Inr h_def [symmetric] c_def [symmetric]
        dest!: normalize_domain_valid split: if_splits)
  have "\<forall>h\<in>set executive_summary_horizons. trim_space h = h \<and> h \<noteq> []"
    "\<forall>c\<in>set executive_summary_channels. trim_space c = c \<and> c \<noteq> []"
    by code_simp+
  then have "or_default (trim_space h) ''today'' = h" "or_default (trim_space c) ''ui'' = c"
    using h c by (auto simp: or_default_def)
  then show ?thesis
    unfolding normalize_summary_query_def Let_def
    using y h c normalize_valid_domain [OF d, of d] by (auto simp: check_def)
qed

lemma create_task_again [again]:
  assumes "normalize_create_task_request now r = Inr x"
  shows "normalize_create_task_request later x = Inr x"
proof -
  define f where "f = (if ctr_follow_up r = None \<and> ctr_due r = None \<and> ctr_scheduled r = None \<and>
      \<not> terminal_task_status (or_default (ctr_status r) ''open'')
      then Some (now + default_task_follow_up_delay) else ctr_follow_up r)"
  have title: "trim_space (ctr_title r) \<noteq> []"
    using assms by (rule contrapos_pn) (simp add: normalize_create_task_request_def Let_def res_simps)
  obtain d links where d: "valid_firewall d" and links: "normalize_task_memory_links (ctr_links r) = Inr links"
    and x: "x = r\<lparr>ctr_actor := norm_default (ctr_actor r) ''user'', ctr_domain := d, ctr_firewall := d,
       ctr_title := trim_space (ctr_title r), ctr_description := trim_space (ctr_description r),
       ctr_status := or_default (ctr_status r) ''open'', ctr_priority := or_default (ctr_priority r) ''normal'',
       ctr_follow_up := f, ctr_topics := lower_unique (ctr_topics r), ctr_project := trim_space (ctr_project r),
       ctr_location := trim_space (ctr_location r), ctr_person := trim_space (ctr_person r),
       ctr_key := trim_space (ctr_key r), ctr_breakdown := normalize_work_breakdown (ctr_breakdown r),
       ctr_links := links\<rparr>"
    and ok: "valid_task_status (or_default (ctr_status r) ''open'')"
      "valid_task_priority (or_default (ctr_priority r) ''normal'')"
      "validate_task_metadata (ctr_estimate r) (ctr_urgency r) = Inr ()"
    using assms title
    by (simp add: normalize_create_task_request_def Let_def res_simps check_Inr f_def [symmetric] cong del: if_weak_cong)
      (elim exE conjE, rule that; (assumption | erule normalize_domain_valid | erule sym))
  have "\<not> (f = None \<and> ctr_due r = None \<and> ctr_scheduled r = None \<and>
      \<not> terminal_task_status (or_default (ctr_status r) ''open''))"
    by (auto simp: f_def)
  then have keep: "(if f = None \<and> ctr_due r = None \<and> ctr_scheduled r = None \<and>
      \<not> terminal_task_status (or_default (ctr_status r) ''open'') then v else f) = f" for v
    by (rule if_not_P)
  show ?thesis
    unfolding normalize_create_task_request_def Let_def x
    using title ok links_again [OF links] normalize_valid_domain [OF d, of d]
    by (simp add: check_def lower_unique_idem keep cong del: if_weak_cong split del: if_split)
qed

lemma explain_again [again]: "normalize_explain_query q = Inr y \<Longrightarrow> normalize_explain_query y = Inr y"
  by (auto simp: normalize_explain_query_def Let_def enabled_def split: if_splits option.splits)

end
