(* ===== verification/Memory_Isolation.thy ===== *)
theory Memory_Isolation imports Memory_Laws Memory_Normal begin

text \<open>
  Which databases the operations of the pool and the service may change: those of the domain they are given, and
  only if the policy lets the actor write there. \<open>only D\<close> relates pools whose databases are equal but for the domains in \<open>D\<close>.
\<close>

section \<open>Changes of some domains only\<close>

definition only :: "domain_id set \<Rightarrow> pool \<Rightarrow> pool \<Rightarrow> bool" where
  "only D p q \<longleftrightarrow> (\<forall>d. d \<notin> D \<longrightarrow> content q d = content p d)"

lemma only_order: "reflp (only D)" "transp (only D)"
  by (auto simp: only_def intro!: reflpI transpI)

lemmas only_basic =
  within_ret [OF only_order(1)] within_err [OF only_order(1)] within_read [OF only_order(1)]
  within_lift [OF only_order(1)] within_pair [OF only_order(1)]

lemma only_open: "run_within (only D) (repo_for_domain d)"
  unfolding run_within_def only_def using content_opened by (metis prod.collapse)

lemma opened_name: "repo_for_domain d p = (Inr n, q) \<Longrightarrow> normalize_domain_id d [] = Inr n"
  by (auto simp: repo_for_domain_def split: sum.splits if_splits)

lemma only_with_domain:
  assumes "named d [] \<subseteq> D" "\<And>n p. n \<in> D \<Longrightarrow> only D p (snd (f n p))"
  shows "run_within (only D) (run_bind (repo_for_domain d) f)"
  unfolding run_within_def
proof
  fix p
  obtain r q where q: "repo_for_domain d p = (r, q)" by force
  then have opened: "only D p q" using content_opened by (simp add: only_def)
  show "only D p (snd (run_bind (repo_for_domain d) f p))"
  proof (cases r)
    case (Inr n)
    then have "n \<in> D" using opened_name q assms(1) by (auto simp: named_def)
    then show ?thesis
      using assms(2) q Inr opened transpD [OF only_order(2)] by (simp add: run_bind_def)
  qed (use q opened in \<open>simp add: run_bind_def\<close>)
qed

lemma only_repo: "named d [] \<subseteq> D \<Longrightarrow> run_within (only D) (with_repo pe d m)"
  unfolding with_repo_def
  by (rule only_with_domain) (auto simp: only_def on_repo_content [OF prod.collapse [symmetric]])

text \<open>Reading a database does not change it.\<close>

lemma only_read: "run_within (only D) (with_repo pe d (\<lambda>se. run_read (f se)))"
proof -
  have "run_within (only D) (on_repo pe n (\<lambda>se. run_read (f se)))" for n
    by (auto simp: run_within_def only_def on_repo_content [OF prod.collapse [symmetric]] run_read_def)
  then show ?thesis
    unfolding with_repo_def by (intro within_bind [OF only_order(2)] only_open)
qed

text \<open>What a check in front of an operation says may be used to show what it does.\<close>

lemma only_lift:
  "(\<And>x. r = Inr x \<Longrightarrow> run_within (only D) (f x)) \<Longrightarrow> run_within (only D) (run_bind (run_lift r) f)"
  using reflpD [OF only_order(1)] by (cases r) (auto simp: run_within_def run_bind_def run_lift_def)

lemma only_domain:
  "(\<And>x. r = Inr x \<Longrightarrow> run_within (only D) (f x)) \<Longrightarrow> run_within (only D) (run_bind (pool_domain r) f)"
  unfolding pool_domain_def by (rule only_lift) simp

lemma only_permit:
  "(\<And>x. r = Inr x \<Longrightarrow> run_within (only D) (f x)) \<Longrightarrow> run_within (only D) (run_bind (permit r) f)"
  unfolding permit_def by (rule only_lift) simp

lemma only_giving: "run_within (only D) m \<Longrightarrow> run_within (only D) (giving f m)" 
  unfolding giving_def by (intro within_bind [OF only_order(2)] only_basic)

lemma only_no_result: "run_within (only D) m \<Longrightarrow> run_within (only D) (no_result m)"
  unfolding no_result_def by (rule only_giving)

lemmas only_steps = only_domain only_permit only_giving within_case within_if

section \<open>Operations of the pool\<close>

lemma only_first: "run_within (only D) (first_domain pe f ds)"
  by (induction ds)
    (simp_all add: only_basic, (intro within_bind [OF only_order(2)] only_read within_case only_basic | assumption)+)

lemma only_lookups: "run_within (only D) (pool_get_memory pe mid)" "run_within (only D) (pool_evidence_content pe ev)"
  unfolding pool_get_memory_def [abs_def] pool_evidence_content_def [abs_def]
  by (rule within_state, intro only_steps only_basic only_first)+

lemma only_searches: "run_within (only D) (pool_search pe q)"
proof -
  have "run_within (only D) (search_domains pe q ds acc)" for q ds acc
    by (induction ds arbitrary: acc)
      (simp_all add: only_basic Let_def, (intro within_bind [OF only_order(2)] only_read within_case only_basic | assumption)+)
  then show ?thesis unfolding pool_search_def by (intro only_steps)
qed

lemma named_within: "normalize_domain_id d f = Inr n \<Longrightarrow> named d f \<subseteq> D \<Longrightarrow> named n g \<subseteq> D"
  using named_normal by metis

lemmas normal_within = normal [THEN named_within]

lemma only_memory_calls:
  "named (cap_domain cr) (cap_firewall cr) \<subseteq> D \<Longrightarrow> run_within (only D) (pool_capture pe cr)"
  "named (cor_domain kr) (cor_firewall kr) \<subseteq> D \<Longrightarrow> run_within (only D) (pool_correction pe kr)"
  "named (rfp_domain pr) (rfp_firewall pr) \<subseteq> D \<Longrightarrow> run_within (only D) (pool_refresh_page pe pr)"
  unfolding pool_capture_def pool_correction_def pool_refresh_page_def
  by (intro only_steps only_repo; erule normal_within, assumption)+

lemma only_pages:
  "named d [] \<subseteq> D \<Longrightarrow> run_within (only D) (pool_entity_page pe d entity title)"
  "named d [] \<subseteq> D \<Longrightarrow> run_within (only D) (pool_timeline pe d topic entity)"
  unfolding pool_entity_page_def pool_timeline_def by (intro only_memory_calls; simp)+

lemma only_query: "named (gqr_domain qr) (gqr_firewall qr) \<subseteq> D \<Longrightarrow> run_within (only D) (pool_query pe qr)"
  unfolding pool_query_def
  by (intro only_steps only_with_domain, erule normal_within, assumption)
    (auto simp: only_def pool_query_content [OF prod.collapse [symmetric]])

lemma only_task_calls:
  "named (ctr_domain cr) (ctr_firewall cr) \<subseteq> D \<Longrightarrow> run_within (only D) (pool_create_task pe now cr)"
  "named (tir_domain tr) (tir_firewall tr) \<subseteq> D \<Longrightarrow> run_within (only D) (pool_get_task pe tr)"
  "named (tqu_domain tq) (tqu_firewall tq) \<subseteq> D \<Longrightarrow> run_within (only D) (pool_list_tasks pe tq)"
  "named (tqu_domain (tgq_tasks gq)) (tqu_firewall (tgq_tasks gq)) \<subseteq> D \<Longrightarrow> run_within (only D) (pool_task_graph pe gq)"
  "named (utr_domain ur) (utr_firewall ur) \<subseteq> D \<Longrightarrow> run_within (only D) (pool_update_task pe ur)"
  "named (tir_domain tr) (tir_firewall tr) \<subseteq> D \<Longrightarrow> run_within (only D) (pool_complete_task pe tr)"
  "named (tir_domain tr) (tir_firewall tr) \<subseteq> D \<Longrightarrow> run_within (only D) (pool_cancel_task pe tr)"
  "named (tir_domain tr) (tir_firewall tr) \<subseteq> D \<Longrightarrow> run_within (only D) (pool_delete_task pe tr)"
  "named (ltm_domain lr) (ltm_firewall lr) \<subseteq> D \<Longrightarrow> run_within (only D) (pool_link_task_memory pe lr)"
  "named (trq_domain rq) (trq_firewall rq) \<subseteq> D \<Longrightarrow> run_within (only D) (pool_list_task_relations pe rq)"
  "named (ttq_domain vq) (ttq_firewall vq) \<subseteq> D \<Longrightarrow> run_within (only D) (pool_traverse_task_relations pe vq)"
  "named (utq_domain xr) (utq_firewall xr) \<subseteq> D \<Longrightarrow> run_within (only D) (pool_upsert_task_relation pe xr)"
  "named (dtr_domain dr) (dtr_firewall dr) \<subseteq> D \<Longrightarrow> run_within (only D) (pool_delete_task_relation pe dr)"
  unfolding pool_create_task_def pool_get_task_def pool_list_tasks_def pool_task_graph_def pool_update_task_def
    pool_complete_task_def pool_cancel_task_def pool_delete_task_def pool_link_task_memory_def
    pool_list_task_relations_def pool_traverse_task_relations_def pool_upsert_task_relation_def
    pool_delete_task_relation_def
  by (intro only_steps only_repo; erule normal_within, assumption)+

lemma only_summaries:
  "named (esq_domain q) (esq_firewall q) \<subseteq> D \<Longrightarrow> run_within (only D) (executive_summary sv q)"
  "''user'' \<in> D \<Longrightarrow> run_within (only D) (explain_summary_item sv xq)"
proof -
  show summary: "run_within (only D) (executive_summary sv q)" if "named (esq_domain q) (esq_firewall q) \<subseteq> D" for q
    unfolding executive_summary_def
  proof (intro only_steps only_task_calls)
    fix r
    assume "normalize_summary_query (sve_now sv) q = Inr r"
    from summary_names [THEN named_within, OF this that] show
      "named (tqu_domain (tgq_tasks (summary_graph_query r))) (tqu_firewall (tgq_tasks (summary_graph_query r))) \<subseteq> D"
      by (simp add: summary_graph_query_def)
  qed
  have "named ''user'' [] = {''user''}" by code_simp
  then show "''user'' \<in> D \<Longrightarrow> run_within (only D) (explain_summary_item sv xq)"
    unfolding explain_summary_item_def permit_def
    by (intro only_steps within_bind [OF only_order(2)] only_basic summary) simp_all
qed

section \<open>Looking for a memory\<close>

text \<open>The domains that are open have valid names; so have those on disk that are looked at.\<close>

definition pool_named :: "pool \<Rightarrow> bool" where
  "pool_named p \<longleftrightarrow> (\<forall>d\<in>set (po_open p). valid_firewall d)"

lemma opened_named: "pool_named p \<Longrightarrow> pool_named (snd (repo_for_domain d p))"
  by (auto simp: pool_named_def repo_for_domain_def normalize_domain_valid split: sum.splits)

definition naming :: "pool \<Rightarrow> pool \<Rightarrow> bool" where
  "naming p q \<longleftrightarrow> (pool_named p \<longrightarrow> pool_named q)"

interpretation any_change: memory_relation "\<lambda>_ _. True"
  by unfold_locales (simp_all add: run_within_def reflpI transpI)

interpretation names: pool_relation "\<lambda>_ _. True" naming
proof
  show "reflp naming" "transp naming" by (auto simp: naming_def intro: reflpI transpI)
  show "naming p (snd (repo_for_domain d p))" for p d by (simp add: naming_def opened_named)
qed (auto simp: naming_def pool_named_def)

lemma remove_named: "run_within naming (service_remove_domain sv actor d files)"
proof -
  have "run_within naming (pool_remove_domain pe d files)" for pe d
    unfolding pool_remove_domain_def Let_def
    by (intro names.pool_steps) (auto simp: run_within_def naming_def pool_named_def)
  then show ?thesis
    unfolding service_remove_domain_def by (intro names.pool_steps)
qed

lemma serve_named: "pool_named p \<Longrightarrow> pool_named (snd (serve sv c p))"
proof -
  have "run_within naming (serve sv c)"
  proof (cases "\<exists>actor d. c = RemoveDomain actor d True")
    case True
    then show ?thesis by (auto simp: serve_def Let_def intro!: names.pool_no_result remove_named)
  qed (simp add: names.kept_serve)
  then show "pool_named p \<Longrightarrow> pool_named (snd (serve sv c p))"
    by (simp add: run_within_def naming_def)
qed

lemma known_valid: "pool_named p \<Longrightarrow> d \<in> set (known_domain_ids p) \<Longrightarrow> valid_firewall d"
proof -
  assume "pool_named p" "d \<in> set (known_domain_ids p)"
  moreover have "valid_firewall ''user''" by code_simp
  ultimately show ?thesis by (auto simp: known_domain_ids_def pool_named_def split: if_splits)
qed

lemma read_repo:
  assumes "valid_firewall d" "with_repo pe d (\<lambda>se. run_read (\<lambda>s. Inr (f s))) p = (r, q)"
  shows "r = Inr (f (content p d)) \<and> only {} p q"
proof -
  obtain o' u where u: "repo_for_domain d p = (o', u)" by force
  then have "o' = Inr d"
    using normalize_valid_domain [OF assms(1)] by (auto simp: repo_for_domain_def split: if_splits)
  then have "r = Inr (f (content u d))"
    using assms(2) u by (auto simp: with_repo_def run_bind_def on_repo_def run_read_def res_err_def)
  moreover have "content u x = content p x" for x by (rule content_opened [OF u])
  moreover have "only {} p q"
    using only_read [of "{}" pe d "\<lambda>_ s. Inr (f s)"] assms(2) unfolding run_within_def by (metis snd_conv)
  ultimately show ?thesis by simp
qed

lemma first_found:
  assumes "first_domain pe f ds p = (Inr (d, x), q)" "\<forall>d\<in>set ds. valid_firewall d"
  shows "d \<in> set ds \<and> f (content p d) = Inr x"
  using assms
proof (induction ds arbitrary: p)
  case (Cons e ds)
  obtain r u where u: "with_repo pe e (\<lambda>se. run_read (\<lambda>s. Inr (f s))) p = (r, u)" by force
  have r: "r = Inr (f (content p e))" and same: "content u y = content p y" for y
    using read_repo [OF _ u] Cons.prems(2) by (auto simp: only_def)
  show ?case
  proof (cases "f (content p e)")
    case (Inr y)
    then show ?thesis using Cons.prems(1) u r by (auto simp: run_bind_def run_ret_def)
  next
    case (Inl err)
    then have "first_domain pe f ds u = (Inr (d, x), q)"
      using Cons.prems(1) u r by (auto simp: run_bind_def run_err_def split: if_splits)
    then show ?thesis using Cons.IH [of u] Cons.prems(2) same by auto
  qed
qed (simp add: run_err_def)

lemma memory_found:
  assumes "pool_get_memory pe mid p = (Inr m, q)" "pool_named p"
  shows "valid_firewall (mem_domain m) \<and> (\<exists>r. get_memory (content p (mem_domain m)) mid = Inr r)"
proof -
  obtain d x u where "first_domain pe (\<lambda>s. get_memory s mid) (known_domain_ids p) p = (Inr (d, x), u)"
    and m: "m = annotate_record d x"
    using assms(1) by (auto simp: pool_get_memory_def giving_def run_ret_def elim!: run_bind_Inr split: if_splits)
  from first_found [OF this(1)] show ?thesis
    using known_valid [OF assms(2)] m by (auto simp: annotate_record_def)
qed

section \<open>Calls of the service\<close>

definition may_write :: "service_env \<Rightarrow> string \<Rightarrow> domain_id set" where
  "may_write sv actor = {d. authorize_write (sve_firewall sv) (norm_default actor default_agent_actor) d = Inr ()}"

definition may_read :: "service_env \<Rightarrow> string \<Rightarrow> domain_id set" where
  "may_read sv actor = {d. authorize_read (sve_firewall sv) (norm_default actor default_agent_actor) d = Inr ()}"

lemma unit_Inr: "(r :: 'e + unit) = Inr x \<longleftrightarrow> r = Inr ()"
  by simp

lemma normal_actor:
  "normalize_capture_request cr = Inr cx \<Longrightarrow> cap_actor cx = norm_default (cap_actor cr) default_agent_actor"
  "normalize_correction_request kr = Inr kx \<Longrightarrow> cor_actor kx = norm_default (cor_actor kr) default_agent_actor"
  "normalize_refresh_page_request pr = Inr px \<Longrightarrow> rfp_actor px = norm_default (rfp_actor pr) default_agent_actor"
  "normalize_repair_request rr = Inr rx \<Longrightarrow> rep_actor rx = norm_default (rep_actor rr) default_agent_actor"
  "normalize_graph_query_request qr = Inr qx \<Longrightarrow> gqr_actor qx = norm_default (gqr_actor qr) default_agent_actor"
  by (auto simp: normalize_capture_request_def normalize_correction_request_def normalize_refresh_page_request_def
      normalize_repair_request_def normalize_graph_query_request_def Let_def res_simps split: if_splits)

lemma granted:
  "named d f \<inter> may_write sv actor \<subseteq> D \<Longrightarrow> normalize_domain_id d f = Inr n \<Longrightarrow>
   actor' = norm_default actor default_agent_actor \<Longrightarrow>
   authorize_write (sve_firewall sv) actor' n = Inr u \<Longrightarrow> named n g \<subseteq> D"
  using named_normal [of d f n g] by (auto simp: may_write_def)

lemma granted_read:
  "named d f \<inter> may_read sv actor \<subseteq> D \<Longrightarrow> normalize_domain_id d f = Inr n \<Longrightarrow>
   actor' = norm_default actor default_agent_actor \<Longrightarrow>
   authorize_global (sve_firewall sv) actor' n include_global = Inr u \<Longrightarrow> named n g \<subseteq> D"
  using named_normal [of d f n g] by (auto simp: may_read_def authorize_global_def res_bind_Inr)

lemma only_writes:
  "named (cap_domain cr) (cap_firewall cr) \<inter> may_write sv (cap_actor cr) \<subseteq> D \<Longrightarrow>
   run_within (only D) (service_capture sv cr)"
  "named (cor_domain kr) (cor_firewall kr) \<inter> may_write sv (cor_actor kr) \<subseteq> D \<Longrightarrow>
   run_within (only D) (service_correction sv kr)"
  "named (rfp_domain pr) (rfp_firewall pr) \<inter> may_write sv (rfp_actor pr) \<subseteq> D \<Longrightarrow>
   run_within (only D) (service_refresh_page sv pr)"
  unfolding service_capture_def service_correction_def service_refresh_page_def
  by (intro only_steps only_memory_calls; erule granted; (erule normal | rule normal_actor, assumption | assumption))+

lemma only_page_calls:
  "named d [] \<inter> may_write sv actor \<subseteq> D \<Longrightarrow> run_within (only D) (service_entity_page sv actor d entity title)"
  "named d [] \<inter> may_write sv actor \<subseteq> D \<Longrightarrow> run_within (only D) (service_timeline sv actor d topic entity)"
proof -
  assume D: "named d [] \<inter> may_write sv actor \<subseteq> D"
  have ok: "named (rfp_domain x) [] \<subseteq> D"
    if "normalize_refresh_page_request r = Inr x" "authorize_write (sve_firewall sv) (rfp_actor x) (rfp_domain x) = Inr u"
      "rfp_actor r = actor" "rfp_domain r = d" "rfp_firewall r = []" for r x u
    using granted [OF _ page_names [OF that(1)] normal_actor(3) [OF that(1)] that(2)] D that(3-5) by simp
  show "run_within (only D) (service_entity_page sv actor d entity title)"
    unfolding service_entity_page_def by (intro only_steps only_pages) (erule (1) ok; simp)
  show "run_within (only D) (service_timeline sv actor d topic entity)"
    unfolding service_timeline_def by (intro only_steps only_pages) (erule (1) ok; simp)
qed

lemma only_queries:
  assumes "named (gqr_domain qr) (gqr_firewall qr) \<inter>
      (if graph_query_mutates (gqr_query qr) then may_write sv (gqr_actor qr) else may_read sv (gqr_actor qr)) \<subseteq> D"
  shows "run_within (only D) (service_query sv qr)"
proof -
  have "run_within (only D) (run_bind (pool_domain (normalize_graph_query_request qr)) (\<lambda>req.
           run_bind (permit (authorize_graph_query (sve_firewall sv) req)) (\<lambda>_. pool_query (sve_pool sv) req)))"
  proof (intro only_steps only_query)
    fix x u
    assume x: "normalize_graph_query_request qr = Inr x" and u: "authorize_graph_query (sve_firewall sv) x = Inr u"
    have "gqr_query x = trim_space (gqr_query qr)"
      using x by (auto simp: normalize_graph_query_request_def Let_def res_simps split: if_splits)
    then have "graph_query_mutates (gqr_query x) = graph_query_mutates (gqr_query qr)"
      by (simp add: graph_query_mutates_def)
    then show "named (gqr_domain x) (gqr_firewall x) \<subseteq> D"
      using assms u granted [OF _ query_names [OF x] normal_actor(5) [OF x]]
        granted_read [OF _ query_names [OF x] normal_actor(5) [OF x]]
      by (simp add: authorize_graph_query_def split: if_splits)
  qed
  then show ?thesis
    unfolding service_query_def by (intro within_case only_basic)
qed

lemma only_searching:
  "run_within (only D) (search_memory sv q)" "run_within (only D) (search_sources sv q)"
proof -
  show *: "run_within (only D) (search_memory sv q)" for q
    unfolding search_memory_def by (intro only_steps only_searches)
  have "run_within (only D) (hydrate sv rs)" for rs
    by (induction rs) (simp_all add: only_basic,
      (intro within_bind [OF only_order(2)] only_lookups only_basic | assumption)+)
  then show "run_within (only D) (search_sources sv q)"
    unfolding search_sources_def by (intro within_bind [OF only_order(2)] only_basic *)
qed

lemma only_metrics: "run_within (only D) (pool_metrics pe)"
proof -
  have *: "run_within (only D) (sum_metrics pe ds acc)" for ds acc
    by (induction ds arbitrary: acc) (simp_all add: only_basic within_bind [OF only_order(2)] only_read)
  show ?thesis unfolding pool_metrics_def [abs_def] by (rule within_state) (rule *)
qed

lemma only_domain_calls:
  "run_within (only D) (service_domains sv actor d)"
  "run_within (only D) (service_create_domain sv actor d)"
  "named d [] \<inter> {n. authorize_write (sve_firewall sv) actor n = Inr ()} \<subseteq> D \<Longrightarrow>
   run_within (only D) (service_remove_domain sv actor d files)"
proof -
  show "run_within (only D) (service_domains sv actor d)"
    unfolding service_domains_def [abs_def] Let_def by (rule within_state) (intro only_steps only_basic)
  show "run_within (only D) (service_create_domain sv actor d)"
    unfolding service_create_domain_def pool_create_domain_def
    by (intro only_steps within_bind [OF only_order(2)] only_open only_basic)
  assume D: "named d [] \<inter> {n. authorize_write (sve_firewall sv) actor n = Inr ()} \<subseteq> D"
  have "run_within (only D) (pool_remove_domain pe n files)" if "n \<in> D" "valid_firewall n" for pe n
    using that normalize_valid_domain [of n "[]"]
    by (auto simp: run_within_def only_def pool_remove_domain_def pool_domain_def content_def Let_def run_defs
        run_bind_def res_err_def)
  then show "run_within (only D) (service_remove_domain sv actor d files)"
    unfolding service_remove_domain_def
    using D by (intro only_steps) (auto simp: named_def normalize_domain_valid)
qed

lemma bind_ret: "run_bind (run_ret x) f = f x"
  by (rule ext) (simp add: run_bind_def run_ret_def)

lemma only_repair_of:
  assumes "valid_firewall d" "d \<in> D" "rep_domain x = d"
  shows "run_within (only D) (pool_repair pe x)"
proof -
  have "explicit_domain_id (rep_domain x) (rep_firewall x) = d" "d \<noteq> []"
    using assms valid_firewall_runes [of d] by (simp_all add: explicit_domain_id_def valid_firewall_trim)
  moreover have sub: "named d g \<subseteq> D" for g
    using assms by (simp add: named_def normalize_valid_domain)
  ultimately show ?thesis
    unfolding pool_repair_def
    by (simp add: bind_ret assms(3), intro only_steps only_repo)
      (drule repair_names, erule named_within, simp add: assms(3) sub)
qed

lemma only_repair:
  assumes "pool_named p"
    and "{d. (\<exists>m. get_memory (content p d) (rep_memory rr) = Inr m)} \<inter> may_write sv (rep_actor rr) \<subseteq> D"
  shows "only D p (snd (service_repair sv rr p))"
proof (cases "normalize_repair_request rr")
  case (Inl e)
  then show ?thesis
    using reflpD [OF only_order(1)]
    by (simp add: service_repair_def pool_domain_def run_bind_def run_lift_def res_err_def)
next
  case (Inr x)
  have mid: "rep_memory x = rep_memory rr"
    using Inr by (auto simp: normalize_repair_request_def Let_def res_simps split: if_splits)
  obtain f u where u: "pool_get_memory (sve_pool sv) (rep_memory x) p = (f, u)" by force
  have opened: "only D p u"
    using only_lookups(1) [of D "sve_pool sv" "rep_memory x"] u unfolding run_within_def by (metis snd_conv)
  have "only D u (snd (run_bind (permit (authorize_write (sve_firewall sv) (rep_actor x) (mem_domain m))) (\<lambda>_.
      pool_repair (sve_pool sv) (x\<lparr>rep_domain := mem_domain m, rep_firewall := mem_domain m\<rparr>)) u))"
    if f: "f = Inr m" for m
  proof -
    have found: "valid_firewall (mem_domain m)" "\<exists>r. get_memory (content p (mem_domain m)) (rep_memory rr) = Inr r"
      using memory_found [of "sve_pool sv" "rep_memory x" p m u] u f assms(1) mid by auto
    have "run_within (only D) (run_bind (permit (authorize_write (sve_firewall sv) (rep_actor x) (mem_domain m))) (\<lambda>_.
      pool_repair (sve_pool sv) (x\<lparr>rep_domain := mem_domain m, rep_firewall := mem_domain m\<rparr>)))"
    proof (intro only_steps, rule only_repair_of [OF found(1)])
      fix v
      assume "authorize_write (sve_firewall sv) (rep_actor x) (mem_domain m) = Inr v"
      then show "mem_domain m \<in> D"
        using found(2) assms(2) normal_actor(4) [OF Inr] by (auto simp: may_write_def)
    qed simp
    then show ?thesis by (simp add: run_within_def)
  qed
  then show ?thesis
    using Inr u opened transpD [OF only_order(2) opened]
    by (cases f) (auto simp: service_repair_def pool_domain_def run_bind_def [of "run_lift _"]
        run_bind_def [of "pool_get_memory _ _"] run_lift_def res_err_def)
qed

end
