(* ===== verification/Memory_Invariant.thy ===== *)
theory Memory_Invariant imports Memory_Laws Graph_Laws begin

text \<open>
  The constraints of a memory database: those of the graph and, over it, those of the tables of
  aliases, evidence blobs and the index. Every call of the service keeps them in every domain, loses no
  node, edge or blob and only appends to the audit trail: the interpretation of \<open>memory_relation\<close> on
  \<open>grows\<close>.
\<close>

section \<open>The graph only grows\<close>

definition graph_grows :: "graph_db \<Rightarrow> graph_db \<Rightarrow> bool" where
  "graph_grows g h \<longleftrightarrow>
     (db_ok g \<longrightarrow>
      db_ok h \<and> node_ids (db_nodes g) \<subseteq> node_ids (db_nodes h) \<and> edge_ids (db_edges g) \<subseteq> edge_ids (db_edges h) \<and>
      (\<exists>es. audit_trail h = audit_trail g @ es))"

lemma graph_grows_order: "reflp graph_grows" "transp graph_grows"
proof -
  show "reflp graph_grows" by (simp add: graph_grows_def reflpI)
  show "transp graph_grows" unfolding graph_grows_def
    by (rule transpI) (metis append.assoc subset_trans)
qed

lemma stays_grows: "run_within stays m \<Longrightarrow> run_within graph_grows m"
  by (auto simp: run_within_def stays_def graph_grows_def audit_trail_def)

lemma audit_grows: "run_within graph_grows (append_audit en req)"
  unfolding run_within_def graph_grows_def
proof (intro allI impI)
  fix g
  assume g: "db_ok g"
  obtain r h where h: "append_audit en req g = (r, h)" by force
  from append_audit_table [OF g h] show "db_ok (snd (append_audit en req g)) \<and>
      node_ids (db_nodes g) \<subseteq> node_ids (db_nodes (snd (append_audit en req g))) \<and>
      edge_ids (db_edges g) \<subseteq> edge_ids (db_edges (snd (append_audit en req g))) \<and>
      (\<exists>es. audit_trail (snd (append_audit en req g)) = audit_trail g @ es)"
    using h by (auto simp: audit_trail_def split: sum.splits)
qed

text \<open>A graph that has at least the given nodes and edges: the executor's laws for it.\<close>

definition holds_ids :: "node_id set \<Rightarrow> edge_id set \<Rightarrow> graph_db \<Rightarrow> bool" where
  "holds_ids N E g \<longleftrightarrow> db_ok g \<and> N \<subseteq> node_ids (db_nodes g) \<and> E \<subseteq> edge_ids (db_edges g)"

lemma stays_holds:
  "run_within stays m \<Longrightarrow> holds_ids N E g \<Longrightarrow> m g = (r, h) \<Longrightarrow> holds_ids N E h \<and> audit_trail h = audit_trail g"
  by (auto simp: run_within_def stays_def holds_ids_def audit_trail_def dest!: spec [of _ g])

lemma audit_holds:
  "holds_ids N E g \<Longrightarrow> append_audit en req g = (Inr ev, h) \<Longrightarrow>
   holds_ids N E h \<and> audit_trail h = audit_trail g @ [entry_of req]"
  "holds_ids N E g \<Longrightarrow> append_audit en req g = (Inl e, h) \<Longrightarrow> holds_ids N E h \<and> audit_trail h = audit_trail g"
  using append_audit_table [of g en req "Inr ev" h] append_audit_table [of g en req "Inl e" h]
  by (auto simp: holds_ids_def audit_trail_def)

lemmas writes_hold =
  stays_holds [OF store_writes_stay(1)] stays_holds [OF store_writes_stay(2)]
  stays_holds [OF store_writes_stay(3)] stays_holds [OF store_writes_stay(4)]
  stays_holds [OF store_writes_stay(5)] stays_holds [OF store_writes_stay(6)]

lemma holds_ok: "holds_ids N E g \<Longrightarrow> db_ok g"
  by (simp add: holds_ids_def)

interpretation held: store_writer "sql_ops en" "holds_ids N E" audit_trail
proof (unfold_locales, unfold sql_ops_def store_ops.simps)
  fix s nid n
  show "holds_ids N E s \<Longrightarrow> get_node s nid = Inr n \<Longrightarrow> nd_id n = nid"
    using get_node_row scan_node_fields by metis
next
  fix s q ns n
  show "holds_ids N E s \<Longrightarrow> search_nodes en s q = Inr ns \<Longrightarrow> n \<in> set ns \<Longrightarrow>
     get_node s (nd_id n) = Inr n \<and> nd_status n = ''active'' \<and>
     (sq_allowed q \<noteq> [] \<longrightarrow> nd_sensitivity n \<in> set (sq_allowed q)) \<and>
     (sq_kinds q \<noteq> [] \<longrightarrow> nd_kind n \<in> set (sq_kinds q))"
    by (rule search_law [OF holds_ok])
qed ((rule outgoing_row edges_row writes_hold audit_holds, assumption, assumption)+)

lemma execute_grows: "run_within graph_grows (execute (sql_ops en) req)"
  unfolding run_within_def graph_grows_def
proof (intro allI impI)
  fix g
  assume g: "db_ok g"
  obtain r h where h: "execute (sql_ops en) req g = (r, h)" by force
  have "holds_ids (node_ids (db_nodes g)) (edge_ids (db_edges g)) g"
    using g by (simp add: holds_ids_def)
  from held.execute_keeps [OF this h] show "db_ok (snd (execute (sql_ops en) req g)) \<and>
      node_ids (db_nodes g) \<subseteq> node_ids (db_nodes (snd (execute (sql_ops en) req g))) \<and>
      edge_ids (db_edges g) \<subseteq> edge_ids (db_edges (snd (execute (sql_ops en) req g))) \<and>
      (\<exists>es. audit_trail (snd (execute (sql_ops en) req g)) = audit_trail g @ es)"
    using h by (auto simp: holds_ids_def)
qed

section \<open>The tables over the graph\<close>

definition aliases_ok :: "node_row list \<Rightarrow> alias_row list \<Rightarrow> bool" where
  "aliases_ok nodes rows \<longleftrightarrow>
     distinct (map (\<lambda>r. (al_node r, al_locale r, al_alias r)) rows) \<and> al_node ` set rows \<subseteq> node_ids nodes"

definition memory_ok :: "memory_db \<Rightarrow> bool" where
  "memory_ok s \<longleftrightarrow>
     db_ok (md_graph s) \<and> blobs_ok (db_nodes (md_graph s)) (md_blobs s) \<and>
     aliases_ok (db_nodes (md_graph s)) (md_aliases s) \<and>
     distinct (map ix_node (md_index s)) \<and> ix_node ` set (md_index s) \<subseteq> node_ids (db_nodes (md_graph s))"

definition grows :: "memory_db \<Rightarrow> memory_db \<Rightarrow> bool" where
  "grows s t \<longleftrightarrow>
     (memory_ok s \<longrightarrow>
      memory_ok t \<and> node_ids (db_nodes (md_graph s)) \<subseteq> node_ids (db_nodes (md_graph t)) \<and>
      edge_ids (db_edges (md_graph s)) \<subseteq> edge_ids (db_edges (md_graph t)) \<and>
      bl_node ` set (md_blobs s) \<subseteq> bl_node ` set (md_blobs t) \<and>
      (\<exists>es. audit_trail (md_graph t) = audit_trail (md_graph s) @ es))"

lemma grows_order: "reflp grows" "transp grows"
proof -
  show "reflp grows" by (simp add: grows_def reflpI)
  show "transp grows" unfolding grows_def
    by (rule transpI) (metis append.assoc subset_trans)
qed

lemma aliases_mono: "aliases_ok ns rows \<Longrightarrow> node_ids ns \<subseteq> node_ids ns' \<Longrightarrow> aliases_ok ns' rows"
  by (auto simp: aliases_ok_def)

lemma blobs_mono: "blobs_ok ns rows \<Longrightarrow> node_ids ns \<subseteq> node_ids ns' \<Longrightarrow> blobs_ok ns' rows"
  by (auto simp: blobs_ok_def)

lemma graph_step_grows:
  "graph_grows (md_graph s) g \<Longrightarrow> grows s (s\<lparr>md_graph := g\<rparr>)"
  by (auto simp: grows_def graph_grows_def memory_ok_def intro: aliases_mono blobs_mono)

lemma on_graph_grows: "run_within graph_grows m \<Longrightarrow> run_within grows (on_graph m)"
  by (auto simp: run_within_def on_graph_def graph_step_grows split: prod.split)
     (metis graph_step_grows snd_conv)

lemma files_grow:
  "md_graph t = md_graph s \<Longrightarrow> md_blobs t = md_blobs s \<Longrightarrow> md_aliases t = md_aliases s \<Longrightarrow>
   md_index t = md_index s \<Longrightarrow> grows s t"
  by (simp add: grows_def memory_ok_def)

lemma clock_grows: "run_within grows (memory_now se)"
  unfolding memory_now_def by (intro on_graph_grows stays_grows clock_stays)

lemma query_grows: "run_within grows (query_graph se req)"
proof -
  have "grows s (s\<lparr>md_graph := snd (execute (sql_ops en) r (md_graph s))\<rparr>)" for s en r
    using execute_grows by (intro graph_step_grows) (simp add: run_within_def)
  then show ?thesis
    by (auto simp: run_within_def query_graph_def split: prod.split) (metis snd_conv)
qed

lemma alias_kind_ok:
  "aliases_ok ns (map (\<lambda>a. if P a then a\<lparr>al_kind := k\<rparr> else a) rows) = aliases_ok ns rows"
proof -
  have "map (\<lambda>r. (al_node r, al_locale r, al_alias r)) (map (\<lambda>a. if P a then a\<lparr>al_kind := k\<rparr> else a) rows) =
      map (\<lambda>r. (al_node r, al_locale r, al_alias r)) rows"
    and "map al_node (map (\<lambda>a. if P a then a\<lparr>al_kind := k\<rparr> else a) rows) = map al_node rows"
    by (induction rows) simp_all
  then show ?thesis unfolding aliases_ok_def by (metis list.set_map)
qed

lemma alias_added_ok:
  "aliases_ok ns rows \<Longrightarrow> List.find (same_alias r) rows = None \<Longrightarrow> ual_node r \<in> node_ids ns \<Longrightarrow>
   aliases_ok ns (rows @ [\<lparr>al_node = ual_node r, al_locale = ual_locale r, al_alias = ual_alias r,
                           al_kind = ual_kind r, al_created = stamp\<rparr>])"
  by (auto simp: aliases_ok_def find_None_iff same_alias_def)

lemma alias_grows: "run_within grows (upsert_alias se req)"
proof -
  have put: "run_within grows (\<lambda>s.
       if ual_node r \<notin> node_ids (db_nodes (md_graph s)) then (Inl (Graph (Constraint ''graph_aliases'')), s)
       else (Inr (), s\<lparr>md_aliases :=
               (if List.find (same_alias r) (md_aliases s) = None
                then md_aliases s @ [\<lparr>al_node = ual_node r, al_locale = ual_locale r,
                       al_alias = ual_alias r, al_kind = ual_kind r, al_created = time_string stamp\<rparr>]
                else map (\<lambda>a. if same_alias r a then a\<lparr>al_kind := ual_kind r\<rparr> else a) (md_aliases s))\<rparr>))"
    for r stamp
    by (simp add: run_within_def grows_def memory_ok_def alias_kind_ok alias_added_ok)
  show ?thesis
    unfolding upsert_alias_def lift_domain_def
    by (intro within_bind [OF grows_order(2)] within_ret within_lift grows_order clock_grows put)
qed

lemma index_grows: "run_within grows (reindex_node nid)"
proof -
  have *: "grows s (snd (reindex_node nid s))" for s
  proof (cases "get_node (md_graph s) nid")
    case (Inr n)
    have "nd_id n = nid" "nid \<in> node_ids (db_nodes (md_graph s))"
      using get_node_row [OF Inr] scan_node_fields by (auto simp: node_ids_def)
    then show ?thesis
      using Inr reflpD [OF grows_order(1)]
      by (auto simp: reindex_node_def look_def run_bind_def run_read_def res_err_def grows_def memory_ok_def
          distinct_map_filter split: sum.split prod.split)
  qed (use reflpD [OF grows_order(1)] in \<open>simp add: reindex_node_def look_def run_bind_def run_read_def res_err_def\<close>)
  then show ?thesis by (simp add: run_within_def)
qed

section \<open>Evidence\<close>

lemma file_written_same:
  "write_evidence_file se nid text s = (r, t) \<Longrightarrow>
   md_graph t = md_graph s \<and> md_blobs t = md_blobs s \<and> md_aliases t = md_aliases s \<and> md_index t = md_index s"
  by (auto simp: write_evidence_file_def Let_def split: if_splits)

lemma file_grows: "run_within grows (write_evidence_file se nid text)"
  unfolding run_within_def
  by (intro allI files_grow) (metis file_written_same prod.collapse)+

lemma discard_grows: "grows s t \<Longrightarrow> grows s (discard_evidence_file w t)"
  using transpD [OF grows_order(2), of s t] files_grow [of "discard_evidence_file w t" t]
  by (simp add: discard_evidence_file_def)

lemma discarding_grows: "run_within grows m \<Longrightarrow> run_within grows (discarding w m)"
  by (auto simp: run_within_def discarding_def split: prod.split sum.split)
     (metis discard_grows snd_conv, metis snd_conv)

lemma superseded_grows: "grows s (remove_superseded path s)"
  by (auto simp: remove_superseded_def intro: files_grow)

lemma upsert_blob_nodes: "bl_node ` set rows \<subseteq> bl_node ` set (upsert_blob_row b rows)"
proof -
  have "map bl_node (map (\<lambda>r. if bl_node r = bl_node b then b\<lparr>bl_created := bl_created r\<rparr> else r) rows) =
      map bl_node rows"
    by (induction rows) simp_all
  then have "bl_node ` set (map (\<lambda>r. if bl_node r = bl_node b then b\<lparr>bl_created := bl_created r\<rparr> else r) rows) =
      bl_node ` set rows"
    by (metis list.set_map)
  then show ?thesis by (auto simp: upsert_blob_row_def simp del: set_map)
qed

lemma blob_row_grows: "run_within grows (\<lambda>s. put_blobs (upsert_blob_row b (md_blobs s)) s)"
  using upsert_blob_nodes by (auto simp: run_within_def put_blobs_def grows_def memory_ok_def)

lemma blob_grows: "run_within grows (write_evidence_blob se req)"
proof -
  have tidy: "run_within grows (\<lambda>s. (Inr (), case existing of
        Some b \<Rightarrow> if bl_path b \<noteq> p then remove_superseded (bl_path b) s else s | None \<Rightarrow> s))"
    for existing p
    using reflpD [OF grows_order(1)] by (auto simp: run_within_def superseded_grows split: option.split)
  show ?thesis
    unfolding write_evidence_blob_def lift_domain_def
    by (intro within_bind [OF grows_order(2)] within_ret within_lift within_read grows_order clock_grows
        file_grows discarding_grows blob_row_grows on_graph_grows audit_grows tidy)
qed

lemma unit_grows: "run_within grows m \<Longrightarrow> run_within grows (memory_unit m)"
  unfolding run_within_def
proof
  fix s
  assume m: "\<forall>s. grows s (snd (m s))"
  have begun: "grows s (begin_unit s)" by (rule files_grow) (simp_all add: begin_unit_def)
  obtain r t where t: "m (begin_unit s) = (r, t)" by force
  then have worked: "grows s t"
    using m transpD [OF grows_order(2) begun] by (metis snd_conv)
  have undone: "grows s (roll_back s t)"
    by (simp add: grows_def roll_back_def memory_ok_def db_ok_def audit_trail_def)
  have committed: "grows s (t\<lparr>md_in_unit := False, md_staged := [], md_staged_by := Map.empty, md_removals := [],
      md_files := f\<rparr>)" for f
    by (rule transpD [OF grows_order(2) worked], rule files_grow) simp_all
  show "grows s (snd (memory_unit m s))"
    using t undone committed reflpD [OF grows_order(1)] by (simp add: memory_unit_def split: sum.split option.split)
qed

section \<open>The service keeps the constraints\<close>

interpretation kept: memory_relation grows
  by unfold_locales
    (intro grows_order clock_grows query_grows alias_grows index_grows blob_grows unit_grows
      on_graph_grows audit_grows stays_grows store_writes_stay | assumption)+

end
