(* ===== verification/Memory_Search.thy ===== *)
theory Memory_Search imports Memory_Isolation Memory_Invariant begin

text \<open>
  What a search returns: records that are in the domains of the request, active, and of the
  sensitivities and kinds it allows; and that the actor was asked about each of these domains.
\<close>

section \<open>One database\<close>

lemma search_records_found:
  "search_records s q k ns = Inr rs \<Longrightarrow>
   length rs \<le> max 1 k \<and> (\<forall>r\<in>set rs. \<exists>n\<in>set ns. get_memory s (nd_id n) = Inr r \<and> record_matches r q)"
proof (induction ns arbitrary: k rs)
  case (Cons n ns)
  obtain r where r: "get_memory s (nd_id n) = Inr r"
    using Cons.prems by (auto simp: res_bind_Inr)
  show ?case
  proof (cases "record_matches r q \<and> 1 < k")
    case True
    then obtain qs where qs: "search_records s q (k - 1) ns = Inr qs" "rs = r # qs"
      using Cons.prems r by (auto simp: res_simps)
    with Cons.IH [OF qs(1)] True r show ?thesis by auto
  next
    case False
    then show ?thesis
      using Cons.prems Cons.IH [of k rs] r by (auto split: if_splits)
  qed
qed simp

lemma get_memory_node:
  assumes "get_memory s mid = Inr r"
  shows "\<exists>n. get_node (md_graph s) mid = Inr n \<and> nd_kind n = ''memory'' \<and> mem_id r = nd_id n \<and>
      mem_sensitivity r = nd_sensitivity n \<and> mem_status r = from_graph_status (nd_status n) \<and> mem_domain r = []"
  using assms by (auto simp: get_memory_def Let_def res_bind_Inr split: if_splits)

text \<open>The query that the pool passes to the repository of a domain is normalised.\<close>

lemma retrieval_moved:
  assumes "normalize_retrieval_query q0 = Inr q" "valid_firewall d"
  shows "normalize_retrieval_query (q\<lparr>ret_domain := d, ret_firewall := d, ret_include_global := g\<rparr>) =
    Inr (q\<lparr>ret_domain := d, ret_firewall := d, ret_include_global := g\<rparr>)"
  using assms by (auto simp: normalize_retrieval_query_def Let_def idem_simps)

lemma readable_some: "readable_or_default vs \<noteq> []"
proof -
  have "default_readable_sensitivities \<noteq> []" by code_simp
  then show ?thesis by (simp add: readable_or_default_def)
qed

lemma normal_retrieval:
  assumes "normalize_retrieval_query q0 = Inr q"
  shows "valid_firewall (ret_domain q) \<and> ret_allowed q \<noteq> [] \<and> 0 < ret_limit q \<and> ret_limit q \<le> 100 \<and>
    ret_actor q = norm_default (ret_actor q0) default_agent_actor \<and> ret_include_global q = ret_include_global q0"
proof -
  have "0 < limit_or 100 20 l \<and> limit_or 100 20 l \<le> 100" for l by (simp add: limit_or_def)
  then show ?thesis
    using assms readable_some
    by (auto simp: normalize_retrieval_query_def Let_def res_bind_Inr check_Inr dest!: normalize_domain_valid)
qed

definition found_in :: "pool \<Rightarrow> retrieval_query \<Rightarrow> domain_id \<Rightarrow> memory_record \<Rightarrow> bool" where
  "found_in p q d r \<longleftrightarrow>
     get_memory (content p d) (mem_id r) = Inr r \<and> mem_status r = ''active'' \<and>
     mem_sensitivity r \<in> set (ret_allowed q) \<and> record_matches r q"

lemma search_found:
  assumes "search se (content p d) (q\<lparr>ret_domain := d, ret_firewall := d, ret_include_global := False\<rparr>) = Inr rs"
    and q: "normalize_retrieval_query q0 = Inr q" and d: "valid_firewall d" and ok: "memory_ok (content p d)"
    and r: "r \<in> set rs"
  shows "found_in p q d r"
proof -
  let ?s = "content p d" and ?q = "q\<lparr>ret_domain := d, ret_firewall := d, ret_include_global := False\<rparr>"
  obtain ns where ns: "search_nodes (indexed_env se ?s) (md_graph ?s) (memory_search_query ?q) = Inr ns"
    and rs: "search_records ?s ?q (nat (ret_limit ?q)) ns = Inr rs"
    using assms(1) retrieval_moved [OF q d] by (auto simp: search_def res_bind_Inr)
  obtain n where n: "n \<in> set ns" "get_memory ?s (nd_id n) = Inr r" and fits: "record_matches r ?q"
    using search_records_found [OF rs] r by auto
  obtain m where m: "get_node (md_graph ?s) (nd_id n) = Inr m" "mem_id r = nd_id m"
      "mem_sensitivity r = nd_sensitivity m" "mem_status r = from_graph_status (nd_status m)"
    using get_memory_node [OF n(2)] by auto
  have node: "get_node (md_graph ?s) (nd_id n) = Inr n" "nd_status n = ''active''"
    "nd_sensitivity n \<in> set (ret_allowed q)"
    using search_law [OF _ ns n(1)] ok normal_retrieval [OF q] by (auto simp: memory_ok_def memory_search_query_def)
  have "record_matches r q" using fits by (simp add: record_matches_def)
  then show ?thesis
    using n(2) m node by (simp add: found_in_def from_graph_status_def)
qed

section \<open>The domains of a request\<close>

lemma take_new_found:
  "r \<in> set (take_new d k acc rs) \<Longrightarrow> r \<in> set acc \<or> (\<exists>x\<in>set rs. r = annotate_record d x)"
  by (induction d k acc rs rule: take_new.induct) (auto simp: Let_def split: if_splits)

lemma take_new_distinct:
  "distinct (map mem_id acc) \<Longrightarrow> distinct (map mem_id (take_new d k acc rs))"
  by (induction d k acc rs rule: take_new.induct) (auto simp: Let_def annotate_record_def)

lemma take_new_length: "length acc < k \<Longrightarrow> length (take_new d k acc rs) \<le> k"
  by (induction d k acc rs rule: take_new.induct) (auto simp: Let_def)

definition found_records :: "pool \<Rightarrow> retrieval_query \<Rightarrow> domain_id set \<Rightarrow> memory_record list \<Rightarrow> bool" where
  "found_records p q D rs \<longleftrightarrow>
     distinct (map mem_id rs) \<and>
     (\<forall>r\<in>set rs. \<exists>x d. d \<in> D \<and> found_in p q d x \<and> r = annotate_record d x)"

lemma found_in_same: "(\<And>x. content u x = content p x) \<Longrightarrow> found_in u q d r = found_in p q d r"
  by (simp add: found_in_def)

lemma with_repo_read:
  assumes "valid_firewall d" "with_repo pe d (\<lambda>se. run_read (f se)) p = (r, u)"
  shows "r = res_err Repo (f (pe_store pe d) (content p d)) \<and> (\<forall>x. content u x = content p x)"
proof -
  obtain o' v where v: "repo_for_domain d p = (o', v)" by force
  then have "o' = Inr d"
    using normalize_valid_domain [OF assms(1)] by (auto simp: repo_for_domain_def split: if_splits)
  then have "r = res_err Repo (f (pe_store pe d) (content p d))"
    using assms(2) v content_opened [OF v, of d]
    by (auto simp: with_repo_def run_bind_def on_repo_def run_read_def)
  moreover have "only {} p u"
    using only_read [of "{}" pe d f] assms(2) unfolding run_within_def by (metis snd_conv)
  ultimately show ?thesis by (simp add: only_def)
qed

lemma search_domains_found:
  assumes "search_domains pe q ds acc p = (Inr rs, u)" "normalize_retrieval_query q0 = Inr q"
    and "\<forall>d. memory_ok (content p d)" "\<forall>d\<in>set ds. valid_firewall d" "set ds \<subseteq> D"
    and "found_records p q D acc" "length acc < nat (ret_limit q)"
  shows "found_records p q D rs \<and> length rs \<le> nat (ret_limit q)"
  using assms
proof (induction ds arbitrary: acc p)
  case (Cons d ds)
  obtain f v where v: "with_repo pe d (\<lambda>se. run_read (\<lambda>s.
        search se s (q\<lparr>ret_domain := d, ret_firewall := d, ret_include_global := False\<rparr>))) p = (f, v)" by force
  have dv: "valid_firewall d" using Cons.prems(4) by simp
  from with_repo_read [OF dv v] have same: "content v x = content p x" for x by blast
  obtain found where found: "f = Inr found"
    using Cons.prems(1) v by (cases f) (auto simp: run_bind_def)
  then have s: "search (pe_store pe d) (content p d)
      (q\<lparr>ret_domain := d, ret_firewall := d, ret_include_global := False\<rparr>) = Inr found"
    using with_repo_read [OF dv v] by (metis res_err_Inr)
  define acc' where "acc' = take_new d (nat (ret_limit q)) acc found"
  have before: "distinct (map mem_id acc)"
    "\<And>r. r \<in> set acc \<Longrightarrow> \<exists>x d. d \<in> D \<and> found_in p q d x \<and> r = annotate_record d x"
    using Cons.prems(6) by (simp_all add: found_records_def)
  have "\<exists>x e. e \<in> D \<and> found_in p q e x \<and> r = annotate_record e x" if "r \<in> set acc'" for r
    using take_new_found [OF that [unfolded acc'_def]]
  proof
    assume "\<exists>x\<in>set found. r = annotate_record d x"
    moreover have "found_in p q d x" if "x \<in> set found" for x
      using search_found [OF s Cons.prems(2) dv _ that] Cons.prems(3) by blast
    moreover have "d \<in> D" using Cons.prems(5) by simp
    ultimately show ?thesis by blast
  qed (rule before(2))
  then have acc: "found_records p q D acc'"
    using take_new_distinct [OF before(1)] unfolding found_records_def acc'_def by blast
  have short: "length acc' \<le> nat (ret_limit q)"
    unfolding acc'_def by (rule take_new_length [OF Cons.prems(7)])
  have run: "(if length acc' \<ge> nat (ret_limit q) then run_ret acc' else search_domains pe q ds acc') v = (Inr rs, u)"
    using Cons.prems(1) v found unfolding acc'_def by (simp add: run_bind_def Let_def split del: if_split)
  show ?case
  proof (cases "length acc' \<ge> nat (ret_limit q)")
    case True
    then show ?thesis using run acc short by (simp add: run_ret_def)
  next
    case False
    have "found_records v q D acc'" using acc same by (simp add: found_records_def found_in_same [of v p])
    then have "found_records v q D rs \<and> length rs \<le> nat (ret_limit q)"
      using Cons.IH [of acc' v] run False Cons.prems same by simp
    then show ?thesis using same by (simp add: found_records_def found_in_same [of v p])
  qed
qed (auto simp: run_ret_def)

lemma retrieval_readable:
  assumes "normalize_retrieval_query q0 = Inr q" "authorize_retrieval (sve_firewall sv) q = Inr ()"
  shows "set (search_scope q) \<subseteq> may_read sv (ret_actor q0)"
  using assms normal_retrieval [OF assms(1)]
  by (auto simp: search_scope_def may_read_def authorize_retrieval_def authorize_global_def res_bind_Inr split: if_splits)

lemma scope_valid: "valid_firewall (ret_domain q) \<Longrightarrow> d \<in> set (search_scope q) \<Longrightarrow> valid_firewall d"
proof -
  have "valid_firewall ''global''" by code_simp
  then show "valid_firewall (ret_domain q) \<Longrightarrow> d \<in> set (search_scope q) \<Longrightarrow> valid_firewall d"
    by (auto simp: search_scope_def split: if_splits)
qed

lemma search_memory_found:
  assumes "search_memory sv q0 p = (Inr b, u)" "\<forall>d. memory_ok (content p d)"
  shows "\<exists>q. normalize_retrieval_query q0 = Inr q \<and> set (search_scope q) \<subseteq> may_read sv (ret_actor q0) \<and>
    found_records p q (set (search_scope q)) (rbu_primary b) \<and> int (length (rbu_primary b)) \<le> ret_limit q"
proof -
  obtain q where q: "normalize_retrieval_query q0 = Inr q" 
    and auth: "authorize_retrieval (sve_firewall sv) q = Inr ()"
    and run: "giving bundle_of (pool_search (sve_pool sv) q) p = (Inr b, u)"
    using assms(1)
    by (auto simp: search_memory_def pool_domain_def permit_def run_bind_def run_lift_def split: sum.splits prod.splits)
  obtain rs v where rs: "pool_search (sve_pool sv) q p = (Inr rs, v)" and b: "b = bundle_of rs"
    using run by (auto simp: giving_def run_ret_def elim!: run_bind_Inr)
  have "search_domains (sve_pool sv) q (search_scope q) [] p = (Inr rs, v)"
    using rs retrieval_again [OF q] by (simp add: pool_search_def pool_domain_def run_bind_def run_lift_def res_err_def)
  from search_domains_found [OF this q assms(2)] have
    "found_records p q (set (search_scope q)) rs \<and> length rs \<le> nat (ret_limit q)"
    using normal_retrieval [OF q] scope_valid by (auto simp: found_records_def)
  then show ?thesis
    using q retrieval_readable [OF q auth] b normal_retrieval [OF q] by (auto simp: bundle_of_def Let_def)
qed

end
