(* ===== verification/Memory_Reach.thy ===== *)
theory Memory_Reach imports Memory_Search begin

text \<open>
  Which databases a call may change: those of the domain that its request names, or that has the memory to be
  repaired, and only if the policy lets the actor write there. \<open>Organize\<close> searches, repairs what it finds by
  its identifier and makes tasks in the domains of what it found.
\<close>

section \<open>What a search knows\<close>

lemma get_memory_id: "get_memory s mid = Inr r \<Longrightarrow> mem_id r = mid"
proof -
  assume "get_memory s mid = Inr r"
  then obtain n where n: "get_node (md_graph s) mid = Inr n" "mem_id r = nd_id n"
    using get_memory_node by blast
  then have "nd_id n = mid"
    using get_node_row [OF n(1)] scan_node_fields by auto
  then show "mem_id r = mid" using n(2) by simp
qed

lemma search_known: "search se s q0 = Inr rs \<Longrightarrow> r \<in> set rs \<Longrightarrow> get_memory s (mem_id r) = Inr r"
  using search_records_found get_memory_id by (fastforce simp: search_def res_bind_Inr)

definition known_in :: "pool \<Rightarrow> domain_id set \<Rightarrow> memory_record \<Rightarrow> bool" where
  "known_in p D r \<longleftrightarrow> (\<exists>d x. d \<in> D \<and> r = annotate_record d x \<and> get_memory (content p d) (mem_id x) = Inr x)"

lemma search_domains_known:
  assumes "search_domains pe q ds acc p = (Inr rs, u)" "\<forall>d\<in>set ds. valid_firewall d" "set ds \<subseteq> D"
    and "\<forall>r\<in>set acc. known_in p D r"
  shows "\<forall>r\<in>set rs. known_in p D r"
  using assms
proof (induction ds arbitrary: acc p)
  case (Cons d ds)
  obtain f v where v: "with_repo pe d (\<lambda>se. run_read (\<lambda>s.
        search se s (q\<lparr>ret_domain := d, ret_firewall := d, ret_include_global := False\<rparr>))) p = (f, v)" by force
  have dv: "valid_firewall d" using Cons.prems(2) by simp
  note read = with_repo_read [OF dv v]
  then have same: "known_in v D r = known_in p D r" for r by (simp add: known_in_def)
  obtain found where found: "f = Inr found"
    using Cons.prems(1) v by (cases f) (auto simp: run_bind_def)
  then have s: "search (pe_store pe d) (content p d)
      (q\<lparr>ret_domain := d, ret_firewall := d, ret_include_global := False\<rparr>) = Inr found"
    using read by (metis res_err_Inr)
  define acc' where "acc' = take_new d (nat (ret_limit q)) acc found"
  have acc: "\<forall>r\<in>set acc'. known_in p D r"
  proof
    fix r
    assume "r \<in> set acc'"
    from take_new_found [OF this [unfolded acc'_def]] show "known_in p D r"
      using Cons.prems(3,4) search_known [OF s] by (auto simp: known_in_def)
  qed
  have run: "(if length acc' \<ge> nat (ret_limit q) then run_ret acc' else search_domains pe q ds acc') v = (Inr rs, u)"
    using Cons.prems(1) v found unfolding acc'_def by (simp add: run_bind_def Let_def split del: if_split)
  show ?case
  proof (cases "length acc' \<ge> nat (ret_limit q)")
    case True
    then show ?thesis using run acc by (simp add: run_ret_def)
  next
    case False
    then have "search_domains pe q ds acc' v = (Inr rs, u)" using run by simp
    from Cons.IH [OF this] show ?thesis using Cons.prems(2,3) acc same by simp
  qed
qed (simp add: run_ret_def)

lemma search_memory_known:
  assumes "search_memory sv q0 p = (Inr b, u)"
  shows "\<exists>q. normalize_retrieval_query q0 = Inr q \<and> set (search_scope q) \<subseteq> may_read sv (ret_actor q0) \<and>
    (\<forall>d\<in>set (search_scope q). valid_firewall d) \<and> (\<forall>r\<in>set (rbu_primary b). known_in p (set (search_scope q)) r)"
proof -
  obtain q where q: "normalize_retrieval_query q0 = Inr q"
    and auth: "authorize_retrieval (sve_firewall sv) q = Inr ()"
    and run: "giving bundle_of (pool_search (sve_pool sv) q) p = (Inr b, u)"
    using assms
    by (auto simp: search_memory_def pool_domain_def permit_def run_bind_def run_lift_def split: sum.splits prod.splits)
  obtain rs v where rs: "pool_search (sve_pool sv) q p = (Inr rs, v)" and b: "b = bundle_of rs"
    using run by (auto simp: giving_def run_ret_def elim!: run_bind_Inr)
  have "search_domains (sve_pool sv) q (search_scope q) [] p = (Inr rs, v)"
    using rs retrieval_again [OF q] by (simp add: pool_search_def pool_domain_def run_bind_def run_lift_def res_err_def)
  moreover have valid: "\<forall>d\<in>set (search_scope q). valid_firewall d"
    using normal_retrieval [OF q] scope_valid by blast
  ultimately have "\<forall>r\<in>set rs. known_in p (set (search_scope q)) r"
    using search_domains_known by (metis empty_iff list.set(1) subset_refl)
  then show ?thesis
    using q retrieval_readable [OF q auth] valid b by (auto simp: bundle_of_def Let_def)
qed

section \<open>Organising\<close>

text \<open>
  While only domains of \<open>D\<close> change, the domains in which one of the identifiers \<open>K\<close> can be repaired
  stay among them.
\<close>

definition repairs_in :: "service_env \<Rightarrow> string \<Rightarrow> string set \<Rightarrow> domain_id set \<Rightarrow> pool \<Rightarrow> bool" where
  "repairs_in sv actor K D p \<longleftrightarrow> pool_named p \<and>
     (\<forall>mid\<in>K. {d. \<exists>m. get_memory (content p d) mid = Inr m} \<inter> may_write sv actor \<subseteq> D)"

definition organizing :: "service_env \<Rightarrow> string \<Rightarrow> string set \<Rightarrow> domain_id set \<Rightarrow> pool \<Rightarrow> pool \<Rightarrow> bool" where
  "organizing sv actor K D p q \<longleftrightarrow> (repairs_in sv actor K D p \<longrightarrow> pool_named q \<and> only D p q)"

lemma repairs_later: "repairs_in sv actor K D p \<Longrightarrow> pool_named q \<Longrightarrow> only D p q \<Longrightarrow> repairs_in sv actor K D q"
proof -
  assume p: "repairs_in sv actor K D p" and "pool_named q" and same: "only D p q"
  have "x \<in> D" if "mid \<in> K" "get_memory (content q x) mid = Inr m" "x \<in> may_write sv actor" for mid x m
  proof (rule ccontr)
    assume x: "x \<notin> D"
    then have "get_memory (content p x) mid = Inr m" using same that(2) by (simp add: only_def)
    then show False using p that(1,3) x unfolding repairs_in_def by blast
  qed
  then show "repairs_in sv actor K D q" using \<open>pool_named q\<close> by (auto simp: repairs_in_def)
qed

lemma organizing_order: "reflp (organizing sv actor K D)" "transp (organizing sv actor K D)"
proof -
  show "reflp (organizing sv actor K D)"
    by (simp add: reflp_def organizing_def repairs_in_def only_def)
  show "transp (organizing sv actor K D)"
  proof (rule transpI)
    fix p q u
    assume "organizing sv actor K D p q" "organizing sv actor K D q u"
    then show "organizing sv actor K D p u"
      using repairs_later transpD [OF only_order(2)] unfolding organizing_def by blast
  qed
qed

lemma organizing_parts:
  "run_within naming m \<Longrightarrow> run_within (only D) m \<Longrightarrow> run_within (organizing sv actor K D) m"
  by (simp add: run_within_def naming_def organizing_def repairs_in_def)

lemma organizing_repair:
  assumes "rep_memory rr \<in> K" "rep_actor rr = actor"
  shows "run_within (organizing sv actor K D) (service_repair sv rr)"
proof -
  have "organizing sv actor K D p (snd (service_repair sv rr p))" for p
    unfolding organizing_def
  proof (intro impI conjI)
    assume p: "repairs_in sv actor K D p"
    then have named: "pool_named p" by (simp add: repairs_in_def)
    then show "pool_named (snd (service_repair sv rr p))"
      using names.service_memory_calls(2) [of sv rr] by (simp add: run_within_def naming_def)
    show "only D p (snd (service_repair sv rr p))"
      by (rule only_repair [OF named]) (use p assms in \<open>simp add: repairs_in_def\<close>)
  qed
  then show ?thesis by (simp add: run_within_def)
qed

lemma organizing_record:
  assumes "mem_id r \<in> K" "mem_domain r \<in> D" "valid_firewall (mem_domain r)" "org_actor req = actor"
  shows "run_within (organizing sv actor K D) (organize_memory_record sv req r)"
proof -
  let ?Q = "organizing sv actor K D"
  have read: "run_within ?Q (pool_evidence_content pe ev)" for pe ev
    by (intro organizing_parts names.pool_reads only_lookups)
  have repair: "run_within ?Q (service_repair sv (summary_repair (org_actor req) r summary))" for summary
    by (rule organizing_repair) (simp_all add: summary_repair_def assms)
  have "named (ctr_domain (follow_up_request a r questions)) (ctr_firewall (follow_up_request a r questions)) \<subseteq> D"
    for a questions
    using assms(2,3) by (simp add: follow_up_request_def named_def normalize_valid_domain)
  then have task: "run_within ?Q (pool_create_task pe now (follow_up_request a r questions))" for pe now a questions
    by (intro organizing_parts names.pool_task_calls only_task_calls)
  show ?thesis
    unfolding organize_memory_record_def Let_def giving_def
    by (intro within_bind [OF organizing_order(2)] within_case within_ret [OF organizing_order(1)] read repair task)
qed

lemma organizing_records:
  assumes "\<forall>r\<in>set rs. mem_id r \<in> K \<and> mem_domain r \<in> D \<and> valid_firewall (mem_domain r)" "org_actor req = actor"
  shows "run_within (organizing sv actor K D) (organize_records sv req rs acc)"
  using assms(1)
proof (induction rs arbitrary: acc)
  case Nil
  then show ?case by (simp add: within_ret [OF organizing_order(1)])
next
  case (Cons r rs)
  have first: "run_within (organizing sv actor K D) (organize_memory_record sv req r)"
    by (rule organizing_record [OF _ _ _ assms(2)]) (use Cons.prems in simp_all)
  have rest: "run_within (organizing sv actor K D) (organize_records sv req rs acc)" for acc
    by (rule Cons.IH) (use Cons.prems in simp)
  show ?case
    unfolding organize_records.simps by (intro within_bind [OF organizing_order(2)] within_case first rest)
qed

text \<open>The domains in the scope of the search, and those where one of their identifiers names a memory too.\<close>

definition organized_domains :: "pool \<Rightarrow> organize_request \<Rightarrow> domain_id set" where
  "organized_domains p r =
     {d. \<exists>req q. normalize_organize_request r = Inr req \<and> normalize_retrieval_query (organize_query req) = Inr q \<and>
        (d \<in> set (search_scope q) \<or>
         (\<exists>e\<in>set (search_scope q). \<exists>mid x y. get_memory (content p e) mid = Inr x \<and> get_memory (content p d) mid = Inr y))}"

lemma only_organize:
  assumes "pool_named p" "organized_domains p r \<inter> (may_read sv (org_actor r) \<union> may_write sv (org_actor r)) \<subseteq> D"
  shows "only D p (snd (organize_memory sv r p))"
proof (cases "normalize_organize_request r")
  case (Inl e)
  then show ?thesis
    using reflpD [OF only_order(1)]
    by (simp add: organize_memory_def pool_domain_def run_bind_def run_lift_def res_err_def)
next
  case (Inr req)
  have actor: "org_actor req = norm_default (org_actor r) default_agent_actor"
    using Inr by (auto simp: normalize_organize_request_def Let_def res_simps split: if_splits)
  then have same: "may_read sv (org_actor req) = may_read sv (org_actor r)"
    "may_write sv (org_actor req) = may_write sv (org_actor r)"
    by (simp_all add: may_read_def may_write_def idem_simps)
  obtain f u where u: "search_memory sv (organize_query req) p = (f, u)" by force
  have searched: "only D p u" "pool_named u"
    using only_searching(1) [of D sv "organize_query req"] names.service_searches(1) [of sv "organize_query req"] u assms(1)
    unfolding run_within_def naming_def by (metis snd_conv)+
  show ?thesis
  proof (cases f)
    case (Inl e)
    then show ?thesis
      using u searched Inr by (simp add: organize_memory_def pool_domain_def run_bind_def run_lift_def res_err_def)
  next
    case b: (Inr b)
    obtain q where q: "normalize_retrieval_query (organize_query req) = Inr q"
      "set (search_scope q) \<subseteq> may_read sv (org_actor r)" "\<forall>d\<in>set (search_scope q). valid_firewall d"
      "\<forall>x\<in>set (rbu_primary b). known_in p (set (search_scope q)) x"
      using search_memory_known [of sv "organize_query req" p b u] u b same by (auto simp: organize_query_def)
    let ?K = "mem_id ` set (rbu_primary b)"
    have reach: "set (search_scope q) \<subseteq> D"
      using q(1,2) assms(2) Inr by (auto simp: organized_domains_def)
    have found: "mem_domain x \<in> set (search_scope q) \<and> (\<exists>y. get_memory (content p (mem_domain x)) (mem_id x) = Inr y)"
      if "x \<in> set (rbu_primary b)" for x
      using q(4) that by (auto simp: known_in_def annotate_record_def)
    have "{d. \<exists>m. get_memory (content p d) (mem_id x) = Inr m} \<inter> may_write sv (org_actor req) \<subseteq> D"
      if "x \<in> set (rbu_primary b)" for x
      using found [OF that] q(1) assms(2) Inr same by (auto simp: organized_domains_def)
    then have "repairs_in sv (org_actor req) ?K D p" using assms(1) by (auto simp: repairs_in_def)
    from repairs_later [OF this searched(2,1)] have start: "repairs_in sv (org_actor req) ?K D u" .
    have "\<forall>x\<in>set (rbu_primary b). mem_id x \<in> ?K \<and> mem_domain x \<in> D \<and> valid_firewall (mem_domain x)"
      using found q(3) reach by blast
    from organizing_records [OF this refl, of sv] have
      "organizing sv (org_actor req) ?K D u (snd (organize_records sv req (rbu_primary b) acc u))" for acc
      by (simp add: run_within_def)
    then have "only D u (snd (organize_records sv req (rbu_primary b) acc u))" for acc
      using start by (simp add: organizing_def)
    then show ?thesis
      using u b Inr transpD [OF only_order(2) searched(1)]
      by (simp add: organize_memory_def pool_domain_def run_bind_def run_lift_def res_err_def)
  qed
qed

section \<open>Which domains a call may change\<close>

definition call_domains :: "pool \<Rightarrow> call \<Rightarrow> domain_id set" where
  "call_domains p c =
     (case c of
        Capture r \<Rightarrow> named (cap_domain r) (cap_firewall r)
      | Repair r \<Rightarrow> {d. \<exists>m. get_memory (content p d) (rep_memory r) = Inr m}
      | Correct r \<Rightarrow> named (cor_domain r) (cor_firewall r)
      | RefreshPage r \<Rightarrow> named (rfp_domain r) (rfp_firewall r)
      | EntityPage actor d entity title \<Rightarrow> named d []
      | Timeline actor d topic entity \<Rightarrow> named d []
      | GraphQuery r \<Rightarrow> named (gqr_domain r) (gqr_firewall r)
      | Organize r \<Rightarrow> organized_domains p r
      | RemoveDomain actor d files \<Rightarrow> named d []
      | CreateTask r \<Rightarrow> named (ctr_domain r) (ctr_firewall r)
      | GetTask r \<Rightarrow> named (tir_domain r) (tir_firewall r)
      | ListTasks q \<Rightarrow> named (tqu_domain q) (tqu_firewall q)
      | ProjectTasks q \<Rightarrow> named (tqu_domain (tgq_tasks q)) (tqu_firewall (tgq_tasks q))
      | UpdateTask r \<Rightarrow> named (utr_domain r) (utr_firewall r)
      | CompleteTask r \<Rightarrow> named (tir_domain r) (tir_firewall r)
      | CancelTask r \<Rightarrow> named (tir_domain r) (tir_firewall r)
      | DeleteTask r \<Rightarrow> named (tir_domain r) (tir_firewall r)
      | LinkTaskMemory r \<Rightarrow> named (ltm_domain r) (ltm_firewall r)
      | ListTaskRelations q \<Rightarrow> named (trq_domain q) (trq_firewall q)
      | TraverseTaskRelations q \<Rightarrow> named (ttq_domain q) (ttq_firewall q)
      | UpsertTaskRelation r \<Rightarrow> named (utq_domain r) (utq_firewall r)
      | DeleteTaskRelation r \<Rightarrow> named (dtr_domain r) (dtr_firewall r)
      | Summarize q \<Rightarrow> named (esq_domain q) (esq_firewall q)
      | Explain q \<Rightarrow> {''user''}
      | _ \<Rightarrow> {})"

text \<open>The domains that the policy lets the actor of a call write, for the calls that ask it; a query that is not seen to
  write may change those that may be read, and so may \<open>Organize\<close>, which asks nothing for the tasks it makes.\<close>

definition call_grants :: "service_env \<Rightarrow> call \<Rightarrow> domain_id set" where
  "call_grants sv c =
     (case c of
        Capture r \<Rightarrow> may_write sv (cap_actor r)
      | Repair r \<Rightarrow> may_write sv (rep_actor r)
      | Correct r \<Rightarrow> may_write sv (cor_actor r)
      | RefreshPage r \<Rightarrow> may_write sv (rfp_actor r)
      | EntityPage actor d entity title \<Rightarrow> may_write sv actor
      | Timeline actor d topic entity \<Rightarrow> may_write sv actor
      | GraphQuery r \<Rightarrow> if graph_query_mutates (gqr_query r) then may_write sv (gqr_actor r) else may_read sv (gqr_actor r)
      | Organize r \<Rightarrow> may_read sv (org_actor r) \<union> may_write sv (org_actor r)
      | RemoveDomain actor d files \<Rightarrow> {n. authorize_write (sve_firewall sv) actor n = Inr ()}
      | _ \<Rightarrow> UNIV)"

lemmas only_calls =
  only_writes only_page_calls only_queries only_searching only_metrics only_domain_calls only_task_calls
  only_summaries

lemma only_result: "only D p (snd (m p)) \<Longrightarrow> only D p (snd (no_result m p))"
  by (auto simp: no_result_def giving_def run_bind_def run_ret_def split: prod.split sum.split)

lemma only_state: "run_within (only D) m \<Longrightarrow> only D p (snd (m p))"
  by (simp add: run_within_def)

lemma serve_only:
  assumes "pool_named p" "call_domains p c \<inter> call_grants sv c \<subseteq> D"
  shows "only D p (snd (serve sv c p))"
proof (cases c)
  case (Repair r)
  then show ?thesis
    using assms only_repair [of p r sv D]
    by (auto simp: serve_def call_domains_def call_grants_def intro!: only_result)
next
  case (Organize r)
  then show ?thesis
    using assms only_organize [of p r sv D]
    by (auto simp: serve_def call_domains_def call_grants_def intro!: only_result)
qed (use assms(2) in \<open>simp only: serve_def Let_def call.case call_domains_def call_grants_def Int_UNIV_right,
      intro only_result only_state only_calls; simp add: insert_subset\<close>)+

end
