(* ===== verification/Memory_Policy.thy ===== *)
theory Memory_Policy imports Memory_Reach begin

text \<open>
  The policy of domains over runs: what any sequence of calls keeps, that a search depends only on
  databases its actor may read, and the calls that get past the policy.
\<close>

section \<open>Sequences of calls\<close>

definition serve_all :: "service_env \<Rightarrow> call list \<Rightarrow> pool \<Rightarrow> pool" where
  "serve_all sv cs p = fold (\<lambda>c q. snd (serve sv c q)) cs p"

definition deletes :: "call \<Rightarrow> bool" where
  "deletes c = (case c of RemoveDomain actor d files \<Rightarrow> files | _ \<Rightarrow> False)"

lemma serve_all_simps [simp]:
  "serve_all sv [] p = p" "serve_all sv (c # cs) p = serve_all sv cs (snd (serve sv c p))"
  by (simp_all add: serve_all_def)

lemma empty_memory_ok: "memory_ok empty_memory"
  by code_simp

lemma removed_content:
  "content (snd (service_remove_domain sv actor d files p)) x = content p x \<or>
   content (snd (service_remove_domain sv actor d files p)) x = empty_memory"
proof -
  have "content (snd (pool_remove_domain pe n files p)) x = content p x \<or>
      content (snd (pool_remove_domain pe n files p)) x = empty_memory" for pe n
    using remove_domain_content [of pe n files p x] by blast
  then show ?thesis
    by (simp add: service_remove_domain_def pool_domain_def permit_def run_bind_def run_lift_def split: sum.split)
qed

lemma serve_grows: "\<not> deletes c \<Longrightarrow> everywhere grows p (snd (serve sv c p))"
proof -
  assume "\<not> deletes c"
  then have "\<And>actor d. c \<noteq> RemoveDomain actor d True" by (auto simp: deletes_def)
  then show ?thesis using kept.each_domain.kept_serve [of c sv] by (simp add: run_within_def)
qed

lemma serve_ok:
  assumes "\<forall>d. memory_ok (content p d)"
  shows "\<forall>d. memory_ok (content (snd (serve sv c p)) d)"
proof (cases "deletes c")
  case True
  then obtain actor d where "c = RemoveDomain actor d True" by (auto simp: deletes_def split: call.splits)
  then have "snd (serve sv c p) = snd (service_remove_domain sv actor d True p)"
    by (simp add: serve_def no_result_def giving_def run_bind_def run_ret_def split: prod.split sum.split)
  then show ?thesis using removed_content [of sv actor d True p] empty_memory_ok assms by metis
next
  case False
  then show ?thesis using serve_grows assms by (simp add: everywhere_def grows_def)
qed

lemma serve_all_ok: "\<forall>d. memory_ok (content p d) \<Longrightarrow> \<forall>d. memory_ok (content (serve_all sv cs p) d)"
proof (induction cs arbitrary: p)
  case (Cons c cs)
  then show ?case using serve_ok [OF Cons.prems, of sv c] by simp
qed simp

lemma serve_all_grows: "\<forall>c\<in>set cs. \<not> deletes c \<Longrightarrow> everywhere grows p (serve_all sv cs p)"
proof (induction cs arbitrary: p)
  case Nil
  then show ?case using reflpD [OF grows_order(1)] by (simp add: everywhere_def)
next
  case (Cons c cs)
  then have "everywhere grows p (snd (serve sv c p))" "everywhere grows (snd (serve sv c p)) (serve_all sv (c # cs) p)"
    using serve_grows by simp_all
  then show ?case using transpD [OF grows_order(2)] unfolding everywhere_def by blast
qed

lemma open_pool_content: "content (open_pool p) d = content p d"
proof -
  have "content (p\<lparr>po_open := []\<rparr>) d = content p d" for d by (simp add: content_def)
  moreover have "content (open_pool p) d = content (p\<lparr>po_open := []\<rparr>) d"
    unfolding open_pool_def by (rule content_opened) (rule prod.collapse [symmetric])
  ultimately show ?thesis by simp
qed

lemma open_pool_named: "pool_named (open_pool p)"
  unfolding open_pool_def by (rule opened_named) (simp add: pool_named_def)

lemma serve_all_named: "pool_named p \<Longrightarrow> pool_named (serve_all sv cs p)"
  by (induction cs arbitrary: p) (simp_all add: serve_named)

section \<open>What a search depends on\<close>

lemma search_domains_same:
  "\<forall>d\<in>set ds. valid_firewall d \<and> content p d = content p' d \<Longrightarrow>
   fst (search_domains pe q ds acc p) = fst (search_domains pe q ds acc p')"
proof (induction ds arbitrary: acc p p')
  case (Cons d ds)
  let ?f = "\<lambda>se s. search se s (q\<lparr>ret_domain := d, ret_firewall := d, ret_include_global := False\<rparr>)"
  obtain r u where u: "with_repo pe d (\<lambda>se. run_read (?f se)) p = (r, u)" by force
  obtain r' u' where u': "with_repo pe d (\<lambda>se. run_read (?f se)) p' = (r', u')" by force
  have d: "valid_firewall d" "content p d = content p' d" using Cons.prems by simp_all
  have same: "r = r'" and rest: "\<forall>x\<in>set ds. valid_firewall x \<and> content u x = content u' x"
    using with_repo_read [OF d(1) u] with_repo_read [OF d(1) u'] d(2) Cons.prems by auto
  show ?case
    using u u' Cons.IH [OF rest] unfolding same by (cases r') (simp_all add: run_bind_def run_ret_def Let_def)
qed (simp add: run_ret_def)

lemma search_same:
  assumes "\<forall>d\<in>may_read sv (ret_actor q0). content p d = content p' d"
  shows "fst (search_memory sv q0 p) = fst (search_memory sv q0 p')"
proof (cases "normalize_retrieval_query q0")
  case (Inl e)
  then show ?thesis by (simp add: search_memory_def pool_domain_def run_bind_def run_lift_def res_err_def)
next
  case (Inr q)
  show ?thesis
  proof (cases "authorize_retrieval (sve_firewall sv) q")
    case (Inl e)
    then show ?thesis
      using Inr by (simp add: search_memory_def pool_domain_def permit_def run_bind_def run_lift_def res_err_def)
  next
    case auth: (Inr x)
    then have "set (search_scope q) \<subseteq> may_read sv (ret_actor q0)"
      by (intro retrieval_readable [OF Inr]) simp
    then have "\<forall>d\<in>set (search_scope q). valid_firewall d \<and> content p d = content p' d"
      using assms scope_valid normal_retrieval [OF Inr] by blast
    from search_domains_same [OF this, of "sve_pool sv" q "[]"] have
      "fst (pool_search (sve_pool sv) q p) = fst (pool_search (sve_pool sv) q p')"
      using retrieval_again [OF Inr] by (simp add: pool_search_def pool_domain_def run_bind_def run_lift_def res_err_def)
    moreover have "fst (giving f m v) = map_sum id f (fst (m v))" for f :: "memory_record list \<Rightarrow> retrieval_bundle" and m v
      by (simp add: giving_def run_bind_def run_ret_def split: prod.split sum.split)
    ultimately show ?thesis
      using Inr auth by (simp add: search_memory_def pool_domain_def permit_def run_bind_def run_lift_def res_err_def)
  qed
qed

section \<open>A query that is not seen to write\<close>

definition tab :: char where "tab = CHR 0x09"

lemma lex_space: "is_space c \<Longrightarrow> lex (c # s) = lex s"
  by (subst (1 2) lex.simps) (simp add: skip_space_def)

lemma lex_word:
  assumes "w \<in> {''INSERT'', ''SET'', ''DELETE''}" "\<not> identifier_rune c"
  shows "lex (w @ c # s) = res_map (\<lambda>ts. Token TokenIdentifier w # ts) (lex (c # s))"
proof -
  have "\<forall>w\<in>set [''INSERT'', ''SET'', ''DELETE'']. (\<forall>x\<in>set w. identifier_rune x) \<and> w \<noteq> [] \<and> \<not> is_space (hd w) \<and>
      \<not> is_digit (hd w) \<and> hd w \<in> set ''ISD''"
    by code_simp
  then have w: "\<forall>x\<in>set w. identifier_rune x" "w \<noteq> []" "\<not> is_space (hd w)" "\<not> is_digit (hd w)" "hd w \<in> set ''ISD''"
    using assms(1) by auto
  from w(2) obtain h t where t: "w = h # t" by (cases w) auto
  have scan: "lex_identifier (w @ c # s) = (w, c # s)"
    using w(1) assms(2) by (simp add: lex_identifier_def)
  have "lex_token h (t @ c # s) = Inr (Token TokenIdentifier w, c # s)"
  proof -
    have "h = CHR ''I'' \<or> h = CHR ''S'' \<or> h = CHR ''D''" "identifier_rune h" "\<not> is_digit h" using w t by auto
    moreover have "lex_identifier (h # t @ c # s) = (w, c # s)" using scan t by simp
    ultimately show ?thesis by (elim disjE) (simp_all add: lex_token_def)
  qed
  then show ?thesis
    using t w(3) by (subst lex.simps) (simp add: skip_space_def)
qed

lemma parse_tab:
  assumes "w \<in> {''INSERT'', ''SET'', ''DELETE''}"
  shows "parse (w @ tab # s) = parse (w @ CHR '' '' # s)"
proof -
  have c: "\<not> identifier_rune tab" "\<not> identifier_rune (CHR '' '')" "is_space tab" "is_space (CHR '' '')"
    by code_simp+
  have "lex (w @ tab # s) = lex (w @ CHR '' '' # s)"
    using lex_word [OF assms c(1)] lex_word [OF assms c(2)] lex_space [OF c(3)] lex_space [OF c(4)] by simp
  then show ?thesis by (simp add: parse_def)
qed

lemma prefix_of_prefix: "has_prefix (map f (take n (v :: string))) p \<Longrightarrow> has_prefix (map f v) p"
proof (induction v p arbitrary: n rule: has_prefix.induct)
  case (3 c s p ps)
  then show ?case by (cases n) auto
qed auto

lemma trim_take: "v = [] \<or> \<not> is_space (hd v) \<Longrightarrow> \<exists>n. trim_space v = take n v"
proof -
  assume "v = [] \<or> \<not> is_space (hd v)"
  then have "trim_left v = v" by (cases v) (simp_all add: trim_left_def)
  then have "trim_space v = rev (drop (length (takeWhile is_space (rev v))) (rev v))"
    by (simp add: trim_space_def dropWhile_eq_drop)
  then show ?thesis unfolding rev_drop by auto
qed

lemma tab_unseen:
  assumes "w \<in> {''INSERT'', ''SET'', ''DELETE''}"
  shows "\<not> graph_query_mutates (w @ tab # s)"
proof -
  have start: "\<forall>w\<in>set [''INSERT'', ''SET'', ''DELETE'']. w \<noteq> [] \<and> \<not> is_space (hd w)" by code_simp
  then obtain n where n: "trim_space (w @ tab # s) = take n (w @ tab # s)"
    using trim_take [of "w @ tab # s"] assms by (auto simp: hd_append)
  have "\<not> has_prefix (map upper_rune (w @ tab # s)) p" if "p \<in> {''INSERT '', ''SET '', ''DELETE ''}" for p
  proof -
    have u: "upper_rune tab = tab" "upper_rune CHR ''I'' = CHR ''I''" "upper_rune CHR ''N'' = CHR ''N''"
      "upper_rune CHR ''S'' = CHR ''S''" "upper_rune CHR ''E'' = CHR ''E''" "upper_rune CHR ''R'' = CHR ''R''"
      "upper_rune CHR ''T'' = CHR ''T''" "upper_rune CHR ''D'' = CHR ''D''" "upper_rune CHR ''L'' = CHR ''L''" "tab \<noteq> CHR '' ''"
      by code_simp+
    show ?thesis using assms that by (elim insertE emptyE) (simp_all add: u)
  qed
  then show ?thesis
    using n prefix_of_prefix [of upper_rune n "w @ tab # s"] unfolding graph_query_mutates_def Let_def to_upper_def by auto
qed

end
