(* ===== verification/Task_Summary.thy ===== *)
theory Task_Summary imports Task_Projection begin

text \<open>
  The executive summary: every item stands for a task of the graph, with its sources, and an action
  that is called safe is offered only for a task of low risk that is still to be done. Also the
  window of relations that the snapshot of the task graph sees.
\<close>

section \<open>Items\<close>

lemma index_tasks: "set (tix_tasks (new_task_index g)) = set (tgr_tasks g)"
  by (simp add: new_task_index_def)

lemma active_index: "t \<in> set (active_tasks ix) \<longleftrightarrow> t \<in> set (tix_tasks ix) \<and> tsk_status t \<noteq> ''done'' \<and> tsk_status t \<noteq> ''canceled''"
  by (auto simp: active_tasks_def)

lemma attention_tasks:
  "i \<in> set (build_attention zone q ix) \<Longrightarrow> \<exists>t\<in>set (active_tasks ix). i = attention_item zone q ix t"
  by (auto simp: build_attention_def dest!: in_set_takeD)

lemma attention_count: "length (build_attention zone q ix) = min (length (active_tasks ix)) (nat (esq_max_items q))"
  by (simp add: build_attention_def min.commute)

lemma group_items: "i \<in> set (igr_items (item_group_of gid label severity route items)) \<Longrightarrow> i \<in> set items"
  by (auto simp: item_group_of_def dest!: in_set_takeD)

lemma open_loop_tasks:
  assumes "g \<in> set (build_open_loops zone q ix)" "i \<in> set (igr_items g)"
  shows "\<exists>t\<in>set (active_tasks ix). \<exists>gid. i = open_loop_item zone q gid t"
proof -
  obtain gid label severity m where "g = open_loop_category zone q ix gid label severity m"
    using assms(1) by (auto simp: build_open_loops_def)
  then show ?thesis using assms(2) by (fastforce simp: open_loop_category_def dest!: group_items)
qed

lemma bucket_tasks:
  "i \<in> set (igr_items (delegation_bucket zone q ix gid label severity m)) \<Longrightarrow>
   \<exists>t\<in>set (tix_tasks ix). i = delegation_item zone q ix gid t \<and> m t"
  by (auto simp: delegation_bucket_def dest!: group_items)

lemma delegation_tasks:
  assumes "g \<in> set (build_delegation zone q ix)" "i \<in> set (igr_items g)"
  shows "\<exists>t\<in>set (tix_tasks ix). \<exists>gid. i = delegation_item zone q ix gid t \<and> (gid = ''can_do_now'' \<longrightarrow> safely_delegable t)"
proof -
  have "\<exists>gid label severity m. g = delegation_bucket zone q ix gid label severity m \<and> (gid = ''can_do_now'' \<longrightarrow> m = safely_delegable)"
    using assms(1) unfolding build_delegation_def set_simps insert_iff empty_iff
    by (elim disjE FalseE) (intro exI, rule conjI, assumption, simp)+
  then obtain gid label severity m where "g = delegation_bucket zone q ix gid label severity m"
    and "gid = ''can_do_now'' \<longrightarrow> m = safely_delegable"
    by blast
  then show ?thesis using bucket_tasks [of i zone q ix gid label severity m] assms(2) by blast
qed

section \<open>Actions\<close>

text \<open>What a safe action is offered for.\<close>

definition action_safe :: "task \<Rightarrow> summary_item \<Rightarrow> bool" where
  "action_safe t i \<longleftrightarrow>
     (\<forall>a. esi_action i = Some a \<and> esa_safety a = ''safe'' \<longrightarrow>
        \<not> unsafe_task t \<and> tsk_status t \<notin> {''done'', ''canceled'', ''blocked''} \<and>
        (esa_label a = ''Prepare draft'' \<longrightarrow> safely_delegable t))"

definition item_shows :: "summary_query \<Rightarrow> task \<Rightarrow> summary_item \<Rightarrow> bool" where
  "item_shows q t i \<longleftrightarrow>
     esi_task i = tsk_id t \<and> esi_title i = tsk_title t \<and> esi_status i = tsk_status t \<and>
     esi_evidence i = (if enabled (esq_evidence q) then source_handles t else [])"

lemma items_show:
  "item_shows q t (attention_item zone q ix t)" "item_shows q t (open_loop_item zone q gid t)"
  "item_shows q t (delegation_item zone q ix gid t)"
  by (simp_all add: item_shows_def attention_item_def open_loop_item_def delegation_item_def bare_item_def Let_def)

lemma attention_safe: "t \<in> set (active_tasks ix) \<Longrightarrow> action_safe t (attention_item zone q ix t)"
  by (auto simp: action_safe_def attention_item_def Let_def primary_action_for_lane_def attention_lane_def plain_action_def
      active_index requires_human_decision_def safely_delegable_def split: if_splits)

lemma open_loop_safe: "action_safe t (open_loop_item zone q gid t)"
  by (simp add: action_safe_def open_loop_item_def bare_item_def)

lemma delegation_safe:
  "(gid = ''can_do_now'' \<longrightarrow> safely_delegable t) \<Longrightarrow> action_safe t (delegation_item zone q ix gid t)"
  by (auto simp: action_safe_def delegation_item_def plain_action_def safely_delegable_def split: if_splits)

lemma summary_item_task:
  assumes "i \<in> set (summary_items (project_summary zone q g))"
  shows "\<exists>t\<in>set (tgr_tasks g). item_shows q t i \<and> action_safe t i"
proof -
  let ?ix = "new_task_index g"
  have "i \<in> set (build_attention zone q ?ix) \<or> (\<exists>g\<in>set (build_open_loops zone q ?ix). i \<in> set (igr_items g)) \<or>
      (\<exists>g\<in>set (build_delegation zone q ?ix). i \<in> set (igr_items g))"
    using assms by (auto simp: summary_items_def project_summary_def Let_def)
  then show ?thesis
  proof (elim disjE bexE)
    assume "i \<in> set (build_attention zone q ?ix)"
    then show ?thesis using attention_tasks items_show(1) attention_safe active_index index_tasks by blast
  next
    fix h
    assume "h \<in> set (build_open_loops zone q ?ix)" "i \<in> set (igr_items h)"
    then show ?thesis using open_loop_tasks items_show(2) open_loop_safe active_index index_tasks by blast
  next
    fix h
    assume "h \<in> set (build_delegation zone q ?ix)" "i \<in> set (igr_items h)"
    then show ?thesis using delegation_tasks items_show(3) delegation_safe index_tasks by blast
  qed
qed

lemma chain_safe:
  "c \<in> set (build_risk_unblocks ix) \<Longrightarrow> uch_action c = Some a \<Longrightarrow> esa_safety a = ''safe'' \<Longrightarrow>
   \<exists>t. uch_nodes c \<noteq> [] \<and> chn_task (hd (uch_nodes c)) = tsk_id t \<and> task_by_id ix (tsk_id t) = Some t \<and> \<not> unsafe_task t"
proof -
  assume c: "c \<in> set (build_risk_unblocks ix)" and a: "uch_action c = Some a" "esa_safety a = ''safe''"
  obtain r where r: "risk_chain ix r = Some c"
    using c by (auto simp: build_risk_unblocks_def map_filter_def dest!: in_set_takeD)
  then obtain x y where x: "c = chain_of r x y" "task_by_id ix (tre_from r) = Some x \<or> task_by_id ix (tre_to r) = Some x"
    by (auto simp: risk_chain_def split: option.splits if_splits)
  then have "task_by_id ix (tsk_id x) = Some x"
    by (auto simp: task_by_id_def find_Some_iff)
  then show ?thesis using x(1) a by (auto simp: chain_of_def plain_action_def Let_def split: if_splits)
qed

section \<open>The window of relations\<close>

lemma collect_length: "collect_relations g k seen es = Inr rs \<Longrightarrow> length rs \<le> length es"
proof (induction es arbitrary: k seen rs)
  case (Cons e es)
  show ?case
  proof (cases "ed_id e \<in> seen")
    case True
    then show ?thesis using Cons.IH [of k seen rs] Cons.prems by simp
  next
    case False
    then obtain r where r: "task_relation_from_edge g e = Inr r"
      using Cons.prems by (auto simp: res_bind_Inr)
    show ?thesis
    proof (cases r)
      case None
      then show ?thesis using Cons.IH [of k "insert (ed_id e) seen" rs] Cons.prems False r by simp
    next
      case (Some rel)
      then show ?thesis
        using Cons.IH [of "k - 1" "insert (ed_id e) seen"] Cons.prems False r
        by (fastforce simp: res_simps split: if_splits)
    qed
  qed
qed simp

lemma list_edges_window: "1000 < l \<Longrightarrow> list_edges g types l = Inr es \<Longrightarrow> length es \<le> 100"
  by (auto simp: list_edges_def Let_def res_bind_Inr dest!: res_list_Inr_length)

lemma relations_window:
  assumes "list_task_relations g q0 = Inr rs" "trq_task q0 = []" "250 < trq_limit q0" "trq_limit q0 \<le> 500"
  shows "length rs \<le> 100"
proof -
  obtain q where q: "normalize_task_relation_query q0 = Inr q" using assms(1) by (auto simp: list_task_relations_def res_simps)
  then have same: "trq_task q = []" "trq_limit q = trq_limit q0"
    using assms(2-4) by (auto simp: normalize_task_relation_query_def res_bind_Inr limit_or_def)
  then obtain es where es: "list_edges g (task_relation_graph_types (trq_types q)) (trq_limit q0 * 4) = Inr es"
    and rs: "collect_relations g (nat (trq_limit q)) {} es = Inr rs"
    using assms(1) q by (auto simp: list_task_relations_def res_simps)
  then show ?thesis using list_edges_window [OF _ es] collect_length [OF rs] assms(3) by simp
qed

lemma projection_window:
  assumes "task_graph_projection se q s = (Inr g, t)"
  shows "length (tgr_relations g) \<le> 100"
proof -
  obtain u :: memory_db and tasks types where "projected_task_relations (md_graph u) tasks types = Inr (tgr_relations g)"
    using assms
    by (auto simp: task_graph_projection_def run_read_def run_ret_def Let_def elim!: run_bind_Inr split: prod.splits)
  then obtain rs where rs: "list_task_relations (md_graph u) \<lparr>trq_domain = [], trq_firewall = [], trq_task = [], trq_types = types,
                 trq_direction = ''either'', trq_limit = 500\<rparr> = Inr rs"
    and kept: "tgr_relations g = sort_slice relation_before
      (filter (\<lambda>r. tre_from r \<in> set (map tsk_id tasks) \<and> tre_to r \<in> set (map tsk_id tasks)) rs)"
    by (auto simp: projected_task_relations_def res_bind_Inr Let_def)
  have "length (tgr_relations g) \<le> length rs" unfolding kept length_sort_slice by (rule length_filter_le)
  then show ?thesis using relations_window [OF rs] by simp
qed

end
