(* ===== verification/Task_Paths.thy ===== *)
theory Task_Paths imports Memory_Normal begin

text \<open>
  The paths of a traversal of task relations: each starts at the root, each of its relations is one
  that \<open>ListTaskRelations\<close> gives for the task before it, and no task comes twice but for the last
  one of a path that is flagged as a cycle.
\<close>

section \<open>Reading only moves the clock\<close>

definition ticks :: "memory_db \<Rightarrow> memory_db \<Rightarrow> bool" where
  "ticks s t \<longleftrightarrow> (\<exists>n. t = s\<lparr>md_graph := (md_graph s)\<lparr>db_tick := n\<rparr>\<rparr>)"

lemma ticks_order: "reflp ticks" "transp ticks"
proof -
  have "s = s\<lparr>md_graph := (md_graph s)\<lparr>db_tick := db_tick (md_graph s)\<rparr>\<rparr>" for s by simp
  then show "reflp ticks" unfolding ticks_def by (intro reflpI) blast
  show "transp ticks" unfolding ticks_def by (intro transpI) force
qed

lemma clock_ticks: "run_within ticks (memory_now se)"
proof -
  have "ticks s (s\<lparr>md_graph := g\<rparr>)" if "clock_now e (md_graph s) = (r, g)" for s e r g
    using that by (auto simp: ticks_def clock_now_def tick_def)
  then show ?thesis
    by (auto simp: run_within_def memory_now_def on_graph_def split: prod.split)
qed

lemmas ticks_basic =
  within_ret [OF ticks_order(1)] within_err [OF ticks_order(1)] within_read [OF ticks_order(1)]
  within_lift [OF ticks_order(1)]

lemma get_task_ticks: "run_within ticks (get_task se req)"
  unfolding get_task_def task_from_node_def look_def lift_domain_def Let_def
  by (intro within_bind [OF ticks_order(2)] within_case ticks_basic clock_ticks)

lemma get_tasks_ticks: "run_within ticks (get_tasks se links tids)"
  by (induction tids) (simp_all add: ticks_basic within_bind [OF ticks_order(2)] get_task_ticks)

lemma list_relations_tick:
  "list_task_relations (g\<lparr>db_tick := n\<rparr>) q = list_task_relations g q"
proof -
  have read: "get_node (g\<lparr>db_tick := n\<rparr>) nid = get_node g nid"
    "list_edge_properties (g\<lparr>db_tick := n\<rparr>) eid = list_edge_properties g eid" for nid eid
    by (simp_all add: get_node_def find_node_def list_edge_properties_def)
  have edge: "task_relation_from_edge (g\<lparr>db_tick := n\<rparr>) e = task_relation_from_edge g e" for e
    by (simp add: task_relation_from_edge_def read cong del: if_weak_cong)
  have "collect_relations (g\<lparr>db_tick := n\<rparr>) k seen es = collect_relations g k seen es" for k seen es
    by (induction es arbitrary: k seen) (simp_all add: edge cong del: option.case_cong_weak if_weak_cong)
  moreover have "list_edges (g\<lparr>db_tick := n\<rparr>) types l = list_edges g types l"
    "task_relation_edges (g\<lparr>db_tick := n\<rparr>) tid types dir = task_relation_edges g tid types dir"
    "task_node (g\<lparr>db_tick := n\<rparr>) tid = task_node g tid" for types l tid dir
    by (simp_all add: list_edges_def task_relation_edges_def list_outgoing_edges_def list_incoming_edges_def
        list_edges_where_def task_node_def read)
  ultimately show ?thesis by (simp add: list_task_relations_def Let_def cong del: if_weak_cong)
qed

lemma ticks_relations: "ticks s t \<Longrightarrow> list_task_relations (md_graph t) q = list_task_relations (md_graph s) q"
  by (auto simp: ticks_def list_relations_tick)

section \<open>Chains\<close>

fun chain :: "('a \<Rightarrow> 'r \<Rightarrow> 'a \<Rightarrow> bool) \<Rightarrow> 'a \<Rightarrow> 'r list \<Rightarrow> 'a list \<Rightarrow> bool" where
  "chain P x [] [] = True"
| "chain P x (r # rs) (y # ys) = (P x r y \<and> chain P y rs ys)"
| "chain P x [] (y # ys) = False"
| "chain P x (r # rs) [] = False"

lemma chain_snoc:
  "chain P x rs ys \<Longrightarrow> P (List.last (x # ys)) r y \<Longrightarrow> chain P x (rs @ [r]) (ys @ [y])"
  by (induction P x rs ys rule: chain.induct) auto

lemma chain_length: "chain P x rs ys \<Longrightarrow> length rs = length ys"
  by (induction P x rs ys rule: chain.induct) auto

text \<open>One step: a relation listed for the task that leads to the next one.\<close>

definition follows :: "graph_db \<Rightarrow> task_relation_traversal_query \<Rightarrow> string \<Rightarrow> task_relation \<Rightarrow> string \<Rightarrow> bool" where
  "follows g q here r tid \<longleftrightarrow>
     (\<exists>rs. list_task_relations g (adjacent_query q here) = Inr rs \<and> r \<in> set rs) \<and>
     next_traversal_task r here (ttq_direction q) = Some tid"

definition path_ok :: "graph_db \<Rightarrow> task_relation_traversal_query \<Rightarrow> task_relation_path \<Rightarrow> bool" where
  "path_ok g q p \<longleftrightarrow>
     (\<exists>ts. trp_tasks p = ttq_root q # ts \<and> chain (follows g q) (ttq_root q) (trp_relations p) ts \<and> ts \<noteq> []) \<and>
     trp_root p = ttq_root q \<and> trp_relation_ids p = map tre_id (trp_relations p) \<and>
     trp_depth p = length (trp_relations p) \<and> int (trp_depth p) \<le> ttq_max_depth q \<and>
     distinct (butlast (trp_tasks p)) \<and>
     (trp_cycle p \<longleftrightarrow> List.last (trp_tasks p) \<in> set (butlast (trp_tasks p)))"

definition walk_ok :: "graph_db \<Rightarrow> task_relation_traversal_query \<Rightarrow> nat \<Rightarrow> string \<Rightarrow> relation_path_state \<Rightarrow> bool" where
  "walk_ok g q d here st \<longleftrightarrow>
     (\<exists>ts. rps_tasks st = ttq_root q # ts \<and> chain (follows g q) (ttq_root q) (rps_relations st) ts) \<and>
     here = List.last (rps_tasks st) \<and> distinct (rps_tasks st) \<and> rps_seen st = set (rps_tasks st) \<and>
     int (length (rps_relations st) + d) = ttq_max_depth q"

definition paths_ok :: "graph_db \<Rightarrow> task_relation_traversal_query \<Rightarrow> task_relation_path list \<Rightarrow> bool" where
  "paths_ok g q ps \<longleftrightarrow> int (length ps) \<le> ttq_limit q \<and> (\<forall>p\<in>set ps. path_ok g q p)"

lemma append_path_result:
  assumes "append_path se q st cycle paths s = (Inr ps, t)"
  shows "ticks s t \<and> (\<exists>p. ps = paths @ [p] \<and> trp_root p = ttq_root q \<and> trp_tasks p = rps_tasks st \<and>
    trp_relations p = rps_relations st \<and> trp_relation_ids p = map tre_id (rps_relations st) \<and>
    trp_depth p = length (rps_relations st) \<and> trp_cycle p = cycle)"
proof -
  have "run_within ticks (append_path se q st cycle paths)"
    unfolding append_path_def by (intro within_bind [OF ticks_order(2)] within_case ticks_basic get_tasks_ticks)
  then have "ticks s t" using assms unfolding run_within_def by (metis snd_conv)
  then show ?thesis using assms by (auto simp: append_path_def run_ret_def elim!: run_bind_Inr)
qed

lemma append_path_ok:
  assumes "append_path se q st cycle paths s = (Inr ps, t)" "paths_ok g q paths" "int (length paths) < ttq_limit q"
    and "rps_tasks st = ttq_root q # ts" "chain (follows g q) (ttq_root q) (rps_relations st) ts" "ts \<noteq> []"
    and "int (length ts) \<le> ttq_max_depth q" "distinct (butlast (rps_tasks st))"
    and "cycle \<longleftrightarrow> List.last (rps_tasks st) \<in> set (butlast (rps_tasks st))"
  shows "ticks s t \<and> paths_ok g q ps"
proof -
  obtain p where p: "ticks s t" "ps = paths @ [p]" "trp_root p = ttq_root q" "trp_tasks p = rps_tasks st"
    "trp_relations p = rps_relations st" "trp_relation_ids p = map tre_id (rps_relations st)"
    "trp_depth p = length (rps_relations st)" "trp_cycle p = cycle"
    using append_path_result [OF assms(1)] by blast
  have "length (rps_relations st) = length ts" by (rule chain_length [OF assms(5)])
  then have "path_ok g q p" using assms p by (simp add: path_ok_def)
  then show ?thesis using assms(2,3) p(1,2) by (auto simp: paths_ok_def)
qed

text \<open>A path along which no task comes twice.\<close>

lemma append_walk_ok:
  assumes "append_path se q st False paths s = (Inr ps, t)" "paths_ok g q paths" "int (length paths) < ttq_limit q"
    and "walk_ok g q d here st" "rps_relations st \<noteq> []"
  shows "ticks s t \<and> paths_ok g q ps"
proof -
  obtain ts where ts: "rps_tasks st = ttq_root q # ts" "chain (follows g q) (ttq_root q) (rps_relations st) ts"
    using assms(4) by (auto simp: walk_ok_def)
  note len = chain_length [OF ts(2)]
  then have "ts \<noteq> []" "int (length ts) \<le> ttq_max_depth q" using assms(4,5) by (auto simp: walk_ok_def)
  moreover have "distinct (butlast (rps_tasks st) @ [List.last (rps_tasks st)])"
    using assms(4) append_butlast_last_id [of "rps_tasks st"] ts(1) unfolding walk_ok_def by (metis list.distinct(1))
  ultimately show ?thesis
    by (intro append_path_ok [OF assms(1-3) ts]) simp_all
qed

section \<open>The walk\<close>

lemma each_relation_ok:
  assumes step: "\<And>r paths s ps t. \<lbrakk>r \<in> set rs; ticks s0 s; f r paths s = (Inr ps, t); paths_ok g q paths;
      int (length paths) < ttq_limit q\<rbrakk> \<Longrightarrow> ticks s t \<and> paths_ok g q ps"
    and "each_relation (nat (ttq_limit q)) f rs paths s = (Inr ps, t)" "paths_ok g q paths" "ticks s0 s"
  shows "ticks s t \<and> paths_ok g q ps"
  using assms
proof (induction rs arbitrary: paths s)
  case Nil
  then show ?case using reflpD [OF ticks_order(1)] by (auto simp: run_ret_def)
next
  case (Cons r rs)
  show ?case
  proof (cases "nat (ttq_limit q) \<le> length paths")
    case True
    then show ?thesis using Cons.prems(2,3) reflpD [OF ticks_order(1)] by (auto simp: run_ret_def)
  next
    case False
    then obtain ps' u where u: "f r paths s = (Inr ps', u)"
        and go: "each_relation (nat (ttq_limit q)) f rs ps' u = (Inr ps, t)"
      using Cons.prems(2) by (auto elim!: run_bind_Inr)
    have first: "ticks s u" "paths_ok g q ps'"
      using Cons.prems(1) [OF _ Cons.prems(4) u Cons.prems(3)] False by auto
    have "ticks u t \<and> paths_ok g q ps"
      by (rule Cons.IH [OF _ go first(2) transpD [OF ticks_order(2) Cons.prems(4) first(1)]])
        (rule Cons.prems(1), auto)
    then show ?thesis using transpD [OF ticks_order(2) first(1)] by blast
  qed
qed

lemma walk_step:
  assumes "walk_ok g q (Suc d) here st" "follows g q here r tid" "tid \<notin> rps_seen st"
  shows "walk_ok g q d tid ((extend_path st r tid)\<lparr>rps_seen := insert tid (rps_seen st)\<rparr>)"
proof -
  obtain ts where "rps_tasks st = ttq_root q # ts" "chain (follows g q) (ttq_root q) (rps_relations st) ts"
    using assms(1) by (auto simp: walk_ok_def)
  then show ?thesis
    using assms chain_snoc [of "follows g q" "ttq_root q" "rps_relations st" ts r tid]
    by (auto simp: walk_ok_def extend_path_def)
qed

lemma cycle_step:
  assumes "walk_ok g q (Suc d) here st" "follows g q here r tid" "tid \<in> rps_seen st"
    and "append_path se q (extend_path st r tid) True paths s = (Inr ps, t)" "paths_ok g q paths"
    and "int (length paths) < ttq_limit q"
  shows "ticks s t \<and> paths_ok g q ps"
proof -
  obtain ts where ts: "rps_tasks st = ttq_root q # ts" "chain (follows g q) (ttq_root q) (rps_relations st) ts"
    using assms(1) by (auto simp: walk_ok_def)
  have here: "List.last (ttq_root q # ts) = here" using assms(1) ts(1) by (simp add: walk_ok_def)
  have "chain (follows g q) (ttq_root q) (rps_relations (extend_path st r tid)) (ts @ [tid])"
    using chain_snoc [OF ts(2), of r tid] assms(2) here by (simp add: extend_path_def)
  moreover have "int (length (ts @ [tid])) \<le> ttq_max_depth q"
    using assms(1) chain_length [OF ts(2)] by (simp add: walk_ok_def)
  ultimately show ?thesis
    using assms(1,3) ts(1)
    by (intro append_path_ok [OF assms(4-6), where ts = "ts @ [tid]"]) (simp_all add: extend_path_def walk_ok_def butlast_append)
qed

lemma sort_traversal_set: "set (sort_traversal_relations rs here dir) = set rs"
  by (simp add: sort_traversal_relations_def)

lemma walk_paths:
  "\<lbrakk>walk_relations d se q here st paths s = (Inr ps, t); walk_ok g q d here st; paths_ok g q paths;
    0 < ttq_max_depth q; ticks (s0 :: memory_db) s; g = md_graph s0\<rbrakk> \<Longrightarrow> ticks s t \<and> paths_ok g q ps"
proof (induction d arbitrary: here st paths s ps t)
  case 0
  have "rps_relations st \<noteq> []" using "0.prems"(2,4) by (auto simp: walk_ok_def)
  then show ?case
    using "0.prems" append_walk_ok reflpD [OF ticks_order(1)] by (auto simp: run_ret_def split: if_splits)
next
  case (Suc d)
  show ?case
  proof (cases "nat (ttq_limit q) \<le> length paths")
    case True
    then show ?thesis using Suc.prems(1,3) reflpD [OF ticks_order(1)] by (auto simp: run_ret_def)
  next
    case False
    define rel where "rel = list_task_relations g (adjacent_query q here)"
    have now: "list_task_relations (md_graph s) (adjacent_query q here) = rel"
      using ticks_relations [OF Suc.prems(5)] Suc.prems(6) by (simp add: rel_def)
    obtain rs where rs: "rel = Inr rs"
      using Suc.prems(1) False now by (cases rel) (auto simp: run_read_def run_bind_def)
    define xs where "xs = sort_traversal_relations rs here (ttq_direction q)"
    have listed: "\<And>r. r \<in> set xs \<Longrightarrow> \<exists>rs. list_task_relations g (adjacent_query q here) = Inr rs \<and> r \<in> set rs"
      using rs by (auto simp: rel_def xs_def sort_traversal_set)
    note run = Suc.prems(1) [simplified walk_relations.simps False if_False run_bind_def run_read_def now rs
        prod.case sum.case Let_def xs_def [symmetric]]
    show ?thesis
    proof (cases "xs = []")
      case True
      then show ?thesis
        using run False append_walk_ok [OF _ Suc.prems(3) _ Suc.prems(2)] Suc.prems(3) reflpD [OF ticks_order(1)]
        by (auto simp: run_ret_def split: if_splits)
    next
      case nonempty: False
      show ?thesis
      proof (rule each_relation_ok [OF _ _ Suc.prems(3) Suc.prems(5)])
        fix r paths' s' ps' t'
        assume r: "r \<in> set xs" and s': "ticks s0 s'" and paths': "paths_ok g q paths'" "int (length paths') < ttq_limit q"
          and go: "(case next_traversal_task r here (ttq_direction q) of
                    None \<Rightarrow> run_ret paths'
                  | Some tid \<Rightarrow>
                      if tid \<in> rps_seen st then append_path se q (extend_path st r tid) True paths'
                      else walk_relations d se q tid ((extend_path st r tid)\<lparr>rps_seen := insert tid (rps_seen st)\<rparr>) paths')
                 s' = (Inr ps', t')"
        show "ticks s' t' \<and> paths_ok g q ps'"
        proof (cases "next_traversal_task r here (ttq_direction q)")
          case None
          then show ?thesis using go paths'(1) reflpD [OF ticks_order(1)] by (auto simp: run_ret_def)
        next
          case (Some tid)
          then have step: "follows g q here r tid" using listed [OF r] by (simp add: follows_def)
          show ?thesis
          proof (cases "tid \<in> rps_seen st")
            case True
            then show ?thesis using go Some cycle_step [OF Suc.prems(2) step True _ paths'] by simp
          next
            case False
            then show ?thesis
              using go Some Suc.IH [OF _ walk_step [OF Suc.prems(2) step False] paths'(1) Suc.prems(4) s' Suc.prems(6)]
              by simp
          qed
        qed
      qed (use run nonempty in simp)
    qed
  qed
qed

lemma traversed_paths:
  assumes "traverse_task_relations se q0 s = (Inr t, u)"
  shows "\<exists>q. normalize_task_relation_traversal_query q0 = Inr q \<and> ttq_max_depth q \<le> 12 \<and> ttq_limit q \<le> 500 \<and>
    trv_root t = ttq_root q0 \<and> paths_ok (md_graph s) q (trv_paths t)"
proof -
  obtain q where q: "normalize_task_relation_traversal_query q0 = Inr q"
    using assms by (auto simp: traverse_task_relations_def lift_domain_def run_bind_def run_lift_def res_err_def split: sum.splits)
  have bounds: "0 < ttq_max_depth q" "ttq_max_depth q \<le> 12" "0 < ttq_limit q" "ttq_limit q \<le> 500" "ttq_root q = ttq_root q0"
    using q by (auto simp: normalize_task_relation_traversal_query_def limit_or_def res_bind_Inr split: if_splits)
  define st where "st = \<lparr>rps_tasks = [ttq_root q], rps_relations = [], rps_seen = {ttq_root q}\<rparr>"
  obtain ps v where walk: "walk_relations (nat (ttq_max_depth q)) se q (ttq_root q) st [] s = (Inr ps, v)"
    and t: "trv_root t = ttq_root q" "trv_paths t = ps"
  proof -
    have look: "look f a = (x, b) \<Longrightarrow> b = a" for f :: "graph_db \<Rightarrow> gerr + node" and a b x
      by (simp add: look_def run_read_def)
    show ?thesis
      using assms q that unfolding st_def
      by (auto simp: traverse_task_relations_def lift_domain_def run_lift_def run_ret_def res_err_def
          elim!: run_bind_Inr dest!: look)
  qed
  have start: "walk_ok (md_graph s) q (nat (ttq_max_depth q)) (ttq_root q) st"
    using bounds by (simp add: walk_ok_def st_def)
  have none: "paths_ok (md_graph s) q []" using bounds by (simp add: paths_ok_def)
  have "paths_ok (md_graph s) q ps"
    by (rule conjunct2 [OF walk_paths [OF walk start none bounds(1) reflpD [OF ticks_order(1)] refl]])
  then show ?thesis using q bounds t by (intro exI [of _ q] conjI) simp_all
qed

end
