(* ===== verification/Memory_Capture.thy ===== *)
theory Memory_Capture imports Memory_Search Task_Paths begin

text \<open>
  Capturing: a capture that fails leaves every database as it was, one with a known key changes
  nothing, and the content of a new one can be read back from its file.
\<close>

section \<open>All or nothing\<close>

lemma unit_fails: "memory_unit m s = (Inl e, t) \<Longrightarrow> ticks s t"
  using reflpD [OF ticks_order(1)]
  by (auto simp: memory_unit_def roll_back_def ticks_def split: if_splits prod.splits sum.splits option.splits)

lemma known_same: "known_capture req s = (r, t) \<Longrightarrow> t = s"
  by (auto simp: known_capture_def run_ret_def run_read_def split: if_splits)

lemma lift_domain_same: "lift_domain r s = (x, t) \<Longrightarrow> t = s \<and> x = res_err Invalid r"
  by (simp add: lift_domain_def run_lift_def)

lemma capture_fails: "capture se req s = (Inl e, t) \<Longrightarrow> ticks s t"
  using unit_fails reflpD [OF ticks_order(1)]
  by (auto simp: capture_def run_bind_def run_ret_def dest!: lift_domain_same known_same
      split: sum.splits prod.splits option.splits)

lemma everywhere_ticks: "(\<And>x. content u x = content p x) \<Longrightarrow> everywhere ticks p u"
  using reflpD [OF ticks_order(1)] by (simp add: everywhere_def)

lemma pool_capture_fails:
  assumes "pool_capture pe req p = (Inl e, u)"
  shows "everywhere ticks p u"
proof (cases "normalize_capture_request req")
  case (Inl err)
  then have "u = p" using assms by (simp add: pool_capture_def pool_domain_def run_bind_def run_lift_def res_err_def)
  then show ?thesis by (simp add: everywhere_ticks)
next
  case (Inr x)
  obtain n where n: "normalize_domain_id (cap_domain x) [] = Inr n"
    using normalize_domain_twice [OF capture_names [OF Inr]] by blast
  obtain o' v where v: "repo_for_domain (cap_domain x) p = (o', v)" by force
  have o': "o' = Inr n" using v n by (auto simp: repo_for_domain_def split: if_splits)
  have same: "content v d = content p d" for d by (rule content_opened [OF v])
  have run: "on_repo pe n (\<lambda>se. capture se x) v = (Inl e, u)"
    using assms Inr v o' by (simp add: pool_capture_def pool_domain_def with_repo_def run_bind_def run_lift_def res_err_def)
  obtain r db where db: "capture (pe_store pe n) x (content v n) = (r, db)" by force
  then obtain e' where "r = Inl e'" using run by (cases r) (auto simp: on_repo_def res_err_def)
  then have "ticks (content v n) db" using capture_fails db by blast
  then show ?thesis
    using on_repo_content [OF run] db same reflpD [OF ticks_order(1)] by (simp add: everywhere_def)
qed

lemma service_capture_fails:
  assumes "service_capture sv req p = (Inl e, u)"
  shows "everywhere ticks p u"
  using assms pool_capture_fails [of "sve_pool sv" _ p e u] everywhere_ticks [of p p]
  by (auto simp: service_capture_def pool_domain_def permit_def run_bind_def run_lift_def split: sum.splits)

section \<open>Known keys\<close>

lemma capture_known:
  assumes "normalize_capture_request req = Inr x" "cap_key x \<noteq> []"
    and "capture_by_idempotency s (cap_key x) = Inr (Some r)"
  shows "capture se req s = (Inr r, s)"
  using assms
  by (simp add: capture_def lift_domain_def known_capture_def run_bind_def run_lift_def run_read_def run_ret_def res_err_def)

section \<open>Reading the content back\<close>

definition evidence_path :: "store_env \<Rightarrow> node_id \<Rightarrow> string \<Rightarrow> string" where
  "evidence_path se nid text = ''sources/'' @ nid @ ''-'' @ se_checksum se text @ ''.txt''"

text \<open>Files hold what the checksum in their name stands for: no two contents collide.\<close>

definition files_named :: "store_env \<Rightarrow> memory_db \<Rightarrow> bool" where
  "files_named se s \<longleftrightarrow> (\<forall>nid text c. md_files s (evidence_path se nid text) = Some c \<longrightarrow> c = text)"

definition files_same :: "memory_db \<Rightarrow> memory_db \<Rightarrow> bool" where
  "files_same s t \<longleftrightarrow>
     md_blobs t = md_blobs s \<and> md_files t = md_files s \<and> md_staged t = md_staged s \<and>
     md_removals t = md_removals s \<and> md_in_unit t = md_in_unit s"

lemma files_same_order: "reflp files_same" "transp files_same"
  by (auto simp: files_same_def intro: reflpI transpI)

lemmas files_basic =
  within_ret [OF files_same_order(1)] within_err [OF files_same_order(1)] within_read [OF files_same_order(1)]
  within_lift [OF files_same_order(1)]

lemma graph_files: "run_within files_same (on_graph m)"
  by (simp add: run_within_def on_graph_def files_same_def split: prod.split)

lemma now_files: "run_within files_same (memory_now se)"
  unfolding memory_now_def by (rule graph_files)

lemma do_files: "run_within files_same (do_graph m)"
  unfolding do_graph_def by (intro within_bind [OF files_same_order(2)] graph_files files_basic)

lemma look_files: "run_within files_same (look f)" "run_within files_same (lift_domain r)"
  unfolding look_def lift_domain_def by (rule files_basic)+

lemma alias_files: "run_within files_same (upsert_alias se req)"
proof -
  have put: "run_within files_same (\<lambda>s. if P s then (Inl e, s) else (Inr (), s\<lparr>md_aliases := f s\<rparr>))" for P e f
    by (simp add: run_within_def files_same_def)
  show ?thesis
    unfolding upsert_alias_def
    by (intro within_bind [OF files_same_order(2)] now_files look_files files_basic put)
qed

lemma index_files: "run_within files_same (reindex_node nid)"
proof -
  have put: "run_within files_same (\<lambda>s. (Inr (), s\<lparr>md_index := f s\<rparr>))" for f
    by (simp add: run_within_def files_same_def)
  show ?thesis
    unfolding reindex_node_def
    by (intro within_bind [OF files_same_order(2)] look_files files_basic put)
qed

lemma each_files: "(\<And>x. run_within files_same (f x)) \<Longrightarrow> run_within files_same (each f xs)"
  by (induction xs) (simp_all add: files_basic within_bind [OF files_same_order(2)])

lemma facets_files: "run_within files_same (write_facets se mid ev actor subjects topics entities)"
  unfolding write_facets_def replace_facet_edges_def replace_entity_edges_def archive_edges_def
  by (intro within_bind [OF files_same_order(2)] each_files look_files do_files graph_files alias_files)

lemma facts_files: "run_within files_same (write_capture_facts se req mid ev)"
  unfolding write_capture_facts_def by (intro each_files within_case do_files files_basic)

text \<open>Where the content of a node is while its unit of work goes on.\<close>

definition holds_text :: "store_env \<Rightarrow> node_id \<Rightarrow> string \<Rightarrow> memory_db \<Rightarrow> bool" where
  "holds_text se nid text s \<longleftrightarrow>
     (\<exists>row t. find_blob s nid = Some row \<and> bl_path row = evidence_path se nid text \<and> parse_time (bl_created row) = Inr t) \<and>
     evidence_path se nid text \<notin> set (md_removals s) \<and>
     (md_files s (evidence_path se nid text) = Some text \<and> md_staged s = [] \<or>
      md_files s (evidence_path se nid text) = None \<and>
      (\<exists>w. md_staged s = [w] \<and> ew_created w \<and> ew_temp w = Some text \<and> ew_path w = evidence_path se nid text))"

lemma holds_text_same: "files_same s t \<Longrightarrow> holds_text se nid text s \<Longrightarrow> holds_text se nid text t"
  by (simp add: files_same_def holds_text_def find_blob_def)

lemma removed_other: "p \<notin> set paths \<Longrightarrow> remove_files paths files p = files p"
  unfolding remove_files_def by (induction paths arbitrary: files) simp_all

lemma committed_text:
  assumes "holds_text se nid text s" "commit_files (md_staged s) (md_files s) = Some files"
    and "find_blob t nid = find_blob s nid" "md_staged_by t = Map.empty"
    and "md_files t = remove_files (md_removals s) files"
  shows "get_evidence_content t nid = Inr text"
proof -
  let ?p = "evidence_path se nid text"
  have "files ?p = Some text"
    using assms(1,2) by (auto simp: holds_text_def)
  moreover have "?p \<notin> set (md_removals s)" using assms(1) by (simp add: holds_text_def)
  ultimately have "md_files t ?p = Some text" using assms(5) by (simp add: removed_other)
  then show ?thesis
    using assms(1,3,4)
    by (auto simp: holds_text_def get_evidence_content_def read_blob_content_def get_evidence_blob_def res_err_def)
qed

section \<open>Writing the evidence\<close>

lemma find_upserted: "\<exists>c. find_blob (s\<lparr>md_blobs := upsert_blob_row b rows\<rparr>) (bl_node b) = Some (b\<lparr>bl_created := c\<rparr>)"
proof (cases "List.find (\<lambda>r. bl_node r = bl_node b) rows")
  case None
  then have "List.find (\<lambda>r. bl_node r = bl_node b) (rows @ [b]) = Some b" by (induction rows) auto
  then show ?thesis using None by (auto simp: find_blob_def upsert_blob_row_def intro: exI [of _ "bl_created b"])
next
  case (Some r)
  have "List.find (\<lambda>r. bl_node r = bl_node b) (map (\<lambda>r. if bl_node r = bl_node b then b\<lparr>bl_created := bl_created r\<rparr> else r) rows) =
      Some (b\<lparr>bl_created := bl_created r\<rparr>)"
    using Some by (induction rows) (auto split: if_splits)
  then show ?thesis using Some by (auto simp: find_blob_def upsert_blob_row_def)
qed

lemma discarding_Inr: "discarding w m s = (Inr x, t) \<longleftrightarrow> m s = (Inr x, t)"
  by (auto simp: discarding_def split: prod.splits sum.splits)

lemma within_same: "run_within files_same m \<Longrightarrow> m s = (r, t) \<Longrightarrow> files_same s t"
  unfolding run_within_def by (metis snd_conv)

lemma file_staged:
  assumes "write_evidence_file se nid text s = (Inr w, t)" "md_in_unit s" "md_staged s = []" "files_named se s"
  shows "ew_path w = evidence_path se nid text \<and> md_blobs t = md_blobs s \<and> md_removals t = md_removals s \<and> md_in_unit t \<and>
    (md_files t (evidence_path se nid text) = Some text \<and> md_staged t = [] \<or>
     md_files t (evidence_path se nid text) = None \<and> md_staged t = [w] \<and> ew_created w \<and> ew_temp w = Some text)"
proof -
  have "write_evidence_file se nid text s =
     (let w = \<lparr>ew_node = nid, ew_checksum = se_checksum se text, ew_path = evidence_path se nid text,
               ew_size = byte_size text, ew_created = False, ew_temp = None\<rparr>
      in if md_files s (evidence_path se nid text) \<noteq> None then (Inr w, s)
         else let w = w\<lparr>ew_created := True, ew_temp := Some text\<rparr>
              in (Inr w, s\<lparr>md_staged := md_staged s @ [w], md_staged_by := (md_staged_by s)(nid \<mapsto> text)\<rparr>))"
    using assms(2) by (simp add: write_evidence_file_def evidence_path_def Let_def)
  then show ?thesis
    using assms by (auto simp: Let_def files_named_def split: if_splits)
qed

lemma evidence_written:
  assumes "write_evidence_blob se req s = (Inr b, t)" "md_in_unit s" "md_staged s = []" "md_removals s = []"
    and "files_named se s" "text = trim_space (wbr_content req)"
  shows "holds_text se (wbr_node req) text t"
proof -
  let ?p = "evidence_path se (wbr_node req) text"
  obtain x where x: "normalize_write_blob req = Inr x" and nodes: "wbr_node x = wbr_node req" "wbr_content x = text"
    using assms(1,6)
    by (cases "normalize_write_blob req")
       (auto simp: write_evidence_blob_def lift_domain_def run_bind_def run_lift_def res_err_def normalize_write_blob_def
         Let_def split: if_splits)
  obtain w s1 now s2 s3 y s4 where s1: "write_evidence_file se (wbr_node req) text s = (Inr w, s1)"
    and s2: "memory_now se s1 = (Inr now, s2)"
    and s3: "put_blobs (upsert_blob_row (blob_row_of x w now) (md_blobs s2)) s2 = (Inr (), s3)"
    and s4: "on_graph (append_audit (se_graph se)
        ((audit_of ''write_evidence_blob'' (wbr_actor x) (wbr_node x) (wbr_source_node x)
            ''wrote graph source content'')\<lparr>aa_details := blob_audit_details x w\<rparr>)) s3 = (Inr y, s4)"
    and t: "t = (case find_blob s (wbr_node req) of
                      Some b \<Rightarrow> if bl_path b \<noteq> ew_path w then remove_superseded (bl_path b) s4 else s4
                    | None \<Rightarrow> s4)"
    and b: "get_evidence_blob t (wbr_node req) = Inr b"
    using assms(1) x nodes
    by (auto simp: write_evidence_blob_def lift_domain_def run_lift_def res_err_def run_read_def discarding_Inr
        elim!: run_bind_Inr)
  note st = file_staged [OF s1 assms(2,3,5)] and same2 = within_same [OF now_files s2] and same4 = within_same [OF graph_files s4]
  have s3': "s3 = s2\<lparr>md_blobs := upsert_blob_row (blob_row_of x w now) (md_blobs s2)\<rparr>"
    using s3 by (simp add: put_blobs_def split: if_splits)
  have row: "bl_node (blob_row_of x w now) = wbr_node req" "bl_path (blob_row_of x w now) = ?p"
    using nodes st by (simp_all add: blob_row_of_def)
  have blobs: "md_blobs t = upsert_blob_row (blob_row_of x w now) (md_blobs s2)"
    using t same4 s3' by (simp add: files_same_def remove_superseded_def split: option.splits)
  obtain c where c: "find_blob t (wbr_node req) = Some ((blob_row_of x w now)\<lparr>bl_created := c\<rparr>)"
    using find_upserted [where s = s2 and b = "blob_row_of x w now" and rows = "md_blobs s2"] row(1) blobs by (auto simp: find_blob_def)
  have "\<exists>tm. parse_time c = Inr tm"
    using b c by (auto simp: get_evidence_blob_def res_bind_Inr res_simps)
  moreover have rest: "md_files s4 = md_files s1" "md_staged s4 = md_staged s1" "md_removals s4 = []" "md_in_unit s4"
    using st same2 same4 s3' assms(4) by (simp_all add: files_same_def)
  moreover have "md_files t = md_files s4" "md_staged t = md_staged s4" "?p \<notin> set (md_removals t)"
    using t rest st by (auto simp: remove_superseded_def split: option.splits)
  ultimately show ?thesis
    using c row st unfolding holds_text_def by auto
qed

lemma captured_text:
  assumes "capture_normalized se req s = (Inr r, t)" "md_in_unit s" "md_staged s = []" "md_removals s = []"
    and "files_named se s"
  shows "holds_text se (cpr_evidence r) (trim_space (cap_content req)) t"
proof -
  let ?en = "se_graph se"
  obtain evn s1 where s1: "on_graph (upsert_node ?en (evidence_request req)) s = (Inr evn, s1)"
    using assms(1) by (auto simp: capture_normalized_def Let_def elim!: run_bind_Inr)
  define breq where "breq = \<lparr>wbr_node = nd_id evn, wbr_content = cap_content req, wbr_media_type = cap_media_type req,
            wbr_system = src_system (cap_source req), wbr_source_id = src_id (cap_source req),
            wbr_source_node = nd_id evn, wbr_actor = cap_actor req\<rparr>"
  obtain b s2 where s2: "write_evidence_blob se breq s1 = (Inr b, s2)"
    using assms(1) s1 by (auto simp: capture_normalized_def Let_def breq_def run_bind_def split: sum.splits prod.splits)
  have same1: "files_same s s1" by (rule within_same [OF graph_files s1])
  have held: "holds_text se (nd_id evn) (trim_space (cap_content req)) s2"
    using evidence_written [OF s2 _ _ _ _ refl] same1 assms(2-5)
    by (simp add: files_same_def files_named_def breq_def)
  define after where "after = (\<lambda>mn :: node.
         let mid = nd_id mn; ev = nd_id evn in
         run_bind (write_capture_facts se req mid ev) (\<lambda>_.
         run_bind (do_graph (upsert_edge ?en
           ((edge_request mid ''captured_from'' ev ev (cap_actor req))\<lparr>ue_trust := ''source_original''\<rparr>))) (\<lambda>_.
         run_bind (write_facets se mid ev (cap_actor req) (cap_subjects req) (cap_topics req)
                     (cap_entities req)) (\<lambda>_.
         run_bind (upsert_alias se \<lparr>ual_node = mid, ual_locale = [], ual_alias = cap_title req,
                                    ual_kind = ''title''\<rparr>) (\<lambda>_.
         run_bind (reindex_node ev) (\<lambda>_.
         run_bind (reindex_node mid) (\<lambda>_.
         run_bind (do_graph (append_audit ?en (audit_of ''capture'' (cap_actor req) mid ev
           ''captured source content and projected it into the context graph''))) (\<lambda>_.
         run_ret \<lparr>cpr_evidence = ev, cpr_memory = mid, cpr_duplicate = False\<rparr>))))))))"
  have go: "run_bind (on_graph (upsert_node ?en (memory_request req))) after s2 = (Inr r, t)"
    using assms(1) s1 s2
    by (simp add: capture_normalized_def after_def Let_def breq_def
        run_bind_def [of "on_graph (upsert_node ?en (evidence_request req))"] run_bind_def [of "write_evidence_blob _ _"])
  have "run_within files_same (run_bind (on_graph (upsert_node ?en (memory_request req))) after)"
    unfolding after_def Let_def
    by (intro within_bind [OF files_same_order(2)] graph_files facts_files do_files facets_files alias_files index_files
        files_basic)
  then have "files_same s2 t" by (rule within_same) (rule go)
  moreover have "cpr_evidence r = nd_id evn"
    using go by (auto simp: after_def Let_def run_ret_def elim!: run_bind_Inr)
  ultimately show ?thesis using holds_text_same held by metis
qed

lemma capture_text:
  assumes "capture se req s = (Inr r, t)" "\<not> cpr_duplicate r" "files_named se s" "normalize_capture_request req = Inr x"
  shows "get_evidence_content t (cpr_evidence r) = Inr (cap_content x)"
proof -
  have trimmed: "trim_space (cap_content x) = cap_content x"
    using assms(4) by (auto simp: normalize_capture_request_def Let_def res_bind_Inr split: if_splits)
  have dup: "cpr_duplicate d" if "known_capture y u = (Inr (Some d), v)" for y u v d
    using that by (auto simp: known_capture_def run_ret_def run_read_def capture_by_idempotency_def res_simps split: if_splits sum.splits gerr.splits)
  let ?work = "run_bind (known_capture x) (\<lambda>again.
                 case again of Some r \<Rightarrow> run_ret r | None \<Rightarrow> capture_normalized se x)"
  obtain k where k: "known_capture x s = (Inr k, s)"
    and go: "(case k of Some r \<Rightarrow> run_ret r | None \<Rightarrow> memory_unit ?work) s = (Inr r, t)"
  proof -
    obtain k u where k: "known_capture x s = (Inr k, u)"
      and "(case k of Some r \<Rightarrow> run_ret r | None \<Rightarrow> memory_unit ?work) u = (Inr r, t)"
      using assms(1,4) by (auto simp: capture_def lift_domain_def run_lift_def elim!: run_bind_Inr)
    moreover have "u = s" by (rule known_same [OF k])
    ultimately show ?thesis using that by blast
  qed
  have "k = None" using go assms(2) dup [of x s] k by (cases k) (auto simp: run_ret_def)
  with go have unit: "memory_unit ?work s = (Inr r, t)" by simp
  obtain u files where u: "?work (begin_unit s) = (Inr r, u)" and files: "commit_files (md_staged u) (md_files u) = Some files"
    and t: "t = u\<lparr>md_in_unit := False, md_staged := [], md_staged_by := Map.empty,
                              md_removals := [], md_files := remove_files (md_removals u) files\<rparr>"
    using unit by (auto simp: memory_unit_def split: if_splits prod.splits sum.splits option.splits)
  have "capture_normalized se x (begin_unit s) = (Inr r, u)"
    using u assms(2) dup [of x "begin_unit s"]
    by (auto simp: run_ret_def elim!: run_bind_Inr dest: known_same split: option.splits)
  from captured_text [OF this] assms(3) have "holds_text se (cpr_evidence r) (cap_content x) u"
    by (simp add: begin_unit_def files_named_def trimmed)
  from committed_text [OF this files] t show ?thesis by (simp add: find_blob_def)
qed

lemma service_capture_text:
  assumes "service_capture sv req p = (Inr r, u)" "\<not> cpr_duplicate r" "normalize_capture_request req = Inr x"
    and "files_named (pe_store (sve_pool sv) (cap_domain x)) (content p (cap_domain x))"
  shows "get_evidence_content (content u (cap_domain x)) (cpr_evidence r) = Inr (cap_content x)"
proof -
  have d: "valid_firewall (cap_domain x)" by (rule normalize_domain_valid [OF capture_names [OF assms(3)]])
  obtain o' v where v: "repo_for_domain (cap_domain x) p = (o', v)" by force
  have o': "o' = Inr (cap_domain x)"
    using v normalize_valid_domain [OF d] by (auto simp: repo_for_domain_def split: if_splits)
  have run: "on_repo (sve_pool sv) (cap_domain x) (\<lambda>se. capture se x) v = (Inr r, u)"
    using assms(1,3) v o' capture_again [OF assms(3)]
    by (auto simp: service_capture_def pool_capture_def pool_domain_def permit_def with_repo_def run_bind_def run_lift_def
        res_err_def split: sum.splits)
  obtain c db where db: "capture (pe_store (sve_pool sv) (cap_domain x)) x (content v (cap_domain x)) = (c, db)" by force
  then have "c = Inr r" using run by (auto simp: on_repo_def)
  with db have "get_evidence_content db (cpr_evidence r) = Inr (cap_content x)"
    using capture_text [OF _ assms(2) _ capture_again [OF assms(3)]] assms(4) content_opened [OF v] by metis
  then show ?thesis using on_repo_content [OF run] db by simp
qed

end
