(* ===== verification/Memory_Repair.thy ===== *)
theory Memory_Repair imports Memory_Search begin

text \<open>
  What a repair through the service does to the facets of a memory: normalising turns lists that are
  not given into empty ones, so that the repository archives the edges of all of them.
\<close>

section \<open>Edges only fade\<close>

definition live :: "memory_db \<Rightarrow> node_id \<Rightarrow> relation_type \<Rightarrow> edge_id set" where
  "live s nid rel =
     {er_id r |r. r \<in> set (db_edges (md_graph s)) \<and> er_from r = nid \<and> er_type r = rel \<and> er_status r = ''active''}"

definition fades :: "memory_db \<Rightarrow> memory_db \<Rightarrow> bool" where
  "fades s t \<longleftrightarrow> (\<forall>nid rel. live t nid rel \<subseteq> live s nid rel)"

definition edges_same :: "graph_db \<Rightarrow> graph_db \<Rightarrow> bool" where
  "edges_same g h \<longleftrightarrow> db_edges h = db_edges g"

lemma fades_order: "reflp fades" "transp fades"
proof -
  show "reflp fades" by (simp add: fades_def reflpI)
  show "transp fades" unfolding fades_def by (rule transpI) (meson subset_trans)
qed

lemma edges_same_order: "reflp edges_same" "transp edges_same"
  by (auto simp: edges_same_def intro: reflpI transpI)

lemmas edges_basic =
  within_ret [OF edges_same_order(1)] within_err [OF edges_same_order(1)] within_read [OF edges_same_order(1)]
  within_lift [OF edges_same_order(1)]

lemma edges_puts:
  "run_within edges_same (clock_now en)" "run_within edges_same (new_id en p)"
  "run_within edges_same (put_nodes nrows)" "run_within edges_same (put_node_props prows)"
  "run_within edges_same (put_audits arows)"
  by (auto simp: run_within_def edges_same_def clock_now_def new_id_def tick_def put_nodes_def put_node_props_def
      put_audits_def split: option.split)

lemma edges_state: "(\<And>u. run_within edges_same (f u)) \<Longrightarrow> run_within edges_same (\<lambda>s. f s s)"
  by (rule within_state)

lemma edges_writes:
  "run_within edges_same (upsert_node en nreq)" "run_within edges_same (upsert_node_property en preq)"
  "run_within edges_same (append_audit en areq)"
proof -
  have puts: "run_within edges_same (\<lambda>s. put_nodes (f s) s)" "run_within edges_same (\<lambda>s. put_node_props (g s) s)"
    "run_within edges_same (\<lambda>s. put_audits (h s) s)" for f g h
    by (rule edges_state, rule edges_puts)+
  have update: "run_within edges_same (update_node nid r now)" for nid r now
    unfolding update_node_def [abs_def]
    by (rule edges_state) (intro within_bind [OF edges_same_order(2)] edges_puts edges_basic)
  have insert: "run_within edges_same (insert_node nid r now)" for nid r now
    unfolding insert_node_def [abs_def] by (rule puts)
  show "run_within edges_same (upsert_node en nreq)"
    unfolding upsert_node_def
    by (intro within_bind [OF edges_same_order(2)] within_case edges_puts edges_basic update insert)
  show "run_within edges_same (upsert_node_property en preq)"
    unfolding upsert_node_property_def upsert_property_in_def
    by (intro within_bind [OF edges_same_order(2)] within_case edges_puts edges_basic puts)
  show "run_within edges_same (append_audit en areq)"
    unfolding append_audit_def
    by (intro within_bind [OF edges_same_order(2)] within_case edges_puts edges_basic puts)
qed

lemma graph_fades: "run_within edges_same m \<Longrightarrow> run_within fades (on_graph m)"
  by (auto simp: run_within_def on_graph_def fades_def live_def edges_same_def split: prod.split) (metis snd_conv)+

lemmas fades_basic =
  within_ret [OF fades_order(1)] within_err [OF fades_order(1)] within_read [OF fades_order(1)]
  within_lift [OF fades_order(1)]

lemma do_fades: "run_within fades (on_graph m) \<Longrightarrow> run_within fades (do_graph m)"
  unfolding do_graph_def by (intro within_bind [OF fades_order(2)] fades_basic)

lemma look_fades: "run_within fades (look f)"
  unfolding look_def by (rule fades_basic)

lemma index_fades: "run_within fades (reindex_node nid)"
proof -
  have put: "run_within fades (\<lambda>s. (Inr (), s\<lparr>md_index := f s\<rparr>))" for f
    by (simp add: run_within_def fades_def live_def)
  show ?thesis
    unfolding reindex_node_def by (intro within_bind [OF fades_order(2)] look_fades fades_basic put)
qed

section \<open>Archiving\<close>

definition archived_row :: "edge_id \<Rightarrow> string \<Rightarrow> string \<Rightarrow> edge_row \<Rightarrow> edge_row" where
  "archived_row eid actor now r =
     (if er_id r = eid then r\<lparr>er_status := ''archived'', er_actor := norm_default actor default_agent_actor,
        er_updated := now\<rparr> else r)"

lemma archived_live:
  "db_edges (md_graph t) = map (archived_row eid actor now) (db_edges (md_graph s)) \<Longrightarrow>
   fades s t \<and> eid \<notin> live t nid rel"
proof -
  assume t: "db_edges (md_graph t) = map (archived_row eid actor now) (db_edges (md_graph s))"
  have "x \<in> set (db_edges (md_graph s)) \<and> er_id x \<noteq> eid"
    if "x \<in> set (db_edges (md_graph t))" "er_status x = ''active''" for x
    using that unfolding t by (auto simp: archived_row_def split: if_splits)
  then show ?thesis unfolding fades_def live_def by blast
qed

lemma set_edge_archived:
  assumes "set_edge_status en eid ''archived'' actor g = (r, h)"
  shows "db_edges h = db_edges g \<or> (\<exists>now. db_edges h = map (archived_row eid actor now) (db_edges g))"
    and "r = Inr e \<Longrightarrow> \<exists>now. db_edges h = map (archived_row eid actor now) (db_edges g)"
proof -
  define rows where "rows = map (archived_row eid actor (time_string (en_now en (db_tick g)))) (db_edges g)"
  have put: "(\<lambda>s. put_edges
                 (map (\<lambda>r. if er_id r = eid
                           then r\<lparr>er_status := ''archived'', er_actor := norm_default actor default_agent_actor,
                                  er_updated := time_string now\<rparr>
                           else r) (db_edges s)) s) =
     (\<lambda>s. put_edges (map (archived_row eid actor (time_string now)) (db_edges s)) s)" for now
    by (simp add: archived_row_def [abs_def])
  have "set_edge_status en eid ''archived'' actor g =
      (if eid = [] then (Inl EdgeIdRequired, g)
       else if \<not> valid_lifecycle_status ''archived'' then (Inl (InvalidEdgeStatus ''archived''), g)
       else if edges_ok (db_nodes g) rows
       then (get_edge ((tick g)\<lparr>db_edges := rows\<rparr>) eid, (tick g)\<lparr>db_edges := rows\<rparr>)
       else (Inl (Constraint ''graph_edges''), tick g))"
    unfolding set_edge_status_def put
    by (simp add: run_bind_def run_err_def clock_now_def run_read_def put_edges_def rows_def tick_def)
  then have *: "(\<exists>e. r = Inl e) \<and> db_edges h = db_edges g \<or> db_edges h = rows"
    using assms by (auto simp: tick_def split: if_splits)
  then show "db_edges h = db_edges g \<or> (\<exists>now. db_edges h = map (archived_row eid actor now) (db_edges g))"
    and "r = Inr e \<Longrightarrow> \<exists>now. db_edges h = map (archived_row eid actor now) (db_edges g)"
    unfolding rows_def by blast+
qed

lemma edge_archived:
  assumes "do_graph (set_edge_status en eid ''archived'' actor) s = (r, t)"
  shows "fades s t" "r = Inr () \<Longrightarrow> eid \<notin> live t nid rel"
proof -
  obtain q h where h: "set_edge_status en eid ''archived'' actor (md_graph s) = (q, h)" by force
  have t: "md_graph t = h" "r = Inr () \<Longrightarrow> \<exists>e. q = Inr e"
    using assms h by (auto simp: do_graph_def on_graph_def run_bind_def run_ret_def res_err_def split: sum.splits)
  from set_edge_archived(1) [OF h] show "fades s t"
  proof
    assume "db_edges h = db_edges (md_graph s)"
    then show ?thesis using t(1) by (simp add: fades_def live_def)
  next
    assume "\<exists>now. db_edges h = map (archived_row eid actor now) (db_edges (md_graph s))"
    then show ?thesis using archived_live [of t eid actor _ s] t(1) by blast
  qed
  show "r = Inr () \<Longrightarrow> eid \<notin> live t nid rel"
    using set_edge_archived(2) [OF h] archived_live [of t eid actor _ s] t by blast
qed

lemma each_archived:
  "each (\<lambda>e. do_graph (set_edge_status en (ed_id e) ''archived'' actor)) es s = (r, t) \<Longrightarrow>
   fades s t \<and> (r = Inr () \<longrightarrow> (\<forall>e\<in>set es. ed_id e \<notin> live t nid rel))"
proof (induction es arbitrary: s)
  case Nil
  then show ?case using reflpD [OF fades_order(1)] by (simp add: run_ret_def)
next
  case (Cons e es)
  obtain q u where u: "do_graph (set_edge_status en (ed_id e) ''archived'' actor) s = (q, u)" by force
  note first = edge_archived [OF u]
  show ?case
  proof (cases q)
    case (Inl err)
    then show ?thesis using Cons.prems u first(1) by (auto simp: run_bind_def)
  next
    case (Inr x)
    then have go: "each (\<lambda>e. do_graph (set_edge_status en (ed_id e) ''archived'' actor)) es u = (r, t)"
      using Cons.prems u by (simp add: run_bind_def)
    have gone: "ed_id e \<notin> live u nid rel" using first(2) Inr by simp
    have later: "fades u t" "r = Inr () \<longrightarrow> (\<forall>e\<in>set es. ed_id e \<notin> live t nid rel)"
      using Cons.IH [OF go] by blast+
    have "ed_id e \<notin> live t nid rel" using gone later(1) unfolding fades_def by blast
    then show ?thesis using later(2) transpD [OF fades_order(2) first(1) later(1)] by simp
  qed
qed

lemma res_list_each: "res_list f xs = Inr ys \<Longrightarrow> x \<in> set xs \<Longrightarrow> \<exists>y\<in>set ys. f x = Inr y"
  by (induction xs arbitrary: ys) auto

lemma edges_archived:
  assumes "archive_edges se nid rel actor s = (r, t)"
  shows "fades s t" "r = Inr () \<Longrightarrow> live t nid rel = {}"
proof -
  obtain q where q: "list_outgoing_edges (md_graph s) nid [rel] = q" by blast
  have "fades s t \<and> (r = Inr () \<longrightarrow> live t nid rel = {})"
  proof (cases q)
    case (Inl e)
    then show ?thesis
      using assms q reflpD [OF fades_order(1)]
      by (auto simp: archive_edges_def look_def run_bind_def run_read_def res_err_def)
  next
    case (Inr es)
    then have go: "each (\<lambda>e. do_graph (set_edge_status (se_graph se) (ed_id e) ''archived'' actor)) es s = (r, t)"
      using assms q by (simp add: archive_edges_def look_def run_bind_def run_read_def res_err_def)
    have rows: "res_list scan_edge (list_edges_where (md_graph s)
         (\<lambda>r. er_from r = nid \<and> er_status r = ''active'' \<and> er_type r = rel)) = Inr es"
      using q Inr by (auto simp: list_outgoing_edges_def res_bind_Inr)
    have all: "live s nid rel \<subseteq> ed_id ` set es"
    proof
      fix i
      assume "i \<in> live s nid rel"
      then obtain row where row: "er_id row = i" "row \<in> set (list_edges_where (md_graph s)
         (\<lambda>r. er_from r = nid \<and> er_status r = ''active'' \<and> er_type r = rel))"
        by (auto simp: live_def)
      then obtain e where "e \<in> set es" "scan_edge row = Inr e"
        using res_list_each [OF rows] by blast
      then show "i \<in> ed_id ` set es" using scan_edge_fields row(1) by force
    qed
    have "fades s t" "r = Inr () \<longrightarrow> (\<forall>e\<in>set es. ed_id e \<notin> live t nid rel)"
      using each_archived [OF go] by blast+
    then show ?thesis using all unfolding fades_def by blast
  qed
  then show "fades s t" "r = Inr () \<Longrightarrow> live t nid rel = {}" by blast+
qed

lemma facets_replaced:
  assumes "replace_facet_edges se mid ev actor rel [] prefix s = (r, t)"
  shows "fades s t" "r = Inr () \<Longrightarrow> live t mid rel = {}"
proof -
  have "archive_edges se mid rel actor s = (r, t)"
    using assms by (auto simp: replace_facet_edges_def run_bind_def run_ret_def lower_unique_def split: prod.splits sum.splits)
  from edges_archived [OF this] show "fades s t" "r = Inr () \<Longrightarrow> live t mid rel = {}" by blast+
qed

lemma entities_replaced:
  assumes "replace_entity_edges se mid ev actor [] s = (r, t)"
  shows "fades s t" "r = Inr () \<Longrightarrow> live t mid ''mentions'' = {}"
proof -
  have "archive_edges se mid ''mentions'' actor s = (r, t)"
    using assms by (auto simp: replace_entity_edges_def run_bind_def run_ret_def lower_unique_def split: prod.splits sum.splits)
  from edges_archived [OF this] show "fades s t" "r = Inr () \<Longrightarrow> live t mid ''mentions'' = {}" by blast+
qed

section \<open>The record read back\<close>

lemma no_live_edges:
  assumes "live s nid rel = {}" "list_outgoing_edges (md_graph s) nid [rel] = Inr es"
  shows "es = []"
proof -
  have "list_edges_where (md_graph s) (\<lambda>r. er_from r = nid \<and> er_status r = ''active'' \<and> er_type r = rel) = []"
    unfolding set_empty [symmetric] list_edges_where_set using assms(1) by (auto simp: live_def)
  then show ?thesis using assms(2) by (auto simp: list_outgoing_edges_def res_bind_Inr)
qed

lemma memory_parts:
  assumes "get_memory s mid = Inr m"
  shows "\<exists>n. get_node (md_graph s) mid = Inr n \<and>
    edge_node_titles (md_graph s) (nd_id n) ''about'' = Inr (mem_subjects m) \<and>
    edge_node_titles (md_graph s) (nd_id n) ''tagged_with'' = Inr (mem_topics m) \<and>
    edge_entity_nodes (md_graph s) (nd_id n) = Inr (mem_entity_ids m, mem_entity_names m)"
  using assms by (auto simp: get_memory_def Let_def res_bind_Inr split: if_splits)

lemma memory_without_facets:
  assumes "get_memory s mid = Inr m"
  shows "live s mid ''about'' = {} \<Longrightarrow> mem_subjects m = []"
    and "live s mid ''tagged_with'' = {} \<Longrightarrow> mem_topics m = []"
    and "live s mid ''mentions'' = {} \<Longrightarrow> mem_entity_ids m = [] \<and> mem_entity_names m = []"
proof -
  obtain n where node: "get_node (md_graph s) mid = Inr n" using get_memory_node [OF assms] by blast
  then have n: "get_node (md_graph s) mid = Inr n" "nd_id n = mid" using get_node_row scan_node_fields by metis+
  have titles: "edge_node_titles (md_graph s) mid ''about'' = Inr (mem_subjects m)"
    "edge_node_titles (md_graph s) mid ''tagged_with'' = Inr (mem_topics m)"
    "edge_entity_nodes (md_graph s) mid = Inr (mem_entity_ids m, mem_entity_names m)"
    using memory_parts [OF assms] n by simp_all
  have none: "ns = []" if nodes: "edge_nodes (md_graph s) mid [rel] = Inr ns" and empty: "live s mid rel = {}" for rel ns
  proof -
    obtain es where es: "list_outgoing_edges (md_graph s) mid [rel] = Inr es"
      "res_list (\<lambda>e. get_node (md_graph s) (ed_to e)) es = Inr ns"
      using nodes by (auto simp: edge_nodes_def res_bind_Inr)
    then show ?thesis using no_live_edges [OF empty es(1)] by simp
  qed
  have no_titles: "v = []" if found: "edge_node_titles (md_graph s) mid rel = Inr v" and empty: "live s mid rel = {}" for rel v
  proof -
    obtain ns where ns: "edge_nodes (md_graph s) mid [rel] = Inr ns" "v = sort_strings (map nd_title ns)"
      using found by (auto simp: edge_node_titles_def res_simps)
    show ?thesis using none [OF ns(1) empty] ns(2) by (simp add: sort_strings_def sort_slice_def)
  qed
  have no_names: "v = [] \<and> w = []"
    if found: "edge_entity_nodes (md_graph s) mid = Inr (v, w)" and empty: "live s mid ''mentions'' = {}" for v w
  proof -
    obtain ns where ns: "edge_nodes (md_graph s) mid [''mentions''] = Inr ns"
      and vw: "(v, w) = (let ps = sort_slice (\<lambda>a b. str_less (nd_title a) (nd_title b)) ns in (map nd_id ps, map nd_title ps))"
      using found by (auto simp: edge_entity_nodes_def res_simps)
    show ?thesis using none [OF ns empty] vw by (simp add: sort_slice_def)
  qed
  show "live s mid ''about'' = {} \<Longrightarrow> mem_subjects m = []" "live s mid ''tagged_with'' = {} \<Longrightarrow> mem_topics m = []"
    "live s mid ''mentions'' = {} \<Longrightarrow> mem_entity_ids m = [] \<and> mem_entity_names m = []"
    using no_titles [OF titles(1)] no_titles [OF titles(2)] no_names [OF titles(3)] by blast+
qed

section \<open>Repair\<close>

lemma within_fades: "run_within fades m \<Longrightarrow> m s = (r, t) \<Longrightarrow> fades s t"
  unfolding run_within_def by (metis snd_conv)

lemma upserted_id:
  assumes "on_graph (upsert_node en req) s = (Inr n, t)" "un_id req \<noteq> []"
  shows "nd_id n = un_id req"
proof -
  obtain h where h: "upsert_node en req (md_graph s) = (Inr n, h)"
    using assms(1) by (auto simp: on_graph_def split: prod.splits)
  obtain x where x: "normalize_upsert_node req = Inr x"
    using h by (auto simp: upsert_node_def run_lift_def elim!: run_bind_Inr)
  have "un_id x = un_id req" using x by (auto simp: normalize_upsert_node_def Let_def split: if_splits)
  moreover have "get_node h (un_id x) = Inr n"
    using h x calculation assms(2) by (auto simp: upsert_node_def run_lift_def run_read_def clock_now_def elim!: run_bind_Inr)
  ultimately show ?thesis using get_node_row scan_node_fields by metis
qed

lemma normalized_slices:
  "normalize_repair_request r = Inr x \<Longrightarrow>
   (rep_subjects r = None \<or> rep_subjects r = Some [] \<longrightarrow> rep_subjects x = Some []) \<and>
   (rep_topics r = None \<or> rep_topics r = Some [] \<longrightarrow> rep_topics x = Some []) \<and>
   (rep_entities r = None \<or> rep_entities r = Some [] \<longrightarrow> rep_entities x = Some [])"
  by (auto simp: normalize_repair_request_def normalize_slice_def lower_unique_def Let_def res_bind_Inr split: if_splits)

lemma repaired_memory:
  assumes "repair_memory se req s = (Inr m, t)"
    and "rep_subjects req = Some []" "rep_topics req = Some []" "rep_entities req = Some []"
  shows "mem_subjects m = [] \<and> mem_topics m = [] \<and> mem_entity_ids m = [] \<and> mem_entity_names m = []"
proof -
  let ?en = "se_graph se"
  obtain x where x: "normalize_repair_request req = Inr x"
    using assms(1) by (auto simp: repair_memory_def Let_def lift_domain_def run_lift_def elim!: run_bind_Inr)
  then have "rep_memory x \<noteq> []" by (auto simp: normalize_repair_request_def Let_def res_bind_Inr split: if_splits)
  then obtain r :: memory_record and n :: node and s2 s3 s4 s5 s6 where mid: "nd_id n = rep_memory x"
    and s3: "replace_facet_edges se (nd_id n) (mem_evidence r) (rep_actor x) ''about'' [] ''subject'' s2 = (Inr (), s3)"
    and s4: "replace_facet_edges se (nd_id n) (mem_evidence r) (rep_actor x) ''tagged_with'' [] ''topic'' s3 = (Inr (), s4)"
    and s5: "replace_entity_edges se (nd_id n) (mem_evidence r) (rep_actor x) [] s4 = (Inr (), s5)"
    and s6: "reindex_node (nd_id n) s5 = (Inr (), s6)"
    and t: "do_graph (append_audit ?en (audit_of ''memory_repair'' (rep_actor x) (nd_id n) (mem_evidence r)
           ''repaired graph-backed memory metadata'')) s6 = (Inr (), t)"
    and m: "get_memory t (rep_memory x) = Inr m"
    using assms x normalized_slices [OF x]
    by (auto simp: repair_memory_def Let_def lift_domain_def run_lift_def look_def run_read_def elim!: run_bind_Inr
        dest!: upserted_id)
  have tail: "fades s5 s6" "fades s6 t"
    using within_fades [OF index_fades s6] within_fades [OF do_fades [OF graph_fades [OF edges_writes(3)]] t] by blast+
  have "fades s5 t" by (rule transpD [OF fades_order(2) tail])
  then have "live t (nd_id n) ''about'' = {}" "live t (nd_id n) ''tagged_with'' = {}" "live t (nd_id n) ''mentions'' = {}"
    using facets_replaced [OF s3] facets_replaced [OF s4] entities_replaced [OF s5] unfolding fades_def by blast+
  then show ?thesis using memory_without_facets [OF m] mid by simp
qed

lemma pool_repair_drops:
  assumes "pool_repair pe x v = (Inr m, u)"
    and "rep_subjects x = Some []" "rep_topics x = Some []" "rep_entities x = Some []"
  shows "mem_subjects m = [] \<and> mem_topics m = [] \<and> mem_entity_ids m = [] \<and> mem_entity_names m = []"
proof -
  obtain y w where y: "(if explicit_domain_id (rep_domain x) (rep_firewall x) = []
         then giving (\<lambda>r. x\<lparr>rep_domain := mem_domain r, rep_firewall := mem_domain r\<rparr>) (pool_get_memory pe (rep_memory x))
         else run_ret x) v = (Inr y, w)"
    and go: "run_bind (pool_domain (normalize_repair_request y)) (\<lambda>req.
         giving (annotate_record (rep_domain req)) (with_repo pe (rep_domain req) (\<lambda>se. repair_memory se req))) w = (Inr m, u)"
    using assms(1) unfolding pool_repair_def by (erule run_bind_Inr)
  have same: "rep_subjects y = Some []" "rep_topics y = Some []" "rep_entities y = Some []"
    using y assms(2-4) by (auto simp: giving_def run_ret_def elim!: run_bind_Inr split: if_splits)
  obtain z k n where z: "normalize_repair_request y = Inr z"
    and k: "with_repo pe (rep_domain z) (\<lambda>se. repair_memory se z) w = (Inr k, n)" and m: "m = annotate_record (rep_domain z) k"
    using go by (auto simp: pool_domain_def run_lift_def giving_def run_ret_def elim!: run_bind_Inr)
  obtain d c n' where k: "repair_memory (pe_store pe d) z c = (Inr k, n')"
    using k by (auto simp: with_repo_def on_repo_def elim!: run_bind_Inr split: prod.splits)
  have "rep_subjects z = Some []" "rep_topics z = Some []" "rep_entities z = Some []"
    using normalized_slices [OF z] same by simp_all
  from repaired_memory [OF k this] m show ?thesis by (simp add: annotate_record_def)
qed

lemma service_repair_drops:
  assumes "service_repair sv r p = (Inr m, u)" "rep_subjects r = None" "rep_topics r = None" "rep_entities r = None"
  shows "mem_subjects m = [] \<and> mem_topics m = [] \<and> mem_entity_ids m = [] \<and> mem_entity_names m = []"
proof -
  obtain x v and old :: memory_record where x: "normalize_repair_request r = Inr x"
    and run: "pool_repair (sve_pool sv) (x\<lparr>rep_domain := mem_domain old, rep_firewall := mem_domain old\<rparr>) v = (Inr m, u)"
    using assms(1) by (auto simp: service_repair_def pool_domain_def permit_def run_lift_def elim!: run_bind_Inr)
  show ?thesis
    using normalized_slices [OF x] assms(2-4) by (intro pool_repair_drops [OF run]) simp_all
qed

end
