(* ===== verification/Memory_Eval.thy ===== *)
theory Memory_Eval imports Memory_Service begin

text \<open>
  Code equations of the operations with their state as an argument and without the combinators of the
  state monad, so that the simplifier evaluates them on a concrete state without going under binders.
\<close>

lemmas eval_unfold = run_bind_def run_lift_def run_read_def run_ret_def run_err_def

lemma fun_at: "f = g \<Longrightarrow> f x = g x"
  by simp

section \<open>The graph store\<close>

lemmas update_node_code [code] = update_node_def [unfolded eval_unfold]
lemmas update_edge_code [code] = update_edge_def [unfolded eval_unfold]
lemmas upsert_node_code [code] = upsert_node_def [unfolded eval_unfold, THEN fun_at]
lemmas upsert_edge_code [code] = upsert_edge_def [unfolded eval_unfold, THEN fun_at]
lemmas set_node_status_code [code] = set_node_status_def [unfolded eval_unfold, THEN fun_at]
lemmas set_edge_status_code [code] = set_edge_status_def [unfolded eval_unfold, THEN fun_at]
lemmas upsert_property_in_code [code] = upsert_property_in_def [unfolded eval_unfold, THEN fun_at]
lemmas upsert_node_property_code [code] = upsert_node_property_def [unfolded eval_unfold, THEN fun_at]
lemmas upsert_edge_property_code [code] = upsert_edge_property_def [unfolded eval_unfold, THEN fun_at]
lemmas append_audit_code [code] = append_audit_def [unfolded eval_unfold, THEN fun_at]

lemmas stored_code [code] = stored_def [unfolded run_map_err_def]
lemmas audit_node_mutation_code [code] = audit_node_mutation_def [unfolded eval_unfold, THEN fun_at]
lemmas write_node_code [code] = write_node_def [unfolded eval_unfold, THEN fun_at]
lemmas execute_code [code] = execute_def [unfolded eval_unfold, THEN fun_at]

section \<open>The repositories\<close>

lemmas look_code [code] = look_def [unfolded eval_unfold, THEN fun_at]
lemmas lift_domain_code [code] = lift_domain_def [unfolded eval_unfold, THEN fun_at]
lemmas do_graph_code [code] = do_graph_def [unfolded eval_unfold, THEN fun_at]
lemmas upsert_alias_code [code] = upsert_alias_def [unfolded eval_unfold, THEN fun_at]
lemmas write_evidence_blob_code [code] = write_evidence_blob_def [unfolded eval_unfold, THEN fun_at]
lemmas reindex_node_code [code] = reindex_node_def [unfolded eval_unfold, THEN fun_at]
lemmas archive_edges_code [code] = archive_edges_def [unfolded eval_unfold, THEN fun_at]
lemmas replace_facet_edges_code [code] = replace_facet_edges_def [unfolded eval_unfold, THEN fun_at]
lemmas replace_entity_edges_code [code] = replace_entity_edges_def [unfolded eval_unfold, THEN fun_at]
lemmas write_facets_code [code] = write_facets_def [unfolded eval_unfold, THEN fun_at]
lemmas write_capture_facts_code [code] = write_capture_facts_def [unfolded eval_unfold, THEN fun_at]
lemmas capture_normalized_code [code] = capture_normalized_def [unfolded eval_unfold Let_def, THEN fun_at]
lemmas known_capture_code [code] = known_capture_def [unfolded eval_unfold, THEN fun_at]
lemmas capture_code [code] = capture_def [unfolded eval_unfold, THEN fun_at]
lemmas repair_memory_code [code] = repair_memory_def [unfolded eval_unfold Let_def, THEN fun_at]

lemmas find_nodes_code [code] = find_nodes_def [unfolded eval_unfold, THEN fun_at]
lemmas task_from_node_code [code] = task_from_node_def [unfolded eval_unfold Let_def, THEN fun_at]
lemmas list_tasks_code [code] = list_tasks_def [unfolded eval_unfold, THEN fun_at]
lemmas task_graph_projection_code [code] = task_graph_projection_def [unfolded eval_unfold Let_def, THEN fun_at]

lemma list_task_nodes_code [code]:
  "list_task_nodes se q k ns s =
     (case ns of
        [] \<Rightarrow> (Inr [], s)
      | n # ns \<Rightarrow>
          (case task_from_node se (tqu_include_links q) n s of
             (Inl e, t) \<Rightarrow> (Inl e, t)
           | (Inr x, t) \<Rightarrow>
               (if \<not> task_matches x q then list_task_nodes se q k ns t
                else if k \<le> 1 then (Inr [x], t)
                else (case list_task_nodes se q (k - 1) ns t of
                        (Inl e, u) \<Rightarrow> (Inl e, u)
                      | (Inr xs, u) \<Rightarrow> (Inr (x # xs), u)))))"
  by (cases ns) (simp_all add: eval_unfold split: prod.split sum.split)

lemma each_code [code]:
  "each f xs s = (case xs of [] \<Rightarrow> (Inr (), s) | x # xs \<Rightarrow> (case f x s of (Inl e, t) \<Rightarrow> (Inl e, t) | (Inr _, t) \<Rightarrow> each f xs t))"
  by (cases xs) (simp_all add: eval_unfold)

section \<open>The pool and the service\<close>

lemmas pool_domain_code [code] = pool_domain_def [unfolded eval_unfold, THEN fun_at]
lemmas permit_code [code] = permit_def [unfolded eval_unfold, THEN fun_at]
lemmas with_repo_code [code] = with_repo_def [unfolded eval_unfold, THEN fun_at]
lemmas giving_code [code] = giving_def [unfolded eval_unfold, THEN fun_at]
lemmas pool_capture_code [code] = pool_capture_def [unfolded eval_unfold, THEN fun_at]
lemmas pool_repair_code [code] = pool_repair_def [unfolded eval_unfold, THEN fun_at]
lemmas pool_query_code [code] = pool_query_def [unfolded eval_unfold, THEN fun_at]
lemmas service_capture_code [code] = service_capture_def [unfolded eval_unfold, THEN fun_at]
lemmas service_repair_code [code] = service_repair_def [unfolded eval_unfold, THEN fun_at]
lemmas service_query_code [code] = service_query_def [unfolded eval_unfold, THEN fun_at]
lemmas search_memory_code [code] = search_memory_def [unfolded eval_unfold, THEN fun_at]

lemma first_domain_code [code]:
  "first_domain pe f ds p =
     (case ds of
        [] \<Rightarrow> (Inl (Repo (Graph NoRows)), p)
      | d # ds \<Rightarrow>
          (case with_repo pe d (\<lambda>se. run_read (\<lambda>s. Inr (f s))) p of
             (Inl e, t) \<Rightarrow> (Inl e, t)
           | (Inr r, t) \<Rightarrow>
               (case r of
                  Inr x \<Rightarrow> (Inr (d, x), t)
                | Inl e \<Rightarrow> if e = Graph NoRows then first_domain pe f ds t else (Inl (Repo e), t))))"
  by (cases ds) (simp_all add: eval_unfold split: prod.split sum.split)

end
