(* ===== verification/Sample_Memory.thy ===== *)
theory Sample_Memory imports Memory_Capture Memory_Repair Memory_Eval Sample_Store begin

text \<open>
  A small pool on which the properties of the memory service are instantiated: the domain \<open>user\<close> has one
  memory with its evidence and a topic, and two tasks that depend on one another; a policy lets \<open>bob\<close>
  read that domain and \<open>ann\<close> write it.
\<close>

definition old_text :: string where
  "old_text = ''1970-01-01T00:00:00Z''"

definition count_env :: env where
  "count_env = \<lparr>en_now = (\<lambda>_. 0), en_rand = (\<lambda>n. Some (if n < 5 then ''0'' else ''1'')), en_fts = (\<lambda>_. [])\<rparr>"

definition mem_env :: store_env where
  "mem_env = \<lparr>se_graph = count_env, se_rank = (\<lambda>_ _. []), se_checksum = (\<lambda>v. v), se_encode = (\<lambda>_. None),
     se_decode = (\<lambda>_. None)\<rparr>"

definition mem_node :: "string \<Rightarrow> string \<Rightarrow> node_row" where
  "mem_node i k = (sample_node i k ''private'')\<lparr>nr_created := old_text, nr_updated := old_text\<rparr>"

definition mem_edge :: "string \<Rightarrow> string \<Rightarrow> string \<Rightarrow> string \<Rightarrow> edge_row" where
  "mem_edge i a rel b = (sample_edge i a b)\<lparr>er_type := rel, er_created := old_text, er_updated := old_text\<rparr>"

definition mem_graph :: graph_db where
  "mem_graph =
     \<lparr>db_nodes = [mem_node ''m'' ''memory'', mem_node ''e'' ''evidence'', mem_node ''go'' ''topic'',
                  mem_node ''a'' ''task'', mem_node ''b'' ''task''],
      db_edges = [mem_edge ''c1'' ''m'' ''captured_from'' ''e'', mem_edge ''g1'' ''m'' ''tagged_with'' ''go'',
                  mem_edge ''d1'' ''a'' ''depends_on'' ''b''],
      db_node_props = [], db_edge_props = [], db_audit = [], db_tick = 0\<rparr>"

definition mem_db :: memory_db where
  "mem_db = empty_memory
     \<lparr>md_graph := mem_graph,
      md_blobs := [\<lparr>bl_node = ''e'', bl_checksum = ''x'', bl_path = ''sources/e-x.txt'', bl_media_type = ''text/plain'',
                    bl_system = ''cli'', bl_source_id = ''1'', bl_size = 1, bl_created = old_text\<rparr>],
      md_files := [''sources/e-x.txt'' \<mapsto> ''x'']\<rparr>"

definition mem_pool :: pool where
  "mem_pool = \<lparr>po_db = [''user'' \<mapsto> mem_db], po_dirs = [''user''], po_open = [''user'']\<rparr>"

definition mem_policy :: firewall_policy where
  "mem_policy = \<lparr>fwp_default_allow = False,
     fwp_rules = [\<lparr>fwr_firewall = ''user'', fwr_readers = [''bob''], fwr_writers = [''ann'']\<rparr>]\<rparr>"

definition mem_service :: service_env where
  "mem_service = \<lparr>sve_pool = \<lparr>pe_store = (\<lambda>_. mem_env), pe_root = ''data''\<rparr>,
     sve_firewall = \<lparr>fwe_policy = Some mem_policy, fwe_path = [], fwe_stat = (\<lambda>_. Inl ''no file''),
       fwe_read = (\<lambda>_. Inl ''no file''), fwe_parse = (\<lambda>_. Inl ''no policy'')\<rparr>,
     sve_zone = (\<lambda>_. 0), sve_now = 0\<rparr>"

definition mem_capture :: "string \<Rightarrow> string \<Rightarrow> capture_request" where
  "mem_capture actor text =
     \<lparr>cap_actor = actor, cap_content = text, cap_media_type = [], cap_title = ''T'',
      cap_source = \<lparr>src_system = [], src_id = []\<rparr>, cap_kind = [], cap_domain = ''user'', cap_firewall = [],
      cap_trust = [], cap_sensitivity = [], cap_subjects = [], cap_topics = [], cap_entities = [],
      cap_event_time = None, cap_key = []\<rparr>"

definition mem_query :: "string \<Rightarrow> retrieval_query" where
  "mem_query actor =
     \<lparr>ret_actor = actor, ret_domain = ''user'', ret_firewall = [], ret_include_global = False, ret_text = [],
      ret_kinds = [], ret_topics = [], ret_entities = [], ret_from = None, ret_to = None, ret_allowed = [],
      ret_limit = 0\<rparr>"

definition mem_repair :: repair_request where
  "mem_repair =
     \<lparr>rep_actor = ''ann'', rep_memory = ''m'', rep_domain = [], rep_firewall = [], rep_kind = None,
      rep_sensitivity = None, rep_status = None, rep_title = Some ''New'', rep_summary = None,
      rep_subjects = None, rep_topics = None, rep_entities = None\<rparr>"

text \<open>A query that inserts a node, with a tab after its first word.\<close>

definition tab_query :: graph_query_request where
  "tab_query =
     \<lparr>gqr_actor = ''bob'',
      gqr_query = ''INSERT'' @ [CHR 0x09] @ ''NODE topic SET title = '' @ [CHR 0x22] @ ''x'' @ [CHR 0x22],
      gqr_source = ''e'', gqr_domain = ''user'', gqr_firewall = [], gqr_include_global = False, gqr_allowed = []\<rparr>"

definition mem_walk :: task_relation_traversal_query where
  "mem_walk =
     \<lparr>ttq_domain = ''user'', ttq_firewall = [], ttq_root = ''a'', ttq_types = [], ttq_direction = ''either'',
      ttq_max_depth = 0, ttq_limit = 0, ttq_include_tasks = False, ttq_include_links = False\<rparr>"

definition mem_snapshot :: task_graph_query where
  "mem_snapshot =
     \<lparr>tgq_tasks = \<lparr>tqu_domain = ''user'', tqu_firewall = [], tqu_statuses = [], tqu_priorities = [], tqu_topics = [],
        tqu_search = ''nothing'', tqu_overdue_only = False, tqu_include_done = True, tqu_include_links = False,
        tqu_limit = 100\<rparr>,
      tgq_types = [], tgq_include_facets = False\<rparr>"

lemma map_sum_Inr: "map_sum f g x = Inr y \<Longrightarrow> \<exists>b. x = Inr b \<and> g b = y"
  by (cases x) auto

lemma mem_db_ok: "memory_ok mem_db"
  by code_simp

lemma mem_pool_ok: "\<forall>d. memory_ok (content mem_pool d)"
proof -
  have "memory_ok empty_memory" by code_simp
  then show ?thesis using mem_db_ok by (simp add: content_def mem_pool_def)
qed

lemma mem_readable: "may_read mem_service ''bob'' = {''user''}" "may_write mem_service ''bob'' = {}"
proof -
  have actor: "norm_default ''bob'' default_agent_actor = ''bob''" "actor_allowed ''bob'' [''bob'']" "\<not> actor_allowed ''bob'' [''ann'']"
    "trim_space [] = []"
    by code_simp+
  show "may_read mem_service ''bob'' = {''user''}" "may_write mem_service ''bob'' = {}"
    using actor by (auto simp: may_read_def may_write_def authorize_read_def authorize_write_def authorize_def
        policy_for_authorization_def allows_read_def allows_write_def rule_for_def mem_service_def mem_policy_def
        res_bind_Inr split: if_splits)
qed

lemma mem_found: "map_sum (\<lambda>_. ()) (\<lambda>b. map mem_id (rbu_primary b)) (fst (search_memory mem_service (mem_query ''bob'') mem_pool)) = Inr [''m'']"
  by code_simp

lemma mem_topics_before: "map_sum (\<lambda>_. ()) mem_topics (get_memory mem_db ''m'') = Inr [''go'']"
  by code_simp

lemma mem_repaired: "\<not> isl (fst (service_repair mem_service mem_repair mem_pool))"
  by code_simp

lemma mem_captured:
  "map_sum (\<lambda>_. ()) cpr_duplicate (fst (service_capture mem_service (mem_capture ''ann'' ''hi'') mem_pool)) = Inr False"
  by code_simp

lemma mem_refused: "isl (fst (service_capture mem_service (mem_capture ''bob'' ''hi'') mem_pool))"
  by code_simp

lemma mem_walked: "map_sum (\<lambda>_. ()) (\<lambda>t. map (\<lambda>p. (trp_tasks p, trp_cycle p)) (trv_paths t))
    (fst (traverse_task_relations mem_env mem_walk mem_db)) = Inr [([''a'', ''b'', ''a''], True)]"
  by code_simp

lemma mem_snapshot_taken: "\<not> isl (fst (task_graph_projection mem_env mem_snapshot mem_db))"
  by code_simp

text \<open>Who may only read inserts a node.\<close>

lemma mem_tab_inserts:
  "map_sum (\<lambda>_. ()) (\<lambda>_. ()) (fst (service_query mem_service tab_query mem_pool)) = Inr () \<and>
   length (db_nodes (md_graph (content (snd (service_query mem_service tab_query mem_pool)) ''user''))) =
     Suc (length (db_nodes mem_graph))"
  by code_simp

definition no_pool :: pool where
  "no_pool = \<lparr>po_db = Map.empty, po_dirs = [], po_open = []\<rparr>"

definition keyed_db :: memory_db where
  "keyed_db = mem_db\<lparr>md_graph := mem_graph\<lparr>db_nodes :=
     (mem_node ''m'' ''memory'')\<lparr>nr_stable_key := Some (memory_stable_key ''k'')\<rparr> # List.tl (db_nodes mem_graph)\<rparr>\<rparr>"

lemma first_captured:
  "map_sum (\<lambda>_. ()) cpr_duplicate (fst (service_capture mem_service (mem_capture ''ann'' '' hi '') no_pool)) = Inr False"
  by code_simp

lemma first_normal:
  "map_sum (\<lambda>_. ()) cap_domain (normalize_capture_request (mem_capture ''ann'' '' hi '')) = Inr ''user''"
  by code_simp

lemma keyed_normal:
  "map_sum (\<lambda>_. ()) cap_key (normalize_capture_request (mem_capture ''ann'' ''hi''\<lparr>cap_key := ''k''\<rparr>)) = Inr ''k''"
  by code_simp

lemma keyed_found:
  "capture_by_idempotency keyed_db ''k'' = Inr (Some \<lparr>cpr_evidence = ''e'', cpr_memory = ''m'', cpr_duplicate = True\<rparr>)"
  by code_simp

text \<open>A graph of one task for the executive summary.\<close>

definition one_task :: task where
  "one_task =
     \<lparr>tsk_id = ''a'', tsk_domain = ''user'', tsk_firewall = ''user'', tsk_title = ''A'', tsk_description = [],
      tsk_status = ''inbox'', tsk_priority = ''normal'', tsk_due = None, tsk_scheduled = None, tsk_follow_up = None,
      tsk_topics = [], tsk_estimate = 0, tsk_urgency = Fin 0, tsk_risk = Fin 0, tsk_project = [], tsk_location = [],
      tsk_person = [], tsk_actor = ''ann'', tsk_key = [], tsk_created = 0, tsk_updated = 0, tsk_completed = None,
      tsk_canceled = None, tsk_overdue = False, tsk_links = [], tsk_breakdown = no_breakdown\<rparr>"

definition one_graph :: task_graph where
  "one_graph = \<lparr>tgr_generated = 0, tgr_tasks = [one_task], tgr_relations = [], tgr_nodes = [], tgr_edges = [],
     tgr_facets = [], tgr_coverage = Fin 0\<rparr>"

definition sum_query :: summary_query where
  "sum_query = \<lparr>esq_domain = ''user'', esq_firewall = ''user'', esq_horizon = ''today'', esq_now = Some 0, esq_max_items = 5,
     esq_evidence = None, esq_actions = None, esq_channel = ''api''\<rparr>"

end
