(* ===== verification/Memory_Properties.thy ===== *)
theory Memory_Properties imports Memory_Policy Task_Summary Sample_Memory begin

text \<open>
  The properties of the memory service: what any calls keep in the databases of all domains, who may
  change and read which domain, what captures, repairs and searches give, and what the task graph and
  its summary promise.
\<close>

section \<open>All calls\<close>

text \<open>
  C7: Whatever calls the service answers, in whatever order and with whatever outcome, the database of every
  domain keeps its constraints: identifiers are unique, every edge, property, alias, evidence row, index row
  and audit event refers to what is there.
\<close>

theorem memory_constraints_kept:
  assumes "\<forall>d. memory_ok (content p d)"
  shows "\<forall>d. memory_ok (content (serve_all sv cs p) d)"
  by (rule serve_all_ok [OF assms])

lemma memory_constraints_kept_witness:
  "\<forall>d. memory_ok (content (serve_all mem_service [Capture (mem_capture ''ann'' ''hi''), Repair mem_repair] mem_pool) d)"
  by (rule memory_constraints_kept [OF mem_pool_ok])

text \<open>
  C30: Calls that do not delete a database lose nothing in any domain: every node, edge and evidence row stays,
  and the audit trail is only appended to.
\<close>

theorem calls_lose_nothing:
  assumes "memory_ok (content p d)" "\<forall>c\<in>set cs. \<not> deletes c"
  shows "let s = content p d; t = content (serve_all sv cs p) d in
    node_ids (db_nodes (md_graph s)) \<subseteq> node_ids (db_nodes (md_graph t)) \<and>
    edge_ids (db_edges (md_graph s)) \<subseteq> edge_ids (db_edges (md_graph t)) \<and>
    bl_node ` set (md_blobs s) \<subseteq> bl_node ` set (md_blobs t) \<and>
    (\<exists>es. audit_trail (md_graph t) = audit_trail (md_graph s) @ es)"
  using serve_all_grows [OF assms(2), of p sv] assms(1) by (simp add: everywhere_def grows_def Let_def)

lemma calls_lose_nothing_witness:
  "\<exists>es. audit_trail (md_graph (content (serve_all mem_service [Repair mem_repair] mem_pool) ''user'')) =
     audit_trail (md_graph (content mem_pool ''user'')) @ es"
  using calls_lose_nothing [of mem_pool "''user''" "[Repair mem_repair]" mem_service] mem_pool_ok
  by (simp add: deletes_def Let_def)



text \<open>
  C4: A capture, repair, correction or page, the removal of a domain and a query that the service recognises as
  a mutation change the database of no domain that the policy does not let their actor write, whatever calls
  came before. Any other query, also a mutation that is not recognised, changes none that its actor may not read,
  and \<open>Organize\<close> none that its actor may neither read nor write. The calls on tasks do not ask the policy.
\<close>

theorem firewall_guards_memory:
  assumes "d \<notin> call_grants sv c"
  shows "content (snd (serve sv c (serve_all sv cs (open_pool p)))) d = content (serve_all sv cs (open_pool p)) d"
  using serve_only [OF serve_all_named [OF open_pool_named], where D = "- {d}" and sv = sv and c = c] assms
  by (auto simp: only_def)

lemma firewall_guards_memory_witness:
  "content (snd (serve mem_service (Repair (mem_repair\<lparr>rep_actor := ''bob''\<rparr>)) (open_pool mem_pool))) ''user'' =
   content (open_pool mem_pool) ''user''"
  using firewall_guards_memory [of "''user''" mem_service "Repair (mem_repair\<lparr>rep_actor := ''bob''\<rparr>)" "[]" mem_pool]
  by (simp add: call_grants_def mem_readable(2))

text \<open>
  C36: A query whose first word is followed by a tab is parsed as if a space followed it, but is not seen to
  write: only reading is asked of the policy.
\<close>

theorem tab_evades_write_check:
  assumes "w \<in> {''INSERT'', ''SET'', ''DELETE''}"
  shows "parse (w @ tab # s) = parse (w @ CHR '' '' # s) \<and>
    authorize_graph_query fe (req\<lparr>gqr_query := w @ tab # s\<rparr>) =
    authorize_global fe (gqr_actor req) (gqr_domain req) (gqr_include_global req)"
  using parse_tab [OF assms, of s] tab_unseen [OF assms, of s] by (simp add: authorize_graph_query_def)

lemma tab_evades_write_check_witness:
  "authorize_graph_query (sve_firewall mem_service) tab_query =
   authorize_global (sve_firewall mem_service) ''bob'' ''user'' False"
proof -
  have "tab_query = tab_query\<lparr>gqr_query := ''INSERT'' @ tab # (''NODE topic SET title = '' @ [CHR 0x22] @ ''x'' @ [CHR 0x22])\<rparr>"
    "gqr_actor tab_query = ''bob''" "gqr_domain tab_query = ''user''" "gqr_include_global tab_query = False"
    by (simp_all add: tab_query_def tab_def)
  then show ?thesis
    using tab_evades_write_check [of "''INSERT''" "''NODE topic SET title = '' @ [CHR 0x22] @ ''x'' @ [CHR 0x22]"
        "sve_firewall mem_service" tab_query] by simp
qed

section \<open>Searching\<close>

text \<open>
  C9: Every record of a search is in a domain of the request, which the policy lets the actor read, is
  active, of a sensitivity the request allows, and matches its filters; no record comes twice, and there are
  at most as many as the limit, which is at most 100.
\<close>

theorem search_within_grants:
  assumes "fst (search_memory sv q0 p) = Inr b" "\<forall>d. memory_ok (content p d)"
  shows "\<exists>q. normalize_retrieval_query q0 = Inr q \<and> distinct (map mem_id (rbu_primary b)) \<and>
    int (length (rbu_primary b)) \<le> ret_limit q \<and> ret_limit q \<le> 100 \<and>
    (\<forall>r\<in>set (rbu_primary b). \<exists>x d. r = annotate_record d x \<and> d \<in> set (search_scope q) \<and> d \<in> may_read sv (ret_actor q0) \<and>
       get_memory (content p d) (mem_id r) = Inr x \<and> mem_status r = ''active'' \<and>
       mem_sensitivity r \<in> set (ret_allowed q) \<and> record_matches x q)"
proof -
  obtain u where u: "search_memory sv q0 p = (Inr b, u)" using assms(1) by (metis prod.collapse)
  obtain q where q: "normalize_retrieval_query q0 = Inr q" "set (search_scope q) \<subseteq> may_read sv (ret_actor q0)"
    "found_records p q (set (search_scope q)) (rbu_primary b)" "int (length (rbu_primary b)) \<le> ret_limit q"
    using search_memory_found [OF u assms(2)] by blast
  have "\<exists>x d. r = annotate_record d x \<and> d \<in> set (search_scope q) \<and> d \<in> may_read sv (ret_actor q0) \<and>
       get_memory (content p d) (mem_id r) = Inr x \<and> mem_status r = ''active'' \<and>
       mem_sensitivity r \<in> set (ret_allowed q) \<and> record_matches x q" if r: "r \<in> set (rbu_primary b)" for r
  proof -
    obtain x d where "d \<in> set (search_scope q)" "found_in p q d x" "r = annotate_record d x"
      using q(3) r unfolding found_records_def by blast
    then show ?thesis using q(2) by (auto simp: found_in_def annotate_record_def)
  qed
  then show ?thesis
    using q normal_retrieval [OF q(1)] by (auto simp: found_records_def)
qed

lemma search_within_grants_witness:
  "\<exists>b. fst (search_memory mem_service (mem_query ''bob'') mem_pool) = Inr b \<and> map mem_id (rbu_primary b) = [''m''] \<and>
     (\<exists>q. normalize_retrieval_query (mem_query ''bob'') = Inr q \<and> int (length (rbu_primary b)) \<le> ret_limit q \<and> ret_limit q \<le> 100)"
proof -
  obtain b where b: "fst (search_memory mem_service (mem_query ''bob'') mem_pool) = Inr b" "map mem_id (rbu_primary b) = [''m'']"
    using map_sum_Inr [OF mem_found] by (elim exE conjE) (rule that)
  obtain q where "normalize_retrieval_query (mem_query ''bob'') = Inr q" "int (length (rbu_primary b)) \<le> ret_limit q"
      "ret_limit q \<le> 100"
    using search_within_grants [OF b(1) mem_pool_ok] by (elim exE conjE) (rule that)
  then show ?thesis using b by (intro exI [of _ b] exI [of _ q] conjI)
qed

text \<open>
  C2: The answer of a search, its errors included, does not depend on databases that the policy does not let the
  actor read.
\<close>

theorem search_noninterference:
  assumes "\<forall>d\<in>may_read sv (ret_actor q). content p d = content p' d"
  shows "fst (search_memory sv q p) = fst (search_memory sv q p')"
  by (rule search_same [OF assms])

lemma search_noninterference_witness:
  "fst (search_memory mem_service (mem_query ''bob'') mem_pool) =
   fst (search_memory mem_service (mem_query ''bob'') (mem_pool\<lparr>po_db := (po_db mem_pool)(''secret'' \<mapsto> mem_db)\<rparr>))"
  by (rule search_noninterference) (simp add: mem_readable mem_query_def content_def)

section \<open>Captures and repairs\<close>

text \<open>
  C13: A capture that fails, for whatever reason, leaves the databases of all domains as they were: tables, files
  and index; only clock readings are used up.
\<close>

theorem capture_all_or_nothing:
  assumes "fst (service_capture sv r p) = Inl e"
  shows "\<forall>d. \<exists>n. content (snd (service_capture sv r p)) d =
    (content p d)\<lparr>md_graph := (md_graph (content p d))\<lparr>db_tick := n\<rparr>\<rparr>"
proof -
  have "service_capture sv r p = (Inl e, snd (service_capture sv r p))"
    using assms by (metis prod.collapse)
  from service_capture_fails [OF this] show ?thesis
    unfolding everywhere_def ticks_def by simp
qed

lemma capture_all_or_nothing_witness:
  "\<exists>n. content (snd (service_capture mem_service (mem_capture ''bob'' ''hi'') mem_pool)) ''user'' =
     mem_db\<lparr>md_graph := mem_graph\<lparr>db_tick := n\<rparr>\<rparr>"
proof -
  obtain e where e: "fst (service_capture mem_service (mem_capture ''bob'' ''hi'') mem_pool) = Inl e"
    using mem_refused unfolding isl_def by blast
  have db: "content mem_pool ''user'' = mem_db" "md_graph mem_db = mem_graph"
    by (simp_all add: content_def mem_pool_def mem_db_def)
  show ?thesis using spec [OF capture_all_or_nothing [OF e], of "''user''"] unfolding db by this
qed

text \<open>
  C12: The text of a new capture can be read back from its evidence, trimmed, if every stored file holds the text
  that its name, made of the node and the checksum, stands for; so it is while no two texts have the same checksum.
\<close>

theorem captured_text_readable:
  assumes "fst (service_capture sv req p) = Inr r" "\<not> cpr_duplicate r" "normalize_capture_request req = Inr x"
    and "files_named (pe_store (sve_pool sv) (cap_domain x)) (content p (cap_domain x))"
  shows "get_evidence_content (content (snd (service_capture sv req p)) (cap_domain x)) (cpr_evidence r) =
    Inr (trim_space (cap_content req))"
proof -
  have "cap_content x = trim_space (cap_content req)"
    using assms(3) by (auto simp: normalize_capture_request_def Let_def res_bind_Inr split: if_splits)
  then show ?thesis
    using service_capture_text [of sv req p r, OF _ assms(2-4)] assms(1) by (metis prod.collapse)
qed

lemma captured_text_readable_witness:
  "\<exists>r. fst (service_capture mem_service (mem_capture ''ann'' '' hi '') no_pool) = Inr r \<and>
     get_evidence_content (content (snd (service_capture mem_service (mem_capture ''ann'' '' hi '') no_pool)) ''user'')
       (cpr_evidence r) = Inr (trim_space '' hi '')"
proof -
  obtain r where r: "fst (service_capture mem_service (mem_capture ''ann'' '' hi '') no_pool) = Inr r" "\<not> cpr_duplicate r"
    using map_sum_Inr [OF first_captured] by (elim exE conjE) (rule that, simp_all)
  obtain x where x: "normalize_capture_request (mem_capture ''ann'' '' hi '') = Inr x" "cap_domain x = ''user''"
    using map_sum_Inr [OF first_normal] by (elim exE conjE) (rule that)
  have "files_named se (content no_pool d)" for se d
    by (simp add: files_named_def content_def no_pool_def empty_memory_def)
  from captured_text_readable [OF r x(1) this] show ?thesis
    using r(1) x(2) by (auto simp: mem_capture_def)
qed

text \<open>
  Capturing with a key under which a memory is stored changes nothing and answers with that memory.
\<close>

theorem known_key_changes_nothing:
  assumes "normalize_capture_request req = Inr x" "cap_key x \<noteq> []" "capture_by_idempotency s (cap_key x) = Inr (Some r)"
  shows "capture se req s = (Inr r, s) \<and> cpr_duplicate r"
  using capture_known [OF assms] assms(3)
  by (auto simp: capture_by_idempotency_def res_simps split: sum.splits gerr.splits)

lemma known_key_changes_nothing_witness:
  "capture mem_env (mem_capture ''ann'' ''hi''\<lparr>cap_key := ''k''\<rparr>) keyed_db =
    (Inr \<lparr>cpr_evidence = ''e'', cpr_memory = ''m'', cpr_duplicate = True\<rparr>, keyed_db)"
proof -
  obtain x where x: "normalize_capture_request (mem_capture ''ann'' ''hi''\<lparr>cap_key := ''k''\<rparr>) = Inr x" "cap_key x = ''k''"
    using map_sum_Inr [OF keyed_normal] by (elim exE conjE) (rule that)
  have "capture_by_idempotency keyed_db (cap_key x) = Inr (Some \<lparr>cpr_evidence = ''e'', cpr_memory = ''m'', cpr_duplicate = True\<rparr>)"
    using keyed_found x(2) by simp
  from known_key_changes_nothing [OF x(1) _ this] show ?thesis using x(2) by simp
qed

text \<open>
  C37: A repair through the service that names no subjects, topics and entities removes all of them from the
  memory, because normalising the request makes empty lists of what was not given.
\<close>

theorem repair_forgets_facets:
  assumes "fst (service_repair sv r p) = Inr m" "rep_subjects r = None" "rep_topics r = None" "rep_entities r = None"
  shows "mem_subjects m = [] \<and> mem_topics m = [] \<and> mem_entity_ids m = [] \<and> mem_entity_names m = []"
  using service_repair_drops [of sv r p m, OF _ assms(2-4)] assms(1) by (metis prod.collapse)

lemma repair_forgets_facets_witness:
  "\<exists>old m. get_memory mem_db ''m'' = Inr old \<and> mem_topics old = [''go''] \<and>
     fst (service_repair mem_service mem_repair mem_pool) = Inr m \<and> mem_topics m = []"
proof -
  obtain m where m: "fst (service_repair mem_service mem_repair mem_pool) = Inr m"
    using mem_repaired by (cases "fst (service_repair mem_service mem_repair mem_pool)") auto
  have "mem_topics m = []" using repair_forgets_facets [OF m] by (simp add: mem_repair_def)
  then show ?thesis using m mem_topics_before by (cases "get_memory mem_db ''m''") auto
qed

section \<open>Requests\<close>

text \<open>What one of two passes over a request leaves, the other one leaves as it is.\<close>

definition settles :: "('r \<Rightarrow> string + 'r) \<Rightarrow> ('r \<Rightarrow> string + 'r) \<Rightarrow> bool" where
  "settles f g \<longleftrightarrow> (\<forall>r x. f r = Inr x \<longrightarrow> g x = Inr x)"

text \<open>
  C25: A normalised request is normal: normalising it again, as the service, the pool and the repository do one
  after the other, changes nothing, also at a later time. This holds for every request of the calls that are
  modelled; those on codebases are not.
\<close>

theorem requests_normalized_once:
  "settles normalize_capture_request normalize_capture_request \<and>
   settles normalize_retrieval_query normalize_retrieval_query \<and>
   settles normalize_organize_request normalize_organize_request \<and>
   settles normalize_repair_request normalize_repair_request \<and>
   settles normalize_correction_request normalize_correction_request \<and>
   settles normalize_refresh_page_request normalize_refresh_page_request \<and>
   settles normalize_graph_query_request normalize_graph_query_request \<and>
   settles (normalize_create_task_request now) (normalize_create_task_request later) \<and>
   settles normalize_update_task_request normalize_update_task_request \<and>
   settles normalize_task_query normalize_task_query \<and>
   settles normalize_task_graph_query normalize_task_graph_query \<and>
   settles normalize_task_relation_query normalize_task_relation_query \<and>
   settles normalize_task_relation_traversal_query normalize_task_relation_traversal_query \<and>
   settles normalize_task_id_request normalize_task_id_request \<and>
   settles normalize_upsert_task_relation_request normalize_upsert_task_relation_request \<and>
   settles normalize_delete_task_relation_request normalize_delete_task_relation_request \<and>
   settles normalize_link_task_memory_request normalize_link_task_memory_request \<and>
   settles (normalize_summary_query now') (normalize_summary_query later') \<and>
   settles normalize_explain_query normalize_explain_query"
  unfolding settles_def by (intro conjI allI impI; erule again)

section \<open>Tasks\<close>

text \<open>
  C21: Every path of a traversal starts at its root, follows relations that are listed for the task they are
  followed from, of an allowed type and direction, is at most as deep as asked, visits no task twice before
  its last one, and is flagged as a cycle just when that one was visited before; there are at most as many
  paths as the limit. The bounds are at most 12 and 500.
\<close>

theorem relation_paths_sound:
  assumes "fst (traverse_task_relations se q0 s) = Inr t"
  shows "\<exists>q. normalize_task_relation_traversal_query q0 = Inr q \<and> ttq_max_depth q \<le> 12 \<and> ttq_limit q \<le> 500 \<and>
    trv_root t = ttq_root q0 \<and> paths_ok (md_graph s) q (trv_paths t)"
proof -
  obtain u where "traverse_task_relations se q0 s = (Inr t, u)" using assms by (metis prod.collapse)
  from traversed_paths [OF this] show ?thesis by blast
qed

lemma relation_paths_sound_witness:
  "\<exists>t q. fst (traverse_task_relations mem_env mem_walk mem_db) = Inr t \<and> map trp_tasks (trv_paths t) = [[''a'', ''b'', ''a'']] \<and>
     paths_ok mem_graph q (trv_paths t)"
proof -
  obtain t where t: "fst (traverse_task_relations mem_env mem_walk mem_db) = Inr t"
      "map (\<lambda>p. (trp_tasks p, trp_cycle p)) (trv_paths t) = [([''a'', ''b'', ''a''], True)]"
    using map_sum_Inr [OF mem_walked] by (elim exE conjE) (rule that)
  obtain q where "paths_ok (md_graph mem_db) q (trv_paths t)" using relation_paths_sound [OF t(1)] by blast
  moreover have "md_graph mem_db = mem_graph" by (simp add: mem_db_def)
  moreover have "map trp_tasks (trv_paths t) = [[''a'', ''b'', ''a'']]" using t(2) by auto
  ultimately show ?thesis using t(1) by auto
qed

text \<open>
  C26: Every item of an executive summary shows a task of the projected graph, with its sources just when they
  were asked for, and an action that is labelled safe is offered only for a task that is not risky and is
  neither done nor canceled nor blocked; a draft only for one that may be delegated.
\<close>

theorem summary_actions_safe:
  assumes "i \<in> set (summary_items (project_summary zone q g))"
  shows "\<exists>t\<in>set (tgr_tasks g). item_shows q t i \<and> action_safe t i"
  by (rule summary_item_task [OF assms])

lemma summary_actions_safe_witness:
  "\<exists>i\<in>set (summary_items (project_summary (\<lambda>_. 0) sum_query one_graph)). item_shows sum_query one_task i \<and> action_safe one_task i"
proof -
  have "length (build_attention (\<lambda>_. 0) sum_query (new_task_index one_graph)) = 1"
    by (simp add: attention_count active_tasks_def new_task_index_def one_graph_def one_task_def sum_query_def)
  then obtain i where i: "i \<in> set (build_attention (\<lambda>_. 0) sum_query (new_task_index one_graph))"
    by (cases "build_attention (\<lambda>_. 0) sum_query (new_task_index one_graph)") auto
  then have "i \<in> set (summary_items (project_summary (\<lambda>_. 0) sum_query one_graph))"
    by (simp add: summary_items_def project_summary_def Let_def)
  moreover from summary_actions_safe [OF this] have "item_shows sum_query one_task i \<and> action_safe one_task i"
    by (simp add: one_graph_def)
  ultimately show ?thesis by (rule bexI [rotated])
qed

text \<open>
  C38: A snapshot of the task graph never has more than 100 relations, although it asks for 500: four times
  that is above the largest limit of the edge listing, which then falls back to its default.
\<close>

theorem snapshot_window:
  assumes "fst (task_graph_projection se q s) = Inr g"
  shows "length (tgr_relations g) \<le> 100"
proof -
  obtain u where "task_graph_projection se q s = (Inr g, u)" using assms by (metis prod.collapse)
  then show ?thesis by (rule projection_window)
qed

lemma snapshot_window_witness:
  "\<exists>g. fst (task_graph_projection mem_env mem_snapshot mem_db) = Inr g \<and> length (tgr_relations g) \<le> 100"
proof -
  obtain g where g: "fst (task_graph_projection mem_env mem_snapshot mem_db) = Inr g"
    using mem_snapshot_taken by (cases "fst (task_graph_projection mem_env mem_snapshot mem_db)") auto
  then show ?thesis using snapshot_window by blast
qed

end
