(* ===== verification/Launch_Resolution.thy ===== *)
theory Launch_Resolution imports Runbook_Json Go_Text begin

text \<open>
  The input of a launch: \<open>launchpad/resolution\<close> (types.go, resolver.go). Go's maps are association lists; the
  order in which Go goes through them matters only for keys that differ in white space around them,
  which the lemmas exclude. That the first source wins is proved at the end.
\<close>

section \<open>Types\<close>

datatype input_source = RunRequest | LaunchDefault | CodebaseDefault | RunbookDefault | Generated
  | SecretReference | StepOutput | AgentInference

definition source_name :: "input_source \<Rightarrow> string" where
  "source_name src =
     (case src of
        RunRequest \<Rightarrow> ''run_request'' | LaunchDefault \<Rightarrow> ''launch_default'' | CodebaseDefault \<Rightarrow> ''codebase_default''
      | RunbookDefault \<Rightarrow> ''runbook_default'' | Generated \<Rightarrow> ''generated'' | SecretReference \<Rightarrow> ''secret_reference''
      | StepOutput \<Rightarrow> ''step_output'' | AgentInference \<Rightarrow> ''agent_inference'')"

record resolution_request =
  rsq_required :: "string list"
  rsq_request :: json_map
  rsq_launch :: json_map
  rsq_codebase :: json_map
  rsq_runbook :: json_map
  rsq_generated :: json_map
  rsq_secrets :: json_map
  rsq_outputs :: json_map
  rsq_inferences :: json_map
  rsq_inferable :: "string list"
  rsq_overrides :: bool

record resolved_field =
  rfd_name :: string
  rfd_source :: input_source
  rfd_value :: json

record unresolved_field =
  ufd_name :: string
  ufd_reason :: string

record resolution_diagnostic =
  dgn_field :: string
  dgn_level :: string
  dgn_message :: string

record field_candidate =
  cnd_source :: input_source
  cnd_value :: json

record resolution =
  rsn_status :: string
  rsn_input :: json_map
  rsn_fields :: "(string \<times> resolved_field) list"
  rsn_unresolved :: "unresolved_field list"
  rsn_diagnostics :: "resolution_diagnostic list"
  rsn_secrets :: "string list"
  rsn_candidates :: "(string \<times> field_candidate list) list"

section \<open>The resolver\<close>

definition has_concrete_value :: "json option \<Rightarrow> bool" where
  "has_concrete_value v =
     (case v of None \<Rightarrow> False | Some JNull \<Rightarrow> False | Some (JStr s) \<Rightarrow> trim_space s \<noteq> [] | _ \<Rightarrow> True)"

fun normalized_field_list :: "string set \<Rightarrow> string list \<Rightarrow> string list" where
  "normalized_field_list seen [] = []"
| "normalized_field_list seen (v # vs) =
     (let t = trim_space v
      in if t = [] \<or> t \<in> seen then normalized_field_list seen vs
         else t # normalized_field_list (insert t seen) vs)"

definition trimmed_set :: "string list \<Rightarrow> string set" where
  "trimmed_set vs = set (filter (\<lambda>t. t \<noteq> []) (map trim_space vs))"

definition redact_secret_reference :: "string \<times> json \<Rightarrow> json_map \<Rightarrow> json_map" where
  "redact_secret_reference kv out =
     (case snd kv of
        JStr s \<Rightarrow>
          if has_prefix (trim_space s) ''secret://'' then put (fst kv) (JStr (trim_space s)) out
          else if trim_space (fst kv) \<noteq> [] then put (fst kv) (JStr (''secret://redacted/'' @ trim_space (fst kv))) out
          else out
      | _ \<Rightarrow>
          if trim_space (fst kv) \<noteq> [] then put (fst kv) (JStr (''secret://redacted/'' @ trim_space (fst kv))) out
          else out)"

definition redact_secret_references :: "json_map \<Rightarrow> json_map" where
  "redact_secret_references values = fold redact_secret_reference values []"

definition apply_field :: "input_source \<Rightarrow> bool \<Rightarrow> string \<times> json \<Rightarrow> resolution \<Rightarrow> resolution" where
  "apply_field src override kv r =
     (let name = trim_space (fst kv); v = snd kv
      in if name = [] \<or> \<not> has_concrete_value (Some v) then r
         else if map_of (rsn_fields r) name \<noteq> None \<and> \<not> override
         then r\<lparr>rsn_candidates := AList.update name
                  ((case map_of (rsn_candidates r) name of None \<Rightarrow> [] | Some cs \<Rightarrow> cs) @
                   [\<lparr>cnd_source = src, cnd_value = v\<rparr>]) (rsn_candidates r)\<rparr>
         else r\<lparr>rsn_input := put name v (rsn_input r),
                rsn_fields := AList.update name \<lparr>rfd_name = name, rfd_source = src, rfd_value = v\<rparr> (rsn_fields r)\<rparr>)"

definition apply_source :: "input_source \<Rightarrow> bool \<Rightarrow> json_map \<Rightarrow> resolution \<Rightarrow> resolution" where
  "apply_source src override values r = fold (apply_field src override) values r"

definition apply_inference :: "string set \<Rightarrow> bool \<Rightarrow> string \<times> json \<Rightarrow> resolution \<Rightarrow> resolution" where
  "apply_inference inferable override kv r =
     (if fst kv \<notin> inferable
      then r\<lparr>rsn_diagnostics := rsn_diagnostics r @
               [\<lparr>dgn_field = fst kv, dgn_level = ''info'',
                 dgn_message = ''agent inference ignored because the field is not marked inferable''\<rparr>]\<rparr>
      else apply_field AgentInference override kv r)"

definition unresolved_fields :: "resolution \<Rightarrow> string list \<Rightarrow> unresolved_field list" where
  "unresolved_fields r required =
     map (\<lambda>f. \<lparr>ufd_name = f, ufd_reason = ''required field was not resolved''\<rparr>)
       (filter (\<lambda>f. \<not> has_concrete_value (map_of (rsn_input r) f)) (normalized_field_list {} required))"

definition resolve :: "resolution_request \<Rightarrow> resolution" where
  "resolve req =
     (let o' = rsq_overrides req;
          r = \<lparr>rsn_status = ''resolved'', rsn_input = [], rsn_fields = [], rsn_unresolved = [],
               rsn_diagnostics = [], rsn_secrets = [], rsn_candidates = []\<rparr>;
          r = apply_source RunRequest True (rsq_request req) r;
          r = apply_source LaunchDefault o' (rsq_launch req) r;
          r = apply_source CodebaseDefault o' (rsq_codebase req) r;
          r = apply_source RunbookDefault o' (rsq_runbook req) r;
          r = apply_source Generated o' (rsq_generated req) r;
          r = apply_source SecretReference o' (redact_secret_references (rsq_secrets req)) r;
          r = apply_source StepOutput o' (rsq_outputs req) r;
          r = fold (apply_inference (trimmed_set (rsq_inferable req)) o') (rsq_inferences req) r;
          missing = unresolved_fields r (rsq_required req)
      in r\<lparr>rsn_unresolved := missing,
           rsn_secrets := filter (\<lambda>k. k \<noteq> []) (map (trim_space \<circ> fst) (rsq_secrets req)),
           rsn_status := (if missing = [] then rsn_status r else ''needs_input'')\<rparr>)"

section \<open>The first source wins\<close>

text \<open>What one source says about a field, and what the first of several says.\<close>

definition field_given :: "json_map \<Rightarrow> string \<Rightarrow> json option" where
  "field_given values name =
     (if name = [] then None
      else map_of (map (\<lambda>kv. (trim_space (fst kv), snd kv)) (filter (\<lambda>kv. has_concrete_value (Some (snd kv))) values)) name)"

fun first_given :: "json_map list \<Rightarrow> string \<Rightarrow> json option" where
  "first_given [] name = None"
| "first_given (m # ms) name = (case field_given m name of None \<Rightarrow> first_given ms name | Some v \<Rightarrow> Some v)"

definition keys_apart :: "json_map \<Rightarrow> bool" where
  "keys_apart m \<longleftrightarrow> distinct (map (trim_space \<circ> fst) m)"

text \<open>Input and fields agree.\<close>

definition agrees :: "resolution \<Rightarrow> bool" where
  "agrees r \<longleftrightarrow> (\<forall>n. map_of (rsn_input r) n = map_option rfd_value (map_of (rsn_fields r) n))"

lemma field_given_simps [simp]:
  "field_given [] n = None"
  "field_given (kv # m) n =
     (if n \<noteq> [] \<and> trim_space (fst kv) = n \<and> has_concrete_value (Some (snd kv)) then Some (snd kv) else field_given m n)"
  by (auto simp: field_given_def)

lemma given_none: "n \<notin> set (map (trim_space \<circ> fst) m) \<Longrightarrow> field_given m n = None"
  by (induction m) auto

lemma given_concrete: "field_given m n = Some v \<Longrightarrow> has_concrete_value (Some v) \<and> n \<noteq> []"
  by (induction m) (auto split: if_splits)

lemma apply_field_input:
  assumes "agrees r"
  shows "agrees (apply_field src ov kv r) \<and>
    map_of (rsn_input (apply_field src ov kv r)) n =
      (if n \<noteq> [] \<and> trim_space (fst kv) = n \<and> has_concrete_value (Some (snd kv)) \<and> (ov \<or> map_of (rsn_input r) n = None)
       then Some (snd kv) else map_of (rsn_input r) n)"
  using assms by (auto simp: apply_field_def agrees_def Let_def update_conv')

lemma apply_source_input:
  assumes "agrees r" "ov \<longrightarrow> (\<forall>n. map_of (rsn_input r) n \<noteq> None \<longrightarrow> field_given m n = None) \<and> keys_apart m"
  shows "agrees (apply_source src ov m r) \<and>
    map_of (rsn_input (apply_source src ov m r)) n =
      (case map_of (rsn_input r) n of Some v \<Rightarrow> Some v | None \<Rightarrow> field_given m n)"
  using assms
proof (induction m arbitrary: r)
  case Nil
  then show ?case by (simp add: apply_source_def split: option.split)
next
  case (Cons kv m)
  let ?r = "apply_field src ov kv r"
  have one: "agrees ?r" "\<And>n. map_of (rsn_input ?r) n =
      (if n \<noteq> [] \<and> trim_space (fst kv) = n \<and> has_concrete_value (Some (snd kv)) \<and> (ov \<or> map_of (rsn_input r) n = None)
       then Some (snd kv) else map_of (rsn_input r) n)"
    using apply_field_input [OF Cons.prems(1)] by blast+
  have later: "ov \<longrightarrow> (\<forall>n. map_of (rsn_input ?r) n \<noteq> None \<longrightarrow> field_given m n = None) \<and> keys_apart m"
    using Cons.prems(2) one(2) given_none [of "trim_space (fst kv)" m] by (auto simp: keys_apart_def split: if_splits)
  have "apply_source src ov (kv # m) r = apply_source src ov m ?r" by (simp add: apply_source_def)
  moreover have fresh: "ov \<longrightarrow> field_given m (trim_space (fst kv)) = None"
    using Cons.prems(2) given_none [of "trim_space (fst kv)" m] by (auto simp: keys_apart_def)
  moreover have "ov \<longrightarrow> map_of (rsn_input r) n \<noteq> None \<longrightarrow> field_given (kv # m) n = None"
    using Cons.prems(2) by blast
  ultimately show ?case
    using Cons.IH [OF one(1) later] one(2) [of n] fresh
    by (cases "map_of (rsn_input r) n") (auto split: option.splits if_splits)
qed

text \<open>The sources in the order of their precedence, when none may override.\<close>

definition input_sources :: "resolution_request \<Rightarrow> json_map list" where
  "input_sources req = [rsq_request req, rsq_launch req, rsq_codebase req, rsq_runbook req, rsq_generated req,
     redact_secret_references (rsq_secrets req), rsq_outputs req]"

lemma resolve_first:
  assumes "\<not> rsq_overrides req" "rsq_inferences req = []" "keys_apart (rsq_request req)"
  shows "map_of (rsn_input (resolve req)) n = first_given (input_sources req) n"
proof -
  define r0 where "r0 = \<lparr>rsn_status = ''resolved'', rsn_input = [], rsn_fields = [], rsn_unresolved = [],
    rsn_diagnostics = [], rsn_secrets = [], rsn_candidates = []\<rparr>"
  have r0: "agrees r0" "rsn_input r0 = []" by (simp_all add: r0_def agrees_def)
  note later = apply_source_input [where ov = False, simplified]
  let ?r1 = "apply_source RunRequest True (rsq_request req) r0"
  have r1: "agrees ?r1" "\<And>n. map_of (rsn_input ?r1) n = field_given (rsq_request req) n"
    using apply_source_input [OF r0(1), of True "rsq_request req" RunRequest] assms(3) r0(2) by (simp_all add: split: option.split)
  let ?r2 = "apply_source LaunchDefault False (rsq_launch req) ?r1"
  let ?r3 = "apply_source CodebaseDefault False (rsq_codebase req) ?r2"
  let ?r4 = "apply_source RunbookDefault False (rsq_runbook req) ?r3"
  let ?r5 = "apply_source Generated False (rsq_generated req) ?r4"
  let ?r6 = "apply_source SecretReference False (redact_secret_references (rsq_secrets req)) ?r5"
  let ?r7 = "apply_source StepOutput False (rsq_outputs req) ?r6"
  note r2 = later [OF r1(1), of LaunchDefault "rsq_launch req"]
  note r3 = later [OF r2 [THEN conjunct1], of CodebaseDefault "rsq_codebase req"]
  note r4 = later [OF r3 [THEN conjunct1], of RunbookDefault "rsq_runbook req"]
  note r5 = later [OF r4 [THEN conjunct1], of Generated "rsq_generated req"]
  note r6 = later [OF r5 [THEN conjunct1], of SecretReference "redact_secret_references (rsq_secrets req)"]
  note r7 = later [OF r6 [THEN conjunct1], of StepOutput "rsq_outputs req"]
  have "rsn_input (resolve req) = rsn_input ?r7"
    using assms(1,2) by (simp add: resolve_def Let_def r0_def)
  then show ?thesis
    using r1(2) [of n] r2 [of n] r3 [of n] r4 [of n] r5 [of n] r6 [of n] r7 [of n]
    by (simp add: input_sources_def split: option.split)
qed

end
