(* ===== verification/Launch_Store.thy ===== *)
theory Launch_Store imports Launch_Resolution Go_State Go_Time begin

text \<open>
  The tables of the launchpad (\<open>launchpad\<close>: types.go, store.go). A table is the list of its rows in insertion
  order; a column with JSON holds what \<open>json.Marshal\<close> and \<open>json.Unmarshal\<close> make of a map, and a struct of
  texts, numbers and flags as it is. Beside the tables the state counts the answers taken from the
  environment: clock, random bytes, the hash of a launch, the runbook runtime and the catalog of
  codebases are parameters (the two Go interfaces \<open>RunbookExecutor\<close> and \<open>CodebaseCatalog\<close>).
\<close>

section \<open>Types\<close>

record launch_policy =
  lpo_targets :: "string list"
  lpo_tools :: "string list"
  lpo_servers :: "string list"
  lpo_agents :: "string list"
  lpo_folders :: "string list"
  lpo_codebases :: "string list"
  lpo_domains :: "string list"
  lpo_secrets :: "string list"
  lpo_approval :: bool
  lpo_destructive :: string
  lpo_max_runtime :: int
  lpo_max_parallel :: int
  lpo_retry_limit :: int
  lpo_spending :: int
  lpo_source_control :: string

record launch_target =
  ltg_runtime :: string
  ltg_agent :: string

record launch_schedule =
  lsc_enabled :: bool
  lsc_cron :: string
  lsc_quiet_start :: string
  lsc_quiet_end :: string
  lsc_stop_at :: string
  lsc_max_runs :: int

record secret_binding =
  sbd_name :: string
  sbd_ref :: string

record launch =
  lau_id :: string
  lau_name :: string
  lau_runbook :: string
  lau_runbook_version :: string
  lau_codebase :: string
  lau_target :: string
  lau_agent :: string
  lau_defaults :: json_map
  lau_policy :: launch_policy
  lau_schedule :: launch_schedule
  lau_secrets :: "secret_binding list"
  lau_status :: string
  lau_version :: int
  lau_created :: string
  lau_updated :: string

record run_link =
  rlk_launch :: string
  rlk_run :: string
  rlk_created :: string

record run_snapshot =
  snp_run :: string
  snp_launch :: string
  snp_version :: int
  snp_runbook :: string
  snp_runbook_version :: string
  snp_input :: json_map
  snp_resolution :: json_map
  snp_target :: launch_target
  snp_policy :: launch_policy
  snp_secrets :: "secret_binding list"
  snp_created :: string

record policy_decision =
  pdc_status :: string
  pdc_reasons :: "string list"

record queue_item =
  qit_id :: string
  qit_launch :: string
  qit_version :: int
  qit_hash :: string
  qit_runbook :: string
  qit_runbook_version :: string
  qit_target :: launch_target
  qit_policy :: launch_policy
  qit_decision :: policy_decision
  qit_secrets :: "secret_binding list"
  qit_input :: json_map
  qit_resolution :: json_map
  qit_request :: json_map
  qit_source :: string
  qit_status :: string
  qit_attempts :: int
  qit_max_attempts :: int
  qit_lease :: string
  qit_leased_by :: string
  qit_expires :: string
  qit_run :: string
  qit_error :: string
  qit_enqueued :: string
  qit_updated :: string
  qit_started :: string
  qit_completed :: string

record launch_query =
  lqu_runbook :: string
  lqu_codebase :: string
  lqu_status :: string

record queue_query =
  qqu_launch :: string
  qqu_status :: string
  qqu_target :: string
  qqu_limit :: int

record release_request =
  rrq_lease :: string
  rrq_status :: string
  rrq_run :: string
  rrq_error :: string

record codebase_entry =
  cbe_id :: string
  cbe_name :: string
  cbe_aliases :: "string list"
  cbe_path :: string
  cbe_remote :: string
  cbe_branch :: string
  cbe_provider :: string
  cbe_provider_repository :: string
  cbe_target :: string
  cbe_agent :: string

record codebase_match =
  cbm_codebase :: codebase_entry
  cbm_confidence :: f64
  cbm_reason :: string

record codebase_answer =
  cba_status :: string
  cba_codebase :: "codebase_entry option"
  cba_matches :: "codebase_match list"
  cba_diagnostics :: "string list"

record started_run =
  srn_id :: string
  srn_definition :: string
  srn_status :: string
  srn_input :: json_map

record launch_db =
  lb_launches :: "launch list"
  lb_links :: "run_link list"
  lb_snapshots :: "run_snapshot list"
  lb_queue :: "queue_item list"
  lb_tick :: nat

text \<open>The catalog of codebases need not be configured.\<close>

record codebase_catalog =
  cat_get :: "nat \<Rightarrow> string \<Rightarrow> string + codebase_entry"
  cat_resolve :: "nat \<Rightarrow> string \<Rightarrow> string + codebase_answer"

record launch_env =
  le_now :: "nat \<Rightarrow> gotime"
  le_rand :: "nat \<Rightarrow> string option"
  le_hash :: "launch \<Rightarrow> string"
  le_start :: "nat \<Rightarrow> string \<Rightarrow> json_map \<Rightarrow> string + started_run"
  le_defaults :: "nat \<Rightarrow> string \<Rightarrow> string + json_map \<times> string"
  le_catalog :: "codebase_catalog option"

type_synonym 'a launch_run = "(launch_db, string, 'a) run"

definition ask :: "(nat \<Rightarrow> 'a) \<Rightarrow> 'a launch_run" where
  "ask f s = (Inr (f (lb_tick s)), s\<lparr>lb_tick := Suc (lb_tick s)\<rparr>)"

definition timestamp_now :: "launch_env \<Rightarrow> string launch_run" where
  "timestamp_now en = run_bind (ask (le_now en)) (\<lambda>t. run_ret (format_rfc3339_nano t))"

definition no_rows :: string where
  "no_rows = ''sql: no rows in result set''"

definition encode_json :: "json_map \<Rightarrow> string + json_map" where
  "encode_json m = (case json_fields_copy m of Some c \<Rightarrow> Inr c | None \<Rightarrow> Inl ''json: unsupported value'')"

definition modify_db :: "(launch_db \<Rightarrow> launch_db) \<Rightarrow> unit launch_run" where
  "modify_db f s = (Inr (), f s)"

section \<open>Launches\<close>

definition find_launch :: "launch_db \<Rightarrow> string \<Rightarrow> launch option" where
  "find_launch s lid = List.find (\<lambda>l. lau_id l = lid) (lb_launches s)"

definition get_launch :: "string \<Rightarrow> launch launch_run" where
  "get_launch lid = run_read (\<lambda>s. case find_launch s (trim_space lid) of Some l \<Rightarrow> Inr l | None \<Rightarrow> Inl no_rows)"

definition upsert_launch :: "launch_env \<Rightarrow> launch \<Rightarrow> unit launch_run" where
  "upsert_launch en l =
     run_bind (timestamp_now en) (\<lambda>now.
     run_bind (run_lift (encode_json (lau_defaults l))) (\<lambda>defaults.
     let l = l\<lparr>lau_defaults := defaults, lau_created := (if lau_created l = [] then now else lau_created l),
               lau_updated := now\<rparr>
     in modify_db (\<lambda>s. s\<lparr>lb_launches :=
          (if find_launch s (lau_id l) = None then lb_launches s @ [l]
           else map (\<lambda>old. if lau_id old = lau_id l
                           then l\<lparr>lau_version := lau_version old + 1, lau_created := lau_created old\<rparr> else old)
                  (lb_launches s))\<rparr>)))"

definition list_launches :: "launch_db \<Rightarrow> launch_query \<Rightarrow> launch list" where
  "list_launches s q =
     sort_slice (\<lambda>a b. str_less (lau_updated b) (lau_updated a) \<or>
                       (lau_updated a = lau_updated b \<and> str_less (lau_id a) (lau_id b)))
       (filter (\<lambda>l. (trim_space (lqu_runbook q) = [] \<or> lau_runbook l = trim_space (lqu_runbook q)) \<and>
                    (trim_space (lqu_codebase q) = [] \<or> lau_codebase l = trim_space (lqu_codebase q)) \<and>
                    (trim_space (lqu_status q) = [] \<or> lau_status l = trim_space (lqu_status q)))
          (lb_launches s))"

definition delete_launch :: "string \<Rightarrow> unit launch_run" where
  "delete_launch lid = modify_db (\<lambda>s. s\<lparr>lb_launches := filter (\<lambda>l. lau_id l \<noteq> trim_space lid) (lb_launches s)\<rparr>)"

section \<open>Links and snapshots\<close>

definition insert_run_link :: "launch_env \<Rightarrow> run_link \<Rightarrow> unit launch_run" where
  "insert_run_link en l =
     run_bind (if rlk_created l = [] then timestamp_now en else run_ret (rlk_created l)) (\<lambda>now s.
     if \<exists>o'\<in>set (lb_links s). rlk_launch o' = rlk_launch l \<and> rlk_run o' = rlk_run l
     then (Inl ''insert launch run link: UNIQUE constraint failed'', s)
     else (Inr (), s\<lparr>lb_links := lb_links s @ [l\<lparr>rlk_created := now\<rparr>]\<rparr>))"

definition insert_run_snapshot :: "launch_env \<Rightarrow> run_snapshot \<Rightarrow> unit launch_run" where
  "insert_run_snapshot en x =
     run_bind (if snp_created x = [] then timestamp_now en else run_ret (snp_created x)) (\<lambda>now.
     run_bind (run_lift (encode_json (snp_input x))) (\<lambda>input.
     run_bind (run_lift (encode_json (snp_resolution x))) (\<lambda>res s.
     if snp_run x \<in> set (map snp_run (lb_snapshots s))
     then (Inl ''insert launch run snapshot: UNIQUE constraint failed'', s)
     else (Inr (), s\<lparr>lb_snapshots := lb_snapshots s @
                       [x\<lparr>snp_input := input, snp_resolution := res, snp_created := now\<rparr>]\<rparr>))))"

definition get_run_snapshot :: "string \<Rightarrow> run_snapshot launch_run" where
  "get_run_snapshot rid = run_read (\<lambda>s.
     case List.find (\<lambda>x. snp_run x = trim_space rid) (lb_snapshots s) of Some x \<Rightarrow> Inr x | None \<Rightarrow> Inl no_rows)"

section \<open>The queue\<close>

definition find_item :: "launch_db \<Rightarrow> string \<Rightarrow> queue_item option" where
  "find_item s qid = List.find (\<lambda>q. qit_id q = qid) (lb_queue s)"

definition get_queue_item :: "string \<Rightarrow> queue_item launch_run" where
  "get_queue_item qid = run_read (\<lambda>s. case find_item s (trim_space qid) of Some q \<Rightarrow> Inr q | None \<Rightarrow> Inl no_rows)"

definition insert_queue_item :: "launch_env \<Rightarrow> queue_item \<Rightarrow> unit launch_run" where
  "insert_queue_item en q =
     run_bind (timestamp_now en) (\<lambda>now.
     let q = q\<lparr>qit_enqueued := (if qit_enqueued q = [] then now else qit_enqueued q)\<rparr>;
         q = q\<lparr>qit_updated := (if qit_updated q = [] then qit_enqueued q else qit_updated q)\<rparr>
     in run_bind (run_lift (encode_json (qit_input q))) (\<lambda>input.
        run_bind (run_lift (encode_json (qit_resolution q))) (\<lambda>res.
        run_bind (run_lift (encode_json (qit_request q))) (\<lambda>request s.
        if find_item s (qit_id q) \<noteq> None
        then (Inl ''insert launch run queue item: UNIQUE constraint failed'', s)
        else (Inr (), s\<lparr>lb_queue := lb_queue s @
                          [q\<lparr>qit_input := input, qit_resolution := res, qit_request := request\<rparr>]\<rparr>)))))"

definition queue_before :: "queue_item \<Rightarrow> queue_item \<Rightarrow> bool" where
  "queue_before a b \<longleftrightarrow>
     str_less (qit_enqueued a) (qit_enqueued b) \<or>
     (qit_enqueued a = qit_enqueued b \<and> str_less (qit_id a) (qit_id b))"

definition for_target :: "string \<Rightarrow> queue_item \<Rightarrow> bool" where
  "for_target tid q \<longleftrightarrow> ltg_runtime (qit_target q) = [] \<or> ltg_runtime (qit_target q) = tid"

definition list_queue_items :: "launch_db \<Rightarrow> queue_query \<Rightarrow> queue_item list" where
  "list_queue_items s q =
     take (nat (if qqu_limit q \<le> 0 \<or> qqu_limit q > 500 then 100 else qqu_limit q))
       (sort_slice queue_before
          (filter (\<lambda>i. (trim_space (qqu_launch q) = [] \<or> qit_launch i = trim_space (qqu_launch q)) \<and>
                       (trim_space (qqu_status q) = [] \<or> qit_status i = trim_space (qqu_status q)) \<and>
                       (trim_space (qqu_target q) = [] \<or> for_target (trim_space (qqu_target q)) i))
             (lb_queue s)))"

definition count_queue_items :: "launch_db \<Rightarrow> string \<Rightarrow> string list \<Rightarrow> nat" where
  "count_queue_items s lid statuses =
     length (filter (\<lambda>i. qit_launch i = trim_space lid \<and> (statuses = [] \<or> qit_status i \<in> set statuses)) (lb_queue s))"

text \<open>An \<open>UPDATE\<close> of the rows of the queue that satisfy a condition, with the number of rows it affected.\<close>

definition update_queue :: "(queue_item \<Rightarrow> bool) \<Rightarrow> (queue_item \<Rightarrow> queue_item) \<Rightarrow> nat launch_run" where
  "update_queue P f s =
     (Inr (length (filter P (lb_queue s))), s\<lparr>lb_queue := map (\<lambda>q. if P q then f q else q) (lb_queue s)\<rparr>)"

definition affected_item :: "string \<Rightarrow> nat \<Rightarrow> queue_item launch_run" where
  "affected_item qid n = (if n = 0 then run_err no_rows else get_queue_item qid)"

text \<open>What the updates make of a row: the \<open>SET\<close> clauses.\<close>

definition lease_row :: "string \<Rightarrow> string \<Rightarrow> string \<Rightarrow> string \<Rightarrow> queue_item \<Rightarrow> queue_item" where
  "lease_row lease tid expires now q =
     q\<lparr>qit_status := ''leased'', qit_attempts := qit_attempts q + 1, qit_lease := lease, qit_leased_by := tid,
       qit_expires := expires, qit_updated := now, qit_error := []\<rparr>"

definition renew_row :: "string \<Rightarrow> string \<Rightarrow> queue_item \<Rightarrow> queue_item" where
  "renew_row expires now q = q\<lparr>qit_expires := expires, qit_updated := now\<rparr>"

definition run_row :: "string \<Rightarrow> string \<Rightarrow> queue_item \<Rightarrow> queue_item" where
  "run_row rid now q = q\<lparr>qit_status := ''running'', qit_run := rid, qit_started := now, qit_updated := now\<rparr>"

definition free_row :: "string \<Rightarrow> string \<Rightarrow> string \<Rightarrow> queue_item \<Rightarrow> queue_item" where
  "free_row status completed now q =
     q\<lparr>qit_status := status, qit_lease := [], qit_leased_by := [], qit_expires := [], qit_completed := completed,
       qit_updated := now\<rparr>"

definition release_row :: "string \<Rightarrow> string \<Rightarrow> string \<Rightarrow> string \<Rightarrow> queue_item \<Rightarrow> queue_item" where
  "release_row status rid err now q =
     (free_row status now now q)\<lparr>qit_run := (if rid = [] then qit_run q else rid), qit_error := err\<rparr>"

definition cancel_row :: "string \<Rightarrow> queue_item \<Rightarrow> queue_item" where
  "cancel_row now q = free_row ''canceled'' now now q"

definition recover_row :: "string \<Rightarrow> int \<Rightarrow> int \<Rightarrow> queue_item \<Rightarrow> queue_item" where
  "recover_row now attempts most q =
     (if attempts \<ge> most then free_row ''failed'' now now q else free_row ''queued'' [] now q)
       \<lparr>qit_error := ''lease expired''\<rparr>"

definition lease_next :: "launch_env \<Rightarrow> string \<Rightarrow> string \<Rightarrow> string \<Rightarrow> queue_item launch_run" where
  "lease_next en target lease expires =
     (let tid = trim_space target
      in if tid = [] then run_err ''target id is required''
         else run_bind (run_read (\<lambda>s.
                case sort_slice queue_before (filter (\<lambda>q. qit_status q = ''queued'' \<and> for_target tid q) (lb_queue s)) of
                  [] \<Rightarrow> Inl no_rows | q # qs \<Rightarrow> Inr q)) (\<lambda>i.
              run_bind (timestamp_now en) (\<lambda>now.
              run_bind (update_queue (\<lambda>q. qit_id q = qit_id i \<and> qit_status q = ''queued'') (lease_row lease tid expires now))
                (affected_item (qit_id i)))))"

definition held_by :: "string \<Rightarrow> string \<Rightarrow> queue_item \<Rightarrow> bool" where
  "held_by qid lease q \<longleftrightarrow>
     qit_id q = trim_space qid \<and> qit_lease q = trim_space lease \<and> qit_status q \<in> {''leased'', ''running''}"

definition renew_lease :: "launch_env \<Rightarrow> string \<Rightarrow> string \<Rightarrow> string \<Rightarrow> queue_item launch_run" where
  "renew_lease en qid lease expires =
     run_bind (timestamp_now en) (\<lambda>now.
     run_bind (update_queue (held_by qid lease) (renew_row expires now)) (affected_item qid))"

definition mark_item_running :: "launch_env \<Rightarrow> string \<Rightarrow> string \<Rightarrow> string \<Rightarrow> queue_item launch_run" where
  "mark_item_running en qid lease rid =
     run_bind (timestamp_now en) (\<lambda>now.
     run_bind (update_queue (\<lambda>q. qit_id q = trim_space qid \<and> qit_lease q = trim_space lease \<and> qit_status q = ''leased'')
         (run_row (trim_space rid) now))
       (affected_item qid))"

definition release_lease :: "launch_env \<Rightarrow> string \<Rightarrow> release_request \<Rightarrow> queue_item launch_run" where
  "release_lease en qid req =
     run_bind (timestamp_now en) (\<lambda>now.
     run_bind (update_queue (held_by qid (rrq_lease req))
         (release_row (trim_space (rrq_status req)) (trim_space (rrq_run req)) (trim_space (rrq_error req)) now))
       (affected_item qid))"

definition cancel_item :: "launch_env \<Rightarrow> string \<Rightarrow> queue_item launch_run" where
  "cancel_item en qid =
     run_bind (timestamp_now en) (\<lambda>now.
     run_bind (update_queue (\<lambda>q. qit_id q = trim_space qid \<and> qit_status q \<in> {''queued'', ''leased''}) (cancel_row now))
       (affected_item qid))"

text \<open>
  \<open>RecoverExpiredRunQueueLeases\<close> first reads the expired leases and then updates them one by one; only the
  identifier selects the row of an update.
\<close>

definition lease_over :: "string \<Rightarrow> queue_item \<Rightarrow> bool" where
  "lease_over now q \<longleftrightarrow>
     qit_status q \<in> {''leased'', ''running''} \<and> qit_expires q \<noteq> [] \<and> \<not> str_less now (qit_expires q)"

definition expired_leases :: "string \<Rightarrow> launch_db \<Rightarrow> (string \<times> int \<times> int) list" where
  "expired_leases now s =
     map (\<lambda>q. (qit_id q, qit_attempts q, qit_max_attempts q)) (filter (lease_over now) (lb_queue s))"

definition recover_item :: "string \<Rightarrow> string \<times> int \<times> int \<Rightarrow> nat launch_run" where
  "recover_item now x =
     (case x of (qid, attempts, most) \<Rightarrow> update_queue (\<lambda>q. qit_id q = qid) (recover_row now attempts most))"

fun recover_items :: "string \<Rightarrow> (string \<times> int \<times> int) list \<Rightarrow> unit launch_run" where
  "recover_items now [] = run_ret ()"
| "recover_items now (x # xs) = run_bind (recover_item now x) (\<lambda>_. recover_items now xs)"

definition recover_expired :: "string \<Rightarrow> nat launch_run" where
  "recover_expired now =
     run_bind (run_read (\<lambda>s. Inr (expired_leases now s))) (\<lambda>xs.
     run_bind (recover_items now xs) (\<lambda>_. run_ret (length xs)))"

end
