(* ===== verification/Launch_Service.thy ===== *)
theory Launch_Service imports Launch_Store begin

text \<open>
  The launchpad service (\<open>launchpad/service.go\<close>): saved launches, previews and starts of runs, the queue with
  its leases, and schedules. Every call is one step on the tables; the calls end the theory as the
  datatype \<open>launch_call\<close> with what they do, \<open>launch_serve\<close>.
\<close>

section \<open>Normalising\<close>

definition trim_set :: "char set \<Rightarrow> string \<Rightarrow> string" where
  "trim_set cs s = rev (dropWhile (\<lambda>c. c \<in> cs) (rev (dropWhile (\<lambda>c. c \<in> cs) s)))"

definition normalize_launch_id :: "string \<Rightarrow> string" where
  "normalize_launch_id v = trim_set {CHR ''_'', CHR ''-''} (to_lower (trim_space v))"

definition slug_rune :: "char \<Rightarrow> string \<times> bool \<Rightarrow> string \<times> bool" where
  "slug_rune c st =
     (case st of (out, dash) \<Rightarrow>
        if 97 \<le> rune c \<and> rune c \<le> 122 \<or> is_digit c then (out @ [c], False)
        else if \<not> dash \<and> out \<noteq> [] then (out @ ''_'', True) else (out, dash))"

definition slug :: "string \<Rightarrow> string" where
  "slug v = trim_set {CHR ''_''} (fst (fold slug_rune (to_lower (trim_space v)) ([], False)))"

text \<open>The pattern \<open>^[a-z0-9][a-z0-9_-]*$\<close>.\<close>

definition launch_id_ok :: "string \<Rightarrow> bool" where
  "launch_id_ok v \<longleftrightarrow>
     v \<noteq> [] \<and> (97 \<le> rune (hd v) \<and> rune (hd v) \<le> 122 \<or> is_digit (hd v)) \<and>
     (\<forall>c\<in>set v. 97 \<le> rune c \<and> rune c \<le> 122 \<or> is_digit c \<or> c \<in> {CHR ''_'', CHR ''-''})"

record launch_request =
  lrq_id :: string
  lrq_name :: string
  lrq_runbook :: string
  lrq_runbook_version :: string
  lrq_codebase :: string
  lrq_target :: string
  lrq_agent :: string
  lrq_defaults :: json_map
  lrq_policy :: launch_policy
  lrq_schedule :: launch_schedule
  lrq_secrets :: "secret_binding list"
  lrq_status :: string

definition launch_from_request :: "launch_request \<Rightarrow> bool \<Rightarrow> string + launch" where
  "launch_from_request req create =
     (let lid = normalize_launch_id (lrq_id req);
          lid = (if lid = [] \<and> create then normalize_launch_id (slug (lrq_name req)) else lid)
      in if lid = [] \<or> \<not> launch_id_ok lid then Inl ''launch id is required and must be stable''
         else if trim_space (lrq_name req) = [] then Inl ''launch name is required''
         else if trim_space (lrq_runbook req) = [] then Inl ''runbook_id is required''
         else Inr \<lparr>lau_id = lid, lau_name = trim_space (lrq_name req), lau_runbook = trim_space (lrq_runbook req),
                   lau_runbook_version = trim_space (lrq_runbook_version req),
                   lau_codebase = trim_space (lrq_codebase req), lau_target = trim_space (lrq_target req),
                   lau_agent = trim_space (lrq_agent req), lau_defaults = lrq_defaults req,
                   lau_policy = lrq_policy req, lau_schedule = lrq_schedule req, lau_secrets = lrq_secrets req,
                   lau_status = (if trim_space (lrq_status req) = [] then ''active'' else trim_space (lrq_status req)),
                   lau_version = 1, lau_created = [], lau_updated = []\<rparr>)"

section \<open>Secrets in inputs\<close>

definition sensitive_input_key :: "string \<Rightarrow> bool" where
  "sensitive_input_key key =
     (let n = to_lower (trim_space key)
      in contains_str n ''secret'' \<or> contains_str n ''token'' \<or> contains_str n ''password'' \<or>
         contains_str n ''credential'' \<or> contains_str n ''api_key'' \<or> contains_str n ''apikey'')"

definition secret_reference_for :: "string \<Rightarrow> json \<Rightarrow> json" where
  "secret_reference_for key v =
     (case v of
        JStr s \<Rightarrow> if has_prefix (trim_space s) ''secret://'' then JStr (trim_space s)
                  else JStr (''secret://redacted/'' @ trim_space key)
      | _ \<Rightarrow> JStr (''secret://redacted/'' @ trim_space key))"

fun secret_safe :: "json \<Rightarrow> json"
  and secret_safe_list :: "json list \<Rightarrow> json list"
  and secret_safe_map :: "json_map \<Rightarrow> json_map" where
  "secret_safe (JObj m) = JObj (secret_safe_map m)"
| "secret_safe (JArr vs) = JArr (secret_safe_list vs)"
| "secret_safe v = v"
| "secret_safe_list [] = []"
| "secret_safe_list (v # vs) = secret_safe v # secret_safe_list vs"
| "secret_safe_map [] = []"
| "secret_safe_map ((k, v) # m) =
     (k, if sensitive_input_key k then secret_reference_for k v else secret_safe v) # secret_safe_map m"

fun redact_value :: "json \<Rightarrow> json"
  and redact_list :: "json list \<Rightarrow> json list"
  and redact_map :: "json_map \<Rightarrow> json_map" where
  "redact_value (JObj m) = JObj (redact_map m)"
| "redact_value (JArr vs) = JArr (redact_list vs)"
| "redact_value v = v"
| "redact_list [] = []"
| "redact_list (v # vs) = redact_value v # redact_list vs"
| "redact_map [] = []"
| "redact_map ((k, v) # m) =
     (k, if sensitive_input_key k then JStr ''[redacted]'' else redact_value v) # redact_map m"

section \<open>Resolving the input\<close>

record run_request =
  rnq_launch :: string
  rnq_input :: json_map
  rnq_codebase :: string
  rnq_source :: string
  rnq_task :: "json_map option"

definition request_input :: "run_request \<Rightarrow> json_map" where
  "request_input req =
     secret_safe_map
       (case rnq_task req of
          None \<Rightarrow> rnq_input req
        | Some t \<Rightarrow> if map_of (rnq_input req) ''task'' = None then put ''task'' (JObj t) (rnq_input req) else rnq_input req)"

definition display_safe_request_input :: "run_request \<Rightarrow> json_map" where
  "display_safe_request_input req = redact_map (request_input req)"

definition text_default :: "string \<Rightarrow> string \<Rightarrow> json_map" where
  "text_default key v = (if v = [] then [] else [(key, JStr v)])"

definition codebase_default_input :: "codebase_entry option \<Rightarrow> json_map" where
  "codebase_default_input c =
     (case c of
        None \<Rightarrow> []
      | Some c \<Rightarrow>
          text_default ''codebase_id'' (cbe_id c) @ text_default ''repository_path'' (cbe_path c) @
          text_default ''remote'' (cbe_remote c) @ text_default ''base_ref'' (cbe_branch c) @
          text_default ''pull_request_base'' (cbe_branch c) @ text_default ''runtime_target_id'' (cbe_target c) @
          text_default ''agent_profile_id'' (cbe_agent c))"

definition secret_reference_input :: "secret_binding list \<Rightarrow> json_map" where
  "secret_reference_input bs =
     fold (\<lambda>b m. if trim_space (sbd_name b) \<noteq> [] \<and> trim_space (sbd_ref b) \<noteq> []
                 then put (trim_space (sbd_name b)) (JStr (trim_space (sbd_ref b))) m else m) bs []"

text \<open>The codebase of a run, none if nothing names one, with what the catalog says about it.\<close>

definition launch_codebase ::
    "launch_env \<Rightarrow> launch \<Rightarrow> run_request \<Rightarrow> (codebase_entry option \<times> string list) launch_run" where
  "launch_codebase en l req =
     (let name = trim_space (rnq_codebase req);
          given = (case map_of (rnq_input req) ''codebase_id'' of Some (JStr c) \<Rightarrow> trim_space c | _ \<Rightarrow> []);
          bound = trim_space (lau_codebase l)
      in if name = [] \<and> given = [] \<and> bound = [] then run_ret (None, [])
         else case le_catalog en of
                None \<Rightarrow> run_err ''codebase catalog is not configured''
              | Some cat \<Rightarrow>
                  if name \<noteq> []
                  then run_bind (ask (\<lambda>n. cat_resolve cat n name)) (\<lambda>answer.
                       run_bind (run_lift answer) (\<lambda>a.
                       case cba_codebase a of
                         Some c \<Rightarrow>
                           if cba_status a = ''matched'' then run_ret (Some c, cba_diagnostics a)
                           else run_err (''codebase '' @ go_quote name @ '' was not resolved: '' @ cba_status a)
                       | None \<Rightarrow> run_err (''codebase '' @ go_quote name @ '' was not resolved: '' @ cba_status a)))
                  else run_bind (ask (\<lambda>n. cat_get cat n (if given \<noteq> [] then given else bound))) (\<lambda>answer.
                       run_bind (run_lift answer) (\<lambda>c. run_ret (Some c, []))))"

text \<open>The version that \<open>RunbookDefaults\<close> answers is written to a copy of the launch and lost.\<close>

definition resolve_launch_input :: "launch_env \<Rightarrow> launch \<Rightarrow> run_request \<Rightarrow> resolution launch_run" where
  "resolve_launch_input en l req =
     run_bind (launch_codebase en l req) (\<lambda>(c, diagnostics).
     run_bind (ask (\<lambda>n. le_defaults en n (lau_runbook l))) (\<lambda>answer.
     run_bind (run_lift answer) (\<lambda>(defaults, version).
     let r = resolve \<lparr>rsq_required = [], rsq_request = request_input req, rsq_launch = lau_defaults l,
                      rsq_codebase = codebase_default_input c, rsq_runbook = defaults, rsq_generated = [],
                      rsq_secrets = secret_reference_input (lau_secrets l), rsq_outputs = [],
                      rsq_inferences = [], rsq_inferable = [], rsq_overrides = False\<rparr>
     in run_ret (r\<lparr>rsn_diagnostics := rsn_diagnostics r @
                    map (\<lambda>d. \<lparr>dgn_field = [], dgn_level = ''info'', dgn_message = d\<rparr>) diagnostics\<rparr>))))"

section \<open>Preview\<close>

definition contains_any :: "string list \<Rightarrow> string list \<Rightarrow> bool" where
  "contains_any vs ts \<longleftrightarrow> (\<exists>t\<in>set ts. t \<in> set vs)"

definition evaluate_policy :: "launch \<Rightarrow> resolution \<Rightarrow> policy_decision" where
  "evaluate_policy l r =
     (let reasons =
        (if lpo_source_control (lau_policy l) = ''open_pr_only'' \<and>
            \<not> contains_any (lpo_tools (lau_policy l)) [''sourcecontrol.open_pull_request'']
         then [''open pull request permission is missing''] else []) @
        map (\<lambda>u. ''missing '' @ ufd_name u) (rsn_unresolved r)
      in if reasons \<noteq> [] then \<lparr>pdc_status = ''blocked'', pdc_reasons = reasons\<rparr>
         else \<lparr>pdc_status = ''allowed'', pdc_reasons = []\<rparr>)"

definition field_json :: "resolved_field \<Rightarrow> json" where
  "field_json f = JObj [(''name'', JStr (rfd_name f)), (''source'', JStr (source_name (rfd_source f))), (''value'', rfd_value f)]"

definition unless_empty :: "string \<Rightarrow> json list \<Rightarrow> json_map" where
  "unless_empty key vs = (if vs = [] then [] else [(key, JArr vs)])"

definition resolution_json :: "resolution \<Rightarrow> json_map" where
  "resolution_json r =
     [(''status'', JStr (rsn_status r)), (''input'', JObj (rsn_input r)),
      (''fields'', JObj (map (\<lambda>(k, f). (k, field_json f)) (rsn_fields r)))] @
     unless_empty ''unresolved_required_fields''
       (map (\<lambda>u. JObj [(''name'', JStr (ufd_name u)), (''reason'', JStr (ufd_reason u))]) (rsn_unresolved r)) @
     unless_empty ''diagnostics''
       (map (\<lambda>d. JObj (text_default ''field'' (dgn_field d) @
                    [(''level'', JStr (dgn_level d)), (''message'', JStr (dgn_message d))])) (rsn_diagnostics r)) @
     unless_empty ''secret_fields'' (map JStr (rsn_secrets r)) @
     (if rsn_candidates r = [] then []
      else [(''candidates'', JObj (map (\<lambda>(k, cs). (k, JArr (map (\<lambda>c. JObj
              [(''source'', JStr (source_name (cnd_source c))), (''value'', cnd_value c)]) cs))) (rsn_candidates r)))])"

definition resolution_map :: "resolution \<Rightarrow> json_map" where
  "resolution_map r = (case json_fields_copy (resolution_json r) of Some m \<Rightarrow> m | None \<Rightarrow> [])"

record launch_preview =
  lpv_launch :: launch
  lpv_input :: json_map
  lpv_resolution :: json_map
  lpv_missing :: "string list"
  lpv_decision :: policy_decision
  lpv_status :: string

definition preview_launch_run :: "launch_env \<Rightarrow> string \<Rightarrow> run_request \<Rightarrow> launch_preview launch_run" where
  "preview_launch_run en lid req =
     run_bind (get_launch lid) (\<lambda>l.
     run_bind (resolve_launch_input en l req) (\<lambda>r.
     let decision = evaluate_policy l r; missing = map ufd_name (rsn_unresolved r)
     in run_ret \<lparr>lpv_launch = l, lpv_input = rsn_input r, lpv_resolution = resolution_map r,
                 lpv_missing = missing, lpv_decision = decision,
                 lpv_status = (if pdc_status decision \<noteq> ''allowed'' then ''blocked''
                               else if missing \<noteq> [] then ''needs_input'' else ''ready'')\<rparr>))"

text \<open>What a start and an enqueuing check first.\<close>

definition ready_preview :: "string \<Rightarrow> launch_preview \<Rightarrow> string + launch_preview" where
  "ready_preview verb p =
     (if lpv_missing p \<noteq> [] then Inl (''launch needs input: '' @ join_str (lpv_missing p) '', '')
      else if pdc_status (lpv_decision p) \<noteq> ''allowed''
      then Inl (''launch policy blocked '' @ verb @ '': '' @ join_str (pdc_reasons (lpv_decision p)) ''; '')
      else Inr p)"

section \<open>Launches\<close>

definition create_launch :: "launch_env \<Rightarrow> launch_request \<Rightarrow> launch launch_run" where
  "create_launch en req =
     run_bind (run_lift (launch_from_request req True)) (\<lambda>l.
     run_bind (upsert_launch en l) (\<lambda>_.
     get_launch (lau_id l)))"

definition update_launch :: "launch_env \<Rightarrow> string \<Rightarrow> launch_request \<Rightarrow> launch launch_run" where
  "update_launch en lid req =
     run_bind (run_lift (launch_from_request (req\<lparr>lrq_id := trim_space lid\<rparr>) False)) (\<lambda>l.
     run_bind (get_launch (lau_id l)) (\<lambda>old.
     run_bind (upsert_launch en (l\<lparr>lau_created := lau_created old, lau_version := lau_version old\<rparr>)) (\<lambda>_.
     get_launch (lau_id l))))"

section \<open>Starting\<close>

definition snapshot_of :: "string \<Rightarrow> launch_preview \<Rightarrow> run_snapshot" where
  "snapshot_of rid p =
     (let l = lpv_launch p
      in \<lparr>snp_run = rid, snp_launch = lau_id l, snp_version = lau_version l, snp_runbook = lau_runbook l,
          snp_runbook_version = lau_runbook_version l, snp_input = lpv_input p, snp_resolution = lpv_resolution p,
          snp_target = \<lparr>ltg_runtime = lau_target l, ltg_agent = lau_agent l\<rparr>, snp_policy = lau_policy l,
          snp_secrets = lau_secrets l, snp_created = []\<rparr>)"

definition link_of :: "string \<Rightarrow> string \<Rightarrow> run_link" where
  "link_of lid rid = \<lparr>rlk_launch = lid, rlk_run = rid, rlk_created = []\<rparr>"

definition start_launch ::
    "launch_env \<Rightarrow> string \<Rightarrow> run_request \<Rightarrow> (launch_preview \<times> started_run \<times> run_link \<times> run_snapshot) launch_run" where
  "start_launch en lid req =
     run_bind (preview_launch_run en lid req) (\<lambda>p.
     run_bind (run_lift (ready_preview ''start'' p)) (\<lambda>p.
     run_bind (ask (\<lambda>n. le_start en n (lau_runbook (lpv_launch p)) (lpv_input p))) (\<lambda>answer.
     run_bind (run_lift answer) (\<lambda>rn.
     let link = link_of (lau_id (lpv_launch p)) (srn_id rn); snap = snapshot_of (srn_id rn) p
     in run_bind (insert_run_link en link) (\<lambda>_.
        run_bind (insert_run_snapshot en snap) (\<lambda>_.
        run_bind (timestamp_now en) (\<lambda>now.
        run_ret (p, rn, link\<lparr>rlk_created := now\<rparr>, snap\<lparr>snp_created := now\<rparr>))))))))"

section \<open>The queue\<close>

definition random_hex_id :: "launch_env \<Rightarrow> string \<Rightarrow> string launch_run" where
  "random_hex_id en pre =
     run_bind (ask (le_rand en)) (\<lambda>r.
     case r of None \<Rightarrow> run_err (''generate '' @ pre @ '' id'')
             | Some h \<Rightarrow> run_ret (normalize_launch_id pre @ ''_'' @ h))"

text \<open>\<open>RetryLimit + 1\<close> is computed in 64 bits.\<close>

definition max_attempts_for_policy :: "launch_policy \<Rightarrow> int" where
  "max_attempts_for_policy p =
     (if lpo_retry_limit p < 0 then 1
      else if lpo_retry_limit p = max_int then - max_int - 1 else lpo_retry_limit p + 1)"

definition queued_item :: "launch_env \<Rightarrow> string \<Rightarrow> string \<Rightarrow> run_request \<Rightarrow> launch_preview \<Rightarrow> queue_item" where
  "queued_item en qid now req p =
     (let l = lpv_launch p
      in \<lparr>qit_id = qid, qit_launch = lau_id l, qit_version = lau_version l, qit_hash = le_hash en l,
          qit_runbook = lau_runbook l, qit_runbook_version = lau_runbook_version l,
          qit_target = \<lparr>ltg_runtime = lau_target l, ltg_agent = lau_agent l\<rparr>, qit_policy = lau_policy l,
          qit_decision = lpv_decision p, qit_secrets = lau_secrets l, qit_input = lpv_input p,
          qit_resolution = lpv_resolution p, qit_request = display_safe_request_input req,
          qit_source = trim_space (rnq_source req), qit_status = ''queued'', qit_attempts = 0,
          qit_max_attempts = max_attempts_for_policy (lau_policy l), qit_lease = [], qit_leased_by = [],
          qit_expires = [], qit_run = [], qit_error = [], qit_enqueued = now, qit_updated = now,
          qit_started = [], qit_completed = []\<rparr>)"

definition enqueue_launch_run :: "launch_env \<Rightarrow> string \<Rightarrow> run_request \<Rightarrow> queue_item launch_run" where
  "enqueue_launch_run en lid req =
     run_bind (preview_launch_run en lid req) (\<lambda>p.
     run_bind (run_lift (ready_preview ''enqueue'' p)) (\<lambda>p.
     run_bind (random_hex_id en ''oprun'') (\<lambda>qid.
     run_bind (timestamp_now en) (\<lambda>now.
     let q = queued_item en qid now req p
     in run_bind (insert_queue_item en q) (\<lambda>_. get_queue_item (qit_id q))))))"

text \<open>At least a second, five minutes if not given and at most an hour; whole seconds.\<close>

definition lease_expiry :: "launch_env \<Rightarrow> int \<Rightarrow> string launch_run" where
  "lease_expiry en seconds =
     (let n = (if seconds \<le> 0 then 300 else seconds); n = (if n > 3600 then 3600 else n)
      in run_bind (ask (le_now en)) (\<lambda>t.
         run_ret (format_rfc3339_nano (t + n * ns_per_s - (t + n * ns_per_s) mod ns_per_s))))"

definition lease_expired :: "gotime \<Rightarrow> string \<Rightarrow> bool" where
  "lease_expired now v =
     (trim_space v = [] \<or> (case parse_rfc3339 v of None \<Rightarrow> True | Some t \<Rightarrow> \<not> t > now))"

definition lease_queued_run :: "launch_env \<Rightarrow> string \<Rightarrow> int \<Rightarrow> (queue_item \<times> string \<times> string) launch_run" where
  "lease_queued_run en target seconds =
     (if trim_space target = [] then run_err ''target_id is required''
      else run_bind (random_hex_id en ''lease'') (\<lambda>lease.
           run_bind (lease_expiry en seconds) (\<lambda>expires.
           run_bind (lease_next en (trim_space target) lease expires) (\<lambda>q.
           run_ret (q, lease, expires)))))"

definition renew_queued_run :: "launch_env \<Rightarrow> string \<Rightarrow> string \<Rightarrow> int \<Rightarrow> (queue_item \<times> string \<times> string) launch_run" where
  "renew_queued_run en qid lease seconds =
     (if trim_space lease = [] then run_err ''lease_id is required''
      else run_bind (lease_expiry en seconds) (\<lambda>expires.
           run_bind (renew_lease en qid (trim_space lease) expires) (\<lambda>q.
           run_ret (q, trim_space lease, expires))))"

definition item_snapshot :: "string \<Rightarrow> queue_item \<Rightarrow> run_snapshot" where
  "item_snapshot rid q =
     \<lparr>snp_run = rid, snp_launch = qit_launch q, snp_version = qit_version q, snp_runbook = qit_runbook q,
      snp_runbook_version = qit_runbook_version q, snp_input = qit_input q, snp_resolution = qit_resolution q,
      snp_target = qit_target q, snp_policy = qit_policy q, snp_secrets = qit_secrets q, snp_created = []\<rparr>"

definition start_queued_run ::
    "launch_env \<Rightarrow> string \<Rightarrow> string \<Rightarrow> (queue_item \<times> started_run \<times> run_link \<times> run_snapshot) launch_run" where
  "start_queued_run en qid lease =
     run_bind (get_queue_item qid) (\<lambda>q.
     if qit_status q \<noteq> ''leased'' then run_err (''queued run '' @ go_quote (qit_id q) @ '' is '' @ qit_status q @ '', not leased'')
     else if qit_lease q \<noteq> trim_space lease then run_err ''lease_id does not match queued run''
     else run_bind (if trim_space (qit_expires q) = [] \<or> parse_rfc3339 (qit_expires q) = None then run_ret True
                    else run_bind (ask (le_now en)) (\<lambda>t. run_ret (lease_expired t (qit_expires q)))) (\<lambda>over.
          if over then run_err ''queued run lease expired''
          else run_bind (ask (\<lambda>n. le_start en n (qit_runbook q) (qit_input q))) (\<lambda>answer.
               run_bind (run_lift answer) (\<lambda>rn.
               let link = link_of (qit_launch q) (srn_id rn); snap = item_snapshot (srn_id rn) q
               in run_bind (insert_run_link en link) (\<lambda>_.
                  run_bind (insert_run_snapshot en snap) (\<lambda>_.
                  run_bind (mark_item_running en (qit_id q) lease (srn_id rn)) (\<lambda>i.
                  run_bind (timestamp_now en) (\<lambda>now.
                  run_ret (i, rn, link\<lparr>rlk_created := now\<rparr>, snap\<lparr>snp_created := now\<rparr>)))))))))"

definition terminal_queue_status :: "string \<Rightarrow> bool" where
  "terminal_queue_status st \<longleftrightarrow> st \<in> {''completed'', ''failed'', ''canceled''}"

definition release_queued_run :: "launch_env \<Rightarrow> string \<Rightarrow> release_request \<Rightarrow> queue_item launch_run" where
  "release_queued_run en qid req =
     (let st = trim_space (rrq_status req); st = (if st = [] then ''completed'' else st)
      in if trim_space (rrq_lease req) = [] then run_err ''lease_id is required''
         else if \<not> terminal_queue_status st
         then run_err (''queue release status '' @ go_quote st @ '' is not terminal'')
         else release_lease en qid (req\<lparr>rrq_status := st\<rparr>))"

definition recover_leases :: "launch_env \<Rightarrow> nat launch_run" where
  "recover_leases en = run_bind (timestamp_now en) recover_expired"

section \<open>Schedules\<close>

fun cron_part_matches :: "int \<Rightarrow> int \<Rightarrow> int \<Rightarrow> bool \<Rightarrow> string list \<Rightarrow> bool" where
  "cron_part_matches v lo hi sunday [] = False"
| "cron_part_matches v lo hi sunday (p # ps) =
     (case atoi (trim_space p) of
        None \<Rightarrow> False
      | Some t \<Rightarrow>
          (let t = (if sunday \<and> t = 7 then 0 else t)
           in if t < lo \<or> t > hi then False
              else if t = v then True else cron_part_matches v lo hi sunday ps))"

definition cron_field_matches :: "string \<Rightarrow> int \<Rightarrow> int \<Rightarrow> int \<Rightarrow> bool \<Rightarrow> bool" where
  "cron_field_matches field v lo hi sunday =
     (let f = trim_space field
      in if f = ''*'' then True
         else if has_prefix f ''*/''
         then (case atoi (trim_prefix f ''*/'') of
                 None \<Rightarrow> False | Some step \<Rightarrow> if step \<le> 0 then False else v mod step = 0)
         else cron_part_matches v lo hi sunday (split_on CHR '','' f))"

definition minute_of_day :: "gotime \<Rightarrow> int" where
  "minute_of_day t = t div ns_per_s mod 86400 div 60"

definition schedule_due :: "launch_schedule \<Rightarrow> gotime \<Rightarrow> bool" where
  "schedule_due sc now =
     (let cron = trim_space (lsc_cron sc); fs = Go_Base.fields cron; day = now div ns_per_s div 86400
      in cron \<noteq> [] \<and> length fs = 5 \<and>
         (case date_of_days day of (y, m, d) \<Rightarrow>
            cron_field_matches (fs ! 0) (minute_of_day now mod 60) 0 59 False \<and>
            cron_field_matches (fs ! 1) (minute_of_day now div 60) 0 23 False \<and>
            cron_field_matches (fs ! 2) d 1 31 False \<and>
            cron_field_matches (fs ! 3) m 1 12 False \<and>
            cron_field_matches (fs ! 4) ((day + 4) mod 7) 0 7 True))"

definition schedule_stopped :: "launch_schedule \<Rightarrow> gotime \<Rightarrow> bool" where
  "schedule_stopped sc now =
     (trim_space (lsc_stop_at sc) \<noteq> [] \<and>
      (case parse_rfc3339 (lsc_stop_at sc) of None \<Rightarrow> True | Some t \<Rightarrow> now > t))"

definition parse_schedule_clock :: "string \<Rightarrow> int option" where
  "parse_schedule_clock v =
     (case split_on CHR '':'' (trim_space v) of
        [h, m] \<Rightarrow>
          (case atoi h of
             None \<Rightarrow> None
           | Some hour \<Rightarrow>
               if hour < 0 \<or> hour > 23 then None
               else case atoi m of
                      None \<Rightarrow> None
                    | Some minute \<Rightarrow> if minute < 0 \<or> minute > 59 then None else Some (hour * 60 + minute))
      | _ \<Rightarrow> None)"

definition in_quiet_hours :: "launch_schedule \<Rightarrow> gotime \<Rightarrow> bool" where
  "in_quiet_hours sc now =
     (case (parse_schedule_clock (lsc_quiet_start sc), parse_schedule_clock (lsc_quiet_end sc)) of
        (Some start, Some stop) \<Rightarrow>
          (let t = minute_of_day now
           in if start = stop then False
              else if start < stop then start \<le> t \<and> t < stop
              else start \<le> t \<or> t < stop)
      | _ \<Rightarrow> False)"

record schedule_result =
  sre_checked :: nat
  sre_enqueued :: "queue_item list"
  sre_skipped :: "(string \<times> string) list"

definition schedule_request :: run_request where
  "schedule_request = \<lparr>rnq_launch = [], rnq_input = [], rnq_codebase = [], rnq_source = ''schedule'', rnq_task = None\<rparr>"

text \<open>Why a launch is not queued now, if it is not.\<close>

definition schedule_hold :: "launch_db \<Rightarrow> launch \<Rightarrow> gotime \<Rightarrow> string option" where
  "schedule_hold s l now =
     (let sc = lau_schedule l;
          most = (if lpo_max_parallel (lau_policy l) \<le> 0 then 1 else lpo_max_parallel (lau_policy l))
      in if schedule_stopped sc now then Some ''schedule window ended''
         else if in_quiet_hours sc now then Some ''quiet hours''
         else if lsc_max_runs sc > 0 \<and> int (count_queue_items s (lau_id l) []) \<ge> lsc_max_runs sc
         then Some ''max scheduled runs reached''
         else if int (count_queue_items s (lau_id l) [''queued'', ''leased'', ''running'']) \<ge> most
         then Some ''max parallel runs active''
         else None)"

definition schedule_launch :: "launch_env \<Rightarrow> gotime \<Rightarrow> launch \<Rightarrow> schedule_result \<Rightarrow> schedule_result launch_run" where
  "schedule_launch en now l res s =
     (if \<not> lsc_enabled (lau_schedule l) \<or> \<not> schedule_due (lau_schedule l) now then (Inr res, s)
      else case schedule_hold s l now of
             Some reason \<Rightarrow> (Inr (res\<lparr>sre_skipped := sre_skipped res @ [(lau_id l, reason)]\<rparr>), s)
           | None \<Rightarrow>
               (case enqueue_launch_run en (lau_id l) schedule_request s of
                  (Inl e, t) \<Rightarrow> (Inr (res\<lparr>sre_skipped := sre_skipped res @ [(lau_id l, e)]\<rparr>), t)
                | (Inr q, t) \<Rightarrow> (Inr (res\<lparr>sre_enqueued := sre_enqueued res @ [q]\<rparr>), t)))"

fun enqueue_due_launches ::
    "launch_env \<Rightarrow> gotime \<Rightarrow> launch list \<Rightarrow> schedule_result \<Rightarrow> schedule_result launch_run" where
  "enqueue_due_launches en now [] res = run_ret res"
| "enqueue_due_launches en now (l # ls) res =
     run_bind (schedule_launch en now l res) (enqueue_due_launches en now ls)"

definition enqueue_due :: "launch_env \<Rightarrow> gotime \<Rightarrow> schedule_result launch_run" where
  "enqueue_due en now =
     run_bind (run_read (\<lambda>s. Inr (list_launches s \<lparr>lqu_runbook = [], lqu_codebase = [], lqu_status = ''active''\<rparr>))) (\<lambda>ls.
     enqueue_due_launches en now ls \<lparr>sre_checked = length ls, sre_enqueued = [], sre_skipped = []\<rparr>)"

section \<open>Calls\<close>

datatype launch_call =
    CreateLaunch launch_request
  | UpdateLaunch string launch_request
  | DeleteLaunch string
  | StartLaunch string run_request
  | EnqueueRun string run_request
  | LeaseRun string int
  | RenewLease string string int
  | StartQueued string string
  | ReleaseLease string release_request
  | CancelQueued string
  | RecoverLeases
  | EnqueueDue gotime

definition done_with :: "'a launch_run \<Rightarrow> unit launch_run" where
  "done_with m = run_bind m (\<lambda>_. run_ret ())"

definition launch_serve :: "launch_env \<Rightarrow> launch_call \<Rightarrow> unit launch_run" where
  "launch_serve en c =
     (case c of
        CreateLaunch r \<Rightarrow> done_with (create_launch en r)
      | UpdateLaunch lid r \<Rightarrow> done_with (update_launch en lid r)
      | DeleteLaunch lid \<Rightarrow> delete_launch lid
      | StartLaunch lid r \<Rightarrow> done_with (start_launch en lid r)
      | EnqueueRun lid r \<Rightarrow> done_with (enqueue_launch_run en lid r)
      | LeaseRun target n \<Rightarrow> done_with (lease_queued_run en target n)
      | RenewLease qid lease n \<Rightarrow> done_with (renew_queued_run en qid lease n)
      | StartQueued qid lease \<Rightarrow> done_with (start_queued_run en qid lease)
      | ReleaseLease qid r \<Rightarrow> done_with (release_queued_run en qid r)
      | CancelQueued qid \<Rightarrow> done_with (cancel_item en qid)
      | RecoverLeases \<Rightarrow> done_with (recover_leases en)
      | EnqueueDue now \<Rightarrow> done_with (enqueue_due en now))"

end
