(* ===== verification/Launch_Queue.thy ===== *)
theory Launch_Queue imports Launch_Service begin

text \<open>
  What every call of the launchpad keeps of the queue. The locale states it for a relation of rows: if the
  six updates and nothing else change a row within the relation, then every call does. It is interpreted for
  the life of a row, for the bounds on leases, and the theory ends with which row a lease takes.
\<close>

section \<open>Texts that are not empty\<close>

lemma pad_int_nonempty: "pad_int w i \<noteq> []"
  by (simp add: pad_int_def Let_def)

lemma time_text_nonempty: "format_rfc3339_nano t \<noteq> []"
  by (simp add: format_rfc3339_nano_def Let_def pad_int_nonempty split: prod.split)

section \<open>The law\<close>

definition queue_ids :: "launch_db \<Rightarrow> string list" where
  "queue_ids s = map qit_id (lb_queue s)"

definition evolves :: "(queue_item \<Rightarrow> queue_item \<Rightarrow> bool) \<Rightarrow> (queue_item \<Rightarrow> bool) \<Rightarrow> launch_db \<Rightarrow> launch_db \<Rightarrow> bool" where
  "evolves T P s t \<longleftrightarrow>
     (distinct (queue_ids s) \<longrightarrow>
        distinct (queue_ids t) \<and> (\<forall>q\<in>set (lb_queue s). \<exists>q'\<in>set (lb_queue t). T q q') \<and>
        (\<forall>q'\<in>set (lb_queue t). P q' \<or> (\<exists>q\<in>set (lb_queue s). T q q')))"

definition fresh_item :: "queue_item \<Rightarrow> bool" where
  "fresh_item q \<longleftrightarrow>
     qit_status q = ''queued'' \<and> qit_attempts q = 0 \<and> qit_lease q = [] \<and> qit_leased_by q = [] \<and> qit_completed q = [] \<and>
     qit_max_attempts q = max_attempts_for_policy (qit_policy q)"

locale queue_law =
  fixes T :: "queue_item \<Rightarrow> queue_item \<Rightarrow> bool" and P :: "queue_item \<Rightarrow> bool"
  assumes same: "T q q"
    and twice: "T a b \<Longrightarrow> T b c \<Longrightarrow> T a c"
    and ids: "T q q' \<Longrightarrow> qit_id q' = qit_id q"
    and start: "fresh_item q \<Longrightarrow> P q"
    and later: "P q \<Longrightarrow> T q q' \<Longrightarrow> P q'"
    and leased: "qit_status q = ''queued'' \<Longrightarrow> for_target tid q \<Longrightarrow> tid \<noteq> [] \<Longrightarrow> lease \<noteq> [] \<Longrightarrow> T q (lease_row lease tid e now q)"
    and renewed: "qit_status q \<in> {''leased'', ''running''} \<Longrightarrow> T q (renew_row e now q)"
    and running: "qit_status q = ''leased'' \<Longrightarrow> T q (run_row rid now q)"
    and released: "qit_status q \<in> {''leased'', ''running''} \<Longrightarrow> terminal_queue_status st \<Longrightarrow> now \<noteq> [] \<Longrightarrow>
      T q (release_row st rid err now q)"
    and canceled: "qit_status q \<in> {''queued'', ''leased''} \<Longrightarrow> now \<noteq> [] \<Longrightarrow> T q (cancel_row now q)"
    and recovered: "qit_status q \<in> {''leased'', ''running''} \<Longrightarrow> now \<noteq> [] \<Longrightarrow>
      T q (recover_row now (qit_attempts q) (qit_max_attempts q) q)"
begin

abbreviation R :: "launch_db \<Rightarrow> launch_db \<Rightarrow> bool" where
  "R \<equiv> evolves T P"

lemma order: "reflp R" "transp R"
proof -
  show "reflp R" using same unfolding evolves_def by (intro reflpI) blast
  show "transp R"
  proof (rule transpI)
    fix s t u
    assume st: "R s t" and tu: "R t u"
    show "R s u"
      unfolding evolves_def
    proof (intro impI conjI ballI)
      assume d: "distinct (queue_ids s)"
      note s = st [unfolded evolves_def, rule_format, OF d]
      note t = tu [unfolded evolves_def, rule_format, OF s [THEN conjunct1]]
      show "distinct (queue_ids u)" using t by blast
      show "\<exists>q'\<in>set (lb_queue u). T q q'" if "q \<in> set (lb_queue s)" for q
        using s t that twice by meson
      show "P q' \<or> (\<exists>q\<in>set (lb_queue s). T q q')" if "q' \<in> set (lb_queue u)" for q'
        using s t that twice later by meson
    qed
  qed
qed

lemma same_queue: "lb_queue t = lb_queue s \<Longrightarrow> R s t"
  using same by (auto simp: evolves_def queue_ids_def)

lemma updated:
  assumes "distinct (queue_ids s) \<Longrightarrow> \<forall>q\<in>set (lb_queue s). T q (f q)" "lb_queue t = map f (lb_queue s)"
  shows "R s t"
  unfolding evolves_def
proof
  assume d: "distinct (queue_ids s)"
  note T = assms(1) [OF d]
  then have "queue_ids t = queue_ids s" using ids by (simp add: queue_ids_def assms(2))
  then show "distinct (queue_ids t) \<and> (\<forall>q\<in>set (lb_queue s). \<exists>q'\<in>set (lb_queue t). T q q') \<and>
      (\<forall>q'\<in>set (lb_queue t). P q' \<or> (\<exists>q\<in>set (lb_queue s). T q q'))"
    using d T assms(2) by auto
qed

lemma update_within:
  assumes "\<And>q. C q \<Longrightarrow> T q (f q)"
  shows "run_within R (update_queue C f)"
proof -
  have "R s (s\<lparr>lb_queue := map (\<lambda>q. if C q then f q else q) (lb_queue s)\<rparr>)" for s
    by (rule updated [where f = "\<lambda>q. if C q then f q else q"]) (use assms same in auto)
  then show ?thesis by (simp add: run_within_def update_queue_def)
qed

lemmas basic =
  within_ret [OF order(1)] within_err [OF order(1)] within_read [OF order(1)] within_lift [OF order(1)] within_pair [OF order(1)]

lemmas bind = within_bind [OF order(2)]

lemma ask_within: "run_within R (ask f)"
  by (simp add: run_within_def ask_def same_queue)

lemma time_within: "run_within R (timestamp_now en)"
  unfolding timestamp_now_def by (intro bind ask_within basic)

lemma affected_within: "run_within R (affected_item qid n)"
  unfolding affected_item_def get_queue_item_def by (intro within_case basic)

lemma change_within: "(\<And>s. lb_queue (f s) = lb_queue s) \<Longrightarrow> run_within R (modify_db f)"
  by (simp add: run_within_def modify_db_def same_queue)

lemma launch_within:
  "run_within R (get_launch lid)" "run_within R (upsert_launch en l)" "run_within R (delete_launch lid)"
  unfolding get_launch_def upsert_launch_def delete_launch_def Let_def
  by (intro bind time_within basic change_within, simp)+

lemma insert_within: "run_within R (insert_run_link en l)" "run_within R (insert_run_snapshot en x)"
proof -
  have "run_within R (\<lambda>s. if c s then (Inl e, s) else (Inr (), s\<lparr>lb_links := f s\<rparr>))" for c e f
    by (simp add: run_within_def same_queue)
  then show "run_within R (insert_run_link en l)"
    unfolding insert_run_link_def by (intro bind within_case time_within basic)
  have "run_within R (\<lambda>s. if c s then (Inl e, s) else (Inr (), s\<lparr>lb_snapshots := f s\<rparr>))" for c e f
    by (simp add: run_within_def same_queue)
  then show "run_within R (insert_run_snapshot en x)"
    unfolding insert_run_snapshot_def by (intro bind within_case time_within basic)
qed

lemma item_within:
  assumes "fresh_item q"
  shows "run_within R (insert_queue_item en q)"
proof -
  have "R s (s\<lparr>lb_queue := lb_queue s @ [x]\<rparr>)" if "find_item s (qit_id x) = None" "fresh_item x" for s x
    using that same start by (auto simp: evolves_def queue_ids_def find_item_def find_None_iff)
  then have *: "run_within R (\<lambda>s. if find_item s i \<noteq> None then (Inl e, s) else (Inr (), s\<lparr>lb_queue := lb_queue s @ [x]\<rparr>))"
    if "fresh_item x" "qit_id x = i" for x e i
    using that reflpD [OF order(1)] by (auto simp: run_within_def)
  show ?thesis
    unfolding insert_queue_item_def Let_def
    by (intro bind time_within basic; rule *) (use assms in \<open>simp_all add: fresh_item_def\<close>)
qed

lemma held_within:
  "run_within R (renew_lease en qid lease e)" "run_within R (mark_item_running en qid lease rid)"
  unfolding renew_lease_def mark_item_running_def
  by (intro bind time_within affected_within update_within; simp add: held_by_def renewed running)+

lemma timed_within:
  assumes "\<And>now. now \<noteq> [] \<Longrightarrow> run_within R (f now)"
  shows "run_within R (run_bind (timestamp_now en) f)"
proof -
  have "R s (snd (run_bind (timestamp_now en) f s))" for s
  proof -
    let ?now = "format_rfc3339_nano (le_now en (lb_tick s))" and ?u = "s\<lparr>lb_tick := Suc (lb_tick s)\<rparr>"
    have "R ?u (snd (f ?now ?u))" using assms [OF time_text_nonempty] by (simp add: run_within_def)
    moreover have "R s ?u" by (rule same_queue) simp
    ultimately have "R s (snd (f ?now ?u))" by (rule transpD [OF order(2), rotated])
    then show ?thesis by (simp add: timestamp_now_def ask_def run_bind_def run_ret_def)
  qed
  then show ?thesis by (simp add: run_within_def)
qed

lemma release_within: "terminal_queue_status st \<Longrightarrow> run_within R (release_lease en qid (req\<lparr>rrq_status := st\<rparr>))"
proof -
  assume st: "terminal_queue_status st"
  have "\<forall>x\<in>set [''completed'', ''failed'', ''canceled'']. trim_space x = x" by code_simp
  then have trim: "trim_space st = st" using st by (auto simp: terminal_queue_status_def)
  show ?thesis
    unfolding release_lease_def
    by (intro timed_within bind affected_within update_within) (simp add: held_by_def trim released st)
qed

lemma cancel_within: "run_within R (cancel_item en qid)"
  unfolding cancel_item_def by (intro timed_within bind affected_within update_within) (simp add: canceled)

lemma lease_next_within:
  assumes "lease \<noteq> []"
  shows "run_within R (lease_next en target lease e)"
proof -
  let ?tid = "trim_space target"
  let ?is = "\<lambda>s. sort_slice queue_before (filter (\<lambda>q. qit_status q = ''queued'' \<and> for_target ?tid q) (lb_queue s))"
  have "R s (snd (lease_next en target lease e s))" if tid: "?tid \<noteq> []" for s
  proof (cases "?is s")
    case Nil
    then show ?thesis
      using tid reflpD [OF order(1)] by (simp add: lease_next_def Let_def run_bind_def run_read_def)
  next
    case (Cons i js)
    then have "i \<in> set (?is s)" by simp
    then have i: "i \<in> set (lb_queue s)" "qit_status i = ''queued''" "for_target ?tid i" by simp_all
    let ?now = "format_rfc3339_nano (le_now en (lb_tick s))"
    let ?f = "\<lambda>q. if qit_id q = qit_id i \<and> qit_status q = ''queued'' then lease_row lease ?tid e ?now q else q"
    let ?t = "s\<lparr>lb_tick := Suc (lb_tick s), lb_queue := map ?f (lb_queue s)\<rparr>"
    have "snd (lease_next en target lease e s) = snd (affected_item (qit_id i)
        (length (filter (\<lambda>q. qit_id q = qit_id i \<and> qit_status q = ''queued'') (lb_queue s))) ?t)"
      using tid Cons
      by (simp add: lease_next_def Let_def run_bind_def run_read_def run_ret_def timestamp_now_def ask_def update_queue_def)
    also have "\<dots> = ?t" by (simp add: affected_item_def get_queue_item_def run_read_def run_err_def)
    finally have t: "snd (lease_next en target lease e s) = ?t" .
    have "R s ?t"
    proof (rule updated [where f = ?f])
      assume d: "distinct (queue_ids s)"
      show "\<forall>q\<in>set (lb_queue s). T q (?f q)"
      proof
        fix q
        assume "q \<in> set (lb_queue s)"
        then have "qit_id q = qit_id i \<Longrightarrow> q = i"
          using d i(1) inj_onD [of qit_id "set (lb_queue s)" q i] by (simp add: queue_ids_def distinct_map)
        then show "T q (?f q)" using same leased [OF i(2,3) tid assms] by auto
      qed
    qed simp
    then show ?thesis by (simp add: t)
  qed
  moreover have "R s (snd (lease_next en target lease e s))" if "?tid = []" for s
    using that reflpD [OF order(1)] by (simp add: lease_next_def run_err_def)
  ultimately show ?thesis unfolding run_within_def by blast
qed

end

section \<open>Recovering\<close>

lemma recover_id [simp]: "qit_id (recover_row now a m q) = qit_id q"
  by (simp add: recover_row_def free_row_def)

definition recover_one :: "string \<Rightarrow> string \<times> int \<times> int \<Rightarrow> queue_item \<Rightarrow> queue_item" where
  "recover_one now x q = (if qit_id q = fst x then recover_row now (fst (snd x)) (snd (snd x)) q else q)"

lemma recover_one_id [simp]: "qit_id (recover_one now x q) = qit_id q"
  by (simp add: recover_one_def)

lemma recover_items_queue:
  "recover_items now xs s = (Inr (), s\<lparr>lb_queue := map (fold (recover_one now) xs) (lb_queue s)\<rparr>)"
proof (induction xs arbitrary: s)
  case (Cons x xs)
  have "recover_item now x s = (Inr (length (filter (\<lambda>q. qit_id q = fst x) (lb_queue s))),
      s\<lparr>lb_queue := map (recover_one now x) (lb_queue s)\<rparr>)"
    by (simp add: recover_item_def update_queue_def recover_one_def split: prod.split)
  then show ?case using Cons.IH by (simp add: run_bind_def comp_def)
qed (simp add: run_ret_def)

lemma recover_others: "qit_id q \<notin> fst ` set xs \<Longrightarrow> fold (recover_one now) xs q = q"
  by (induction xs) (auto simp: recover_one_def)

lemma recover_own:
  "distinct (map fst xs) \<Longrightarrow> x \<in> set xs \<Longrightarrow> qit_id q = fst x \<Longrightarrow>
   fold (recover_one now) xs q = recover_row now (fst (snd x)) (snd (snd x)) q"
proof (induction xs arbitrary: q)
  case (Cons y ys)
  show ?case
  proof (cases "x = y")
    case True
    then show ?thesis
      using Cons.prems recover_others [of "recover_one now x q" ys now] by (simp add: recover_one_def [of now y q])
  next
    case False
    then have "fst y \<noteq> fst x" using Cons.prems by force
    then show ?thesis using Cons False by (simp add: recover_one_def)
  qed
qed simp

lemma recover_queue:
  assumes "distinct (queue_ids s)"
  shows "lb_queue (snd (recover_expired now s)) =
    map (\<lambda>q. if lease_over now q then recover_row now (qit_attempts q) (qit_max_attempts q) q else q) (lb_queue s)"
proof -
  let ?xs = "expired_leases now s"
  have d: "distinct (map fst ?xs)"
    using distinct_map_filter [OF assms [unfolded queue_ids_def]] by (simp add: expired_leases_def comp_def)
  have "fold (recover_one now) ?xs q =
      (if lease_over now q then recover_row now (qit_attempts q) (qit_max_attempts q) q else q)"
    if q: "q \<in> set (lb_queue s)" for q
  proof (cases "lease_over now q")
    case True
    then have "(qit_id q, qit_attempts q, qit_max_attempts q) \<in> set ?xs"
      using q by (auto simp: expired_leases_def)
    from recover_own [OF d this, of q now] show ?thesis using True by simp
  next
    case False
    have "qit_id q \<notin> fst ` set ?xs"
    proof
      assume "qit_id q \<in> fst ` set ?xs"
      then obtain r where "r \<in> set (lb_queue s)" "lease_over now r" "qit_id r = qit_id q"
        by (auto simp: expired_leases_def)
      then have "r = q"
        using assms q inj_onD [of qit_id "set (lb_queue s)" r q] by (simp add: queue_ids_def distinct_map)
      then show False using False \<open>lease_over now r\<close> by simp
    qed
    then show ?thesis using False by (simp add: recover_others)
  qed
  then show ?thesis
    by (simp add: recover_expired_def run_bind_def run_read_def run_ret_def recover_items_queue)
qed

text \<open>What the second half of a recovery does to a row whose lease was over when the first half read it.\<close>

lemma recover_read:
  assumes "distinct (queue_ids s)" "q \<in> set (lb_queue s)" "lease_over now q" "qit_id r = qit_id q"
  shows "fold (recover_one now) (expired_leases now s) r = recover_row now (qit_attempts q) (qit_max_attempts q) r"
proof -
  have "distinct (map fst (expired_leases now s))"
    using distinct_map_filter [OF assms(1) [unfolded queue_ids_def]] by (simp add: expired_leases_def comp_def)
  moreover have "(qit_id q, qit_attempts q, qit_max_attempts q) \<in> set (expired_leases now s)"
    using assms(2,3) by (auto simp: expired_leases_def)
  ultimately show ?thesis using recover_own assms(4) by fastforce
qed

context queue_law begin

lemma recover_within:
  assumes "now \<noteq> []"
  shows "run_within R (recover_expired now)"
proof -
  have "R s (snd (recover_expired now s))" for s
  proof (cases "distinct (queue_ids s)")
    case True
    have "T q (if lease_over now q then recover_row now (qit_attempts q) (qit_max_attempts q) q else q)" for q
      using same recovered [OF _ assms, of q] by (simp add: lease_over_def)
    then show ?thesis by (intro updated [OF _ recover_queue [OF True]]) blast
  next
    case False
    then show ?thesis by (simp add: evolves_def)
  qed
  then show ?thesis by (simp add: run_within_def)
qed

lemma read_within:
  "run_within R (launch_codebase en l req)" "run_within R (resolve_launch_input en l req)"
  "run_within R (preview_launch_run en lid req)" "run_within R (random_hex_id en p)" "run_within R (lease_expiry en n)"
proof -
  show c: "run_within R (launch_codebase en l req)" for l
    unfolding launch_codebase_def Let_def by (intro within_case bind ask_within basic)
  show r: "run_within R (resolve_launch_input en l req)" for l
    unfolding resolve_launch_input_def Let_def by (intro within_case bind ask_within basic c)
  show "run_within R (preview_launch_run en lid req)"
    unfolding preview_launch_run_def Let_def by (intro within_case bind launch_within r basic)
  show "run_within R (random_hex_id en p)" "run_within R (lease_expiry en n)"
    unfolding random_hex_id_def lease_expiry_def Let_def by (intro within_case bind ask_within basic)+
qed

lemma enqueue_within: "run_within R (enqueue_launch_run en lid req)"
proof -
  have "fresh_item (queued_item en qid now req p)" for qid now p
    by (simp add: fresh_item_def queued_item_def Let_def)
  then show ?thesis
    unfolding enqueue_launch_run_def get_queue_item_def Let_def
    by (intro bind read_within time_within basic item_within)
qed

lemma lease_within: "run_within R (lease_queued_run en target n)"
proof -
  have leasing: "run_within R (run_bind (random_hex_id en ''lease'') f)"
    if f: "\<And>lease. lease \<noteq> [] \<Longrightarrow> run_within R (f lease)" for f :: "string \<Rightarrow> 'a launch_run"
  proof -
    have "R s (snd (run_bind (random_hex_id en ''lease'') f s))" for s
    proof -
      let ?u = "s\<lparr>lb_tick := Suc (lb_tick s)\<rparr>"
      have u: "R s ?u" by (rule same_queue) simp
      show ?thesis
      proof (cases "le_rand en (lb_tick s)")
        case None
        then show ?thesis using u by (simp add: random_hex_id_def ask_def run_bind_def run_err_def)
      next
        case (Some h)
        let ?lease = "normalize_launch_id ''lease'' @ ''_'' @ h"
        have "R ?u (snd (f ?lease ?u))" using f [of ?lease] by (simp add: run_within_def)
        then show ?thesis
          using Some transpD [OF order(2) u] by (simp add: random_hex_id_def ask_def run_bind_def run_ret_def)
      qed
    qed
    then show ?thesis by (simp add: run_within_def)
  qed
  show ?thesis
    unfolding lease_queued_run_def
    by (intro within_case basic, intro leasing bind [OF read_within(5)] bind [OF lease_next_within] basic)
qed

lemma schedule_within: "run_within R (enqueue_due en now)"
proof -
  have one: "run_within R (schedule_launch en now l res)" for l res
    using enqueue_within [of en "lau_id l" schedule_request] reflpD [OF order(1)]
    unfolding run_within_def schedule_launch_def by (auto split: option.split prod.split sum.split) (metis snd_conv)+
  have "run_within R (enqueue_due_launches en now ls res)" for ls res
    by (induction ls arbitrary: res) (auto intro: bind basic one)
  then show ?thesis unfolding enqueue_due_def by (intro bind basic)
qed

lemma serve_within: "run_within R (launch_serve en c)"
proof -
  have start: "run_within R (start_launch en lid r)" for lid r
    unfolding start_launch_def Let_def by (intro bind read_within insert_within time_within ask_within basic)
  have queued: "run_within R (start_queued_run en qid lease)" for qid lease
    unfolding start_queued_run_def get_queue_item_def Let_def
    by (intro bind within_case insert_within held_within time_within ask_within basic)
  have release: "run_within R (release_queued_run en qid r)" for qid r
    unfolding release_queued_run_def Let_def by (intro within_case basic release_within) auto
  have launches: "run_within R (create_launch en r)" "run_within R (update_launch en lid r)" for r lid
    unfolding create_launch_def update_launch_def by (intro bind launch_within basic)+
  have renew: "run_within R (renew_queued_run en qid lease n)" for qid lease n
    unfolding renew_queued_run_def by (intro within_case bind read_within held_within basic)
  have recover: "run_within R (recover_leases en)"
    unfolding recover_leases_def by (intro timed_within recover_within)
  show ?thesis
    unfolding launch_serve_def done_with_def
    by (cases c; simp; intro bind basic start queued release launches renew recover enqueue_within lease_within
        schedule_within cancel_within launch_within)
qed

end

section \<open>The life of a row\<close>

text \<open>What no call changes, and that a finished row is not touched again.\<close>

definition item_life :: "queue_item \<Rightarrow> queue_item \<Rightarrow> bool" where
  "item_life q q' \<longleftrightarrow>
     qit_id q' = qit_id q \<and> qit_launch q' = qit_launch q \<and> qit_version q' = qit_version q \<and> qit_hash q' = qit_hash q \<and>
     qit_runbook q' = qit_runbook q \<and> qit_target q' = qit_target q \<and> qit_policy q' = qit_policy q \<and>
     qit_decision q' = qit_decision q \<and> qit_input q' = qit_input q \<and> qit_request q' = qit_request q \<and>
     qit_max_attempts q' = qit_max_attempts q \<and> qit_enqueued q' = qit_enqueued q \<and>
     qit_attempts q \<le> qit_attempts q' \<and> (terminal_queue_status (qit_status q) \<longrightarrow> q' = q)"

lemmas row_defs = lease_row_def renew_row_def run_row_def release_row_def cancel_row_def recover_row_def free_row_def

interpretation life: queue_law item_life "\<lambda>q. True"
  by unfold_locales (auto simp: item_life_def row_defs terminal_queue_status_def)

section \<open>Leases\<close>

definition most_attempts :: "queue_item \<Rightarrow> int" where
  "most_attempts q = (if qit_max_attempts q < 1 then 1 else qit_max_attempts q)"

definition item_ok :: "queue_item \<Rightarrow> bool" where
  "item_ok q \<longleftrightarrow>
     qit_max_attempts q = max_attempts_for_policy (qit_policy q) \<and>
     0 \<le> qit_attempts q \<and> qit_attempts q \<le> most_attempts q \<and>
     (qit_status q = ''queued'' \<and> qit_lease q = [] \<and> qit_leased_by q = [] \<and> qit_completed q = [] \<and>
        qit_attempts q < most_attempts q \<or>
      qit_status q \<in> {''leased'', ''running''} \<and> qit_lease q \<noteq> [] \<and> qit_leased_by q \<noteq> [] \<and> qit_completed q = [] \<and>
        for_target (qit_leased_by q) q \<and> 1 \<le> qit_attempts q \<or>
      terminal_queue_status (qit_status q) \<and> qit_lease q = [] \<and> qit_leased_by q = [] \<and> qit_completed q \<noteq> [])"

definition keeps_ok :: "queue_item \<Rightarrow> queue_item \<Rightarrow> bool" where
  "keeps_ok q q' \<longleftrightarrow> qit_id q' = qit_id q \<and> (item_ok q \<longrightarrow> item_ok q')"

lemmas ok_defs = keeps_ok_def item_ok_def most_attempts_def for_target_def terminal_queue_status_def

interpretation bounds: queue_law keeps_ok item_ok
proof unfold_locales
  show "keeps_ok q q" "keeps_ok a b \<Longrightarrow> keeps_ok b c \<Longrightarrow> keeps_ok a c" "keeps_ok q q' \<Longrightarrow> qit_id q' = qit_id q"
    "item_ok q \<Longrightarrow> keeps_ok q q' \<Longrightarrow> item_ok q'" for q q' a b c
    by (auto simp: keeps_ok_def)
  show "item_ok q" if "fresh_item q" for q
    using that by (auto simp: fresh_item_def ok_defs)
  show "keeps_ok q (lease_row lease tid e now q)"
    if "qit_status q = ''queued''" "for_target tid q" "tid \<noteq> []" "lease \<noteq> []" for q tid lease e now
    using that by (auto simp: ok_defs lease_row_def)
  show "keeps_ok q (renew_row e now q)" if "qit_status q \<in> {''leased'', ''running''}" for q e now
    using that by (auto simp: ok_defs renew_row_def)
  show "keeps_ok q (run_row rid now q)" if "qit_status q = ''leased''" for q rid now
    using that by (auto simp: ok_defs run_row_def)
  show "keeps_ok q (release_row st rid err now q)"
    if "qit_status q \<in> {''leased'', ''running''}" "terminal_queue_status st" "now \<noteq> []" for q st rid err now
    using that by (auto simp: ok_defs release_row_def free_row_def)
  show "keeps_ok q (cancel_row now q)" if "qit_status q \<in> {''queued'', ''leased''}" "now \<noteq> []" for q now
    using that by (auto simp: ok_defs cancel_row_def free_row_def)
  show "keeps_ok q (recover_row now (qit_attempts q) (qit_max_attempts q) q)"
    if "qit_status q \<in> {''leased'', ''running''}" "now \<noteq> []" for q now
    using that by (auto simp: ok_defs recover_row_def free_row_def)
qed

section \<open>Sequences of calls\<close>

definition launch_serve_all :: "launch_env \<Rightarrow> launch_call list \<Rightarrow> launch_db \<Rightarrow> launch_db" where
  "launch_serve_all en cs s = fold (\<lambda>c t. snd (launch_serve en c t)) cs s"

context queue_law begin

lemma serve_all_within: "R s (launch_serve_all en cs s)"
proof (induction cs arbitrary: s)
  case Nil
  then show ?case using reflpD [OF order(1)] by (simp add: launch_serve_all_def)
next
  case (Cons c cs)
  have "R s (snd (launch_serve en c s))" using serve_within [of en c] by (simp add: run_within_def)
  then show ?case using Cons transpD [OF order(2)] by (simp add: launch_serve_all_def)
qed

end

definition queue_ok :: "launch_db \<Rightarrow> bool" where
  "queue_ok s \<longleftrightarrow> distinct (queue_ids s) \<and> (\<forall>q\<in>set (lb_queue s). item_ok q)"

lemma queue_ok_kept: "queue_ok s \<Longrightarrow> queue_ok (launch_serve_all en cs s)"
  using bounds.serve_all_within [of s en cs] unfolding queue_ok_def evolves_def keeps_ok_def by blast

section \<open>Which row a lease takes\<close>

lemma str_less_asym: "str_less a b \<Longrightarrow> \<not> str_less b a"
  using str_less_trans [of a b a] by auto

lemma queue_order: "\<not> queue_before a b \<Longrightarrow> \<not> queue_before b c \<Longrightarrow> \<not> queue_before a c"
  "queue_before a b \<Longrightarrow> \<not> queue_before b a"
proof -
  have total: "x = y \<or> str_less x y \<or> str_less y x" for x y using str_less_total by blast
  show "queue_before a b \<Longrightarrow> \<not> queue_before b a"
    unfolding queue_before_def using str_less_asym str_less_irrefl by metis
  assume "\<not> queue_before a b" "\<not> queue_before b c"
  then show "\<not> queue_before a c"
    unfolding queue_before_def using total str_less_trans str_less_asym by (metis (no_types, opaque_lifting))
qed

lemma lease_takes:
  assumes "lease_next en target lease e s = (Inr q', t)" "distinct (queue_ids s)"
  shows "\<exists>q\<in>set (lb_queue s). \<exists>now. qit_status q = ''queued'' \<and> for_target (trim_space target) q \<and>
    lb_queue t = map (\<lambda>x. if x = q then lease_row lease (trim_space target) e now q else x) (lb_queue s) \<and>
    (\<forall>x\<in>set (lb_queue s). qit_status x = ''queued'' \<and> for_target (trim_space target) x \<longrightarrow> \<not> queue_before x q)"
proof -
  let ?tid = "trim_space target"
  let ?is = "sort_slice queue_before (filter (\<lambda>q. qit_status q = ''queued'' \<and> for_target ?tid q) (lb_queue s))"
  have tid: "?tid \<noteq> []" using assms(1) by (auto simp: lease_next_def run_err_def)
  then obtain i js where list: "?is = i # js"
    using assms(1) by (cases ?is) (auto simp: lease_next_def Let_def run_bind_def run_read_def)
  then have "i \<in> set ?is" by simp
  then have i: "i \<in> set (lb_queue s)" "qit_status i = ''queued''" "for_target ?tid i" by simp_all
  have only: "qit_id x = qit_id i \<Longrightarrow> x = i" if "x \<in> set (lb_queue s)" for x
    using that assms(2) i(1) inj_onD [of qit_id "set (lb_queue s)" x i] by (simp add: queue_ids_def distinct_map)
  let ?now = "format_rfc3339_nano (le_now en (lb_tick s))"
  let ?row = "lease_row lease ?tid e ?now i"
  let ?t = "s\<lparr>lb_tick := Suc (lb_tick s), lb_queue := map (\<lambda>x. if x = i then ?row else x) (lb_queue s)\<rparr>"
  have rows: "map (\<lambda>q. if qit_id q = qit_id i \<and> qit_status q = ''queued'' then lease_row lease ?tid e ?now q else q) (lb_queue s) =
      map (\<lambda>x. if x = i then ?row else x) (lb_queue s)"
    using only i(2) by auto
  have run: "lease_next en target lease e s = affected_item (qit_id i)
      (length (filter (\<lambda>q. qit_id q = qit_id i \<and> qit_status q = ''queued'') (lb_queue s))) ?t"
    using tid list
    by (simp add: lease_next_def Let_def run_bind_def run_read_def run_ret_def timestamp_now_def ask_def update_queue_def rows
        del: map_eq_conv)
  have "t = ?t"
    using assms(1) unfolding run by (auto simp: affected_item_def get_queue_item_def run_read_def run_err_def split: if_splits)
  then have t: "lb_queue t = map (\<lambda>x. if x = i then ?row else x) (lb_queue s)" by simp
  have first: "\<not> queue_before x i" if "x \<in> set (lb_queue s)" "qit_status x = ''queued'' \<and> for_target ?tid x" for x
  proof -
    have "x \<in> set ?is" using that by simp
    moreover have "sorted_wrt (\<lambda>a b. \<not> queue_before b a) ?is" by (rule sorted_sort_slice [OF queue_order])
    ultimately show ?thesis using list queue_order(2) by auto
  qed
  show ?thesis using i t first by blast
qed

end
