(* ===== verification/Launch_Properties.thy ===== *)
theory Launch_Properties imports Launch_Queue begin

text \<open>
  The properties of the launchpad: what calls keep of the queue, who may use a lease and which run it is for, where
  the input of a run comes from and what a preview decides. The witnesses use a small queue.
\<close>

section \<open>A small queue\<close>

definition plain_policy :: launch_policy where
  "plain_policy =
     \<lparr>lpo_targets = [], lpo_tools = [], lpo_servers = [], lpo_agents = [], lpo_folders = [], lpo_codebases = [],
      lpo_domains = [], lpo_secrets = [], lpo_approval = True, lpo_destructive = [], lpo_max_runtime = 0,
      lpo_max_parallel = 0, lpo_retry_limit = 1, lpo_spending = 0, lpo_source_control = []\<rparr>"

definition queue_row :: "string \<Rightarrow> string \<Rightarrow> string \<Rightarrow> queue_item" where
  "queue_row qid enqueued status =
     \<lparr>qit_id = qid, qit_launch = ''l'', qit_version = 1, qit_hash = ''h'', qit_runbook = ''r'', qit_runbook_version = [],
      qit_target = \<lparr>ltg_runtime = [], ltg_agent = []\<rparr>, qit_policy = plain_policy,
      qit_decision = \<lparr>pdc_status = ''allowed'', pdc_reasons = []\<rparr>, qit_secrets = [], qit_input = [],
      qit_resolution = [], qit_request = [], qit_source = [], qit_status = status, qit_attempts = 0,
      qit_max_attempts = 2, qit_lease = [], qit_leased_by = [], qit_expires = [], qit_run = [], qit_error = [],
      qit_enqueued = enqueued, qit_updated = enqueued, qit_started = [], qit_completed = []\<rparr>"

definition over_item :: queue_item where
  "over_item = (queue_row ''o'' ''1'' ''completed'')\<lparr>qit_completed := ''9''\<rparr>"

definition sample_launch :: launch where
  "sample_launch =
     \<lparr>lau_id = ''l'', lau_name = ''L'', lau_runbook = ''r'', lau_runbook_version = [], lau_codebase = [], lau_target = [],
      lau_agent = [], lau_defaults = [(''a'', JStr ''1'')], lau_policy = plain_policy,
      lau_schedule = \<lparr>lsc_enabled = False, lsc_cron = [], lsc_quiet_start = [], lsc_quiet_end = [], lsc_stop_at = [],
        lsc_max_runs = 0\<rparr>,
      lau_secrets = [], lau_status = ''active'', lau_version = 1, lau_created = ''1'', lau_updated = ''1''\<rparr>"

definition queue_db :: launch_db where
  "queue_db = \<lparr>lb_launches = [sample_launch], lb_links = [], lb_snapshots = [],
     lb_queue = [over_item, queue_row ''b'' ''3'' ''queued'', queue_row ''a'' ''2'' ''queued''], lb_tick = 0\<rparr>"

definition launch_sample :: launch_env where
  "launch_sample = \<lparr>le_now = (\<lambda>_. 0), le_rand = (\<lambda>_. Some ''0''), le_hash = (\<lambda>_. ''h''),
     le_start = (\<lambda>_ r i. Inr \<lparr>srn_id = ''run'', srn_definition = r, srn_status = ''running'', srn_input = i\<rparr>),
     le_defaults = (\<lambda>_ _. Inr ([], ''v'')), le_catalog = None\<rparr>"

definition run_sample :: run_request where
  "run_sample = \<lparr>rnq_launch = ''l'', rnq_input = [(''x'', JStr ''y'')], rnq_codebase = [], rnq_source = [], rnq_task = None\<rparr>"

lemma sample_queue_ok: "queue_ok queue_db"
  by (simp add: queue_ok_def queue_ids_def queue_db_def over_item_def queue_row_def ok_defs plain_policy_def
      max_attempts_for_policy_def max_int_def)

section \<open>The queue\<close>

text \<open>
  C14: Whatever calls the launchpad serves, one after the other, every row of the queue is queued without a lease, leased or running with
  a lease of a target it is for, or finished without a lease and with its end; its attempts stay within the retries
  of its policy, and no identifier comes twice.
\<close>

theorem queue_rows_consistent:
  assumes "queue_ok s"
  shows "queue_ok (launch_serve_all en cs s)"
  by (rule queue_ok_kept [OF assms])

lemma queue_rows_consistent_witness:
  "queue_ok (launch_serve_all launch_sample [LeaseRun ''t'' 0, StartQueued ''a'' ''lease_0'', RecoverLeases] queue_db)"
  by (rule queue_rows_consistent [OF sample_queue_ok])

text \<open>
  C27: In calls served one after the other, none removes a row of the queue or changes what was queued (launch, runbook, target, policy, input), its attempts
  are only counted up, and a finished row is not changed any more.
\<close>

theorem finished_rows_final:
  assumes "distinct (queue_ids s)" "q \<in> set (lb_queue s)"
  shows "\<exists>q'\<in>set (lb_queue (launch_serve_all en cs s)). item_life q q' \<and> (terminal_queue_status (qit_status q) \<longrightarrow> q' = q)"
  using life.serve_all_within [of s en cs] assms unfolding evolves_def item_life_def by blast

lemma finished_rows_final_witness:
  "over_item \<in> set (lb_queue (launch_serve_all launch_sample [CancelQueued ''o'', EnqueueRun ''l'' run_sample] queue_db))"
proof -
  have "distinct (queue_ids queue_db)" "over_item \<in> set (lb_queue queue_db)" "terminal_queue_status (qit_status over_item)"
    by (simp_all add: queue_ids_def queue_db_def over_item_def queue_row_def terminal_queue_status_def)
  from finished_rows_final [OF this(1,2), of launch_sample "[CancelQueued ''o'', EnqueueRun ''l'' run_sample]"] this(3)
  show ?thesis by blast
qed

text \<open>
  C15: A lease takes the waiting row that the target may run and whose time of queueing has the smallest text, the
  smaller identifier of equal texts; it counts the attempt and changes no other row. The order is that of the
  texts in the column, not of the times: of two rows queued in one second the later one may come first.
\<close>

theorem lease_oldest_first:
  assumes "fst (lease_next en target lease e s) = Inr q'" "distinct (queue_ids s)"
  shows "\<exists>q\<in>set (lb_queue s). \<exists>now. qit_status q = ''queued'' \<and> for_target (trim_space target) q \<and>
    lb_queue (snd (lease_next en target lease e s)) =
      map (\<lambda>x. if x = q then lease_row lease (trim_space target) e now q else x) (lb_queue s) \<and>
    (\<forall>x\<in>set (lb_queue s). qit_status x = ''queued'' \<and> for_target (trim_space target) x \<longrightarrow>
      \<not> str_less (qit_enqueued x) (qit_enqueued q) \<and>
      \<not> (qit_enqueued x = qit_enqueued q \<and> str_less (qit_id x) (qit_id q)))"
proof -
  obtain t where t: "lease_next en target lease e s = (Inr q', t)" using assms(1) by (metis prod.collapse)
  show ?thesis using lease_takes [OF t assms(2)] by (simp only: t snd_conv queue_before_def de_Morgan_disj)
qed

lemma queue_text_order:
  "queue_before (queue_row ''late'' ''2024-01-01T00:00:00.12Z'' ''queued'') (queue_row ''early'' ''2024-01-01T00:00:00.1Z'' ''queued'')"
  by code_simp

lemma sample_leased: "map_sum (\<lambda>_. ()) qit_id (fst (lease_next launch_sample ''t'' ''k'' ''e'' queue_db)) = Inr ''a''"
  by code_simp

lemma lease_oldest_first_witness:
  "\<exists>q now. lb_queue (snd (lease_next launch_sample ''t'' ''k'' ''e'' queue_db)) =
     map (\<lambda>x. if x = q then lease_row ''k'' (trim_space ''t'') ''e'' now q else x) (lb_queue queue_db) \<and>
     \<not> str_less (qit_enqueued (queue_row ''a'' ''2'' ''queued'')) (qit_enqueued q)"
proof -
  obtain q' where q': "fst (lease_next launch_sample ''t'' ''k'' ''e'' queue_db) = Inr q'"
    using sample_leased by (cases "fst (lease_next launch_sample ''t'' ''k'' ''e'' queue_db)") auto
  have "distinct (queue_ids queue_db)" using sample_queue_ok by (simp add: queue_ok_def)
  moreover have "queue_row ''a'' ''2'' ''queued'' \<in> set (lb_queue queue_db)" by (simp add: queue_db_def)
  moreover have "qit_status (queue_row ''a'' ''2'' ''queued'') = ''queued'' \<and> for_target (trim_space ''t'') (queue_row ''a'' ''2'' ''queued'')"
    by (simp add: queue_row_def for_target_def)
  ultimately show ?thesis using lease_oldest_first [OF q'] by blast
qed

text \<open>
  C29: Who does not hold the lease of a row can neither renew nor start nor release it: the call fails and changes no
  row, link or snapshot.
\<close>

theorem lease_holder_only:
  assumes "\<forall>q\<in>set (lb_queue s). qit_id q = trim_space qid \<longrightarrow> qit_lease q \<noteq> trim_space lease" "rrq_lease req = lease"
    and "m \<in> {done_with (renew_queued_run en qid lease n), done_with (start_queued_run en qid lease),
              done_with (release_queued_run en qid req)}"
  shows "isl (fst (m s)) \<and> (\<exists>k. snd (m s) = s\<lparr>lb_tick := k\<rparr>)"
proof -
  have none: "held_by qid l q = False" if "q \<in> set (lb_queue s)" "trim_space l = trim_space lease" for q l
    using assms(1) that by (auto simp: held_by_def)
  then have rows: "filter (held_by qid l) (lb_queue s) = []" "map (\<lambda>q. if held_by qid l q then f q else q) (lb_queue s) = lb_queue s"
    if "trim_space l = trim_space lease" for l f
    using that by (simp_all add: filter_empty_conv map_idI)
  have same: "\<exists>k. s = s\<lparr>lb_tick := k\<rparr>" by (intro exI [of _ "lb_tick s"]) simp
  consider "m = done_with (renew_queued_run en qid lease n)" | "m = done_with (start_queued_run en qid lease)"
    | "m = done_with (release_queued_run en qid req)" using assms(3) by blast
  then show ?thesis
  proof cases
    case 1
    then show ?thesis
      using same rows
      by (auto simp: done_with_def renew_queued_run_def renew_lease_def lease_expiry_def Let_def timestamp_now_def ask_def
          update_queue_def affected_item_def run_bind_def run_ret_def run_err_def)
  next
    case 2
    have "find_item s (trim_space qid) = Some q \<Longrightarrow> qit_lease q \<noteq> trim_space lease" for q
      using assms(1) by (auto simp: find_item_def find_Some_iff)
    then show ?thesis
      using 2 same
      by (auto simp: done_with_def start_queued_run_def get_queue_item_def run_bind_def run_read_def run_err_def
          split: option.split)
  next
    case 3
    then show ?thesis
      using same rows assms(2)
      by (auto simp: done_with_def release_queued_run_def release_lease_def Let_def timestamp_now_def ask_def
          update_queue_def affected_item_def run_bind_def run_ret_def run_err_def)
  qed
qed

lemma lease_holder_only_witness: "isl (fst (done_with (start_queued_run launch_sample ''a'' ''x'') queue_db))"
proof -
  let ?m = "done_with (start_queued_run launch_sample ''a'' ''x'')"
  let ?req = "\<lparr>rrq_lease = ''x'', rrq_status = [], rrq_run = [], rrq_error = []\<rparr>"
  have none: "\<forall>q\<in>set (lb_queue queue_db). qit_id q = trim_space ''a'' \<longrightarrow> qit_lease q \<noteq> trim_space ''x''" by code_simp
  have "rrq_lease ?req = ''x''" by simp
  moreover have "?m \<in> {done_with (renew_queued_run launch_sample ''a'' ''x'' 0), ?m,
      done_with (release_queued_run launch_sample ''a'' ?req)}"
    by (rule insertI2, rule insertI1)
  ultimately show ?thesis by (rule lease_holder_only [OF none, THEN conjunct1])
qed

text \<open>
  C39: Recovering first reads the expired leases and then updates their rows by the identifier alone. Whatever
  calls are served in between, a row whose lease was over and that has attempts left is queued again, also when
  it was finished meanwhile: it loses its end and its lease and can be run once more.
\<close>

theorem recovery_requeues_finished:
  assumes "distinct (queue_ids s)" "q \<in> set (lb_queue s)" "lease_over now q" "qit_attempts q < qit_max_attempts q"
    and "q' \<in> set (lb_queue (launch_serve_all en cs s))" "qit_id q' = qit_id q"
  shows "\<exists>q''\<in>set (lb_queue (snd (recover_items now (expired_leases now s) (launch_serve_all en cs s)))).
    qit_id q'' = qit_id q \<and> qit_status q'' = ''queued'' \<and> qit_completed q'' = [] \<and> qit_lease q'' = [] \<and>
    qit_run q'' = qit_run q' \<and> qit_attempts q'' = qit_attempts q'"
proof
  let ?r = "recover_row now (qit_attempts q) (qit_max_attempts q) q'"
  show "?r \<in> set (lb_queue (snd (recover_items now (expired_leases now s) (launch_serve_all en cs s))))"
    using assms(5) recover_read [OF assms(1-3,6)] by (force simp: recover_items_queue)
  show "qit_id ?r = qit_id q \<and> qit_status ?r = ''queued'' \<and> qit_completed ?r = [] \<and> qit_lease ?r = [] \<and>
    qit_run ?r = qit_run q' \<and> qit_attempts ?r = qit_attempts q'"
    using assms(4,6) by (simp add: recover_row_def free_row_def)
qed

definition late_item :: queue_item where
  "late_item = (queue_row ''r'' ''1'' ''running'')\<lparr>qit_lease := ''k'', qit_leased_by := ''t'', qit_expires := ''1'', qit_attempts := 1\<rparr>"

definition late_release :: launch_call where
  "late_release = ReleaseLease ''r'' \<lparr>rrq_lease = ''k'', rrq_status = [], rrq_run = ''run'', rrq_error = []\<rparr>"

lemma sample_late:
  "map (\<lambda>q. (qit_id q, qit_status q, qit_run q)) (lb_queue (launch_serve_all launch_sample [late_release] (queue_db\<lparr>lb_queue := [late_item]\<rparr>))) =
     [(''r'', ''completed'', ''run'')]"
  by code_simp

lemma recovery_requeues_finished_witness:
  "\<exists>q' q''. q' \<in> set (lb_queue (launch_serve_all launch_sample [late_release] (queue_db\<lparr>lb_queue := [late_item]\<rparr>))) \<and>
     qit_status q' = ''completed'' \<and> qit_id q'' = qit_id q' \<and> qit_status q'' = ''queued'' \<and>
     q'' \<in> set (lb_queue (snd (recover_items ''2'' (expired_leases ''2'' (queue_db\<lparr>lb_queue := [late_item]\<rparr>))
       (launch_serve_all launch_sample [late_release] (queue_db\<lparr>lb_queue := [late_item]\<rparr>)))))"
proof -
  let ?s = "queue_db\<lparr>lb_queue := [late_item]\<rparr>"
  let ?t = "launch_serve_all launch_sample [late_release] ?s"
  obtain q' where q': "lb_queue ?t = [q']" "qit_id q' = ''r''" "qit_status q' = ''completed''"
    using sample_late by (cases "lb_queue ?t") auto
  have s: "distinct (queue_ids ?s)" "late_item \<in> set (lb_queue ?s)" by (simp_all add: queue_ids_def)
  have over: "lease_over ''2'' late_item" by code_simp
  have left: "qit_attempts late_item < qit_max_attempts late_item" "qit_id late_item = ''r''"
    by (simp_all add: late_item_def queue_row_def)
  have "q' \<in> set (lb_queue ?t)" "qit_id q' = qit_id late_item" using q' left(2) by simp_all
  from recovery_requeues_finished [OF s over left(1) this] obtain q'' where q'':
    "q'' \<in> set (lb_queue (snd (recover_items ''2'' (expired_leases ''2'' ?s) ?t)))"
    "qit_id q'' = qit_id late_item" "qit_status q'' = ''queued''" by (elim bexE conjE) (rule that)
  show ?thesis
    using q'(2,3) q'' left(2) \<open>q' \<in> set (lb_queue ?t)\<close> by (intro exI [of _ q'] exI [of _ q''] conjI) simp_all
qed

section \<open>Input and policy\<close>

text \<open>
  C28: The value of a field is that of the first source that has a concrete one: the request, the defaults of the launch, of
  the codebase and of the runbook, generated values, references to secrets, outputs of steps. This holds as the launchpad calls the resolver, without overrides and inferences,
  for a request with no two keys that differ only in the white space around them.
\<close>

theorem first_source_wins:
  assumes "\<not> rsq_overrides req" "rsq_inferences req = []" "keys_apart (rsq_request req)"
  shows "map_of (rsn_input (resolve req)) n = first_given (input_sources req) n"
  by (rule resolve_first [OF assms])

definition sample_sources :: resolution_request where
  "sample_sources = \<lparr>rsq_required = [], rsq_request = [(''a'', JStr '' '')], rsq_launch = [(''a'', JStr ''1'')],
     rsq_codebase = [(''a'', JStr ''2'')], rsq_runbook = [], rsq_generated = [], rsq_secrets = [], rsq_outputs = [],
     rsq_inferences = [], rsq_inferable = [], rsq_overrides = False\<rparr>"

lemma first_source_wins_witness: "map_of (rsn_input (resolve sample_sources)) ''a'' = Some (JStr ''1'')"
proof -
  have "first_given (input_sources sample_sources) ''a'' = Some (JStr ''1'')" by code_simp
  then show ?thesis
    using first_source_wins [of sample_sources "''a''"] by (simp add: sample_sources_def keys_apart_def)
qed

text \<open>
  C40: A preview never finds an input missing, since no field is ever required, and its decision depends on nothing but
  the rule on pull requests: approval, targets, agents, secrets and the other parts of a policy are not looked at.
\<close>

theorem preview_checks_one_rule:
  assumes "fst (preview_launch_run en lid req s) = Inr p"
  shows "lpv_missing p = [] \<and> find_launch s (trim_space lid) = Some (lpv_launch p) \<and>
    (lpv_status p = ''ready'' \<longleftrightarrow>
       lpo_source_control (lau_policy (lpv_launch p)) \<noteq> ''open_pr_only'' \<or>
       ''sourcecontrol.open_pull_request'' \<in> set (lpo_tools (lau_policy (lpv_launch p))))"
proof -
  obtain t where run: "preview_launch_run en lid req s = (Inr p, t)" using assms by (metis prod.collapse)
  obtain l u r where l: "find_launch s (trim_space lid) = Some l"
    and r: "resolve_launch_input en l req u = (Inr r, t)"
    and p: "p = \<lparr>lpv_launch = l, lpv_input = rsn_input r, lpv_resolution = resolution_map r,
       lpv_missing = map ufd_name (rsn_unresolved r), lpv_decision = evaluate_policy l r,
       lpv_status = (if pdc_status (evaluate_policy l r) \<noteq> ''allowed'' then ''blocked''
                     else if map ufd_name (rsn_unresolved r) \<noteq> [] then ''needs_input'' else ''ready'')\<rparr>"
    using run
    by (auto simp: preview_launch_run_def Let_def get_launch_def run_read_def run_ret_def elim!: run_bind_Inr split: option.splits)
  have "rsn_unresolved r = []"
    using r by (auto simp: resolve_launch_input_def Let_def run_ret_def resolve_def unresolved_fields_def
        elim!: run_bind_Inr split: prod.splits)
  then show ?thesis using l p by (auto simp: evaluate_policy_def contains_any_def)
qed

lemma sample_preview: "\<not> isl (fst (preview_launch_run launch_sample ''l'' run_sample queue_db))"
  by code_simp

lemma preview_checks_one_rule_witness:
  "lpo_approval (lau_policy sample_launch) \<and>
   (\<exists>p. fst (preview_launch_run launch_sample ''l'' run_sample queue_db) = Inr p \<and> lpv_status p = ''ready'')"
proof -
  obtain p where p: "fst (preview_launch_run launch_sample ''l'' run_sample queue_db) = Inr p"
    using sample_preview by (cases "fst (preview_launch_run launch_sample ''l'' run_sample queue_db)") auto
  have "trim_space ''l'' = ''l''" by code_simp
  then have "find_launch queue_db (trim_space ''l'') = Some sample_launch"
    by (simp add: find_launch_def queue_db_def sample_launch_def)
  then show ?thesis using preview_checks_one_rule [OF p] p by (auto simp: sample_launch_def plain_policy_def)
qed

end
