(* ===== verification/Spec2Isabelle.thy ===== *)
theory Spec2Isabelle imports Sample_Runs Runbook_Properties Memory_Properties Launch_Properties begin

text \<open>
  Agent Awesome keeps what an agent knows in a property graph on SQLite, serves memories and tasks from
  one such database per domain, lets agents run small state machines, the runbooks, and queues their runs. This library
  models the parts of its Go sources that carry that logic and proves what they promise. File names below are relative to
  \<open>src/memory/internal/memory\<close>, those of the runbooks and the launchpad to their own directory under \<open>src/\<close>.

  Parts and theories, in the order in which they build on one another:

  \<^item> Go's standard library as the sources use it. \<open>Go_Base\<close>: \<open>strings\<close>, \<open>strconv\<close>, \<open>sort\<close>, results as sums;
    \<open>Go_Float\<close>: 64-bit floating point numbers and their parsing and printing; \<open>Go_Time\<close> and
    \<open>Go_Time_Facts\<close>: times in nanoseconds, RFC 3339 text and its round trip; \<open>Go_State\<close>: the state
    and error monad in which effects are written, JSON strings.
  \<^item> \<open>Graph_Vocabulary\<close> (vocabulary, normalize, id) and \<open>Graph_Domain\<close> (graph/domain): the allowed values, the
    records of nodes, edges, properties and audit events, the requests and their normalisers.
  \<^item> The query language (graph/query). \<open>Query_Lexer\<close> is lexer.go, \<open>Query_Parser\<close> parser.go; \<open>Query_Grammar\<close>
    says which statements are well formed and proves that the parser accepts no other; \<open>Query_Printer\<close>
    prints statements and proves that parsing inverts printing. \<open>Query_Values\<close> (conditions.go),
    \<open>Query_Rows\<close> (candidates.go: projection, order, limit, groups), \<open>Query_Executor\<close> (executor.go: the FIND
    and MATCH of a request, with the bounded depth-first traversal) and \<open>Query_Mutations\<close>
    (mutations.go: the six mutations and the entry point \<open>execute\<close>).
  \<^item> The executor talks to its store through the Go interface \<open>Store\<close>, here the record \<open>store_ops\<close> of operations.
    What it relies on is stated by locales: \<open>store_reader\<close> for reading, in \<open>Query_Access\<close> (what is
    returned is readable) and \<open>Query_Complete\<close> (everything readable is found), and \<open>store_writer\<close> for
    writing, in \<open>Query_Audit\<close>.
  \<^item> The SQLite store (graph/store): \<open>Graph_Store\<close> has the tables with their keys, unique indexes, references
    and the values as SQLite keeps them; \<open>Graph_Ops\<close> the operations of nodes.go, edges.go, properties.go,
    audit.go, search.go and the unit of work of store.go; \<open>Graph_Facts\<close> what they promise one by one.
    \<open>Graph_Laws\<close> interprets the locales of the executor on these operations. \<open>Query_Results\<close>,
    \<open>Graph_Exact\<close> and \<open>Graph_Query\<close> put both together; \<open>Sample_Store\<close> and \<open>Sample_Runs\<close> evaluate a small store
    for the witnesses.

  \<^item> Memories and tasks (domain, graph/repository, projection, service). \<open>Memory_Domain\<close> and \<open>Task_Domain\<close>: requests,
    records, normalisers. \<open>Memory_Store\<close> adds what the store keeps besides the graph: aliases, evidence rows and
    files, the text index, and the unit of work that stages files. \<open>Memory_Repository\<close> is repository.go,
    \<open>Task_Repository\<close> and \<open>Task_Relations\<close> are tasks.go and task_projection.go, \<open>Memory_Pool\<close> is pool.go: one database
    per domain, opened on demand. \<open>Task_Projection\<close> is projection, the executive summary. \<open>Memory_Firewall\<close> is
    firewall_policy.go and firewall_authorization.go, \<open>Memory_Service\<close> the rest of service; it ends with
    the calls a client may make, \<open>call\<close>, and what they do, \<open>serve\<close>.
  \<^item> What every call keeps is stated by the locales of \<open>Memory_Laws\<close>: a relation of databases that the
    operations of the store keep is kept by the repository, the pool and every call, in each domain.
    \<open>Memory_Invariant\<close> interprets them for the constraints and for growth, \<open>Memory_Isolation\<close> shows which databases the
    operations may change and \<open>Memory_Reach\<close> which a call may. \<open>Memory_Normal\<close>: normalising twice; \<open>Memory_Search\<close>: what searches and repairs find;
    \<open>Memory_Capture\<close>: captures are atomic and can be read back; \<open>Memory_Repair\<close>: what a repair removes;
    \<open>Memory_Policy\<close>: runs of calls, and a query that the policy does not see; \<open>Task_Paths\<close>: traversals; \<open>Task_Summary\<close>:
    summary items and snapshots. \<open>Memory_Eval\<close> gives equations that evaluate without going under the
    state monad, \<open>Sample_Memory\<close> a small pool with its policy, \<open>Memory_Properties\<close> the properties.

  \<^item> The runbooks (\<open>harness/internal/services/runbook\<close>). \<open>Go_Text\<close> adds \<open>fmt\<close> and durations. Data:
    \<open>Runbook_Json\<close> (jsondata: values and schemas), \<open>Runbook_Refs\<close> (actions/input_refs.go, data_assert.go,
    data_defaults.go), \<open>Runbook_Envelope\<close> (envelope), \<open>Runbook_Contracts\<close> and \<open>Runbook_Manifest\<close> (contracts,
    actions/metadata.go), \<open>Runbook_Policy\<close> (policy), \<open>Runbook_Definition\<close> (definition), \<open>Runbook_Decision\<close>
    (decision, expr). State and steps: \<open>Runbook_Store\<close> (store), \<open>Runbook_Host\<close> (runtime/service.go,
    action_host.go and the life cycle of nodes), \<open>Runbook_Actions\<close> (actions/registry.go) and
    \<open>Runbook_Runtime\<close> (runtime/execution.go, state_machine.go, execution_helpers.go, rate_limit.go,
    shape_learning.go, scheduler.go), which ends with the step relation \<open>service_step\<close>.
  \<^item> What the runtime keeps is stated by the locale \<open>service_relation\<close> of \<open>Runbook_Laws\<close>: a relation of states
    that every operation on the tables keeps is kept by every action, execution and step. \<open>Runbook_History\<close>
    interprets it for the life cycle of nodes, the event log, the records of runs and items and the
    loaded definitions, \<open>Runbook_Settle\<close> for stored values. \<open>Runbook_External\<close> shows which calls reach the
    outside, \<open>Runbook_Approval\<close> the gate before them, \<open>Runbook_Progress\<close> when operations return,
    \<open>Runbook_Settle\<close> how executions end, \<open>Runbook_Limits\<close> rates, deadlines, resumption and signals.
    \<open>Runbook_Properties\<close> has the properties, with the small service of \<open>Sample_Service\<close> as their witness.

  \<^item> The launchpad (\<open>harness/internal/services/launchpad\<close>), which saves how runbooks are started and queues runs for
    workers. \<open>Launch_Resolution\<close> is resolution: where the input of a run comes from; \<open>Launch_Store\<close> is types.go and
    store.go: launches, links, snapshots and the queue with its leases; \<open>Launch_Service\<close> is service.go: requests,
    secrets in inputs, previews, starts, leases and schedules, and the calls with what they do, \<open>launch_serve\<close>. The
    locale \<open>queue_law\<close> of \<open>Launch_Queue\<close> says when a relation of queue rows is kept by every call; it is interpreted
    for the life of a row and for the bounds on leases and attempts. \<open>Launch_Properties\<close> has the properties.

  State. A \<open>graph_db\<close> holds one list of rows per table in insertion order and the number of clock readings so
  far; \<open>db_ok\<close> says that keys are unique and references resolve, and every operation is proved to
  keep it. An operation is a function from the state to a result or an error and the next state.
  The clock, the random bytes of identifiers and the ranking of SQLite's full-text index are
  parameters (the record \<open>env\<close>); the one hypothesis about them, \<open>clock_ok\<close>, says that the clock reads a
  year from 0 to 9999, which Go's formatting of times needs.

  A \<open>memory_db\<close> is a \<open>graph_db\<close> with the further tables, the files of the data directory, the staged files and
  whether a unit of work is open; \<open>memory_ok\<close> are its constraints. A \<open>pool\<close> maps domains to databases and lists
  the directories and the open repositories. Checksums, the encoder of work breakdowns, the ranking of the text index, the
  time zone and the policy file are parameters (\<open>store_env\<close>, \<open>service_env\<close>); that no two contents have
  the same checksum, so that every stored file holds what its name stands for, is the hypothesis \<open>files_named\<close> of
  the property on reading captures back.

  A \<open>service_state\<close> has the tables of the runbook store in the same form, the loaded definitions, the recent
  invocations and the executions started in the background. Everything outside is the record
  \<open>environment\<close>: clock, random identifiers, definition files with their YAML decoder, the answers of
  tools, models and commands, the CEL evaluator and the hash of shapes. An execution is one step, as
  the lock of its run keeps it apart from others of that run; the API calls that other clients make
  while an action waits are served there (\<open>ho_meanwhile\<close>). \<open>Stuck\<close> stands for a call that never returns: a
  program outside that does not answer, or a reference that is replaced for ever. A step \<open>restart\<close>
  forgets what is kept in memory and resumes the running runs.

  A \<open>launch_db\<close> has the four tables of the launchpad and the number of answers taken so far from outside: clock,
  random identifiers, the hash of a launch, the executor of runbooks and the catalog of codebases
  (\<open>launch_env\<close>). A call is one step; that recovery, which takes several statements without a
  transaction, can overlap with others is the subject of a property of its own.

  Bounds. A parsed traversal has depth at most 12, a traversal stops at 1000 candidates, a FIND
  and each set of traversal roots sees the 100 newest readable nodes, results have at most 100
  rows. A search sees the first 100 memories that the store finds and answers at most 100; a traversal of task
  relations has depth at most 12 and 500 paths. Loops are recursive functions with proved termination, so no fuel is used: the traversal ends
  since an edge is followed only below the maximal depth, the parser and the lexer consume text. Entering
  states is bounded by the code itself at 128 nested transitions, which the model counts down; the
  replacement of references, which may not end, is a \<open>partial_function\<close>, and its end is proved for inputs
  and arguments where it does.

  Reading of strings. A Go string is a list of Latin-1 characters, so upper and lower case and white space are
  those of that range. The sorting \<open>sort.Slice\<close> is modelled by a stable sort, which is one of
  the orders it may produce; results that depend on the order of equal elements are not claimed.

  Not modelled: opening, configuration and migration of the SQLite files, and snapshots of them; the text of
  error messages of the graph (errors are values with the offending text; in the services and runbooks the
  texts are kept, those of libraries shortened); contexts and cancellation but for the deadline of a delay, and
  database failures that no statement of the sources can cause; the decoding of JSON into structs by
  names in another case, and the MCP transport; calls of the memory service that run at the same time (each is
  one step here); the loop of its workers, for which the repository has no jobs; the records of codebases;
  executions of different runs that interleave, and one that is cut off by a crash; the authoring of
  runbooks (drafts, packages, set-ups, design artifacts), their mapping previews, transports and clients;
  the queue worker, transports and clients of the launchpad, targets, command and validation services, the command line, the agent runtime, the
  gateway, which mostly assemble libraries and do input and output, and the user interface.
\<close>

section \<open>Reading\<close>

text \<open>
  C1: A FIND reports only nodes the caller may read. Every row of a successful ungrouped FIND is the
  projection of a node that is stored, active, of the requested kind, of an allowed sensitivity
  and satisfies every condition with its stored properties; the rows are at most the limit, and
  the statement leaves the store as it was.
\<close>

theorem find_rows_readable:
  assumes "runs en req st s res t" "st_mode st = StatementFind" "st_group_by st = []"
  shows "t = s \<and> rs_paths res = [] \<and> int (length (rs_rows res)) \<le> st_limit st \<and>
    (\<forall>r\<in>set (rs_rows res). \<exists>c. readable s (allowed_of req) c \<and> nd_kind (qc_node c) = st_kind st \<and>
       projector_matches node_typed_field c (st_where st) \<and>
       r = projector_row node_typed_field c (st_return st))"
proof -
  have s: "db_ok s" using assms(1) by (simp add: runs_def)
  note read = runs_read [OF assms(1)]
  have lim: "0 \<le> st_limit st"
    using wf_find [OF read(3)] assms(2) by (simp add: clauses_ok_def)
  have f: "execute_find (sql_ops en) s st (allowed_of req) = Inr (rs_rows res, rs_paths res)" and t: "t = s"
    using read assms(2) by simp_all
  then show ?thesis
    using sql.find_rows [OF s allowed_of_nonempty assms(3) lim f] readable_iff [of s "allowed_of req" _ en]
    by blast
qed

lemma find_rows_readable_witness:
  "length (rs_rows (projr (fst (execute (sql_ops sample_env)
     (sample_request ''FIND task WHERE title = b RETURN id'') sample_db)))) \<le> 20"
proof -
  let ?q = "sample_request ''FIND task WHERE title = b RETURN id''"
  let ?st = "projr (parse ''FIND task WHERE title = b RETURN id'')"
  have "st_limit ?st = 20" "st_mode ?st = StatementFind \<and> st_group_by ?st = []"
    by code_simp+
  moreover have "parse (trim_space (rq_query ?q)) = Inr ?st" by code_simp
  moreover have "\<not> isl (fst (execute (sql_ops sample_env) ?q sample_db))" by code_simp
  ultimately show ?thesis
    using find_rows_readable [OF runsI [OF sample_db_ok, of ?q ?st sample_env]] by simp
qed

text \<open>
  C17: A MATCH reports only what the caller may read along the way. Row and path number i of a
  successful ungrouped MATCH come from one candidate: for a single hop, an active edge of the
  relation between two readable nodes of the requested kinds; for a traversal, a path without
  repeated nodes over active edges of the relation through readable nodes only, whose length lies
  in the requested bounds. Rows and paths correspond one to one and are at most the limit.
\<close>

theorem match_rows_readable:
  assumes "runs en req st s res t" "st_mode st = StatementMatch" "st_group_by st = []"
  shows "t = s \<and> int (length (rs_rows res)) \<le> st_limit st \<and>
    length (rs_paths res) = length (rs_rows res) \<and>
    (\<forall>i<length (rs_rows res). \<exists>c.
       rs_rows res ! i = projector_row match_typed_field c (st_return st) \<and>
       rs_paths res ! i = candidate_path c (int i) \<and>
       (if st_max_depth st > 1 then path_match (sql_ops en) s st (allowed_of req) c
        else edge_match (sql_ops en) s st (allowed_of req) c))"
proof -
  have s: "db_ok s" using assms(1) by (simp add: runs_def)
  note read = runs_read [OF assms(1)]
  have lim: "0 \<le> st_limit st"
    using wf_match [OF read(3)] assms(2) by (simp add: clauses_ok_def)
  have f: "execute_match (sql_ops en) s st (allowed_of req) = Inr (rs_rows res, rs_paths res)" and t: "t = s"
    using read assms(2) by simp_all
  then show ?thesis
    using sql.match_rows [OF s allowed_of_nonempty assms(3) lim f] by blast
qed

lemma match_rows_readable_witness:
  "length (rs_paths (projr (fst (execute (sql_ops sample_env)
     (sample_request ''MATCH task -[depends_on*1..3]-> task RETURN from.id, to.id, path.depth'') sample_db)))) \<le> 20"
proof -
  let ?q = "sample_request ''MATCH task -[depends_on*1..3]-> task RETURN from.id, to.id, path.depth''"
  let ?st = "projr (parse (rq_query ?q))"
  have "st_limit ?st = 20" "st_mode ?st = StatementMatch \<and> st_group_by ?st = []"
    by code_simp+
  moreover have "parse (trim_space (rq_query ?q)) = Inr ?st" by code_simp
  moreover have "\<not> isl (fst (execute (sql_ops sample_env) ?q sample_db))" by code_simp
  ultimately show ?thesis
    using match_rows_readable [OF runsI [OF sample_db_ok, of ?q ?st sample_env]] by simp
qed

text \<open>
  C19: A FIND misses nothing. While fewer than a hundred nodes of the kind are readable, the rows of an
  ungrouped FIND are the projections of all readable candidates that satisfy the conditions, each
  once, ordered and cut at the limit.
\<close>

theorem find_rows_complete:
  assumes "runs en req st s res t" "st_mode st = StatementFind" "st_group_by st = []"
    and "card (readable_nodes s (allowed_of req) (st_kind st)) < 100"
  shows "\<exists>cs. distinct cs \<and>
     set cs = {c. readable s (allowed_of req) c \<and> nd_kind (qc_node c) = st_kind st \<and>
                  projector_matches node_typed_field c (st_where st)} \<and>
     rs_rows res = query_rows (limit_rows (sort_candidates cs (st_order_by st) (st_order st)) (st_limit st)) (st_return st)"
  by (rule find_exact [OF assms])

lemma find_rows_complete_witness:
  "\<exists>cs. distinct cs \<and> (\<forall>c\<in>set cs. nd_kind (qc_node c) = ''task'') \<and>
     rs_rows (projr (fst (execute (sql_ops sample_env) (sample_request ''FIND task RETURN id'') sample_db))) =
     query_rows (limit_rows (sort_candidates cs [] SortAscending) 20) [''id'']"
proof -
  let ?q = "sample_request ''FIND task RETURN id''"
  let ?st = "projr (parse ''FIND task RETURN id'')"
  have st: "st_limit ?st = 20" "st_mode ?st = StatementFind" "st_group_by ?st = []" "st_kind ?st = ''task''"
    "st_return ?st = [''id'']" "st_order_by ?st = []" "st_order ?st = SortAscending"
    by code_simp+
  have "parse (trim_space (rq_query ?q)) = Inr ?st" by code_simp
  moreover have "\<not> isl (fst (execute (sql_ops sample_env) ?q sample_db))" by code_simp
  ultimately show ?thesis
    using find_rows_complete [OF runsI [OF sample_db_ok, of ?q ?st sample_env] _ _ sample_few] st by auto
qed



text \<open>
  Grouped results count every candidate once. For a grouping field other than count, the group
  rows made from any candidates have pairwise different keys, each row counts exactly the
  candidates whose field prints as its key, and the counts add up to the number of candidates.
\<close>

theorem groups_partition_candidates:
  assumes "g \<noteq> ''count''"
  shows "distinct (map fst (group_candidates tf g cs)) \<and>
    (\<forall>key\<in>set (map fst (group_candidates tf g cs)).
       snd (the (map_of (group_candidates tf g cs) key)) =
       int (length (filter (\<lambda>c. comparable_string (tf c g) = key) cs))) \<and>
    sum_list (map row_count (group_rows g (group_candidates tf g cs))) = int (length cs)"
proof -
  have "snd (the (map_of (group_candidates tf g cs) key)) = int (length (members tf g key cs))"
    if "key \<in> set (map fst (group_candidates tf g cs))" for key
    using that group_keys(2) [of tf g cs] by (auto simp: group_lookup members_def filter_empty_conv)
  then show ?thesis
    using group_keys(1) group_rows_counts [OF assms] unfolding members_def by blast
qed

lemma groups_partition_candidates_witness:
  "sum_list (map row_count (group_rows ''k'' (group_candidates (\<lambda>c f. VStr c) ''k'' [''a'', ''b'', ''a'']))) = 3"
  using groups_partition_candidates [of "''k''" "\<lambda>c f. VStr c" "[''a'', ''b'', ''a'']"] by simp

text \<open>
  The number of paths a traversal collects is bounded: from any roots the search returns, at most
  1000 candidates, whatever the graph. (That it returns is part of its definition: the recursion is
  proved to end because a branch is followed only below the maximal depth.)
\<close>

theorem traversal_bounded:
  assumes "db_ok s" "search_nodes en s q = Inr ns" "walk_roots (sql_ops en) s st allowed ns [] = Inr cs"
  shows "length cs \<le> 1000"
  using sql.variable_match_bounded [OF assms(1), of en q ns st allowed cs] assms(2,3)
  by (simp add: sql_ops_def max_traversal_candidates_def)

section \<open>Writing\<close>

text \<open>
  C5: Every write carries its provenance. Whatever a request does, also when it fails, the store keeps
  its keys, unique indexes and references, its audit trail only grows, and every event added has
  the actor and the source of the request.
\<close>

theorem execute_audited:
  assumes "db_ok s" "execute (sql_ops en) req s = (r, t)"
  shows "db_ok t \<and> (\<exists>es. audit_trail t = audit_trail s @ es \<and>
    (\<forall>e\<in>set es. te_actor e = trim_space (rq_actor req) \<and> te_source e = trim_space (rq_source req)))"
  by (rule sql.execute_keeps [OF assms])

lemma execute_audited_witness:
  "db_ok (snd (execute (sql_ops sample_env) (sample_request ''DELETE NODE b'') sample_db))"
  using execute_audited [OF sample_db_ok run_finishes [of "execute (sql_ops sample_env) (sample_request ''DELETE NODE b'')"]] by blast

text \<open>
  No anonymous writes. A request whose actor or source is blank leaves the store unchanged,
  whatever its text; this holds for every store, not only for SQLite.
\<close>

theorem anonymous_request_writes_nothing:
  assumes "trim_space (rq_actor req) = [] \<or> trim_space (rq_source req) = []"
  shows "snd (execute ops req s) = s"
  by (rule execute_needs_provenance [OF assms])

lemma anonymous_request_writes_nothing_witness:
  "snd (execute (sql_ops sample_env) ((sample_request ''DELETE NODE b'')\<lparr>rq_source := '' ''\<rparr>) sample_db) = sample_db"
  by (rule anonymous_request_writes_nothing) code_simp

text \<open>
  A mutation that succeeds is logged: the first event it adds to the audit trail has the kind
  of its statement.
\<close>

theorem mutation_logged:
  assumes "runs en req st s res t" "mutating st"
  shows "\<exists>e es. audit_trail t = audit_trail s @ e # es \<and> te_kind e = mutation_kind (st_mode st)"
proof -
  obtain mx out where "execute_statement (sql_ops en) st (allowed_of req) mx s = (Inr out, t)"
    using assms by (rule runs_mutation)
  moreover have "db_ok s" using assms(1) by (simp add: runs_def)
  ultimately show ?thesis
    using sql.statement_event [OF _ assms(2)] by (simp add: sql.logs_def)
qed

lemma mutation_logged_witness:
  "\<exists>res t. execute (sql_ops sample_env) (sample_request ''DELETE NODE b'') sample_db = (Inr res, t) \<and>
     map te_kind (take 1 (audit_trail t)) = [''query_delete_node'']"
proof -
  let ?st = "projr (parse ''DELETE NODE b'')"
  have m: "mutating ?st" "mutation_kind (st_mode ?st) = ''query_delete_node''" "audit_trail sample_db = []"
    by code_simp+
  obtain res t where r: "runs sample_env (sample_request ''DELETE NODE b'') ?st sample_db res t"
    using sample_delete_runs by blast
  show ?thesis
    using mutation_logged [OF r m(1)] r m(2,3) by (auto simp: runs_def)
qed

text \<open>
  C16: A node write refines the update of a map. A successful upsert changes the reading of exactly
  one node: it returns the node stored, whose fields are those of the normalised request, whose
  creation time is kept when the node existed, and whose update time is the clock's; the id is the
  requested one when there is one.
\<close>

theorem upsert_node_refines_update:
  assumes "db_ok s" "clock_ok en" "upsert_node en req0 s = (Inr n, t)"
  shows "get_node t = (get_node s)(nd_id n := Inr n) \<and>
    (\<exists>req. normalize_upsert_node req0 = Inr req \<and>
       n = \<lparr>nd_id = nd_id n, nd_kind = un_kind req, nd_stable_key = un_stable_key req,
            nd_title = un_title req, nd_summary = un_summary req, nd_status = un_status req,
            nd_sensitivity = un_sensitivity req, nd_trust = un_trust req,
            nd_confidence = un_confidence req, nd_source = un_source req, nd_actor = un_actor req,
            nd_created = nd_created n, nd_updated = en_now en (db_tick s)\<rparr> \<and>
       (un_id req \<noteq> [] \<longrightarrow> nd_id n = un_id req) \<and>
       (\<forall>m. get_node s (nd_id n) = Inr m \<longrightarrow> nd_created n = nd_created m))"
  using upsert_node_reads_back [OF assms] by (auto simp: fun_eq_iff)

lemma upsert_node_refines_update_witness:
  "\<exists>n t. upsert_node sample_env sample_node_request sample_db = (Inr n, t) \<and>
     get_node t = (get_node sample_db)(nd_id n := Inr n)"
proof -
  obtain n t where "upsert_node sample_env sample_node_request sample_db = (Inr n, t)"
    using sample_upsert_runs by blast
  then show ?thesis
    using upsert_node_refines_update [OF sample_db_ok sample_clock_ok] by blast
qed

text \<open>
  Stable keys identify nodes. An upsert without an id whose trimmed stable key is already the key
  of a node of that kind writes that node and creates none.
\<close>

theorem stable_key_reuses_node:
  assumes "db_ok s" "upsert_node en req0 s = (Inr n, t)" "un_id req0 = []"
    and "trim_space (un_stable_key req0) \<noteq> []" "nid \<noteq> []"
    and "node_id_by_stable_key s (un_kind req0) (trim_space (un_stable_key req0)) = Some nid"
  shows "nd_id n = nid \<and> map nr_id (db_nodes t) = map nr_id (db_nodes s)"
  by (rule stable_key_upsert [OF assms])

lemma stable_key_reuses_node_witness:
  "\<exists>n t. upsert_node sample_env sample_node_request sample_db = (Inr n, t) \<and> nd_id n = ''b''"
proof -
  obtain n t where r: "upsert_node sample_env sample_node_request sample_db = (Inr n, t)"
    using sample_upsert_runs by blast
  have "un_id sample_node_request = []" "trim_space (un_stable_key sample_node_request) \<noteq> []" "''b'' \<noteq> []"
    "node_id_by_stable_key sample_db (un_kind sample_node_request) (trim_space (un_stable_key sample_node_request)) =
     Some ''b''"
    by code_simp+
  then show ?thesis
    using stable_key_reuses_node [OF sample_db_ok r] r by blast
qed

text \<open>
  A status change touches one node and only its status, actor and update time.
\<close>

theorem node_status_frame:
  assumes "clock_ok en" "set_node_status en nid st act s = (Inr n, t)"
  shows "nd_id n = nid \<and> nd_status n = st \<and> valid_lifecycle_status st \<and>
    (\<forall>x. x \<noteq> nid \<longrightarrow> get_node t x = get_node s x) \<and>
    (\<forall>m. get_node s nid = Inr m \<longrightarrow>
       n = m\<lparr>nd_status := st, nd_actor := norm_default act default_agent_actor,
             nd_updated := en_now en (db_tick s)\<rparr>)"
  by (rule set_node_status_frame [OF assms])

lemma node_status_frame_witness:
  "get_node deleted_db ''c'' = get_node sample_db ''c''"
proof -
  have "\<not> isl (get_node deleted_db ''b'')" by code_simp
  then obtain n where "get_node deleted_db ''b'' = Inr n" by (auto dest: not_isl_Inr)
  with sample_delete_node have "set_node_status sample_env ''b'' ''deleted'' ''me'' sample_db = (Inr n, deleted_db)"
    by simp
  from node_status_frame [OF sample_clock_ok this] show ?thesis by simp
qed

text \<open>
  A unit of work is all or nothing for the tables: when the work fails, every table is what it
  was (only clock readings were used up); when it succeeds, its result is what the work left; and
  a unit of work inside another is refused.
\<close>

theorem unit_of_work_all_or_nothing:
  "(\<forall>e t. with_unit_of_work b work s = (Inl e, t) \<longrightarrow> t = s\<lparr>db_tick := db_tick t\<rparr>) \<and>
   (\<forall>t. work s = (Inr (), t) \<longrightarrow> with_unit_of_work False work s = (Inr (), t)) \<and>
   with_unit_of_work True work s = (Inl NestedUnitOfWork, s)"
  using unit_of_work_atomic unit_of_work_commits by (auto simp: with_unit_of_work_def)

lemma unit_of_work_all_or_nothing_witness:
  "with_unit_of_work False (\<lambda>s. (Inl NoRows, s\<lparr>db_nodes := []\<rparr>)) sample_db = (Inl NoRows, sample_db)"
proof -
  let ?w = "(\<lambda>s. (Inl NoRows, s\<lparr>db_nodes := []\<rparr>)) :: unit db_run"
  obtain t where t: "with_unit_of_work False ?w sample_db = (Inl NoRows, t)" "db_tick t = db_tick sample_db"
    by (simp add: with_unit_of_work_def)
  then have "t = sample_db\<lparr>db_tick := db_tick t\<rparr>"
    using unit_of_work_all_or_nothing [of False ?w sample_db] by blast
  then show ?thesis using t by simp
qed

text \<open>
  A mutation statement is not a unit of work. An INSERT NODE whose assignments end in a
  property without a name (the field \<open>property.\<close>) reports PropertyFieldRequired, but the node
  it was about to describe stays in the store, with its audit event.
\<close>

theorem failed_insert_keeps_node:
  assumes "db_ok s" "st_mode st = StatementInsertNode"
    and "apply_node_assignments (st_set st) (insert_node_request st mx, []) = Inr (nreq, a # props)"
    and "as_field a = []" "upsert_node en nreq s = (Inr n, u)"
    and "append_audit en (audit_request ''query_insert_node'' mx (nd_id n) [] ''inserted graph node'' (st_set st)) u =
          (Inr ev, t)"
  shows "execute_statement (sql_ops en) st allowed mx s = (Inl PropertyFieldRequired, t) \<and>
    get_node t (nd_id n) = Inr n \<and> length (db_audit t) = Suc (length (db_audit s))"
  using insert_fails_late [OF assms] by blast

lemma failed_insert_keeps_node_witness:
  "parse ''INSERT NODE task SET property. = 3'' = Inr partial_statement \<and>
   (\<exists>n t. execute_statement (sql_ops sample_env) partial_statement [] sample_context sample_db =
       (Inl PropertyFieldRequired, t) \<and> get_node t (nd_id n) = Inr n \<and> length (db_audit t) = 1)"
proof -
  obtain n u ev t where r: "st_mode partial_statement = StatementInsertNode"
    "apply_node_assignments (st_set partial_statement) (insert_node_request partial_statement sample_context, []) =
       Inr (insert_node_request partial_statement sample_context, [partial_property])"
    "upsert_node sample_env (insert_node_request partial_statement sample_context) sample_db = (Inr n, u)"
    "append_audit sample_env
       (audit_request ''query_insert_node'' sample_context (nd_id n) [] ''inserted graph node'' (st_set partial_statement)) u =
       (Inr ev, t)"
    using partial_runs by blast
  have "as_field partial_property = []" "length (db_audit sample_db) = 0"
    "parse ''INSERT NODE task SET property. = 3'' = Inr partial_statement"
    by code_simp+
  then show ?thesis
    using failed_insert_keeps_node [OF sample_db_ok r(1,2) _ r(3,4), of "[]"] by auto
qed

section \<open>The query language\<close>

text \<open>
  What the parser accepts is well formed: node kinds, relations, traversal depths (from 1 to 12,
  ordered), the limit (from 1 to 100), the fields, and the fields of no other kind of statement.
\<close>

theorem parse_accepts_wf:
  assumes "parse q = Inr st"
  shows "wf_statement st"
  by (rule parse_wf [OF assms])

lemma parse_accepts_wf_witness:
  "wf_statement (projr (parse ''MATCH task -[blocks*2..4]-> task WHERE from.title = x RETURN from.id LIMIT 7''))"
proof -
  have "parse ''MATCH task -[blocks*2..4]-> task WHERE from.title = x RETURN from.id LIMIT 7'' =
    Inr (projr (parse ''MATCH task -[blocks*2..4]-> task WHERE from.title = x RETURN from.id LIMIT 7''))"
    by code_simp
  then show ?thesis by (rule parse_accepts_wf)
qed

text \<open>
  C11: The language can say every well-formed statement: its text parses back to it. With the
  previous property, the statements the parser accepts are exactly the well-formed ones.
\<close>

theorem parse_render_roundtrip:
  assumes "wf_statement st"
  shows "parse (render st) = Inr st"
  by (rule parse_render_wf [OF assms])

lemma parse_render_roundtrip_witness:
  "\<exists>st. parse ''DELETE EDGE e1'' = Inr st \<and> parse (render st) = Inr st"
proof -
  have "parse ''DELETE EDGE e1'' = Inr (projr (parse ''DELETE EDGE e1''))" by code_simp
  moreover from this have "wf_statement (projr (parse ''DELETE EDGE e1''))" by (rule parse_wf)
  ultimately show ?thesis using parse_render_roundtrip by blast
qed

text \<open>
  Lexing inverts printing, and produces only proper tokens: for tokens whose values the lexer
  could have read (identifiers, numbers, any strings, symbols), the printed text lexes to exactly
  these tokens and the end marker; and every text that lexes gives such tokens.
\<close>

theorem lex_unlex_roundtrip:
  "(\<forall>ts. (\<forall>t\<in>set ts. token_ok t) \<longrightarrow> lex (unlex ts) = Inr (ts @ [eof_token])) \<and>
   (\<forall>q ts. lex q = Inr ts \<longrightarrow> (\<exists>us. ts = us @ [eof_token] \<and> (\<forall>t\<in>set us. token_ok t)))"
  using lex_unlex lex_shape by blast

lemma lex_unlex_roundtrip_witness:
  "lex (unlex [Token TokenIdentifier ''a'', Token TokenString ''x y'']) =
   Inr [Token TokenIdentifier ''a'', Token TokenString ''x y'', eof_token]"
proof -
  have "identifier_ok ''a''" by code_simp
  then have "\<forall>t\<in>set [Token TokenIdentifier ''a'', Token TokenString ''x y'']. token_ok t"
    by (simp add: token_ok_def)
  then show ?thesis using lex_unlex_roundtrip by fastforce
qed

section \<open>Values\<close>

text \<open>
  The order of rows compares values consistently: it is antisymmetric, so a descending order is
  the ascending one reversed, and no value is less than itself.
\<close>

theorem row_order_consistent:
  "compare_row_values r l = - compare_row_values l r \<and>
   value_less SortDescending l r = value_less SortAscending r l \<and> \<not> value_less ord l l"
proof -
  have "compare_row_values r l = - compare_row_values l r" by (rule compare_row_antisym)
  then show ?thesis by (simp add: value_less_def)
qed

text \<open>
  A FIND without ORDER BY lists the most recently updated candidates first.
\<close>

theorem find_newest_first:
  "mset (sort_candidates cs [] ord) = mset cs \<and>
   sorted_wrt (\<lambda>a b. nd_updated (qc_node a) \<ge> nd_updated (qc_node b)) (sort_candidates cs [] ord)"
  using find_default_order by simp

text \<open>
  A not-a-number literal equals every number. The condition \<open>field = NaN\<close> holds of each
  numeric value, because neither value is less than the other; \<open>field != NaN\<close> holds of none.
\<close>

theorem nan_literal_equals_numbers:
  "condition_matches \<lparr>co_field = f, co_operator = OperatorEqual, co_value = ''NaN''\<rparr> (VFloat x) \<and>
   \<not> condition_matches \<lparr>co_field = f, co_operator = OperatorNotEqual, co_value = ''NaN''\<rparr> (VFloat x)"
proof -
  have "parse_condition_time ''NaN'' = None" "trim_space ''NaN'' = ''NaN''" "parse_float ''NaN'' = Some NaN"
    by code_simp+
  then have "compare_condition_values (VFloat x) ''NaN'' = 0"
    by (simp add: compare_condition_values_def time_condition_value_def numeric_value_def)
  then show ?thesis
    by (simp add: condition_matches_def ordered_operator_def)
qed

text \<open>
  The text of a time is not ordered like the time: half a second after a full second comes
  before it in the order that SQLite gives the stored text.
\<close>

theorem time_text_order_differs:
  "(1700000000000000000 :: gotime) < 1700000000500000000 \<and>
   str_less (time_string 1700000000500000000) (time_string 1700000000000000000)"
  by code_simp

text \<open>
  A stored time is read back exactly, to the nanosecond, for the years 0 to 9999.
\<close>

theorem stored_time_roundtrip:
  assumes "0 \<le> year_of t" "year_of t \<le> 9999"
  shows "parse_time (time_string t) = Inr t"
  by (simp add: parse_time_def time_string_def time_round_trip assms)

lemma stored_time_roundtrip_witness:
  "parse_time (time_string sample_stamp) = Inr sample_stamp"
  by (rule stored_time_roundtrip) (simp_all add: sample_year)

text \<open>
  Normalising a node request gives only valid values and changes nothing the second time: the
  kind, status, sensitivity and trust level are known ones, the actor is not blank, the confidence
  lies above 0 and at most 1 (or is not a number), and id, kind and source are the given ones.
\<close>

theorem normalized_node_valid:
  assumes "normalize_upsert_node r = Inr r'"
  shows "normalize_upsert_node r' = Inr r' \<and>
    valid_node_kind (un_kind r') \<and> valid_lifecycle_status (un_status r') \<and>
    valid_sensitivity (un_sensitivity r') \<and> valid_trust_level (un_trust r') \<and>
    un_actor r' \<noteq> [] \<and> un_id r' = un_id r \<and> un_kind r' = un_kind r \<and> un_source r' = un_source r \<and>
    (un_confidence r' = NaN \<or> (\<exists>q. un_confidence r' = Fin q \<and> 0 < q \<and> q \<le> 1))"
proof -
  have "un_confidence r' = default_confidence (un_confidence r)"
    using assms by (auto simp: normalize_upsert_node_def Let_def split: if_splits)
  then show ?thesis
    using normalize_upsert_node_idem [OF assms] normalize_upsert_node_valid [OF assms]
      default_confidence_range by metis
qed

lemma normalized_node_valid_witness:
  "un_actor (projr (normalize_upsert_node sample_node_request)) \<noteq> []"
proof -
  have "normalize_upsert_node sample_node_request = Inr (projr (normalize_upsert_node sample_node_request))"
    by code_simp
  from normalized_node_valid [OF this] show ?thesis by blast
qed

end
